(* ===== verification/Prelude.thy ===== *)
theory Prelude
  imports Main "HOL-Library.List_Lexorder" "HOL-Library.Char_ord" "HOL-Library.Product_Lexorder" "HOL-Library.Word"
begin

unbundle bit_operations_syntax

text \<open>
  What every component of the kernel-host model shares: the machine integers of the C++ code,
  results that may be an exception, and the list lemmas the component proofs rest on.
  A \<open>std::string\<close> is a \<open>string\<close> (its bytes as characters; \<open>Char_ord\<close> and \<open>List_Lexorder\<close>
  order it as \<open>std::string::operator<\<close> does, by unsigned bytes); a \<open>std::vector\<close> is a list;
  \<open>'e + 'a\<close> is a call that throws (\<open>Inl\<close>) or returns (\<open>Inr\<close>).
\<close>

section \<open>Machine integers\<close>

type_synonym u8 = "8 word"
type_synonym u32 = "32 word"
type_synonym u64 = "64 word"

text \<open>The bytes of a string, and a byte list read back as a string.\<close>

definition bytes_of :: "string \<Rightarrow> u8 list" where
  "bytes_of s = map of_char s"

definition string_of_bytes :: "u8 list \<Rightarrow> string" where
  "string_of_bytes bs = map (\<lambda>b. char_of (unat b)) bs"

named_theorems result_simps \<open>unfolding of calls that may throw\<close>

section \<open>Calls that may throw\<close>

definition rbind :: "'e + 'a \<Rightarrow> ('a \<Rightarrow> 'e + 'b) \<Rightarrow> 'e + 'b" where
  "rbind m f = (case m of Inl e \<Rightarrow> Inl e | Inr x \<Rightarrow> f x)"

lemma rbind_simps [simp, result_simps]:
  "rbind (Inl e) f = Inl e"
  "rbind (Inr x) f = f x"
  by (simp_all add: rbind_def)

lemma rbind_eq_Inr [result_simps]: "rbind m f = Inr y \<longleftrightarrow> (\<exists>x. m = Inr x \<and> f x = Inr y)"
  by (cases m) auto

lemma rbind_eq_Inl: "rbind m f = Inl e \<longleftrightarrow> m = Inl e \<or> (\<exists>x. m = Inr x \<and> f x = Inl e)"
  by (cases m) auto

lemma Inr_of_not_isl: "\<not> isl r \<Longrightarrow> \<exists>x. r = Inr x"
  by (cases r) auto

lemma rbind_assoc: "rbind (rbind m f) g = rbind m (\<lambda>x. rbind (f x) g)"
  by (cases m) auto

lemma rbind_cong [fundef_cong]:
  "m = m' \<Longrightarrow> (\<And>x. m' = Inr x \<Longrightarrow> f x = f' x) \<Longrightarrow> rbind m f = rbind m' f'"
  by (cases m') auto

text \<open>A loop over a vector whose body may throw; the first exception ends it.\<close>

fun rmap :: "('a \<Rightarrow> 'e + 'b) \<Rightarrow> 'a list \<Rightarrow> 'e + 'b list" where
  "rmap f [] = Inr []"
| "rmap f (x # xs) = rbind (f x) (\<lambda>y. rbind (rmap f xs) (\<lambda>ys. Inr (y # ys)))"

fun rfold :: "('s \<Rightarrow> 'a \<Rightarrow> 'e + 's) \<Rightarrow> 's \<Rightarrow> 'a list \<Rightarrow> 'e + 's" where
  "rfold f s [] = Inr s"
| "rfold f s (x # xs) = rbind (f s x) (\<lambda>s'. rfold f s' xs)"

lemma rmap_cong [fundef_cong]:
  "xs = ys \<Longrightarrow> (\<And>x. x \<in> set ys \<Longrightarrow> f x = g x) \<Longrightarrow> rmap f xs = rmap g ys"
  by (induction ys arbitrary: xs) auto

lemma rmap_eq_Inr_length: "rmap f xs = Inr ys \<Longrightarrow> length ys = length xs"
  by (induction xs arbitrary: ys) (auto simp: rbind_eq_Inr)

lemma rmap_eq_Inr_iff:
  "rmap f xs = Inr ys \<longleftrightarrow> list_all2 (\<lambda>x y. f x = Inr y) xs ys"
  by (induction xs arbitrary: ys) (auto simp: rbind_eq_Inr list_all2_Cons1)

lemma rmap_element: "rmap f xs = Inr ys \<Longrightarrow> y \<in> set ys \<Longrightarrow> \<exists>x \<in> set xs. f x = Inr y"
  by (induction xs arbitrary: ys) (auto simp: rbind_eq_Inr)

lemma rmap_defined: "rmap f xs = Inr ys \<Longrightarrow> x \<in> set xs \<Longrightarrow> \<exists>y. f x = Inr y"
  by (induction xs arbitrary: ys) (auto simp: rbind_eq_Inr)

lemma rfold_append: "rfold f s (xs @ ys) = rbind (rfold f s xs) (\<lambda>s'. rfold f s' ys)"
  by (induction xs arbitrary: s) (auto simp: rbind_assoc)

lemma rfold_snoc: "rfold f s (xs @ [x]) = rbind (rfold f s xs) (\<lambda>s'. f s' x)"
  by (cases "rfold f s xs") (auto simp: rfold_append rbind_def split: sum.splits)

text \<open>An invariant that every iteration keeps holds for the result.\<close>

lemma rfold_invariant:
  assumes "rfold f s xs = Inr t" and "P s"
    and "\<And>s x s'. P s \<Longrightarrow> x \<in> set xs \<Longrightarrow> f s x = Inr s' \<Longrightarrow> P s'"
  shows "P t"
  using assms
proof (induction xs arbitrary: s)
  case Nil
  then show ?case by simp
next
  case (Cons x xs)
  from Cons.prems(1) obtain s' where s': "f s x = Inr s'" and rest: "rfold f s' xs = Inr t"
    by (auto simp: rbind_eq_Inr)
  have "P s'" using Cons.prems(2,3) s' by auto
  moreover have "\<And>s y s'. P s \<Longrightarrow> y \<in> set xs \<Longrightarrow> f s y = Inr s' \<Longrightarrow> P s'"
    using Cons.prems(3) by auto
  ultimately show ?case using Cons.IH [OF rest] by blast
qed

text \<open>A reflexive and transitive relation that every iteration respects relates start and end.\<close>

lemma rfold_rel:
  assumes "rfold f s xs = Inr t" and "\<And>s x s'. x \<in> set xs \<Longrightarrow> f s x = Inr s' \<Longrightarrow> R s s'"
    and "\<And>s. R s s" and "\<And>s t u. R s t \<Longrightarrow> R t u \<Longrightarrow> R s u"
  shows "R s t"
  using assms(1,2)
proof (induction xs arbitrary: s)
  case (Cons x xs)
  then obtain s' where s': "f s x = Inr s'" "rfold f s' xs = Inr t" by (auto simp: rbind_eq_Inr)
  have "R s' t" by (rule Cons.IH [OF s'(2)]) (use Cons.prems(2) in auto)
  moreover have "R s s'" by (rule Cons.prems(2) [OF _ s'(1)]) simp
  ultimately show ?case using assms(4) by blast
qed (simp add: assms(3))

text \<open>A property one of the iterations establishes, and all of them keep, holds for the result.\<close>

lemma rfold_eventually:
  assumes "rfold f s xs = Inr t" and "I s" and "Q s \<or> (\<exists>x \<in> set xs. est x)"
    and inv: "\<And>s x s'. I s \<Longrightarrow> x \<in> set xs \<Longrightarrow> f s x = Inr s' \<Longrightarrow> I s'"
    and step: "\<And>s x s'. I s \<Longrightarrow> x \<in> set xs \<Longrightarrow> f s x = Inr s' \<Longrightarrow> Q s \<or> est x \<Longrightarrow> Q s'"
  shows "Q t"
proof -
  have "rfold f s ys = Inr t \<Longrightarrow> set ys \<subseteq> set xs \<Longrightarrow> I s \<Longrightarrow> Q s \<or> (\<exists>x \<in> set ys. est x) \<Longrightarrow> Q t" for ys s
  proof (induction ys arbitrary: s)
    case (Cons y ys)
    from Cons.prems(1) obtain s' where s': "f s y = Inr s'" "rfold f s' ys = Inr t" by (auto simp: rbind_eq_Inr)
    have y: "y \<in> set xs" using Cons.prems(2) by simp
    have "Q s' \<or> (\<exists>x \<in> set ys. est x)" using step [OF Cons.prems(3) y s'(1)] Cons.prems(4) by fastforce
    moreover have "I s'" by (rule inv [OF Cons.prems(3) y s'(1)])
    moreover have "set ys \<subseteq> set xs" using Cons.prems(2) by simp
    ultimately show ?case using Cons.IH [OF s'(2)] by simp
  qed simp
  then show ?thesis using assms(1-3) by blast
qed

section \<open>Hexadecimal digits\<close>

definition hex_digits :: string where
  "hex_digits = ''0123456789abcdef''"

definition hex_char :: "u8 \<Rightarrow> char" where
  "hex_char n = hex_digits ! unat (n AND 15)"

definition hex_byte :: "u8 \<Rightarrow> string" where
  "hex_byte b = [hex_char (drop_bit 4 b), hex_char b]"

lemma nibble_bound: "unat (n AND 15 :: u8) < 16"
proof -
  have "unat (n AND 15) \<le> unat (15 :: u8)"
    by (rule word_and_le1 [THEN word_le_nat_alt [THEN iffD1]])
  then show ?thesis by simp
qed

lemma hex_char_in_digits [intro]: "hex_char n \<in> set hex_digits"
proof -
  have "unat (n AND 15) < List.length hex_digits"
    using nibble_bound [of n] by (simp add: hex_digits_def)
  then show ?thesis unfolding hex_char_def by (rule nth_mem)
qed

lemma length_hex_byte [simp]: "length (hex_byte b) = 2"
  by (simp add: hex_byte_def)

lemma set_hex_byte: "set (hex_byte b) \<subseteq> set hex_digits"
  by (auto simp: hex_byte_def intro: hex_char_in_digits)

lemma length_concat_const: "(\<And>x. length (f x) = k) \<Longrightarrow> length (concat (map f xs)) = k * length xs"
  by (induction xs) auto

lemma nibble_unat: "unat (n AND 15 :: u8) = unat n mod 16"
proof -
  have "n AND 15 = take_bit 4 n" by (simp add: take_bit_eq_mask mask_eq_exp_minus_1)
  then show ?thesis by (simp only: unsigned_take_bit_eq) (simp add: take_bit_eq_mod)
qed

lemma hex_char_eq_iff: "hex_char m = hex_char n \<longleftrightarrow> unat m mod 16 = unat n mod 16"
proof -
  have "distinct hex_digits" and len: "length hex_digits = 16" by (simp_all add: hex_digits_def)
  then show ?thesis unfolding hex_char_def nibble_unat
    by (subst nth_eq_iff_index_eq) simp_all
qed

lemma hex_byte_inj [simp]: "hex_byte a = hex_byte b \<longleftrightarrow> a = b"
proof
  assume "hex_byte a = hex_byte b"
  then have lo: "unat a mod 16 = unat b mod 16"
    and "unat (drop_bit 4 a) mod 16 = unat (drop_bit 4 b) mod 16"
    by (simp_all add: hex_byte_def hex_char_eq_iff)
  moreover have "unat (drop_bit 4 x) mod 16 = unat x div 16" for x :: u8
  proof -
    have "unat x < 256" using unsigned_less [of x, where 'a = nat] by simp
    then show ?thesis by (simp only: unat_drop_bit_eq) (simp add: drop_bit_eq_div)
  qed
  ultimately have "unat a div 16 = unat b div 16" by simp
  with lo have "unat a = unat b" by (metis div_mult_mod_eq)
  then show "a = b" by (simp only: word_unat_eq_iff)
qed simp

section \<open>Strings and bytes\<close>

lemma unat_of_char: "unat (of_char c :: u8) = of_char c"
proof -
  have "(of_char c :: u8) = of_nat (of_char c)" by (simp only: of_nat_of_char)
  then have "unat (of_char c :: u8) = of_char c mod 256" 
    by (simp add: unsigned_of_nat take_bit_eq_mod del: of_nat_of_char)
  then show ?thesis by simp
qed

lemma of_char_u8_inj [simp]: "(of_char c :: u8) = of_char d \<longleftrightarrow> c = d"
  by (metis unat_of_char of_char_eq_iff)

lemma bytes_of_inj [simp]: "bytes_of s = bytes_of t \<longleftrightarrow> s = t"
  unfolding bytes_of_def by (rule inj_map_eq_map) (simp add: inj_def)

lemma length_bytes_of [simp]: "length (bytes_of s) = length s"
  by (simp add: bytes_of_def)

lemma string_of_bytes_of [simp]: "string_of_bytes (bytes_of s) = s"
  by (simp add: string_of_bytes_def bytes_of_def comp_def unat_of_char)

lemma bytes_of_string_of_bytes [simp]: "bytes_of (string_of_bytes bs) = bs"
proof -
  have "of_char (char_of (unat b)) = b" for b :: u8
  proof -
    have "unat b < 256" using unsigned_less [of b, where 'a = nat] by simp
    then have "unat (of_char (char_of (unat b)) :: u8) = unat b" by (simp add: unat_of_char)
    then show ?thesis by (simp only: word_unat_eq_iff)
  qed
  then show ?thesis by (simp add: string_of_bytes_def bytes_of_def comp_def)
qed

section \<open>Maps\<close>

lemma map_le_Some: "m \<subseteq>\<^sub>m m' \<Longrightarrow> m z = Some v \<Longrightarrow> m' z = Some v"
  by (metis domI map_le_def)

lemma map_le_bound: "m \<subseteq>\<^sub>m m' \<Longrightarrow> m z \<noteq> None \<Longrightarrow> m' z \<noteq> None"
  by (metis domIff map_le_def)

lemma map_le_upd: "m z = None \<or> m z = Some v \<Longrightarrow> m \<subseteq>\<^sub>m m(z \<mapsto> v)"
  by (auto simp: map_le_def)

text \<open>
  A \<open>std::map\<close> whose values are vectors, as the association list in key order; \<open>multi_push\<close> is
  \<open>map[key].push_back(value)\<close>.
\<close>

fun multi_push :: "'k :: linorder \<Rightarrow> 'v \<Rightarrow> ('k \<times> 'v list) list \<Rightarrow> ('k \<times> 'v list) list" where
  "multi_push k v [] = [(k, [v])]"
| "multi_push k v ((k', vs) # m) =
     (if k < k' then (k, [v]) # (k', vs) # m
      else if k = k' then (k', vs @ [v]) # m
      else (k', vs) # multi_push k v m)"

text \<open>\<open>std::sort\<close>, \<open>std::unique\<close> and \<open>erase\<close>.\<close>

definition sort_unique :: "('a :: linorder) list \<Rightarrow> 'a list" where
  "sort_unique xs = remdups_adj (sort xs)"

end
