(* ===== verification/Sha256.thy ===== *)
theory Sha256
  imports Prelude
begin

unbundle bit_operations_syntax

text \<open>
  The hash of \<open>sha256.hpp\<close>: the class \<open>Sha256\<close> as a record (its chaining state, the 64-byte
  buffer with its fill and the 64-bit byte counter), \<open>Update\<close>, \<open>Digest\<close> and \<open>Compress\<close> as
  functions on it, and \<open>Sha256Bytes\<close> and \<open>Sha256Hex8\<close>. The lemmas relate the buffered
  implementation to the one-shot specification of FIPS 180-4 (pad, split into 64-byte blocks,
  fold the compression function), and give the lengths and alphabet of its results.
\<close>

section \<open>The class\<close>

definition kSha256RoundConstants :: "u32 list" where
  "kSha256RoundConstants =
     [0x428a2f98, 0x71374491, 0xb5c0fbcf, 0xe9b5dba5, 0x3956c25b, 0x59f111f1, 0x923f82a4] @
     [0xab1c5ed5, 0xd807aa98, 0x12835b01, 0x243185be, 0x550c7dc3, 0x72be5d74, 0x80deb1fe] @
     [0x9bdc06a7, 0xc19bf174, 0xe49b69c1, 0xefbe4786, 0x0fc19dc6, 0x240ca1cc, 0x2de92c6f] @
     [0x4a7484aa, 0x5cb0a9dc, 0x76f988da, 0x983e5152, 0xa831c66d, 0xb00327c8, 0xbf597fc7] @
     [0xc6e00bf3, 0xd5a79147, 0x06ca6351, 0x14292967, 0x27b70a85, 0x2e1b2138, 0x4d2c6dfc] @
     [0x53380d13, 0x650a7354, 0x766a0abb, 0x81c2c92e, 0x92722c85, 0xa2bfe8a1, 0xa81a664b] @
     [0xc24b8b70, 0xc76c51a3, 0xd192e819, 0xd6990624, 0xf40e3585, 0x106aa070, 0x19a4c116] @
     [0x1e376c08, 0x2748774c, 0x34b0bcb5, 0x391c0cb3, 0x4ed8aa4a, 0x5b9cca4f, 0x682e6ff3] @
     [0x748f82ee, 0x78a5636f, 0x84c87814, 0x8cc70208, 0x90befffa, 0xa4506ceb, 0xbef9a3f7] @
     [0xc67178f2]"

record sha256 =
  sha_state :: "u32 list"
  sha_buffer :: "u8 list"
  bufferFill :: nat
  totalBytes :: u64

definition sha256_initial_state :: "u32 list" where
  "sha256_initial_state =
     [0x6a09e667, 0xbb67ae85, 0x3c6ef372, 0xa54ff53a] @
     [0x510e527f, 0x9b05688c, 0x1f83d9ab, 0x5be0cd19]"

definition sha256_new :: sha256 where
  "sha256_new = \<lparr>sha_state = sha256_initial_state, sha_buffer = replicate 64 0,
     bufferFill = 0, totalBytes = 0\<rparr>"

definition rotr32 :: "nat \<Rightarrow> u32 \<Rightarrow> u32" where
  "rotr32 n x = drop_bit n x OR push_bit (32 - n) x"

definition be_word :: "u8 \<Rightarrow> u8 \<Rightarrow> u8 \<Rightarrow> u8 \<Rightarrow> u32" where
  "be_word b0 b1 b2 b3 = push_bit 24 (ucast b0) OR push_bit 16 (ucast b1) OR
     push_bit 8 (ucast b2) OR ucast b3"

text \<open>The first loop of \<open>Compress\<close>: sixteen big-endian words of the buffer.\<close>

fun load_words :: "u8 list \<Rightarrow> u32 list" where
  "load_words (b0 # b1 # b2 # b3 # bs) = be_word b0 b1 b2 b3 # load_words bs"
| "load_words _ = []"

text \<open>The second loop: each further word from four earlier ones.\<close>

definition next_schedule_word :: "u32 list \<Rightarrow> u32" where
  "next_schedule_word w =
     (let i = length w; w15 = w ! (i - 15); w2 = w ! (i - 2);
          sigma0 = rotr32 7 w15 XOR rotr32 18 w15 XOR drop_bit 3 w15;
          sigma1 = rotr32 17 w2 XOR rotr32 19 w2 XOR drop_bit 10 w2
      in w ! (i - 16) + sigma0 + w ! (i - 7) + sigma1)"

fun extend_schedule :: "nat \<Rightarrow> u32 list \<Rightarrow> u32 list" where
  "extend_schedule 0 w = w"
| "extend_schedule (Suc n) w = extend_schedule n (w @ [next_schedule_word w])"

text \<open>One of the 64 rounds, on the eight working variables.\<close>

type_synonym working = "u32 \<times> u32 \<times> u32 \<times> u32 \<times> u32 \<times> u32 \<times> u32 \<times> u32"

fun sha_round :: "working \<Rightarrow> u32 \<times> u32 \<Rightarrow> working" where
  "sha_round (a, b, c, d, e, f, g, h) (k, w) =
     (let bigSigma1 = rotr32 6 e XOR rotr32 11 e XOR rotr32 25 e;
          ch = (e AND f) XOR ((NOT e) AND g);
          temp1 = h + bigSigma1 + ch + k + w;
          bigSigma0 = rotr32 2 a XOR rotr32 13 a XOR rotr32 22 a;
          majority = (a AND b) XOR (a AND c) XOR (b AND c);
          temp2 = bigSigma0 + majority
      in (temp1 + temp2, a, b, c, d + temp1, e, f, g))"

definition add_working :: "u32 list \<Rightarrow> working \<Rightarrow> u32 list" where
  "add_working s v = (case v of (a, b, c, d, e, f, g, h) \<Rightarrow>
     map2 (+) s [a, b, c, d, e, f, g, h])"

definition compress_block :: "u32 list \<Rightarrow> u8 list \<Rightarrow> u32 list" where
  "compress_block s buf =
     (let schedule = extend_schedule 48 (load_words buf);
          v0 = (s ! 0, s ! 1, s ! 2, s ! 3, s ! 4, s ! 5, s ! 6, s ! 7)
      in add_working s (foldl sha_round v0 (zip kSha256RoundConstants schedule)))"

definition Compress :: "sha256 \<Rightarrow> sha256" where
  "Compress s = s\<lparr>sha_state := compress_block (sha_state s) (sha_buffer s)\<rparr>"

text \<open>
  One iteration of the loop of \<open>Update\<close> on the bytes that are left: copy as many as fit, and
  compress when the buffer is full.
\<close>

definition copy_into :: "u8 list \<Rightarrow> nat \<Rightarrow> u8 list \<Rightarrow> u8 list" where
  "copy_into buf at data = List.take at buf @ data @ List.drop (at + length data) buf"

definition update_step :: "sha256 \<Rightarrow> u8 list \<Rightarrow> sha256" where
  "update_step s chunk =
     (let s1 = s\<lparr>sha_buffer := copy_into (sha_buffer s) (bufferFill s) chunk,
                 bufferFill := bufferFill s + length chunk\<rparr>
      in if bufferFill s1 = 64 then (Compress s1)\<lparr>bufferFill := 0\<rparr> else s1)"

text \<open>
  The loop. A fill of 64 or more, where the C++ loop would make no progress, is excluded by
  the invariant \<open>sha256_wf\<close> below; the guard only makes the function total.
\<close>

function update_loop :: "sha256 \<Rightarrow> u8 list \<Rightarrow> sha256" where
  "update_loop s data =
     (if data = [] \<or> 64 \<le> bufferFill s then s
      else let n = min (64 - bufferFill s) (length data)
           in update_loop (update_step s (List.take n data)) (List.drop n data))"
  by pat_completeness auto
termination
  by (relation "measure (\<lambda>(s, data). length data)") auto

declare update_loop.simps [simp del]

definition Update :: "sha256 \<Rightarrow> u8 list \<Rightarrow> sha256" where
  "Update s data = update_loop (s\<lparr>totalBytes := totalBytes s + of_nat (length data)\<rparr>) data"

lemma update_loop_Nil [simp]: "update_loop s [] = s"
  by (simp add: update_loop.simps)

lemma bufferFill_update_step:
  "bufferFill (update_step s chunk) =
     (if bufferFill s + length chunk = 64 then 0 else bufferFill s + length chunk)"
  by (simp add: update_step_def Compress_def Let_def)

lemma bufferFill_Update_one:
  assumes "bufferFill s < 64"
  shows "bufferFill (Update s [b]) = (if bufferFill s = 63 then 0 else Suc (bufferFill s))"
proof -
  have n: "min (64 - bufferFill s) (Suc 0) = Suc 0" using assms by simp
  show ?thesis using assms
    by (simp add: Update_def update_loop.simps [of _ "[b]"] n bufferFill_update_step)
qed

text \<open>
  The padding loop of \<open>Digest\<close>: single zero bytes until the fill is 56. It ends because the
  fill goes up by one modulo 64.
\<close>

function pad_zeros :: "sha256 \<Rightarrow> sha256" where
  "pad_zeros s =
     (if bufferFill s = 56 \<or> 64 \<le> bufferFill s then s else pad_zeros (Update s [0]))"
  by pat_completeness auto
termination
  by (relation "measure (\<lambda>s. if bufferFill s \<le> 56 then 56 - bufferFill s
                              else 120 - bufferFill s)")
     (auto simp: bufferFill_Update_one)

declare pad_zeros.simps [simp del]

definition length_bytes :: "u64 \<Rightarrow> u8 list" where
  "length_bytes n = map (\<lambda>byteIndex. ucast (drop_bit (56 - 8 * byteIndex) n AND 0xFF)) [0..<8]"

definition word_bytes :: "u32 \<Rightarrow> u8 list" where
  "word_bytes w = [ucast (drop_bit 24 w AND 0xFF), ucast (drop_bit 16 w AND 0xFF),
     ucast (drop_bit 8 w AND 0xFF), ucast (w AND 0xFF)]"

definition Digest :: "sha256 \<Rightarrow> u8 list" where
  "Digest s =
     (let bitLength = totalBytes s * 8;
          s1 = Update s [0x80];
          s2 = pad_zeros s1;
          s3 = Update s2 (length_bytes bitLength)
      in concat (map word_bytes (sha_state s3)))"

definition HexDigest :: "sha256 \<Rightarrow> string" where
  "HexDigest s = concat (map hex_byte (Digest s))"

definition Sha256Bytes :: "u8 list \<Rightarrow> u8 list" where
  "Sha256Bytes data = Digest (Update sha256_new data)"

definition Sha256Hex8 :: "string \<Rightarrow> string" where
  "Sha256Hex8 s = List.take 8 (HexDigest (Update sha256_new (bytes_of s)))"

section \<open>The one-shot specification\<close>

function full_blocks :: "u8 list \<Rightarrow> u8 list list" where
  "full_blocks msg =
     (if length msg < 64 then [] else List.take 64 msg # full_blocks (List.drop 64 msg))"
  by pat_completeness auto
termination
  by (relation "measure length") auto

declare full_blocks.simps [simp del]

definition sha256_pad :: "u8 list \<Rightarrow> u8 list" where
  "sha256_pad msg = msg @ [0x80] @ replicate ((119 - length msg mod 64) mod 64) 0 @
     length_bytes (of_nat (8 * length msg))"

definition sha256_spec :: "u8 list \<Rightarrow> u8 list" where
  "sha256_spec msg =
     concat (map word_bytes (foldl compress_block sha256_initial_state (full_blocks (sha256_pad msg))))"

lemma full_blocks_concat:
  "\<lbrakk>\<forall>b \<in> set bs. length b = 64; length r < 64\<rbrakk> \<Longrightarrow> full_blocks (concat bs @ r) = bs"
  by (induction bs) (simp_all add: full_blocks.simps [of "_ @ _"] full_blocks.simps [of r])

section \<open>The buffered state represents the message it has read\<close>

definition sha_repr :: "sha256 \<Rightarrow> u8 list \<Rightarrow> bool" where
  "sha_repr s msg \<longleftrightarrow>
     length (sha_buffer s) = 64 \<and> bufferFill s < 64 \<and>
     (\<exists>bs. (\<forall>b \<in> set bs. length b = 64) \<and> sha_state s = foldl compress_block sha256_initial_state bs \<and>
           msg = concat bs @ List.take (bufferFill s) (sha_buffer s)) \<and>
     totalBytes s = of_nat (length msg)"

text \<open>The same without the byte counter, which \<open>Update\<close> advances before its loop.\<close>

definition sha_buffers :: "sha256 \<Rightarrow> u8 list \<Rightarrow> bool" where
  "sha_buffers s msg \<longleftrightarrow>
     length (sha_buffer s) = 64 \<and> bufferFill s < 64 \<and>
     (\<exists>bs. (\<forall>b \<in> set bs. length b = 64) \<and> sha_state s = foldl compress_block sha256_initial_state bs \<and>
           msg = concat bs @ List.take (bufferFill s) (sha_buffer s))"

lemma sha_repr_buffers: "sha_repr s msg \<longleftrightarrow> sha_buffers s msg \<and> totalBytes s = of_nat (length msg)"
  by (auto simp: sha_repr_def sha_buffers_def)

lemma sha_repr_new: "sha_repr sha256_new []"
  by (auto simp: sha_repr_def sha256_new_def intro!: exI [of _ "[]"])

lemma sha_buffers_update_step:
  assumes rep: "sha_buffers s msg" and fit: "length chunk \<le> 64 - bufferFill s"
  shows "sha_buffers (update_step s chunk) (msg @ chunk)"
proof -
  from rep obtain bs where len: "length (sha_buffer s) = 64" and fill: "bufferFill s < 64"
    and bs: "\<forall>b \<in> set bs. length b = 64"
    and st: "sha_state s = foldl compress_block sha256_initial_state bs"
    and msg: "msg = concat bs @ List.take (bufferFill s) (sha_buffer s)"
    by (auto simp: sha_buffers_def)
  show ?thesis
  proof (cases "bufferFill s + length chunk = 64")
    case True
    let ?b = "List.take (bufferFill s) (sha_buffer s) @ chunk"
    have "length ?b = 64" using True len fill by simp
    moreover have "copy_into (sha_buffer s) (bufferFill s) chunk = ?b"
      using True len by (simp add: copy_into_def)
    ultimately show ?thesis using True len bs st msg
      by (auto simp: sha_buffers_def update_step_def Compress_def Let_def
          intro!: exI [of _ "bs @ [?b]"])
  next
    case False
    then show ?thesis using len fill bs st msg fit
      by (auto simp: sha_buffers_def update_step_def Let_def copy_into_def intro!: exI [of _ bs])
  qed
qed

lemma sha_buffers_update_loop:
  "sha_buffers s msg \<Longrightarrow> sha_buffers (update_loop s data) (msg @ data)"
proof (induction s data arbitrary: msg rule: update_loop.induct)
  case (1 s data)
  show ?case
  proof (cases "data = []")
    case True
    then show ?thesis using "1.prems" by simp
  next
    case False
    define n where "n = min (64 - bufferFill s) (length data)"
    have fill: "\<not> 64 \<le> bufferFill s" using "1.prems" by (auto simp: sha_buffers_def)
    have "sha_buffers (update_step s (List.take n data)) (msg @ List.take n data)"
      by (rule sha_buffers_update_step [OF "1.prems"]) (simp add: n_def)
    from "1.IH" [OF _ n_def this] False fill
    have "sha_buffers (update_loop (update_step s (List.take n data)) (List.drop n data))
            ((msg @ List.take n data) @ List.drop n data)" by auto
    then show ?thesis
      using False fill by (simp add: update_loop.simps [of s data] n_def [symmetric] Let_def)
  qed
qed

lemma totalBytes_update_step [simp]: "totalBytes (update_step s c) = totalBytes s"
  by (simp add: update_step_def Compress_def Let_def)

lemma totalBytes_update_loop [simp]: "totalBytes (update_loop s data) = totalBytes s"
  by (induction s data rule: update_loop.induct) (subst update_loop.simps, simp add: Let_def)

lemma sha_buffers_counter [simp]: "sha_buffers (s\<lparr>totalBytes := n\<rparr>) msg = sha_buffers s msg"
  by (simp add: sha_buffers_def)

lemma sha_repr_Update: "sha_repr s msg \<Longrightarrow> sha_repr (Update s data) (msg @ data)"
  unfolding Update_def sha_repr_buffers by (simp add: sha_buffers_update_loop)

lemma sha_repr_fill: "sha_repr s msg \<Longrightarrow> bufferFill s = length msg mod 64"
proof -
  assume "sha_repr s msg"
  then obtain bs where "length (sha_buffer s) = 64" "bufferFill s < 64"
    "\<forall>b \<in> set bs. length b = 64" "msg = concat bs @ List.take (bufferFill s) (sha_buffer s)"
    by (auto simp: sha_repr_def)
  moreover have "\<forall>b \<in> set bs. length b = 64 \<Longrightarrow> length (concat bs) = 64 * length bs"
    by (induction bs) auto
  ultimately show ?thesis by simp
qed

lemma sha_repr_state:
  assumes "sha_repr s msg"
  shows "sha_state s = foldl compress_block sha256_initial_state (full_blocks msg)"
  using assms by (auto simp: sha_repr_def full_blocks_concat)

lemma pad_count: "r < 64 \<Longrightarrow> (120 - r) mod 64 = (if r \<le> 56 then 56 - r else 120 - r :: nat)"
proof (cases "r \<le> 56")
  case True
  then have "120 - r = (56 - r) + 64" by simp
  then have "(120 - r) mod 64 = (56 - r) mod 64" by (simp only: mod_add_self2)
  with True show ?thesis by simp
qed simp

lemma pad_count_step:
  assumes "(n :: nat) mod 64 \<noteq> 56"
  shows "(120 - n mod 64) mod 64 = Suc ((120 - Suc n mod 64) mod 64)"
proof -
  define r where "r = n mod 64"
  have r: "r < 64" "r \<noteq> 56" using assms by (simp_all add: r_def)
  have suc: "Suc n mod 64 = (if r = 63 then 0 else Suc r)" by (simp add: r_def mod_Suc)
  show ?thesis
  proof (cases "r = 63")
    case True
    then show ?thesis unfolding r_def [symmetric] suc by simp
  next
    case False
    then have "Suc r < 64" using r by simp
    from pad_count [OF this] pad_count [OF r(1)] r False show ?thesis
      unfolding r_def [symmetric] suc by (simp only: if_False) (auto simp: Suc_diff_Suc split: if_splits)
  qed
qed

lemma sha_repr_pad_zeros:
  "sha_repr s msg \<Longrightarrow>
   sha_repr (pad_zeros s) (msg @ replicate ((120 - length msg mod 64) mod 64) 0)"
proof (induction s arbitrary: msg rule: pad_zeros.induct)
  case (1 s)
  have fill: "bufferFill s = length msg mod 64" by (rule sha_repr_fill [OF "1.prems"])
  have lt: "\<not> 64 \<le> bufferFill s" using "1.prems" by (simp add: sha_repr_def)
  show ?case
  proof (cases "bufferFill s = 56")
    case True
    then have "pad_zeros s = s" by (subst pad_zeros.simps) simp
    moreover have "(120 - length msg mod 64) mod 64 = 0"
      using True unfolding fill by (simp only:) simp
    ultimately show ?thesis using "1.prems" by (simp only: replicate_0 append_Nil2)
  next
    case False
    let ?k = "\<lambda>m::u8 list. (120 - length m mod 64) mod 64"
    have "sha_repr (Update s [0]) (msg @ [0])" by (rule sha_repr_Update [OF "1.prems"])
    from "1.IH" [OF _ this] False lt
    have "sha_repr (pad_zeros (Update s [0])) ((msg @ [0]) @ replicate (?k (msg @ [0])) 0)" by auto
    moreover have "?k msg = Suc (?k (msg @ [0]))"
      unfolding length_append_singleton by (rule pad_count_step) (use False fill in simp)
    then have "msg @ replicate (?k msg) 0 = (msg @ [0]) @ replicate (?k (msg @ [0])) 0"
      by (simp only: replicate_Suc append_assoc append_Cons append_Nil)
    moreover have "pad_zeros s = pad_zeros (Update s [0])"
      using False lt by (subst pad_zeros.simps) simp
    ultimately show ?thesis by (simp only:)
  qed
qed

lemma length_length_bytes [simp]: "length (length_bytes n) = 8"
  by (simp add: length_bytes_def)

lemma length_word_bytes [simp]: "length (word_bytes w) = 4"
  by (simp add: word_bytes_def)

lemma Digest_repr: "sha_repr s msg \<Longrightarrow> Digest s = sha256_spec msg"
proof -
  assume s: "sha_repr s msg"
  let ?s1 = "Update s [0x80]"
  let ?n = "(120 - length (msg @ [0x80]) mod 64) mod 64"
  have n: "?n = (119 - length msg mod 64) mod 64" by (simp add: mod_Suc)
  have "sha_repr (pad_zeros ?s1) ((msg @ [0x80]) @ replicate ?n 0)"
    by (rule sha_repr_pad_zeros [OF sha_repr_Update [OF s]])
  from sha_repr_Update [OF this, of "length_bytes (of_nat (8 * length msg))"]
  have "sha_repr (Update (pad_zeros ?s1) (length_bytes (of_nat (8 * length msg)))) (sha256_pad msg)"
    unfolding n by (simp add: sha256_pad_def)
  from sha_repr_state [OF this] show ?thesis using s
    by (simp add: Digest_def sha256_spec_def sha_repr_def mult.commute)
qed

lemma length_compress_block: "length s = 8 \<Longrightarrow> length (compress_block s b) = 8"
  by (simp add: compress_block_def add_working_def Let_def split: prod.splits)

lemma length_foldl_compress: "length s = 8 \<Longrightarrow> length (foldl compress_block s bs) = 8"
  by (induction bs arbitrary: s) (auto simp: length_compress_block)

lemma length_sha256_spec: "length (sha256_spec msg) = 32"
  by (simp add: sha256_spec_def length_concat_const [where k = 4] length_foldl_compress
      sha256_initial_state_def)

lemma length_HexDigest: "sha_repr s msg \<Longrightarrow> length (HexDigest s) = 64"
  by (simp add: HexDigest_def length_concat_const [where k = 2] Digest_repr length_sha256_spec)

lemma set_HexDigest: "set (HexDigest s) \<subseteq> set hex_digits"
  using set_hex_byte by (auto simp: HexDigest_def)

section \<open>Properties\<close>

lemma sha_repr_foldl_Update:
  "sha_repr s msg \<Longrightarrow> sha_repr (foldl Update s chunks) (msg @ concat chunks)"
proof (induction chunks arbitrary: s msg)
  case (Cons c cs)
  from Cons.IH [OF sha_repr_Update [OF Cons.prems, of c]] show ?case by simp
qed simp

lemma Sha256Bytes_eq_spec: "Sha256Bytes data = sha256_spec data"
  using sha_repr_Update [OF sha_repr_new, of data] by (simp add: Sha256Bytes_def Digest_repr)

lemma length_Sha256Bytes [simp]: "length (Sha256Bytes data) = 32"
  by (simp add: Sha256Bytes_eq_spec length_sha256_spec)

text \<open>C23. The streaming hasher implements FIPS 180-4: whatever the chunks in which a message
  is fed to \<open>Update\<close>, \<open>Digest\<close> returns the one-shot specification (pad to 64-byte blocks, fold
  the compression function, write the words big-endian) of the concatenated message.\<close>

theorem Digest_chunks_refines_spec:
  "Digest (foldl Update sha256_new chunks) = sha256_spec (concat chunks)"
  using sha_repr_foldl_Update [OF sha_repr_new, of chunks] by (simp add: Digest_repr)

text \<open>The short hash of the element-name grammar is exactly eight lowercase hexadecimal
  digits, for every input.\<close>

theorem Sha256Hex8_shape:
  "length (Sha256Hex8 s) = 8 \<and> set (Sha256Hex8 s) \<subseteq> set ''0123456789abcdef''"
proof -
  have "sha_repr (Update sha256_new (bytes_of s)) (bytes_of s)"
    using sha_repr_Update [OF sha_repr_new] by simp
  from length_HexDigest [OF this] have "length (Sha256Hex8 s) = 8" by (simp add: Sha256Hex8_def)
  moreover have "set (Sha256Hex8 s) \<subseteq> set hex_digits"
    unfolding Sha256Hex8_def using set_take_subset set_HexDigest by (rule subset_trans)
  ultimately show ?thesis by (simp add: hex_digits_def)
qed

end
