(* ===== verification/Sha256_Vectors.thy ===== *)
theory Sha256_Vectors
  imports Sha256
begin

text \<open>
  A published test vector of SHA-256, evaluated in the kernel on the model of \<open>sha256.hpp\<close>:
  it pins the round constants, the initial state and the byte orders of the model. The theory
  is separate because the evaluation takes longer than the rest of the hash's proofs.
\<close>

lemma Sha256Hex8_abc: "Sha256Hex8 ''abc'' = ''ba7816bf''"
  by code_simp

end
