(* ===== verification/Double.thy ===== *)
theory Double
  imports Prelude
begin

unbundle bit_operations_syntax

text \<open>
  What the code uses of \<open>double\<close>: an IEEE 754 binary64 value is its 64-bit pattern. The theory
  gives \<open>std::isfinite\<close>, the comparisons, negation and the conversions from and to integers on
  the pattern, and \<open>std::to_chars(..., std::chars_format::scientific)\<close>, the shortest decimal
  that reads back as the same double (the closest one to it among those of that length).
\<close>

type_synonym f64 = u64

section \<open>Fields and comparisons\<close>

definition f64_exp :: "f64 \<Rightarrow> nat" where
  "f64_exp b = unat (drop_bit 52 b AND 0x7FF)"

definition f64_frac :: "f64 \<Rightarrow> nat" where
  "f64_frac b = unat (take_bit 52 b)"

definition f64_sign :: "f64 \<Rightarrow> bool" where
  "f64_sign b = bit b 63"

definition f64_finite :: "f64 \<Rightarrow> bool" where
  "f64_finite b \<longleftrightarrow> f64_exp b \<noteq> 2047"

definition f64_nan :: "f64 \<Rightarrow> bool" where
  "f64_nan b \<longleftrightarrow> f64_exp b = 2047 \<and> f64_frac b \<noteq> 0"

text \<open>The order of the reals on non-NaN patterns; both zeros have rank 0.\<close>

definition f64_rank :: "f64 \<Rightarrow> int" where
  "f64_rank b = (if f64_sign b then - int (unat (take_bit 63 b)) else int (unat (take_bit 63 b)))"

definition f64_eq :: "f64 \<Rightarrow> f64 \<Rightarrow> bool" where
  "f64_eq a b \<longleftrightarrow> \<not> f64_nan a \<and> \<not> f64_nan b \<and> f64_rank a = f64_rank b"

definition f64_less :: "f64 \<Rightarrow> f64 \<Rightarrow> bool" where
  "f64_less a b \<longleftrightarrow> \<not> f64_nan a \<and> \<not> f64_nan b \<and> f64_rank a < f64_rank b"

definition f64_zero :: "f64 \<Rightarrow> bool" where
  "f64_zero b \<longleftrightarrow> f64_eq b 0"

definition f64_neg :: "f64 \<Rightarrow> f64" where
  "f64_neg b = b XOR push_bit 63 1"

definition f64_abs :: "f64 \<Rightarrow> f64" where
  "f64_abs d = take_bit 63 d"

lemma f64_less_irrefl [simp]: "\<not> f64_less a a"
  by (simp add: f64_less_def)

lemma f64_less_trans: "f64_less a b \<Longrightarrow> f64_less b c \<Longrightarrow> f64_less a c"
  by (simp add: f64_less_def)

lemma f64_eq_sym: "f64_eq a b \<longleftrightarrow> f64_eq b a"
  by (auto simp: f64_eq_def)

section \<open>Conversions\<close>

text \<open>The value of a finite pattern is \<open>f64_mant b * 2 ^ f64_scale b\<close>, up to its sign.\<close>

definition f64_mant :: "f64 \<Rightarrow> nat" where
  "f64_mant b = (if f64_exp b = 0 then f64_frac b else f64_frac b + 2 ^ 52)"

definition f64_scale :: "f64 \<Rightarrow> int" where
  "f64_scale b = (if f64_exp b = 0 then -1074 else int (f64_exp b) - 1075)"

text \<open>\<open>static_cast\<close> of a double to an integer truncates toward zero.\<close>

definition f64_trunc :: "f64 \<Rightarrow> int" where
  "f64_trunc b =
     (let m = (if 0 \<le> f64_scale b then f64_mant b * 2 ^ nat (f64_scale b)
               else f64_mant b div 2 ^ nat (- f64_scale b))
      in if f64_sign b then - int m else int m)"

fun bit_length :: "nat \<Rightarrow> nat" where
  "bit_length n = (if n = 0 then 0 else Suc (bit_length (n div 2)))"

declare bit_length.simps [simp del]

text \<open>\<open>static_cast<double>\<close> of an integer rounds to the nearest double, ties to even.\<close>

definition f64_of_nat :: "nat \<Rightarrow> f64" where
  "f64_of_nat n =
     (let l = bit_length n in
      if n = 0 then 0
      else if l \<le> 53 then of_nat ((1022 + l) * 2 ^ 52 + (n * 2 ^ (53 - l) - 2 ^ 52))
      else let s = l - 53; q = n div 2 ^ s; r = n mod 2 ^ s; half = 2 ^ (s - 1);
               q' = (if half < r \<or> r = half \<and> odd q then q + 1 else q)
           in of_nat ((1022 + l) * 2 ^ 52 + (q' - 2 ^ 52)))"

definition f64_of_int :: "int \<Rightarrow> f64" where
  "f64_of_int n = (if n < 0 then f64_neg (f64_of_nat (nat (- n))) else f64_of_nat (nat n))"

section \<open>Decimal digits\<close>

definition digit_char :: "nat \<Rightarrow> char" where
  "digit_char d = (''0123456789'' ! (d mod 10))"

fun decimal :: "nat \<Rightarrow> string" where
  "decimal n = (if n < 10 then [digit_char n] else decimal (n div 10) @ [digit_char n])"

declare decimal.simps [simp del]

text \<open>\<open>std::to_string\<close> of an integer.\<close>

definition to_string_int :: "int \<Rightarrow> string" where
  "to_string_int i = (if i < 0 then CHR ''-'' # decimal (nat (- i)) else decimal (nat i))"

definition decimal_digits :: "char set" where
  "decimal_digits = set ''0123456789''"

lemma digit_char_digits [simp, intro]: "digit_char d \<in> decimal_digits"
  unfolding digit_char_def decimal_digits_def by (rule nth_mem) simp

lemma set_decimal: "set (decimal n) \<subseteq> decimal_digits"
proof (induction n rule: decimal.induct)
  case (1 n)
  then show ?case by (cases "n < 10") (simp_all add: decimal.simps [of n])
qed

lemma decimal_nonempty [simp]: "decimal n \<noteq> []"
  by (subst decimal.simps) simp

definition digit_val :: "char \<Rightarrow> nat" where
  "digit_val c = of_char c - 48"

definition digits_val :: "string \<Rightarrow> nat" where
  "digits_val s = foldl (\<lambda>v c. 10 * v + digit_val c) 0 s"

lemma all_less_eq_ten: "(\<forall>r < 10 :: nat. P r) \<longleftrightarrow>
    P 0 \<and> P 1 \<and> P 2 \<and> P 3 \<and> P 4 \<and> P 5 \<and> P 6 \<and> P 7 \<and> P 8 \<and> P 9"
  by (simp add: numeral_eq_Suc All_less_Suc conj_ac)

lemma digit_val_char: "digit_val (digit_char d) = d mod 10"
proof -
  have all: "\<forall>r < 10. digit_val (''0123456789'' ! r) = r"
    by (simp add: digit_val_def all_less_eq_ten)
  have "d mod 10 < 10" by simp
  with all show ?thesis unfolding digit_char_def by blast
qed

lemma digits_val_decimal [simp]: "digits_val (decimal n) = n"
proof (induction n rule: decimal.induct)
  case (1 n)
  then show ?case
    by (cases "n < 10") (simp_all add: decimal.simps [of n] digits_val_def digit_val_char)
qed

lemma decimal_inj: "decimal m = decimal n \<longleftrightarrow> m = n"
  by (metis digits_val_decimal)

section \<open>The shortest decimal of a double\<close>

text \<open>
  For a positive finite pattern with mantissa \<open>m\<close> and scale \<open>e\<close>, the decimals that read back as it
  lie between the midpoints to its neighbours; the midpoints themselves round to it exactly when
  \<open>m\<close> is even. Everything is an integer over the common denominator \<open>f64_den b\<close>.
\<close>

definition f64_unit :: "f64 \<Rightarrow> nat" where
  "f64_unit b = (if 0 \<le> f64_scale b then 2 ^ nat (f64_scale b) else 1)"

definition f64_den :: "f64 \<Rightarrow> nat" where
  "f64_den b = 4 * (if 0 \<le> f64_scale b then 1 else 2 ^ nat (- f64_scale b))"

definition f64_mid :: "f64 \<Rightarrow> nat" where
  "f64_mid b = 4 * f64_mant b * f64_unit b"

definition f64_low :: "f64 \<Rightarrow> nat" where
  "f64_low b =
     (4 * f64_mant b - (if f64_frac b = 0 \<and> 1 < f64_exp b then 1 else 2)) * f64_unit b"

definition f64_high :: "f64 \<Rightarrow> nat" where
  "f64_high b = (4 * f64_mant b + 2) * f64_unit b"

text \<open>\<open>n * 10 ^ q\<close> and the bounds, over a common denominator: \<open>(numerator, scaling of the bounds)\<close>.\<close>

definition dec_num :: "f64 \<Rightarrow> int \<Rightarrow> nat" where
  "dec_num b q = f64_den b * 10 ^ nat q"

definition dec_scale :: "int \<Rightarrow> nat" where
  "dec_scale q = 10 ^ nat (- q)"

definition reads_back :: "f64 \<Rightarrow> nat \<Rightarrow> int \<Rightarrow> bool" where
  "reads_back b n q \<longleftrightarrow>
     (let x = n * dec_num b q; lo = f64_low b * dec_scale q; hi = f64_high b * dec_scale q
      in if even (f64_mant b) then lo \<le> x \<and> x \<le> hi else lo < x \<and> x < hi)"

text \<open>The closest of the two neighbours with \<open>p\<close> digits that reads back, if one does.\<close>

definition decimal_at :: "f64 \<Rightarrow> int \<Rightarrow> (nat \<times> int) option" where
  "decimal_at b q =
     (let v = f64_mid b * dec_scale q; u = dec_num b q; a = v div u in
      if reads_back b a q \<and> \<not> (reads_back b (a + 1) q \<and>
           ((2 * a + 1) * u < 2 * v \<or> (2 * a + 1) * u = 2 * v \<and> odd a))
      then Some (a, q)
      else if reads_back b (a + 1) q then Some (a + 1, q) else None)"

function floor_log10 :: "nat \<Rightarrow> nat \<Rightarrow> int" where
  "floor_log10 num den =
     (if num = 0 \<or> den = 0 then 0
      else if den \<le> num then int (length (decimal (num div den))) - 1
      else floor_log10 (10 * num) den - 1)"
  by pat_completeness auto
termination
  by (relation "measure (\<lambda>(num, den). den - num)") auto

declare floor_log10.simps [simp del]

fun first_decimal :: "f64 \<Rightarrow> int \<Rightarrow> nat list \<Rightarrow> (nat \<times> int) option" where
  "first_decimal b k [] = None"
| "first_decimal b k (p # ps) =
     (case decimal_at b (k + 1 - int p) of Some r \<Rightarrow> Some r | None \<Rightarrow> first_decimal b k ps)"

definition shortest_decimal :: "f64 \<Rightarrow> (nat \<times> int) option" where
  "shortest_decimal b = first_decimal b (floor_log10 (f64_mid b) (f64_den b)) [1..<18]"

definition strip_zeros :: "string \<Rightarrow> string" where
  "strip_zeros s = rev (dropWhile (\<lambda>c. c = CHR ''0'') (rev s))"

definition exponent_string :: "int \<Rightarrow> string" where
  "exponent_string e =
     (if e < 0 then CHR ''-'' else CHR ''+'') #
     (if \<bar>e\<bar> < 10 then CHR ''0'' # decimal (nat \<bar>e\<bar>) else decimal (nat \<bar>e\<bar>))"

definition scientific_string :: "nat \<Rightarrow> int \<Rightarrow> string" where
  "scientific_string n q =
     (case strip_zeros (decimal n) of
        [] \<Rightarrow> ''0e+00''
      | d # ds \<Rightarrow> d # (if ds = [] then [] else CHR ''.'' # ds) @ CHR ''e'' #
          exponent_string (q + int (length (decimal n)) - 1))"

text \<open>
  \<open>std::to_chars\<close> of a positive finite double; seventeen significant digits always suffice, so
  \<open>None\<close>, which the caller treats as an error code, stays as it is in the code: a checked branch.
\<close>

definition to_chars_scientific :: "f64 \<Rightarrow> string option" where
  "to_chars_scientific b = map_option (\<lambda>(n, q). scientific_string n q) (shortest_decimal b)"

text \<open>\<open>std::stoi\<close> on an optionally signed number; \<open>None\<close> is its \<open>std::invalid_argument\<close>.\<close>

definition stoi :: "string \<Rightarrow> int option" where
  "stoi s =
     (let neg = (s \<noteq> [] \<and> hd s = CHR ''-'');
          body = (if s \<noteq> [] \<and> hd s \<in> {CHR ''-'', CHR ''+''} then tl s else s);
          ds = takeWhile (\<lambda>c. CHR ''0'' \<le> c \<and> c \<le> CHR ''9'') body
      in if ds = [] then None
         else Some (if neg then - int (digits_val ds) else int (digits_val ds)))"

section \<open>Evaluation\<close>

text \<open>The definitions that evaluate a concrete pattern by \<open>simp\<close>.\<close>

lemmas f64_eval = f64_finite_def f64_exp_def f64_frac_def f64_sign_def f64_nan_def f64_rank_def
  f64_eq_def f64_less_def f64_zero_def f64_neg_def f64_mant_def f64_scale_def f64_trunc_def
  f64_of_nat_def f64_of_int_def bit_length.simps Let_def

lemmas to_chars_eval = f64_eval f64_unit_def f64_den_def f64_mid_def f64_low_def f64_high_def
  dec_num_def dec_scale_def reads_back_def decimal_at_def floor_log10.simps shortest_decimal_def
  strip_zeros_def exponent_string_def scientific_string_def to_chars_scientific_def stoi_def
  decimal.simps digit_char_def to_string_int_def digits_val_def digit_val_def upt_conv_Cons

end
