(* ===== verification/F64_Arith.thy ===== *)
theory F64_Arith
  imports Double
begin

unbundle bit_operations_syntax

text \<open>
  The arithmetic of \<open>double\<close> the code uses: addition, subtraction, multiplication, division and
  square root are IEEE 754 operations, the exact result rounded to nearest with ties to even;
  \<open>std::min\<close>, \<open>std::max\<close> and \<open>std::clamp\<close> are the comparisons of the standard library. The functions of
  \<open>libm\<close> that are not correctly rounded by specification (\<open>exp\<close>, \<open>cos\<close>, \<open>acos\<close>, \<open>atan2\<close>, \<open>llrint\<close>
  outside its range) are parameters. A NaN result is one quiet NaN: the code never looks at payloads.
\<close>

section \<open>Rounding\<close>

definition f64_inf :: f64 where
  "f64_inf = 0x7FF0000000000000"

definition f64_nan_value :: f64 where
  "f64_nan_value = 0x7FF8000000000000"

definition f64_is_inf :: "f64 \<Rightarrow> bool" where
  "f64_is_inf b \<longleftrightarrow> f64_exp b = 2047 \<and> f64_frac b = 0"

text \<open>
  The magnitude \<open>m * 2 ^ s\<close> as a pattern without sign: \<open>e\<close> is the scale of the last kept bit, so
  a rounded mantissa that overflows to \<open>2 ^ 53\<close> moves to the next exponent by itself.
\<close>

definition round_half :: "nat \<Rightarrow> nat \<Rightarrow> nat \<Rightarrow> nat" where
  "round_half q r d = (if d < 2 * r \<or> d = 2 * r \<and> odd q then q + 1 else q)"

definition round_quotient :: "nat \<Rightarrow> nat \<Rightarrow> nat" where
  "round_quotient m d = round_half (m div d) (m mod d) d"

definition round_at :: "nat \<Rightarrow> int \<Rightarrow> int \<Rightarrow> nat" where
  "round_at m s e =
     min (nat (e + 1074) * 2 ^ 52 +
          (if e \<le> s then m * 2 ^ nat (s - e) else round_quotient m (2 ^ nat (e - s)))) (2047 * 2 ^ 52)"

definition round_magnitude :: "nat \<Rightarrow> int \<Rightarrow> nat" where
  "round_magnitude m s =
     (if m = 0 then 0 else round_at m s (max (int (bit_length m) + s - 53) (- 1074)))"

definition f64_round :: "bool \<Rightarrow> nat \<Rightarrow> int \<Rightarrow> f64" where
  "f64_round neg m s =
     (if neg then f64_neg (word_of_nat (round_magnitude m s)) else word_of_nat (round_magnitude m s))"

text \<open>A quotient with enough bits and a sticky bit rounds as the exact one.\<close>

definition sticky_quotient :: "nat \<Rightarrow> nat \<Rightarrow> nat" where
  "sticky_quotient n q = 2 * (n div q) + (if n mod q = 0 then 0 else 1)"

definition ratio_at :: "bool \<Rightarrow> nat \<Rightarrow> nat \<Rightarrow> int \<Rightarrow> nat \<Rightarrow> f64" where
  "ratio_at neg p q s k = f64_round neg (sticky_quotient (p * 2 ^ k) q) (s - int k - 1)"

definition f64_ratio :: "bool \<Rightarrow> nat \<Rightarrow> nat \<Rightarrow> int \<Rightarrow> f64" where
  "f64_ratio neg p q s = ratio_at neg p q s (128 + bit_length q)"

text \<open>A decimal literal \<open>n / 10 ^ k\<close>.\<close>

definition f64_decimal :: "nat \<Rightarrow> nat \<Rightarrow> f64" where
  "f64_decimal n k = f64_ratio False n (10 ^ k) 0"

section \<open>Operations\<close>

definition f64_signed :: "f64 \<Rightarrow> int" where
  "f64_signed b = (if f64_sign b then - int (f64_mant b) else int (f64_mant b))"

text \<open>A finite sum; an exact zero is negative only when both operands are.\<close>

definition round_signed :: "bool \<Rightarrow> int \<Rightarrow> int \<Rightarrow> f64" where
  "round_signed negativeZero x s =
     (if x = 0 then (if negativeZero then f64_neg 0 else 0) else f64_round (x < 0) (nat \<bar>x\<bar>) s)"

definition add_at :: "f64 \<Rightarrow> f64 \<Rightarrow> int \<Rightarrow> f64" where
  "add_at a b s =
     round_signed (f64_sign a \<and> f64_sign b)
       (f64_signed a * 2 ^ nat (f64_scale a - s) + f64_signed b * 2 ^ nat (f64_scale b - s)) s"

definition f64_add :: "f64 \<Rightarrow> f64 \<Rightarrow> f64" where
  "f64_add a b =
     (if f64_nan a \<or> f64_nan b then f64_nan_value
      else if f64_is_inf a then (if f64_is_inf b \<and> f64_sign a \<noteq> f64_sign b then f64_nan_value else a)
      else if f64_is_inf b then b
      else add_at a b (min (f64_scale a) (f64_scale b)))"

definition f64_sub :: "f64 \<Rightarrow> f64 \<Rightarrow> f64" where
  "f64_sub a b = f64_add a (f64_neg b)"

text \<open>A zero or an infinity with the given sign.\<close>

definition f64_with_sign :: "bool \<Rightarrow> f64 \<Rightarrow> f64" where
  "f64_with_sign neg b = (if neg then f64_neg b else b)"

definition f64_mul :: "f64 \<Rightarrow> f64 \<Rightarrow> f64" where
  "f64_mul a b =
     (if f64_nan a \<or> f64_nan b then f64_nan_value
      else if f64_is_inf a \<or> f64_is_inf b
      then (if f64_zero a \<or> f64_zero b then f64_nan_value
            else f64_with_sign (f64_sign a \<noteq> f64_sign b) f64_inf)
      else f64_round (f64_sign a \<noteq> f64_sign b) (f64_mant a * f64_mant b) (f64_scale a + f64_scale b))"

definition f64_div :: "f64 \<Rightarrow> f64 \<Rightarrow> f64" where
  "f64_div a b =
     (if f64_nan a \<or> f64_nan b then f64_nan_value
      else if f64_is_inf a
      then (if f64_is_inf b then f64_nan_value else f64_with_sign (f64_sign a \<noteq> f64_sign b) f64_inf)
      else if f64_is_inf b then f64_with_sign (f64_sign a \<noteq> f64_sign b) 0
      else if f64_zero b
      then (if f64_zero a then f64_nan_value else f64_with_sign (f64_sign a \<noteq> f64_sign b) f64_inf)
      else f64_ratio (f64_sign a \<noteq> f64_sign b) (f64_mant a) (f64_mant b) (f64_scale a - f64_scale b))"

definition sqrt_digit :: "nat \<Rightarrow> nat \<Rightarrow> nat" where
  "sqrt_digit n r = (if (r + 1) * (r + 1) \<le> n then r + 1 else r)"

fun integer_sqrt :: "nat \<Rightarrow> nat" where
  "integer_sqrt n = (if n = 0 then 0 else sqrt_digit n (2 * integer_sqrt (n div 4)))"

declare integer_sqrt.simps [simp del]

definition sqrt_sticky :: "nat \<Rightarrow> nat \<Rightarrow> int \<Rightarrow> f64" where
  "sqrt_sticky n r s = f64_round False (2 * r + (if r * r = n then 0 else 1)) s"

definition sqrt_scaled :: "nat \<Rightarrow> int \<Rightarrow> nat \<Rightarrow> f64" where
  "sqrt_scaled m s k = sqrt_sticky (m * 2 ^ k) (integer_sqrt (m * 2 ^ k)) ((s - int k) div 2 - 1)"

definition f64_sqrt :: "f64 \<Rightarrow> f64" where
  "f64_sqrt a =
     (if f64_nan a then f64_nan_value
      else if f64_zero a then a
      else if f64_sign a then f64_nan_value
      else if f64_is_inf a then a
      else sqrt_scaled (f64_mant a) (f64_scale a) (if even (f64_scale a) then 128 else 129))"

section \<open>Comparisons of the standard library\<close>

definition f64_le :: "f64 \<Rightarrow> f64 \<Rightarrow> bool" where
  "f64_le a b \<longleftrightarrow> f64_less a b \<or> f64_eq a b"

definition f64_max :: "f64 \<Rightarrow> f64 \<Rightarrow> f64" where
  "f64_max a b = (if f64_less a b then b else a)"

definition f64_min :: "f64 \<Rightarrow> f64 \<Rightarrow> f64" where
  "f64_min a b = (if f64_less b a then b else a)"

definition f64_clamp :: "f64 \<Rightarrow> f64 \<Rightarrow> f64 \<Rightarrow> f64" where
  "f64_clamp v lo hi = (if f64_less v lo then lo else if f64_less hi v then hi else v)"

record libm =
  m_exp :: "f64 \<Rightarrow> f64"
  m_cos :: "f64 \<Rightarrow> f64"
  m_acos :: "f64 \<Rightarrow> f64"
  m_atan2 :: "f64 \<Rightarrow> f64 \<Rightarrow> f64"
  m_llrint_invalid :: "f64 \<Rightarrow> int"

text \<open>\<open>std::llrint\<close>: to the nearest integer, ties to even.\<close>

definition f64_llrint :: "libm \<Rightarrow> f64 \<Rightarrow> int" where
  "f64_llrint L b =
     (if \<not> f64_finite b then m_llrint_invalid L b
      else let m = (if 0 \<le> f64_scale b then f64_mant b * 2 ^ nat (f64_scale b)
                    else round_quotient (f64_mant b) (2 ^ nat (- f64_scale b)));
               i = (if f64_sign b then - int m else int m)
           in if - (2 ^ 63) \<le> i \<and> i < 2 ^ 63 then i else m_llrint_invalid L b)"
section \<open>Lemmas\<close>

text \<open>The square root of the rounding step is the floor of the real one.\<close>

lemma integer_sqrt_bounds: "(integer_sqrt n)\<^sup>2 \<le> n \<and> n < (integer_sqrt n + 1)\<^sup>2"
proof (induction n rule: integer_sqrt.induct)
  case (1 n)
  show ?case
  proof (cases "n = 0")
    case True
    then show ?thesis by (simp add: integer_sqrt.simps)
  next
    case False
    define q where "q = integer_sqrt (n div 4)"
    have q: "q\<^sup>2 \<le> n div 4" "n div 4 < (q + 1)\<^sup>2" using 1 False unfolding q_def by auto
    have "4 * q\<^sup>2 \<le> n" using q(1) by linarith
    moreover have "n < 4 * (q + 1)\<^sup>2" using q(2) by linarith
    ultimately have "(2 * q)\<^sup>2 \<le> n" "n < (2 * q + 1 + 1)\<^sup>2" by (auto simp: power2_eq_square algebra_simps)
    moreover have "integer_sqrt n = sqrt_digit n (2 * q)"
      using False unfolding q_def by (subst integer_sqrt.simps) simp
    ultimately show ?thesis by (auto simp: sqrt_digit_def power2_eq_square)
  qed
qed

lemma bit_length_bounds: "0 < n \<Longrightarrow> 2 ^ (bit_length n - 1) \<le> n \<and> n < 2 ^ bit_length n \<and> 0 < bit_length n"
proof (induction n rule: bit_length.induct)
  case (1 n)
  show ?case
  proof (cases "n = 1")
    case True
    then show ?thesis by (simp add: bit_length.simps)
  next
    case False
    then have half: "0 < n div 2" using "1.prems" by linarith
    then have ih: "2 ^ (bit_length (n div 2) - 1) \<le> n div 2" "n div 2 < 2 ^ bit_length (n div 2)" "0 < bit_length (n div 2)"
      using 1 by auto
    have "bit_length n = Suc (bit_length (n div 2))" using "1.prems" by (subst bit_length.simps) simp
    moreover obtain k where "bit_length (n div 2) = Suc k" using ih(3) by (cases "bit_length (n div 2)") auto
    ultimately show ?thesis using ih by auto
  qed
qed

lemma bit_length_le: "n < 2 ^ k \<Longrightarrow> bit_length n \<le> k"
proof (cases "n = 0")
  case False
  assume n: "n < 2 ^ k"
  have "2 ^ (bit_length n - 1) < (2 :: nat) ^ k" using bit_length_bounds [of n] False n by linarith
  then have "bit_length n - 1 < k" by simp
  then show ?thesis by simp
qed (simp add: bit_length.simps)

lemma bit_length_eq: "2 ^ k \<le> n \<Longrightarrow> n < 2 ^ Suc k \<Longrightarrow> bit_length n = Suc k"
proof -
  assume n: "2 ^ k \<le> n" "n < 2 ^ Suc k"
  then have "0 < n" by (metis not_gr_zero not_less zero_less_numeral zero_less_power)
  then have "n < 2 ^ bit_length n" using bit_length_bounds by blast
  then have "(2 :: nat) ^ k < 2 ^ bit_length n" using n(1) by linarith
  then have "k < bit_length n" by simp
  with bit_length_le [OF n(2)] show ?thesis by simp
qed

text \<open>Rounding a finite value that a pattern has gives that pattern back.\<close>

lemma f64_frac_less: "f64_frac b < 2 ^ 52"
  unfolding f64_frac_def by (simp only: unsigned_take_bit_eq) (rule take_bit_nat_less_exp)

lemma round_magnitude_exact: "f64_finite b \<Longrightarrow> round_magnitude (f64_mant b) (f64_scale b) = f64_exp b * 2 ^ 52 + f64_frac b"
proof -
  assume fin: "f64_finite b"
  let ?x = "f64_exp b" and ?f = "f64_frac b"
  have f: "?f < 2 ^ 52" by (rule f64_frac_less)
  have x: "?x < 2047"
  proof -
    have "?x \<le> 2047" using word_and_le1 [of "drop_bit 52 b" 2047] unfolding f64_exp_def
      by (simp add: word_le_nat_alt)
    then show ?thesis using fin by (simp add: f64_finite_def)
  qed
  show ?thesis
  proof (cases "?x = 0")
    case True
    then show ?thesis using f bit_length_le [OF f]
      by (auto simp: round_magnitude_def round_at_def f64_mant_def f64_scale_def max_def)
  next
    case False
    have "bit_length (?f + 2 ^ 52) = Suc 52" by (rule bit_length_eq) (use f in simp_all)
    then have "round_magnitude (f64_mant b) (f64_scale b) = min ((?x - 1) * 2 ^ 52 + (?f + 2 ^ 52)) (2047 * 2 ^ 52)"
      using False by (simp add: round_magnitude_def round_at_def f64_mant_def f64_scale_def max_def nat_diff_distrib)
    also have "(?x - 1) * 2 ^ 52 + (?f + 2 ^ 52) = ?x * 2 ^ 52 + ?f" using False by (cases ?x) simp_all
    also have "min (?x * 2 ^ 52 + ?f) (2047 * 2 ^ 52) = ?x * 2 ^ 52 + ?f"
    proof (rule min_absorb1)
      have "?x * 2 ^ 52 + ?f \<le> (?x + 1) * 2 ^ 52" using f by simp
      also have "\<dots> \<le> 2047 * 2 ^ 52" by (rule mult_le_mono1) (use x in simp)
      finally show "?x * 2 ^ 52 + ?f \<le> 2047 * 2 ^ 52" .
    qed
    finally show ?thesis .
  qed
qed

lemma f64_magnitude: "word_of_nat (f64_exp b * 2 ^ 52 + f64_frac b) = take_bit 63 b"
proof -
  have "f64_exp b = unat (take_bit 11 (drop_bit 52 b))"
    by (simp add: f64_exp_def take_bit_eq_mask mask_eq_exp_minus_1)
  also have "\<dots> = unat b div 2 ^ 52 mod 2 ^ 11"
    by (simp only: unsigned_take_bit_eq unat_drop_bit_eq) (simp only: take_bit_eq_mod drop_bit_eq_div)
  finally have x: "f64_exp b = unat b div 2 ^ 52 mod 2 ^ 11" .
  have f: "f64_frac b = unat b mod 2 ^ 52"
    unfolding f64_frac_def by (simp only: unsigned_take_bit_eq) (simp only: take_bit_eq_mod)
  have "f64_exp b * 2 ^ 52 + f64_frac b = unat b mod (2 ^ 52 * 2 ^ 11)"
    unfolding x f by (subst mod_mult2_eq) (simp only: mult.commute)
  also have "\<dots> = unat (take_bit 63 b)"
    by (simp only: unsigned_take_bit_eq) (simp add: take_bit_eq_mod)
  finally show ?thesis by (metis of_nat_unat ucast_id)
qed

theorem f64_round_exact: "f64_finite b \<Longrightarrow> f64_round (f64_sign b) (f64_mant b) (f64_scale b) = b"
proof -
  assume fin: "f64_finite b"
  have last: "n = 63" if "n < 64" "63 \<le> n" for n :: nat using that by simp
  have b: "(if bit b 63 then take_bit 63 b XOR push_bit 63 1 else take_bit 63 b) = b"
    by (rule bit_eqI)
      (auto simp: bit_take_bit_iff bit_xor_iff bit_push_bit_iff bit_1_iff simp del: push_bit_of_1 push_bit_numeral
        dest: last)
  show ?thesis unfolding f64_round_def round_magnitude_exact [OF fin] f64_magnitude f64_sign_def f64_neg_def
    by (rule b)
qed

text \<open>The result does not depend on how the exact value is written.\<close>

lemma bit_length_scale: "0 < m \<Longrightarrow> bit_length (m * 2 ^ k) = bit_length m + k"
proof -
  assume m: "0 < m"
  obtain l where l: "bit_length m = Suc l" using bit_length_bounds [OF m] by (cases "bit_length m") auto
  have "2 ^ l \<le> m" "m < 2 ^ Suc l" using bit_length_bounds [OF m] l by auto
  then have "2 ^ (l + k) \<le> m * 2 ^ k" "m * 2 ^ k < 2 ^ Suc (l + k)" by (simp_all add: power_add)
  from bit_length_eq [OF this] l show ?thesis by simp
qed

lemma round_quotient_scale: "0 < c \<Longrightarrow> round_quotient (m * c) (d * c) = round_quotient m d"
  by (simp add: round_quotient_def round_half_def mult_mod_left [symmetric] mult.assoc [symmetric])

lemma round_quotient_exact: "0 < d \<Longrightarrow> round_quotient (q * d) d = q"
  by (simp add: round_quotient_def round_half_def)

lemma round_at_scale: "round_at (m * 2 ^ k) (s - int k) e = round_at m s e"
proof -
  let ?q = "\<lambda>m s. if e \<le> s then m * 2 ^ nat (s - e) else round_quotient m (2 ^ nat (e - s))"
  have "?q (m * 2 ^ k) (s - int k) = ?q m s"
  proof (cases "e \<le> s - int k")
    case True
    then have "nat (s - e) = k + nat (s - int k - e)" by simp
    then show ?thesis using True by (simp add: power_add mult.assoc)
  next
    case far: False
    show ?thesis
    proof (cases "e \<le> s")
      case True
      then have k: "k = nat (s - e) + nat (e - (s - int k))" using far by simp
      have "m * 2 ^ k = m * 2 ^ nat (s - e) * 2 ^ nat (e - (s - int k))"
        by (subst k) (simp only: power_add mult.assoc)
      then have "round_quotient (m * 2 ^ k) (2 ^ nat (e - (s - int k))) = m * 2 ^ nat (s - e)"
        by (simp only: round_quotient_exact zero_less_power zero_less_numeral)
      then show ?thesis using far True by simp
    next
      case False
      then have "nat (e - (s - int k)) = nat (e - s) + k" by simp
      then have "2 ^ nat (e - (s - int k)) = 2 ^ nat (e - s) * (2 :: nat) ^ k" by (simp only: power_add)
      then show ?thesis using far False round_quotient_scale [of "2 ^ k" m "2 ^ nat (e - s)"] by simp
    qed
  qed
  then show ?thesis by (simp add: round_at_def)
qed

lemma round_magnitude_scale: "round_magnitude (m * 2 ^ k) (s - int k) = round_magnitude m s"
  using bit_length_scale [of m k] round_at_scale [of m k s]
  by (cases "m = 0") (simp_all add: round_magnitude_def)

text \<open>Adding a zero changes no other finite value.\<close>

lemma f64_zero_iff: "f64_zero z \<longleftrightarrow> take_bit 63 z = 0"
proof
  assume "f64_zero z"
  then show "take_bit 63 z = 0"
    by (auto simp: f64_zero_def f64_eq_def f64_rank_def f64_sign_def unsigned_eq_0_iff split: if_splits)
next
  assume z: "take_bit 63 z = 0"
  have "take_bit 52 (take_bit 63 z) = take_bit 52 z" by simp
  then have "take_bit 52 z = 0" using z by simp
  then have "f64_frac z = 0" by (simp add: f64_frac_def)
  then show "f64_zero z" using z by (simp add: f64_zero_def f64_eq_def f64_rank_def f64_nan_def)
       (simp add: f64_frac_def)
qed

lemma f64_mant_zero: "f64_finite b \<Longrightarrow> f64_mant b = 0 \<longleftrightarrow> f64_zero b"
proof
  assume "f64_mant b = 0"
  then have "f64_exp b * 2 ^ 52 + f64_frac b = 0" by (simp add: f64_mant_def split: if_splits)
  then show "f64_zero b" using f64_magnitude [of b] by (simp add: f64_zero_iff)
next
  assume z: "f64_zero b"
  then have "drop_bit 52 (take_bit 63 b) = 0" "take_bit 52 (take_bit 63 b) = 0" by (simp_all add: f64_zero_iff)
  then have "take_bit 11 (drop_bit 52 b) = 0" "take_bit 52 b = 0" by (simp_all add: drop_bit_take_bit)
  then show "f64_mant b = 0"
    by (simp add: f64_mant_def f64_exp_def f64_frac_def take_bit_eq_mask mask_eq_exp_minus_1)
qed

lemma round_signed_exact:
  assumes "f64_finite b" and "\<not> f64_zero b"
  shows "round_signed n (f64_signed b * 2 ^ k) (f64_scale b - int k) = b"
proof -
  let ?x = "f64_signed b * 2 ^ k"
  have m: "0 < f64_mant b" using f64_mant_zero assms by auto
  have "?x \<noteq> 0" "?x < 0 \<longleftrightarrow> f64_sign b" "nat \<bar>?x\<bar> = f64_mant b * 2 ^ k"
    using m by (auto simp: f64_signed_def abs_mult nat_mult_distrib mult_less_0_iff nat_power_eq split: if_splits)
  moreover from this have "f64_round (?x < 0) (nat \<bar>?x\<bar>) (f64_scale b - int k) = b"
    using f64_round_exact [OF assms(1)] unfolding f64_round_def by (simp only: round_magnitude_scale)
  ultimately show ?thesis by (simp only: round_signed_def if_False)
qed

theorem f64_add_zero:
  assumes "f64_zero z" and "f64_finite b" and "\<not> f64_zero b"
  shows "f64_add z b = b" and "f64_add b z = b"
proof -
  have scale: "f64_scale z = - 1074" "f64_scale b \<ge> - 1074" "f64_signed z = 0"
    and fin: "\<not> f64_nan z" "\<not> f64_is_inf z" "\<not> f64_nan b" "\<not> f64_is_inf b"
  proof -
    have "drop_bit 52 (take_bit 63 z) = 0" "take_bit 52 (take_bit 63 z) = 0" using assms(1) by (simp_all add: f64_zero_iff)
    then have "take_bit 11 (drop_bit 52 z) = 0" "take_bit 52 z = 0" by (simp_all add: drop_bit_take_bit)
    then have z: "f64_exp z = 0" "f64_frac z = 0"
      by (simp_all add: f64_exp_def f64_frac_def take_bit_eq_mask mask_eq_exp_minus_1)
    then show "f64_scale z = - 1074" "f64_signed z = 0" "\<not> f64_nan z" "\<not> f64_is_inf z"
      by (simp_all add: f64_scale_def f64_signed_def f64_mant_def f64_nan_def f64_is_inf_def)
    show "f64_scale b \<ge> - 1074" by (simp add: f64_scale_def)
    show "\<not> f64_nan b" "\<not> f64_is_inf b" using assms(2) by (simp_all add: f64_finite_def f64_nan_def f64_is_inf_def)
  qed
  let ?k = "nat (f64_scale b + 1074)"
  have "round_signed n (f64_signed b * 2 ^ ?k) (- 1074) = b" for n
    using round_signed_exact [OF assms(2,3), of n ?k] scale(2) by simp
  moreover from this have "f64_scale b = - 1074 \<Longrightarrow> round_signed n (f64_signed b) (- 1074) = b" for n by fastforce
  ultimately show "f64_add z b = b" "f64_add b z = b"
    using scale fin by (simp_all add: f64_add_def add_at_def min_def)
qed

lemmas f64_arith_eval = f64_exp_def f64_frac_def f64_sign_def f64_nan_def f64_rank_def
  f64_eq_def f64_less_def f64_zero_def f64_neg_def f64_mant_def f64_scale_def bit_length.simps
  f64_of_nat_def f64_inf_def f64_nan_value_def f64_is_inf_def round_half_def round_quotient_def
  round_at_def round_magnitude_def f64_round_def sticky_quotient_def ratio_at_def f64_ratio_def
  f64_decimal_def f64_signed_def round_signed_def add_at_def f64_add_def f64_sub_def f64_with_sign_def
  f64_mul_def f64_div_def sqrt_digit_def integer_sqrt.simps sqrt_sticky_def sqrt_scaled_def f64_sqrt_def f64_le_def f64_max_def f64_min_def
  f64_clamp_def f64_abs_def

text \<open>Rounded values known from the standard: \<open>0.1 + 0.2\<close>, \<open>1 / 3\<close>, \<open>1.1 * 1.1\<close> and the root of 2.\<close>

lemma f64_add_vector: "f64_add (f64_decimal 1 1) (f64_decimal 2 1) = 0x3FD3333333333334"
  by (simp add: f64_arith_eval)

lemma f64_div_vector: "f64_div 0x3FF0000000000000 0x4008000000000000 = 0x3FD5555555555555"
  by (simp add: f64_arith_eval)

lemma f64_mul_vector: "f64_mul (f64_decimal 11 1) (f64_decimal 11 1) = 0x3FF35C28F5C28F5D"
  by (simp add: f64_arith_eval)

lemma f64_sqrt_vector: "f64_sqrt 0x4000000000000000 = 0x3FF6A09E667F3BCD"
  by (simp add: f64_arith_eval)

end
