(* ===== verification/Json_Value.thy ===== *)
theory Json_Value
  imports Double
begin

text \<open>
  The value model of \<open>nlohmann::json\<close> the code relies on: the seven kinds of value, numbers kept
  in one of the library's three representations, an object as the key-sorted association list
  its \<open>std::map\<close> is; and the accessors the code calls, with the exceptions the library
  documents (\<open>type_error\<close> 302, 304, 305 and \<open>out_of_range\<close> 403). The C++ exceptions of the
  development are one datatype, so that every \<open>throw\<close> is a value.
\<close>

section \<open>Values\<close>

datatype json =
    JNull
  | JBool bool
  | JInt int
  | JUInt nat
  | JFloat f64
  | JString string
  | JArray "json list"
  | JObject "(string \<times> json) list"

section \<open>Exceptions\<close>

text \<open>
  The exception types the code throws and catches: those of \<open>nlohmann::json\<close> and the standard
  library, OCCT's \<open>Standard_Failure\<close>, and the program's own (\<open>cancel.hpp\<close>, \<open>geometry.hpp\<close>,
  \<open>protocol.hpp\<close>), which carry the failing operation's id, the wire code and a JSON payload.
\<close>

datatype kexn =
    Json_type_error nat
  | Json_out_of_range nat
  | Json_parse_error
  | Runtime_error string
  | Invalid_argument string
  | Logic_error string
  | Out_of_range_error
  | Standard_failure string
  | Filesystem_error string
  | Protocol_error string
  | Cancelled
  | Reference_missing string string
  | Operation_failure string string string json
  | Selector_failure string string string string json
  | Foreign_exception
  | Undefined_behaviour

type_synonym 'a result = "kexn + 'a"

section \<open>Representation\<close>

text \<open>\<open>number_integer\<close> and \<open>number_unsigned\<close> are 64-bit; object keys are sorted and distinct.\<close>

fun json_ok :: "json \<Rightarrow> bool" where
  "json_ok (JInt i) = (- (2 ^ 63) \<le> i \<and> i < 2 ^ 63)"
| "json_ok (JUInt n) = (n < 2 ^ 64)"
| "json_ok (JArray js) = list_all json_ok js"
| "json_ok (JObject kvs) = (sorted_wrt (<) (map fst kvs) \<and> list_all (\<lambda>(k, v). json_ok v) kvs)"
| "json_ok _ = True"

definition is_object :: "json \<Rightarrow> bool" where
  "is_object j = (case j of JObject _ \<Rightarrow> True | _ \<Rightarrow> False)"

definition is_array :: "json \<Rightarrow> bool" where
  "is_array j = (case j of JArray _ \<Rightarrow> True | _ \<Rightarrow> False)"

definition is_string :: "json \<Rightarrow> bool" where
  "is_string j = (case j of JString _ \<Rightarrow> True | _ \<Rightarrow> False)"

definition is_null :: "json \<Rightarrow> bool" where
  "is_null j = (case j of JNull \<Rightarrow> True | _ \<Rightarrow> False)"

definition is_boolean :: "json \<Rightarrow> bool" where
  "is_boolean j = (case j of JBool _ \<Rightarrow> True | _ \<Rightarrow> False)"

definition is_number :: "json \<Rightarrow> bool" where
  "is_number j = (case j of JInt _ \<Rightarrow> True | JUInt _ \<Rightarrow> True | JFloat _ \<Rightarrow> True | _ \<Rightarrow> False)"

definition is_number_unsigned :: "json \<Rightarrow> bool" where
  "is_number_unsigned j = (case j of JUInt _ \<Rightarrow> True | _ \<Rightarrow> False)"

definition is_number_integer :: "json \<Rightarrow> bool" where
  "is_number_integer j = (case j of JInt _ \<Rightarrow> True | JUInt _ \<Rightarrow> True | _ \<Rightarrow> False)"

lemmas json_kind_simps [simp] = is_object_def is_array_def is_string_def is_null_def
  is_boolean_def is_number_def is_number_unsigned_def is_number_integer_def

section \<open>Accessors\<close>

text \<open>\<open>contains(key)\<close>: false on anything but an object. \<open>find\<close> returns the member.\<close>

definition jfind :: "json \<Rightarrow> string \<Rightarrow> json option" where
  "jfind j k = (case j of JObject kvs \<Rightarrow> map_of kvs k | _ \<Rightarrow> None)"

definition jcontains :: "json \<Rightarrow> string \<Rightarrow> bool" where
  "jcontains j k \<longleftrightarrow> jfind j k \<noteq> None"

definition jat :: "json \<Rightarrow> string \<Rightarrow> json result" where
  "jat j k =
     (case j of
        JObject kvs \<Rightarrow> (case map_of kvs k of Some v \<Rightarrow> Inr v | None \<Rightarrow> Inl (Json_out_of_range 403))
      | _ \<Rightarrow> Inl (Json_type_error 304))"

definition get_string :: "json \<Rightarrow> string result" where
  "get_string j = (case j of JString s \<Rightarrow> Inr s | _ \<Rightarrow> Inl (Json_type_error 302))"

definition get_bool :: "json \<Rightarrow> bool result" where
  "get_bool j = (case j of JBool b \<Rightarrow> Inr b | _ \<Rightarrow> Inl (Json_type_error 302))"

definition get_double :: "json \<Rightarrow> f64 result" where
  "get_double j =
     (case j of
        JInt i \<Rightarrow> Inr (f64_of_int i)
      | JUInt n \<Rightarrow> Inr (f64_of_nat n)
      | JFloat d \<Rightarrow> Inr d
      | _ \<Rightarrow> Inl (Json_type_error 302))"

text \<open>
  \<open>get<int>()\<close> also takes a boolean, \<open>get<std::size_t>()\<close>, which reads the library's own unsigned
  type, does not; integers wrap to the width, a double outside the range is undefined behaviour.
\<close>

definition wrap_int32 :: "int \<Rightarrow> int" where
  "wrap_int32 i = (i + 2 ^ 31) mod 2 ^ 32 - 2 ^ 31"

definition get_int :: "json \<Rightarrow> int result" where
  "get_int j =
     (case j of
        JInt i \<Rightarrow> Inr (wrap_int32 i)
      | JUInt n \<Rightarrow> Inr (wrap_int32 (int n))
      | JBool b \<Rightarrow> Inr (if b then 1 else 0)
      | JFloat d \<Rightarrow>
          if f64_finite d \<and> - (2 ^ 31) \<le> f64_trunc d \<and> f64_trunc d < 2 ^ 31
          then Inr (f64_trunc d) else Inl Undefined_behaviour
      | _ \<Rightarrow> Inl (Json_type_error 302))"

definition get_size :: "json \<Rightarrow> nat result" where
  "get_size j =
     (case j of
        JInt i \<Rightarrow> Inr (nat (i mod 2 ^ 64))
      | JUInt n \<Rightarrow> Inr n
      | JFloat d \<Rightarrow>
          if f64_finite d \<and> 0 \<le> f64_trunc d \<and> f64_trunc d < 2 ^ 64
          then Inr (nat (f64_trunc d)) else Inl Undefined_behaviour
      | _ \<Rightarrow> Inl (Json_type_error 302))"

text \<open>\<open>value(key, default)\<close> of \<open>nlohmann::json\<close>.\<close>

definition jvalue :: "json \<Rightarrow> string \<Rightarrow> (json \<Rightarrow> 'a result) \<Rightarrow> 'a \<Rightarrow> 'a result" where
  "jvalue j key get d =
     (case j of
        JObject kvs \<Rightarrow> (case map_of kvs key of Some v \<Rightarrow> get v | None \<Rightarrow> Inr d)
      | _ \<Rightarrow> Inl (Json_type_error 306))"

text \<open>What a range-\<open>for\<close> over a value visits: a primitive is its own single element.\<close>

definition elements :: "json \<Rightarrow> json list" where
  "elements j =
     (case j of JNull \<Rightarrow> [] | JArray js \<Rightarrow> js | JObject kvs \<Rightarrow> map snd kvs | _ \<Rightarrow> [j])"

definition object_members :: "json \<Rightarrow> (string \<times> json) list" where
  "object_members j = (case j of JObject kvs \<Rightarrow> kvs | _ \<Rightarrow> [])"

text \<open>\<open>object[key] = value\<close>, keeping the keys sorted.\<close>

fun obj_put :: "string \<Rightarrow> json \<Rightarrow> (string \<times> json) list \<Rightarrow> (string \<times> json) list" where
  "obj_put k v [] = [(k, v)]"
| "obj_put k v ((k', v') # kvs) =
     (if k < k' then (k, v) # (k', v') # kvs
      else if k = k' then (k, v) # kvs
      else (k', v') # obj_put k v kvs)"

definition make_object :: "(string \<times> json) list \<Rightarrow> json" where
  "make_object kvs = JObject (fold (\<lambda>(k, v). obj_put k v) kvs [])"

section \<open>Lemmas\<close>

lemma set_obj_put: "fst ` set (obj_put k v kvs) = insert k (fst ` set kvs)"
  by (induction k v kvs rule: obj_put.induct) (simp_all add: insert_commute)

lemma sorted_obj_put:
  "sorted_wrt (<) (map fst kvs) \<Longrightarrow> sorted_wrt (<) (map fst (obj_put k v kvs))"
proof (induction kvs)
  case (Cons a kvs)
  obtain k' v' where a: "a = (k', v')" by force
  have "\<forall>x \<in> fst ` set (obj_put k v kvs). k' < x" if "\<not> k < k'" "k \<noteq> k'"
    using Cons.prems that unfolding set_obj_put by (auto simp: a)
  with Cons show ?case by (auto simp: a)
qed simp

lemma map_of_obj_put:
  "sorted_wrt (<) (map fst kvs) \<Longrightarrow> map_of (obj_put k v kvs) = (map_of kvs)(k \<mapsto> v)"
  by (induction kvs) (auto simp: fun_eq_iff)

lemma size_member [termination_simp]: "(k, v) \<in> set kvs \<Longrightarrow> size v < Suc (size_list (size_prod f size) kvs)"
  by (induction kvs) auto

lemma member_size_le: "map_of kvs k = Some v \<Longrightarrow> size v \<le> size_list (size_prod f size) kvs"
  using size_member [of k v kvs f] by (auto dest: map_of_SomeD simp: less_Suc_eq_le)

lemma jat_eq_Inr: "jat j k = Inr v \<longleftrightarrow> (\<exists>kvs. j = JObject kvs \<and> map_of kvs k = Some v)"
  by (auto simp: jat_def split: json.splits option.splits)

lemma jfind_JObject [simp]: "jfind (JObject kvs) k = map_of kvs k"
  by (simp add: jfind_def)

lemma jat_JObject [simp]:
  "jat (JObject kvs) k = (case map_of kvs k of Some v \<Rightarrow> Inr v | None \<Rightarrow> Inl (Json_out_of_range 403))"
  by (simp add: jat_def)

lemma elements_simps [simp]:
  "elements JNull = []" "elements (JArray js) = js" "elements (JObject kvs) = map snd kvs"
  by (simp_all add: elements_def)

lemma get_string_simps [simp]: "get_string (JString s) = Inr s"
  by (simp add: get_string_def)

lemma get_string_eq_Inr [simp]: "get_string j = Inr s \<longleftrightarrow> j = JString s"
  by (cases j) (auto simp: get_string_def)

lemma jat_size: "jat j k = Inr v \<Longrightarrow> size v < size j"
  by (auto simp: jat_eq_Inr less_Suc_eq_le dest!: member_size_le)

lemma elements_size: "v \<in> set (elements j) \<Longrightarrow> size v \<le> size j"
proof (cases j)
  case (JArray js)
  assume "v \<in> set (elements j)"
  then have "size v < Suc (size_list size js)" using JArray size_list_estimation' [of v js "size v" size] by simp
  then show ?thesis using JArray by simp
next
  case (JObject kvs)
  assume "v \<in> set (elements j)"
  then obtain k where "(k, v) \<in> set kvs" using JObject by auto
  then show ?thesis using JObject size_member [of k v kvs] by (simp add: less_imp_le)
qed (auto simp: elements_def)

end
