(* ===== verification/Ecma_Number.thy ===== *)
theory Ecma_Number
  imports Json_Value
begin

text \<open>
  \<open>EcmaNumberToString\<close> of \<open>operation_hash.cpp\<close>: the ECMAScript rendering of a double, laid out
  from the digits and the exponent that \<open>std::to_chars\<close> prints. The lemmas give the alphabet of
  its results, on which the unambiguity of the canonical JSON text rests.
\<close>

section \<open>The printer\<close>

text \<open>The four layouts of ECMAScript \<open>Number::toString\<close>, for the value \<open>digits * 10^(pp - count)\<close>.\<close>

definition ecma_layout :: "string \<Rightarrow> int \<Rightarrow> string" where
  "ecma_layout digits pointPosition =
     (let digitCount = int (length digits) in
      if digitCount \<le> pointPosition \<and> pointPosition \<le> 21
      then digits @ replicate (nat (pointPosition - digitCount)) CHR ''0''
      else if 0 < pointPosition \<and> pointPosition \<le> 21
      then List.take (nat pointPosition) digits @ ''.'' @ List.drop (nat pointPosition) digits
      else if -6 < pointPosition \<and> pointPosition \<le> 0
      then ''0.'' @ replicate (nat (- pointPosition)) CHR ''0'' @ digits
      else (let mantissa = (if digitCount = 1 then digits
                            else List.take 1 digits @ ''.'' @ List.drop 1 digits);
                scientificExponent = pointPosition - 1
            in mantissa @ ''e'' @ (if scientificExponent < 0 then ''-'' else ''+'') @
               to_string_int \<bar>scientificExponent\<bar>))"

definition EcmaNumberToString :: "f64 \<Rightarrow> string result" where
  "EcmaNumberToString value =
     (if \<not> f64_finite value
      then Inl (Runtime_error ''operation hash cannot serialize a non-finite number'')
      else if f64_eq value 0 then Inr ''0''
      else
        let negative = f64_less value 0;
            sign = (if negative then ''-'' else '''');
            magnitude = (if negative then f64_neg value else value)
        in case to_chars_scientific magnitude of
             None \<Rightarrow> Inl (Runtime_error ''operation hash number formatting overflowed its buffer'')
           | Some scientific \<Rightarrow>
               let exponentPos = length (takeWhile (\<lambda>c. c \<noteq> CHR ''e'') scientific);
                   digits = filter (\<lambda>c. c \<noteq> CHR ''.'') (List.take exponentPos scientific)
               in case stoi (List.drop (exponentPos + 1) scientific) of
                    None \<Rightarrow> Inl (Invalid_argument ''stoi'')
                  | Some exponent \<Rightarrow> Inr (sign @ ecma_layout digits (exponent + 1)))"

section \<open>The alphabet of numbers\<close>

definition number_chars :: "char set" where
  "number_chars = insert (CHR ''.'') (insert (CHR ''e'') (insert (CHR ''+'')
     (insert (CHR ''-'') decimal_digits)))"

lemma decimal_digits_number [intro]: "c \<in> decimal_digits \<Longrightarrow> c \<in> number_chars"
  by (simp add: number_chars_def)

lemma number_chars_simps [simp]:
  "CHR ''.'' \<in> number_chars" "CHR ''e'' \<in> number_chars" "CHR ''+'' \<in> number_chars"
  "CHR ''-'' \<in> number_chars" "CHR ''0'' \<in> number_chars"
  by (simp_all add: number_chars_def decimal_digits_def)

lemma set_to_string_int: "set (to_string_int i) \<subseteq> number_chars"
  using set_decimal by (auto simp: to_string_int_def)

lemma set_ecma_layout:
  "set digits \<subseteq> decimal_digits \<Longrightarrow> set (ecma_layout digits pp) \<subseteq> number_chars"
  using set_to_string_int [of "\<bar>pp - 1\<bar>"]
  by (auto simp: ecma_layout_def Let_def dest: in_set_takeD in_set_dropD)

lemma ecma_layout_nonempty: "digits \<noteq> [] \<Longrightarrow> ecma_layout digits pp \<noteq> []"
  by (auto simp: ecma_layout_def Let_def)

lemma set_strip_zeros: "set (strip_zeros s) \<subseteq> set s"
  by (auto simp: strip_zeros_def dest: set_dropWhileD)

lemma decimal_digits_no_e [simp]: "CHR ''e'' \<notin> decimal_digits" "CHR ''.'' \<notin> decimal_digits"
  by (simp_all add: decimal_digits_def)

text \<open>The parts that the code reads out of the scientific string.\<close>

definition scientific_digits :: "string \<Rightarrow> string" where
  "scientific_digits s =
     filter (\<lambda>c. c \<noteq> CHR ''.'') (List.take (length (takeWhile (\<lambda>c. c \<noteq> CHR ''e'') s)) s)"

lemma scientific_digits_alt:
  "scientific_digits s = filter (\<lambda>c. c \<noteq> CHR ''.'') (takeWhile (\<lambda>c. c \<noteq> CHR ''e'') s)"
  by (simp add: scientific_digits_def takeWhile_eq_take [symmetric])

lemma scientific_digits_string:
  "scientific_digits (scientific_string n q) =
     (if strip_zeros (decimal n) = [] then ''0'' else strip_zeros (decimal n))"
proof (cases "strip_zeros (decimal n)")
  case Nil
  then show ?thesis by (simp add: scientific_string_def scientific_digits_alt)
next
  case (Cons d ds)
  then have "set (d # ds) \<subseteq> decimal_digits" using set_strip_zeros [of "decimal n"] set_decimal by auto
  then have *: "\<forall>c \<in> set (d # ds). c \<noteq> CHR ''e'' \<and> c \<noteq> CHR ''.''"
    using decimal_digits_no_e by blast
  then have "takeWhile (\<lambda>c. c \<noteq> CHR ''e'') (ds @ CHR ''e'' # r) = ds" for r
    by (subst takeWhile_append2) auto
  moreover have "filter (\<lambda>c. c \<noteq> CHR ''.'') ds = ds" using * by (intro filter_True) auto
  ultimately show ?thesis using Cons *
    by (auto simp: scientific_string_def scientific_digits_alt)
qed

lemma set_scientific_digits: "set (scientific_digits (scientific_string n q)) \<subseteq> decimal_digits"
  using set_strip_zeros [of "decimal n"] set_decimal [of n]
  unfolding scientific_digits_string by (auto simp: decimal_digits_def)

lemma EcmaNumberToString_alphabet:
  assumes "EcmaNumberToString v = Inr s"
  shows "s \<noteq> [] \<and> set s \<subseteq> number_chars"
proof (cases "f64_eq v 0")
  case True
  then show ?thesis using assms by (auto simp: EcmaNumberToString_def split: if_splits)
next
  case False
  let ?m = "if f64_less v 0 then f64_neg v else v"
  from assms False obtain sc e where sc: "to_chars_scientific ?m = Some sc"
    and s: "s = (if f64_less v 0 then ''-'' else '''') @ ecma_layout (scientific_digits sc) (e + 1)"
    by (auto simp: EcmaNumberToString_def scientific_digits_def Let_def
        split: if_splits option.splits)
  from sc obtain n q where "sc = scientific_string n q" by (auto simp: to_chars_scientific_def)
  then have "set (scientific_digits sc) \<subseteq> decimal_digits" and "scientific_digits sc \<noteq> []"
    using set_scientific_digits [of n q] scientific_digits_string [of n q] by auto
  then show ?thesis using set_ecma_layout ecma_layout_nonempty unfolding s by auto
qed

section \<open>Evaluation\<close>

lemma EcmaNumberToString_positive:
  assumes "f64_finite v" "\<not> f64_eq v 0" "\<not> f64_less v 0" "to_chars_scientific v = Some sc"
    and "stoi (List.drop (length (takeWhile (\<lambda>c. c \<noteq> CHR ''e'') sc) + 1) sc) = Some e"
  shows "EcmaNumberToString v = Inr (ecma_layout (scientific_digits sc) (e + 1))"
  using assms by (simp add: EcmaNumberToString_def scientific_digits_def)

lemma EcmaNumberToString_three: "EcmaNumberToString 0x4008000000000000 = Inr ''3''"
  by (subst EcmaNumberToString_positive [where sc = "''3e+00''" and e = 0])
     (simp_all add: to_chars_eval scientific_digits_def ecma_layout_def)

end
