(* ===== verification/Selector_Print.thy ===== *)
theory Selector_Print
  imports Ecma_Number
begin

text \<open>
  The canonical selector printer of \<open>selector_print.cpp\<close>: a selector AST as JSON, printed source
  by source and filter by filter, with trailing arguments that equal their catalog default left
  out. The recursion over a nested query follows the JSON value, whose members are smaller.
\<close>

section \<open>Leaves\<close>

definition quote_char :: char where "quote_char = CHR 0x22"

definition backslash :: char where "backslash = CHR 0x5C"

definition PrintString :: "string \<Rightarrow> string" where
  "PrintString value =
     quote_char # concat (map (\<lambda>c. if c = backslash \<or> c = quote_char then [backslash, c] else [c]) value)
     @ [quote_char]"

definition PrintNumber :: "json \<Rightarrow> string result" where
  "PrintNumber value = rbind (get_double value) EcmaNumberToString"

definition join_comma :: "string list \<Rightarrow> string" where
  "join_comma xs =
     (case xs of [] \<Rightarrow> [] | x # rest \<Rightarrow> x @ concat (map (\<lambda>y. CHR '','' # y) rest))"

record ParamDefault =
  optional_ok :: bool
  hasDefault :: bool
  defaultValue :: f64

definition no_default :: ParamDefault where
  "no_default = \<lparr>optional_ok = False, hasDefault = False, defaultValue = 0\<rparr>"

definition with_default :: "f64 \<Rightarrow> ParamDefault" where
  "with_default d = \<lparr>optional_ok = True, hasDefault = True, defaultValue = d\<rparr>"

text \<open>The doubles 1.0, 0.5 and 1e-3.\<close>

definition dbl_one :: f64 where "dbl_one = 0x3FF0000000000000"
definition dbl_half :: f64 where "dbl_half = 0x3FE0000000000000"
definition dbl_milli :: f64 where "dbl_milli = 0x3F50624DD2F1A9FC"

definition FilterDefaults :: "(string \<times> ParamDefault list) list" where
  "FilterDefaults =
     [(''normal'', [no_default, with_default dbl_one]),
      (''parallel'', [no_default, with_default dbl_one]),
      (''perpendicular'', [no_default, with_default dbl_one]),
      (''at'', [no_default, with_default dbl_half]),
      (''onGround'', [with_default dbl_milli]),
      (''largest'', [with_default dbl_one]),
      (''smallest'', [with_default dbl_one]),
      (''radius'', [no_default, with_default dbl_milli]),
      (''smooth'', [with_default dbl_one])]"

section \<open>Sources\<close>

definition member_string :: "json \<Rightarrow> string \<Rightarrow> string result" where
  "member_string j k = rbind (jat j k) get_string"

definition PrintSource :: "json \<Rightarrow> string result" where
  "PrintSource source =
     rbind (member_string source ''source'') (\<lambda>tag.
       if tag = ''op'' \<or> tag = ''body'' \<or> tag = ''sketch'' then
         rbind (member_string source ''opId'') (\<lambda>i. Inr (tag @ ''('' @ i @ '')''))
       else if tag = ''tag'' then
         rbind (member_string source ''tag'') (\<lambda>t. Inr (''tag('' @ PrintString t @ '')''))
       else if tag = ''token'' then
         rbind (member_string source ''token'') (\<lambda>t. Inr (''token('' @ PrintString t @ '')''))
       else if tag = ''world'' then
         rbind (member_string source ''world'') (\<lambda>w. Inr (''world('' @ w @ '')''))
       else if tag = ''all'' then Inr ''all''
       else Inl (Invalid_argument (''PrintSelector: unknown source '' @ tag)))"

section \<open>Arguments, filters, queries\<close>

definition print_vector :: "json \<Rightarrow> string result" where
  "print_vector j =
     rbind (rmap PrintNumber (elements j)) (\<lambda>cs. Inr (''['' @ join_comma cs @ '']''))"

definition print_direction :: "json \<Rightarrow> string result" where
  "print_direction value =
     rbind (member_string value ''form'') (\<lambda>form.
       if form = ''axis'' then
         rbind (rbind (jat value ''sign'') get_int) (\<lambda>sign.
         rbind (member_string value ''axis'') (\<lambda>axis.
           Inr ((if sign = 1 then ''+'' else ''-'') @ axis)))
       else rbind (jat value ''vector'') print_vector)"

text \<open>One argument is a number equal to the catalog default of its position.\<close>

definition equals_default :: "ParamDefault \<Rightarrow> json \<Rightarrow> bool result" where
  "equals_default param arg =
     (if optional_ok param \<and> hasDefault param then
        rbind (member_string arg ''arg'') (\<lambda>t.
          if t = ''number'' then
            rbind (rbind (jat arg ''value'') get_double) (\<lambda>d. Inr (f64_eq d (defaultValue param)))
          else Inr False)
      else Inr False)"

function omit_defaults :: "ParamDefault list \<Rightarrow> json list \<Rightarrow> json list result" where
  "omit_defaults params args =
     (if args = [] then Inr []
      else let index = length args - 1 in
        if length params \<le> index then Inr args
        else rbind (equals_default (params ! index) (args ! index)) (\<lambda>omit.
               if omit then omit_defaults params (butlast args) else Inr args))"
  by pat_completeness auto
termination
  by (relation "measure (\<lambda>(params, args). length args)") auto

declare omit_defaults.simps [simp del]

definition printed_args :: "string \<Rightarrow> json list \<Rightarrow> json list result" where
  "printed_args name args =
     (case map_of FilterDefaults name of
        None \<Rightarrow> Inr args
      | Some params \<Rightarrow> omit_defaults params args)"

lemma omit_defaults_prefix:
  "omit_defaults params args = Inr args' \<Longrightarrow> \<exists>n. args' = List.take n args"
proof (induction params args rule: omit_defaults.induct)
  case (1 params args)
  show ?case
  proof (cases "args = [] \<or> length params \<le> length args - 1")
    case True
    then have "args' = args"
      using "1.prems" by (subst (asm) omit_defaults.simps) (auto simp: Let_def split: if_splits)
    then show ?thesis by (intro exI [of _ "length args"]) simp
  next
    case False
    then obtain b where b: "equals_default (params ! (length args - 1)) (args ! (length args - 1)) = Inr b"
      and rest: "(if b then omit_defaults params (butlast args) else Inr args) = Inr args'"
      using "1.prems" by (auto simp: omit_defaults.simps [of params args] Let_def rbind_eq_Inr)
    show ?thesis
    proof (cases b)
      case True
      then obtain n where "args' = List.take n (butlast args)"
        using "1.IH" [OF _ refl _ b True] False rest True by auto
      then show ?thesis by (metis butlast_conv_take take_take)
    next
      case False
      then show ?thesis using rest by (auto intro: exI [of _ "length args"])
    qed
  qed
qed

lemma printed_args_subset: "printed_args name args = Inr args' \<Longrightarrow> set args' \<subseteq> set args"
  by (auto simp: printed_args_def split: option.splits dest: omit_defaults_prefix in_set_takeD)

lemma element_of_member_size: "jat j k = Inr v \<Longrightarrow> x \<in> set (elements v) \<Longrightarrow> size x < size j"
  using jat_size elements_size by fastforce

function PrintSelectorImpl :: "json \<Rightarrow> string result"
  and PrintFilter :: "json \<Rightarrow> string result"
  and PrintArg :: "json \<Rightarrow> string result" where
  "PrintSelectorImpl query =
     rbind (jat query ''scope'') (\<lambda>scope.
     rbind (rmap PrintSource (elements scope)) (\<lambda>sources.
     rbind (member_string query ''kind'') (\<lambda>kind.
     rbind (jat query ''filters'') (\<lambda>filters.
     rbind (rmap PrintFilter (elements filters)) (\<lambda>fs.
       Inr (kind @ ''('' @ join_comma sources @ '')'' @ concat (map (\<lambda>f. CHR ''.'' # f) fs)))))))"
| "PrintFilter flt =
     rbind (member_string flt ''name'') (\<lambda>name.
     rbind (jat flt ''args'') (\<lambda>as.
     rbind (printed_args name (elements as)) (\<lambda>args.
     rbind (rmap PrintArg args) (\<lambda>ss.
       Inr (name @ ''('' @ join_comma ss @ '')'')))))"
| "PrintArg arg =
     rbind (member_string arg ''arg'') (\<lambda>tag.
       if tag = ''number'' then rbind (jat arg ''value'') PrintNumber
       else if tag = ''string'' then
         rbind (member_string arg ''value'') (\<lambda>s. Inr (PrintString s))
       else if tag = ''ident'' \<or> tag = ''axis'' then member_string arg ''value''
       else if tag = ''direction'' then rbind (jat arg ''value'') print_direction
       else if tag = ''point'' then rbind (jat arg ''value'') print_vector
       else if tag = ''query'' then rbind (jat arg ''value'') PrintSelectorImpl
       else Inl (Invalid_argument (''PrintSelector: unknown arg '' @ tag)))"
  by pat_completeness auto
termination
proof (relation "measure (\<lambda>x. case x of Inl q \<Rightarrow> size q | Inr y \<Rightarrow> (case y of Inl f \<Rightarrow> size f | Inr a \<Rightarrow> size a))")
qed (auto dest: jat_size element_of_member_size printed_args_subset)

declare PrintSelectorImpl.simps [simp del] PrintFilter.simps [simp del] PrintArg.simps [simp del]

definition PrintSelector :: "json \<Rightarrow> string result" where
  "PrintSelector ast =
     (if \<not> is_object ast then Inl (Invalid_argument ''PrintSelector requires an AST object'')
      else PrintSelectorImpl ast)"

end
