(* ===== verification/Canonical_Form.thy ===== *)
theory Canonical_Form
  imports Operation_Hash
begin

text \<open>
  The canonical JSON text is unambiguous: \<open>CanonicalJson\<close> of a value is the text of its tree, in
  which a number is the string it prints as, and two trees with the same text are equal. The
  proof reads the text as a prefix code: a string ends at its closing quote, a number at the
  first character outside the alphabet of numbers.
\<close>

section \<open>The tree of a value\<close>

datatype jtree =
    TNull
  | TBool bool
  | TNumber string
  | TString string
  | TArray "jtree list"
  | TObject "(string \<times> jtree) list"

fun json_tree :: "json \<Rightarrow> jtree result" where
  "json_tree JNull = Inr TNull"
| "json_tree (JBool b) = Inr (TBool b)"
| "json_tree (JString s) = Inr (TString s)"
| "json_tree (JInt i) = rbind (EcmaNumberToString (f64_of_int i)) (\<lambda>s. Inr (TNumber s))"
| "json_tree (JUInt n) = rbind (EcmaNumberToString (f64_of_nat n)) (\<lambda>s. Inr (TNumber s))"
| "json_tree (JFloat d) = rbind (EcmaNumberToString d) (\<lambda>s. Inr (TNumber s))"
| "json_tree (JArray js) = rbind (rmap json_tree js) (\<lambda>ts. Inr (TArray ts))"
| "json_tree (JObject kvs) =
     rbind (rmap (\<lambda>(k, v). rbind (json_tree v) (\<lambda>t. Inr (k, t))) kvs) (\<lambda>ts. Inr (TObject ts))"

fun tree_text :: "jtree \<Rightarrow> string" where
  "tree_text TNull = ''null''"
| "tree_text (TBool b) = (if b then ''true'' else ''false'')"
| "tree_text (TNumber s) = s"
| "tree_text (TString s) = JcsString s"
| "tree_text (TArray ts) = ''['' @ join_comma (map tree_text ts) @ '']''"
| "tree_text (TObject kts) =
     ''{'' @ join_comma (map (\<lambda>(k, t). JcsString k @ '':'' @ tree_text t) kts) @ ''}''"

fun tree_ok :: "jtree \<Rightarrow> bool" where
  "tree_ok (TNumber s) = (s \<noteq> [] \<and> set s \<subseteq> number_chars)"
| "tree_ok (TArray ts) = list_all tree_ok ts"
| "tree_ok (TObject kts) = list_all (\<lambda>(k, t). tree_ok t) kts"
| "tree_ok _ = True"

lemma rmap_map: "rmap f (map g xs) = rmap (\<lambda>x. f (g x)) xs"
  by (induction xs) auto

lemma rmap_bind_text:
  "rmap (\<lambda>x. rbind (f x) (\<lambda>t. Inr (g t))) xs = rbind (rmap f xs) (\<lambda>ts. Inr (map g ts))"
  by (induction xs) (auto simp: rbind_def split: sum.splits)

lemma json_tree_ok: "json_tree j = Inr t \<Longrightarrow> tree_ok t"
proof (induction j arbitrary: t rule: json_tree.induct)
  case (7 js)
  then obtain ts where "t = TArray ts" "rmap json_tree js = Inr ts" by (auto simp: rbind_eq_Inr)
  then show ?case using "7.IH" rmap_element [of json_tree js ts] by (force simp: list_all_iff)
next
  case (8 kvs)
  let ?f = "\<lambda>(k, v). rbind (json_tree v) (\<lambda>t. Inr (k, t))"
  from "8.prems" obtain kts where t: "t = TObject kts" and kts: "rmap ?f kvs = Inr kts"
    by (auto simp: rbind_eq_Inr)
  have "tree_ok w" if "(k, w) \<in> set kts" for k w
    using rmap_element [OF kts that] "8.IH" by (force simp: rbind_eq_Inr)
  then show ?case by (auto simp: t list_all_iff)
qed (auto simp: rbind_eq_Inr dest: EcmaNumberToString_alphabet)

lemma sort_sorted_keys: "sorted_wrt (<) ks \<Longrightarrow> sort ks = (ks :: string list)"
  by (rule sort_key_id_if_sorted) (simp add: strict_sorted_iff)

lemma map_of_sorted_keys:
  "sorted_wrt (<) (map fst kvs) \<Longrightarrow> (k, v) \<in> set kvs \<Longrightarrow> map_of kvs (k :: string) = Some v"
  by (rule map_of_is_SomeI) (auto simp: strict_sorted_iff)

lemma CanonicalJson_text:
  "json_ok j \<Longrightarrow> CanonicalJson j = rbind (json_tree j) (\<lambda>t. Inr (tree_text t))"
proof (induction j rule: json_tree.induct)
  case (7 js)
  then have "rmap CanonicalJson js = rmap (\<lambda>j. rbind (json_tree j) (\<lambda>t. Inr (tree_text t))) js"
    by (intro rmap_cong) (auto simp: list_all_iff)
  then show ?case by (simp add: rmap_bind_text rbind_assoc)
next
  case (8 kvs)
  let ?f = "\<lambda>(k, v). rbind (json_tree v) (\<lambda>t. Inr (k, t))"
  let ?g = "\<lambda>(k, t). JcsString k @ '':'' @ tree_text t"
  have sorted: "sorted_wrt (<) (map fst kvs)" using "8.prems" by simp
  have "rmap (\<lambda>key. rbind (jat (JObject kvs) key) (\<lambda>v.
            rbind (CanonicalJson v) (\<lambda>s. Inr (JcsString key @ '':'' @ s)))) (map fst kvs)
      = rmap (\<lambda>kv. rbind (?f kv) (\<lambda>t. Inr (?g t))) kvs"
  proof (unfold rmap_map, rule rmap_cong [OF refl])
    fix kv assume kv: "kv \<in> set kvs"
    obtain k v where [simp]: "kv = (k, v)" by force
    have "map_of kvs k = Some v" using map_of_sorted_keys [OF sorted] kv by simp
    moreover have "CanonicalJson v = rbind (json_tree v) (\<lambda>t. Inr (tree_text t))"
      using "8.IH" [OF kv] "8.prems" kv by (auto simp: list_all_iff)
    ultimately show "rbind (jat (JObject kvs) (fst kv)) (\<lambda>v. rbind (CanonicalJson v)
          (\<lambda>s. Inr (JcsString (fst kv) @ '':'' @ s))) = rbind (?f kv) (\<lambda>t. Inr (?g t))"
      by (simp add: rbind_assoc)
  qed
  then show ?case
    by (simp add: sort_sorted_keys [OF sorted] rmap_bind_text rbind_assoc del: jat_JObject)
qed (auto simp: rbind_def split: sum.splits)

section \<open>The text is a prefix code\<close>

definition ends_number :: "string \<Rightarrow> bool" where
  "ends_number r \<longleftrightarrow> r = [] \<or> hd r \<notin> number_chars"

text \<open>\<open>f\<close> prints \<open>x\<close> so that, before a text that does not go on a number, \<open>x\<close> can be read back.\<close>

definition readable :: "('a \<Rightarrow> string) \<Rightarrow> 'a \<Rightarrow> 'a \<Rightarrow> bool" where
  "readable f x y \<longleftrightarrow> (\<forall>r r'. ends_number r \<longrightarrow> ends_number r' \<longrightarrow>
     f x @ r = f y @ r' \<longrightarrow> x = y \<and> r = r')"

lemma ends_number_simps [simp]:
  "ends_number []" "ends_number (CHR '','' # r)" "ends_number (CHR '']'' # r)"
  "ends_number (CHR 0x7D # r)" "ends_number (CHR '':'' # r)"
  by (simp_all add: ends_number_def number_chars_def decimal_digits_def)

lemma readable_tail:
  assumes "\<forall>x \<in> set xs. \<forall>y \<in> set ys. readable f x y" and "e \<in> {CHR '']'', CHR 0x7D}"
    and "concat (map (\<lambda>x. CHR '','' # f x) xs) @ e # r = concat (map (\<lambda>x. CHR '','' # f x) ys) @ e # r'"
  shows "xs = ys \<and> r = r'"
  using assms
proof (induction xs arbitrary: ys)
  case Nil
  then show ?case by (cases ys) auto
next
  case (Cons x xs)
  then obtain y ys' where ys: "ys = y # ys'" by (cases ys) auto
  let ?t = "\<lambda>zs r. concat (map (\<lambda>x. CHR '','' # f x) zs) @ e # r"
  have "ends_number (?t zs r)" for zs r using Cons.prems(2) by (cases zs) auto
  moreover have "f x @ ?t xs r = f y @ ?t ys' r'" using Cons.prems(3) by (simp add: ys)
  moreover have "readable f x y" using Cons.prems(1) by (simp add: ys)
  ultimately have "x = y" "?t xs r = ?t ys' r'" unfolding readable_def by blast+
  with Cons.IH [of ys'] Cons.prems(1,2) show ?case by (simp add: ys)
qed

lemma readable_list:
  assumes read: "\<forall>x \<in> set xs. \<forall>y \<in> set ys. readable f x y" and e: "e \<in> {CHR '']'', CHR 0x7D}"
    and start: "\<forall>x \<in> set xs \<union> set ys. f x \<noteq> [] \<and> hd (f x) \<noteq> e"
    and eq: "join_comma (map f xs) @ e # r = join_comma (map f ys) @ e # r'"
  shows "xs = ys \<and> r = r'"
proof (cases xs)
  case Nil
  then show ?thesis using eq start by (cases ys) (auto simp: join_comma_def hd_append neq_Nil_conv)
next
  case (Cons x xs')
  show ?thesis
  proof (cases ys)
    case Nil
    then show ?thesis using eq start Cons by (auto simp: join_comma_def neq_Nil_conv)
  next
    case y: (Cons y ys')
    let ?t = "\<lambda>zs r. concat (map (\<lambda>x. CHR '','' # f x) zs) @ e # r"
    have "ends_number (?t zs r)" for zs r using e by (cases zs) auto
    moreover have "f x @ ?t xs' r = f y @ ?t ys' r'"
      using eq by (simp add: Cons y join_comma_def comp_def)
    moreover have "readable f x y" using read by (simp add: Cons y)
    ultimately have "x = y" "?t xs' r = ?t ys' r'" unfolding readable_def by blast+
    with readable_tail [of xs' ys' f e r r'] read e show ?thesis by (simp add: Cons y)
  qed
qed

subsection \<open>Strings\<close>

lemma char_code_eq [simp]: "char_code c = char_code d \<longleftrightarrow> c = d"
  by (simp add: char_code_def)

lemma jcs_char_read: "jcs_char c @ r = jcs_char d @ r' \<Longrightarrow> c = d \<and> r = r'"
  using length_hex_byte [of "char_code c"] length_hex_byte [of "char_code d"]
  by (auto simp: jcs_char_def backslash_def quote_char_def append_eq_append_conv split: if_splits)

lemma jcs_char_start: "jcs_char c \<noteq> [] \<and> hd (jcs_char c) \<noteq> quote_char"
  by (auto simp: jcs_char_def backslash_def quote_char_def)

lemma jcs_body_read:
  "concat (map jcs_char s) @ quote_char # r = concat (map jcs_char t) @ quote_char # r' \<Longrightarrow> s = t \<and> r = r'"
proof (induction s arbitrary: t)
  case Nil
  show ?case
  proof (cases t)
    case (Cons d t')
    then show ?thesis using Nil jcs_char_start [of d] by (cases "jcs_char d") auto
  qed (use Nil in simp)
next
  case (Cons c s)
  show ?case
  proof (cases t)
    case Nil
    then show ?thesis using Cons.prems jcs_char_start [of c] by (auto simp: neq_Nil_conv)
  next
    case t: (Cons d t')
    then show ?thesis using jcs_char_read [of c _ d] Cons by fastforce
  qed
qed

lemma JcsString_read: "JcsString s @ r = JcsString t @ r' \<Longrightarrow> s = t \<and> r = r'"
  using jcs_body_read [of s r t r'] by (simp add: JcsString_def)

lemma JcsString_start [simp]: "JcsString s \<noteq> []" "hd (JcsString s) = quote_char"
  by (simp_all add: JcsString_def)

subsection \<open>Trees\<close>

lemma number_read:
  assumes "set s \<subseteq> number_chars" "set t \<subseteq> number_chars" "ends_number r" "ends_number r'"
    "s @ r = t @ r'"
  shows "s = t \<and> r = r'"
proof -
  have "takeWhile (\<lambda>c. c \<in> number_chars) (s @ r) = s" if "set s \<subseteq> number_chars" "ends_number r" for s r
    using that by (cases r) (auto simp: ends_number_def takeWhile_append takeWhile_eq_all_conv)
  with assms show ?thesis by (metis same_append_eq)
qed

lemma not_number_chars [simp]:
  "CHR ''n'' \<notin> number_chars" "CHR ''t'' \<notin> number_chars" "CHR ''f'' \<notin> number_chars"
  "quote_char \<notin> number_chars" "CHR ''['' \<notin> number_chars" "CHR 0x7B \<notin> number_chars"
  "CHR '']'' \<notin> number_chars" "CHR 0x7D \<notin> number_chars"
  by (simp_all add: number_chars_def decimal_digits_def quote_char_def)

text \<open>The first character tells the kind of the value.\<close>

fun kind_char :: "jtree \<Rightarrow> char" where
  "kind_char TNull = CHR ''n''"
| "kind_char (TBool b) = (if b then CHR ''t'' else CHR ''f'')"
| "kind_char (TNumber s) = hd s"
| "kind_char (TString s) = quote_char"
| "kind_char (TArray ts) = CHR ''[''"
| "kind_char (TObject kts) = CHR 0x7B"

lemma tree_text_start: "tree_ok t \<Longrightarrow> tree_text t \<noteq> [] \<and> hd (tree_text t) = kind_char t"
  by (cases t) auto

lemma number_start: "tree_ok (TNumber s) \<Longrightarrow> hd s \<in> number_chars"
  by (cases s) auto

lemma tree_text_not_close: "tree_ok t \<Longrightarrow> hd (tree_text t) \<noteq> CHR '']'' \<and> hd (tree_text t) \<noteq> CHR 0x7D"
proof (cases t)
  case (TNumber s)
  moreover assume "tree_ok t"
  ultimately have "hd (tree_text t) \<in> number_chars" using number_start by simp
  then show ?thesis using not_number_chars(7,8) by metis
qed (auto simp: quote_char_def)

lemma same_kind:
  assumes "tree_ok t" "tree_ok u" "tree_text t @ r = tree_text u @ r'"
  shows "kind_char t = kind_char u"
  using tree_text_start [OF assms(1)] tree_text_start [OF assms(2)] assms(3)
  by (metis hd_append2)

lemma kind_char_number:
  "tree_ok t \<Longrightarrow> kind_char t \<in> number_chars \<longleftrightarrow> (\<exists>s. t = TNumber s)"
  using number_start by (cases t) auto

lemma same_number:
  "tree_ok t \<Longrightarrow> tree_ok u \<Longrightarrow> kind_char t = kind_char u \<Longrightarrow> \<nexists>s. t = TNumber s \<Longrightarrow> u \<noteq> TNumber s"
  by (metis kind_char_number)

lemma tree_text_readable: "tree_ok t \<Longrightarrow> tree_ok u \<Longrightarrow> readable tree_text t u"
proof (induction t arbitrary: u)
  case TNull
  show ?case unfolding readable_def
  proof (intro allI impI)
    fix r r' assume eq: "tree_text TNull @ r = tree_text u @ r'"
    have k: "kind_char u = CHR ''n''" using same_kind [OF TNull eq] by simp
    then have "\<nexists>s. u = TNumber s" using kind_char_number [OF TNull(2)] not_number_chars(1) by metis
    with k have "u = TNull" by (cases u) (auto simp: quote_char_def split: if_splits)
    then show "TNull = u \<and> r = r'" using eq by simp
  qed
next
  case (TBool b)
  show ?case unfolding readable_def
  proof (intro allI impI)
    fix r r' assume eq: "tree_text (TBool b) @ r = tree_text u @ r'"
    have k: "kind_char u = (if b then CHR ''t'' else CHR ''f'')" using same_kind [OF TBool eq] by simp
    have "\<nexists>s. u = TNumber s"
      using kind_char_number [OF TBool(2)] not_number_chars(2,3) unfolding k by (metis (full_types))
    with k have "u = TBool b" by (cases u) (auto simp: quote_char_def split: if_splits)
    then show "TBool b = u \<and> r = r'" using eq by (auto split: if_splits)
  qed
next
  case (TNumber s)
  show ?case unfolding readable_def
  proof (intro allI impI)
    fix r r' assume r: "ends_number r" "ends_number r'" and eq: "tree_text (TNumber s) @ r = tree_text u @ r'"
    obtain s' where u: "u = TNumber s'"
      using same_kind [OF TNumber eq] kind_char_number [OF TNumber(1)] kind_char_number [OF TNumber(2)]
      by auto
    show "TNumber s = u \<and> r = r'"
      using number_read [of s s' r r'] TNumber r eq by (simp add: u)
  qed
next
  case (TString s)
  show ?case unfolding readable_def
  proof (intro allI impI)
    fix r r' assume eq: "tree_text (TString s) @ r = tree_text u @ r'"
    obtain s' where u: "u = TString s'"
      using same_kind [OF TString eq] same_number [OF TString same_kind [OF TString eq]]
      by (cases u) (auto simp: quote_char_def split: if_splits)
    show "TString s = u \<and> r = r'" using JcsString_read [of s r s' r'] eq by (simp add: u)
  qed
next
  case (TArray ts)
  show ?case unfolding readable_def
  proof (intro allI impI)
    fix r r' assume eq: "tree_text (TArray ts) @ r = tree_text u @ r'"
    obtain us where u: "u = TArray us"
      using same_kind [OF TArray.prems eq] same_number [OF TArray.prems same_kind [OF TArray.prems eq]]
      by (cases u) (auto simp: quote_char_def split: if_splits)
    have "\<forall>x \<in> set ts. \<forall>y \<in> set us. readable tree_text x y"
      using TArray by (auto simp: u list_all_iff)
    moreover have "\<forall>x \<in> set ts \<union> set us. tree_text x \<noteq> [] \<and> hd (tree_text x) \<noteq> CHR '']''"
      using TArray.prems tree_text_start tree_text_not_close by (auto simp: u list_all_iff)
    ultimately show "TArray ts = u \<and> r = r'"
      using readable_list [of ts us tree_text "CHR '']''" r r'] eq by (simp add: u)
  qed
next
  case (TObject kts)
  let ?f = "\<lambda>(k, t). JcsString k @ '':'' @ tree_text t"
  show ?case unfolding readable_def
  proof (intro allI impI)
    fix r r' assume eq: "tree_text (TObject kts) @ r = tree_text u @ r'"
    obtain kus where u: "u = TObject kus"
      using same_kind [OF TObject.prems eq] same_number [OF TObject.prems same_kind [OF TObject.prems eq]]
      by (cases u) (auto simp: quote_char_def split: if_splits)
    have "readable ?f x y" if "x \<in> set kts" "y \<in> set kus" for x y
    proof -
      obtain k t l w where xy: "x = (k, t)" "y = (l, w)" by force
      have tw: "readable tree_text t w"
        using TObject.IH [of x t w] TObject.prems that by (auto simp: u xy list_all_iff)
      show ?thesis unfolding readable_def
      proof (intro allI impI)
        fix r r' assume r: "ends_number r" "ends_number r'" and eq: "?f x @ r = ?f y @ r'"
        have "k = l \<and> '':'' @ tree_text t @ r = '':'' @ tree_text w @ r'"
          using JcsString_read [of k "'':'' @ tree_text t @ r" l "'':'' @ tree_text w @ r'"] eq
          by (simp add: xy)
        with tw r show "x = y \<and> r = r'" by (simp add: readable_def xy)
      qed
    qed
    moreover have "\<forall>x \<in> set kts \<union> set kus. ?f x \<noteq> [] \<and> hd (?f x) \<noteq> CHR 0x7D"
      by (auto simp: JcsString_def quote_char_def)
    ultimately show "TObject kts = u \<and> r = r'"
      using readable_list [of kts kus ?f "CHR 0x7D" r r'] eq by (simp add: u)
  qed
qed

lemma tree_text_inj: "tree_ok t \<Longrightarrow> tree_ok u \<Longrightarrow> tree_text t = tree_text u \<Longrightarrow> t = u"
  using tree_text_readable [of t u] ends_number_simps(1) unfolding readable_def by blast

section \<open>Properties\<close>

text \<open>C12. The canonical bytes are unambiguous: two values whose canonical JSON texts agree are the
  same tree, number for number by their ECMAScript spelling, string for string, key for key.\<close>

theorem CanonicalJson_injective:
  assumes "json_ok a" and "json_ok b" and "CanonicalJson a = Inr s" and "CanonicalJson b = Inr s"
  shows "\<exists>t. json_tree a = Inr t \<and> json_tree b = Inr t"
proof -
  from assms obtain t u where "json_tree a = Inr t" "tree_text t = s"
    and "json_tree b = Inr u" "tree_text u = s"
    by (auto simp: CanonicalJson_text rbind_eq_Inr)
  moreover from this have "t = u" using tree_text_inj json_tree_ok by metis
  ultimately show ?thesis by simp
qed

theorem CanonicalJson_injective_witness:
  "\<exists>t. json_tree (JObject [(''a'', JInt 3)]) = Inr t \<and>
       json_tree (JObject [(''a'', JFloat 0x4008000000000000)]) = Inr t"
proof (rule CanonicalJson_injective)
  let ?s = "CHR 0x7B # JcsString ''a'' @ '':3'' @ [CHR 0x7D]"
  have "f64_of_int 3 = 0x4008000000000000" by (simp add: f64_eval)
  then show "CanonicalJson (JObject [(''a'', JInt 3)]) = Inr ?s"
    and "CanonicalJson (JObject [(''a'', JFloat 0x4008000000000000)]) = Inr ?s"
    by (simp_all add: EcmaNumberToString_three join_comma_def)
qed simp_all

end
