(* ===== verification/Hash_Chain.thy ===== *)
theory Hash_Chain
  imports Canonical_Form
begin

text \<open>
  What the cumulative hash of \<open>operation_hash.cpp\<close> depends on: the chain is one fold of SHA-256
  over the operations' canonical bytes, so its prefixes are stable and, short of a collision
  between two of the inputs it hashes, it determines every operation; the keys that
  \<open>StripExcluded\<close> drops do not reach it, and a ref slot without a wire AST cannot.
\<close>

section \<open>The chain as a fold\<close>

definition chain_step :: "u8 list \<Rightarrow> u8 list \<Rightarrow> u8 list" where
  "chain_step hash bytes = Sha256Bytes (hash @ bytes)"

fun chain_inputs :: "u8 list \<Rightarrow> u8 list list \<Rightarrow> u8 list list" where
  "chain_inputs hash [] = []"
| "chain_inputs hash (b # bs) = (hash @ b) # chain_inputs (chain_step hash b) bs"

lemma chain_inputs_snoc: "chain_inputs h (bs @ [b]) = chain_inputs h bs @ [foldl chain_step h bs @ b]"
  by (induction bs arbitrary: h) auto

lemma cumulative_loop_eq_Inr:
  "cumulative_loop h ops = Inr hs \<Longrightarrow>
     \<exists>bs. rmap CanonicalOperationBytes ops = Inr bs \<and>
          last (HexDigest_bytes h # hs) = HexDigest_bytes (foldl chain_step h bs)"
proof (induction h ops arbitrary: hs rule: cumulative_loop.induct)
  case (2 h op ops)
  then obtain b hs' where b: "CanonicalOperationBytes op = Inr b"
    and rest: "cumulative_loop (Sha256Bytes (h @ b)) ops = Inr hs'"
    and hs: "hs = HexDigest_bytes (Sha256Bytes (h @ b)) # hs'"
    by (auto simp: rbind_eq_Inr Let_def)
  from "2.IH" [OF b refl rest] show ?case by (auto simp: b hs chain_step_def)
qed simp

lemma cumulative_loop_length: "cumulative_loop h ops = Inr hs \<Longrightarrow> length hs = length ops"
  by (induction h ops arbitrary: hs rule: cumulative_loop.induct) (auto simp: rbind_eq_Inr Let_def)

lemma cumulative_loop_take:
  "cumulative_loop h (ops @ later) = Inr hs \<Longrightarrow> cumulative_loop h ops = Inr (List.take (length ops) hs)"
proof (induction h ops arbitrary: hs rule: cumulative_loop.induct)
  case (2 h op ops)
  then show ?case by (auto simp: rbind_eq_Inr Let_def)
qed simp

lemma HexDigest_bytes_inj: "HexDigest_bytes a = HexDigest_bytes b \<Longrightarrow> a = b"
proof (induction a arbitrary: b)
  case Nil
  then show ?case by (cases b) (auto simp: HexDigest_bytes_def hex_byte_def)
next
  case (Cons x xs)
  then show ?case
    by (cases b) (auto simp: HexDigest_bytes_def append_eq_append_conv,
        auto simp: hex_byte_def hex_char_eq_iff)
qed

lemma chain_determines:
  assumes "length bs = length bs'" and "length h = 32" and "length h' = 32"
    and "foldl chain_step h bs = foldl chain_step h' bs'"
  shows "h = h' \<and> bs = bs' \<or>
    (\<exists>x \<in> set (chain_inputs h bs). \<exists>y \<in> set (chain_inputs h' bs'). x \<noteq> y \<and> Sha256Bytes x = Sha256Bytes y)"
  using assms(1,4)
proof (induction bs bs' rule: rev_induct2)
  case (4 b bs b' bs')
  let ?g = "foldl chain_step h bs" and ?g' = "foldl chain_step h' bs'"
  have len: "length ?g = 32" "length ?g' = 32"
    using assms(2,3) by (cases bs rule: rev_cases; cases bs' rule: rev_cases; simp add: chain_step_def)+
  show ?case
  proof (cases "?g @ b = ?g' @ b'")
    case True
    then have "?g = ?g'" "b = b'" using len by auto
    with 4 show ?thesis by (auto simp: chain_inputs_snoc)
  next
    case False
    moreover have "Sha256Bytes (?g @ b) = Sha256Bytes (?g' @ b')"
      using "4.prems"(2) by (simp add: chain_step_def [of ?g b] chain_step_def [of ?g' b'])
    ultimately show ?thesis by (auto simp: chain_inputs_snoc)
  qed
qed simp_all

section \<open>The root of a cache line\<close>

lemma cache_line_object:
  "cache_line_json d v = JObject [(''documentId'', JString d), (''kernelGeomVersion'', JString v),
     (''v'', JString kOperationHashVersion)]"
  by (simp add: cache_line_json_def make_object_def)

lemma cache_line_text:
  "\<exists>s. CanonicalJson (cache_line_json d v) = Inr s \<and>
       s = tree_text (TObject [(''documentId'', TString d), (''kernelGeomVersion'', TString v),
             (''v'', TString kOperationHashVersion)])"
  by (subst CanonicalJson_text) (simp_all add: cache_line_object)

definition root_input :: "string \<Rightarrow> string \<Rightarrow> u8 list" where
  "root_input d v = bytes_of (tree_text (TObject [(''documentId'', TString d),
     (''kernelGeomVersion'', TString v), (''v'', TString kOperationHashVersion)]))"

lemma CacheLineRoot_eq: "CacheLineRoot d v = Inr (Sha256Bytes (root_input d v))"
  using cache_line_text [of d v] by (auto simp: CacheLineRoot_def root_input_def Sha256OfString_def)

lemma root_input_inj: "root_input d v = root_input d' v' \<Longrightarrow> d = d' \<and> v = v'"
  unfolding root_input_def bytes_of_inj by (drule tree_text_inj [rotated 2]) simp_all

lemmas op_eval = CanonicalOperationBytes_def StripExcluded_JObject StripExcluded_JArray IsRefSlot_def
  jcontains_def kExcludedKeys_def make_object_def join_comma_def

text \<open>The members the strip drops do not reach the canonical bytes.\<close>

lemma map_of_unexcluded: "k \<notin> set kExcludedKeys \<Longrightarrow> map_of (filter (\<lambda>(k, v). k \<notin> set kExcludedKeys) kvs) k = map_of kvs k"
  by (induction kvs) auto

lemma canonical_bytes_unexcluded:
  "CanonicalOperationBytes (JObject (filter (\<lambda>(k, v). k \<notin> set kExcludedKeys) kvs)) =
   CanonicalOperationBytes (JObject kvs)"
proof -
  let ?f = "filter (\<lambda>(k, v). k \<notin> set kExcludedKeys) kvs"
  have "map_of ?f ''ast'' = map_of kvs ''ast''" "map_of ?f ''query'' = map_of kvs ''query''"
    "map_of ?f ''arity'' = map_of kvs ''arity''" "map_of ?f ''onEmpty'' = map_of kvs ''onEmpty''"
    by (rule map_of_unexcluded, simp add: kExcludedKeys_def)+
  then show ?thesis
    by (simp add: CanonicalOperationBytes_def StripExcluded.simps [of "JObject _"] IsRefSlot_def
        jcontains_def case_prod_unfold)
qed

section \<open>Properties\<close>

text \<open>The cumulative hashes are prefix-stable: appending operations to a document leaves the
  hash at every earlier boundary unchanged, and there is one hash per boundary. This is what
  lets the replay cache look a prefix up by its hash.\<close>

theorem CumulativeOperationHashes_prefix:
  assumes "CumulativeOperationHashes d v (JArray (ops @ later)) = Inr hs"
  shows "CumulativeOperationHashes d v (JArray ops) = Inr (List.take (length ops + 1) hs) \<and>
    length hs = length ops + length later + 1"
proof -
  from assms obtain h hs' where h: "CacheLineRoot d v = Inr h"
    and hs': "cumulative_loop h (ops @ later) = Inr hs'" and hs: "hs = HexDigest_bytes h # hs'"
    by (auto simp: CumulativeOperationHashes_def rbind_eq_Inr)
  from cumulative_loop_take [OF hs'] cumulative_loop_length [OF hs'] h hs show ?thesis
    by (simp add: CumulativeOperationHashes_def)
qed

theorem CumulativeOperationHashes_prefix_witness:
  "\<exists>hs. CumulativeOperationHashes ''doc'' ''g1'' (JArray ([JObject [(''id'', JString ''a'')]] @ [JObject []])) = Inr hs \<and>
        CumulativeOperationHashes ''doc'' ''g1'' (JArray [JObject [(''id'', JString ''a'')]]) = Inr (List.take (1 + 1) hs)"
proof -
  have "\<exists>b. CanonicalOperationBytes (JObject [(''id'', JString ''a'')]) = Inr b" by (simp add: op_eval)
  moreover have "\<exists>b. CanonicalOperationBytes (JObject []) = Inr b" by (simp add: op_eval)
  ultimately obtain hs where hs: "CumulativeOperationHashes ''doc'' ''g1''
      (JArray ([JObject [(''id'', JString ''a'')]] @ [JObject []])) = Inr hs"
    by (auto simp: CumulativeOperationHashes_def CacheLineRoot_eq Let_def)
  from hs CumulativeOperationHashes_prefix [OF hs] show ?thesis by auto
qed

text \<open>C24. The terminal hash determines the document: two documents of equally many operations with
  the same hash have the same id, the same kernel geometry version and the same canonical
  bytes operation by operation, unless two different byte strings among the ones hashed for
  them collide under SHA-256.\<close>

theorem CumulativeOperationHash_determines:
  assumes "CumulativeOperationHash d v (JArray ops) = Inr hash"
    and "CumulativeOperationHash d' v' (JArray ops') = Inr hash"
    and "length ops = length ops'"
  shows "\<exists>bs bs'. rmap CanonicalOperationBytes ops = Inr bs \<and> rmap CanonicalOperationBytes ops' = Inr bs' \<and>
    (d = d' \<and> v = v' \<and> bs = bs' \<or>
     (\<exists>x \<in> set (root_input d v # chain_inputs (Sha256Bytes (root_input d v)) bs).
      \<exists>y \<in> set (root_input d' v' # chain_inputs (Sha256Bytes (root_input d' v')) bs').
        x \<noteq> y \<and> Sha256Bytes x = Sha256Bytes y))"
proof -
  let ?h = "Sha256Bytes (root_input d v)" and ?h' = "Sha256Bytes (root_input d' v')"
  obtain hs hs' where hs: "cumulative_loop ?h ops = Inr hs" "hash = last (HexDigest_bytes ?h # hs)"
    and hs': "cumulative_loop ?h' ops' = Inr hs'" "hash = last (HexDigest_bytes ?h' # hs')"
    using assms(1,2)
    by (auto simp: CumulativeOperationHash_def CumulativeOperationHashes_def CacheLineRoot_eq rbind_eq_Inr)
  obtain bs bs' where bs: "rmap CanonicalOperationBytes ops = Inr bs" "hash = HexDigest_bytes (foldl chain_step ?h bs)"
    and bs': "rmap CanonicalOperationBytes ops' = Inr bs'" "hash = HexDigest_bytes (foldl chain_step ?h' bs')"
    using cumulative_loop_eq_Inr [OF hs(1)] cumulative_loop_eq_Inr [OF hs'(1)] hs(2) hs'(2) by auto
  have "length bs = length bs'" using bs(1) bs'(1) assms(3) by (auto dest!: rmap_eq_Inr_length)
  moreover have "foldl chain_step ?h bs = foldl chain_step ?h' bs'"
    using bs(2) bs'(2) HexDigest_bytes_inj by metis
  ultimately have "?h = ?h' \<and> bs = bs' \<or>
    (\<exists>x \<in> set (chain_inputs ?h bs). \<exists>y \<in> set (chain_inputs ?h' bs'). x \<noteq> y \<and> Sha256Bytes x = Sha256Bytes y)"
    by (intro chain_determines) simp_all
  then show ?thesis using bs(1) bs'(1) root_input_inj [of d v d' v'] by auto
qed

theorem CumulativeOperationHash_determines_witness:
  "\<exists>bs bs'. rmap CanonicalOperationBytes [JObject [(''id'', JString ''a''), (''name'', JString ''x'')]] = Inr bs \<and>
    rmap CanonicalOperationBytes [JObject [(''id'', JString ''a''), (''name'', JString ''y'')]] = Inr bs' \<and>
    (''d'' = ''d'' \<and> ''g1'' = ''g1'' \<and> bs = bs' \<or>
     (\<exists>x \<in> set (root_input ''d'' ''g1'' # chain_inputs (Sha256Bytes (root_input ''d'' ''g1'')) bs).
      \<exists>y \<in> set (root_input ''d'' ''g1'' # chain_inputs (Sha256Bytes (root_input ''d'' ''g1'')) bs').
        x \<noteq> y \<and> Sha256Bytes x = Sha256Bytes y))"
proof -
  let ?a = "JObject [(''id'', JString ''a''), (''name'', JString ''x'')]"
    and ?b = "JObject [(''id'', JString ''a''), (''name'', JString ''y'')]"
  obtain c where c: "CanonicalOperationBytes ?a = Inr c" "CanonicalOperationBytes ?b = Inr c"
    by (simp add: op_eval)
  then obtain hash where "CumulativeOperationHash ''d'' ''g1'' (JArray [?a]) = Inr hash"
    "CumulativeOperationHash ''d'' ''g1'' (JArray [?b]) = Inr hash"
    by (auto simp: CumulativeOperationHash_def CumulativeOperationHashes_def CacheLineRoot_eq Let_def)
  from CumulativeOperationHash_determines [OF this] show ?thesis by simp
qed

text \<open>Renaming an operation, or changing its metadata, its anchors or its snap hints, leaves
  its canonical bytes as they were.\<close>

theorem excluded_keys_not_hashed:
  "CanonicalOperationBytes (JObject (filter (\<lambda>(k, v). k \<notin> set kExcludedKeys) kvs)) =
   CanonicalOperationBytes (JObject kvs)"
  by (rule canonical_bytes_unexcluded)

fun slots_wired :: "json \<Rightarrow> bool" where
  "slots_wired (JArray js) = list_all slots_wired js"
| "slots_wired (JObject kvs) =
     (if IsRefSlot (JObject kvs) then jcontains (JObject kvs) ''ast''
      else list_all (\<lambda>(k, v). k \<in> set kExcludedKeys \<or> slots_wired v) kvs)"
| "slots_wired _ = True"

lemma StripExcluded_wired: "StripExcluded j = Inr out \<Longrightarrow> slots_wired j"
proof (induction j arbitrary: out rule: slots_wired.induct)
  case (1 js)
  then obtain outs where "rmap StripExcluded js = Inr outs"
    by (auto simp: StripExcluded_JArray rbind_eq_Inr)
  then have "\<forall>j \<in> set js. slots_wired j" using "1.IH" rmap_defined by metis
  then show ?case by (simp add: list_all_iff)
next
  case (2 kvs)
  show ?case
  proof (cases "IsRefSlot (JObject kvs)")
    case True
    then show ?thesis using "2.prems" by (simp add: StripExcluded_JObject split: if_splits)
  next
    case False
    let ?f = "filter (\<lambda>(k, v). k \<notin> set kExcludedKeys) kvs"
    let ?g = "\<lambda>(key, v). rbind (StripExcluded v) (\<lambda>w. Inr (key, w))"
    obtain outs where outs: "rmap ?g ?f = Inr outs"
      using "2.prems" False by (auto simp: StripExcluded_JObject rbind_eq_Inr)
    have "slots_wired v" if "(k, v) \<in> set kvs" "k \<notin> set kExcludedKeys" for k v
    proof -
      from that have "(k, v) \<in> set ?f" by simp
      from rmap_defined [OF outs this] obtain w where "StripExcluded v = Inr w"
        by (auto simp: rbind_eq_Inr)
      then show "slots_wired v" using "2.IH" False that by blast
    qed
    then show ?thesis using False by (auto simp: list_all_iff)
  qed
qed simp_all

text \<open>The hash fails closed on refs: whenever an operation has canonical bytes, every ref slot
  in its hashable part carries its wire AST.\<close>

theorem CanonicalOperationBytes_wired:
  "CanonicalOperationBytes operation = Inr bytes \<Longrightarrow> slots_wired operation"
  by (auto simp: CanonicalOperationBytes_def rbind_eq_Inr split: if_splits dest: StripExcluded_wired)

theorem CanonicalOperationBytes_wired_witness:
  "slots_wired (JObject [(''id'', JString ''a''), (''p'', JArray [JNull])])"
  by (rule CanonicalOperationBytes_wired [where bytes = "bytes_of
        (CHR 0x7B # JcsString ''id'' @ '':'' @ JcsString ''a'' @ '','' @ JcsString ''p'' @ '':[null]'' @ [CHR 0x7D])"])
     (simp add: op_eval)

end
