(* ===== verification/Protocol.thy ===== *)
theory Protocol
  imports Json_Value
begin

unbundle bit_operations_syntax

text \<open>
  The wire framing of \<open>protocol.cpp\<close>: control frames (a little-endian 32-bit length and a JSON
  payload) read from the input stream and written to the control stream, and mesh packets with
  their 12-byte header on the binary stream. A stream is the list of its bytes. JSON parsing and
  dumping are library code, so \<open>parse\<close> and \<open>dump\<close> are parameters; the round trip asks that the
  parser reads back what the serialiser wrote.
\<close>

section \<open>Little-endian words\<close>

definition ReadU32 :: "u8 list \<Rightarrow> u32" where
  "ReadU32 bytes =
     (ucast (bytes ! 0) :: u32) OR push_bit 8 (ucast (bytes ! 1)) OR
     push_bit 16 (ucast (bytes ! 2)) OR push_bit 24 (ucast (bytes ! 3))"

definition WriteU32 :: "u32 \<Rightarrow> u8 list" where
  "WriteU32 value =
     [ucast (value AND 0xFF), ucast (drop_bit 8 value AND 0xFF),
      ucast (drop_bit 16 value AND 0xFF), ucast (drop_bit 24 value AND 0xFF)]"

lemma length_WriteU32 [simp]: "length (WriteU32 v) = 4"
  by (simp add: WriteU32_def)

lemma WriteU32_nonempty [simp]: "WriteU32 v \<noteq> []"
  by (simp add: WriteU32_def)

lemma ReadU32_WriteU32 [simp]: "ReadU32 (WriteU32 v @ rest) = v"
proof (rule bit_word_eqI)
  fix n assume "n < LENGTH(32)"
  have ff: "(0xFF :: u32) = mask 8" by (simp add: mask_eq_exp_minus_1)
  consider "n < 8" | "8 \<le> n" "n < 16" | "16 \<le> n" "n < 24" | "24 \<le> n" "n < 32"
    using \<open>n < LENGTH(32)\<close> by fastforce
  then show "bit (ReadU32 (WriteU32 v @ rest)) n \<longleftrightarrow> bit v n"
    by cases (auto simp: ReadU32_def WriteU32_def ff bit_simps)
qed

section \<open>Reading control frames\<close>

definition kMaxControlFrameBytes :: nat where
  "kMaxControlFrameBytes = 4 * 1024 * 1024"

definition kBinaryMeshMagic :: u32 where
  "kBinaryMeshMagic = 0x314D4241"

text \<open>
  \<open>istream::read\<close> of \<open>n\<close> bytes extracts as many as there are. The result is \<open>None\<close> at the clean
  end of the stream (\<open>return false\<close>), otherwise the value and the bytes that are left.
\<close>

definition ReadControlFrame :: "(string \<Rightarrow> json result) \<Rightarrow> u8 list \<Rightarrow> (json \<times> u8 list) option result" where
  "ReadControlFrame parse input =
     (let header = List.take 4 input; gcount = length header in
      if gcount = 0 then Inr None
      else if gcount \<noteq> 4 then Inl (Protocol_error ''truncated control frame header'')
      else let len = unat (ReadU32 header); input1 = List.drop 4 input in
        if len = 0 \<or> kMaxControlFrameBytes < len
        then Inl (Protocol_error ''invalid control frame length'')
        else let payload = List.take len input1 in
          if length payload \<noteq> len then Inl (Protocol_error ''truncated control frame payload'')
          else rbind (parse (string_of_bytes payload)) (\<lambda>value.
                 Inr (Some (value, List.drop len input1))))"

lemma ReadControlFrame_shorter:
  "ReadControlFrame parse input = Inr (Some (v, rest)) \<Longrightarrow> length rest < length input"
  by (auto simp: ReadControlFrame_def Let_def rbind_eq_Inr split: if_splits)

text \<open>The reader loop: frames until the clean end of the stream or the first exception.\<close>

function read_frames :: "(string \<Rightarrow> json result) \<Rightarrow> u8 list \<Rightarrow> json list result" where
  "read_frames parse input =
     (case ReadControlFrame parse input of
        Inl e \<Rightarrow> Inl e
      | Inr None \<Rightarrow> Inr []
      | Inr (Some (v, rest)) \<Rightarrow> rbind (read_frames parse rest) (\<lambda>vs. Inr (v # vs)))"
  by pat_completeness auto
termination
  by (relation "measure (length \<circ> snd)") (auto dest: ReadControlFrame_shorter)

declare read_frames.simps [simp del]

section \<open>Writing\<close>

text \<open>
  The two output streams, each with the state that decides whether the next write succeeds
  (the stream's \<open>good\<close> bit, the \<open>FILE\<close>'s error indicator).
\<close>

record writer =
  control_out :: "u8 list"
  control_good :: bool
  binary_out :: "u8 list"
  binary_good :: bool

definition ProtocolWriter_new :: "bool \<Rightarrow> bool \<Rightarrow> writer result" where
  "ProtocolWriter_new binary_is_null good =
     (if binary_is_null then Inl (Protocol_error ''binary mesh stream is unavailable'')
      else Inr \<lparr>control_out = [], control_good = good, binary_out = [], binary_good = good\<rparr>)"

definition WriteControl :: "(json \<Rightarrow> string) \<Rightarrow> json \<Rightarrow> writer \<Rightarrow> writer result" where
  "WriteControl dump value w =
     (let payload = bytes_of (dump value) in
      if payload = [] \<or> kMaxControlFrameBytes < length payload
      then Inl (Protocol_error ''control response exceeds the frame budget'')
      else if \<not> control_good w then Inl (Protocol_error ''failed to write control response'')
      else Inr (w\<lparr>control_out := control_out w @ WriteU32 (of_nat (length payload)) @ payload\<rparr>))"

definition WriteMesh :: "u32 \<Rightarrow> u8 list \<Rightarrow> writer \<Rightarrow> writer result" where
  "WriteMesh sequence packet w =
     (if packet = [] \<or> 2 ^ 32 - 1 < length packet
      then Inl (Protocol_error ''binary mesh packet has an invalid size'')
      else if \<not> binary_good w then Inl (Protocol_error ''failed to write binary mesh packet'')
      else Inr (w\<lparr>binary_out := binary_out w @ WriteU32 kBinaryMeshMagic @ WriteU32 sequence @
                   WriteU32 (of_nat (length packet)) @ packet\<rparr>))"

section \<open>Frames\<close>

text \<open>The bytes of one frame, as both sides see it.\<close>

definition control_frame :: "string \<Rightarrow> u8 list" where
  "control_frame payload = WriteU32 (of_nat (length payload)) @ bytes_of payload"

lemma unat_frame_length:
  "n \<le> kMaxControlFrameBytes \<Longrightarrow> unat (of_nat n :: u32) = n"
  by (simp add: kMaxControlFrameBytes_def unsigned_of_nat take_bit_eq_mod)

lemma ReadControlFrame_frame:
  assumes "payload \<noteq> ''''" and "length payload \<le> kMaxControlFrameBytes"
  shows "ReadControlFrame parse (control_frame payload @ rest) =
    rbind (parse payload) (\<lambda>v. Inr (Some (v, rest)))"
proof -
  have "List.take 4 (control_frame payload @ rest) = WriteU32 (of_nat (length payload))"
    "List.drop 4 (control_frame payload @ rest) = bytes_of payload @ rest"
    by (simp_all add: control_frame_def)
  moreover have "ReadU32 (WriteU32 (of_nat (length payload))) = of_nat (length payload)"
    using ReadU32_WriteU32 [of _ "[]"] by simp
  moreover have "List.take (length payload) (bytes_of payload @ rest) = bytes_of payload"
    "List.drop (length payload) (bytes_of payload @ rest) = rest" by simp_all
  ultimately show ?thesis using assms
    by (simp add: ReadControlFrame_def Let_def unat_frame_length del: take_append drop_append)
qed

lemma WriteControl_eq_Inr:
  "WriteControl dump v w = Inr w' \<longleftrightarrow>
     dump v \<noteq> [] \<and> length (dump v) \<le> kMaxControlFrameBytes \<and> control_good w \<and>
     w' = w\<lparr>control_out := control_out w @ control_frame (dump v)\<rparr>"
  by (auto simp: WriteControl_def control_frame_def Let_def bytes_of_def)

lemma rfold_WriteControl:
  "rfold (\<lambda>w v. WriteControl dump v w) w vs = Inr w' \<Longrightarrow>
     control_out w' = control_out w @ concat (map (\<lambda>v. control_frame (dump v)) vs) \<and>
     (\<forall>v \<in> set vs. dump v \<noteq> [] \<and> length (dump v) \<le> kMaxControlFrameBytes)"
  by (induction vs arbitrary: w) (auto simp: rbind_eq_Inr WriteControl_eq_Inr)

lemma read_frames_written:
  "(\<And>v. v \<in> set vs \<Longrightarrow> dump v \<noteq> [] \<and> length (dump v) \<le> kMaxControlFrameBytes \<and> parse (dump v) = Inr v) \<Longrightarrow>
   read_frames parse (concat (map (\<lambda>v. control_frame (dump v)) vs)) = Inr vs"
proof (induction vs)
  case Nil
  then show ?case by (simp add: read_frames.simps [of parse "[]"] ReadControlFrame_def)
next
  case (Cons v vs)
  have "ReadControlFrame parse (control_frame (dump v) @ rest) = Inr (Some (v, rest))" for rest
    using Cons.prems [of v] by (simp add: ReadControlFrame_frame)
  with Cons show ?case by (subst read_frames.simps) simp
qed

section \<open>Properties\<close>

text \<open>C35. Control frames round trip: whatever sequence of values is written with \<open>WriteControl\<close>
  without an exception, the reader loop returns exactly that sequence and then the clean end of
  the stream, given that the JSON parser reads back what the serialiser writes.\<close>

theorem control_frames_roundtrip:
  assumes "ProtocolWriter_new False good = Inr w"
    and "rfold (\<lambda>w v. WriteControl dump v w) w vs = Inr w'"
    and "\<forall>v \<in> set vs. parse (dump v) = Inr v"
  shows "read_frames parse (control_out w') = Inr vs"
proof -
  have "control_out w = []" using assms(1) by (auto simp: ProtocolWriter_new_def)
  with rfold_WriteControl [OF assms(2)] assms(3) show ?thesis
    by (auto intro!: read_frames_written)
qed

theorem control_frames_roundtrip_witness:
  "read_frames (\<lambda>s. Inr (JString s)) (control_frame ''a'' @ control_frame ''bc'') =
     Inr [JString ''a'', JString ''bc'']"
proof -
  let ?dump = "\<lambda>v. case v of JString s \<Rightarrow> s | _ \<Rightarrow> ''null''"
  let ?w = "\<lparr>control_out = [], control_good = True, binary_out = [], binary_good = True\<rparr>"
  have "read_frames (\<lambda>s. Inr (JString s))
      (control_out (?w\<lparr>control_out := control_frame ''a'' @ control_frame ''bc''\<rparr>)) =
      Inr [JString ''a'', JString ''bc'']"
    by (rule control_frames_roundtrip [where good = True and dump = ?dump and w = ?w])
       (simp_all add: ProtocolWriter_new_def WriteControl_eq_Inr rbind_eq_Inr kMaxControlFrameBytes_def)
  then show ?thesis by simp
qed

text \<open>A frame that arrives incomplete is never taken for a value or for the end of the
  stream: every proper prefix of a frame but the empty one is a protocol error.\<close>

theorem truncated_frame_rejected:
  assumes "payload \<noteq> ''''" and "length payload \<le> kMaxControlFrameBytes"
    and "0 < n" and "n < length (control_frame payload)"
  shows "\<exists>msg. ReadControlFrame parse (List.take n (control_frame payload)) = Inl (Protocol_error msg)"
proof (cases "n < 4")
  case True
  then show ?thesis using assms(3) by (simp add: ReadControlFrame_def control_frame_def Let_def)
next
  case False
  let ?in = "List.take n (control_frame payload)"
  have hd: "List.take 4 ?in = WriteU32 (of_nat (length payload))" using False
    by (simp add: control_frame_def min_def)
  have "ReadU32 (WriteU32 (of_nat (length payload))) = of_nat (length payload)"
    using ReadU32_WriteU32 [of _ "[]"] by simp
  moreover have "length (List.drop 4 ?in) < length payload" using assms(4) False
    by (simp add: control_frame_def)
  ultimately show ?thesis using assms(1,2) hd
    by (simp add: ReadControlFrame_def Let_def unat_frame_length del: take_append drop_append)
qed

theorem truncated_frame_rejected_witness:
  "\<exists>msg. ReadControlFrame (\<lambda>s. Inr (JString s)) (List.take 5 (control_frame ''ab'')) = Inl (Protocol_error msg)"
  by (rule truncated_frame_rejected) (simp_all add: kMaxControlFrameBytes_def control_frame_def)

end
