(* ===== verification/Snapshot.thy ===== *)
theory Snapshot
  imports Prelude
begin

text \<open>
  The snapshot/restore contract that the replay engine relies on. The body pool, the element-name
  book and the naming registry each provide it; the replay cache needs only its laws: a restore
  gives back the state the snapshot was taken of, whatever the target was and however often it is
  done, so a suffix replayed after a restore computes what it would have computed in place.
\<close>

locale snapshotting =
  fixes take_snapshot :: "'state \<Rightarrow> 'snapshot"
    and restore_from :: "'snapshot \<Rightarrow> 'state \<Rightarrow> 'state"
  assumes restore_take: "restore_from (take_snapshot s) t = s"
begin

lemma restore_twice: "restore_from (take_snapshot s) (restore_from (take_snapshot s) t) = s"
  by (simp add: restore_take)

lemma snapshot_restored: "take_snapshot (restore_from (take_snapshot s) t) = take_snapshot s"
  by (simp add: restore_take)

lemma take_snapshot_inj: "take_snapshot s = take_snapshot s' \<Longrightarrow> s = s'"
  by (metis restore_take)

text \<open>One snapshot may seed several replays: each runs its suffix as if in place.\<close>

lemma replay_suffix:
  assumes "rfold step s0 prefix = Inr s"
  shows "rfold step (restore_from (take_snapshot s) t) suffix = rfold step s0 (prefix @ suffix)"
  using assms by (simp add: restore_take rfold_append)

lemma replay_fold:
  "foldl step (restore_from (take_snapshot (foldl step s0 prefix)) t) suffix = foldl step s0 (prefix @ suffix)"
  by (simp add: restore_take)

end

end
