(* ===== verification/Body_Pool.thy ===== *)
theory Body_Pool
  imports Json_Value Snapshot
begin

text \<open>
  The body pool of \<open>body_pool.hpp\<close>: the bodies produced so far with their consumed bitmap and
  the map from a producing operation's id to the index of its consumable body. A shape is a
  value of the type variable \<open>'sh\<close>. The lemmas give the pool's invariant, the refinement of its
  three containers to a shelf of visible bodies with a mark on the consumable ones, and the snapshot
  contract.
\<close>

section \<open>Bodies\<close>

record ShapeProbes =
  valid :: bool
  volume :: f64
  surfaceArea :: f64
  centerOfMass :: "f64 list"
  bounds :: "f64 list"
  solidCount :: int
  shellCount :: int
  faceCount :: int
  edgeCount :: int
  vertexCount :: int

record 'sh EvaluatedBody =
  bodyId :: string
  operationId :: string
  outputIndex :: int
  shape :: 'sh
  probes :: ShapeProbes

section \<open>The pool\<close>

record 'sh body_pool =
  pool_bodies :: "'sh EvaluatedBody list"
  pool_consumed :: "bool list"
  availableByOperationId :: "string \<Rightarrow> nat option"

definition body_pool_new :: "'sh body_pool" where
  "body_pool_new = \<lparr>pool_bodies = [], pool_consumed = [], availableByOperationId = (\<lambda>_. None)\<rparr>"

definition Produce :: "'sh EvaluatedBody \<Rightarrow> 'sh body_pool \<Rightarrow> 'sh body_pool" where
  "Produce body pool =
     pool\<lparr>availableByOperationId := (availableByOperationId pool)(operationId body \<mapsto> length (pool_bodies pool)),
          pool_consumed := pool_consumed pool @ [False],
          pool_bodies := pool_bodies pool @ [body]\<rparr>"

definition Consume :: "string \<Rightarrow> string \<Rightarrow> string \<Rightarrow> string \<Rightarrow> 'sh body_pool \<Rightarrow> ('sh \<times> 'sh body_pool) result" where
  "Consume consumingOperationId description role referenceId pool =
     (case availableByOperationId pool referenceId of
        None \<Rightarrow> Inl (Reference_missing consumingOperationId
          (description @ '' '' @ role @ '' references operation '' @ referenceId @
           '', which is not an unconsumed body-producing operation earlier in the document''))
      | Some bodyIndex \<Rightarrow>
          Inr (shape (pool_bodies pool ! bodyIndex),
               pool\<lparr>availableByOperationId := (availableByOperationId pool)(referenceId := None),
                    pool_consumed := (pool_consumed pool)[bodyIndex := True]\<rparr>))"

text \<open>The loop both accessors share; the taking one moves the bodies out of a pool it then drops.\<close>

fun visible_loop :: "'sh EvaluatedBody list \<Rightarrow> bool list \<Rightarrow> 'sh EvaluatedBody list" where
  "visible_loop (b # bs) (c # cs) = (if c then visible_loop bs cs else b # visible_loop bs cs)"
| "visible_loop _ _ = []"

definition PeekVisibleBodies :: "'sh body_pool \<Rightarrow> 'sh EvaluatedBody list" where
  "PeekVisibleBodies pool = visible_loop (pool_bodies pool) (pool_consumed pool)"

definition TakeVisibleBodies :: "'sh body_pool \<Rightarrow> 'sh EvaluatedBody list" where
  "TakeVisibleBodies pool = visible_loop (pool_bodies pool) (pool_consumed pool)"

record 'sh pool_snapshot =
  snap_bodies :: "'sh EvaluatedBody list"
  snap_consumed :: "bool list"
  snap_available :: "string \<Rightarrow> nat option"

definition pool_TakeSnapshot :: "'sh body_pool \<Rightarrow> 'sh pool_snapshot" where
  "pool_TakeSnapshot pool = \<lparr>snap_bodies = pool_bodies pool, snap_consumed = pool_consumed pool,
     snap_available = availableByOperationId pool\<rparr>"

definition pool_RestoreFrom :: "'sh pool_snapshot \<Rightarrow> 'sh body_pool \<Rightarrow> 'sh body_pool" where
  "pool_RestoreFrom snapshot pool =
     pool\<lparr>pool_bodies := snap_bodies snapshot, pool_consumed := snap_consumed snapshot,
          availableByOperationId := snap_available snapshot\<rparr>"

interpretation pool_snap: snapshotting pool_TakeSnapshot pool_RestoreFrom
  by unfold_locales (simp add: pool_TakeSnapshot_def pool_RestoreFrom_def)

section \<open>Sequences of operations\<close>

text \<open>What an evaluation does to the pool: produce a body, or consume one for an operation, which is
  handed the shape. The state is the shapes handed out so far and the pool.\<close>

datatype 'sh pool_op = OpProduce "'sh EvaluatedBody" | OpConsume string string string string

fun pool_step :: "'sh list \<times> 'sh body_pool \<Rightarrow> 'sh pool_op \<Rightarrow> ('sh list \<times> 'sh body_pool) result" where
  "pool_step (taken, pool) (OpProduce b) = Inr (taken, Produce b pool)"
| "pool_step (taken, pool) (OpConsume c d r i) =
     rbind (Consume c d r i pool) (\<lambda>(sh, pool'). Inr (taken @ [sh], pool'))"

definition pool_ok :: "'sh body_pool \<Rightarrow> bool" where
  "pool_ok pool \<longleftrightarrow>
     length (pool_consumed pool) = length (pool_bodies pool) \<and>
     (\<forall>i n. availableByOperationId pool i = Some n \<longrightarrow>
        n < length (pool_bodies pool) \<and> \<not> pool_consumed pool ! n \<and>
        operationId (pool_bodies pool ! n) = i)"

lemma pool_ok_new: "pool_ok body_pool_new"
  by (simp add: pool_ok_def body_pool_new_def)

lemma pool_ok_Produce: "pool_ok pool \<Longrightarrow> pool_ok (Produce b pool)"
  by (fastforce simp: pool_ok_def Produce_def nth_append split: if_splits)

lemma pool_ok_Consume: "pool_ok pool \<Longrightarrow> Consume c d r i pool = Inr (sh, pool') \<Longrightarrow> pool_ok pool'"
  by (auto simp: pool_ok_def Consume_def nth_list_update split: option.splits if_splits) metis+

section \<open>The shelf\<close>

text \<open>
  The specification of the pool on the visible bodies alone: a shelf of bodies, each with a mark
  that says whether an operation may still take it. A new body is put at the end with the mark, and
  takes the mark from the older bodies of its operation, which stay on the shelf. Consuming an
  operation id takes the marked body of that operation away; where there is none, the consumer
  fails, also when unmarked bodies of that operation are still there.
\<close>

type_synonym 'sh shelf = "('sh EvaluatedBody \<times> bool) list"

definition takeable :: "string \<Rightarrow> 'sh EvaluatedBody \<times> bool \<Rightarrow> bool" where
  "takeable i entry \<longleftrightarrow> snd entry \<and> operationId (fst entry) = i"

fun shelf_step :: "'sh list \<times> 'sh shelf \<Rightarrow> 'sh pool_op \<Rightarrow> string + 'sh list \<times> 'sh shelf" where
  "shelf_step (taken, vs) (OpProduce b) =
     Inr (taken, map (\<lambda>(v, marked). (v, marked \<and> operationId v \<noteq> operationId b)) vs @ [(b, True)])"
| "shelf_step (taken, vs) (OpConsume c d r i) =
     (case filter (takeable i) vs of
        [] \<Rightarrow> Inl c
      | entry # _ \<Rightarrow> Inr (taken @ [shape (fst entry)], filter (\<lambda>v. \<not> takeable i v) vs))"

fun shelf_run :: "'sh list \<times> 'sh shelf \<Rightarrow> 'sh pool_op list \<Rightarrow> string + 'sh list \<times> 'sh shelf" where
  "shelf_run st [] = Inr st"
| "shelf_run st (a # as) = (case shelf_step st a of Inl c \<Rightarrow> Inl c | Inr st' \<Rightarrow> shelf_run st' as)"

text \<open>The shelf a pool stands for.\<close>

definition pool_entry :: "'sh body_pool \<Rightarrow> nat \<Rightarrow> 'sh EvaluatedBody \<times> bool" where
  "pool_entry pool n =
     (pool_bodies pool ! n, availableByOperationId pool (operationId (pool_bodies pool ! n)) = Some n)"

definition live_indices :: "'sh body_pool \<Rightarrow> nat list" where
  "live_indices pool = filter (\<lambda>n. \<not> pool_consumed pool ! n) [0..<length (pool_bodies pool)]"

definition pool_shelf :: "'sh body_pool \<Rightarrow> 'sh shelf" where
  "pool_shelf pool = map (pool_entry pool) (live_indices pool)"

lemma pool_shelf_new: "pool_shelf body_pool_new = []"
  by (simp add: pool_shelf_def live_indices_def body_pool_new_def)

lemma visible_loop_append:
  "length cs = length bs \<Longrightarrow> visible_loop (bs @ bs') (cs @ cs') = visible_loop bs cs @ visible_loop bs' cs'"
  by (induction bs cs rule: visible_loop.induct) auto

lemma visible_loop_indices:
  "length cs = length bs \<Longrightarrow> visible_loop bs cs = map ((!) bs) (filter (\<lambda>n. \<not> cs ! n) [0..<length bs])"
proof (induction bs cs rule: visible_loop.induct)
  case (1 b bs c cs)
  have "[0..<length (b # bs)] = 0 # map Suc [0..<length bs]"
    by (simp add: upt_conv_Cons map_Suc_upt del: upt_Suc)
  with 1 show ?case by (simp add: filter_map o_def del: upt_Suc)
qed auto

lemma fst_pool_shelf: "pool_ok pool \<Longrightarrow> map fst (pool_shelf pool) = PeekVisibleBodies pool"
  by (simp add: pool_ok_def PeekVisibleBodies_def visible_loop_indices pool_shelf_def live_indices_def pool_entry_def o_def)

lemma live_Produce:
  "length (pool_consumed pool) = length (pool_bodies pool) \<Longrightarrow>
     live_indices (Produce b pool) = live_indices pool @ [length (pool_bodies pool)]"
  by (auto simp: live_indices_def Produce_def nth_append intro!: filter_cong)

lemma pool_shelf_Produce:
  assumes "pool_ok pool"
  shows "pool_shelf (Produce b pool) =
    map (\<lambda>(v, marked). (v, marked \<and> operationId v \<noteq> operationId b)) (pool_shelf pool) @ [(b, True)]"
proof -
  have "pool_entry (Produce b pool) n = (\<lambda>(v, marked). (v, marked \<and> operationId v \<noteq> operationId b)) (pool_entry pool n)"
    if "n \<in> set (live_indices pool)" for n
    using that by (auto simp: live_indices_def pool_entry_def Produce_def nth_append)
  moreover have "pool_entry (Produce b pool) (length (pool_bodies pool)) = (b, True)"
    by (simp add: pool_entry_def Produce_def)
  ultimately show ?thesis using assms by (simp add: pool_shelf_def live_Produce pool_ok_def)
qed

lemma takeable_entry:
  assumes "pool_ok pool" "n < length (pool_bodies pool)"
  shows "takeable i (pool_entry pool n) \<longleftrightarrow> availableByOperationId pool i = Some n"
  using assms by (auto simp: takeable_def pool_entry_def pool_ok_def)

lemma live_indices_less: "n \<in> set (live_indices pool) \<Longrightarrow> n < length (pool_bodies pool)"
  by (simp add: live_indices_def)

lemma filter_single: "n \<in> set ns \<Longrightarrow> distinct ns \<Longrightarrow> filter (\<lambda>m. n = m) ns = [n]"
  by (induction ns) (auto simp: filter_empty_conv)

lemma filter_takeable:
  assumes "pool_ok pool"
  shows "filter (takeable i) (pool_shelf pool) =
    (case availableByOperationId pool i of None \<Rightarrow> [] | Some n \<Rightarrow> [pool_entry pool n])"
proof -
  have "filter (takeable i) (pool_shelf pool) =
      map (pool_entry pool) (filter (\<lambda>n. availableByOperationId pool i = Some n) (live_indices pool))"
    using takeable_entry [OF assms] live_indices_less
    by (auto simp: pool_shelf_def filter_map o_def intro!: arg_cong [where f = "map (pool_entry pool)"] filter_cong)
  moreover have "filter (\<lambda>m. n = m) (live_indices pool) = [n]" if "availableByOperationId pool i = Some n" for n
  proof -
    have "n \<in> set (live_indices pool)" using that assms by (auto simp: pool_ok_def live_indices_def)
    moreover have "distinct (live_indices pool)" by (simp add: live_indices_def)
    ultimately show ?thesis by (rule filter_single)
  qed
  ultimately show ?thesis by (auto split: option.splits)
qed

lemma pool_shelf_Consume:
  assumes ok: "pool_ok pool" and c: "Consume c d r i pool = Inr (sh, pool')"
  shows "pool_shelf pool' = filter (\<lambda>v. \<not> takeable i v) (pool_shelf pool)"
proof -
  from c obtain n where n: "availableByOperationId pool i = Some n"
    and pool': "pool' = pool\<lparr>availableByOperationId := (availableByOperationId pool)(i := None),
                    pool_consumed := (pool_consumed pool)[n := True]\<rparr>"
    by (auto simp: Consume_def split: option.splits)
  have live: "live_indices pool' = filter (\<lambda>m. m \<noteq> n) (live_indices pool)"
    using ok n by (auto simp: live_indices_def pool' pool_ok_def nth_list_update intro!: filter_cong)
  have "pool_entry pool' m = pool_entry pool m" if "m < length (pool_bodies pool)" "m \<noteq> n" for m
    using that n by (auto simp: pool_entry_def pool')
  then have "pool_shelf pool' = map (pool_entry pool) (filter (\<lambda>m. m \<noteq> n) (live_indices pool))"
    using live_indices_less by (auto simp: pool_shelf_def live)
  also have "\<dots> = filter (\<lambda>v. \<not> takeable i v) (pool_shelf pool)"
    using takeable_entry [OF ok] live_indices_less n
    by (auto simp: pool_shelf_def filter_map o_def intro!: arg_cong [where f = "map (pool_entry pool)"] filter_cong)
  finally show ?thesis .
qed

lemma Consume_shape:
  "Consume c d r i pool = Inr (sh, pool') \<Longrightarrow>
     \<exists>n. availableByOperationId pool i = Some n \<and> sh = shape (pool_bodies pool ! n)"
  by (auto simp: Consume_def split: option.splits)

lemma Consume_failed:
  "Consume c d r i pool = Inl e \<Longrightarrow> availableByOperationId pool i = None \<and> (\<exists>msg. e = Reference_missing c msg)"
  by (auto simp: Consume_def split: option.splits)

lemma pool_refines_shelf:
  assumes "pool_ok pool"
  shows "case rfold pool_step (taken, pool) ops of
      Inr (taken', pool') \<Rightarrow> pool_ok pool' \<and> shelf_run (taken, pool_shelf pool) ops = Inr (taken', pool_shelf pool')
    | Inl e \<Rightarrow> (\<exists>c msg. e = Reference_missing c msg \<and> shelf_run (taken, pool_shelf pool) ops = Inl c)"
  using assms
proof (induction ops arbitrary: taken pool)
  case (Cons a ops)
  show ?case
  proof (cases a)
    case (OpProduce b)
    then show ?thesis using Cons.IH [OF pool_ok_Produce [OF Cons.prems], of taken b]
      by (auto simp: pool_shelf_Produce [OF Cons.prems] split: sum.splits)
  next
    case (OpConsume c d r i)
    show ?thesis
    proof (cases "Consume c d r i pool")
      case (Inl e)
      from Consume_failed [OF Inl] show ?thesis by (simp add: OpConsume Inl filter_takeable [OF Cons.prems])
    next
      case (Inr x)
      then obtain sh pool' where ok: "Consume c d r i pool = Inr (sh, pool')" by (cases x) auto
      from Consume_shape [OF ok] have "filter (takeable i) (pool_shelf pool) \<noteq> [] \<and>
          shape (fst (hd (filter (takeable i) (pool_shelf pool)))) = sh"
        by (auto simp: filter_takeable [OF Cons.prems] pool_entry_def)
      then have "shelf_step (taken, pool_shelf pool) a = Inr (taken @ [sh], pool_shelf pool')"
        by (auto simp: OpConsume pool_shelf_Consume [OF Cons.prems ok] split: list.splits)
      then show ?thesis using Cons.IH [OF pool_ok_Consume [OF Cons.prems ok], of "taken @ [sh]"]
        by (auto simp: OpConsume ok split: sum.splits)
    qed
  qed
qed simp

fun produced_ids :: "'sh pool_op list \<Rightarrow> string list" where
  "produced_ids [] = []"
| "produced_ids (OpProduce b # as) = operationId b # produced_ids as"
| "produced_ids (OpConsume c d r i # as) = produced_ids as"

lemma step_keeps_absent:
  "\<lbrakk>availableByOperationId (snd st) i = None; pool_step st a = Inr st'; i \<notin> set (produced_ids [a])\<rbrakk> \<Longrightarrow>
     availableByOperationId (snd st') i = None"
  by (cases st; cases a) (auto simp: rbind_eq_Inr Produce_def Consume_def split: option.splits)

lemma run_keeps_absent:
  "\<lbrakk>availableByOperationId (snd st) i = None; rfold pool_step st ops = Inr st'; i \<notin> set (produced_ids ops)\<rbrakk> \<Longrightarrow>
     availableByOperationId (snd st') i = None"
proof (induction ops arbitrary: st)
  case (Cons a ops)
  then obtain st1 where st1: "pool_step st a = Inr st1" "rfold pool_step st1 ops = Inr st'"
    by (auto simp: rbind_eq_Inr)
  have "i \<notin> set (produced_ids [a])" "i \<notin> set (produced_ids ops)" using Cons.prems(3) by (cases a; simp)+
  then show ?case using Cons.IH [OF step_keeps_absent [OF Cons.prems(1) st1(1)] st1(2)] by simp
qed simp

section \<open>Properties\<close>

text \<open>C5. The body pool implements the shelf, for every sequence of productions and consumptions from the
  empty pool and also when one operation produces several bodies: it fails exactly when the shelf
  fails, with the reference error of the same consumer, and otherwise has handed out the same shapes
  in the same order, and shows the bodies of the shelf in the same order.\<close>

theorem pool_refines_visible_bodies:
  "case rfold pool_step ([], body_pool_new) ops of
     Inr (taken, pool) \<Rightarrow> (\<exists>vs. shelf_run ([], []) ops = Inr (taken, vs) \<and> map fst vs = PeekVisibleBodies pool)
   | Inl e \<Rightarrow> (\<exists>c msg. e = Reference_missing c msg \<and> shelf_run ([], []) ops = Inl c)"
  using pool_refines_shelf [OF pool_ok_new, of "[]" ops]
  by (auto simp: pool_shelf_new fst_pool_shelf split: sum.splits)

definition no_probes :: ShapeProbes where
  "no_probes = \<lparr>valid = True, volume = 0, surfaceArea = 0, centerOfMass = [0, 0, 0],
     bounds = [0, 0, 0, 0, 0, 0], solidCount = 1, shellCount = 1, faceCount = 6, edgeCount = 12, vertexCount = 8\<rparr>"

definition named_body :: "string \<Rightarrow> nat \<Rightarrow> nat EvaluatedBody" where
  "named_body i n = \<lparr>bodyId = i, operationId = i, outputIndex = 0, shape = n, probes = no_probes\<rparr>"

text \<open>An operation with two bodies: the later one is taken, the earlier one stays visible and cannot be
  taken.\<close>

lemma second_body_is_taken:
  "rfold pool_step ([], body_pool_new) ops = Inr ([2], pool) \<and> map shape (PeekVisibleBodies pool) = [1]"
  if "ops = [OpProduce (named_body ''a'' 1), OpProduce (named_body ''a'' 2), OpConsume ''c'' ''hole'' ''target'' ''a'']"
    "pool = snd (projr (rfold pool_step ([], body_pool_new) ops))"
  unfolding that by (simp add: Produce_def Consume_def body_pool_new_def named_body_def PeekVisibleBodies_def)

text \<open>Consumed is consumed: after an operation has consumed a body, the same id cannot be
  consumed again, whatever further bodies of other operations are produced or consumed; the
  failure is the reference error of the second consumer.\<close>

theorem consumed_is_consumed:
  assumes "Consume c d r i pool = Inr (sh, pool1)" and "rfold pool_step (taken, pool1) ops = Inr (taken', pool2)"
    and "i \<notin> set (produced_ids ops)"
  shows "\<exists>msg. Consume c' d' r' i pool2 = Inl (Reference_missing c' msg)"
proof -
  have "availableByOperationId pool1 i = None"
    using assms(1) by (auto simp: Consume_def split: option.splits)
  from run_keeps_absent [OF _ assms(2,3)] this show ?thesis by (simp add: Consume_def)
qed

end
