(* ===== verification/Watchdog.thy ===== *)
theory Watchdog
  imports Prelude
begin

text \<open>
  The operation watchdog of \<open>operation_timeout.cpp\<close>. Its methods are functions on the state its
  mutex guards; the watchdog thread is a program counter that moves between the untimed wait, the
  timed wait (holding the generation and the deadline it read) and its end. The interleavings of
  the worker, the canceller, the clock and the watchdog thread are one step relation, each step
  the code between two lock operations. Times are milliseconds of the steady clock. The
  64-bit generation wraps in the code, so the model counts the bumps beside it and the properties
  are stated for runs of fewer than 2^64 bumps.
\<close>

section \<open>State\<close>

datatype Cause = NoCause | UserCancel | Timeout

record OperationTimeout =
  tripped_flag :: bool
  tripped_op :: string
  tripped_budget :: int

definition no_timeout :: OperationTimeout where
  "no_timeout = \<lparr>tripped_flag = False, tripped_op = '''', tripped_budget = 0\<rparr>"

datatype watch_pc = Waiting | TimedWait u64 int | Finished

record watchdog =
  wd_timeout :: int
  wd_deadline :: int
  wd_operationId :: string
  wd_tripped :: OperationTimeout
  wd_cause :: Cause
  wd_generation :: u64
  wd_armed :: bool
  wd_stop :: bool
  wd_cancelled :: bool
  wd_pc :: watch_pc
  wd_now :: int
  wd_bumps :: nat

definition watchdog_new :: "int \<Rightarrow> watchdog" where
  "watchdog_new now =
     \<lparr>wd_timeout = 0, wd_deadline = 0, wd_operationId = '''', wd_tripped = no_timeout,
      wd_cause = NoCause, wd_generation = 0, wd_armed = False, wd_stop = False,
      wd_cancelled = False, wd_pc = Waiting, wd_now = now, wd_bumps = 0\<rparr>"

definition bump :: "watchdog \<Rightarrow> watchdog" where
  "bump s = s\<lparr>wd_generation := wd_generation s + 1, wd_bumps := Suc (wd_bumps s)\<rparr>"

section \<open>Methods\<close>

definition BeginRequest :: "int \<Rightarrow> watchdog \<Rightarrow> watchdog" where
  "BeginRequest opTimeout s =
     bump (s\<lparr>wd_timeout := opTimeout, wd_tripped := no_timeout, wd_cause := NoCause,
             wd_armed := False\<rparr>)"

definition Cancel :: "watchdog \<Rightarrow> watchdog" where
  "Cancel s =
     bump (s\<lparr>wd_cause := (if wd_cause s = NoCause then UserCancel else wd_cause s),
             wd_armed := False\<rparr>)"

definition BeginOperation :: "string \<Rightarrow> watchdog \<Rightarrow> watchdog" where
  "BeginOperation operationId s =
     (if wd_timeout s \<le> 0 then s
      else bump (s\<lparr>wd_operationId := operationId, wd_deadline := wd_now s + wd_timeout s,
                   wd_armed := True\<rparr>))"

definition EndOperation :: "watchdog \<Rightarrow> watchdog" where
  "EndOperation s = (if \<not> wd_armed s then s else bump (s\<lparr>wd_armed := False\<rparr>))"

definition Result :: "watchdog \<Rightarrow> OperationTimeout" where
  "Result s = wd_tripped s"

definition Destroy :: "watchdog \<Rightarrow> watchdog" where
  "Destroy s = s\<lparr>wd_stop := True\<rparr>"

text \<open>
  \<open>ScopedOperation\<close>: the destructor ends the operation however the body leaves the scope; a null
  deadline is a no-op.
\<close>

definition ScopedOperation ::
  "bool \<Rightarrow> string \<Rightarrow> (watchdog \<Rightarrow> 'r \<times> watchdog) \<Rightarrow> watchdog \<Rightarrow> 'r \<times> watchdog" where
  "ScopedOperation has_deadline operationId body s =
     (let s1 = (if has_deadline then BeginOperation operationId s else s);
          (r, s2) = body s1
      in (r, if has_deadline then EndOperation s2 else s2))"

section \<open>The watchdog thread\<close>

text \<open>The wake-up of \<open>cv_.wait\<close>, then the reads before the timed wait.\<close>

definition run_wait :: "watchdog \<Rightarrow> watchdog option" where
  "run_wait s =
     (if wd_pc s = Waiting \<and> (wd_stop s \<or> wd_armed s)
      then Some (s\<lparr>wd_pc := (if wd_stop s then Finished
                              else TimedWait (wd_generation s) (wd_deadline s))\<rparr>)
      else None)"

text \<open>
  The return of \<open>cv_.wait_until\<close>: woken when stopped or the generation changed, otherwise when the
  deadline has passed; then the code that records the trip, before it releases the lock.
\<close>

definition record_trip :: "watchdog \<Rightarrow> watchdog" where
  "record_trip s =
     (let s1 = s\<lparr>wd_armed := False, wd_pc := Waiting\<rparr> in
      if wd_cause s \<noteq> NoCause then s1
      else s1\<lparr>wd_cause := Timeout,
              wd_tripped := \<lparr>tripped_flag = True, tripped_op = wd_operationId s,
                             tripped_budget = wd_timeout s\<rparr>,
              wd_cancelled := True\<rparr>)"

definition run_timed_wait :: "watchdog \<Rightarrow> watchdog option" where
  "run_timed_wait s =
     (case wd_pc s of
        TimedWait generation deadline \<Rightarrow>
          if wd_stop s \<or> wd_generation s \<noteq> generation then Some (s\<lparr>wd_pc := Waiting\<rparr>)
          else if deadline \<le> wd_now s then Some (record_trip s)
          else None
      | _ \<Rightarrow> None)"

section \<open>Interleavings\<close>

text \<open>
  The actions of the other threads and of the clock. The reader thread clears the flag and begins
  a request when no worker runs; it sets the flag after \<open>Cancel\<close> returned. The worker begins and
  ends operations.
\<close>

datatype wd_action =
    ABeginRequest int
  | ACancel
  | ASetFlag
  | ABeginOperation string
  | AEndOperation
  | ADestroy
  | AClock int
  | AWatch

inductive wd_step :: "watchdog \<Rightarrow> wd_action \<Rightarrow> watchdog \<Rightarrow> bool" where
  step_begin_request: "wd_step s (ABeginRequest t) (BeginRequest t (s\<lparr>wd_cancelled := False\<rparr>))"
| step_cancel: "wd_step s ACancel (Cancel s)"
| step_set_flag: "wd_step s ASetFlag (s\<lparr>wd_cancelled := True\<rparr>)"
| step_begin_operation: "wd_step s (ABeginOperation i) (BeginOperation i s)"
| step_end_operation: "wd_step s AEndOperation (EndOperation s)"
| step_destroy: "wd_step s ADestroy (Destroy s)"
| step_clock: "0 \<le> d \<Longrightarrow> wd_step s (AClock d) (s\<lparr>wd_now := wd_now s + d\<rparr>)"
| step_wait: "run_wait s = Some s' \<Longrightarrow> wd_step s AWatch s'"
| step_timed_wait: "run_timed_wait s = Some s' \<Longrightarrow> wd_step s AWatch s'"

inductive_cases wd_step_cancelE: "wd_step s ACancel s'"

inductive wd_run :: "watchdog \<Rightarrow> wd_action list \<Rightarrow> watchdog \<Rightarrow> bool" where
  run_none: "wd_run s [] s"
| run_step: "wd_run s as s' \<Longrightarrow> wd_step s' a s'' \<Longrightarrow> wd_run s (as @ [a]) s''"

lemmas wd_defs = BeginRequest_def Cancel_def BeginOperation_def EndOperation_def Destroy_def
  bump_def Let_def

lemmas wd_thread_defs = run_wait_def run_timed_wait_def record_trip_def

lemma bumps_mono: "wd_step s a s' \<Longrightarrow> wd_bumps s \<le> wd_bumps s'"
  by (induction rule: wd_step.induct)
     (auto simp: wd_defs wd_thread_defs split: if_splits watch_pc.splits)

section \<open>Invariant\<close>

definition wd_ok :: "watchdog \<Rightarrow> bool" where
  "wd_ok s \<longleftrightarrow>
     wd_generation s = of_nat (wd_bumps s) \<and>
     (tripped_flag (wd_tripped s) \<longleftrightarrow> wd_cause s = Timeout) \<and>
     (wd_cause s \<noteq> Timeout \<longrightarrow> wd_tripped s = no_timeout) \<and>
     (wd_cause s = Timeout \<longrightarrow> wd_cancelled s) \<and>
     (wd_armed s \<longrightarrow> 0 < wd_timeout s) \<and>
     (case wd_pc s of
        TimedWait g d \<Rightarrow> (\<exists>b \<le> wd_bumps s. g = of_nat b \<and>
            (b = wd_bumps s \<longrightarrow> wd_armed s \<and> d = wd_deadline s))
      | _ \<Rightarrow> True)"

lemma wd_ok_new: "wd_ok (watchdog_new now)"
  by (simp add: wd_ok_def watchdog_new_def no_timeout_def)

lemma same_generation:
  assumes "(of_nat a :: u64) = of_nat b" "a \<le> b" "b < 2 ^ 64"
  shows "a = b"
proof -
  have "a mod 2 ^ 64 = b mod 2 ^ 64"
    using assms(1) by (simp add: word_of_nat_eq_iff take_bit_eq_mod)
  then show ?thesis using assms(2,3) by simp
qed

text \<open>While the generation is the one it read, the timed wait holds the armed operation's deadline.\<close>

lemma timed_wait_current:
  assumes "wd_ok s" "wd_bumps s < 2 ^ 64" "wd_pc s = TimedWait g d" "wd_generation s = g"
  shows "wd_armed s \<and> d = wd_deadline s"
proof -
  from assms obtain b where b: "b \<le> wd_bumps s" "g = of_nat b"
    and cur: "b = wd_bumps s \<longrightarrow> wd_armed s \<and> d = wd_deadline s" by (auto simp: wd_ok_def)
  moreover have "(of_nat b :: u64) = of_nat (wd_bumps s)" using assms b by (simp add: wd_ok_def)
  ultimately show ?thesis using same_generation assms(2) by blast
qed

lemma wd_ok_waiting: "wd_ok s \<Longrightarrow> wd_ok (s\<lparr>wd_pc := Waiting\<rparr>)"
  by (simp add: wd_ok_def)

lemma wd_ok_record_trip: "wd_ok s \<Longrightarrow> wd_ok (record_trip s)"
  by (simp add: wd_ok_def record_trip_def Let_def)

lemma run_timed_wait_cases:
  "run_timed_wait s = Some s' \<Longrightarrow> s' = s\<lparr>wd_pc := Waiting\<rparr> \<or> s' = record_trip s"
  by (auto simp: run_timed_wait_def split: watch_pc.splits if_splits)

lemma wd_ok_step: "wd_step s a s' \<Longrightarrow> wd_ok s \<Longrightarrow> wd_bumps s < 2 ^ 64 \<Longrightarrow> wd_ok s'"
proof (induction rule: wd_step.induct)
  case (step_timed_wait s s')
  then show ?case using run_timed_wait_cases wd_ok_waiting wd_ok_record_trip by blast
next
  case (step_wait s s')
  then show ?case by (auto simp: wd_ok_def run_wait_def split: if_splits)
qed (auto simp: wd_ok_def wd_defs no_timeout_def split: if_splits watch_pc.splits intro: le_SucI)

lemma wd_ok_run: "wd_run s as s' \<Longrightarrow> wd_ok s \<Longrightarrow> wd_bumps s' < 2 ^ 64 \<Longrightarrow> wd_ok s'"
  by (induction rule: wd_run.induct) (use wd_ok_step bumps_mono le_less_trans in blast)+

lemma run_cons: "wd_run s' as s'' \<Longrightarrow> wd_step s a s' \<Longrightarrow> wd_run s (a # as) s''"
proof (induction rule: wd_run.induct)
  case (run_none s')
  then show ?case using run_step [OF wd_run.run_none] by fastforce
next
  case (run_step s' as t b t')
  then show ?case using wd_run.run_step by fastforce
qed

section \<open>Properties\<close>

definition is_request :: "wd_action \<Rightarrow> bool" where
  "is_request a = (case a of ABeginRequest _ \<Rightarrow> True | _ \<Rightarrow> False)"

lemma cancelled_stays:
  assumes "wd_step s a s'" "wd_cause s = UserCancel" "\<not> is_request a"
  shows "wd_cause s' = UserCancel \<and> wd_tripped s' = wd_tripped s"
  using assms
  by (induction rule: wd_step.induct)
     (auto simp: wd_defs wd_thread_defs is_request_def split: if_splits watch_pc.splits)

lemma cancelled_stays_run:
  "wd_run s as s' \<Longrightarrow> wd_cause s = UserCancel \<Longrightarrow> \<forall>a \<in> set as. \<not> is_request a \<Longrightarrow>
     wd_cause s' = UserCancel \<and> wd_tripped s' = wd_tripped s"
  by (induction rule: wd_run.induct) (auto dest: cancelled_stays)

text \<open>First cause wins for a cancellation: once a user cancel arrives before any deadline has
  tripped in the request, no interleaving of the worker, the clock and the watchdog thread makes
  the request read as timed out, until the next request begins.\<close>

theorem cancel_never_times_out:
  assumes "wd_run (watchdog_new t0) before s" and "wd_cause s \<noteq> Timeout" and "wd_bumps s < 2 ^ 64"
    and "wd_run (Cancel s) after s'" and "\<forall>a \<in> set after. \<not> is_request a"
  shows "\<not> tripped_flag (Result s')"
proof -
  have "wd_ok s" using wd_ok_run [OF assms(1) wd_ok_new assms(3)] .
  then have "wd_cause (Cancel s) = UserCancel" "\<not> tripped_flag (wd_tripped (Cancel s))"
    using assms(2) by (cases "wd_cause s"; auto simp: wd_ok_def Cancel_def bump_def)+
  then show ?thesis using cancelled_stays_run [OF assms(4) _ assms(5)] by (simp add: Result_def)
qed

theorem cancel_never_times_out_witness:
  "\<not> tripped_flag (Result ((Cancel (BeginOperation ''op'' (BeginRequest 10 (watchdog_new 0))))\<lparr>wd_now := 50\<rparr>))"
proof -
  let ?r = "BeginRequest 10 ((watchdog_new 0)\<lparr>wd_cancelled := False\<rparr>)"
  let ?s = "BeginOperation ''op'' ?r"
  have "wd_run (watchdog_new 0) [ABeginRequest 10, ABeginOperation ''op''] ?s"
    by (rule run_cons [OF run_cons [OF run_none step_begin_operation] step_begin_request])
  note before = this
  have "wd_run (Cancel ?s) [AClock 50] ((Cancel ?s)\<lparr>wd_now := wd_now (Cancel ?s) + 50\<rparr>)"
    by (intro run_cons [OF run_none] step_clock) simp
  from cancel_never_times_out [OF before _ _ this]
  have "\<not> tripped_flag (Result ((Cancel ?s)\<lparr>wd_now := wd_now (Cancel ?s) + 50\<rparr>))"
    by (simp add: wd_defs watchdog_new_def is_request_def)
  then show ?thesis by (simp add: wd_defs watchdog_new_def Result_def)
qed

text \<open>C34. No premature and no misattributed timeout: when the watchdog thread records a trip, the
  operation it names is still the armed one, its deadline has passed, the reported budget is
  the request's, and the flag the operations poll is set.\<close>

theorem trip_is_genuine:
  assumes "wd_run (watchdog_new t0) as s" and "wd_bumps s < 2 ^ 64"
    and "wd_step s a s'" and "\<not> tripped_flag (Result s)" and "tripped_flag (Result s')"
  shows "a = AWatch \<and> wd_armed s \<and> wd_deadline s \<le> wd_now s \<and> wd_cause s = NoCause \<and> wd_cancelled s' \<and>
    Result s' = \<lparr>tripped_flag = True, tripped_op = wd_operationId s, tripped_budget = wd_timeout s\<rparr>"
proof -
  have ok: "wd_ok s" using wd_ok_run [OF assms(1) wd_ok_new assms(2)] .
  show ?thesis using assms(3,4,5) ok assms(2)
  proof (induction rule: wd_step.induct)
    case (step_timed_wait s s')
    then show ?case using timed_wait_current [OF step_timed_wait.prems(3,4)]
      by (auto simp: wd_thread_defs Result_def Let_def split: if_splits watch_pc.splits)
  qed (auto simp: wd_defs wd_thread_defs Result_def no_timeout_def split: if_splits)
qed

text \<open>A run that arms an operation and lets the clock pass its deadline, for the witnesses.\<close>

definition overrun_state :: watchdog where
  "overrun_state = (BeginOperation ''op'' (BeginRequest 10 ((watchdog_new 0)\<lparr>wd_cancelled := False\<rparr>)))\<lparr>wd_now := 50\<rparr>"

definition trip_of :: "watchdog \<Rightarrow> OperationTimeout" where
  "trip_of s = \<lparr>tripped_flag = True, tripped_op = wd_operationId s, tripped_budget = wd_timeout s\<rparr>"

definition trips_in :: "nat \<Rightarrow> watchdog \<Rightarrow> OperationTimeout \<Rightarrow> bool" where
  "trips_in n s r \<longleftrightarrow> (\<exists>s'. wd_run s (replicate n AWatch) s' \<and> wd_cancelled s' \<and> Result s' = r)"

lemma trips_step: "wd_step s AWatch s' \<Longrightarrow> trips_in n s' r \<Longrightarrow> trips_in (Suc n) s r"
  unfolding trips_in_def using run_cons by (metis replicate_Suc)

lemma trips_from_current:
  assumes "wd_pc s = TimedWait (wd_generation s) (wd_deadline s)" "wd_cause s = NoCause"
    "wd_deadline s \<le> wd_now s" "\<not> wd_stop s"
  shows "trips_in 1 s (trip_of s)"
proof -
  have "run_timed_wait s = Some (record_trip s)" using assms by (simp add: run_timed_wait_def)
  then have "wd_run s [AWatch] (record_trip s)" by (intro run_cons [OF run_none] step_timed_wait)
  moreover have "wd_cancelled (record_trip s)" "Result (record_trip s) = trip_of s"
    using assms(2) by (simp_all add: record_trip_def Result_def trip_of_def)
  ultimately show ?thesis by (auto simp: trips_in_def)
qed

lemma trips_from_waiting:
  assumes "wd_pc s = Waiting" "wd_cause s = NoCause" "wd_deadline s \<le> wd_now s" "\<not> wd_stop s" "wd_armed s"
  shows "trips_in 2 s (trip_of s)"
proof -
  let ?t = "s\<lparr>wd_pc := TimedWait (wd_generation s) (wd_deadline s)\<rparr>"
  have "wd_step s AWatch ?t" using assms by (intro step_wait) (simp add: run_wait_def)
  moreover have "trips_in 1 ?t (trip_of s)"
    using trips_from_current [of ?t] assms by (simp add: trip_of_def)
  ultimately have "trips_in (Suc 1) s (trip_of s)" by (rule trips_step)
  then show ?thesis by (simp add: numeral_2_eq_2)
qed

lemma overrun_run:
  "wd_run (watchdog_new 0) [ABeginRequest 10, ABeginOperation ''op'', AClock 50] overrun_state"
proof -
  let ?s = "BeginOperation ''op'' (BeginRequest 10 ((watchdog_new 0)\<lparr>wd_cancelled := False\<rparr>))"
  have "wd_step ?s (AClock 50) (?s\<lparr>wd_now := wd_now ?s + 50\<rparr>)" by (rule step_clock) simp
  moreover have "wd_now ?s + 50 = 50" by (simp add: wd_defs watchdog_new_def)
  ultimately have "wd_step ?s (AClock 50) overrun_state" by (simp add: overrun_state_def)
  from run_cons [OF run_cons [OF run_cons [OF run_none this] step_begin_operation] step_begin_request]
  show ?thesis .
qed

lemmas overrun_eval = overrun_state_def wd_defs watchdog_new_def

theorem trip_is_genuine_witness:
  "wd_deadline (overrun_state\<lparr>wd_pc := TimedWait 2 10\<rparr>) \<le> wd_now overrun_state \<and>
   Result (record_trip (overrun_state\<lparr>wd_pc := TimedWait 2 10\<rparr>)) =
     \<lparr>tripped_flag = True, tripped_op = ''op'', tripped_budget = 10\<rparr>"
proof -
  let ?s = "overrun_state\<lparr>wd_pc := TimedWait 2 10\<rparr>"
  have "run_wait overrun_state = Some ?s" by (simp add: run_wait_def overrun_eval)
  then have run: "wd_run (watchdog_new 0) ([ABeginRequest 10, ABeginOperation ''op'', AClock 50] @ [AWatch]) ?s"
    by (intro run_step [OF overrun_run] step_wait)
  have "wd_step ?s AWatch (record_trip ?s)"
    by (rule step_timed_wait) (simp add: run_timed_wait_def overrun_eval)
  from trip_is_genuine [OF run _ this] show ?thesis
    by (simp add: overrun_eval record_trip_def Result_def no_timeout_def)
qed

text \<open>C36. An overrun is noticed: whenever an operation is armed, no cause is claimed and its
  deadline has passed, at most three steps of the watchdog thread alone record the timeout of
  that operation and set the flag.\<close>

theorem overrun_trips:
  assumes "wd_run (watchdog_new t0) as s" and "wd_bumps s < 2 ^ 64"
    and "wd_armed s" and "wd_cause s = NoCause" and "wd_deadline s \<le> wd_now s"
    and "\<not> wd_stop s" and "wd_pc s \<noteq> Finished"
  shows "\<exists>n \<le> 3. \<exists>s'. wd_run s (replicate n AWatch) s' \<and> wd_cancelled s' \<and>
    Result s' = \<lparr>tripped_flag = True, tripped_op = wd_operationId s, tripped_budget = wd_timeout s\<rparr>"
proof -
  have ok: "wd_ok s" using wd_ok_run [OF assms(1) wd_ok_new assms(2)] .
  consider (stale) g d where "wd_pc s = TimedWait g d" "g \<noteq> wd_generation s"
    | (current) "wd_pc s = TimedWait (wd_generation s) (wd_deadline s)"
    | (waiting) "wd_pc s = Waiting"
    using timed_wait_current [OF ok assms(2)] assms(7) watch_pc.exhaust by metis
  then show ?thesis
  proof cases
    case stale
    let ?w = "s\<lparr>wd_pc := Waiting\<rparr>"
    have "wd_step s AWatch ?w" using stale by (intro step_timed_wait) (simp add: run_timed_wait_def)
    moreover have "trips_in 2 ?w (trip_of s)"
      using trips_from_waiting [of ?w] assms by (simp add: trip_of_def)
    ultimately have "trips_in (Suc 2) s (trip_of s)" by (rule trips_step)
    then have "trips_in 3 s (trip_of s)" by (simp add: eval_nat_numeral)
    then show ?thesis unfolding trips_in_def trip_of_def by blast
  next
    case current
    then have "trips_in 1 s (trip_of s)" using trips_from_current assms by blast
    then show ?thesis unfolding trips_in_def trip_of_def by (metis one_le_numeral)
  next
    case waiting
    then have "trips_in 2 s (trip_of s)" using trips_from_waiting assms by blast
    moreover have "(2 :: nat) \<le> 3" by simp
    ultimately show ?thesis unfolding trips_in_def trip_of_def by blast
  qed
qed

theorem overrun_trips_witness:
  "\<exists>n \<le> 3. \<exists>s'. wd_run overrun_state (replicate n AWatch) s' \<and> wd_cancelled s' \<and>
    Result s' = \<lparr>tripped_flag = True, tripped_op = ''op'', tripped_budget = 10\<rparr>"
proof -
  have "wd_operationId overrun_state = ''op''" "wd_timeout overrun_state = 10" by (simp_all add: overrun_eval)
  with overrun_trips [OF overrun_run] show ?thesis by (simp add: overrun_eval)
qed

end
