(* ===== verification/Occt.thy ===== *)
theory Occt
  imports Json_Value
begin

text \<open>
  What the naming substrate asks of the OCCT topology kernel, as parameters: a shape is a value
  of the type variable \<open>'sh\<close>, whose equality is \<open>IsSame\<close>; \<open>map_shapes s k\<close> is the content of
  \<open>TopExp::MapShapes\<close> in index order; an algorithm's history is its \<open>Modified\<close> and \<open>Generated\<close>
  lists; the bounding-box quantum and the quantized mass properties are functions of shapes.
  \<open>occt_ok\<close> states the documented behaviour the proofs use: an indexed map lists each sub-shape
  once, and lists only shapes of the asked type.
\<close>

datatype shape_kind = FACE | EDGE | VERTEX | OTHER_SHAPE

record 'sh occt =
  shape_type :: "'sh \<Rightarrow> shape_kind"
  map_shapes :: "'sh \<Rightarrow> shape_kind \<Rightarrow> 'sh list"
  quantum_for :: "'sh list \<Rightarrow> f64"
  quantized_measures :: "'sh \<Rightarrow> f64 \<Rightarrow> int \<times> int \<times> int \<times> int"

record 'sh history =
  history_modified :: "'sh \<Rightarrow> 'sh list"
  history_generated :: "'sh \<Rightarrow> 'sh list"

definition occt_ok :: "'sh occt \<Rightarrow> bool" where
  "occt_ok T \<longleftrightarrow> (\<forall>s k. distinct (map_shapes T s k) \<and> (\<forall>x \<in> set (map_shapes T s k). shape_type T x = k))"

definition kNamedKinds :: "shape_kind list" where
  "kNamedKinds = [FACE, EDGE, VERTEX]"

definition KindCodeOf :: "shape_kind \<Rightarrow> char result" where
  "KindCodeOf k =
     (case k of FACE \<Rightarrow> Inr (CHR ''f'') | EDGE \<Rightarrow> Inr (CHR ''e'') | VERTEX \<Rightarrow> Inr (CHR ''v'')
      | OTHER_SHAPE \<Rightarrow> Inl (Runtime_error ''element naming covers faces, edges, and vertices only''))"

definition kind_code :: "shape_kind \<Rightarrow> char" where
  "kind_code k = (case k of FACE \<Rightarrow> CHR ''f'' | EDGE \<Rightarrow> CHR ''e'' | _ \<Rightarrow> CHR ''v'')"

lemma named_kindE:
  "k \<in> set kNamedKinds \<Longrightarrow> (k = FACE \<Longrightarrow> P) \<Longrightarrow> (k = EDGE \<Longrightarrow> P) \<Longrightarrow> (k = VERTEX \<Longrightarrow> P) \<Longrightarrow> P"
  by (auto simp: kNamedKinds_def)

lemma KindCodeOf_named: "k \<in> set kNamedKinds \<Longrightarrow> KindCodeOf k = Inr (kind_code k)"
  by (auto simp: kNamedKinds_def KindCodeOf_def kind_code_def)

lemma kind_code_inj: "k \<in> set kNamedKinds \<Longrightarrow> l \<in> set kNamedKinds \<Longrightarrow> kind_code k = kind_code l \<Longrightarrow> k = l"
  by (auto simp: kNamedKinds_def kind_code_def)

text \<open>\<open>CheckCancellation\<close>: the flag is read at each poll; here it has one value during a call.\<close>

definition CheckCancellation :: "bool \<Rightarrow> unit result" where
  "CheckCancellation cancelled = (if cancelled then Inl Cancelled else Inr ())"

text \<open>\<open>NCollection_IndexedMap::FindIndex\<close>: the 1-based index, 0 when absent.\<close>

fun find_index_from :: "nat \<Rightarrow> 'a \<Rightarrow> 'a list \<Rightarrow> nat" where
  "find_index_from n x [] = 0"
| "find_index_from n x (y # ys) = (if x = y then n else find_index_from (Suc n) x ys)"

definition FindIndex :: "'a list \<Rightarrow> 'a \<Rightarrow> nat" where
  "FindIndex xs x = find_index_from 1 x xs"

lemma find_index_from_absent: "0 < n \<Longrightarrow> find_index_from n x xs = 0 \<longleftrightarrow> x \<notin> set xs"
  by (induction n x xs rule: find_index_from.induct) auto

lemma find_index_from_nth:
  "x \<in> set xs \<Longrightarrow> n \<le> find_index_from n x xs \<and> find_index_from n x xs - n < length xs \<and>
     xs ! (find_index_from n x xs - n) = x"
proof (induction n x xs rule: find_index_from.induct)
  case (2 n x y ys)
  show ?case
  proof (cases "x = y")
    case False
    let ?i = "find_index_from (Suc n) x ys"
    have "Suc n \<le> ?i" "?i - Suc n < length ys" "ys ! (?i - Suc n) = x" using 2 False by auto
    moreover from this have "?i - n = Suc (?i - Suc n)" by simp
    ultimately show ?thesis using False by simp
  qed simp
qed simp

lemma FindIndex_absent [simp]: "FindIndex xs x = 0 \<longleftrightarrow> x \<notin> set xs"
  by (simp add: FindIndex_def find_index_from_absent)

lemma FindIndex_nth: "x \<in> set xs \<Longrightarrow> FindIndex xs x - 1 < length xs \<and> xs ! (FindIndex xs x - 1) = x"
  using find_index_from_nth [of x xs 1] by (simp add: FindIndex_def)

end
