(* ===== verification/Name_Grammar.thy ===== *)
theory Name_Grammar
  imports Sha256 Json_Value "HOL-Library.Multiset"
begin

text \<open>
  The grammar helpers of \<open>element_names.cpp\<close>: the prefix of an operation id, the plain Modified
  step, the survivor-matching congruence \<open>NormalizeName\<close> and the order-free hash of a set of
  names. The lemmas show that normalisation is a projection that erases exactly the plain
  Modified steps, and that the hash does not depend on the order of the names.
\<close>

section \<open>Definitions\<close>

definition IsHexDigit :: "char \<Rightarrow> bool" where
  "IsHexDigit c \<longleftrightarrow> (CHR ''0'' \<le> c \<and> c \<le> CHR ''9'') \<or> (CHR ''a'' \<le> c \<and> c \<le> CHR ''f'')"

definition lower_hex :: "char \<Rightarrow> char" where
  "lower_hex raw =
     (if CHR ''A'' \<le> raw \<and> raw \<le> CHR ''F'' then char_of (of_char raw - of_char (CHR ''A'') + of_char (CHR ''a'') :: nat)
      else raw)"

fun op_prefix_loop :: "string \<Rightarrow> string \<Rightarrow> string result" where
  "op_prefix_loop pre [] = Inl (Runtime_error ''element naming requires UUID operation ids'')"
| "op_prefix_loop pre (raw # rest) =
     (if raw = CHR ''-'' then op_prefix_loop pre rest
      else let lowered = lower_hex raw in
        if \<not> IsHexDigit lowered then Inl (Runtime_error ''element naming requires UUID operation ids'')
        else let pre' = pre @ [lowered] in
          if length pre' = 8 then Inr pre' else op_prefix_loop pre' rest)"

definition OperationIdPrefix :: "string \<Rightarrow> string result" where
  "OperationIdPrefix operationId = op_prefix_loop '''' operationId"

definition IsPlainModifiedSegment :: "string \<Rightarrow> bool" where
  "IsPlainModifiedSegment segment \<longleftrightarrow>
     length segment = 10 \<and> segment ! 0 = CHR ''M'' \<and> segment ! 1 = CHR ''.'' \<and>
     list_all IsHexDigit (List.drop 2 segment)"

text \<open>The segments between slashes; a name without a slash is one segment.\<close>

fun segments :: "string \<Rightarrow> string list" where
  "segments [] = [[]]"
| "segments (c # s) =
     (if c = CHR ''/'' then [] # segments s
      else case segments s of [] \<Rightarrow> [[c]] | x # xs \<Rightarrow> (c # x) # xs)"

definition normalize_step :: "string \<Rightarrow> string \<Rightarrow> string" where
  "normalize_step normalized segment =
     (if IsPlainModifiedSegment segment then normalized
      else (if normalized \<noteq> [] then normalized @ ''/'' else normalized) @ segment)"

definition NormalizeName :: "string \<Rightarrow> string" where
  "NormalizeName name = foldl normalize_step '''' (segments name)"

definition NormalizeElementName :: "string \<Rightarrow> string" where
  "NormalizeElementName name = NormalizeName name"

definition join_lines :: "string list \<Rightarrow> string" where
  "join_lines names = (case names of [] \<Rightarrow> [] | x # xs \<Rightarrow> x @ concat (map (\<lambda>y. CHR 0x0A # y) xs))"

definition HashNameSet :: "string list \<Rightarrow> string" where
  "HashNameSet names = Sha256Hex8 (join_lines (sort names))"

section \<open>Normalisation\<close>

definition join_slash :: "string list \<Rightarrow> string" where
  "join_slash xs = (case xs of [] \<Rightarrow> [] | x # rest \<Rightarrow> x @ concat (map (\<lambda>y. CHR ''/'' # y) rest))"

lemma segments_nonempty [simp]: "segments s \<noteq> []"
  by (induction s) (auto split: list.splits)

lemma segments_no_slash: "x \<in> set (segments s) \<Longrightarrow> CHR ''/'' \<notin> set x"
  by (induction s arbitrary: x) (auto split: list.splits if_splits)

lemma segments_plain: "CHR ''/'' \<notin> set x \<Longrightarrow> segments x = [x]"
  by (induction x) auto

lemma segments_append: "CHR ''/'' \<notin> set x \<Longrightarrow> segments (x @ CHR ''/'' # s) = x # segments s"
  by (induction x) auto

lemma segments_join:
  "xs \<noteq> [] \<Longrightarrow> \<forall>x \<in> set xs. CHR ''/'' \<notin> set x \<Longrightarrow> segments (join_slash xs) = xs"
proof (induction xs)
  case (Cons x xs)
  then show ?case
    by (cases xs) (auto simp: join_slash_def segments_plain segments_append)
qed simp

lemma join_segments: "join_slash (segments s) = s"
  by (induction s) (auto simp: join_slash_def split: list.splits)

definition kept_segments :: "string list \<Rightarrow> string list" where
  "kept_segments xs = dropWhile (\<lambda>x. x = []) (filter (\<lambda>x. \<not> IsPlainModifiedSegment x) xs)"

lemma foldl_normalize_nonempty:
  "acc \<noteq> [] \<Longrightarrow> foldl normalize_step acc xs =
     acc @ concat (map (\<lambda>y. CHR ''/'' # y) (filter (\<lambda>x. \<not> IsPlainModifiedSegment x) xs))"
  by (induction xs arbitrary: acc) (auto simp: normalize_step_def)

lemma normalize_step_first: "normalize_step [] x = (if IsPlainModifiedSegment x then [] else x)"
  by (simp add: normalize_step_def)

lemma foldl_normalize: "foldl normalize_step [] xs = join_slash (kept_segments xs)"
proof (induction xs)
  case (Cons x xs)
  then show ?case
    by (cases "x = []") (auto simp: normalize_step_first kept_segments_def foldl_normalize_nonempty join_slash_def)
qed (simp add: kept_segments_def join_slash_def)

lemma NormalizeName_kept: "NormalizeName s = join_slash (kept_segments (segments s))"
  by (simp add: NormalizeName_def foldl_normalize)

lemma kept_segments_idem: "kept_segments (kept_segments xs) = kept_segments xs"
proof -
  let ?f = "filter (\<lambda>x. \<not> IsPlainModifiedSegment x) xs"
  have "filter (\<lambda>x. \<not> IsPlainModifiedSegment x) (dropWhile P ?f) = dropWhile P ?f" for P
    by (rule filter_True) (auto dest: set_dropWhileD)
  then show ?thesis by (simp add: kept_segments_def dropWhile_idem)
qed

lemma empty_not_plain [simp]: "\<not> IsPlainModifiedSegment []"
  by (simp add: IsPlainModifiedSegment_def)

lemma segments_normalized:
  "segments (NormalizeName s) = (if kept_segments (segments s) = [] then [[]] else kept_segments (segments s))"
proof (cases "kept_segments (segments s) = []")
  case False
  have "\<forall>x \<in> set (kept_segments (segments s)). CHR ''/'' \<notin> set x"
    using segments_no_slash by (auto simp: kept_segments_def dest!: set_dropWhileD)
  with False show ?thesis by (simp add: NormalizeName_kept segments_join)
qed (simp add: NormalizeName_kept join_slash_def)

section \<open>Operation ids\<close>

lemma op_prefix_loop_shape:
  "op_prefix_loop pre s = Inr p \<Longrightarrow> length pre < 8 \<Longrightarrow> list_all IsHexDigit pre \<Longrightarrow>
     length p = 8 \<and> list_all IsHexDigit p"
  by (induction pre s rule: op_prefix_loop.induct) (auto simp: Let_def split: if_splits)

lemma OperationIdPrefix_shape: "OperationIdPrefix i = Inr p \<Longrightarrow> length p = 8 \<and> list_all IsHexDigit p"
  unfolding OperationIdPrefix_def by (erule op_prefix_loop_shape) simp_all

lemma plain_segment_of_prefix:
  "OperationIdPrefix i = Inr p \<Longrightarrow> IsPlainModifiedSegment (''M.'' @ p)"
  using OperationIdPrefix_shape [of i p] by (simp add: IsPlainModifiedSegment_def)

section \<open>Properties\<close>

text \<open>Normalisation is a projection: normalising a name twice is normalising it once, so
  names that are already normalised (the constituents of every embedded hash) are fixed points.\<close>

theorem NormalizeName_idempotent: "NormalizeName (NormalizeName name) = NormalizeName name"
proof (cases "kept_segments (segments name) = []")
  case True
  then have "NormalizeName name = []" unfolding NormalizeName_kept by (simp add: join_slash_def)
  moreover have "NormalizeName [] = []" by (simp add: NormalizeName_def normalize_step_def)
  ultimately show ?thesis by simp
next
  case False
  then show ?thesis
    by (simp add: NormalizeName_kept [of "NormalizeName name"] segments_normalized kept_segments_idem)
       (simp add: NormalizeName_kept)
qed

text \<open>The congruence that survivor matching needs: a plain Modified step of an operation,
  anywhere in a lineage chain after its root, does not change the normal form, so a name minted
  with the step and one minted after the operation was suppressed match as strings.\<close>

theorem NormalizeName_erases_modified_step:
  assumes "OperationIdPrefix operationId = Inr p" and "\<forall>x \<in> set (root # steps1 @ steps2). CHR ''/'' \<notin> set x"
  shows "NormalizeName (join_slash (root # steps1 @ (''M.'' @ p) # steps2)) =
         NormalizeName (join_slash (root # steps1 @ steps2))"
proof -
  have "list_all IsHexDigit p" using OperationIdPrefix_shape [OF assms(1)] by simp
  then have "CHR ''/'' \<notin> set (''M.'' @ p)" by (auto simp: list_all_iff IsHexDigit_def)
  with assms(2) have "segments (join_slash (root # steps1 @ (''M.'' @ p) # steps2)) = root # steps1 @ (''M.'' @ p) # steps2"
    and "segments (join_slash (root # steps1 @ steps2)) = root # steps1 @ steps2"
    by (auto intro!: segments_join)
  moreover have "kept_segments (root # steps1 @ (''M.'' @ p) # steps2) = kept_segments (root # steps1 @ steps2)"
    unfolding kept_segments_def using plain_segment_of_prefix [OF assms(1)] by simp
  ultimately show ?thesis unfolding NormalizeName_kept by simp
qed

theorem NormalizeName_erases_modified_step_witness:
  "NormalizeName (join_slash (''n1:0a1b2c3d.f.1'' # [''G.11112222''] @ (''M.'' @ ''0123abcd'') # [''M.99990000.aaaabbbb''])) =
   NormalizeName (join_slash (''n1:0a1b2c3d.f.1'' # [''G.11112222''] @ [''M.99990000.aaaabbbb'']))"
  by (rule NormalizeName_erases_modified_step [where operationId = "''0123ABCD-1111''"]) code_simp+

text \<open>The hash of a set of names does not depend on their order: section names are the same
  under a flip of a Boolean's arguments and under any traversal order.\<close>

theorem HashNameSet_commutative:
  "HashNameSet (names @ others) = HashNameSet (others @ names) \<and> HashNameSet (rev names) = HashNameSet names"
proof -
  have "sort (names @ others) = sort (others @ names)"
    by (metis mset_append add.commute properties_for_sort mset_sort sorted_sort)
  moreover have "sort (rev names) = sort names"
    by (metis mset_rev properties_for_sort mset_sort sorted_sort)
  ultimately show ?thesis by (simp add: HashNameSet_def)
qed

end
