(* ===== verification/Element_Names.thy ===== *)
theory Element_Names
  imports Name_Grammar Occt Snapshot
begin

text \<open>
  Element naming (\<open>element_names.cpp\<close>): the book of names (\<open>ElementNameBook\<close>) as a map from
  shapes to names, and the multi-pass naming of one operation (\<open>OperationNaming\<close>) pass by pass
  on an explicit state. A call that throws leaves no book (the evaluation that owns it is abandoned);
  maps keyed by \<open>IsSame\<close> are functions on shapes, ordinals are 1-based as
  in the indexed maps, and every \<open>throw\<close> is an error value.
\<close>

section \<open>State\<close>

type_synonym 'sh names = "'sh \<Rightarrow> string option"

record 'sh PendingImage =
  pend_shape :: 'sh
  pend_prefix :: string
  pend_anchors :: "'sh list"
  pend_kind :: shape_kind
  pend_resolved :: bool

record 'sh naming =
  bookNames :: "'sh names"
  operationPrefix :: string
  naming_inputs :: "'sh list"
  naming_result :: 'sh
  naming_history :: "'sh history"
  naming_cancelled :: bool
  sources :: "'sh list"
  resultNames :: "'sh names"
  reverseModified :: "'sh \<Rightarrow> nat list option"
  reverseGenerated :: "'sh \<Rightarrow> nat list option"
  pending_images :: "'sh PendingImage list"

definition QuantizedGeometryKey :: "'sh occt \<Rightarrow> 'sh \<Rightarrow> f64 \<Rightarrow> string result" where
  "QuantizedGeometryKey T shape quantum =
     rbind (KindCodeOf (shape_type T shape)) (\<lambda>code.
       let (x, y, z, measure) = quantized_measures T shape quantum in
       Inr ([code] @ '':'' @ to_string_int x @ '':'' @ to_string_int y @ '':'' @ to_string_int z @
            '':'' @ to_string_int measure))"

definition ResultOfKind :: "'sh occt \<Rightarrow> 'sh naming \<Rightarrow> shape_kind \<Rightarrow> 'sh list" where
  "ResultOfKind T s kind = map_shapes T (naming_result s) kind"

definition InResult :: "'sh occt \<Rightarrow> 'sh naming \<Rightarrow> 'sh \<Rightarrow> bool" where
  "InResult T s shape \<longleftrightarrow>
     shape_type T shape \<in> set kNamedKinds \<and> shape \<in> set (ResultOfKind T s (shape_type T shape))"

definition Assign_name :: "'sh \<Rightarrow> string \<Rightarrow> 'sh names \<Rightarrow> 'sh names result" where
  "Assign_name shape name names =
     (case names shape of
        Some existing \<Rightarrow>
          if existing \<noteq> name
          then Inl (Runtime_error (''element naming produced two distinct names for one entity ('' @
                      existing @ '' vs '' @ name @ '')''))
          else Inr names
      | None \<Rightarrow> Inr (names(shape \<mapsto> name)))"

definition Assign :: "'sh \<Rightarrow> string \<Rightarrow> 'sh naming \<Rightarrow> 'sh naming result" where
  "Assign shape name s =
     rbind (Assign_name shape name (resultNames s)) (\<lambda>names. Inr (s\<lparr>resultNames := names\<rparr>))"

definition source_at :: "'sh naming \<Rightarrow> nat \<Rightarrow> 'sh" where
  "source_at s ordinal = sources s ! (ordinal - 1)"

definition SourceName :: "'sh naming \<Rightarrow> nat \<Rightarrow> string result" where
  "SourceName s ordinal =
     (case bookNames s (source_at s ordinal) of
        None \<Rightarrow> Inl (Runtime_error ''element naming lost a source name it collected'')
      | Some name \<Rightarrow> Inr name)"

section \<open>The passes\<close>

definition collect_source :: "'sh naming \<Rightarrow> 'sh \<Rightarrow> 'sh naming result" where
  "collect_source s shape =
     (if shape \<in> set (sources s) then Inr s
      else if bookNames s shape = None
      then Inl (Runtime_error ''element naming requires every input sub-shape to be named before the operation applies'')
      else Inr (s\<lparr>sources := sources s @ [shape]\<rparr>))"

definition CollectSources :: "'sh occt \<Rightarrow> 'sh naming \<Rightarrow> 'sh naming result" where
  "CollectSources T s =
     rfold (\<lambda>s input.
       rfold (\<lambda>s kind.
         rbind (CheckCancellation (naming_cancelled s)) (\<lambda>_.
           rfold collect_source s (map_shapes T input kind))) s kNamedKinds) s (naming_inputs s)"

definition PassIdentitySurvivors :: "'sh occt \<Rightarrow> 'sh naming \<Rightarrow> 'sh naming result" where
  "PassIdentitySurvivors T s =
     rfold (\<lambda>s ordinal.
       if InResult T s (source_at s ordinal)
       then rbind (SourceName s ordinal) (\<lambda>name. Assign (source_at s ordinal) name s)
       else Inr s) s [1..<length (sources s) + 1]"

definition AddReverse :: "'sh occt \<Rightarrow> 'sh naming \<Rightarrow> 'sh \<Rightarrow> nat \<Rightarrow> ('sh \<Rightarrow> nat list option) \<Rightarrow> ('sh \<Rightarrow> nat list option)" where
  "AddReverse T s img ordinal m =
     (if \<not> InResult T s img then m
      else let parents = (case m img of None \<Rightarrow> [] | Some ps \<Rightarrow> ps) in
        m(img \<mapsto> (if ordinal \<in> set parents then parents else parents @ [ordinal])))"

definition BuildReverseHistory :: "'sh occt \<Rightarrow> 'sh naming \<Rightarrow> 'sh naming result" where
  "BuildReverseHistory T s =
     rfold (\<lambda>s ordinal.
       rbind (CheckCancellation (naming_cancelled s)) (\<lambda>_.
         let shape = source_at s ordinal; h = naming_history s in
         Inr (s\<lparr>reverseModified := fold (\<lambda>img. AddReverse T s img ordinal) (history_modified h shape) (reverseModified s),
                reverseGenerated := fold (\<lambda>img. AddReverse T s img ordinal) (history_generated h shape) (reverseGenerated s)\<rparr>)))
       s [1..<length (sources s) + 1]"

subsection \<open>Planning the history images\<close>

text \<open>
  The plans of the first loop: images by (source ordinal, kind), and the section entities with
  their parents.
\<close>

record 'sh plans =
  modifiedPlans :: "((nat \<times> char) \<times> 'sh list) list"
  generatedPlans :: "((nat \<times> char) \<times> 'sh list) list"
  sectionPlans :: "('sh \<times> shape_kind \<times> nat list) list"

definition no_plans :: "'sh plans" where
  "no_plans = \<lparr>modifiedPlans = [], generatedPlans = [], sectionPlans = []\<rparr>"

definition plan_shape :: "'sh naming \<Rightarrow> shape_kind \<Rightarrow> 'sh plans \<Rightarrow> 'sh \<Rightarrow> 'sh plans result" where
  "plan_shape s kind p shape =
     rbind (CheckCancellation (naming_cancelled s)) (\<lambda>_.
       if resultNames s shape \<noteq> None then Inr p
       else case reverseModified s shape of
         Some modifiedParents \<Rightarrow>
           Inr (p\<lparr>modifiedPlans := multi_push (Min (set modifiedParents), kind_code kind) shape (modifiedPlans p)\<rparr>)
       | None \<Rightarrow>
           (case reverseGenerated s shape of
              Some generatedParents \<Rightarrow>
                if length generatedParents = 1
                then Inr (p\<lparr>generatedPlans := multi_push (hd generatedParents, kind_code kind) shape (generatedPlans p)\<rparr>)
                else Inr (p\<lparr>sectionPlans := sectionPlans p @ [(shape, kind, generatedParents)]\<rparr>)
            | None \<Rightarrow> Inr p))"

definition plan_images :: "'sh occt \<Rightarrow> 'sh naming \<Rightarrow> 'sh plans result" where
  "plan_images T s =
     rfold (\<lambda>p kind. rbind (KindCodeOf kind) (\<lambda>_. rfold (plan_shape s kind) p (ResultOfKind T s kind)))
       no_plans kNamedKinds"

definition code_kind :: "char \<Rightarrow> shape_kind" where
  "code_kind c = (if c = CHR ''f'' then FACE else if c = CHR ''e'' then EDGE else VERTEX)"

text \<open>\<open>assignStepPlans\<close>: a sole img takes the step, siblings wait for a disambiguator.\<close>

definition assignStepPlan :: "char \<Rightarrow> 'sh naming \<Rightarrow> (nat \<times> char) \<times> 'sh list \<Rightarrow> 'sh naming result" where
  "assignStepPlan marker s plan =
     (case plan of ((ordinal, code), images) \<Rightarrow>
        rbind (SourceName s ordinal) (\<lambda>name.
          let step = name @ ''/'' @ [marker] @ ''.'' @ operationPrefix s in
          if length images = 1 then Assign (hd images) step s
          else Inr (s\<lparr>pending_images := pending_images s @
                 map (\<lambda>img. \<lparr>pend_shape = img, pend_prefix = step @ ''.'',
                        pend_anchors = [source_at s ordinal], pend_kind = code_kind code,
                        pend_resolved = False\<rparr>) images\<rparr>)))"

definition section_parents :: "'sh occt \<Rightarrow> 'sh naming \<Rightarrow> shape_kind \<Rightarrow> nat list \<Rightarrow> nat list" where
  "section_parents T s kind parents =
     (let preferredKind = (if kind = VERTEX then EDGE else FACE);
          preferred = filter (\<lambda>ordinal. shape_type T (source_at s ordinal) = preferredKind) parents
      in if kind \<noteq> FACE \<and> 2 \<le> length preferred then preferred else parents)"

definition group_section ::
  "'sh occt \<Rightarrow> 'sh naming \<Rightarrow> ((string \<times> char) \<times> ('sh \<times> nat list) list) list \<Rightarrow> 'sh \<times> shape_kind \<times> nat list \<Rightarrow>
   ((string \<times> char) \<times> ('sh \<times> nat list) list) list result" where
  "group_section T s groups plan =
     (case plan of (shape, kind, parents) \<Rightarrow>
        let chosen = section_parents T s kind parents in
        rbind (rmap (\<lambda>ordinal. rbind (SourceName s ordinal) (\<lambda>n. Inr (NormalizeName n))) chosen) (\<lambda>parentNames.
          let base = ''n1:S.'' @ operationPrefix s @ ''.'' @ HashNameSet parentNames in
          Inr (multi_push (base, kind_code kind) (shape, chosen) groups)))"

definition assign_section_group :: "'sh naming \<Rightarrow> (string \<times> char) \<times> ('sh \<times> nat list) list \<Rightarrow> 'sh naming result" where
  "assign_section_group s grp =
     (case grp of ((base, code), members) \<Rightarrow>
        if length members = 1 then Assign (fst (hd members)) base s
        else Inr (s\<lparr>pending_images := pending_images s @
               map (\<lambda>(shape, parents). \<lparr>pend_shape = shape, pend_prefix = base @ ''.'',
                      pend_anchors = map (source_at s) parents, pend_kind = code_kind code,
                      pend_resolved = False\<rparr>) members\<rparr>))"

definition PlanAndAssignHistoryImages :: "'sh occt \<Rightarrow> 'sh naming \<Rightarrow> 'sh naming result" where
  "PlanAndAssignHistoryImages T s =
     rbind (plan_images T s) (\<lambda>p.
     rbind (rfold (assignStepPlan (CHR ''M'')) s (modifiedPlans p)) (\<lambda>s1.
     rbind (rfold (assignStepPlan (CHR ''G'')) s1 (generatedPlans p)) (\<lambda>s2.
     rbind (rfold (group_section T s2) [] (sectionPlans p)) (\<lambda>groups.
       rfold assign_section_group s2 groups))))"

subsection \<open>Disambiguation and reconstruction\<close>

definition QuantizedDisambiguator :: "'sh occt \<Rightarrow> 'sh PendingImage \<Rightarrow> string result" where
  "QuantizedDisambiguator T img =
     rbind (QuantizedGeometryKey T (pend_shape img) (quantum_for T (pend_anchors img)))
       (\<lambda>key. Inr (Sha256Hex8 key))"

text \<open>The normalised names of the lower elements, when there are some and all are named.\<close>

definition lower_names :: "'sh names \<Rightarrow> 'sh list \<Rightarrow> string list option" where
  "lower_names names lowerShapes =
     (if lowerShapes \<noteq> [] \<and> list_all (\<lambda>x. names x \<noteq> None) lowerShapes
      then Some (map (\<lambda>x. NormalizeName (the (names x))) lowerShapes) else None)"

definition disambiguator :: "'sh occt \<Rightarrow> bool \<Rightarrow> 'sh names \<Rightarrow> 'sh PendingImage \<Rightarrow> string option result" where
  "disambiguator T force names img =
     (if pend_kind img = VERTEX then rbind (QuantizedDisambiguator T img) (\<lambda>d. Inr (Some d))
      else let lowerKind = (if pend_kind img = FACE then EDGE else VERTEX) in
        case lower_names names (map_shapes T (pend_shape img) lowerKind) of
          Some ns \<Rightarrow> Inr (Some (HashNameSet ns))
        | None \<Rightarrow> if force then rbind (QuantizedDisambiguator T img) (\<lambda>d. Inr (Some d)) else Inr None)"

text \<open>The inner loop for one kind: the names, the images with their flags, and the progress flag.\<close>

fun resolve_images ::
  "'sh occt \<Rightarrow> bool \<Rightarrow> shape_kind \<Rightarrow> 'sh names \<Rightarrow> 'sh PendingImage list \<Rightarrow>
   ('sh names \<times> 'sh PendingImage list \<times> bool) result" where
  "resolve_images T force kind names [] = Inr (names, [], False)"
| "resolve_images T force kind names (img # rest) =
     (if pend_resolved img \<or> pend_kind img \<noteq> kind
      then rbind (resolve_images T force kind names rest) (\<lambda>(n, images, p). Inr (n, img # images, p))
      else rbind (disambiguator T force names img) (\<lambda>d.
        case d of
          None \<Rightarrow> rbind (resolve_images T force kind names rest) (\<lambda>(n, images, p). Inr (n, img # images, p))
        | Some suffix \<Rightarrow>
            rbind (Assign_name (pend_shape img) (pend_prefix img @ suffix) names) (\<lambda>names'.
            rbind (resolve_images T force kind names' rest) (\<lambda>(n, images, p).
              Inr (n, img\<lparr>pend_resolved := True\<rparr> # images, True)))))"

definition ResolvePendingDisambiguators :: "'sh occt \<Rightarrow> bool \<Rightarrow> 'sh naming \<Rightarrow> (bool \<times> 'sh naming) result" where
  "ResolvePendingDisambiguators T force s =
     rfold (\<lambda>(progress, s) kind.
       rbind (resolve_images T force kind (resultNames s) (pending_images s)) (\<lambda>(n, images, p).
         Inr (progress \<or> p, s\<lparr>resultNames := n, pending_images := images\<rparr>)))
       (False, s) [VERTEX, EDGE, FACE]"

text \<open>\<open>BuildResultIncidence\<close>: for each entity, the containers that hold it, in index order.\<close>

definition containers_of :: "'sh occt \<Rightarrow> 'sh naming \<Rightarrow> shape_kind \<Rightarrow> shape_kind \<Rightarrow> 'sh \<Rightarrow> 'sh list" where
  "containers_of T s containerKind kind shape =
     filter (\<lambda>c. shape \<in> set (map_shapes T c kind)) (ResultOfKind T s containerKind)"

definition try_reconstruct ::
  "'sh occt \<Rightarrow> shape_kind \<Rightarrow> shape_kind \<Rightarrow> bool \<times> 'sh naming \<Rightarrow> 'sh \<Rightarrow> (bool \<times> 'sh naming) result" where
  "try_reconstruct T containerKind kind ps shape =
     (case ps of (progress, s) \<Rightarrow>
        if resultNames s shape \<noteq> None then Inr (progress, s)
        else case lower_names (resultNames s) (containers_of T s containerKind kind shape) of
          None \<Rightarrow> Inr (progress, s)
        | Some names \<Rightarrow>
            rbind (Assign shape (''n1:L.'' @ operationPrefix s @ ''.'' @ HashNameSet names) s)
              (\<lambda>s'. Inr (True, s')))"

definition ResolveLowerBoundNames :: "'sh occt \<Rightarrow> 'sh naming \<Rightarrow> (bool \<times> 'sh naming) result" where
  "ResolveLowerBoundNames T s =
     rbind (rfold (try_reconstruct T FACE EDGE) (False, s) (ResultOfKind T s EDGE)) (\<lambda>ps.
       rfold (try_reconstruct T EDGE VERTEX) ps (ResultOfKind T s VERTEX))"

definition AssignQuantizedRoots :: "'sh occt \<Rightarrow> 'sh naming \<Rightarrow> 'sh naming result" where
  "AssignQuantizedRoots T s =
     (let quantum = quantum_for T [naming_result s] in
      rfold (\<lambda>s kind.
        rfold (\<lambda>s shape.
          if resultNames s shape \<noteq> None then Inr s
          else rbind (QuantizedGeometryKey T shape quantum) (\<lambda>key.
                 Assign shape (''n1:Q.'' @ Sha256Hex8 key) s)) s (ResultOfKind T s kind)) s kNamedKinds)"

definition merge_shape :: "'sh naming \<Rightarrow> 'sh \<Rightarrow> 'sh naming result" where
  "merge_shape s shape =
     (case resultNames s shape of
        None \<Rightarrow> Inl (Runtime_error ''element naming failed total coverage of the result'')
      | Some name \<Rightarrow>
          if bookNames s shape \<noteq> None \<and> bookNames s shape \<noteq> Some name
          then Inl (Runtime_error ''element naming rebound a live sub-shape to a new name'')
          else Inr (s\<lparr>bookNames := (bookNames s)(shape \<mapsto> name)\<rparr>))"

definition MergeIntoBook :: "'sh occt \<Rightarrow> 'sh naming \<Rightarrow> 'sh naming result" where
  "MergeIntoBook T s =
     rfold (\<lambda>s kind. rfold merge_shape s (ResultOfKind T s kind)) s kNamedKinds"

section \<open>The run\<close>

text \<open>The two fixpoint loops, each bounded by the guard of 32 rounds.\<close>

fun interleave_rounds :: "'sh occt \<Rightarrow> nat \<Rightarrow> 'sh naming \<Rightarrow> 'sh naming result" where
  "interleave_rounds T 0 s = Inr s"
| "interleave_rounds T (Suc n) s =
     rbind (CheckCancellation (naming_cancelled s)) (\<lambda>_.
     rbind (ResolvePendingDisambiguators T False s) (\<lambda>(p1, s1).
     rbind (ResolveLowerBoundNames T s1) (\<lambda>(p2, s2).
       if p1 \<or> p2 then interleave_rounds T n s2 else Inr s2)))"

fun reconstruct_rounds :: "'sh occt \<Rightarrow> nat \<Rightarrow> 'sh naming \<Rightarrow> 'sh naming result" where
  "reconstruct_rounds T 0 s = Inr s"
| "reconstruct_rounds T (Suc n) s =
     rbind (CheckCancellation (naming_cancelled s)) (\<lambda>_.
     rbind (ResolveLowerBoundNames T s) (\<lambda>(p, s1).
       if p then reconstruct_rounds T n s1 else Inr s1))"

definition OperationNaming_Run :: "'sh occt \<Rightarrow> 'sh naming \<Rightarrow> 'sh naming result" where
  "OperationNaming_Run T s0 =
     rbind (CollectSources T s0) (\<lambda>s1.
     rbind (PassIdentitySurvivors T s1) (\<lambda>s2.
     rbind (BuildReverseHistory T s2) (\<lambda>s3.
     rbind (PlanAndAssignHistoryImages T s3) (\<lambda>s4.
     rbind (interleave_rounds T 32 s4) (\<lambda>s5.
     rbind (ResolvePendingDisambiguators T True s5) (\<lambda>(_, s6).
     rbind (reconstruct_rounds T 32 s6) (\<lambda>s7.
     rbind (AssignQuantizedRoots T s7) (\<lambda>s8.
       MergeIntoBook T s8))))))))"

section \<open>The book\<close>

record 'sh ElementNameBook =
  names_map :: "'sh names"

definition book_new :: "'sh ElementNameBook" where
  "book_new = \<lparr>names_map = (\<lambda>_. None)\<rparr>"

definition root_name :: "string \<Rightarrow> shape_kind \<Rightarrow> nat \<Rightarrow> string" where
  "root_name pre kind index = ''n1:'' @ pre @ ''.'' @ [kind_code kind] @ ''.'' @ to_string_int (int index)"

fun add_roots :: "string \<Rightarrow> shape_kind \<Rightarrow> nat \<Rightarrow> 'sh list \<Rightarrow> 'sh names \<Rightarrow> 'sh names result" where
  "add_roots pre kind index [] names = Inr names"
| "add_roots pre kind index (shape # rest) names =
     (let name = root_name pre kind index in
      if names shape \<noteq> None \<and> names shape \<noteq> Some name
      then Inl (Runtime_error ''element naming registered one primitive sub-shape twice'')
      else add_roots pre kind (Suc index) rest (names(shape \<mapsto> name)))"

definition AddPrimitive :: "'sh occt \<Rightarrow> string \<Rightarrow> 'sh \<Rightarrow> 'sh ElementNameBook \<Rightarrow> 'sh ElementNameBook result" where
  "AddPrimitive T operationId shape book =
     rbind (OperationIdPrefix operationId) (\<lambda>pre.
     rbind (rfold (\<lambda>names kind. rbind (KindCodeOf kind) (\<lambda>_.
              add_roots pre kind 1 (map_shapes T shape kind) names)) (names_map book) kNamedKinds) (\<lambda>names.
       Inr (book\<lparr>names_map := names\<rparr>)))"

fun add_unnamed_roots :: "string \<Rightarrow> shape_kind \<Rightarrow> nat \<Rightarrow> 'sh list \<Rightarrow> 'sh names \<Rightarrow> 'sh names" where
  "add_unnamed_roots pre kind index [] names = names"
| "add_unnamed_roots pre kind index (shape # rest) names =
     add_unnamed_roots pre kind (Suc index) rest
       (if names shape \<noteq> None then names else names(shape \<mapsto> root_name pre kind index))"

definition AddDerivedPrimitive :: "'sh occt \<Rightarrow> string \<Rightarrow> 'sh \<Rightarrow> 'sh ElementNameBook \<Rightarrow> 'sh ElementNameBook result" where
  "AddDerivedPrimitive T operationId shape book =
     rbind (OperationIdPrefix operationId) (\<lambda>pre.
     rbind (rfold (\<lambda>names kind. rbind (KindCodeOf kind) (\<lambda>_.
              Inr (add_unnamed_roots pre kind 1 (map_shapes T shape kind) names))) (names_map book) kNamedKinds) (\<lambda>names.
       Inr (book\<lparr>names_map := names\<rparr>)))"

definition naming_new :: "'sh names \<Rightarrow> string \<Rightarrow> 'sh list \<Rightarrow> 'sh \<Rightarrow> 'sh history \<Rightarrow> bool \<Rightarrow> 'sh naming" where
  "naming_new names pre inputs result history cancelled =
     \<lparr>bookNames = names, operationPrefix = pre, naming_inputs = inputs, naming_result = result,
      naming_history = history, naming_cancelled = cancelled, sources = [],
      resultNames = (\<lambda>_. None), reverseModified = (\<lambda>_. None), reverseGenerated = (\<lambda>_. None),
      pending_images = []\<rparr>"

definition ApplyOperation ::
  "'sh occt \<Rightarrow> string \<Rightarrow> 'sh list \<Rightarrow> 'sh \<Rightarrow> 'sh history \<Rightarrow> bool \<Rightarrow> 'sh ElementNameBook \<Rightarrow> 'sh ElementNameBook result" where
  "ApplyOperation T operationId inputs result history cancelled book =
     rbind (OperationIdPrefix operationId) (\<lambda>pre.
     rbind (OperationNaming_Run T (naming_new (names_map book) pre inputs result history cancelled)) (\<lambda>s.
       Inr (book\<lparr>names_map := bookNames s\<rparr>)))"

definition NameOf :: "'sh ElementNameBook \<Rightarrow> 'sh \<Rightarrow> string result" where
  "NameOf book shape =
     (case names_map book shape of
        None \<Rightarrow> Inl (Runtime_error ''element name book has no name for a requested sub-shape'')
      | Some name \<Rightarrow> Inr name)"

record 'sh book_snapshot =
  snap_names :: "'sh names"

definition book_TakeSnapshot :: "'sh ElementNameBook \<Rightarrow> 'sh book_snapshot" where
  "book_TakeSnapshot book = \<lparr>snap_names = names_map book\<rparr>"

definition book_RestoreFrom :: "'sh book_snapshot \<Rightarrow> 'sh ElementNameBook \<Rightarrow> 'sh ElementNameBook" where
  "book_RestoreFrom snapshot book = book\<lparr>names_map := snap_names snapshot\<rparr>"

interpretation book_snap: snapshotting book_TakeSnapshot book_RestoreFrom
  by unfold_locales (simp add: book_TakeSnapshot_def book_RestoreFrom_def)

end
