(* ===== verification/Element_Names_Laws.thy ===== *)
theory Element_Names_Laws
  imports Element_Names
begin

text \<open>
  What the naming passes guarantee: every pass only adds names for shapes of the result
  (\<open>naming_grows\<close>), so that an operation that is applied without an exception names every face,
  edge and vertex of its result and leaves the name of every shape that had one; the root
  names of a primitive are pairwise distinct; a derived primitive keeps the names it shares.
\<close>

section \<open>Every pass only adds names\<close>

definition naming_grows :: "'sh naming \<Rightarrow> 'sh naming \<Rightarrow> bool" where
  "naming_grows s s' \<longleftrightarrow> bookNames s' = bookNames s \<and> naming_result s' = naming_result s \<and>
     naming_cancelled s' = naming_cancelled s \<and> resultNames s \<subseteq>\<^sub>m resultNames s'"

named_theorems grows \<open>passes that only add names\<close>

lemma grows_refl [simp]: "naming_grows s s"
  by (simp add: naming_grows_def)

lemma grows_trans: "naming_grows s t \<Longrightarrow> naming_grows t u \<Longrightarrow> naming_grows s u"
  by (auto simp: naming_grows_def intro: map_le_trans)

lemma grows_fold:
  "rfold f s xs = Inr t \<Longrightarrow> (\<And>s x s'. x \<in> set xs \<Longrightarrow> f s x = Inr s' \<Longrightarrow> naming_grows s s') \<Longrightarrow> naming_grows s t"
  by (erule rfold_rel) (auto intro: grows_trans)

lemma Assign_name_grows: "Assign_name x n m = Inr m' \<Longrightarrow> m \<subseteq>\<^sub>m m' \<and> m' x = Some n"
  by (auto simp: Assign_name_def map_le_def split: option.splits if_splits)

lemma Assign_grows [grows]: "Assign x n s = Inr s' \<Longrightarrow> naming_grows s s'"
  by (auto simp: Assign_def rbind_eq_Inr naming_grows_def dest: Assign_name_grows)

lemma collect_source_grows [grows]: "collect_source s x = Inr s' \<Longrightarrow> naming_grows s s'"
  by (auto simp: collect_source_def naming_grows_def split: if_splits)

lemma CollectSources_grows [grows]: "CollectSources T s = Inr s' \<Longrightarrow> naming_grows s s'"
  unfolding CollectSources_def
  by (elim grows_fold) (auto simp: rbind_eq_Inr elim!: grows_fold intro: grows)

lemma PassIdentitySurvivors_grows [grows]: "PassIdentitySurvivors T s = Inr s' \<Longrightarrow> naming_grows s s'"
  unfolding PassIdentitySurvivors_def
  by (elim grows_fold) (auto simp: rbind_eq_Inr split: if_splits intro: grows)

lemma BuildReverseHistory_grows [grows]: "BuildReverseHistory T s = Inr s' \<Longrightarrow> naming_grows s s'"
  unfolding BuildReverseHistory_def
  by (elim grows_fold) (auto simp: rbind_eq_Inr Let_def naming_grows_def)

lemma assignStepPlan_grows [grows]: "assignStepPlan c s p = Inr s' \<Longrightarrow> naming_grows s s'"
  by (cases p rule: prod.exhaust, cases "fst p")
     (auto simp: assignStepPlan_def rbind_eq_Inr Let_def naming_grows_def dest: Assign_grows split: if_splits)

lemma assign_section_group_grows [grows]: "assign_section_group s g = Inr s' \<Longrightarrow> naming_grows s s'"
  by (auto simp: assign_section_group_def naming_grows_def dest: Assign_grows split: if_splits prod.splits)

lemma assign_plans_grows: "rfold (assignStepPlan c) s ps = Inr s' \<Longrightarrow> naming_grows s s'"
  by (erule grows_fold) (rule assignStepPlan_grows)

lemma assign_groups_grows: "rfold assign_section_group s gs = Inr s' \<Longrightarrow> naming_grows s s'"
  by (erule grows_fold) (rule assign_section_group_grows)

lemma PlanAndAssign_grows [grows]: "PlanAndAssignHistoryImages T s = Inr s' \<Longrightarrow> naming_grows s s'"
  unfolding PlanAndAssignHistoryImages_def
  by (auto simp: rbind_eq_Inr dest!: assign_plans_grows assign_groups_grows intro: grows_trans)

lemma resolve_images_grows:
  "resolve_images T force k m imgs = Inr (m', imgs', p) \<Longrightarrow> m \<subseteq>\<^sub>m m'"
proof (induction T force k m imgs arbitrary: m' imgs' p rule: resolve_images.induct)
  case (2 T force k m img rest)
  then show ?case
    by (fastforce simp: rbind_eq_Inr split: if_splits option.splits prod.splits
        dest: Assign_name_grows intro: map_le_trans)
qed simp

lemma ResolvePending_grows [grows]:
  "ResolvePendingDisambiguators T force s = Inr (p, s') \<Longrightarrow> naming_grows s s'"
proof -
  assume "ResolvePendingDisambiguators T force s = Inr (p, s')"
  then have "naming_grows (snd (False, s)) (snd (p, s'))"
    unfolding ResolvePendingDisambiguators_def
    by (rule rfold_rel [where R = "\<lambda>a b. naming_grows (snd a) (snd b)"])
       (auto simp: rbind_eq_Inr naming_grows_def split: prod.splits dest: resolve_images_grows intro: map_le_trans)
  then show ?thesis by simp
qed

lemma try_reconstruct_grows [grows]:
  "try_reconstruct T ck k ps x = Inr ps' \<Longrightarrow> naming_grows (snd ps) (snd ps')"
  by (auto simp: try_reconstruct_def rbind_eq_Inr split: prod.splits if_splits option.splits intro: grows)

lemma ResolveLowerBound_grows [grows]: "ResolveLowerBoundNames T s = Inr (p, s') \<Longrightarrow> naming_grows s s'"
proof -
  have step: "naming_grows (snd ps) (snd ps')" if "rfold (try_reconstruct T ck k) ps xs = Inr ps'" for ck k ps ps' xs
    using that by (rule rfold_rel [where R = "\<lambda>a b. naming_grows (snd a) (snd b)"])
      (auto intro: try_reconstruct_grows grows_trans)
  assume "ResolveLowerBoundNames T s = Inr (p, s')"
  then show ?thesis unfolding ResolveLowerBoundNames_def
    by (auto simp: rbind_eq_Inr dest!: step intro: grows_trans)
qed

lemma interleave_rounds_grows [grows]: "interleave_rounds T n s = Inr s' \<Longrightarrow> naming_grows s s'"
  by (induction T n s arbitrary: s' rule: interleave_rounds.induct)
     (auto simp: rbind_eq_Inr split: if_splits,
      (meson grows_trans ResolvePending_grows ResolveLowerBound_grows)+)

lemma reconstruct_rounds_grows [grows]: "reconstruct_rounds T n s = Inr s' \<Longrightarrow> naming_grows s s'"
  by (induction T n s arbitrary: s' rule: reconstruct_rounds.induct)
     (auto simp: rbind_eq_Inr split: if_splits, (meson grows_trans ResolveLowerBound_grows)+)

lemma AssignQuantizedRoots_grows [grows]: "AssignQuantizedRoots T s = Inr s' \<Longrightarrow> naming_grows s s'"
  unfolding AssignQuantizedRoots_def Let_def
  by (elim grows_fold) (auto simp: rbind_eq_Inr elim!: grows_fold split: if_splits intro: grows)

section \<open>Merging into the book\<close>

definition merges :: "'sh naming \<Rightarrow> 'sh naming \<Rightarrow> bool" where
  "merges s s' \<longleftrightarrow> resultNames s' = resultNames s \<and> naming_result s' = naming_result s \<and>
     bookNames s \<subseteq>\<^sub>m bookNames s' \<and>
     (\<forall>x. bookNames s x = None \<longrightarrow> bookNames s' x = None \<or> bookNames s' x = resultNames s x)"

lemma merges_trans: "merges s t \<Longrightarrow> merges t u \<Longrightarrow> merges s u"
  by (auto simp: merges_def intro: map_le_trans) (metis domIff map_le_def)

lemma merge_shape_merges: "merge_shape s x = Inr s' \<Longrightarrow> merges s s' \<and> bookNames s' x = resultNames s x \<and> resultNames s x \<noteq> None"
  by (auto simp: merge_shape_def merges_def map_le_def split: option.splits if_splits)

lemma rfold_merge:
  "rfold merge_shape s xs = Inr s' \<Longrightarrow> merges s s' \<and> (\<forall>x \<in> set xs. bookNames s' x = resultNames s x \<and> resultNames s x \<noteq> None)"
proof (induction xs arbitrary: s)
  case (Cons x xs)
  then obtain t where t: "merge_shape s x = Inr t" "rfold merge_shape t xs = Inr s'" by (auto simp: rbind_eq_Inr)
  note a = merge_shape_merges [OF t(1)] and b = Cons.IH [OF t(2)]
  have "bookNames s' x = resultNames s x" using a b by (metis domIff map_le_def merges_def)
  moreover have "merges s s'" using a b merges_trans by blast
  moreover have "resultNames t = resultNames s" using a by (simp add: merges_def)
  ultimately show ?case using a b by simp
qed (simp add: merges_def)

lemma MergeIntoBook_merges:
  assumes "MergeIntoBook T s = Inr s'"
  shows "merges s s' \<and> (\<forall>k \<in> set kNamedKinds. \<forall>x \<in> set (map_shapes T (naming_result s) k).
           bookNames s' x = resultNames s x \<and> resultNames s x \<noteq> None)"
proof -
  have "merges s s' \<and> (\<forall>k \<in> set ks. \<forall>x \<in> set (map_shapes T (naming_result s) k).
           bookNames s' x = resultNames s x \<and> resultNames s x \<noteq> None)"
    if "rfold (\<lambda>s kind. rfold merge_shape s (ResultOfKind T s kind)) s ks = Inr s'" for ks s
    using that
  proof (induction ks arbitrary: s)
    case (Cons k ks)
    then obtain t where t: "rfold merge_shape s (ResultOfKind T s k) = Inr t"
      "rfold (\<lambda>s kind. rfold merge_shape s (ResultOfKind T s kind)) t ks = Inr s'" by (auto simp: rbind_eq_Inr)
    note a = rfold_merge [OF t(1)] and b = Cons.IH [OF t(2)]
    have "bookNames s' x = resultNames s x" if "x \<in> set (map_shapes T (naming_result s) k)" for x
      using a b that by (metis ResultOfKind_def domIff map_le_def merges_def)
    moreover have "merges s s'" using a b merges_trans by blast
    moreover have "resultNames t = resultNames s" "naming_result t = naming_result s"
      using a by (simp_all add: merges_def)
    ultimately show ?case using a b by (simp add: ResultOfKind_def)
  qed (simp add: merges_def)
  from this [OF assms [unfolded MergeIntoBook_def]] show ?thesis .
qed

lemma Run_result:
  assumes "OperationNaming_Run T s0 = Inr s"
  shows "\<exists>s8. naming_grows s0 s8 \<and> MergeIntoBook T s8 = Inr s"
  using assms unfolding OperationNaming_Run_def
  by (auto simp: rbind_eq_Inr) (meson grows_trans grows)

section \<open>Root names\<close>

lemma to_string_int_nat [simp]: "to_string_int (int n) = decimal n"
  by (simp add: to_string_int_def)

lemma root_name_inj:
  assumes "k \<in> set kNamedKinds" "l \<in> set kNamedKinds" "root_name pre k i = root_name pre l j"
  shows "k = l \<and> i = j"
  using assms kind_code_inj [OF assms(1,2)] by (simp add: root_name_def decimal_inj)

lemma add_roots_names:
  "add_roots pre k i xs m = Inr m' \<Longrightarrow> distinct xs \<Longrightarrow>
     m \<subseteq>\<^sub>m m' \<and> (\<forall>n < length xs. m' (xs ! n) = Some (root_name pre k (i + n))) \<and>
     (\<forall>y. y \<notin> set xs \<longrightarrow> m' y = m y)"
proof (induction pre k i xs m arbitrary: m' rule: add_roots.induct)
  case (2 pre k i x xs m)
  let ?m = "m(x \<mapsto> root_name pre k i)"
  have rec: "add_roots pre k (Suc i) xs ?m = Inr m'" and ok: "m x = None \<or> m x = Some (root_name pre k i)"
    using "2.prems"(1) by (auto simp: Let_def split: if_splits)
  have c: "\<not> (m x \<noteq> None \<and> m x \<noteq> Some (root_name pre k i))" using ok by auto
  have dist: "distinct xs" "x \<notin> set xs" using "2.prems"(2) by auto
  from "2.IH" [OF refl c rec dist(1)] have IH: "?m \<subseteq>\<^sub>m m'"
    "\<forall>n < length xs. m' (xs ! n) = Some (root_name pre k (Suc i + n))"
    "\<forall>y. y \<notin> set xs \<longrightarrow> m' y = ?m y" by blast+
  have "m \<subseteq>\<^sub>m m'" using map_le_upd [where m = m and z = x and v = "root_name pre k i", OF ok] IH(1) map_le_trans by blast
  moreover have "m' ((x # xs) ! n) = Some (root_name pre k (i + n))" if "n < length (x # xs)" for n
    using IH(2,3) that dist(2) by (cases n) auto
  ultimately show ?case using IH(3) by auto
qed simp

lemma add_unnamed_roots_keeps:
  "m \<subseteq>\<^sub>m add_unnamed_roots pre k i xs m \<and> (\<forall>x \<in> set xs. add_unnamed_roots pre k i xs m x \<noteq> None)"
proof (induction pre k i xs m rule: add_unnamed_roots.induct)
  case (2 pre k i x xs m)
  let ?m = "if m x \<noteq> None then m else m(x \<mapsto> root_name pre k i)"
  have m: "m \<subseteq>\<^sub>m ?m" "?m x \<noteq> None" by (auto simp: map_le_def)
  have "add_unnamed_roots pre k (Suc i) xs ?m x \<noteq> None" using map_le_bound [OF conjunct1 [OF 2] m(2)] .
  moreover have "m \<subseteq>\<^sub>m add_unnamed_roots pre k (Suc i) xs ?m" using m(1) conjunct1 [OF 2] map_le_trans by blast
  ultimately show ?case using conjunct2 [OF 2] by (simp only: add_unnamed_roots.simps) simp
qed simp

lemma NameOf_defined: "(\<exists>name. NameOf book x = Inr name) \<longleftrightarrow> names_map book x \<noteq> None"
  by (auto simp: NameOf_def split: option.splits)

text \<open>
  A small topology for the witnesses: body 100 has face 1, edge 2 and vertices 3 and 4; body 200
  has face 11, the two halves 12 and 13 of the edge and the new vertex 5; body 300 has face 11
  and the rest of body 100.
\<close>

definition demo_maps :: "nat \<Rightarrow> shape_kind \<Rightarrow> nat list" where
  "demo_maps s k =
     (if k = FACE then
        (if s = 100 then [1] else if s = 200 \<or> s = 300 then [11] else if s = 1 \<or> s = 11 then [s] else [])
      else if k = EDGE then
        (if s = 100 \<or> s = 300 \<or> s = 1 then [2] else if s = 200 \<or> s = 11 then [12, 13]
         else if s = 2 \<or> s = 12 \<or> s = 13 then [s] else [])
      else if k = VERTEX then
        (if s = 100 \<or> s = 300 \<or> s = 1 \<or> s = 2 then [3, 4] else if s = 200 \<or> s = 11 then [3, 4, 5]
         else if s = 12 then [3, 5] else if s = 13 then [5, 4] else if s = 3 \<or> s = 4 \<or> s = 5 then [s] else [])
      else [])"

definition demo_occt :: "nat occt" where
  "demo_occt = \<lparr>shape_type = (\<lambda>s. if s = 1 \<or> s = 11 then FACE else if s = 2 \<or> s = 12 \<or> s = 13 then EDGE
       else if s = 3 \<or> s = 4 \<or> s = 5 then VERTEX else OTHER_SHAPE),
     map_shapes = demo_maps, quantum_for = (\<lambda>_. 0), quantized_measures = (\<lambda>s _. (int s, 0, 0, 0))\<rparr>"

lemma demo_ok: "occt_ok demo_occt"
  by (simp add: occt_ok_def demo_occt_def demo_maps_def)

definition demo_id :: string where "demo_id = ''0a1b2c3d''"

definition demo_book :: "nat ElementNameBook" where
  "demo_book = \<lparr>names_map = [1 \<mapsto> ''n1:0a1b2c3d.f.1'', 2 \<mapsto> ''n1:0a1b2c3d.e.1'',
     3 \<mapsto> ''n1:0a1b2c3d.v.1'', 4 \<mapsto> ''n1:0a1b2c3d.v.2'']\<rparr>"

definition face_history :: "nat history" where
  "face_history = \<lparr>history_modified = (\<lambda>s. if s = 1 then [11] else []), history_generated = (\<lambda>_. [])\<rparr>"

definition split_history :: "nat history" where
  "split_history = \<lparr>history_modified = (\<lambda>s. if s = 1 then [11] else if s = 2 then [12, 13] else []),
     history_generated = (\<lambda>_. [])\<rparr>"

text \<open>The definitions that evaluate a naming on a concrete topology, the hash left symbolic.\<close>

lemmas naming_eval = ApplyOperation_def OperationIdPrefix_def lower_hex_def IsHexDigit_def
  OperationNaming_Run_def naming_new_def CollectSources_def collect_source_def CheckCancellation_def
  PassIdentitySurvivors_def InResult_def ResultOfKind_def source_at_def SourceName_def Assign_def
  Assign_name_def BuildReverseHistory_def AddReverse_def PlanAndAssignHistoryImages_def plan_images_def
  plan_shape_def no_plans_def assignStepPlan_def kNamedKinds_def KindCodeOf_def kind_code_def
  code_kind_def upt_conv_Cons ResolvePendingDisambiguators_def ResolveLowerBoundNames_def
  try_reconstruct_def containers_of_def lower_names_def disambiguator_def QuantizedDisambiguator_def
  Let_def

lemmas demo_eval = demo_book_def split_history_def demo_occt_def demo_maps_def demo_id_def

lemma interleave_rounds_numeral:
  "interleave_rounds T (numeral n) s =
     rbind (CheckCancellation (naming_cancelled s)) (\<lambda>_.
     rbind (ResolvePendingDisambiguators T False s) (\<lambda>(p1, s1).
     rbind (ResolveLowerBoundNames T s1) (\<lambda>(p2, s2).
       if p1 \<or> p2 then interleave_rounds T (pred_numeral n) s2 else Inr s2)))"
  by (simp add: numeral_eq_Suc)

section \<open>Properties\<close>

text \<open>C11. Total coverage and stability of element names: when an operation is applied without an
  exception, every face, edge and vertex of its result has a name in the book, every shape that
  was named before (identity survivors among them) keeps its name.\<close>

theorem ApplyOperation_total_and_stable:
  assumes "ApplyOperation T operationId inputs result history cancelled book = Inr book'"
  shows "(\<forall>k \<in> set kNamedKinds. \<forall>x \<in> set (map_shapes T result k). \<exists>name. NameOf book' x = Inr name) \<and>
    names_map book \<subseteq>\<^sub>m names_map book'"
proof -
  from assms obtain pre s where run: "OperationNaming_Run T (naming_new (names_map book) pre inputs result history cancelled) = Inr s"
    and book': "book' = book\<lparr>names_map := bookNames s\<rparr>"
    by (auto simp: ApplyOperation_def rbind_eq_Inr)
  from Run_result [OF run] obtain s8 where s8: "naming_grows (naming_new (names_map book) pre inputs result history cancelled) s8"
    and merge: "MergeIntoBook T s8 = Inr s" by blast
  have "bookNames s8 = names_map book" "naming_result s8 = result"
    using s8 by (simp_all add: naming_grows_def naming_new_def)
  with MergeIntoBook_merges [OF merge] show ?thesis
    by (auto simp: book' NameOf_def merges_def split: option.splits)
qed

theorem ApplyOperation_total_and_stable_witness:
  "\<exists>book'. ApplyOperation demo_occt ''aaaabbbb'' [100] 300 face_history False demo_book = Inr book' \<and>
     (\<exists>name. NameOf book' 11 = Inr name) \<and> NameOf book' 2 = Inr ''n1:0a1b2c3d.e.1''"
proof -
  have "\<not> isl (ApplyOperation demo_occt ''aaaabbbb'' [100] 300 face_history False demo_book)" by code_simp
  then obtain book' where ok: "ApplyOperation demo_occt ''aaaabbbb'' [100] 300 face_history False demo_book = Inr book'"
    using Inr_of_not_isl by blast
  from ApplyOperation_total_and_stable [OF ok]
  have "\<exists>name. NameOf book' 11 = Inr name" "names_map demo_book \<subseteq>\<^sub>m names_map book'"
    by (auto simp: kNamedKinds_def demo_occt_def demo_maps_def)
  moreover from this(2) have "names_map book' 2 = Some ''n1:0a1b2c3d.e.1''"
    by (rule map_le_Some) (simp add: demo_book_def)
  ultimately show ?thesis using ok by (simp add: NameOf_def)
qed

text \<open>The root names of a primitive are its own and pairwise distinct: registering a
  primitive names every face, edge and vertex of it, and two different sub-shapes never share
  a root name.\<close>

theorem AddPrimitive_distinct:
  assumes "occt_ok T" and "AddPrimitive T operationId shape book = Inr book'"
    and "k \<in> set kNamedKinds" and "x \<in> set (map_shapes T shape k)"
    and "l \<in> set kNamedKinds" and "y \<in> set (map_shapes T shape l)" and "x \<noteq> y"
  shows "\<exists>n m. NameOf book' x = Inr n \<and> NameOf book' y = Inr m \<and> n \<noteq> m"
proof -
  obtain pre names where pre: "OperationIdPrefix operationId = Inr pre"
    and run: "rfold (\<lambda>names kind. rbind (KindCodeOf kind) (\<lambda>_. add_roots pre kind 1 (map_shapes T shape kind) names))
      (names_map book) kNamedKinds = Inr names" and book': "book' = book\<lparr>names_map := names\<rparr>"
    using assms(2) by (auto simp: AddPrimitive_def rbind_eq_Inr)
  have dist: "distinct (map_shapes T shape k)" for k using assms(1) by (simp add: occt_ok_def)
  obtain m1 m2 where m: "add_roots pre FACE 1 (map_shapes T shape FACE) (names_map book) = Inr m1"
    "add_roots pre EDGE 1 (map_shapes T shape EDGE) m1 = Inr m2"
    "add_roots pre VERTEX 1 (map_shapes T shape VERTEX) m2 = Inr names"
    using run by (auto simp: kNamedKinds_def KindCodeOf_def rbind_eq_Inr)
  note roots = add_roots_names [OF m(1) dist] add_roots_names [OF m(2) dist] add_roots_names [OF m(3) dist]
  have names: "names (map_shapes T shape k ! n) = Some (root_name pre k (1 + n))"
    if "k \<in> set kNamedKinds" "n < length (map_shapes T shape k)" for k n
  proof -
    have "m1 \<subseteq>\<^sub>m names" "m2 \<subseteq>\<^sub>m names" using roots map_le_trans by blast+
    then show ?thesis using that(1)
    proof (elim named_kindE)
      assume "k = FACE"
      with that(2) roots(1) show ?thesis using map_le_Some [OF \<open>m1 \<subseteq>\<^sub>m names\<close>] by simp
    next
      assume "k = EDGE"
      with that(2) roots(2) show ?thesis using map_le_Some [OF \<open>m2 \<subseteq>\<^sub>m names\<close>] by simp
    next
      assume "k = VERTEX"
      with that(2) roots(3) show ?thesis by simp
    qed
  qed
  obtain i j where ij: "i < length (map_shapes T shape k)" "x = map_shapes T shape k ! i"
    "j < length (map_shapes T shape l)" "y = map_shapes T shape l ! j"
    using assms(4,6) by (auto simp: in_set_conv_nth)
  then have "names x = Some (root_name pre k (1 + i))" "names y = Some (root_name pre l (1 + j))"
    using names assms(3,5) by simp_all
  moreover have "root_name pre k (1 + i) \<noteq> root_name pre l (1 + j)"
    using root_name_inj [OF assms(3,5)] ij assms(7) by auto
  ultimately show ?thesis by (simp add: book' NameOf_def)
qed

theorem AddPrimitive_distinct_witness:
  "\<exists>book' n m. AddPrimitive demo_occt demo_id 100 book_new = Inr book' \<and>
     NameOf book' 3 = Inr n \<and> NameOf book' 4 = Inr m \<and> n \<noteq> m"
proof -
  have "\<not> isl (AddPrimitive demo_occt demo_id 100 book_new)" by code_simp
  then obtain book' where ok: "AddPrimitive demo_occt demo_id 100 book_new = Inr book'"
    using Inr_of_not_isl by blast
  have "\<exists>n m. NameOf book' 3 = Inr n \<and> NameOf book' 4 = Inr m \<and> n \<noteq> m"
    by (rule AddPrimitive_distinct [OF demo_ok ok, where k = VERTEX and l = VERTEX])
       (simp_all add: kNamedKinds_def demo_occt_def demo_maps_def)
  with ok show ?thesis by blast
qed

text \<open>A derived primitive keeps what it shares: sub-shapes that already have a name keep it,
  and every other sub-shape of the tool gets one.\<close>

theorem AddDerivedPrimitive_keeps:
  assumes "AddDerivedPrimitive T operationId shape book = Inr book'"
  shows "names_map book \<subseteq>\<^sub>m names_map book' \<and>
    (\<forall>k \<in> set kNamedKinds. \<forall>x \<in> set (map_shapes T shape k). \<exists>name. NameOf book' x = Inr name)"
proof -
  obtain pre where run: "rfold (\<lambda>names kind. rbind (KindCodeOf kind) (\<lambda>_. Inr (add_unnamed_roots pre kind 1 (map_shapes T shape kind) names)))
      (names_map book) kNamedKinds = Inr (names_map book')"
    using assms by (auto simp: AddDerivedPrimitive_def rbind_eq_Inr)
  let ?u = "\<lambda>k m. add_unnamed_roots pre k 1 (map_shapes T shape k) m"
  define m1 m2 where m: "m1 = ?u FACE (names_map book)" "m2 = ?u EDGE m1"
  have book': "names_map book' = ?u VERTEX m2"
    using run by (simp add: m kNamedKinds_def KindCodeOf_def)
  have le: "names_map book \<subseteq>\<^sub>m m1" "m1 \<subseteq>\<^sub>m m2" "m2 \<subseteq>\<^sub>m names_map book'"
    using add_unnamed_roots_keeps unfolding m book' by blast+
  have bound: "add_unnamed_roots pre k 1 xs n x \<noteq> None" if "x \<in> set xs" for k xs n x
    using that conjunct2 [OF add_unnamed_roots_keeps [of n pre k 1 xs]] by (rule bspec [rotated])
  have "names_map book' x \<noteq> None" if "k \<in> set kNamedKinds" "x \<in> set (map_shapes T shape k)" for k x
  proof -
    have "m1 x \<noteq> None \<or> m2 x \<noteq> None \<or> names_map book' x \<noteq> None"
      using that(1)
    proof (elim named_kindE)
      assume "k = FACE" then show ?thesis using bound [of x] that(2) unfolding m(1) by simp
    next
      assume "k = EDGE" then show ?thesis using bound [of x] that(2) unfolding m(2) by simp
    next
      assume "k = VERTEX" then show ?thesis using bound [of x] that(2) unfolding book' by simp
    qed
    then show ?thesis using le map_le_bound by metis
  qed
  moreover have "names_map book \<subseteq>\<^sub>m names_map book'" using le map_le_trans by blast
  ultimately show ?thesis by (simp add: NameOf_defined)
qed

theorem AddDerivedPrimitive_keeps_witness:
  "\<exists>book'. AddDerivedPrimitive demo_occt ''aaaabbbb'' 200 demo_book = Inr book' \<and>
     NameOf book' 3 = Inr ''n1:0a1b2c3d.v.1'' \<and> (\<exists>name. NameOf book' 12 = Inr name)"
proof -
  have "\<not> isl (AddDerivedPrimitive demo_occt ''aaaabbbb'' 200 demo_book)" by code_simp
  then obtain book' where ok: "AddDerivedPrimitive demo_occt ''aaaabbbb'' 200 demo_book = Inr book'"
    using Inr_of_not_isl by blast
  from AddDerivedPrimitive_keeps [OF ok]
  have "\<exists>name. NameOf book' 12 = Inr name" "names_map demo_book \<subseteq>\<^sub>m names_map book'"
    by (auto simp: kNamedKinds_def demo_occt_def demo_maps_def)
  moreover from this(2) have "names_map book' 3 = Some ''n1:0a1b2c3d.v.1''"
    by (rule map_le_Some) (simp add: demo_book_def)
  ultimately show ?thesis using ok by (simp add: NameOf_def)
qed

text \<open>Lower-bound reconstruction overtakes a pending sibling: when an operation splits an edge
  in two halves and records no history for the new vertex between them, the first round names
  both halves by reconstruction from their face although they wait for a disambiguator, the new
  vertex is named from them, and in the second round the disambiguated name of a half conflicts
  with its reconstructed one, so the operation fails on a topology that is complete and named.\<close>

theorem split_edge_without_vertex_history_fails:
  "occt_ok demo_occt \<and> list_all (\<lambda>x. names_map demo_book x \<noteq> None) [1, 2, 3, 4] \<and>
   (\<exists>msg. ApplyOperation demo_occt ''aaaabbbb'' [100] 200 split_history False demo_book = Inl (Runtime_error msg))"
proof (intro conjI demo_ok)
  show "list_all (\<lambda>x. names_map demo_book x \<noteq> None) [1, 2, 3, 4]" by (simp add: demo_book_def)
  show "\<exists>msg. ApplyOperation demo_occt ''aaaabbbb'' [100] 200 split_history False demo_book = Inl (Runtime_error msg)"
    by (simp add: naming_eval demo_eval interleave_rounds_numeral)
qed

end
