(* ===== verification/Topology.thy ===== *)
theory Topology
  imports Element_Names_Laws Body_Pool
begin

unbundle bit_operations_syntax

text \<open>
  Topology snapshots (\<open>topology.cpp\<close>): the epoch-local entity tokens, the incidence lists built
  over the three indexed maps of a body, the evidence rows, and the projection of an element-name
  book onto the same rows (\<open>ProjectElementNames\<close>). Measures and classes are OCCT computations
  and enter as parameters. The lemmas show that tokens are unambiguous and that the incidence
  lists of a snapshot are symmetric.
\<close>

section \<open>Measurements\<close>

record 'sh measures =
  surface_class :: "'sh \<Rightarrow> string"
  surface_mass :: "'sh \<Rightarrow> f64"
  surface_centre :: "'sh \<Rightarrow> f64 \<times> f64 \<times> f64"
  surface_axis :: "'sh \<Rightarrow> (f64 \<times> f64 \<times> f64) option"
  surface_radius :: "'sh \<Rightarrow> f64 option"
  curve_class :: "'sh \<Rightarrow> string"
  curve_mass :: "'sh \<Rightarrow> f64"
  curve_centre :: "'sh \<Rightarrow> f64 \<times> f64 \<times> f64"
  curve_axis :: "'sh \<Rightarrow> (f64 \<times> f64 \<times> f64) option"
  curve_radius :: "'sh \<Rightarrow> f64 option"
  degenerated :: "'sh \<Rightarrow> bool"
  vertex_point :: "'sh \<Rightarrow> f64 \<times> f64 \<times> f64"
  orientation_name :: "'sh \<Rightarrow> string"

definition Point :: "f64 \<times> f64 \<times> f64 \<Rightarrow> json" where
  "Point p = (case p of (x, y, z) \<Rightarrow> JArray [JFloat x, JFloat y, JFloat z])"

definition AxisJson :: "(f64 \<times> f64 \<times> f64) option \<Rightarrow> json" where
  "AxisJson axis = (case axis of None \<Rightarrow> JNull | Some a \<Rightarrow> Point a)"

definition RadiusJson :: "f64 option \<Rightarrow> json" where
  "RadiusJson radius = (case radius of None \<Rightarrow> JNull | Some r \<Rightarrow> JFloat r)"

definition EdgeAxis :: "'sh measures \<Rightarrow> 'sh \<Rightarrow> (f64 \<times> f64 \<times> f64) option" where
  "EdgeAxis M edge = (if degenerated M edge then None else curve_axis M edge)"

definition EdgeRadius :: "'sh measures \<Rightarrow> 'sh \<Rightarrow> f64 option" where
  "EdgeRadius M edge = (if degenerated M edge then None else curve_radius M edge)"

section \<open>Tokens\<close>

definition TopologyEntityToken :: "nat \<Rightarrow> nat \<Rightarrow> char \<Rightarrow> nat \<Rightarrow> string" where
  "TopologyEntityToken evaluationEpoch bodyOrdinal kind index =
     ''te:'' @ decimal evaluationEpoch @ '':'' @ decimal bodyOrdinal @ '':'' @ [kind] @ '':'' @ decimal index"

lemma decimal_no_colon: "CHR '':'' \<notin> set (decimal n)"
  using set_decimal [of n] by (auto simp: decimal_digits_def)

lemma read_decimal:
  assumes "decimal m @ CHR '':'' # r = decimal n @ CHR '':'' # s"
  shows "m = n \<and> r = s"
proof -
  have "takeWhile (\<lambda>c. c \<noteq> CHR '':'') (decimal k @ CHR '':'' # r) = decimal k" for k r
    using decimal_no_colon [of k] by (subst takeWhile_append2) auto
  with assms have "decimal m = decimal n" by metis
  with assms show ?thesis by (simp add: decimal_inj)
qed

section \<open>Evidence\<close>

definition DescribeTopologyEvidence :: "'sh measures \<Rightarrow> string \<Rightarrow> 'sh \<Rightarrow> json result" where
  "DescribeTopologyEvidence M kind s =
     (if kind = ''face'' then
        Inr (make_object [(''kind'', JString ''face''), (''geometryClass'', JString (surface_class M s)),
          (''measure'', JFloat (f64_abs (surface_mass M s))), (''centroid'', Point (surface_centre M s)),
          (''axis'', AxisJson (surface_axis M s)), (''radius'', RadiusJson (surface_radius M s))])
      else if kind = ''edge'' then
        Inr (make_object [(''kind'', JString ''edge''), (''geometryClass'', JString (curve_class M s)),
          (''measure'', JFloat (f64_abs (curve_mass M s))), (''centroid'', Point (curve_centre M s)),
          (''axis'', AxisJson (EdgeAxis M s)), (''radius'', RadiusJson (EdgeRadius M s))])
      else if kind = ''vertex'' then
        Inr (make_object [(''kind'', JString ''vertex''), (''geometryClass'', JString ''point''),
          (''measure'', JFloat 0), (''centroid'', Point (vertex_point M s)),
          (''axis'', JNull), (''radius'', JNull)])
      else Inl (Invalid_argument ''topology evidence kind must be face, edge, or vertex''))"

definition select_row :: "'sh measures \<Rightarrow> string \<Rightarrow> 'sh list \<Rightarrow> nat \<Rightarrow> json result" where
  "select_row M kind shapes entityIndex =
     (if length shapes \<le> entityIndex
      then Inl (Invalid_argument (''topologySelection '' @ kind @ '' entityIndex is outside the body''))
      else DescribeTopologyEvidence M kind (shapes ! entityIndex))"

definition DescribeTopologySelection ::
  "'sh occt \<Rightarrow> 'sh measures \<Rightarrow> 'sh EvaluatedBody \<Rightarrow> string \<Rightarrow> nat \<Rightarrow> bool \<Rightarrow> json result" where
  "DescribeTopologySelection T M body kind entityIndex cancelled =
     rbind (CheckCancellation cancelled) (\<lambda>_.
       if kind = ''face'' then select_row M kind (map_shapes T (shape body) FACE) entityIndex
       else if kind = ''edge'' then select_row M kind (map_shapes T (shape body) EDGE) entityIndex
       else if kind = ''vertex'' then select_row M kind (map_shapes T (shape body) VERTEX) entityIndex
       else Inl (Invalid_argument ''topologySelection kind must be face, edge, or vertex''))"

section \<open>Incidence\<close>

definition push_at :: "string list list \<Rightarrow> nat \<Rightarrow> string \<Rightarrow> string list list result" where
  "push_at adjacency i token =
     (if i < length adjacency then Inr (adjacency[i := adjacency ! i @ [token]]) else Inl Out_of_range_error)"

definition Connect :: "string list list \<Rightarrow> nat \<Rightarrow> string \<Rightarrow> nat \<Rightarrow> string \<Rightarrow> string list list result" where
  "Connect adjacency left leftToken right rightToken =
     rbind (push_at adjacency left rightToken) (\<lambda>a. push_at a right leftToken)"

text \<open>
  One of the two incidence loops: entities of one kind at the positions from \<open>base\<close>, their
  lower elements from \<open>lowerBase\<close>.
\<close>

definition connect_lower ::
  "(nat \<Rightarrow> string) \<Rightarrow> (nat \<Rightarrow> string) \<Rightarrow> string \<Rightarrow> 'sh list \<Rightarrow> nat \<Rightarrow> nat \<Rightarrow> nat \<Rightarrow> string list list \<Rightarrow> 'sh \<Rightarrow> string list list result" where
  "connect_lower upperTok lowerTok message lowers base lowerBase index adjacency lower =
     (let lowerIndex = FindIndex lowers lower in
      if lowerIndex = 0 then Inl (Runtime_error message)
      else Connect adjacency (base + index) (upperTok index) (lowerBase + (lowerIndex - 1)) (lowerTok (lowerIndex - 1)))"

definition connect_all ::
  "'sh occt \<Rightarrow> (nat \<Rightarrow> string) \<Rightarrow> (nat \<Rightarrow> string) \<Rightarrow> string \<Rightarrow> 'sh list \<Rightarrow> 'sh list \<Rightarrow> shape_kind \<Rightarrow> nat \<Rightarrow> nat \<Rightarrow> bool \<Rightarrow>
   string list list \<Rightarrow> string list list result" where
  "connect_all T upperTok lowerTok message uppers lowers lowerKind base lowerBase cancelled adjacency =
     rfold (\<lambda>adjacency index.
       rbind (CheckCancellation cancelled) (\<lambda>_.
         rfold (connect_lower upperTok lowerTok message lowers base lowerBase index) adjacency
           (map_shapes T (uppers ! index) lowerKind))) adjacency [0..<length uppers]"

definition build_adjacency :: "'sh occt \<Rightarrow> (char \<Rightarrow> nat \<Rightarrow> string) \<Rightarrow> 'sh \<Rightarrow> bool \<Rightarrow> string list list result" where
  "build_adjacency T tok body cancelled =
     (let faces = map_shapes T body FACE; edges = map_shapes T body EDGE; vertices = map_shapes T body VERTEX;
          f = length faces; e = length edges
      in rbind (connect_all T (tok (CHR ''f'')) (tok (CHR ''e'')) ''face incidence references an unmapped edge''
                  faces edges EDGE 0 f cancelled (replicate (f + e + length vertices) []))
           (connect_all T (tok (CHR ''e'')) (tok (CHR ''v'')) ''edge incidence references an unmapped vertex''
              edges vertices VERTEX f (f + e) cancelled))"

section \<open>The snapshot\<close>

definition entity_row ::
  "(char \<Rightarrow> nat \<Rightarrow> string) \<Rightarrow> ('sh \<Rightarrow> string) \<Rightarrow> 'sh measures \<Rightarrow> string list list \<Rightarrow> nat \<Rightarrow> shape_kind \<Rightarrow> nat \<Rightarrow> 'sh \<Rightarrow> json" where
  "entity_row tok provenance M adjacency base kind index x =
     make_object
       ([(''token'', JString (tok (kind_code kind) index)),
         (''orientation'', JString (orientation_name M x)),
         (''adjacentTokens'', JArray (map JString (adjacency ! (base + index)))),
         (''provenanceOperationId'', JString (provenance x))] @
        (case kind of
           FACE \<Rightarrow> [(''kind'', JString ''face''), (''geometryClass'', JString (surface_class M x)),
             (''measure'', JFloat (f64_abs (surface_mass M x))), (''centroid'', Point (surface_centre M x)),
             (''axis'', AxisJson (surface_axis M x)), (''radius'', RadiusJson (surface_radius M x))]
         | EDGE \<Rightarrow> [(''kind'', JString ''edge''), (''geometryClass'', JString (curve_class M x)),
             (''measure'', JFloat (f64_abs (curve_mass M x))), (''centroid'', Point (curve_centre M x)),
             (''axis'', AxisJson (EdgeAxis M x)), (''radius'', RadiusJson (EdgeRadius M x))]
         | _ \<Rightarrow> [(''kind'', JString ''vertex''), (''geometryClass'', JString ''point''),
             (''measure'', JFloat 0), (''centroid'', Point (vertex_point M x)),
             (''axis'', JNull), (''radius'', JNull)]))"

definition describe_kind ::
  "(char \<Rightarrow> nat \<Rightarrow> string) \<Rightarrow> ('sh \<Rightarrow> string) \<Rightarrow> 'sh measures \<Rightarrow> string list list \<Rightarrow> nat \<Rightarrow> shape_kind \<Rightarrow> bool \<Rightarrow> 'sh list \<Rightarrow> json list result" where
  "describe_kind tok provenance M adjacency base kind cancelled shapes =
     rmap (\<lambda>index. rbind (CheckCancellation cancelled) (\<lambda>_.
       Inr (entity_row tok provenance M adjacency base kind index (shapes ! index)))) [0..<length shapes]"

definition DescribeTopology ::
  "'sh occt \<Rightarrow> 'sh measures \<Rightarrow> 'sh EvaluatedBody \<Rightarrow> nat \<Rightarrow> nat \<Rightarrow> bool \<Rightarrow> ('sh \<Rightarrow> string) \<Rightarrow> json result" where
  "DescribeTopology T M body evaluationEpoch bodyOrdinal cancelled provenance =
     (let tok = TopologyEntityToken evaluationEpoch bodyOrdinal;
          faces = map_shapes T (shape body) FACE; edges = map_shapes T (shape body) EDGE;
          vertices = map_shapes T (shape body) VERTEX
      in rbind (build_adjacency T tok (shape body) cancelled) (\<lambda>adjacency.
         rbind (describe_kind tok provenance M adjacency 0 FACE cancelled faces) (\<lambda>fs.
         rbind (describe_kind tok provenance M adjacency (length faces) EDGE cancelled edges) (\<lambda>es.
         rbind (describe_kind tok provenance M adjacency (length faces + length edges) VERTEX cancelled vertices) (\<lambda>vs.
           Inr (make_object
             [(''snapshotId'', JString (''ts:'' @ decimal evaluationEpoch @ '':'' @ bodyId body)),
              (''evaluationEpoch'', JUInt evaluationEpoch),
              (''entities'', JArray (fs @ es @ vs))]))))))"

definition DescribeTopology_default ::
  "'sh occt \<Rightarrow> 'sh measures \<Rightarrow> 'sh EvaluatedBody \<Rightarrow> nat \<Rightarrow> nat \<Rightarrow> bool \<Rightarrow> json result" where
  "DescribeTopology_default T M body evaluationEpoch bodyOrdinal cancelled =
     DescribeTopology T M body evaluationEpoch bodyOrdinal cancelled (\<lambda>_. operationId body)"

section \<open>Projected names\<close>

definition ProjectElementNames :: "'sh occt \<Rightarrow> 'sh ElementNameBook \<Rightarrow> 'sh \<Rightarrow> nat \<Rightarrow> nat \<Rightarrow> json result" where
  "ProjectElementNames T book body evaluationEpoch bodyOrdinal =
     rbind (rmap (\<lambda>kind. rbind (KindCodeOf kind) (\<lambda>code.
       rmap (\<lambda>index. rbind (NameOf book (map_shapes T body kind ! index)) (\<lambda>name.
         if name = [] \<or> 512 < length name
         then Inl (Runtime_error ''element name violates the wire length envelope'')
         else Inr (make_object [(''token'', JString (TopologyEntityToken evaluationEpoch bodyOrdinal code index)),
                (''name'', JString name)]))) [0..<length (map_shapes T body kind)])) kNamedKinds)
       (\<lambda>rows. Inr (JArray (concat rows)))"

section \<open>Symmetry of the incidence lists\<close>

text \<open>The token of a position: faces first, then edges, then vertices.\<close>

definition position_token :: "(char \<Rightarrow> nat \<Rightarrow> string) \<Rightarrow> nat \<Rightarrow> nat \<Rightarrow> nat \<Rightarrow> string" where
  "position_token tok f e p =
     (if p < f then tok (CHR ''f'') p else if p < f + e then tok (CHR ''e'') (p - f) else tok (CHR ''v'') (p - f - e))"

definition incidence_symmetric :: "(nat \<Rightarrow> string) \<Rightarrow> string list list \<Rightarrow> bool" where
  "incidence_symmetric ptok adjacency \<longleftrightarrow>
     (\<forall>i < length adjacency. \<forall>j < length adjacency.
        count_list (adjacency ! i) (ptok j) = count_list (adjacency ! j) (ptok i))"

lemma push_at_Inr:
  "push_at a i t = Inr a' \<longleftrightarrow> i < length a \<and> a' = a[i := a ! i @ [t]]"
  by (auto simp: push_at_def)

lemma Connect_symmetric:
  assumes "Connect a i (ptok i) j (ptok j) = Inr a'" and "incidence_symmetric ptok a"
    and "i \<noteq> j" and "\<And>p q. p < length a \<Longrightarrow> q < length a \<Longrightarrow> ptok p = ptok q \<Longrightarrow> p = q"
  shows "incidence_symmetric ptok a' \<and> length a' = length a"
proof -
  have ij: "i < length a" "j < length a" and a': "a' = (a[i := a ! i @ [ptok j]])[j := a ! j @ [ptok i]]"
    using assms(1,3) by (auto simp: Connect_def push_at_Inr rbind_eq_Inr)
  have "count_list (a' ! p) (ptok q) = count_list (a ! p) (ptok q) +
      (if p = i \<and> q = j \<or> p = j \<and> q = i then 1 else 0)" if "p < length a" "q < length a" for p q
    using that ij assms(3) assms(4) [OF _ that(2)] by (auto simp: a' nth_list_update)
  then show ?thesis using assms(2,3) by (auto simp: incidence_symmetric_def a')
qed

lemma connect_all_symmetric:
  assumes run: "connect_all T up low message uppers lowers k base lowerBase cancelled a = Inr a'"
    and sym: "incidence_symmetric ptok a"
    and up: "\<And>i. i < length uppers \<Longrightarrow> up i = ptok (base + i)"
    and low: "\<And>i. i < length lowers \<Longrightarrow> low i = ptok (lowerBase + i)"
    and apart: "base + length uppers \<le> lowerBase"
    and inj: "\<And>p q. p < length a \<Longrightarrow> q < length a \<Longrightarrow> ptok p = ptok q \<Longrightarrow> p = q"
  shows "incidence_symmetric ptok a' \<and> length a' = length a"
proof -
  let ?P = "\<lambda>b. incidence_symmetric ptok b \<and> length b = length a"
  have step: "?P b'" if "?P b" "i < length uppers" "connect_lower up low message lowers base lowerBase i b x = Inr b'"
    for b b' i x
  proof -
    from that(3) have x: "x \<in> set lowers" and c: "Connect b (base + i) (up i) (lowerBase + (FindIndex lowers x - 1)) (low (FindIndex lowers x - 1)) = Inr b'"
      by (auto simp: connect_lower_def Let_def split: if_splits)
    have lt: "FindIndex lowers x - 1 < length lowers" using FindIndex_nth [OF x] by simp
    have b: "incidence_symmetric ptok b" "length b = length a" using that(1) by simp_all
    have ne: "base + i \<noteq> lowerBase + (FindIndex lowers x - 1)" using apart that(2) by simp
    have injb: "ptok p = ptok q \<Longrightarrow> p = q" if "p < length b" "q < length b" for p q using inj that b(2) by simp
    from c have c': "Connect b (base + i) (ptok (base + i)) (lowerBase + (FindIndex lowers x - 1))
        (ptok (lowerBase + (FindIndex lowers x - 1))) = Inr b'"
      unfolding up [OF that(2)] low [OF lt] .
    have "incidence_symmetric ptok b' \<and> length b' = length b"
      by (rule Connect_symmetric [where ptok = ptok, OF c' b(1) ne injb])
    then show ?thesis unfolding b(2) .
  qed
  show ?thesis using run unfolding connect_all_def
  proof (rule rfold_invariant [where P = ?P])
    show "?P a" using sym by simp
    fix b i b' assume "?P b" "i \<in> set [0..<length uppers]"
      "rbind (CheckCancellation cancelled) (\<lambda>_. rfold (connect_lower up low message lowers base lowerBase i) b
         (map_shapes T (uppers ! i) k)) = Inr b'"
    then have "rfold (connect_lower up low message lowers base lowerBase i) b (map_shapes T (uppers ! i) k) = Inr b'"
      by (auto simp: rbind_eq_Inr)
    then show "?P b'"
    proof (rule rfold_invariant [where P = ?P])
      show "?P b" by fact
      fix c x c' assume c: "?P c" "connect_lower up low message lowers base lowerBase i c x = Inr c'"
      have "i < length uppers" using \<open>i \<in> set [0..<length uppers]\<close> by simp
      from step [OF c(1) this c(2)] show "?P c'" .
    qed
  qed
qed

lemma token_inj:
  "TopologyEntityToken e b k i = TopologyEntityToken e' b' k' i' \<Longrightarrow> e = e' \<and> b = b' \<and> k = k' \<and> i = i'"
proof -
  assume eq: "TopologyEntityToken e b k i = TopologyEntityToken e' b' k' i'"
  let ?r = "\<lambda>b k i. decimal b @ CHR '':'' # k # CHR '':'' # decimal i"
  have "decimal e @ CHR '':'' # ?r b k i = decimal e' @ CHR '':'' # ?r b' k' i'"
    using eq by (simp add: TopologyEntityToken_def)
  from read_decimal [OF this] have e: "e = e'" and rest: "?r b k i = ?r b' k' i'" by simp_all
  from read_decimal [OF rest] show ?thesis using e by (simp add: decimal_inj)
qed

lemma position_token_inj:
  assumes "position_token (TopologyEntityToken ep bo) f e p = position_token (TopologyEntityToken ep bo) f e q"
  shows "p = q"
  using assms by (auto simp: position_token_def dest!: token_inj split: if_splits)

section \<open>Properties\<close>

text \<open>Entity tokens are unambiguous: a token determines its evaluation epoch, its body, the
  kind of its entity and the entity's row.\<close>

theorem TopologyEntityToken_injective:
  "TopologyEntityToken epoch body kind index = TopologyEntityToken epoch' body' kind' index' \<longleftrightarrow>
   epoch = epoch' \<and> body = body' \<and> kind = kind' \<and> index = index'"
  using token_inj by blast

text \<open>The incidence lists of a topology snapshot are symmetric: whatever face-edge and
  edge-vertex incidences the kernel reports, the token of entity j occurs in the list of entity i
  exactly as often as the token of i occurs in the list of j, and there is one list per entity.\<close>

theorem build_adjacency_symmetric:
  fixes T :: "'sh occt" and body :: 'sh
  defines "F \<equiv> length (map_shapes T body FACE)" and "E \<equiv> length (map_shapes T body EDGE)"
    and "V \<equiv> length (map_shapes T body VERTEX)"
  assumes "build_adjacency T (TopologyEntityToken epoch ordinal) body cancelled = Inr adjacency"
    and "i < F + E + V" and "j < F + E + V"
  shows "length adjacency = F + E + V \<and>
    count_list (adjacency ! i) (position_token (TopologyEntityToken epoch ordinal) F E j) =
    count_list (adjacency ! j) (position_token (TopologyEntityToken epoch ordinal) F E i)"
proof -
  let ?tok = "TopologyEntityToken epoch ordinal" and ?p = "position_token (TopologyEntityToken epoch ordinal) F E"
  obtain mid where m1: "connect_all T (?tok (CHR ''f'')) (?tok (CHR ''e'')) ''face incidence references an unmapped edge''
        (map_shapes T body FACE) (map_shapes T body EDGE) EDGE 0 F cancelled (replicate (F + E + V) []) = Inr mid"
    and m2: "connect_all T (?tok (CHR ''e'')) (?tok (CHR ''v'')) ''edge incidence references an unmapped vertex''
        (map_shapes T body EDGE) (map_shapes T body VERTEX) VERTEX F (F + E) cancelled mid = Inr adjacency"
    using assms(4) by (auto simp: build_adjacency_def Let_def rbind_eq_Inr F_def E_def V_def)
  have inj: "?p a = ?p b \<Longrightarrow> a = b" for a b by (rule position_token_inj)
  have start: "incidence_symmetric ?p (replicate (F + E + V) [])" by (simp add: incidence_symmetric_def)
  have tf: "?tok (CHR ''f'') i = ?p (0 + i)" if "i < length (map_shapes T body FACE)" for i
    using that by (simp add: position_token_def F_def)
  have te: "?tok (CHR ''e'') i = ?p (F + i)" if "i < length (map_shapes T body EDGE)" for i
    using that by (simp add: position_token_def E_def)
  have tv: "?tok (CHR ''v'') i = ?p (F + E + i)" if "i < length (map_shapes T body VERTEX)" for i
    by (simp add: position_token_def)
  have a: "incidence_symmetric ?p mid \<and> length mid = length (replicate (F + E + V) [] :: string list list)"
    by (rule connect_all_symmetric [where ptok = ?p, OF m1 start tf te _ inj]) (simp_all add: F_def)
  have b: "incidence_symmetric ?p adjacency \<and> length adjacency = length mid"
    by (rule connect_all_symmetric [where ptok = ?p, OF m2 conjunct1 [OF a] te tv _ inj]) (simp_all add: E_def)
  show ?thesis using a b assms(5,6) by (simp add: incidence_symmetric_def)
qed

theorem build_adjacency_symmetric_witness:
  "\<exists>adjacency. build_adjacency demo_occt (TopologyEntityToken 7 0) 200 False = Inr adjacency \<and>
     count_list (adjacency ! 0) ''te:7:0:e:1'' = count_list (adjacency ! 2) ''te:7:0:f:0''"
proof -
  have "\<not> isl (build_adjacency demo_occt (TopologyEntityToken 7 0) 200 False)" by code_simp
  then obtain adjacency where ok: "build_adjacency demo_occt (TopologyEntityToken 7 0) 200 False = Inr adjacency"
    using Inr_of_not_isl by blast
  have len: "length (map_shapes demo_occt 200 FACE) = 1" "length (map_shapes demo_occt 200 EDGE) = 2"
    "length (map_shapes demo_occt 200 VERTEX) = 3" by (simp_all add: demo_occt_def demo_maps_def)
  have "position_token (TopologyEntityToken 7 0) 1 2 2 = ''te:7:0:e:1''"
    "position_token (TopologyEntityToken 7 0) 1 2 0 = ''te:7:0:f:0''"
    by (simp_all add: position_token_def TopologyEntityToken_def decimal.simps digit_char_def)
  with build_adjacency_symmetric [OF ok, of 0 2] ok len show ?thesis by simp
qed

end
