(* ===== verification/Edge_Loops.thy ===== *)
theory Edge_Loops
  imports Json_Value "HOL-Library.Multiset"
begin

text \<open>
  \<open>GroupEdgesIntoLoops\<close> of \<open>topology_adjacency.hpp\<close>: the partition of a set of edges into simple
  closed loops by shared vertices. Edges are numbered as in the input vector; an edge's end
  vertices come from the topology kernel (\<open>None\<close> for a null vertex). The lemmas show that the
  walk always ends, that the loops of a successful call use every edge exactly once, and that
  every loop is a closed walk along shared vertices.
\<close>

section \<open>The vertex map\<close>

text \<open>\<open>NCollection_IndexedDataMap\<close> from vertices to edge indices, in insertion order.\<close>

fun add_incidence :: "'v \<Rightarrow> nat \<Rightarrow> ('v \<times> nat list) list \<Rightarrow> ('v \<times> nat list) list" where
  "add_incidence v i [] = [(v, [i])]"
| "add_incidence v i ((w, is) # m) = (if v = w then (w, is @ [i]) # m else (w, is) # add_incidence v i m)"

record 'v loop_input =
  firstVertex :: "'v list"
  secondVertex :: "'v list"
  vertexToEdges :: "('v \<times> nat list) list"

definition index_edge :: "('e \<Rightarrow> 'v option \<times> 'v option) \<Rightarrow> 'e list \<Rightarrow> 'v loop_input \<Rightarrow> nat \<Rightarrow> 'v loop_input result" where
  "index_edge vertices edges s index =
     (case vertices (edges ! index) of
        (Some v1, Some v2) \<Rightarrow>
          Inr (s\<lparr>firstVertex := firstVertex s @ [v1], secondVertex := secondVertex s @ [v2],
                 vertexToEdges := add_incidence v2 index (add_incidence v1 index (vertexToEdges s))\<rparr>)
      | _ \<Rightarrow> Inl (Standard_failure ''GroupEdgesIntoLoops: an edge has no endpoints''))"

definition index_edges :: "('e \<Rightarrow> 'v option \<times> 'v option) \<Rightarrow> 'e list \<Rightarrow> 'v loop_input result" where
  "index_edges vertices edges =
     rfold (index_edge vertices edges) \<lparr>firstVertex = [], secondVertex = [], vertexToEdges = []\<rparr> [0..<length edges]"

definition degrees_two :: "'v loop_input \<Rightarrow> bool" where
  "degrees_two s \<longleftrightarrow> list_all (\<lambda>(v, is). length is = 2) (vertexToEdges s)"

section \<open>The walk\<close>

definition other_end :: "'v loop_input \<Rightarrow> nat \<Rightarrow> 'v \<Rightarrow> 'v" where
  "other_end s i current = (if firstVertex s ! i = current then secondVertex s ! i else firstVertex s ! i)"

text \<open>The first unvisited edge at the current vertex.\<close>

definition next_edge :: "'v loop_input \<Rightarrow> bool list \<Rightarrow> 'v \<Rightarrow> nat option" where
  "next_edge s visited current =
     (case map_of (vertexToEdges s) current of
        None \<Rightarrow> None
      | Some is \<Rightarrow> List.find (\<lambda>i. i < length visited \<and> \<not> visited ! i) is)"

definition unvisited :: "bool list \<Rightarrow> nat" where
  "unvisited visited = length (filter Not visited)"

lemma unvisited_visit: "i < length visited \<Longrightarrow> \<not> visited ! i \<Longrightarrow> unvisited (visited[i := True]) < unvisited visited"
proof (induction visited arbitrary: i)
  case Nil
  then show ?case by simp
next
  case (Cons b bs)
  then show ?case by (cases i) (auto simp: unvisited_def)
qed

lemma next_edge_unvisited: "next_edge s visited c = Some i \<Longrightarrow> i < length visited \<and> \<not> visited ! i"
  by (auto simp: next_edge_def find_Some_iff split: option.splits)

text \<open>The \<open>while\<close> loop: the rest of the loop from the current vertex, and the visited marks after it.\<close>

function walk :: "'v loop_input \<Rightarrow> 'v \<Rightarrow> 'v \<Rightarrow> bool list \<Rightarrow> (nat list \<times> bool list) result" where
  "walk s start current visited =
     (if current = start then Inr ([], visited)
      else case next_edge s visited current of
        None \<Rightarrow> Inl (Standard_failure ''GroupEdgesIntoLoops: a connected component does not close into a simple loop'')
      | Some i \<Rightarrow>
          rbind (walk s start (other_end s i current) (visited[i := True])) (\<lambda>(loop, visited').
            Inr (i # loop, visited')))"
  by pat_completeness auto
termination
  by (relation "measure (\<lambda>(s, start, current, visited). unvisited visited)")
     (auto dest: next_edge_unvisited unvisited_visit)

declare walk.simps [simp del]

definition seed_loop :: "'v loop_input \<Rightarrow> nat list list \<times> bool list \<Rightarrow> nat \<Rightarrow> (nat list list \<times> bool list) result" where
  "seed_loop s acc seed =
     (case acc of (loops, visited) \<Rightarrow>
        if visited ! seed then Inr (loops, visited)
        else rbind (walk s (firstVertex s ! seed) (secondVertex s ! seed) (visited[seed := True]))
          (\<lambda>(loop, visited'). Inr (loops @ [seed # loop], visited')))"

definition loop_indices :: "('e \<Rightarrow> 'v option \<times> 'v option) \<Rightarrow> 'e list \<Rightarrow> ('v loop_input \<times> nat list list) result" where
  "loop_indices vertices edges =
     rbind (index_edges vertices edges) (\<lambda>s.
       if \<not> degrees_two s
       then Inl (Standard_failure ''GroupEdgesIntoLoops: a vertex is touched by other than exactly two edges'')
       else rbind (rfold (seed_loop s) ([], replicate (length edges) False) [0..<length edges])
         (\<lambda>(loops, visited). Inr (s, loops)))"

definition GroupEdgesIntoLoops :: "('e \<Rightarrow> 'v option \<times> 'v option) \<Rightarrow> 'e list \<Rightarrow> 'e list list result" where
  "GroupEdgesIntoLoops vertices edges =
     rbind (loop_indices vertices edges) (\<lambda>(s, loops). Inr (map (map (\<lambda>i. edges ! i)) loops))"

section \<open>Closed walks\<close>

text \<open>Walking an edge from one of its ends leads to the other.\<close>

fun walks_to :: "('e \<Rightarrow> 'v option \<times> 'v option) \<Rightarrow> 'v \<Rightarrow> 'e list \<Rightarrow> 'v \<Rightarrow> bool" where
  "walks_to vertices v [] w = (v = w)"
| "walks_to vertices v (e # es) w =
     (\<exists>u. (vertices e = (Some v, Some u) \<or> vertices e = (Some u, Some v)) \<and> walks_to vertices u es w)"

definition closed_walk :: "('e \<Rightarrow> 'v option \<times> 'v option) \<Rightarrow> 'e list \<Rightarrow> bool" where
  "closed_walk vertices es \<longleftrightarrow> es \<noteq> [] \<and> (\<exists>v. walks_to vertices v es v)"

definition input_ok :: "('e \<Rightarrow> 'v option \<times> 'v option) \<Rightarrow> 'e list \<Rightarrow> nat \<Rightarrow> 'v loop_input \<Rightarrow> bool" where
  "input_ok vertices edges n s \<longleftrightarrow>
     length (firstVertex s) = n \<and> length (secondVertex s) = n \<and>
     (\<forall>i < n. vertices (edges ! i) = (Some (firstVertex s ! i), Some (secondVertex s ! i))) \<and>
     (\<forall>v is i. (v, is) \<in> set (vertexToEdges s) \<longrightarrow> i \<in> set is \<longrightarrow>
        i < n \<and> (firstVertex s ! i = v \<or> secondVertex s ! i = v))"

lemma add_incidence_sound:
  "(w, is) \<in> set (add_incidence v i m) \<Longrightarrow> j \<in> set is \<Longrightarrow>
     (w = v \<and> j = i) \<or> (\<exists>js. (w, js) \<in> set m \<and> j \<in> set js)"
  by (induction v i m rule: add_incidence.induct) (auto split: if_splits)

lemma index_edge_ok:
  assumes "input_ok vertices edges n s" and "index_edge vertices edges s n = Inr s'"
  shows "input_ok vertices edges (Suc n) s'"
proof -
  obtain v1 v2 where v: "vertices (edges ! n) = (Some v1, Some v2)"
    and s': "s' = s\<lparr>firstVertex := firstVertex s @ [v1], secondVertex := secondVertex s @ [v2],
               vertexToEdges := add_incidence v2 n (add_incidence v1 n (vertexToEdges s))\<rparr>"
    using assms(2) by (auto simp: index_edge_def split: prod.splits option.splits)
  have "j < Suc n \<and> (firstVertex s' ! j = w \<or> secondVertex s' ! j = w)"
    if "(w, is) \<in> set (vertexToEdges s')" "j \<in> set is" for w "is" j
    using that assms(1) unfolding s'
    by (auto simp: input_ok_def nth_append less_Suc_eq dest!: add_incidence_sound)
  then show ?thesis using assms(1) v by (auto simp: input_ok_def s' nth_append less_Suc_eq)
qed

lemma index_edges_ok: "index_edges vertices edges = Inr s \<Longrightarrow> input_ok vertices edges (length edges) s"
proof -
  have "rfold (index_edge vertices edges) \<lparr>firstVertex = [], secondVertex = [], vertexToEdges = []\<rparr> [0..<n] = Inr s \<Longrightarrow>
      input_ok vertices edges n s" for n s
  proof (induction n arbitrary: s)
    case 0
    then show ?case by (auto simp: input_ok_def)
  next
    case (Suc n)
    then show ?case using index_edge_ok by (fastforce simp: rfold_snoc rbind_eq_Inr)
  qed
  then show "index_edges vertices edges = Inr s \<Longrightarrow> ?thesis" by (simp add: index_edges_def)
qed

definition marked :: "bool list \<Rightarrow> nat set" where
  "marked visited = {i. i < length visited \<and> visited ! i}"

lemma marked_update: "i < length visited \<Longrightarrow> marked (visited[i := True]) = insert i (marked visited)"
  by (auto simp: marked_def nth_list_update split: if_splits)

lemma walk_sound:
  assumes "walk s start current visited = Inr (loop, visited')" and "input_ok vertices edges n s" and "length visited = n"
  shows "walks_to vertices current (map (\<lambda>i. edges ! i) loop) start \<and> distinct loop \<and>
    set loop \<inter> marked visited = {} \<and> marked visited' = marked visited \<union> set loop \<and> length visited' = n \<and> set loop \<subseteq> {..<n}"
  using assms
proof (induction s start current visited arbitrary: loop visited' rule: walk.induct)
  case (1 s start current visited)
  show ?case
  proof (cases "current = start")
    case True
    then show ?thesis using "1.prems" by (simp add: walk.simps)
  next
    case False
    then obtain i rest where i: "next_edge s visited current = Some i"
      and rest: "walk s start (other_end s i current) (visited[i := True]) = Inr (rest, visited')"
      and loop: "loop = i # rest"
      using "1.prems"(1) by (subst (asm) walk.simps) (auto simp: rbind_eq_Inr split: option.splits)
    have new: "i < n" "\<not> visited ! i" using next_edge_unvisited [OF i] "1.prems"(3) by auto
    obtain "is" where "(current, is) \<in> set (vertexToEdges s)" "i \<in> set is"
      using i by (auto simp: next_edge_def find_Some_iff split: option.splits dest!: map_of_SomeD)
    then have ends: "firstVertex s ! i = current \<or> secondVertex s ! i = current"
      using "1.prems"(2) by (auto simp: input_ok_def)
    have vs: "vertices (edges ! i) = (Some (firstVertex s ! i), Some (secondVertex s ! i))"
      using "1.prems"(2) new(1) by (simp add: input_ok_def)
    have IH: "walks_to vertices (other_end s i current) (map (\<lambda>i. edges ! i) rest) start \<and> distinct rest \<and>
        set rest \<inter> marked (visited[i := True]) = {} \<and> marked visited' = marked (visited[i := True]) \<union> set rest \<and>
        length visited' = n \<and> set rest \<subseteq> {..<n}"
      by (rule "1.IH" [OF False i rest "1.prems"(2)]) (use "1.prems"(3) in simp)
    have "i \<notin> marked visited" using new by (simp add: marked_def)
    then show ?thesis using IH ends vs new "1.prems"(3)
      by (auto simp: loop marked_update other_end_def split: if_splits)
  qed
qed

text \<open>The invariant of the seed loop.\<close>

definition loops_ok :: "('e \<Rightarrow> 'v option \<times> 'v option) \<Rightarrow> 'e list \<Rightarrow> nat list list \<times> bool list \<Rightarrow> bool" where
  "loops_ok vertices edges acc \<longleftrightarrow>
     length (snd acc) = length edges \<and> distinct (concat (fst acc)) \<and> set (concat (fst acc)) = marked (snd acc) \<and>
     (\<forall>loop \<in> set (fst acc). closed_walk vertices (map (\<lambda>i. edges ! i) loop))"

lemma seed_loop_ok:
  assumes "input_ok vertices edges (length edges) s" and "loops_ok vertices edges acc"
    and "seed < length edges" and "seed_loop s acc seed = Inr acc'"
  shows "loops_ok vertices edges acc' \<and> marked (snd acc) \<subseteq> marked (snd acc') \<and> seed \<in> marked (snd acc')"
proof -
  obtain loops visited where acc: "acc = (loops, visited)" by force
  have len: "length visited = length edges" using assms(2) by (simp add: loops_ok_def acc)
  show ?thesis
  proof (cases "visited ! seed")
    case True
    then have "acc' = (loops, visited)" using assms(4) by (simp add: seed_loop_def acc)
    then show ?thesis using True assms(2,3) len by (simp add: acc marked_def)
  next
    case False
    then obtain loop visited' where w: "walk s (firstVertex s ! seed) (secondVertex s ! seed) (visited[seed := True]) = Inr (loop, visited')"
      and acc': "acc' = (loops @ [seed # loop], visited')"
      using assms(4) by (auto simp: seed_loop_def acc rbind_eq_Inr)
    from walk_sound [OF w assms(1)] len have sound:
      "walks_to vertices (secondVertex s ! seed) (map (\<lambda>i. edges ! i) loop) (firstVertex s ! seed)" "distinct loop"
      "set loop \<inter> insert seed (marked visited) = {}" "marked visited' = insert seed (marked visited) \<union> set loop"
      "length visited' = length edges"
      using assms(3) by (auto simp: marked_update)
    have "vertices (edges ! seed) = (Some (firstVertex s ! seed), Some (secondVertex s ! seed))"
      using assms(1,3) by (simp add: input_ok_def)
    with sound(1) have "closed_walk vertices (map (\<lambda>i. edges ! i) (seed # loop))"
      by (auto simp: closed_walk_def)
    moreover have "seed \<notin> marked visited" using False by (simp add: marked_def)
    ultimately show ?thesis using assms(2) sound by (auto simp: loops_ok_def acc acc')
  qed
qed

lemma seed_loops_ok:
  assumes "input_ok vertices edges (length edges) s" and "n \<le> length edges"
    and "rfold (seed_loop s) ([], replicate (length edges) False) [0..<n] = Inr acc"
  shows "loops_ok vertices edges acc \<and> {..<n} \<subseteq> marked (snd acc)"
  using assms(2,3)
proof (induction n arbitrary: acc)
  case 0
  then show ?case by (auto simp: loops_ok_def marked_def)
next
  case (Suc n)
  then obtain mid where "rfold (seed_loop s) ([], replicate (length edges) False) [0..<n] = Inr mid"
    and step: "seed_loop s mid n = Inr acc" by (auto simp: rfold_snoc rbind_eq_Inr)
  with Suc have "loops_ok vertices edges mid" "{..<n} \<subseteq> marked (snd mid)" by auto
  with seed_loop_ok [OF assms(1) _ _ step] Suc.prems(1) show ?case by (auto simp: less_Suc_eq)
qed

section \<open>Properties\<close>

text \<open>C31. A successful grouping is a partition into closed loops: the loops together use every
  edge of the input exactly once, and each of them is a closed walk in which consecutive edges
  share a vertex and the last returns to the vertex the first started from.\<close>

theorem GroupEdgesIntoLoops_partition:
  assumes "GroupEdgesIntoLoops vertices edges = Inr loops"
  shows "mset (concat loops) = mset edges \<and> (\<forall>loop \<in> set loops. closed_walk vertices loop)"
proof -
  obtain s idx visited where s: "index_edges vertices edges = Inr s"
    and run: "rfold (seed_loop s) ([], replicate (length edges) False) [0..<length edges] = Inr (idx, visited)"
    and loops: "loops = map (map (\<lambda>i. edges ! i)) idx"
    using assms by (auto simp: GroupEdgesIntoLoops_def loop_indices_def rbind_eq_Inr split: if_splits)
  from seed_loops_ok [OF index_edges_ok [OF s] order_refl run]
  have ok: "loops_ok vertices edges (idx, visited)" and all: "{..<length edges} \<subseteq> marked visited" by auto
  have "set (concat idx) = {..<length edges}" using ok all by (auto simp: loops_ok_def marked_def)
  then have "mset (concat idx) = mset [0..<length edges]"
    using ok by (intro set_eq_iff_mset_eq_distinct [THEN iffD1]) (auto simp: loops_ok_def)
  then have "mset (map (\<lambda>i. edges ! i) (concat idx)) = mset (map (\<lambda>i. edges ! i) [0..<length edges])"
    by (simp only: mset_map)
  then have "mset (concat loops) = mset edges" by (simp add: loops map_concat map_nth)
  then show ?thesis using ok by (auto simp: loops_ok_def loops)
qed

theorem GroupEdgesIntoLoops_partition_witness:
  "\<exists>loops. GroupEdgesIntoLoops (\<lambda>(a, b). (Some a, Some b)) [(1 :: nat, 2 :: nat), (5, 5), (3, 1), (2, 3)] = Inr loops \<and>
     mset (concat loops) = {#(1, 2), (5, 5), (3, 1), (2, 3)#}"
proof -
  have "GroupEdgesIntoLoops (\<lambda>(a, b). (Some a, Some b)) [(1 :: nat, 2 :: nat), (5, 5), (3, 1), (2, 3)] =
      Inr [[(1, 2), (2, 3), (3, 1)], [(5, 5)]]" by code_simp
  from GroupEdgesIntoLoops_partition [OF this] this show ?thesis by auto
qed

end
