(* ===== verification/Registry_Roles.thy ===== *)
theory Registry_Roles
  imports Element_Names
begin

unbundle bit_operations_syntax

text \<open>
  The pure tables of \<open>naming_registry.cpp\<close>: the semantic ordinal of a sketch entity (FNV-1a),
  kind ranks, the test for a bare quantized root, and the role an operation class gives to a
  modified, generated, section or unattributed entity.
\<close>

section \<open>Semantic ordinals\<close>

definition fnv_step :: "u64 \<Rightarrow> char \<Rightarrow> u64" where
  "fnv_step hash byte = (hash XOR of_char byte) * 1099511628211"

definition StableSemanticOrdinal :: "string \<Rightarrow> u64" where
  "StableSemanticOrdinal value = foldl fnv_step 14695981039346656037 value"

section \<open>Kinds and names\<close>

definition registry_KindCodeOf :: "shape_kind \<Rightarrow> char result" where
  "registry_KindCodeOf k =
     (case k of FACE \<Rightarrow> Inr (CHR ''f'') | EDGE \<Rightarrow> Inr (CHR ''e'') | VERTEX \<Rightarrow> Inr (CHR ''v'')
      | OTHER_SHAPE \<Rightarrow> Inl (Runtime_error ''naming registry covers faces, edges, and vertices only''))"

definition KindRankOf :: "char \<Rightarrow> int result" where
  "KindRankOf kind =
     (if kind = CHR ''f'' then Inr 0 else if kind = CHR ''e'' then Inr 1 else if kind = CHR ''v'' then Inr 2
      else Inl (Runtime_error ''naming registry covers faces, edges, and vertices only''))"

definition starts_with :: "string \<Rightarrow> string \<Rightarrow> bool" where
  "starts_with s prefix \<longleftrightarrow> take (length prefix) s = prefix"

definition IsBareQuantizedRoot :: "string \<Rightarrow> bool" where
  "IsBareQuantizedRoot name \<longleftrightarrow> starts_with name ''n1:Q.'' \<and> CHR ''/'' \<notin> set name"

section \<open>Roles\<close>

datatype OperationClass =
    Boolean | Hole | Fillet | Transform | Shell | Mirror | Pattern | Chamfer | Offset | BaseFlange
  | EdgeFlange | Unfold | BoundarySurface | SurfaceOffset | Stitch | Thicken | WireRoute
  | MoldPartingLine | MoldShutoffSurface | MoldPartingSurface | MoldToolingSplit

text \<open>The classes that harvest elsewhere: every table refuses them with the same message.\<close>

definition harvests_elsewhere :: "OperationClass \<Rightarrow> string option" where
  "harvests_elsewhere c =
     (case c of
        BaseFlange \<Rightarrow> Some ''naming registry: base_flange harvests through HarvestBirth, never HarvestOperation''
      | Unfold \<Rightarrow> Some ''naming registry: unfold harvests its flat pattern directly, never HarvestOperation''
      | SurfaceOffset \<Rightarrow> Some ''naming registry: surface_offset does not record element names yet''
      | Stitch \<Rightarrow> Some ''naming registry: stitch harvests its result directly, never HarvestOperation''
      | BoundarySurface \<Rightarrow> Some ''naming registry: boundary_surface harvests its result directly, never HarvestOperation''
      | Thicken \<Rightarrow> Some ''naming registry: thicken harvests its result directly, never HarvestOperation''
      | WireRoute \<Rightarrow> Some ''naming registry: wire_route harvests its result directly, never HarvestOperation''
      | MoldPartingLine \<Rightarrow> Some ''naming registry: mold_parting_line harvests its result directly, never HarvestOperation''
      | MoldShutoffSurface \<Rightarrow> Some ''naming registry: mold_shutoff_surface harvests its result directly, never HarvestOperation''
      | MoldPartingSurface \<Rightarrow> Some ''naming registry: mold_parting_surface harvests its result directly, never HarvestOperation''
      | MoldToolingSplit \<Rightarrow> Some ''naming registry: mold_tooling_split harvests its result directly, never HarvestOperation''
      | _ \<Rightarrow> None)"

definition refuse_class :: "OperationClass \<Rightarrow> string result" where
  "refuse_class c =
     Inl (Runtime_error (case harvests_elsewhere c of
       Some message \<Rightarrow> message | None \<Rightarrow> ''naming registry received an unknown operation class''))"

definition by_kind :: "char \<Rightarrow> string \<Rightarrow> string \<Rightarrow> string \<Rightarrow> string" where
  "by_kind kind face edge other =
     (if kind = CHR ''f'' then face else if kind = CHR ''e'' then edge else other)"

definition RoleForModified :: "OperationClass \<Rightarrow> bool \<Rightarrow> char \<Rightarrow> string result" where
  "RoleForModified c tool kind =
     (case c of
        Boolean \<Rightarrow> Inr (if \<not> tool then ''modified'' else by_kind kind ''tool-face'' ''tool-edge'' ''generated'')
      | Hole \<Rightarrow> Inr (if \<not> tool then ''modified'' else by_kind kind ''wall'' ''generated'' ''generated'')
      | Shell \<Rightarrow> Inr (if \<not> tool then ''modified'' else by_kind kind ''wall'' ''generated'' ''generated'')
      | Mirror \<Rightarrow> Inr (if \<not> tool then ''modified'' else by_kind kind ''mirrored'' ''mirrored-edge'' ''mirrored-vertex'')
      | Pattern \<Rightarrow> Inr (if \<not> tool then ''modified'' else by_kind kind ''instance-face'' ''instance-edge'' ''instance-vertex'')
      | Offset \<Rightarrow> Inr (if tool \<and> kind = CHR ''f'' then ''offset'' else ''modified'')
      | Fillet \<Rightarrow> Inr ''modified''
      | Chamfer \<Rightarrow> Inr ''modified''
      | Transform \<Rightarrow> Inr ''modified''
      | EdgeFlange \<Rightarrow> Inr (if \<not> tool then ''modified'' else by_kind kind ''panel'' ''generated'' ''generated'')
      | _ \<Rightarrow> refuse_class c)"

definition RoleForGenerated :: "OperationClass \<Rightarrow> bool \<Rightarrow> char \<Rightarrow> string result" where
  "RoleForGenerated c tool kind =
     (case c of
        Boolean \<Rightarrow> Inr (if tool then by_kind kind ''tool-face'' ''tool-edge'' ''generated'' else ''generated'')
      | Hole \<Rightarrow> Inr (if tool then by_kind kind ''wall'' ''generated'' ''generated'' else ''generated'')
      | Shell \<Rightarrow> Inr (if tool then by_kind kind ''wall'' ''generated'' ''generated'' else ''generated'')
      | Mirror \<Rightarrow> Inr ''generated''
      | Pattern \<Rightarrow> Inr ''generated''
      | Fillet \<Rightarrow> Inr (by_kind kind ''fillet'' ''generated'' ''generated'')
      | Chamfer \<Rightarrow> Inr (by_kind kind ''chamfer'' ''chamfer-edge'' ''generated'')
      | Offset \<Rightarrow> Inr (by_kind kind ''offset'' ''generated'' ''generated'')
      | EdgeFlange \<Rightarrow> Inr (by_kind kind ''bend'' ''generated'' ''generated'')
      | Transform \<Rightarrow> Inl (Runtime_error
          ''naming registry found a Generated image under transform; its history must be Modified-only'')
      | _ \<Rightarrow> refuse_class c)"

definition RoleForSection :: "OperationClass \<Rightarrow> char \<Rightarrow> string result" where
  "RoleForSection c kind =
     (case c of
        Boolean \<Rightarrow> Inr (by_kind kind ''generated'' ''seam'' ''generated'')
      | Hole \<Rightarrow> Inr (by_kind kind ''generated'' ''seam'' ''generated'')
      | Shell \<Rightarrow> Inr (by_kind kind ''generated'' ''seam'' ''generated'')
      | Mirror \<Rightarrow> Inr (by_kind kind ''generated'' ''seam'' ''generated'')
      | Pattern \<Rightarrow> Inr (by_kind kind ''generated'' ''seam'' ''generated'')
      | Fillet \<Rightarrow> Inr (by_kind kind ''fillet'' ''generated'' ''generated'')
      | Chamfer \<Rightarrow> Inr (by_kind kind ''chamfer-corner'' ''chamfer-edge'' ''generated'')
      | Offset \<Rightarrow> Inr (by_kind kind ''offset'' ''generated'' ''generated'')
      | EdgeFlange \<Rightarrow> Inr (by_kind kind ''bend'' ''generated'' ''generated'')
      | Transform \<Rightarrow> Inl (Runtime_error
          ''naming registry found a Generated image under transform; its history must be Modified-only'')
      | _ \<Rightarrow> refuse_class c)"

definition RoleForUnattributed :: "OperationClass \<Rightarrow> char \<Rightarrow> string result" where
  "RoleForUnattributed c kind =
     (case c of
        Transform \<Rightarrow> Inl (Runtime_error
          ''naming registry found an unattributed entity under transform; its 1:1 Modified history is incoherent'')
      | _ \<Rightarrow> (case harvests_elsewhere c of Some _ \<Rightarrow> refuse_class c | None \<Rightarrow> Inr ''generated''))"

lemma KindRankOf_kind_code:
  "k \<in> set kNamedKinds \<Longrightarrow> \<exists>n. KindRankOf (kind_code k) = Inr n"
  by (auto simp: kNamedKinds_def KindRankOf_def kind_code_def)

text \<open>Transform admits modified images only; the classes that harvest elsewhere admit nothing.\<close>

lemma roles_refused:
  "harvests_elsewhere c \<noteq> None \<Longrightarrow>
     isl (RoleForModified c tool kind) \<and> isl (RoleForGenerated c tool kind) \<and>
     isl (RoleForSection c kind) \<and> isl (RoleForUnattributed c kind)"
  by (cases c) (simp_all add: harvests_elsewhere_def RoleForModified_def RoleForGenerated_def
      RoleForSection_def RoleForUnattributed_def refuse_class_def)

end
