(* ===== verification/Naming_Registry.thy ===== *)
theory Naming_Registry
  imports Registry_Roles
begin

text \<open>
  The naming registry (\<open>naming_registry.cpp\<close>): the append-only record log with its three indices,
  the mint of a set of role buckets, the harvests of births, copies, datums, sketch edges and
  modelling operations, and the snapshot seam. The quantized geometry of an entity is computed by
  OCCT and enters as the parameter \<open>geometry\<close>.
\<close>

section \<open>State\<close>

type_synonym GeometricKey = "int \<times> int \<times> int \<times> int \<times> int \<times> string"
type_synonym 'sh geometry = "'sh \<Rightarrow> int \<times> int \<times> int \<times> int \<times> int"

record 'sh NamingRecord =
  rec_token :: string
  rec_shape :: 'sh
  rec_minter :: string
  rec_role :: string
  rec_kind :: char
  rec_lineageName :: string
  rec_normalizedLineageName :: string
  rec_ancestors :: "string list"
  rec_live :: bool
  rec_nameCollision :: bool
  rec_orderTie :: bool

record 'sh NamingRegistry =
  reg_book :: "'sh ElementNameBook"
  records :: "'sh NamingRecord list"
  byToken :: "string \<Rightarrow> nat option"
  byNormalizedName :: "char \<times> string \<Rightarrow> nat list option"
  shapeIndex :: "'sh \<Rightarrow> nat list option"

definition registry_new :: "'sh NamingRegistry" where
  "registry_new = \<lparr>reg_book = book_new, records = [], byToken = (\<lambda>_. None), byNormalizedName = (\<lambda>_. None),
     shapeIndex = (\<lambda>_. None)\<rparr>"

record 'sh MintPlan =
  mint_shape :: 'sh
  mint_aliasSource :: "'sh option"
  mint_kind :: char
  mint_kindRank :: int
  mint_lineageName :: string
  mint_normalizedName :: string
  mint_ancestors :: "string list"
  mint_geometry :: GeometricKey
  mint_stableOrdinal :: "u64 option"

definition GeometryKeyOf :: "'sh occt \<Rightarrow> 'sh geometry \<Rightarrow> 'sh \<Rightarrow> string \<Rightarrow> GeometricKey result" where
  "GeometryKeyOf T geometry shape provenance =
     (if shape_type T shape = OTHER_SHAPE
      then Inl (Runtime_error ''naming registry covers faces, edges, and vertices only'')
      else let (x, y, z, measure, classRank) = geometry shape in Inr (x, y, z, measure, classRank, provenance))"

section \<open>Queries\<close>

definition RecordAt :: "'sh NamingRegistry \<Rightarrow> nat \<Rightarrow> 'sh NamingRecord result" where
  "RecordAt r index =
     (if length (records r) \<le> index then Inl (Runtime_error ''naming registry record index out of range'')
      else Inr (records r ! index))"

definition FindByToken :: "'sh NamingRegistry \<Rightarrow> string \<Rightarrow> 'sh NamingRecord option" where
  "FindByToken r token = map_option (\<lambda>i. records r ! i) (byToken r token)"

definition LiveByNormalizedName :: "'sh NamingRegistry \<Rightarrow> char \<Rightarrow> string \<Rightarrow> 'sh NamingRecord list" where
  "LiveByNormalizedName r kind normalizedName =
     (case byNormalizedName r (kind, normalizedName) of
        None \<Rightarrow> []
      | Some indices \<Rightarrow> filter rec_live (map (\<lambda>i. records r ! i) indices))"

definition TokensOf :: "'sh NamingRegistry \<Rightarrow> 'sh \<Rightarrow> string list" where
  "TokensOf r shape =
     (case shapeIndex r shape of
        None \<Rightarrow> []
      | Some answering \<Rightarrow> map rec_token (filter rec_live (map (\<lambda>i. records r ! i) answering)))"

section \<open>Minting\<close>

text \<open>The comparator of the stable sort, as a key.\<close>

definition mint_key :: "'sh MintPlan \<Rightarrow> int \<times> string \<times> GeometricKey" where
  "mint_key p = (mint_kindRank p, mint_normalizedName p, mint_geometry p)"

definition namesCollide :: "'sh MintPlan list \<Rightarrow> nat \<Rightarrow> nat \<Rightarrow> bool" where
  "namesCollide plans left right \<longleftrightarrow>
     mint_kindRank (plans ! left) = mint_kindRank (plans ! right) \<and>
     mint_normalizedName (plans ! left) = mint_normalizedName (plans ! right)"

definition keysTie :: "'sh MintPlan list \<Rightarrow> nat \<Rightarrow> nat \<Rightarrow> bool" where
  "keysTie plans left right \<longleftrightarrow>
     namesCollide plans left right \<and> mint_geometry (plans ! left) = mint_geometry (plans ! right)"

definition neighbour :: "('a list \<Rightarrow> nat \<Rightarrow> nat \<Rightarrow> bool) \<Rightarrow> 'a list \<Rightarrow> nat \<Rightarrow> bool" where
  "neighbour R plans ordinal \<longleftrightarrow>
     (0 < ordinal \<and> R plans (ordinal - 1) ordinal) \<or>
     (ordinal + 1 < length plans \<and> R plans ordinal (ordinal + 1))"

definition mint_token :: "string \<Rightarrow> string \<Rightarrow> 'sh MintPlan \<Rightarrow> nat \<Rightarrow> string" where
  "mint_token tokenScope role plan ordinal =
     ''t:'' @ tokenScope @ ''/'' @ role @ ''/'' @
     decimal (case mint_stableOrdinal plan of Some n \<Rightarrow> unat n | None \<Rightarrow> ordinal)"

definition mint_record :: "string \<Rightarrow> string \<Rightarrow> string \<Rightarrow> 'sh MintPlan list \<Rightarrow> nat \<Rightarrow> 'sh NamingRecord" where
  "mint_record operationId tokenScope role plans ordinal =
     (let plan = plans ! ordinal in
      \<lparr>rec_token = mint_token tokenScope role plan ordinal, rec_shape = mint_shape plan,
       rec_minter = operationId, rec_role = role, rec_kind = mint_kind plan,
       rec_lineageName = mint_lineageName plan, rec_normalizedLineageName = mint_normalizedName plan,
       rec_ancestors = mint_ancestors plan, rec_live = True,
       rec_nameCollision = neighbour namesCollide plans ordinal,
       rec_orderTie = neighbour keysTie plans ordinal\<rparr>)"

definition kill_records :: "nat list \<Rightarrow> 'sh NamingRecord list \<Rightarrow> 'sh NamingRecord list" where
  "kill_records indices recs = fold (\<lambda>i rs. rs[i := (rs ! i)\<lparr>rec_live := False\<rparr>]) indices recs"

definition repoint_records :: "'sh \<Rightarrow> nat list \<Rightarrow> 'sh NamingRecord list \<Rightarrow> 'sh NamingRecord list" where
  "repoint_records shape indices recs = fold (\<lambda>i rs. rs[i := (rs ! i)\<lparr>rec_shape := shape\<rparr>]) indices recs"

text \<open>The 1:1 survivor: the source's records re-point to the image; at most eight keep answering.\<close>

definition alias_shape :: "'sh \<Rightarrow> 'sh \<Rightarrow> nat \<Rightarrow> 'sh NamingRegistry \<Rightarrow> 'sh NamingRegistry result" where
  "alias_shape source shape recordIndex r =
     (case shapeIndex r source of
        None \<Rightarrow> Inl (Runtime_error ''naming registry lost the answering records of an aliased source'')
      | Some sourceAnswering \<Rightarrow>
          let unbound = (shapeIndex r)(source := None);
              answering = sourceAnswering @ [recordIndex];
              dropped = length answering - 8
          in if unbound shape \<noteq> None
             then Inl (Runtime_error ''naming registry found a Modified image that already answers to other records'')
             else Inr (r\<lparr>records := kill_records (take dropped answering)
                            (repoint_records shape sourceAnswering (records r)),
                         shapeIndex := unbound(shape \<mapsto> drop dropped answering)\<rparr>))"

definition answer_shape :: "'sh \<Rightarrow> nat \<Rightarrow> 'sh NamingRegistry \<Rightarrow> 'sh NamingRegistry" where
  "answer_shape shape recordIndex r =
     r\<lparr>shapeIndex := (shapeIndex r)(shape \<mapsto>
         (case shapeIndex r shape of None \<Rightarrow> [] | Some existing \<Rightarrow> existing) @ [recordIndex])\<rparr>"

definition index_record :: "'sh NamingRecord \<Rightarrow> 'sh NamingRegistry \<Rightarrow> 'sh NamingRegistry result" where
  "index_record record r =
     (if byToken r (rec_token record) \<noteq> None
      then Inl (Runtime_error (''naming registry minted one token twice: '' @ rec_token record))
      else let recordIndex = length (records r);
               key = (rec_kind record, rec_normalizedLineageName record);
               known = (case byNormalizedName r key of None \<Rightarrow> [] | Some is \<Rightarrow> is)
           in Inr (r\<lparr>byToken := (byToken r)(rec_token record \<mapsto> recordIndex),
                     byNormalizedName := (byNormalizedName r)(key \<mapsto> known @ [recordIndex])\<rparr>))"

definition mint_one :: "string \<Rightarrow> string \<Rightarrow> string \<Rightarrow> 'sh MintPlan list \<Rightarrow> 'sh NamingRegistry \<Rightarrow> nat \<Rightarrow> 'sh NamingRegistry result" where
  "mint_one operationId tokenScope role plans r ordinal =
     (let record = mint_record operationId tokenScope role plans ordinal; recordIndex = length (records r) in
      rbind (index_record record r) (\<lambda>r1.
      rbind (case mint_aliasSource (plans ! ordinal) of
               Some source \<Rightarrow> alias_shape source (rec_shape record) recordIndex r1
             | None \<Rightarrow> Inr (answer_shape (rec_shape record) recordIndex r1)) (\<lambda>r2.
        Inr (r2\<lparr>records := records r2 @ [record]\<rparr>))))"

definition mint_bucket :: "string \<Rightarrow> string \<Rightarrow> bool \<Rightarrow> 'sh NamingRegistry \<Rightarrow> string \<times> 'sh MintPlan list \<Rightarrow> 'sh NamingRegistry result" where
  "mint_bucket operationId tokenScope cancelled r bucket =
     (case bucket of (role, plans) \<Rightarrow>
        rbind (CheckCancellation cancelled) (\<lambda>_.
          rfold (mint_one operationId tokenScope role (sort_key mint_key plans)) r [0..<length plans]))"

definition MintBuckets :: "string \<Rightarrow> (string \<times> 'sh MintPlan list) list \<Rightarrow> bool \<Rightarrow> int \<Rightarrow> 'sh NamingRegistry \<Rightarrow> 'sh NamingRegistry result" where
  "MintBuckets operationId buckets cancelled outputIndex r =
     (let tokenScope = (if outputIndex = 0 then operationId else operationId @ '':'' @ to_string_int outputIndex) in
      rfold (mint_bucket operationId tokenScope cancelled) r buckets)"

section \<open>Births and copies\<close>

text \<open>The plan of one entity: its kind, its names from the book, its geometry.\<close>

definition mint_plan ::
  "'sh occt \<Rightarrow> 'sh geometry \<Rightarrow> 'sh NamingRegistry \<Rightarrow> 'sh \<Rightarrow> string list \<Rightarrow> 'sh MintPlan result" where
  "mint_plan T geometry r entity ancestors =
     rbind (registry_KindCodeOf (shape_type T entity)) (\<lambda>kind.
     rbind (KindRankOf kind) (\<lambda>rank.
     rbind (NameOf (reg_book r) entity) (\<lambda>name.
     rbind (GeometryKeyOf T geometry entity (case ancestors of [] \<Rightarrow> [] | a # _ \<Rightarrow> a)) (\<lambda>key.
       Inr \<lparr>mint_shape = entity, mint_aliasSource = None, mint_kind = kind, mint_kindRank = rank,
            mint_lineageName = name, mint_normalizedName = NormalizeElementName name,
            mint_ancestors = ancestors, mint_geometry = key, mint_stableOrdinal = None\<rparr>))))"

definition HarvestSyntheticTool ::
  "'sh occt \<Rightarrow> 'sh geometry \<Rightarrow> string \<Rightarrow> 'sh \<Rightarrow> bool \<Rightarrow> 'sh NamingRegistry \<Rightarrow> 'sh NamingRegistry result" where
  "HarvestSyntheticTool T geometry operationId tool cancelled r =
     rbind (CheckCancellation cancelled) (\<lambda>_.
     rbind (rfold (\<lambda>buckets kind.
              rfold (\<lambda>buckets entity. rbind (mint_plan T geometry r entity []) (\<lambda>plan.
                Inr (multi_push ''tool'' plan buckets))) buckets (map_shapes T tool kind)) [] kNamedKinds)
       (\<lambda>buckets. MintBuckets operationId buckets cancelled 0 r))"

text \<open>\<open>newestTokenOf\<close>: the token of the newest record answering for a shape.\<close>

definition newestTokenOf :: "'sh NamingRegistry \<Rightarrow> string \<Rightarrow> 'sh \<Rightarrow> string result" where
  "newestTokenOf r message source =
     (case shapeIndex r source of
        None \<Rightarrow> Inl (Runtime_error message)
      | Some answering \<Rightarrow>
          if answering = [] then Inl (Runtime_error message)
          else Inr (rec_token (records r ! last answering)))"

definition copied_plan ::
  "'sh occt \<Rightarrow> 'sh geometry \<Rightarrow> 'sh NamingRegistry \<Rightarrow> ('sh \<Rightarrow> 'sh option) \<Rightarrow> 'sh \<Rightarrow> 'sh MintPlan result" where
  "copied_plan T geometry r copyToSource entity =
     rbind (case copyToSource entity of
              None \<Rightarrow> Inr []
            | Some source \<Rightarrow>
                rbind (newestTokenOf r ''naming registry cannot attribute a copied body sub-shape: its source holds no record'' source)
                  (\<lambda>token. Inr [token]))
       (\<lambda>ancestors. mint_plan T geometry r entity ancestors)"

definition HarvestCopiedBody ::
  "'sh occt \<Rightarrow> 'sh geometry \<Rightarrow> string \<Rightarrow> 'sh \<Rightarrow> string \<Rightarrow> string \<Rightarrow> string \<Rightarrow> ('sh \<Rightarrow> 'sh option) \<Rightarrow> bool \<Rightarrow> int \<Rightarrow>
   'sh NamingRegistry \<Rightarrow> 'sh NamingRegistry result" where
  "HarvestCopiedBody T geometry operationId body faceRole edgeRole vertexRole copyToSource cancelled outputIndex r =
     rbind (CheckCancellation cancelled) (\<lambda>_.
     rbind (rfold (\<lambda>buckets kind. rbind (CheckCancellation cancelled) (\<lambda>_.
              rfold (\<lambda>buckets entity. rbind (copied_plan T geometry r copyToSource entity) (\<lambda>plan.
                Inr (multi_push (by_kind (mint_kind plan) faceRole edgeRole vertexRole) plan buckets)))
                buckets (map_shapes T body kind))) [] kNamedKinds)
       (\<lambda>buckets. MintBuckets operationId buckets cancelled outputIndex r))"

definition HarvestImportedBody ::
  "'sh occt \<Rightarrow> 'sh geometry \<Rightarrow> string \<Rightarrow> int \<Rightarrow> 'sh \<Rightarrow> bool \<Rightarrow> 'sh NamingRegistry \<Rightarrow> 'sh NamingRegistry result" where
  "HarvestImportedBody T geometry operationId outputIndex body cancelled r =
     HarvestCopiedBody T geometry operationId body ''imported-face'' ''imported-edge'' ''imported-vertex''
       (\<lambda>_. None) cancelled outputIndex r"

text \<open>The quantized anchor of a datum is computed by the caller's geometry: a parameter.\<close>

definition RegisterDatumEntity ::
  "'sh occt \<Rightarrow> string \<Rightarrow> string \<Rightarrow> 'sh \<Rightarrow> int \<times> int \<times> int \<Rightarrow> bool \<Rightarrow> 'sh NamingRegistry \<Rightarrow> 'sh NamingRegistry result" where
  "RegisterDatumEntity T operationId role backing anchor cancelled r =
     rbind (CheckCancellation cancelled) (\<lambda>_.
     rbind (registry_KindCodeOf (shape_type T backing)) (\<lambda>kind.
       if \<not> (role = ''plane'' \<and> kind = CHR ''f'' \<or> role = ''axis'' \<and> kind = CHR ''e'')
       then Inl (Runtime_error ''naming registry only mints datum entities as plane-faces or axis-edges'')
       else rbind (AddPrimitive T operationId backing (reg_book r)) (\<lambda>book.
            rbind (KindRankOf kind) (\<lambda>rank.
            rbind (NameOf book backing) (\<lambda>name.
              let (x, y, z) = anchor in
              MintBuckets operationId
                [(role, [\<lparr>mint_shape = backing, mint_aliasSource = None, mint_kind = kind, mint_kindRank = rank,
                   mint_lineageName = name, mint_normalizedName = NormalizeElementName name, mint_ancestors = [],
                   mint_geometry = (x, y, z, 0, 0, []), mint_stableOrdinal = None\<rparr>])]
                cancelled 0 (r\<lparr>reg_book := book\<rparr>))))))"

definition sketch_edge ::
  "'sh occt \<Rightarrow> 'sh geometry \<Rightarrow> string \<Rightarrow> string \<Rightarrow> string \<Rightarrow> bool \<Rightarrow>
   'sh NamingRegistry \<times> (string \<times> 'sh MintPlan list) list \<Rightarrow> string \<times> 'sh option \<Rightarrow>
   ('sh NamingRegistry \<times> (string \<times> 'sh MintPlan list) list) result" where
  "sketch_edge T geometry operationId role lineageNamespace cancelled s edge =
     (case (s, edge) of ((r, buckets), (semanticId, backing)) \<Rightarrow>
        rbind (CheckCancellation cancelled) (\<lambda>_.
          case backing of
            None \<Rightarrow> Inl (Invalid_argument ''sketch edge registration received an invalid edge'')
          | Some sh \<Rightarrow>
              if semanticId = [] \<or> shape_type T sh \<noteq> EDGE
              then Inl (Invalid_argument ''sketch edge registration received an invalid edge'')
              else rbind (AddPrimitive T (operationId @ '':'' @ lineageNamespace @ '':'' @ semanticId) sh (reg_book r)) (\<lambda>book.
                   rbind (mint_plan T geometry (r\<lparr>reg_book := book\<rparr>) sh []) (\<lambda>plan.
                     Inr (r\<lparr>reg_book := book\<rparr>,
                          multi_push role (plan\<lparr>mint_stableOrdinal := Some (StableSemanticOrdinal semanticId)\<rparr>) buckets)))))"

definition RegisterSketchEdges ::
  "'sh occt \<Rightarrow> 'sh geometry \<Rightarrow> string \<Rightarrow> string \<Rightarrow> string \<Rightarrow> (string \<times> 'sh option) list \<Rightarrow> bool \<Rightarrow>
   'sh NamingRegistry \<Rightarrow> 'sh NamingRegistry result" where
  "RegisterSketchEdges T geometry operationId role lineageNamespace edges cancelled r =
     rbind (CheckCancellation cancelled) (\<lambda>_.
       if role = [] \<or> lineageNamespace = []
       then Inl (Invalid_argument ''sketch edge role and lineage namespace must be non-empty'')
       else rbind (rfold (sketch_edge T geometry operationId role lineageNamespace cancelled) (r, []) edges)
         (\<lambda>(r', buckets). MintBuckets operationId buckets cancelled 0 r'))"

section \<open>Snapshots\<close>

record 'sh registry_snapshot =
  snap_book :: "'sh book_snapshot"
  snap_records :: "'sh NamingRecord list"
  snap_byToken :: "string \<Rightarrow> nat option"
  snap_byNormalizedName :: "char \<times> string \<Rightarrow> nat list option"
  snap_shapeIndex :: "'sh \<Rightarrow> nat list option"

definition registry_TakeSnapshot :: "'sh NamingRegistry \<Rightarrow> 'sh registry_snapshot" where
  "registry_TakeSnapshot r =
     \<lparr>snap_book = book_TakeSnapshot (reg_book r), snap_records = records r, snap_byToken = byToken r,
      snap_byNormalizedName = byNormalizedName r, snap_shapeIndex = shapeIndex r\<rparr>"

definition registry_RestoreFrom :: "'sh registry_snapshot \<Rightarrow> 'sh NamingRegistry \<Rightarrow> 'sh NamingRegistry" where
  "registry_RestoreFrom snap r =
     r\<lparr>reg_book := book_RestoreFrom (snap_book snap) (reg_book r), records := snap_records snap,
       byToken := snap_byToken snap, byNormalizedName := snap_byNormalizedName snap,
       shapeIndex := snap_shapeIndex snap\<rparr>"

interpretation registry_snap: snapshotting registry_TakeSnapshot registry_RestoreFrom
  by unfold_locales (simp add: registry_TakeSnapshot_def registry_RestoreFrom_def book_snap.restore_take)

end
