(* ===== verification/Registry_Harvest.thy ===== *)
theory Registry_Harvest
  imports Naming_Registry
begin

text \<open>
  \<open>NamingRegistry::HarvestOperation\<close>, phase by phase: the sources with their operand flags, the
  reverse history restricted to the result, the survivors, the classification of every other
  result entity into role buckets, the retirement of scaffolding, the mint, the sweep of dead
  sources and the final coverage check.
\<close>

section \<open>Sources\<close>

record 'sh harvest_input =
  input_shape :: 'sh
  input_tool :: bool
  input_synthetic :: bool

record 'sh harvest =
  harvest_sources :: "'sh list"
  sourceIsTool :: "bool list"
  sourceIsSynthetic :: "bool list"
  harvest_reverseModified :: "'sh \<Rightarrow> nat list option"
  harvest_reverseGenerated :: "'sh \<Rightarrow> nat list option"
  modifiedImageCount :: "nat list"
  survivors :: "'sh list"
  syntheticSurvivors :: "'sh list"

definition harvest_new :: "'sh harvest" where
  "harvest_new = \<lparr>harvest_sources = [], sourceIsTool = [], sourceIsSynthetic = [],
     harvest_reverseModified = (\<lambda>_. None), harvest_reverseGenerated = (\<lambda>_. None),
     modifiedImageCount = [], survivors = [], syntheticSurvivors = []\<rparr>"

definition inResult :: "'sh occt \<Rightarrow> 'sh \<Rightarrow> 'sh \<Rightarrow> bool" where
  "inResult T result shape \<longleftrightarrow>
     shape_type T shape \<in> set kNamedKinds \<and> shape \<in> set (map_shapes T result (shape_type T shape))"

definition add_source :: "'sh NamingRegistry \<Rightarrow> 'sh harvest_input \<Rightarrow> 'sh harvest \<Rightarrow> 'sh \<Rightarrow> 'sh harvest result" where
  "add_source r input h source =
     (if source \<in> set (harvest_sources h) then Inr h
      else if shapeIndex r source = None \<or> shapeIndex r source = Some []
      then Inl (Runtime_error ''naming registry requires every input sub-shape to hold a record before the operation harvests'')
      else Inr (h\<lparr>harvest_sources := harvest_sources h @ [source],
                  sourceIsTool := sourceIsTool h @ [input_tool input],
                  sourceIsSynthetic := sourceIsSynthetic h @ [input_synthetic input]\<rparr>))"

definition add_sources ::
  "'sh occt \<Rightarrow> 'sh NamingRegistry \<Rightarrow> 'sh harvest_input list \<Rightarrow> bool \<Rightarrow> 'sh harvest \<Rightarrow> 'sh harvest result" where
  "add_sources T r inputs cancelled h =
     rfold (\<lambda>h input. rfold (\<lambda>h kind. rbind (CheckCancellation cancelled) (\<lambda>_.
       rfold (add_source r input) h (map_shapes T (input_shape input) kind))) h kNamedKinds) h inputs"

definition harvest_source :: "'sh harvest \<Rightarrow> nat \<Rightarrow> 'sh" where
  "harvest_source h ordinal = harvest_sources h ! (ordinal - 1)"

definition is_tool :: "'sh harvest \<Rightarrow> nat \<Rightarrow> bool" where
  "is_tool h ordinal = sourceIsTool h ! (ordinal - 1)"

definition isSyntheticOrdinal :: "'sh harvest \<Rightarrow> nat \<Rightarrow> bool" where
  "isSyntheticOrdinal h ordinal = sourceIsSynthetic h ! (ordinal - 1)"

definition ordinals :: "'sh harvest \<Rightarrow> nat list" where
  "ordinals h = [1..<length (harvest_sources h) + 1]"

section \<open>Reverse history\<close>

definition addParent :: "'sh \<Rightarrow> nat \<Rightarrow> ('sh \<Rightarrow> nat list option) \<Rightarrow> ('sh \<Rightarrow> nat list option)" where
  "addParent img ordinal m =
     (let parents = (case m img of None \<Rightarrow> [] | Some ps \<Rightarrow> ps) in
      m(img \<mapsto> (if ordinal \<in> set parents then parents else parents @ [ordinal])))"

definition add_modified :: "'sh occt \<Rightarrow> 'sh \<Rightarrow> nat \<Rightarrow> 'sh harvest \<Rightarrow> 'sh \<Rightarrow> 'sh harvest result" where
  "add_modified T result ordinal h img =
     (let source = harvest_source h ordinal in
      if \<not> inResult T result img \<or> img = source then Inr h
      else if shape_type T img \<noteq> shape_type T source
      then Inl (Runtime_error ''naming registry found a Modified image of a different kind than its source'')
      else Inr (h\<lparr>harvest_reverseModified := addParent img ordinal (harvest_reverseModified h),
                  modifiedImageCount := (modifiedImageCount h)[ordinal := modifiedImageCount h ! ordinal + 1]\<rparr>))"

definition add_generated :: "'sh occt \<Rightarrow> 'sh \<Rightarrow> nat \<Rightarrow> 'sh harvest \<Rightarrow> 'sh \<Rightarrow> 'sh harvest result" where
  "add_generated T result ordinal h img =
     (if inResult T result img \<and> img \<noteq> harvest_source h ordinal
      then Inr (h\<lparr>harvest_reverseGenerated := addParent img ordinal (harvest_reverseGenerated h)\<rparr>)
      else Inr h)"

definition reverse_history :: "'sh occt \<Rightarrow> 'sh \<Rightarrow> 'sh history \<Rightarrow> bool \<Rightarrow> 'sh harvest \<Rightarrow> 'sh harvest result" where
  "reverse_history T result history cancelled h =
     rfold (\<lambda>h ordinal. rbind (CheckCancellation cancelled) (\<lambda>_.
       rbind (rfold (add_modified T result ordinal) h (history_modified history (harvest_source h ordinal))) (\<lambda>h1.
         rfold (add_generated T result ordinal) h1 (history_generated history (harvest_source h ordinal)))))
       (h\<lparr>modifiedImageCount := replicate (length (harvest_sources h) + 1) 0\<rparr>) (ordinals h)"

section \<open>Survivors\<close>

definition add_survivor :: "'sh occt \<Rightarrow> 'sh \<Rightarrow> 'sh harvest \<Rightarrow> nat \<Rightarrow> 'sh harvest result" where
  "add_survivor T result h ordinal =
     (let source = harvest_source h ordinal in
      if \<not> inResult T result source then Inr h
      else if 0 < modifiedImageCount h ! ordinal
      then Inl (Runtime_error ''naming registry found a source that identity-survives yet claims Modified images'')
      else if isSyntheticOrdinal h ordinal
      then Inr (h\<lparr>syntheticSurvivors := syntheticSurvivors h @ [source]\<rparr>)
      else Inr (h\<lparr>survivors := survivors h @ [source]\<rparr>))"

definition find_survivors :: "'sh occt \<Rightarrow> 'sh \<Rightarrow> 'sh harvest \<Rightarrow> 'sh harvest result" where
  "find_survivors T result h = rfold (add_survivor T result) h (ordinals h)"

section \<open>Classification\<close>

text \<open>Target before tool, real before synthetic, then the lowest ordinal.\<close>

definition modified_winner :: "'sh harvest \<Rightarrow> nat list \<Rightarrow> nat" where
  "modified_winner h parents = hd (sort_key (\<lambda>p. (is_tool h p, isSyntheticOrdinal h p, p)) parents)"

definition collect_ancestors :: "'sh NamingRegistry \<Rightarrow> 'sh harvest \<Rightarrow> 'sh \<Rightarrow> string list result" where
  "collect_ancestors r h entity =
     (let parents = (\<lambda>m. case m entity of None \<Rightarrow> [] | Some ps \<Rightarrow> ps) in
      rbind (rmap (\<lambda>p. newestTokenOf r ''naming registry lost a source record it verified'' (harvest_source h p))
               (parents (harvest_reverseModified h) @ parents (harvest_reverseGenerated h)))
        (\<lambda>tokens. Inr (remdups (sort tokens))))"

text \<open>The role of an entity and the ordinal of the source it continues, if it continues one.\<close>

definition modified_role ::
  "OperationClass \<Rightarrow> 'sh harvest \<Rightarrow> char \<Rightarrow> nat list \<Rightarrow> nat list option \<Rightarrow> (string \<times> nat option) result" where
  "modified_role c h kind modifiedParents generatedParents =
     (let parent = modified_winner h modifiedParents;
          targetGeneratedWins = (is_tool h parent \<and>
            (case generatedParents of None \<Rightarrow> False | Some gs \<Rightarrow> list_ex (\<lambda>g. \<not> is_tool h g) gs))
      in rbind (if targetGeneratedWins then RoleForGenerated c False kind
                else RoleForModified c (is_tool h parent) kind) (\<lambda>role.
           Inr (role, if modifiedImageCount h ! parent = 1 \<and> \<not> isSyntheticOrdinal h parent
                      then Some parent else None)))"

definition entity_role ::
  "OperationClass \<Rightarrow> 'sh harvest \<Rightarrow> 'sh \<Rightarrow> char \<Rightarrow> string \<Rightarrow> (string \<times> nat option) result" where
  "entity_role c h entity kind lineageName =
     (case harvest_reverseModified h entity of
        Some modifiedParents \<Rightarrow> modified_role c h kind modifiedParents (harvest_reverseGenerated h entity)
      | None \<Rightarrow>
          (case harvest_reverseGenerated h entity of
             Some generatedParents \<Rightarrow>
               rbind (if length generatedParents = 1
                      then RoleForGenerated c (is_tool h (hd generatedParents)) kind
                      else RoleForSection c kind) (\<lambda>role. Inr (role, None))
           | None \<Rightarrow>
               rbind (if entity \<in> set (syntheticSurvivors h) then RoleForModified c True kind
                      else if IsBareQuantizedRoot lineageName
                      then Inl (Runtime_error (''naming registry cannot attribute a result entity (bare quantized-geometry root '' @
                             lineageName @ ''); refusing to mint an untrusted identity''))
                      else RoleForUnattributed c kind) (\<lambda>role. Inr (role, None))))"

definition unattributed_survivor :: "'sh harvest \<Rightarrow> 'sh \<Rightarrow> bool" where
  "unattributed_survivor h entity \<longleftrightarrow>
     harvest_reverseModified h entity = None \<and> harvest_reverseGenerated h entity = None \<and>
     entity \<in> set (syntheticSurvivors h)"

definition classify_entity ::
  "'sh occt \<Rightarrow> 'sh geometry \<Rightarrow> OperationClass \<Rightarrow> 'sh NamingRegistry \<Rightarrow> 'sh harvest \<Rightarrow> 'sh \<Rightarrow> (string \<times> 'sh MintPlan) result" where
  "classify_entity T geometry c r h entity =
     rbind (mint_plan T geometry r entity []) (\<lambda>plan.
     rbind (collect_ancestors r h entity) (\<lambda>parents.
     rbind (entity_role c h entity (mint_kind plan) (mint_lineageName plan)) (\<lambda>(role, continues).
     rbind (if unattributed_survivor h entity
            then rbind (newestTokenOf r ''naming registry lost a source record it verified'' entity)
                   (\<lambda>token. Inr (parents @ [token]))
            else Inr parents) (\<lambda>ancestors.
     rbind (GeometryKeyOf T geometry entity (case ancestors of [] \<Rightarrow> [] | a # _ \<Rightarrow> a)) (\<lambda>key.
       Inr (role, plan\<lparr>mint_aliasSource := map_option (harvest_source h) continues,
                       mint_ancestors := ancestors, mint_geometry := key\<rparr>))))))"

definition classify_step ::
  "'sh occt \<Rightarrow> 'sh geometry \<Rightarrow> OperationClass \<Rightarrow> 'sh NamingRegistry \<Rightarrow> 'sh harvest \<Rightarrow> bool \<Rightarrow>
   (string \<times> 'sh MintPlan list) list \<times> 'sh list \<Rightarrow> 'sh \<Rightarrow> ((string \<times> 'sh MintPlan list) list \<times> 'sh list) result" where
  "classify_step T geometry c r h cancelled s entity =
     (case s of (buckets, aliasedSources) \<Rightarrow>
        rbind (CheckCancellation cancelled) (\<lambda>_.
          if entity \<in> set (survivors h) then Inr (buckets, aliasedSources)
          else rbind (classify_entity T geometry c r h entity) (\<lambda>(role, plan).
            Inr (multi_push role plan buckets,
                 case mint_aliasSource plan of None \<Rightarrow> aliasedSources | Some s \<Rightarrow> aliasedSources @ [s]))))"

definition classify ::
  "'sh occt \<Rightarrow> 'sh geometry \<Rightarrow> OperationClass \<Rightarrow> 'sh NamingRegistry \<Rightarrow> 'sh harvest \<Rightarrow> 'sh \<Rightarrow> bool \<Rightarrow>
   ((string \<times> 'sh MintPlan list) list \<times> 'sh list) result" where
  "classify T geometry c r h result cancelled =
     rfold (\<lambda>s kind. rfold (classify_step T geometry c r h cancelled) s (map_shapes T result kind)) ([], []) kNamedKinds"

section \<open>The harvest\<close>

definition retire :: "'sh \<Rightarrow> 'sh NamingRegistry \<Rightarrow> 'sh NamingRegistry" where
  "retire source r =
     (case shapeIndex r source of
        None \<Rightarrow> r
      | Some answering \<Rightarrow>
          r\<lparr>records := kill_records answering (records r), shapeIndex := (shapeIndex r)(source := None)\<rparr>)"

definition covered :: "'sh NamingRegistry \<Rightarrow> 'sh \<Rightarrow> bool" where
  "covered r shape \<longleftrightarrow>
     (case shapeIndex r shape of None \<Rightarrow> False | Some answering \<Rightarrow> list_ex (\<lambda>i. rec_live (records r ! i)) answering)"

definition harvest_plan ::
  "'sh occt \<Rightarrow> 'sh NamingRegistry \<Rightarrow> 'sh harvest_input list \<Rightarrow> 'sh \<Rightarrow> 'sh history \<Rightarrow> bool \<Rightarrow> 'sh harvest result" where
  "harvest_plan T r inputs result history cancelled =
     rbind (add_sources T r inputs cancelled harvest_new) (\<lambda>h1.
     rbind (reverse_history T result history cancelled h1) (find_survivors T result))"

definition HarvestOperation ::
  "'sh occt \<Rightarrow> 'sh geometry \<Rightarrow> string \<Rightarrow> OperationClass \<Rightarrow> 'sh harvest_input list \<Rightarrow> 'sh \<Rightarrow> 'sh history \<Rightarrow> bool \<Rightarrow>
   'sh NamingRegistry \<Rightarrow> 'sh NamingRegistry result" where
  "HarvestOperation T geometry operationId c inputs result history cancelled r =
     rbind (CheckCancellation cancelled) (\<lambda>_.
     rbind (harvest_plan T r inputs result history cancelled) (\<lambda>h.
     rbind (classify T geometry c r h result cancelled) (\<lambda>(buckets, aliasedSources).
       let scaffolding = filter (\<lambda>s. s \<in> set (syntheticSurvivors h)) (harvest_sources h);
           dead = filter (\<lambda>s. s \<notin> set (survivors h) \<union> set aliasedSources \<union> set (syntheticSurvivors h)) (harvest_sources h)
       in rbind (MintBuckets operationId buckets cancelled 0 (fold retire scaffolding r)) (\<lambda>r1.
          let r2 = fold retire dead r1 in
          if list_all (\<lambda>kind. list_all (covered r2) (map_shapes T result kind)) kNamedKinds then Inr r2
          else Inl (Runtime_error ''naming registry failed total coverage of the result'')))))"

end
