(* ===== verification/Registry_Laws.thy ===== *)
theory Registry_Laws
  imports Registry_Harvest
begin

text \<open>
  The invariant of the naming registry and its consequences. The invariant ties the three indices
  to the record log: tokens are unique and indexed, the name index lists exactly the records of
  each normalised name, and the live records are exactly those the shape index lists for the
  shape they point at. Every harvest keeps it, records are never forgotten or revived, and the
  flags of a minted record say exactly whether the record has a twin.
\<close>

section \<open>Updating the log\<close>

lemma length_kill_records [simp]: "length (kill_records is recs) = length recs"
  unfolding kill_records_def by (induction "is" arbitrary: recs) auto

lemma nth_kill_records:
  "i < length recs \<Longrightarrow> kill_records is recs ! i = (if i \<in> set is then (recs ! i)\<lparr>rec_live := False\<rparr> else recs ! i)"
proof (induction "is" arbitrary: recs)
  case (Cons a js)
  then show ?case using Cons.IH [of "recs[a := (recs ! a)\<lparr>rec_live := False\<rparr>]"]
    by (cases "a = i") (auto simp: kill_records_def)
qed (simp add: kill_records_def)

lemma length_repoint_records [simp]: "length (repoint_records x is recs) = length recs"
  unfolding repoint_records_def by (induction "is" arbitrary: recs) auto

lemma nth_repoint_records:
  "i < length recs \<Longrightarrow> repoint_records x is recs ! i = (if i \<in> set is then (recs ! i)\<lparr>rec_shape := x\<rparr> else recs ! i)"
proof (induction "is" arbitrary: recs)
  case (Cons a js)
  then show ?case using Cons.IH [of "recs[a := (recs ! a)\<lparr>rec_shape := x\<rparr>]"]
    by (cases "a = i") (auto simp: repoint_records_def)
qed (simp add: repoint_records_def)

section \<open>The invariant\<close>

definition answers :: "'sh NamingRegistry \<Rightarrow> 'sh \<Rightarrow> nat list" where
  "answers r x = (case shapeIndex r x of None \<Rightarrow> [] | Some is \<Rightarrow> is)"

definition tokens_ok :: "'sh NamingRegistry \<Rightarrow> bool" where
  "tokens_ok r \<longleftrightarrow> (\<forall>t i. byToken r t = Some i \<longleftrightarrow> i < length (records r) \<and> rec_token (records r ! i) = t)"

definition name_key :: "'sh NamingRecord \<Rightarrow> char \<times> string" where
  "name_key rec = (rec_kind rec, rec_normalizedLineageName rec)"

definition names_ok :: "'sh NamingRegistry \<Rightarrow> bool" where
  "names_ok r \<longleftrightarrow> (\<forall>k. (case byNormalizedName r k of None \<Rightarrow> [] | Some is \<Rightarrow> is) =
     filter (\<lambda>i. name_key (records r ! i) = k) [0..<length (records r)])"

definition shapes_ok :: "'sh NamingRegistry \<Rightarrow> bool" where
  "shapes_ok r \<longleftrightarrow>
     (\<forall>x. shapeIndex r x \<noteq> Some [] \<and> distinct (answers r x) \<and>
        (\<forall>i \<in> set (answers r x). i < length (records r) \<and> rec_live (records r ! i) \<and> rec_shape (records r ! i) = x)) \<and>
     (\<forall>i < length (records r). rec_live (records r ! i) \<longrightarrow> i \<in> set (answers r (rec_shape (records r ! i))))"

definition registry_ok :: "'sh NamingRegistry \<Rightarrow> bool" where
  "registry_ok r \<longleftrightarrow> tokens_ok r \<and> names_ok r \<and> shapes_ok r"

lemma registry_ok_new: "registry_ok registry_new"
  by (simp add: registry_ok_def tokens_ok_def names_ok_def shapes_ok_def registry_new_def answers_def)

text \<open>
  What no operation ever changes in a record: everything but the shape it answers for and its
  liveness. A log extends another when it keeps the identity of every record and revives none.
\<close>

definition rec_identity where
  "rec_identity rec = (rec_token rec, rec_minter rec, rec_role rec, rec_kind rec, rec_lineageName rec,
     rec_normalizedLineageName rec, rec_ancestors rec, rec_nameCollision rec, rec_orderTie rec)"

definition log_frame :: "'sh NamingRecord list \<Rightarrow> 'sh NamingRecord list \<Rightarrow> bool" where
  "log_frame recs recs' \<longleftrightarrow>
     length recs \<le> length recs' \<and>
     (\<forall>i < length recs. rec_identity (recs' ! i) = rec_identity (recs ! i) \<and> (rec_live (recs' ! i) \<longrightarrow> rec_live (recs ! i)))"

lemma rec_identity_update [simp]:
  "rec_identity (rec\<lparr>rec_live := b\<rparr>) = rec_identity rec" "rec_identity (rec\<lparr>rec_shape := x\<rparr>) = rec_identity rec"
  by (simp_all add: rec_identity_def)

lemma log_frame_refl [simp]: "log_frame recs recs"
  by (simp add: log_frame_def)

lemma log_frame_trans: "log_frame a b \<Longrightarrow> log_frame b c \<Longrightarrow> log_frame a c"
  by (simp add: log_frame_def)

lemma log_frame_append: "log_frame recs recs' \<Longrightarrow> log_frame recs (recs' @ [rec])"
  by (simp add: log_frame_def nth_append)

lemma log_frame_kill: "log_frame recs recs' \<Longrightarrow> log_frame recs (kill_records is recs')"
  by (simp add: log_frame_def nth_kill_records)

lemma log_frame_repoint: "log_frame recs recs' \<Longrightarrow> log_frame recs (repoint_records x is recs')"
  by (simp add: log_frame_def nth_repoint_records)

lemma log_frame_tokens: "log_frame recs recs' \<Longrightarrow> i < length recs \<Longrightarrow> rec_token (recs' ! i) = rec_token (recs ! i)"
  by (simp add: log_frame_def rec_identity_def)

lemma log_frame_name_key: "log_frame recs recs' \<Longrightarrow> i < length recs \<Longrightarrow> name_key (recs' ! i) = name_key (recs ! i)"
  by (simp add: log_frame_def rec_identity_def name_key_def)

text \<open>The token and name indices only depend on the frame.\<close>

lemma tokens_ok_frame:
  "tokens_ok r \<Longrightarrow> byToken r' = byToken r \<Longrightarrow> log_frame (records r) (records r') \<Longrightarrow>
     length (records r') = length (records r) \<Longrightarrow> tokens_ok r'"
  by (auto simp: tokens_ok_def log_frame_tokens)

lemma names_ok_frame:
  assumes "names_ok r" and "byNormalizedName r' = byNormalizedName r" and "log_frame (records r) (records r')"
    and "length (records r') = length (records r)"
  shows "names_ok r'"
proof -
  have "filter (\<lambda>i. name_key (records r' ! i) = k) [0..<length (records r)] =
      filter (\<lambda>i. name_key (records r ! i) = k) [0..<length (records r)]" for k
    by (rule filter_cong) (auto simp: log_frame_name_key [OF assms(3)])
  then show ?thesis using assms(1,2,4) by (simp add: names_ok_def)
qed

section \<open>Retiring\<close>

lemma retire_frame: "log_frame (records r) (records (retire x r)) \<and> length (records (retire x r)) = length (records r) \<and>
    byToken (retire x r) = byToken r \<and> byNormalizedName (retire x r) = byNormalizedName r"
  by (auto simp: retire_def log_frame_kill split: option.splits)

lemma answers_retire: "answers (retire x r) y = (if y = x then [] else answers r y)"
  by (auto simp: answers_def retire_def split: option.splits)

lemma live_retire:
  assumes "i < length (records r)"
  shows "records (retire x r) ! i = (if i \<in> set (answers r x) then (records r ! i)\<lparr>rec_live := False\<rparr> else records r ! i)"
  using assms by (auto simp: retire_def answers_def nth_kill_records split: option.splits)

lemma shapes_ok_retire:
  assumes ok: "shapes_ok r"
  shows "shapes_ok (retire x r)"
proof -
  have len: "length (records (retire x r)) = length (records r)" using retire_frame [of r x] by blast
  have 1: "shapeIndex (retire x r) y \<noteq> Some []" for y
    using ok by (auto simp: shapes_ok_def retire_def split: option.splits)
  have 2: "distinct (answers (retire x r) y)" for y using ok by (simp add: shapes_ok_def answers_retire)
  have 3: "i < length (records r) \<and> rec_live (records (retire x r) ! i) \<and> rec_shape (records (retire x r) ! i) = y"
    if "i \<in> set (answers (retire x r) y)" for i y
  proof -
    have i: "i \<in> set (answers r y)" "y \<noteq> x" using that by (auto simp: answers_retire split: if_splits)
    then have r: "i < length (records r)" "rec_live (records r ! i)" "rec_shape (records r ! i) = y"
      using ok by (auto simp: shapes_ok_def)
    moreover have "i \<notin> set (answers r x)" using r(3) i(2) ok by (auto simp: shapes_ok_def)
    ultimately show ?thesis by (simp add: live_retire)
  qed
  have 4: "i \<in> set (answers (retire x r) (rec_shape (records (retire x r) ! i)))"
    if "i < length (records r)" "rec_live (records (retire x r) ! i)" for i
  proof -
    have i: "i \<notin> set (answers r x)" "records (retire x r) ! i = records r ! i"
      using that by (auto simp: live_retire split: if_splits)
    then have "i \<in> set (answers r (rec_shape (records r ! i)))" using that ok by (simp add: shapes_ok_def)
    with i show ?thesis by (auto simp: answers_retire)
  qed
  show ?thesis using 1 2 3 4 by (simp add: shapes_ok_def len)
qed

lemma registry_ok_retire: "registry_ok r \<Longrightarrow> registry_ok (retire x r)"
  using retire_frame [of r x] tokens_ok_frame [of r "retire x r"] names_ok_frame [of r "retire x r"]
  by (simp add: registry_ok_def shapes_ok_retire)

lemma registry_ok_retire_all: "registry_ok r \<Longrightarrow> registry_ok (fold retire xs r)"
  by (induction xs arbitrary: r) (simp_all add: registry_ok_retire)

lemma retire_all_frame: "log_frame (records r) (records (fold retire xs r)) \<and> length (records (fold retire xs r)) = length (records r)"
proof (induction xs arbitrary: r)
  case (Cons x xs)
  then show ?case using retire_frame [of r x] log_frame_trans by (metis fold_simps(2))
qed simp

lemma answers_retire_all: "answers (fold retire xs r) y = (if y \<in> set xs then [] else answers r y)"
  by (induction xs arbitrary: r) (auto simp: answers_retire)


section \<open>Minting\<close>

lemma answers_answer_shape: "answers (answer_shape x n r) y = (if y = x then answers r x @ [n] else answers r y)"
  by (auto simp: answers_def answer_shape_def)

lemma shapes_ok_answer:
  assumes ok: "shapes_ok r" and rec: "rec_live rec" "rec_shape rec = x"
  shows "shapes_ok (answer_shape x (length (records r)) r\<lparr>records := records r @ [rec]\<rparr>)" (is "shapes_ok ?r")
proof -
  have a: "answers ?r y = (if y = x then answers r x @ [length (records r)] else answers r y)" for y
    using answers_answer_shape [of x "length (records r)" r y] by (simp add: answers_def)
  have 1: "shapeIndex ?r y \<noteq> Some []" for y
    using ok by (auto simp: shapes_ok_def answer_shape_def)
  have in_r: "i < length (records r) \<and> rec_live (records r ! i) \<and> rec_shape (records r ! i) = y"
    if "i \<in> set (answers r y)" for i y using ok that by (auto simp: shapes_ok_def)
  have 2: "distinct (answers ?r y)" for y
    using ok in_r [of "length (records r)" x] by (auto simp: a shapes_ok_def)
  have 3: "i < length (records ?r) \<and> rec_live (records ?r ! i) \<and> rec_shape (records ?r ! i) = y"
    if "i \<in> set (answers ?r y)" for i y
    using that in_r [of i y] rec by (auto simp: a nth_append split: if_splits)
  have 4: "i \<in> set (answers ?r (rec_shape (records ?r ! i)))"
    if "i < length (records ?r)" "rec_live (records ?r ! i)" for i
  proof (cases "i = length (records r)")
    case False
    then have i: "i < length (records r)" "records ?r ! i = records r ! i" using that(1) by (auto simp: nth_append)
    then have "i \<in> set (answers r (rec_shape (records r ! i)))" using ok that(2) by (simp add: shapes_ok_def)
    then show ?thesis using i by (auto simp: a)
  qed (use rec in \<open>simp add: a\<close>)
  show ?thesis using 1 2 3 4 by (simp add: shapes_ok_def)
qed

lemma alias_shapeE:
  assumes "alias_shape src x n r = Inr r'"
  obtains js where "shapeIndex r src = Some js" "x = src \<or> shapeIndex r x = None"
    "r' = r\<lparr>records := kill_records (take (length (js @ [n]) - 8) (js @ [n])) (repoint_records x js (records r)),
            shapeIndex := (shapeIndex r)(src := None, x \<mapsto> drop (length (js @ [n]) - 8) (js @ [n]))\<rparr>"
  using assms by (auto simp: alias_shape_def Let_def split: option.splits if_splits)

lemma drop_cap_nonempty: "drop (length (js @ [n]) - 8) (js @ [n]) \<noteq> []"
  by simp

lemma in_take_or_drop: "i \<in> set xs \<Longrightarrow> distinct xs \<Longrightarrow> (i \<in> set (drop k xs)) = (i \<notin> set (take k xs))"
  by (metis Un_iff append_take_drop_id disjoint_iff distinct_append set_append)

lemma shapes_ok_alias:
  assumes ok: "shapes_ok r" and rec: "rec_live rec" "rec_shape rec = x"
    and al: "alias_shape src x (length (records r)) r = Inr r2"
  shows "shapes_ok (r2\<lparr>records := records r2 @ [rec]\<rparr>)" (is "shapes_ok ?r")
proof -
  let ?n = "length (records r)"
  obtain js where js: "shapeIndex r src = Some js" and free: "x = src \<or> shapeIndex r x = None"
    and r2: "r2 = r\<lparr>records := kill_records (take (length (js @ [?n]) - 8) (js @ [?n])) (repoint_records x js (records r)),
            shapeIndex := (shapeIndex r)(src := None, x \<mapsto> drop (length (js @ [?n]) - 8) (js @ [?n]))\<rparr>"
    using alias_shapeE [OF al] .
  define all where "all = js @ [?n]"
  define k where "k = length all - 8"
  have ajs: "answers r src = js" using js by (simp add: answers_def)
  have in_r: "i < ?n \<and> rec_live (records r ! i) \<and> rec_shape (records r ! i) = y"
    if "i \<in> set (answers r y)" for i y using ok that by (auto simp: shapes_ok_def)
  have js_src: "i \<in> set js \<Longrightarrow> i < ?n \<and> rec_live (records r ! i) \<and> rec_shape (records r ! i) = src" for i
    using in_r [of i src] ajs by simp
  have dall: "distinct all" using ok ajs js_src by (auto simp: shapes_ok_def all_def)
  have len: "length (records ?r) = Suc ?n" by (simp add: r2)
  have a: "answers ?r y = (if y = x then drop k all else if y = src then [] else answers r y)" for y
    by (simp add: r2 answers_def all_def k_def)
  have "?n \<notin> set js" using js_src by blast
  then have nk: "?n \<notin> set (take k all)" by (auto simp: all_def k_def dest: in_set_takeD)
  have rec_i: "records ?r ! i = (if i \<in> set js then (records r ! i)\<lparr>rec_shape := x, rec_live := i \<notin> set (take k all) \<and> rec_live (records r ! i)\<rparr>
      else records r ! i)" if "i < ?n" for i
  proof -
    have "i \<in> set (take k all) \<Longrightarrow> i \<in> set js" using that by (auto simp: all_def dest: in_set_takeD)
    then show ?thesis using that
      by (auto simp: r2 nth_append nth_kill_records nth_repoint_records all_def k_def)
  qed
  have rec_n: "records ?r ! ?n = rec" by (simp add: r2 nth_append)
  have 1: "shapeIndex ?r y \<noteq> Some []" for y
    using ok by (auto simp: shapes_ok_def r2)
  have 2: "distinct (answers ?r y)" for y using ok dall by (auto simp: a shapes_ok_def)
  have 3: "i < Suc ?n \<and> rec_live (records ?r ! i) \<and> rec_shape (records ?r ! i) = y" if "i \<in> set (answers ?r y)" for i y
  proof (cases "y = x")
    case True
    then have i: "i \<in> set (drop k all)" using that by (simp add: a)
    then have "i \<in> set all" "i \<notin> set (take k all)" using in_take_or_drop [OF _ dall] by (auto dest: in_set_dropD)
    then show ?thesis using True js_src [of i] rec rec_n rec_i [of i] by (auto simp: all_def)
  next
    case False
    then have i: "i \<in> set (answers r y)" "y \<noteq> src" using that by (auto simp: a split: if_splits)
    from in_r [OF i(1)] i(2) js_src [of i] have "i \<notin> set js" by auto
    then show ?thesis using in_r [OF i(1)] rec_i [of i] by auto
  qed
  have 4: "i \<in> set (answers ?r (rec_shape (records ?r ! i)))" if "i < Suc ?n" "rec_live (records ?r ! i)" for i
  proof (cases "i < ?n \<and> i \<notin> set js")
    case True
    then have same: "records ?r ! i = records r ! i" using rec_i by simp
    have i: "i \<in> set (answers r (rec_shape (records r ! i)))" using True that ok same by (simp add: shapes_ok_def)
    moreover have "rec_shape (records r ! i) \<noteq> src" using i True ajs by auto
    moreover have "rec_shape (records r ! i) \<noteq> x" using i free calculation(2) by (auto simp: answers_def)
    ultimately show ?thesis unfolding same a by auto
  next
    case False
    then have "i \<in> set all" "rec_shape (records ?r ! i) = x" "i \<notin> set (take k all)"
      using that rec_i [of i] rec_n rec nk by (auto simp: all_def less_Suc_eq split: if_splits)
    then show ?thesis using in_take_or_drop [OF _ dall] by (simp add: a)
  qed
  show ?thesis unfolding shapes_ok_def len using 1 2 3 4 by blast
qed

lemma mint_record_live [simp]: "rec_live (mint_record op sc role plans ord)"
  "rec_shape (mint_record op sc role plans ord) = mint_shape (plans ! ord)"
  by (simp_all add: mint_record_def Let_def)

lemma mint_oneE:
  assumes "mint_one op sc role plans r ord = Inr r'"
  obtains r1 r2 where "index_record (mint_record op sc role plans ord) r = Inr r1"
    "(case mint_aliasSource (plans ! ord) of
        Some src \<Rightarrow> alias_shape src (mint_shape (plans ! ord)) (length (records r)) r1
      | None \<Rightarrow> Inr (answer_shape (mint_shape (plans ! ord)) (length (records r)) r1)) = Inr r2"
    "r' = r2\<lparr>records := records r2 @ [mint_record op sc role plans ord]\<rparr>"
  using assms unfolding mint_one_def Let_def mint_record_live by (auto simp: rbind_eq_Inr)

lemma index_recordE:
  assumes "index_record rec r = Inr r1"
  obtains "byToken r (rec_token rec) = None"
    "r1 = r\<lparr>byToken := (byToken r)(rec_token rec \<mapsto> length (records r)),
       byNormalizedName := (byNormalizedName r)(name_key rec \<mapsto>
         (case byNormalizedName r (name_key rec) of None \<Rightarrow> [] | Some is \<Rightarrow> is) @ [length (records r)])\<rparr>"
  using assms by (auto simp: index_record_def Let_def name_key_def split: if_splits)

lemma mint_step_frame:
  assumes "(case al of Some src \<Rightarrow> alias_shape src x n r1 | None \<Rightarrow> Inr (answer_shape x n r1)) = Inr r2"
  shows "log_frame (records r1) (records r2) \<and> length (records r2) = length (records r1) \<and>
    byToken r2 = byToken r1 \<and> byNormalizedName r2 = byNormalizedName r1 \<and> reg_book r2 = reg_book r1"
  using assms
  by (auto simp: answer_shape_def log_frame_kill log_frame_repoint elim!: alias_shapeE split: option.splits)

lemma mint_one_frame:
  assumes "mint_one op sc role plans r ord = Inr r'"
  shows "log_frame (records r) (records r') \<and> length (records r') = Suc (length (records r)) \<and>
    records r' ! length (records r) = mint_record op sc role plans ord \<and> reg_book r' = reg_book r"
proof -
  obtain r1 r2 where i: "index_record (mint_record op sc role plans ord) r = Inr r1"
    and al: "(case mint_aliasSource (plans ! ord) of
        Some src \<Rightarrow> alias_shape src (mint_shape (plans ! ord)) (length (records r)) r1
      | None \<Rightarrow> Inr (answer_shape (mint_shape (plans ! ord)) (length (records r)) r1)) = Inr r2"
    and r': "r' = r2\<lparr>records := records r2 @ [mint_record op sc role plans ord]\<rparr>"
    by (rule mint_oneE [OF assms])
  have "records r1 = records r" "reg_book r1 = reg_book r" using i by (auto elim: index_recordE)
  then show ?thesis using mint_step_frame [OF al] by (auto simp: r' log_frame_append nth_append)
qed

lemma mint_one_ok:
  assumes ok: "registry_ok r" and run: "mint_one op sc role plans r ord = Inr r'"
  shows "registry_ok r'"
proof -
  let ?rec = "mint_record op sc role plans ord" and ?n = "length (records r)"
  obtain r1 r2 where i: "index_record ?rec r = Inr r1"
    and al: "(case mint_aliasSource (plans ! ord) of
        Some src \<Rightarrow> alias_shape src (mint_shape (plans ! ord)) ?n r1
      | None \<Rightarrow> Inr (answer_shape (mint_shape (plans ! ord)) ?n r1)) = Inr r2"
    and r': "r' = r2\<lparr>records := records r2 @ [?rec]\<rparr>"
    by (rule mint_oneE [OF run])
  from i have fresh: "byToken r (rec_token ?rec) = None"
    and r1: "r1 = r\<lparr>byToken := (byToken r)(rec_token ?rec \<mapsto> ?n), byNormalizedName := (byNormalizedName r)(name_key ?rec \<mapsto>
         (case byNormalizedName r (name_key ?rec) of None \<Rightarrow> [] | Some is \<Rightarrow> is) @ [?n])\<rparr>"
    by (auto elim: index_recordE)
  have fr: "log_frame (records r) (records r2)" "length (records r2) = ?n"
    "byToken r2 = byToken r1" "byNormalizedName r2 = byNormalizedName r1"
    using mint_step_frame [OF al] by (auto simp: r1)
  have new: "rec_token (records r ! i) \<noteq> rec_token ?rec" if "i < ?n" for i
    using that ok fresh by (metis option.distinct(1) registry_ok_def tokens_ok_def)
  have "tokens_ok r'" using ok fr new
    by (auto simp: registry_ok_def tokens_ok_def r' r1 nth_append log_frame_tokens less_Suc_eq)
  moreover have "names_ok r'"
  proof -
    have "filter (\<lambda>i. name_key (records r' ! i) = k) [0..<?n] = filter (\<lambda>i. name_key (records r ! i) = k) [0..<?n]" for k
      by (rule filter_cong) (auto simp: r' nth_append fr(2) log_frame_name_key [OF fr(1)])
    moreover have "records r' ! ?n = ?rec" by (simp add: r' nth_append fr(2))
    ultimately show ?thesis using ok by (auto simp: registry_ok_def names_ok_def r' fr r1)
  qed
  moreover have "shapes_ok r'"
  proof -
    have ok1: "shapes_ok r1" using ok by (simp add: registry_ok_def shapes_ok_def answers_def r1)
    have n: "?n = length (records r1)" by (simp add: r1)
    show ?thesis
    proof (cases "mint_aliasSource (plans ! ord)")
      case None
      then have "r2 = answer_shape (mint_shape (plans ! ord)) (length (records r1)) r1" using al n by simp
      moreover from this have "records r2 = records r1" by (simp add: answer_shape_def)
      ultimately show ?thesis using shapes_ok_answer [OF ok1, of ?rec] by (simp add: r')
    next
      case (Some src)
      then show ?thesis using shapes_ok_alias [OF ok1, of ?rec] al n by (simp add: r')
    qed
  qed
  ultimately show ?thesis by (simp add: registry_ok_def)
qed

lemma mint_bucket_ok: "registry_ok r \<Longrightarrow> mint_bucket op sc c r b = Inr r' \<Longrightarrow> registry_ok r'"
  by (auto simp: mint_bucket_def rbind_eq_Inr split: prod.splits elim!: rfold_invariant intro: mint_one_ok)

lemma MintBuckets_ok: "registry_ok r \<Longrightarrow> MintBuckets op buckets c k r = Inr r' \<Longrightarrow> registry_ok r'"
  by (auto simp: MintBuckets_def Let_def elim!: rfold_invariant intro: mint_bucket_ok)

lemma mint_bucket_frame: "mint_bucket op sc c r b = Inr r' \<Longrightarrow> log_frame (records r) (records r')"
  by (auto simp: mint_bucket_def rbind_eq_Inr split: prod.splits dest: mint_one_frame
      elim!: rfold_rel [where R = "\<lambda>r r'. log_frame (records r) (records r')"] intro: log_frame_trans)

lemma MintBuckets_frame: "MintBuckets op buckets c k r = Inr r' \<Longrightarrow> log_frame (records r) (records r')"
  by (auto simp: MintBuckets_def Let_def dest: mint_bucket_frame
      elim!: rfold_rel [where R = "\<lambda>r r'. log_frame (records r) (records r')"] intro: log_frame_trans)


section \<open>Harvests\<close>

lemma HarvestOperationE:
  assumes "HarvestOperation T geometry op c inputs result history cancelled r = Inr r'"
  obtains h buckets aliased r1 where
    "harvest_plan T r inputs result history cancelled = Inr h"
    "classify T geometry c r h result cancelled = Inr (buckets, aliased)"
    "MintBuckets op buckets cancelled 0 (fold retire (filter (\<lambda>s. s \<in> set (syntheticSurvivors h)) (harvest_sources h)) r) = Inr r1"
    "r' = fold retire (filter (\<lambda>s. s \<notin> set (survivors h) \<union> set aliased \<union> set (syntheticSurvivors h)) (harvest_sources h)) r1"
    "\<forall>kind \<in> set kNamedKinds. \<forall>x \<in> set (map_shapes T result kind). covered r' x"
  using assms unfolding HarvestOperation_def Let_def list_all_iff
  by (auto simp: rbind_eq_Inr split: if_splits)

lemma HarvestOperation_ok:
  "registry_ok r \<Longrightarrow> HarvestOperation T geometry op c inputs result history cancelled r = Inr r' \<Longrightarrow> registry_ok r'"
  by (auto elim!: HarvestOperationE intro!: registry_ok_retire_all intro: MintBuckets_ok)

lemma HarvestOperation_frame:
  assumes "HarvestOperation T geometry op c inputs result history cancelled r = Inr r'"
  shows "log_frame (records r) (records r')"
proof -
  obtain h buckets aliased r1 where
    "harvest_plan T r inputs result history cancelled = Inr h"
    "classify T geometry c r h result cancelled = Inr (buckets, aliased)"
    and m: "MintBuckets op buckets cancelled 0 (fold retire (filter (\<lambda>s. s \<in> set (syntheticSurvivors h)) (harvest_sources h)) r) = Inr r1"
    and r': "r' = fold retire (filter (\<lambda>s. s \<notin> set (survivors h) \<union> set aliased \<union> set (syntheticSurvivors h)) (harvest_sources h)) r1"
    "\<forall>kind \<in> set kNamedKinds. \<forall>x \<in> set (map_shapes T result kind). covered r' x"
    by (rule HarvestOperationE [OF assms])
  show ?thesis unfolding r' using retire_all_frame MintBuckets_frame [OF m] log_frame_trans by metis
qed

lemma registry_ok_book: "registry_ok (r\<lparr>reg_book := b\<rparr>) = registry_ok r"
  by (simp add: registry_ok_def tokens_ok_def names_ok_def shapes_ok_def answers_def)

lemma sketch_edges_frame:
  assumes "rfold (sketch_edge T geometry op role ns cancelled) (r, bs) edges = Inr (r', bs')"
  shows "\<exists>b. r' = r\<lparr>reg_book := b\<rparr>"
proof -
  have "\<exists>b. fst (r', bs') = (fst (r, bs))\<lparr>reg_book := b\<rparr>"
    by (rule rfold_rel [OF assms, of "\<lambda>s s'. \<exists>b. fst s' = (fst s)\<lparr>reg_book := b\<rparr>"])
       (auto simp: sketch_edge_def rbind_eq_Inr split: prod.splits option.splits if_splits,
        metis NamingRegistry.surjective NamingRegistry.update_convs(1))
  then show ?thesis by simp
qed

text \<open>Every way the evaluators change a registry; \<open>Book_changed\<close> is a write through \<open>Book()\<close>.\<close>

datatype 'sh registry_op =
    Book_changed "'sh ElementNameBook"
  | Tool_harvested string 'sh
  | Copy_harvested string 'sh string string string "'sh \<Rightarrow> 'sh option" int
  | Import_harvested string int 'sh
  | Datum_registered string string 'sh "int \<times> int \<times> int"
  | Sketch_registered string string string "(string \<times> 'sh option) list"
  | Operation_harvested string OperationClass "'sh harvest_input list" 'sh "'sh history"

fun registry_step :: "'sh occt \<Rightarrow> 'sh geometry \<Rightarrow> bool \<Rightarrow> 'sh NamingRegistry \<Rightarrow> 'sh registry_op \<Rightarrow> 'sh NamingRegistry result" where
  "registry_step T geometry cancelled r (Book_changed b) = Inr (r\<lparr>reg_book := b\<rparr>)"
| "registry_step T geometry cancelled r (Tool_harvested op tool) = HarvestSyntheticTool T geometry op tool cancelled r"
| "registry_step T geometry cancelled r (Copy_harvested op body f e v src k) =
     HarvestCopiedBody T geometry op body f e v src cancelled k r"
| "registry_step T geometry cancelled r (Import_harvested op k body) = HarvestImportedBody T geometry op k body cancelled r"
| "registry_step T geometry cancelled r (Datum_registered op role backing anchor) =
     RegisterDatumEntity T op role backing anchor cancelled r"
| "registry_step T geometry cancelled r (Sketch_registered op role ns edges) =
     RegisterSketchEdges T geometry op role ns edges cancelled r"
| "registry_step T geometry cancelled r (Operation_harvested op c inputs result history) =
     HarvestOperation T geometry op c inputs result history cancelled r"

lemma registry_step_laws:
  assumes "registry_step T geometry cancelled r a = Inr r'"
  shows "(registry_ok r \<longrightarrow> registry_ok r') \<and> log_frame (records r) (records r')"
proof (cases a)
  case (Datum_registered op role backing anchor)
  obtain x y z where anchor: "anchor = (x, y, z)" by (cases anchor) auto
  from assms obtain b bs where m: "MintBuckets op bs cancelled 0 (r\<lparr>reg_book := b\<rparr>) = Inr r'"
    by (auto simp: Datum_registered anchor RegisterDatumEntity_def rbind_eq_Inr split: if_splits)
  show ?thesis using MintBuckets_ok [OF _ m] MintBuckets_frame [OF m] by (simp add: registry_ok_book)
next
  case (Sketch_registered op role ns edges)
  then obtain r1 bs where r1: "rfold (sketch_edge T geometry op role ns cancelled) (r, []) edges = Inr (r1, bs)"
    and m: "MintBuckets op bs cancelled 0 r1 = Inr r'"
    using assms by (auto simp: RegisterSketchEdges_def rbind_eq_Inr split: if_splits)
  from sketch_edges_frame [OF r1] have "registry_ok r1 = registry_ok r" "records r1 = records r"
    by (auto simp: registry_ok_book)
  then show ?thesis using MintBuckets_ok [OF _ m] MintBuckets_frame [OF m] by simp
next
  case (Operation_harvested op c inputs result history)
  then show ?thesis using assms by (auto intro: HarvestOperation_ok HarvestOperation_frame)
qed (use assms in \<open>auto simp: HarvestSyntheticTool_def HarvestCopiedBody_def HarvestImportedBody_def
      rbind_eq_Inr registry_ok_book intro: MintBuckets_ok MintBuckets_frame\<close>)

lemma registry_run_ok:
  "registry_ok r \<Longrightarrow> rfold (registry_step T geometry cancelled) r ops = Inr r' \<Longrightarrow> registry_ok r'"
  by (erule rfold_invariant) (auto dest: registry_step_laws)

lemma registry_run_frame:
  "rfold (registry_step T geometry cancelled) r ops = Inr r' \<Longrightarrow> log_frame (records r) (records r')"
  by (erule rfold_rel [where R = "\<lambda>r r'. log_frame (records r) (records r')"])
     (auto dest: registry_step_laws intro: log_frame_trans)

end
