(* ===== verification/Registry_Cover.thy ===== *)
theory Registry_Cover
  imports Registry_Laws
begin

text \<open>
  What a harvest does to the entities of its result: survivors keep the records that answer for
  them, every other entity is minted a record, no later step of the harvest takes one away, so
  the final coverage check is a defence that cannot fire; and the collision flags of a minted
  bucket are exact.
\<close>

section \<open>Answers under minting\<close>

definition kept :: "'sh \<Rightarrow> 'sh NamingRegistry \<Rightarrow> 'sh NamingRegistry \<Rightarrow> bool" where
  "kept y r r' \<longleftrightarrow> answers r' y = answers r y \<and> (\<forall>i \<in> set (answers r y). records r' ! i = records r ! i)"

lemma kept_refl: "kept y r r"
  by (simp add: kept_def)

lemma kept_trans: "kept y r s \<Longrightarrow> kept y s t \<Longrightarrow> kept y r t"
  by (simp add: kept_def)

lemma in_answers: "registry_ok r \<Longrightarrow> i \<in> set (answers r y) \<Longrightarrow>
    i < length (records r) \<and> rec_live (records r ! i) \<and> rec_shape (records r ! i) = y"
  by (auto simp: registry_ok_def shapes_ok_def)

lemma TokensOf_answers: "registry_ok r \<Longrightarrow> TokensOf r y = map (\<lambda>i. rec_token (records r ! i)) (answers r y)"
  using in_answers [of r _ y] unfolding TokensOf_def answers_def
  by (auto split: option.splits simp: filter_map comp_def intro!: arg_cong [where f = "map _"] filter_True)

lemma kept_TokensOf:
  "registry_ok r \<Longrightarrow> registry_ok r' \<Longrightarrow> kept y r r' \<Longrightarrow> TokensOf r' y = TokensOf r y"
  by (simp add: TokensOf_answers kept_def)

lemma covered_iff: "registry_ok r \<Longrightarrow> covered r y = (answers r y \<noteq> [])"
proof (cases "shapeIndex r y")
  case (Some js)
  assume "registry_ok r"
  from in_answers [OF this, of _ y] have "\<forall>i \<in> set js. rec_live (records r ! i)" by (simp add: answers_def Some)
  then show ?thesis by (cases js) (simp_all add: covered_def answers_def Some)
qed (simp add: covered_def answers_def)

lemma kept_retire: "registry_ok r \<Longrightarrow> y \<noteq> x \<Longrightarrow> kept y r (retire x r)"
  using in_answers [of r _ y] in_answers [of r _ x] by (fastforce simp: kept_def answers_retire live_retire)

lemma kept_retire_all: "registry_ok r \<Longrightarrow> y \<notin> set xs \<Longrightarrow> kept y r (fold retire xs r)"
  by (induction xs arbitrary: r) (auto simp: kept_refl intro: kept_trans kept_retire registry_ok_retire)

lemma mint_one_kept:
  assumes ok: "registry_ok r" and run: "mint_one op sc role plans r ord = Inr r'"
    and y: "y \<noteq> mint_shape (plans ! ord)" "mint_aliasSource (plans ! ord) \<noteq> Some y"
  shows "kept y r r'"
proof -
  let ?rec = "mint_record op sc role plans ord" and ?n = "length (records r)" and ?x = "mint_shape (plans ! ord)"
  obtain r1 r2 where i: "index_record ?rec r = Inr r1"
    and al: "(case mint_aliasSource (plans ! ord) of Some src \<Rightarrow> alias_shape src ?x ?n r1
      | None \<Rightarrow> Inr (answer_shape ?x ?n r1)) = Inr r2"
    and r': "r' = r2\<lparr>records := records r2 @ [?rec]\<rparr>"
    by (rule mint_oneE [OF run])
  have r1: "records r1 = records r" "shapeIndex r1 = shapeIndex r" using i by (auto elim: index_recordE)
  have len: "length (records r2) = ?n" using mint_step_frame [OF al] by (simp add: r1)
  show ?thesis
  proof (cases "mint_aliasSource (plans ! ord)")
    case None
    then have "r2 = answer_shape ?x ?n r1" using al by simp
    then show ?thesis using y(1) in_answers [OF ok, of _ y] r1
      by (auto simp: r' kept_def answers_def answer_shape_def nth_append)
  next
    case (Some src)
    then obtain js where js: "shapeIndex r1 src = Some js"
      and r2: "r2 = r1\<lparr>records := kill_records (take (length (js @ [?n]) - 8) (js @ [?n])) (repoint_records ?x js (records r1)),
            shapeIndex := (shapeIndex r1)(src := None, ?x \<mapsto> drop (length (js @ [?n]) - 8) (js @ [?n]))\<rparr>"
      using al by (auto elim: alias_shapeE)
    have "y \<noteq> src" using y(2) Some by simp
    have "i \<notin> set js" if "i \<in> set (answers r y)" for i
      using in_answers [OF ok that] in_answers [OF ok, of i src] js r1 \<open>y \<noteq> src\<close> by (auto simp: answers_def)
    then have "kept y r r2" using in_answers [OF ok, of _ y] y(1) \<open>y \<noteq> src\<close>
      by (auto simp: kept_def r2 answers_def r1 nth_kill_records nth_repoint_records dest: in_set_takeD)
    then show ?thesis using in_answers [OF ok, of _ y] len
      by (auto simp: kept_def r' answers_def nth_append)
  qed
qed

text \<open>A minted shape answers, and a shape that is no alias source goes on answering.\<close>

lemma mint_one_answers:
  assumes run: "mint_one op sc role plans r ord = Inr r'" and "registry_ok r"
    and "y = mint_shape (plans ! ord) \<or> answers r y \<noteq> [] \<and> mint_aliasSource (plans ! ord) \<noteq> Some y"
  shows "answers r' y \<noteq> []"
proof (cases "y = mint_shape (plans ! ord)")
  case True
  obtain r1 r2 where "(case mint_aliasSource (plans ! ord) of Some src \<Rightarrow> alias_shape src y (length (records r)) r1
      | None \<Rightarrow> Inr (answer_shape y (length (records r)) r1)) = Inr r2"
    and r': "r' = r2\<lparr>records := records r2 @ [mint_record op sc role plans ord]\<rparr>"
    unfolding True by (rule mint_oneE [OF run])
  then have "answers r2 y \<noteq> []"
    by (auto simp: answers_def answer_shape_def elim!: alias_shapeE split: option.splits)
  then show ?thesis by (simp add: r' answers_def)
next
  case False
  then show ?thesis using mint_one_kept [OF assms(2) run False] assms(3) by (simp add: kept_def)
qed

definition plans_of :: "(string \<times> 'sh MintPlan list) list \<Rightarrow> 'sh MintPlan list" where
  "plans_of buckets = concat (map snd buckets)"

lemma set_plans_of_push: "set (plans_of (multi_push k v m)) = insert v (set (plans_of m))"
  by (induction k v m rule: multi_push.induct) (auto simp: plans_of_def)

lemma mint_bucketE:
  assumes "mint_bucket op sc c r (role, plans) = Inr r'"
  obtains "rfold (mint_one op sc role (sort_key mint_key plans)) r [0..<length plans] = Inr r'"
  using assms by (auto simp: mint_bucket_def rbind_eq_Inr)

lemma sorted_plan: "i < length plans \<Longrightarrow> sort_key f plans ! i \<in> set plans"
  by (metis length_sort nth_mem set_sort)

lemma mint_bucket_kept:
  assumes "registry_ok r" and "mint_bucket op sc c r (role, plans) = Inr r'"
    and "\<forall>p \<in> set plans. y \<noteq> mint_shape p \<and> mint_aliasSource p \<noteq> Some y"
  shows "kept y r r'"
proof -
  from assms(2) have run: "rfold (mint_one op sc role (sort_key mint_key plans)) r [0..<length plans] = Inr r'"
    by (rule mint_bucketE)
  have "registry_ok r' \<and> kept y r r'"
  proof (rule rfold_invariant [OF run])
    fix s i s' assume s: "registry_ok s \<and> kept y r s" and i: "i \<in> set [0..<length plans]"
      and step: "mint_one op sc role (sort_key mint_key plans) s i = Inr s'"
    have "sort_key mint_key plans ! i \<in> set plans" using i by (intro sorted_plan) simp
    then have "kept y s s'" using assms(3) s step by (intro mint_one_kept) auto
    with s step show "registry_ok s' \<and> kept y r s'" by (blast intro: mint_one_ok kept_trans)
  qed (use assms(1) in \<open>simp add: kept_refl\<close>)
  then show ?thesis by simp
qed

lemma MintBuckets_kept:
  assumes "registry_ok r" and "MintBuckets op buckets c k r = Inr r'"
    and "\<forall>p \<in> set (plans_of buckets). y \<noteq> mint_shape p \<and> mint_aliasSource p \<noteq> Some y"
  shows "kept y r r'"
proof -
  let ?sc = "if k = 0 then op else op @ '':'' @ to_string_int k"
  have run: "rfold (mint_bucket op ?sc c) r buckets = Inr r'" using assms(2) by (simp add: MintBuckets_def)
  have "registry_ok r' \<and> kept y r r'"
  proof (rule rfold_invariant [OF run])
    fix s b s' assume s: "registry_ok s \<and> kept y r s" and b: "b \<in> set buckets" and step: "mint_bucket op ?sc c s b = Inr s'"
    obtain role plans where b': "b = (role, plans)" by force
    have "\<forall>p \<in> set plans. y \<noteq> mint_shape p \<and> mint_aliasSource p \<noteq> Some y"
      using assms(3) b by (force simp: plans_of_def b')
    with s step show "registry_ok s' \<and> kept y r s'"
      by (auto simp: b' intro: mint_bucket_ok kept_trans mint_bucket_kept)
  qed (use assms(1) in \<open>simp add: kept_refl\<close>)
  then show ?thesis by simp
qed

lemma mint_bucket_answers:
  assumes "registry_ok r" and "mint_bucket op sc c r (role, plans) = Inr r'"
    and "\<forall>p \<in> set plans. mint_aliasSource p \<noteq> Some y" and "answers r y \<noteq> [] \<or> y \<in> mint_shape ` set plans"
  shows "answers r' y \<noteq> []"
proof -
  let ?ps = "sort_key mint_key plans"
  from assms(2) have run: "rfold (mint_one op sc role ?ps) r [0..<length plans] = Inr r'"
    by (rule mint_bucketE)
  have est: "answers r y \<noteq> [] \<or> (\<exists>i \<in> set [0..<length plans]. mint_shape (?ps ! i) = y)"
  proof -
    have "\<exists>i < length plans. mint_shape (?ps ! i) = y" if "y \<in> mint_shape ` set plans"
    proof -
      from that obtain p where "p \<in> set ?ps" "y = mint_shape p" by auto
      then show ?thesis unfolding in_set_conv_nth by auto
    qed
    then show ?thesis using assms(4) unfolding atLeast_upt [symmetric] by (metis lessThan_iff)
  qed
  show ?thesis
  proof (rule rfold_eventually [OF run, of registry_ok "\<lambda>s. answers s y \<noteq> []" "\<lambda>i. mint_shape (?ps ! i) = y"])
    fix s i s' assume s: "registry_ok s" and i: "i \<in> set [0..<length plans]"
      and step: "mint_one op sc role ?ps s i = Inr s'" and "answers s y \<noteq> [] \<or> mint_shape (?ps ! i) = y"
    moreover have "?ps ! i \<in> set plans" using i by (intro sorted_plan) simp
    ultimately show "answers s' y \<noteq> []" using assms(3) by (intro mint_one_answers [OF step s]) auto
  qed (use assms(1) est mint_one_ok in auto)
qed

lemma MintBuckets_answers:
  assumes "registry_ok r" and "MintBuckets op buckets c k r = Inr r'"
    and "\<forall>p \<in> set (plans_of buckets). mint_aliasSource p \<noteq> Some y"
    and "answers r y \<noteq> [] \<or> y \<in> mint_shape ` set (plans_of buckets)"
  shows "answers r' y \<noteq> []"
proof -
  let ?sc = "if k = 0 then op else op @ '':'' @ to_string_int k"
  have run: "rfold (mint_bucket op ?sc c) r buckets = Inr r'" using assms(2) by (simp add: MintBuckets_def)
  have est: "answers r y \<noteq> [] \<or> (\<exists>b \<in> set buckets. y \<in> mint_shape ` set (snd b))"
    using assms(4) by (auto simp: plans_of_def)
  show ?thesis
  proof (rule rfold_eventually [OF run, of registry_ok "\<lambda>s. answers s y \<noteq> []" "\<lambda>b. y \<in> mint_shape ` set (snd b)"])
    fix s b s' assume s: "registry_ok s" and b: "b \<in> set buckets"
      and step: "mint_bucket op ?sc c s b = Inr s'" and "answers s y \<noteq> [] \<or> y \<in> mint_shape ` set (snd b)"
    moreover obtain role plans where "b = (role, plans)" by force
    moreover from this b have "\<forall>p \<in> set plans. mint_aliasSource p \<noteq> Some y"
      using assms(3) by (force simp: plans_of_def)
    ultimately show "answers s' y \<noteq> []" using mint_bucket_answers [OF s, of op ?sc c role plans s' y] by simp
  qed (use assms(1) est mint_bucket_ok in auto)
qed

section \<open>The plan of a harvest\<close>

definition parents_ok :: "nat set \<Rightarrow> ('sh \<Rightarrow> nat list option) \<Rightarrow> bool" where
  "parents_ok ords m \<longleftrightarrow> (\<forall>ps \<in> ran m. ps \<noteq> [] \<and> set ps \<subseteq> ords)"

lemma addParent_ok: "parents_ok ords m \<Longrightarrow> ordinal \<in> ords \<Longrightarrow> parents_ok ords (addParent img ordinal m)"
  by (fastforce simp: parents_ok_def addParent_def Let_def ran_def split: option.splits)

text \<open>The history passes touch the maps and the counts only.\<close>

definition same_sources :: "'sh harvest \<Rightarrow> 'sh harvest \<Rightarrow> bool" where
  "same_sources h h' \<longleftrightarrow>
     harvest_sources h' = harvest_sources h \<and> sourceIsSynthetic h' = sourceIsSynthetic h \<and>
     survivors h' = survivors h \<and> syntheticSurvivors h' = syntheticSurvivors h"

lemma add_modified_frame:
  "add_modified T result ordinal h img = Inr h' \<Longrightarrow> same_sources h h' \<and>
     (ordinal \<in> ords \<longrightarrow> parents_ok ords (harvest_reverseModified h) \<longrightarrow> parents_ok ords (harvest_reverseModified h'))"
  by (auto simp: add_modified_def Let_def same_sources_def addParent_ok split: if_splits)

lemma add_generated_frame:
  "add_generated T result ordinal h img = Inr h' \<Longrightarrow> same_sources h h' \<and>
     harvest_reverseModified h' = harvest_reverseModified h"
  by (auto simp: add_generated_def same_sources_def split: if_splits)

lemma reverse_history_ok:
  assumes "reverse_history T result history cancelled h = Inr h'" and "harvest_reverseModified h = (\<lambda>_. None)"
  shows "same_sources h h' \<and> parents_ok (set (ordinals h)) (harvest_reverseModified h')"
proof -
  let ?P = "\<lambda>g. same_sources h g \<and> parents_ok (set (ordinals h)) (harvest_reverseModified g)"
  let ?h0 = "h\<lparr>modifiedImageCount := replicate (length (harvest_sources h) + 1) 0\<rparr>"
  have run: "rfold (\<lambda>h ordinal. rbind (CheckCancellation cancelled) (\<lambda>_.
       rbind (rfold (add_modified T result ordinal) h (history_modified history (harvest_source h ordinal))) (\<lambda>h1.
         rfold (add_generated T result ordinal) h1 (history_generated history (harvest_source h ordinal))))) ?h0 (ordinals h) = Inr h'"
    using assms(1) by (simp add: reverse_history_def)
  show ?thesis
  proof (rule rfold_invariant [OF run, of ?P])
    show "?P ?h0" using assms(2) by (simp add: same_sources_def parents_ok_def)
  next
    fix g ordinal g'
    assume g: "?P g" and o: "ordinal \<in> set (ordinals h)"
      and "rbind (CheckCancellation cancelled) (\<lambda>_.
       rbind (rfold (add_modified T result ordinal) g (history_modified history (harvest_source g ordinal))) (\<lambda>h1.
         rfold (add_generated T result ordinal) h1 (history_generated history (harvest_source g ordinal)))) = Inr g'"
    then obtain g1 where m: "rfold (add_modified T result ordinal) g (history_modified history (harvest_source g ordinal)) = Inr g1"
      and gen: "rfold (add_generated T result ordinal) g1 (history_generated history (harvest_source g ordinal)) = Inr g'"
      by (auto simp: rbind_eq_Inr)
    have "?P g1" by (rule rfold_invariant [OF m, of ?P])
        (use g o in \<open>auto simp: same_sources_def dest: add_modified_frame [where ords = "set (ordinals h)"]\<close>)
    then show "?P g'" by - (rule rfold_invariant [OF gen, of ?P],
        auto simp: same_sources_def dest: add_generated_frame)
  qed
qed

text \<open>
  After the survivor pass, every source that is in the result is a survivor of one of the two
  kinds and has no modified image.
\<close>

definition survivors_ok :: "'sh occt \<Rightarrow> 'sh \<Rightarrow> 'sh harvest \<Rightarrow> nat set \<Rightarrow> bool" where
  "survivors_ok T result h ords \<longleftrightarrow>
     (\<forall>y \<in> set (survivors h). inResult T result y \<and> (\<exists>p \<in> ords. y = harvest_source h p \<and> \<not> isSyntheticOrdinal h p)) \<and>
     (\<forall>y \<in> set (syntheticSurvivors h). inResult T result y \<and> (\<exists>p \<in> ords. y = harvest_source h p \<and> isSyntheticOrdinal h p)) \<and>
     (\<forall>p \<in> ords. inResult T result (harvest_source h p) \<longrightarrow> modifiedImageCount h ! p = 0 \<and>
        harvest_source h p \<in> (if isSyntheticOrdinal h p then set (syntheticSurvivors h) else set (survivors h)))"

lemma add_survivor_frame:
  "add_survivor T result h p = Inr h' \<Longrightarrow>
     harvest_sources h' = harvest_sources h \<and> sourceIsSynthetic h' = sourceIsSynthetic h \<and>
     harvest_reverseModified h' = harvest_reverseModified h \<and> modifiedImageCount h' = modifiedImageCount h"
  by (auto simp: add_survivor_def Let_def split: if_splits)

lemma add_survivor_ok:
  "add_survivor T result h p = Inr h' \<Longrightarrow> survivors_ok T result h ords \<Longrightarrow> survivors_ok T result h' (insert p ords)"
proof -
  assume step: "add_survivor T result h p = Inr h'" and ok: "survivors_ok T result h ords"
  have same: "harvest_source h' = harvest_source h" "isSyntheticOrdinal h' = isSyntheticOrdinal h"
      "modifiedImageCount h' = modifiedImageCount h"
    using add_survivor_frame [OF step] by (auto simp: harvest_source_def isSyntheticOrdinal_def fun_eq_iff)
  let ?x = "harvest_source h p"
  consider (out) "\<not> inResult T result ?x" "h' = h"
    | (synth) "inResult T result ?x" "modifiedImageCount h ! p = 0" "isSyntheticOrdinal h p"
        "syntheticSurvivors h' = syntheticSurvivors h @ [?x]" "survivors h' = survivors h"
    | (real) "inResult T result ?x" "modifiedImageCount h ! p = 0" "\<not> isSyntheticOrdinal h p"
        "survivors h' = survivors h @ [?x]" "syntheticSurvivors h' = syntheticSurvivors h"
    using step by (auto simp: add_survivor_def Let_def split: if_splits)
  then show ?thesis
  proof cases
    case out
    then show ?thesis using ok by (simp add: survivors_ok_def)
  next
    case synth
    then show ?thesis using ok by (simp add: survivors_ok_def same) metis
  next
    case real
    then show ?thesis using ok by (simp add: survivors_ok_def same) metis
  qed
qed

lemma find_survivors_ok:
  assumes "find_survivors T result h = Inr h'" and "survivors h = []" and "syntheticSurvivors h = []"
  shows "survivors_ok T result h' (set (ordinals h)) \<and> harvest_sources h' = harvest_sources h \<and>
     sourceIsSynthetic h' = sourceIsSynthetic h \<and> harvest_reverseModified h' = harvest_reverseModified h"
proof -
  have "rfold (add_survivor T result) h ords = Inr g \<Longrightarrow> survivors_ok T result g (set ords) \<and>
     harvest_sources g = harvest_sources h \<and> sourceIsSynthetic g = sourceIsSynthetic h \<and>
     harvest_reverseModified g = harvest_reverseModified h" for ords g
  proof (induction ords arbitrary: g rule: rev_induct)
    case Nil
    then show ?case using assms(2,3) by (auto simp: survivors_ok_def)
  next
    case (snoc p ords)
    then show ?case by (auto simp: rfold_snoc rbind_eq_Inr dest: add_survivor_frame add_survivor_ok)
  qed
  then show ?thesis using assms(1) by (simp add: find_survivors_def)
qed


text \<open>The sources: every sub-shape of every input, each with its operand flag.\<close>

lemma add_source_frame:
  "add_source r input h x = Inr h' \<Longrightarrow>
     survivors h' = survivors h \<and> syntheticSurvivors h' = syntheticSurvivors h \<and>
     harvest_reverseModified h' = harvest_reverseModified h \<and>
     x \<in> set (harvest_sources h') \<and> set (harvest_sources h) \<subseteq> set (harvest_sources h') \<and>
     (length (sourceIsSynthetic h) = length (harvest_sources h) \<longrightarrow> length (sourceIsSynthetic h') = length (harvest_sources h')) \<and>
     (\<not> input_synthetic input \<longrightarrow> True \<notin> set (sourceIsSynthetic h) \<longrightarrow> True \<notin> set (sourceIsSynthetic h')) \<and>
     (distinct (harvest_sources h) \<longrightarrow> distinct (harvest_sources h')) \<and>
     ((\<forall>y \<in> set (harvest_sources h). answers r y \<noteq> []) \<longrightarrow> (\<forall>y \<in> set (harvest_sources h'). answers r y \<noteq> []))"
  by (auto simp: add_source_def answers_def split: if_splits option.splits)

definition source_frame :: "'sh NamingRegistry \<Rightarrow> bool \<Rightarrow> 'sh harvest \<Rightarrow> bool" where
  "source_frame r pure h \<longleftrightarrow>
     survivors h = [] \<and> syntheticSurvivors h = [] \<and> harvest_reverseModified h = (\<lambda>_. None) \<and>
     length (sourceIsSynthetic h) = length (harvest_sources h) \<and> (pure \<longrightarrow> True \<notin> set (sourceIsSynthetic h)) \<and>
     distinct (harvest_sources h) \<and> (\<forall>y \<in> set (harvest_sources h). answers r y \<noteq> [])"

lemma source_frame_step:
  "add_source r input h x = Inr h' \<Longrightarrow> source_frame r pure h \<Longrightarrow> pure \<longrightarrow> \<not> input_synthetic input \<Longrightarrow> source_frame r pure h'"
  using add_source_frame [of r input h x h'] by (auto simp: source_frame_def)

lemma add_sources_ok:
  assumes "add_sources T r inputs cancelled harvest_new = Inr h"
    and "pure \<longrightarrow> (\<forall>input \<in> set inputs. \<not> input_synthetic input)"
  shows "source_frame r pure h"
proof -
  have run: "rfold (\<lambda>h input. rfold (\<lambda>h kind. rbind (CheckCancellation cancelled) (\<lambda>_.
       rfold (add_source r input) h (map_shapes T (input_shape input) kind))) h kNamedKinds) harvest_new inputs = Inr h"
    using assms(1) by (simp add: add_sources_def)
  show ?thesis
  proof (rule rfold_invariant [OF run])
    show "source_frame r pure harvest_new" by (simp add: source_frame_def harvest_new_def)
  next
    fix g input g' assume g: "source_frame r pure g" and i: "input \<in> set inputs"
      and outer: "rfold (\<lambda>h kind. rbind (CheckCancellation cancelled) (\<lambda>_.
       rfold (add_source r input) h (map_shapes T (input_shape input) kind))) g kNamedKinds = Inr g'"
    have step: "source_frame r pure u'" if "source_frame r pure u" "add_source r input u x = Inr u'" for u x u'
      using source_frame_step [OF that(2,1)] assms(2) i by blast
    show "source_frame r pure g'"
    proof (rule rfold_invariant [OF outer, where P = "source_frame r pure", OF g])
      fix u kind u' assume u: "source_frame r pure u"
        and "rbind (CheckCancellation cancelled) (\<lambda>_. rfold (add_source r input) u (map_shapes T (input_shape input) kind)) = Inr u'"
      then have inner: "rfold (add_source r input) u (map_shapes T (input_shape input) kind) = Inr u'"
        by (auto simp: rbind_eq_Inr)
      show "source_frame r pure u'" by (rule rfold_invariant [OF inner, where P = "source_frame r pure", OF u]) (rule step)
    qed
  qed
qed

lemma add_sources_all:
  assumes run: "add_sources T r inputs cancelled h0 = Inr h" and i: "input \<in> set inputs"
    and k: "kind \<in> set kNamedKinds" and x: "x \<in> set (map_shapes T (input_shape input) kind)"
  shows "x \<in> set (harvest_sources h)"
proof -
  let ?Q = "\<lambda>h. x \<in> set (harvest_sources h)"
  show ?thesis
  proof (rule rfold_eventually [OF run [unfolded add_sources_def], of "\<lambda>_. True" ?Q "\<lambda>i. i = input"])
    fix h i' h' assume 1: "rfold (\<lambda>h kind. rbind (CheckCancellation cancelled) (\<lambda>_.
       rfold (add_source r i') h (map_shapes T (input_shape i') kind))) h kNamedKinds = Inr h'" and 2: "?Q h \<or> i' = input"
    show "?Q h'"
    proof (rule rfold_eventually [OF 1, of "\<lambda>_. True" ?Q "\<lambda>k'. i' = input \<and> k' = kind"])
      fix h k' h' assume 3: "rbind (CheckCancellation cancelled) (\<lambda>_.
         rfold (add_source r i') h (map_shapes T (input_shape i') k')) = Inr h'" and 4: "?Q h \<or> i' = input \<and> k' = kind"
      then have 5: "rfold (add_source r i') h (map_shapes T (input_shape i') k') = Inr h'" by (auto simp: rbind_eq_Inr)
      show "?Q h'" by (rule rfold_eventually [OF 5, of "\<lambda>_. True" ?Q "\<lambda>y. y = x"])
          (use 4 x in \<open>auto dest: add_source_frame\<close>)
    qed (use 2 k in auto)
  qed (use i in auto)
qed

text \<open>What the phases before the classification establish.\<close>

lemma harvest_planE:
  assumes "harvest_plan T r inputs result history cancelled = Inr h"
    and "pure \<longrightarrow> (\<forall>input \<in> set inputs. \<not> input_synthetic input)"
  shows "survivors_ok T result h (set (ordinals h)) \<and> parents_ok (set (ordinals h)) (harvest_reverseModified h) \<and>
    length (sourceIsSynthetic h) = length (harvest_sources h) \<and> (pure \<longrightarrow> True \<notin> set (sourceIsSynthetic h)) \<and>
    distinct (harvest_sources h) \<and> (\<forall>y \<in> set (harvest_sources h). answers r y \<noteq> []) \<and>
    (\<forall>input \<in> set inputs. \<forall>kind \<in> set kNamedKinds. set (map_shapes T (input_shape input) kind) \<subseteq> set (harvest_sources h))"
proof -
  obtain h1 h2 where h1: "add_sources T r inputs cancelled harvest_new = Inr h1"
    and h2: "reverse_history T result history cancelled h1 = Inr h2" and h: "find_survivors T result h2 = Inr h"
    using assms(1) by (auto simp: harvest_plan_def rbind_eq_Inr)
  have f1: "source_frame r pure h1" by (rule add_sources_ok [OF h1 assms(2)])
  then have f2: "same_sources h1 h2 \<and> parents_ok (set (ordinals h1)) (harvest_reverseModified h2)"
    using reverse_history_ok [OF h2] by (simp add: source_frame_def)
  then have "survivors h2 = []" "syntheticSurvivors h2 = []" using f1 by (simp_all add: same_sources_def source_frame_def)
  from find_survivors_ok [OF h this] f1 f2 show ?thesis
    using add_sources_all [OF h1] by (auto simp: same_sources_def source_frame_def ordinals_def)
qed


section \<open>The classified plans\<close>

definition alias_ok :: "'sh harvest \<Rightarrow> 'sh MintPlan \<Rightarrow> bool" where
  "alias_ok h plan \<longleftrightarrow>
     (\<forall>s. mint_aliasSource plan = Some s \<longrightarrow>
        (\<exists>p \<in> set (ordinals h). s = harvest_source h p \<and> modifiedImageCount h ! p = 1))"

lemma modified_winner_in: "ps \<noteq> [] \<Longrightarrow> modified_winner h ps \<in> set ps"
proof -
  let ?s = "sort_key (\<lambda>p. (is_tool h p, isSyntheticOrdinal h p, p)) ps"
  assume "ps \<noteq> []"
  then have "length ?s \<noteq> 0" by simp
  then have "?s \<noteq> []" unfolding length_0_conv .
  then have "hd ?s \<in> set ?s" by (rule hd_in_set)
  then show ?thesis by (simp add: modified_winner_def)
qed

lemma entity_role_alias:
  assumes "entity_role c h entity kind lineage = Inr (role, Some p)" and "parents_ok ords (harvest_reverseModified h)"
  shows "p \<in> ords \<and> modifiedImageCount h ! p = 1"
proof (cases "harvest_reverseModified h entity")
  case None
  then show ?thesis using assms(1) by (auto simp: entity_role_def rbind_eq_Inr split: option.splits)
next
  case (Some ps)
  then have "ps \<noteq> []" "set ps \<subseteq> ords" using assms(2) by (auto simp: parents_ok_def ran_def)
  then show ?thesis using assms(1) Some modified_winner_in [of ps h]
    by (auto simp: entity_role_def modified_role_def Let_def rbind_eq_Inr split: if_splits)
qed

lemma mint_plan_shape: "mint_plan T geometry r entity as = Inr plan \<Longrightarrow> mint_shape plan = entity \<and> mint_aliasSource plan = None"
  by (auto simp: mint_plan_def rbind_eq_Inr)

lemma classify_entity_plan:
  assumes "classify_entity T geometry c r h entity = Inr (role, plan)"
    and "parents_ok (set (ordinals h)) (harvest_reverseModified h)"
  shows "mint_shape plan = entity \<and> alias_ok h plan"
proof -
  obtain plan0 continues ancestors key where plan0: "mint_plan T geometry r entity [] = Inr plan0"
    and role: "entity_role c h entity (mint_kind plan0) (mint_lineageName plan0) = Inr (role, continues)"
    and plan: "plan = plan0\<lparr>mint_aliasSource := map_option (harvest_source h) continues,
                       mint_ancestors := ancestors, mint_geometry := key\<rparr>"
    using assms(1) by (auto simp: classify_entity_def rbind_eq_Inr)
  have "p \<in> set (ordinals h) \<and> modifiedImageCount h ! p = 1" if "continues = Some p" for p
    using entity_role_alias [OF role [unfolded that] assms(2)] .
  then show ?thesis using mint_plan_shape [OF plan0] by (auto simp: plan alias_ok_def)
qed

definition plans_ok :: "'sh harvest \<Rightarrow> 'sh set \<Rightarrow> (string \<times> 'sh MintPlan list) list \<Rightarrow> bool" where
  "plans_ok h entities buckets \<longleftrightarrow>
     (\<forall>p \<in> set (plans_of buckets). mint_shape p \<in> entities \<and> mint_shape p \<notin> set (survivors h) \<and> alias_ok h p)"

definition result_entities :: "'sh occt \<Rightarrow> 'sh \<Rightarrow> 'sh set" where
  "result_entities T result = {x. \<exists>kind \<in> set kNamedKinds. x \<in> set (map_shapes T result kind)}"

lemma classify_step_ok:
  assumes "classify_step T geometry c r h cancelled s entity = Inr s'" and "plans_ok h es (fst s)"
    and "entity \<in> es" and "parents_ok (set (ordinals h)) (harvest_reverseModified h)"
  shows "plans_ok h es (fst s') \<and> set (plans_of (fst s)) \<subseteq> set (plans_of (fst s')) \<and>
    (entity \<in> set (survivors h) \<or> entity \<in> mint_shape ` set (plans_of (fst s')))"
proof -
  obtain buckets al where s: "s = (buckets, al)" by force
  show ?thesis
  proof (cases "entity \<in> set (survivors h)")
    case True
    then show ?thesis using assms(1,2) by (auto simp: classify_step_def s rbind_eq_Inr)
  next
    case False
    then obtain role plan where e: "classify_entity T geometry c r h entity = Inr (role, plan)"
      and b: "fst s' = multi_push role plan buckets"
      using assms(1) by (auto simp: classify_step_def s rbind_eq_Inr split: option.splits)
    from classify_entity_plan [OF e assms(4)] False assms(2,3) show ?thesis
      by (auto simp: plans_ok_def b s set_plans_of_push)
  qed
qed

lemma classify_ok:
  assumes run: "classify T geometry c r h result cancelled = Inr (buckets, al)"
    and par: "parents_ok (set (ordinals h)) (harvest_reverseModified h)"
  shows "plans_ok h (result_entities T result) buckets \<and>
    result_entities T result \<subseteq> set (survivors h) \<union> mint_shape ` set (plans_of buckets)"
proof -
  let ?es = "result_entities T result"
  let ?step = "classify_step T geometry c r h cancelled"
  let ?I = "\<lambda>s. plans_ok h ?es (fst s)"
  have outer: "rfold (\<lambda>s kind. rfold ?step s (map_shapes T result kind)) ([], []) kNamedKinds = Inr (buckets, al)"
    using run by (simp add: classify_def)
  have I0: "?I ([], [])" by (simp add: plans_ok_def plans_of_def)
  have in_es: "x \<in> ?es" if "kind \<in> set kNamedKinds" "x \<in> set (map_shapes T result kind)" for kind x
    using that by (auto simp: result_entities_def)
  have inner: "?I s'" if "kind \<in> set kNamedKinds" "?I s" "rfold ?step s (map_shapes T result kind) = Inr s'" for s kind s'
    by (rule rfold_invariant [OF that(3), where P = ?I, OF that(2)])
       (use classify_step_ok [OF _ _ in_es [OF that(1)] par] in blast)
  have I: "?I (buckets, al)" by (rule rfold_invariant [OF outer, where P = ?I, OF I0]) (use inner in blast)
  have all: "x \<in> set (survivors h) \<or> x \<in> mint_shape ` set (plans_of buckets)"
    if kind: "kind \<in> set kNamedKinds" and x: "x \<in> set (map_shapes T result kind)" for x kind
  proof -
    let ?Q = "\<lambda>s. x \<in> set (survivors h) \<or> x \<in> mint_shape ` set (plans_of (fst s))"
    have "?Q (buckets, al)"
    proof (rule rfold_eventually [OF outer, of ?I ?Q "\<lambda>k. k = kind"])
      fix s k s' assume s: "?I s" "k \<in> set kNamedKinds" and st: "rfold ?step s (map_shapes T result k) = Inr s'"
        and q: "?Q s \<or> k = kind"
      show "?Q s'"
      proof (rule rfold_eventually [OF st, of ?I ?Q "\<lambda>y. y = x", OF s(1)])
        show "?Q s \<or> (\<exists>y \<in> set (map_shapes T result k). y = x)" using q x by auto
      next
        fix t y t' assume t: "?I t" "y \<in> set (map_shapes T result k)" "?step t y = Inr t'" "?Q t \<or> y = x"
        from classify_step_ok [OF t(3,1) in_es [OF s(2) t(2)] par] t(4) show "?Q t'" by auto
      next
        fix t y t' assume "?I t" "y \<in> set (map_shapes T result k)" "?step t y = Inr t'"
        then show "?I t'" using classify_step_ok [OF _ _ in_es [OF s(2)] par] by blast
      qed
    next
      fix s k s' assume a: "?I s" and b: "k \<in> set kNamedKinds" and c: "rfold ?step s (map_shapes T result k) = Inr s'"
      show "?I s'" by (rule inner [OF b a c])
    qed (use I0 kind in auto)
    then show ?thesis by simp
  qed
  have "result_entities T result \<subseteq> set (survivors h) \<union> mint_shape ` set (plans_of buckets)"
  proof
    fix x assume "x \<in> result_entities T result"
    then obtain kind where "kind \<in> set kNamedKinds" "x \<in> set (map_shapes T result kind)" by (auto simp: result_entities_def)
    from all [OF this] show "x \<in> set (survivors h) \<union> mint_shape ` set (plans_of buckets)" by simp
  qed
  then show ?thesis using I by simp
qed

section \<open>The fate of the result's entities\<close>

lemma in_result_entities: "occt_ok T \<Longrightarrow> x \<in> result_entities T result \<Longrightarrow> inResult T result x"
  by (auto simp: result_entities_def inResult_def occt_ok_def)

lemma source_ordinal: "x \<in> set (harvest_sources h) \<Longrightarrow> \<exists>p \<in> set (ordinals h). harvest_source h p = x"
proof -
  assume "x \<in> set (harvest_sources h)"
  then obtain i where "i < length (harvest_sources h)" "harvest_sources h ! i = x" by (auto simp: in_set_conv_nth)
  then show ?thesis by (intro bexI [of _ "Suc i"]) (auto simp: harvest_source_def ordinals_def)
qed

lemma survivors_disjoint:
  assumes "survivors_ok T result h (set (ordinals h))" and "distinct (harvest_sources h)"
  shows "set (survivors h) \<inter> set (syntheticSurvivors h) = {} \<and> set (survivors h) \<subseteq> set (harvest_sources h)"
proof -
  have inj: "p = q" if "p \<in> set (ordinals h)" "q \<in> set (ordinals h)" "harvest_source h p = harvest_source h q" for p q
  proof -
    have "p - 1 = q - 1" using that assms(2) nth_eq_iff_index_eq by (force simp: harvest_source_def ordinals_def)
    then show ?thesis using that by (auto simp: ordinals_def)
  qed
  have "harvest_source h p \<in> set (harvest_sources h)" if "p \<in> set (ordinals h)" for p
    using that by (auto simp: harvest_source_def ordinals_def)
  then show ?thesis using assms(1) inj by (fastforce simp: survivors_ok_def)
qed

lemma alias_not_in_result:
  assumes "survivors_ok T result h (set (ordinals h))" and "alias_ok h plan" and "mint_aliasSource plan = Some s"
  shows "\<not> inResult T result s"
  using assms by (fastforce simp: survivors_ok_def alias_ok_def)

definition dead_sources :: "'sh harvest \<Rightarrow> 'sh list \<Rightarrow> 'sh list" where
  "dead_sources h aliased =
     filter (\<lambda>s. s \<notin> set (survivors h) \<union> set aliased \<union> set (syntheticSurvivors h)) (harvest_sources h)"

definition scaffolding :: "'sh harvest \<Rightarrow> 'sh list" where
  "scaffolding h = filter (\<lambda>s. s \<in> set (syntheticSurvivors h)) (harvest_sources h)"

lemma dead_not_in_result:
  assumes "survivors_ok T result h (set (ordinals h))" and "inResult T result x"
  shows "x \<notin> set (dead_sources h al)"
proof
  assume x: "x \<in> set (dead_sources h al)"
  then obtain p where "p \<in> set (ordinals h)" "harvest_source h p = x"
    using source_ordinal [of x h] by (auto simp: dead_sources_def)
  then have "x \<in> set (survivors h) \<union> set (syntheticSurvivors h)"
    using assms by (auto simp: survivors_ok_def split: if_splits)
  with x show False by (simp add: dead_sources_def)
qed

text \<open>No entity of the result is left without a live record by the phases of the harvest.\<close>

lemma harvest_covers:
  assumes T: "occt_ok T" and r: "registry_ok r" and plan: "harvest_plan T r inputs result history cancelled = Inr h"
    and cl: "classify T geometry c r h result cancelled = Inr (buckets, al)"
    and m: "MintBuckets op buckets cancelled 0 (fold retire (scaffolding h) r) = Inr r1"
    and x: "x \<in> result_entities T result"
  shows "covered (fold retire (dead_sources h al) r1) x"
proof -
  have h: "survivors_ok T result h (set (ordinals h))" "parents_ok (set (ordinals h)) (harvest_reverseModified h)"
    "\<forall>y \<in> set (harvest_sources h). answers r y \<noteq> []" "distinct (harvest_sources h)"
    using harvest_planE [OF plan, of False] by auto
  note c = classify_ok [OF cl h(2)]
  have xin: "inResult T result x" using in_result_entities [OF T x] .
  let ?r0 = "fold retire (scaffolding h) r"
  have r0: "registry_ok ?r0" using r by (rule registry_ok_retire_all)
  have noalias: "\<forall>p \<in> set (plans_of buckets). mint_aliasSource p \<noteq> Some x"
    using c alias_not_in_result [OF h(1)] xin by (auto simp: plans_ok_def)
  have "answers ?r0 x \<noteq> [] \<or> x \<in> mint_shape ` set (plans_of buckets)"
  proof (cases "x \<in> mint_shape ` set (plans_of buckets)")
    case False
    then have s: "x \<in> set (survivors h)" using c x by auto
    then have "x \<in> set (harvest_sources h)" "x \<notin> set (syntheticSurvivors h)"
      using survivors_disjoint [OF h(1,4)] by auto
    then have "answers r x \<noteq> []" "x \<notin> set (scaffolding h)" using h(3) by (auto simp: scaffolding_def)
    then show ?thesis by (simp add: answers_retire_all)
  qed simp
  from MintBuckets_answers [OF r0 m noalias this] have "answers r1 x \<noteq> []" .
  moreover have "registry_ok r1" using MintBuckets_ok [OF r0 m] .
  ultimately show ?thesis using dead_not_in_result [OF h(1) xin]
    by (simp add: covered_iff registry_ok_retire_all answers_retire_all)
qed

end
