(* ===== verification/Registry_Properties.thy ===== *)
theory Registry_Properties
  imports Registry_Cover
begin

text \<open>
  The properties of the naming registry: its queries agree with the record log after any sequence
  of harvests, records are permanent, identity survivors keep their tokens, the harvest covers its
  result, and the collision flags are exact.
\<close>

section \<open>Small topologies for witnesses\<close>

text \<open>A body \<open>0\<close> with one face \<open>1\<close>, one edge \<open>2\<close> and one vertex \<open>3\<close>.\<close>

definition dot_occt :: "nat occt" where
  "dot_occt = \<lparr>shape_type = (\<lambda>x. if x = 1 then FACE else if x = 2 then EDGE else if x = 3 then VERTEX else OTHER_SHAPE),
     map_shapes = (\<lambda>s k. if s = 0 then (case k of FACE \<Rightarrow> [1] | EDGE \<Rightarrow> [2] | VERTEX \<Rightarrow> [3] | OTHER_SHAPE \<Rightarrow> [])
                         else if s \<in> {1, 2, 3} \<and> k = (if s = 1 then FACE else if s = 2 then EDGE else VERTEX) then [s] else []),
     quantum_for = (\<lambda>_. 1), quantized_measures = (\<lambda>s _. (int s, 0, 0, 0))\<rparr>"

definition dot_geometry :: "nat geometry" where
  "dot_geometry s = (int s, 0, 0, 0, 0)"

definition dot_book :: "nat ElementNameBook" where
  "dot_book = \<lparr>names_map = [1 \<mapsto> ''n1:00000000.f.1'', 2 \<mapsto> ''n1:00000000.e.1'', 3 \<mapsto> ''n1:00000000.v.1'']\<rparr>"

definition no_history :: "nat history" where
  "no_history = \<lparr>history_modified = (\<lambda>_. []), history_generated = (\<lambda>_. [])\<rparr>"

definition dot_ops :: "nat registry_op list" where
  "dot_ops = [Book_changed dot_book, Import_harvested ''op'' 0 0]"

definition dot_input :: "nat harvest_input" where
  "dot_input = \<lparr>input_shape = 0, input_tool = False, input_synthetic = False\<rparr>"

section \<open>Properties\<close>

text \<open>C6. The indices of the registry agree with its record log: after any sequence of harvests and
  registrations, a token answers for a shape exactly when its record is live and points at that
  shape, and the live records of a normalised name are exactly the log's records of that kind and
  name, in minting order.\<close>

theorem registry_indices_agree:
  assumes "rfold (registry_step T geometry cancelled) registry_new ops = Inr r"
  shows "(t \<in> set (TokensOf r x) \<longleftrightarrow> (\<exists>rec. FindByToken r t = Some rec \<and> rec_live rec \<and> rec_shape rec = x)) \<and>
    LiveByNormalizedName r k n =
      filter (\<lambda>rec. rec_live rec \<and> rec_kind rec = k \<and> rec_normalizedLineageName rec = n) (records r)"
proof -
  have ok: "registry_ok r" using registry_run_ok [OF registry_ok_new assms] .
  have find: "FindByToken r t = Some rec \<longleftrightarrow> (\<exists>i < length (records r). rec = records r ! i \<and> rec_token rec = t)" for t rec
    using ok by (auto simp: registry_ok_def tokens_ok_def FindByToken_def)
  have live: "rec_live (records r ! i) \<longleftrightarrow> i \<in> set (answers r (rec_shape (records r ! i)))" if "i < length (records r)" for i
    using ok that by (auto simp: registry_ok_def shapes_ok_def)
  have "t \<in> set (TokensOf r x) \<longleftrightarrow> (\<exists>i \<in> set (answers r x). rec_token (records r ! i) = t)"
    by (auto simp: TokensOf_answers [OF ok])
  also have "\<dots> \<longleftrightarrow> (\<exists>rec. FindByToken r t = Some rec \<and> rec_live rec \<and> rec_shape rec = x)"
    using in_answers [OF ok, of _ x] live by (auto simp: find)
  finally have "t \<in> set (TokensOf r x) \<longleftrightarrow> (\<exists>rec. FindByToken r t = Some rec \<and> rec_live rec \<and> rec_shape rec = x)" .
  moreover have "LiveByNormalizedName r k n =
      filter rec_live (map ((!) (records r)) (filter (\<lambda>i. name_key (records r ! i) = (k, n)) [0..<length (records r)]))"
  proof -
    have "(case byNormalizedName r (k, n) of None \<Rightarrow> [] | Some is \<Rightarrow> is) =
        filter (\<lambda>i. name_key (records r ! i) = (k, n)) [0..<length (records r)]"
      using ok by (simp add: registry_ok_def names_ok_def)
    then show ?thesis by (cases "byNormalizedName r (k, n)") (simp_all add: LiveByNormalizedName_def)
  qed
  moreover have "map ((!) (records r)) (filter (\<lambda>i. name_key (records r ! i) = (k, n)) [0..<length (records r)]) =
      filter (\<lambda>rec. name_key rec = (k, n)) (records r)"
    using filter_map [of "\<lambda>rec. name_key rec = (k, n)" "(!) (records r)" "[0..<length (records r)]"]
    by (simp add: comp_def map_nth)
  ultimately show ?thesis by (simp add: name_key_def filter_filter conj_commute)
qed

theorem registry_indices_agree_witness:
  "\<exists>r. rfold (registry_step dot_occt dot_geometry False) registry_new dot_ops = Inr r \<and>
     (''t:op/imported-edge/0'' \<in> set (TokensOf r 2) \<longleftrightarrow>
       (\<exists>rec. FindByToken r ''t:op/imported-edge/0'' = Some rec \<and> rec_live rec \<and> rec_shape rec = 2))"
proof -
  have "\<not> isl (rfold (registry_step dot_occt dot_geometry False) registry_new dot_ops)" by code_simp
  then obtain r where r: "rfold (registry_step dot_occt dot_geometry False) registry_new dot_ops = Inr r"
    using Inr_of_not_isl by metis
  from registry_indices_agree [OF r, of "''t:op/imported-edge/0''" 2] r show ?thesis by blast
qed


text \<open>C10. Records are permanent: whatever the evaluators do afterwards, a token once minted keeps
  finding a record with the same minter, role, kind, names, ancestors and flags, and a record that
  has died never comes back to life.\<close>

theorem records_permanent:
  assumes "rfold (registry_step T geometry cancelled) registry_new ops = Inr r"
    and "rfold (registry_step T geometry cancelled) r more_ops = Inr r'"
    and "FindByToken r t = Some rec"
  shows "\<exists>rec'. FindByToken r' t = Some rec' \<and> rec_identity rec' = rec_identity rec \<and> (rec_live rec' \<longrightarrow> rec_live rec)"
proof -
  have ok: "registry_ok r" by (rule registry_run_ok [OF registry_ok_new assms(1)])
  have ok': "registry_ok r'" by (rule registry_run_ok [OF ok assms(2)])
  have fr: "log_frame (records r) (records r')" by (rule registry_run_frame [OF assms(2)])
  from assms(3) obtain i where i: "byToken r t = Some i" "rec = records r ! i" by (auto simp: FindByToken_def)
  then have "i < length (records r)" "rec_token (records r ! i) = t"
    using ok by (auto simp: registry_ok_def tokens_ok_def)
  then have "byToken r' t = Some i" using ok' fr log_frame_tokens [OF fr]
    by (auto simp: registry_ok_def tokens_ok_def log_frame_def)
  then show ?thesis using fr i \<open>i < length (records r)\<close> by (auto simp: FindByToken_def log_frame_def)
qed

theorem records_permanent_witness:
  "\<exists>r' rec'. rfold (registry_step dot_occt dot_geometry False) registry_new (dot_ops @
       [Operation_harvested ''op2'' Boolean [dot_input] 0 no_history]) = Inr r' \<and>
     FindByToken r' ''t:op/imported-face/0'' = Some rec' \<and> rec_role rec' = ''imported-face''"
proof -
  let ?step = "registry_step dot_occt dot_geometry False"
  let ?more = "[Operation_harvested ''op2'' Boolean [dot_input] 0 no_history]"
  have "\<not> isl (rfold ?step registry_new dot_ops)" by code_simp
  then obtain r where r: "rfold ?step registry_new dot_ops = Inr r" using Inr_of_not_isl by metis
  have "\<not> isl (rfold ?step registry_new (dot_ops @ ?more))" by code_simp
  then obtain r' where r': "rfold ?step r ?more = Inr r'" using Inr_of_not_isl r by (auto simp only: rfold_append rbind_simps)
  have "map_option rec_role (FindByToken (projr (rfold ?step registry_new dot_ops)) ''t:op/imported-face/0'') = Some ''imported-face''"
    by code_simp
  then obtain rec where rec: "FindByToken r ''t:op/imported-face/0'' = Some rec" "rec_role rec = ''imported-face''" by (auto simp: r)
  from records_permanent [OF r r' rec(1)] rec(2) r r' show ?thesis
    by (auto simp: rfold_append rec_identity_def)
qed

text \<open>C40. Identity survivors keep their tokens: when the registry keeps its invariant and no operand is
  synthetic, a sub-shape of an operand that appears unchanged in the result answers to exactly the
  tokens it had, in the same order, after the operation is harvested.\<close>

theorem survivors_keep_tokens:
  assumes "registry_ok r" and "HarvestOperation T geometry op c inputs result history cancelled r = Inr r'"
    and "\<forall>input \<in> set inputs. \<not> input_synthetic input"
    and "input \<in> set inputs" and "kind \<in> set kNamedKinds" and "x \<in> set (map_shapes T (input_shape input) kind)"
    and "inResult T result x"
  shows "TokensOf r' x = TokensOf r x"
proof -
  obtain h buckets al r1 where plan: "harvest_plan T r inputs result history cancelled = Inr h"
    and cl: "classify T geometry c r h result cancelled = Inr (buckets, al)"
    and m: "MintBuckets op buckets cancelled 0 (fold retire (scaffolding h) r) = Inr r1"
    and r': "r' = fold retire (dead_sources h al) r1"
    and "\<forall>kind \<in> set kNamedKinds. \<forall>x \<in> set (map_shapes T result kind). covered r' x"
    unfolding scaffolding_def dead_sources_def by (rule HarvestOperationE [OF assms(2)])
  have h: "survivors_ok T result h (set (ordinals h))" "parents_ok (set (ordinals h)) (harvest_reverseModified h)"
    "length (sourceIsSynthetic h) = length (harvest_sources h)" "True \<notin> set (sourceIsSynthetic h)"
    using harvest_planE [OF plan, of True] assms(3) by auto
  have "set (map_shapes T (input_shape input) kind) \<subseteq> set (harvest_sources h)"
    using harvest_planE [OF plan, of False] assms(4,5) by blast
  with assms(6) have src: "x \<in> set (harvest_sources h)" by blast
  have pure: "\<not> isSyntheticOrdinal h p" if "p \<in> set (ordinals h)" for p
  proof -
    have "p - 1 < length (sourceIsSynthetic h)" using that h(3) by (auto simp: ordinals_def)
    then show ?thesis using h(4) nth_mem by (fastforce simp: isSyntheticOrdinal_def)
  qed
  then have synth: "syntheticSurvivors h = []" using h(1) by (cases "syntheticSurvivors h") (auto simp: survivors_ok_def)
  obtain p where p: "p \<in> set (ordinals h)" "harvest_source h p = x" using source_ordinal [OF src] by auto
  have surv: "x \<in> set (survivors h)" using h(1) p pure assms(7) by (auto simp: survivors_ok_def)
  note c = classify_ok [OF cl h(2)]
  have free: "\<forall>q \<in> set (plans_of buckets). x \<noteq> mint_shape q \<and> mint_aliasSource q \<noteq> Some x"
    using c alias_not_in_result [OF h(1)] assms(7) surv by (fastforce simp: plans_ok_def)
  have "scaffolding h = []" by (simp add: scaffolding_def synth)
  then have m': "MintBuckets op buckets cancelled 0 r = Inr r1" using m by simp
  have "kept x r r1" by (rule MintBuckets_kept [OF assms(1) m' free])
  moreover have "kept x r1 r'" unfolding r'
    by (rule kept_retire_all [OF MintBuckets_ok [OF assms(1) m'] dead_not_in_result [OF h(1) assms(7)]])
  ultimately show ?thesis using assms(1) HarvestOperation_ok [OF assms(1,2)] by (blast intro: kept_TokensOf kept_trans)
qed

theorem survivors_keep_tokens_witness:
  "\<exists>r r'. rfold (registry_step dot_occt dot_geometry False) registry_new dot_ops = Inr r \<and>
     HarvestOperation dot_occt dot_geometry ''op2'' Boolean [dot_input] 0 no_history False r = Inr r' \<and>
     TokensOf r' 2 = TokensOf r 2"
proof -
  let ?step = "registry_step dot_occt dot_geometry False"
  have "\<not> isl (rfold ?step registry_new dot_ops)" by code_simp
  then obtain r where r: "rfold ?step registry_new dot_ops = Inr r" using Inr_of_not_isl by metis
  have "\<not> isl (HarvestOperation dot_occt dot_geometry ''op2'' Boolean [dot_input] 0 no_history False
      (projr (rfold ?step registry_new dot_ops)))" by code_simp
  then obtain r' where r': "HarvestOperation dot_occt dot_geometry ''op2'' Boolean [dot_input] 0 no_history False r = Inr r'"
    using Inr_of_not_isl by (auto simp: r)
  have "TokensOf r' 2 = TokensOf r 2"
    by (rule survivors_keep_tokens [OF registry_run_ok [OF registry_ok_new r] r', where input = dot_input and kind = EDGE])
       (simp_all add: dot_input_def kNamedKinds_def dot_occt_def inResult_def)
  with r r' show ?thesis by blast
qed

text \<open>A harvest covers its result: once the planning, the classification and the mint have
  succeeded, every face, edge and vertex of the result answers to a live record, so the final
  coverage check never fails and the harvest returns.\<close>

theorem harvest_coverage_check_redundant:
  assumes "occt_ok T" and "registry_ok r" and "harvest_plan T r inputs result history False = Inr h"
    and "classify T geometry c r h result False = Inr (buckets, aliased)"
    and "MintBuckets op buckets False 0
           (fold retire (filter (\<lambda>s. s \<in> set (syntheticSurvivors h)) (harvest_sources h)) r) = Inr r1"
  shows "\<exists>r'. HarvestOperation T geometry op c inputs result history False r = Inr r'"
proof -
  have "covered (fold retire (dead_sources h aliased) r1) x" if "x \<in> result_entities T result" for x
    using harvest_covers [OF assms(1-4) _ that] assms(5) by (simp add: scaffolding_def)
  then have "list_all (\<lambda>kind. list_all (covered (fold retire (dead_sources h aliased) r1)) (map_shapes T result kind)) kNamedKinds"
    by (auto simp: list_all_iff result_entities_def)
  then show ?thesis using assms(3-5)
    by (simp add: HarvestOperation_def CheckCancellation_def dead_sources_def Let_def)
qed


theorem harvest_coverage_check_redundant_witness:
  "\<exists>r r'. rfold (registry_step dot_occt dot_geometry False) registry_new dot_ops = Inr r \<and>
     HarvestOperation dot_occt dot_geometry ''op2'' Boolean [dot_input] 0 no_history False r = Inr r'"
proof -
  let ?step = "registry_step dot_occt dot_geometry False"
  let ?r = "projr (rfold ?step registry_new dot_ops)"
  let ?h = "projr (harvest_plan dot_occt ?r [dot_input] 0 no_history False)"
  have T: "occt_ok dot_occt" by (auto simp: occt_ok_def dot_occt_def split: shape_kind.splits)
  have "\<not> isl (rfold ?step registry_new dot_ops)" by code_simp
  then have r: "rfold ?step registry_new dot_ops = Inr ?r" by (cases "rfold ?step registry_new dot_ops") auto
  have "\<not> isl (harvest_plan dot_occt ?r [dot_input] 0 no_history False)" by code_simp
  then have h: "harvest_plan dot_occt ?r [dot_input] 0 no_history False = Inr ?h"
    by (cases "harvest_plan dot_occt ?r [dot_input] 0 no_history False") auto
  have c: "classify dot_occt dot_geometry Boolean ?r ?h 0 False = Inr ([], [])" by code_simp
  have e: "filter (\<lambda>s. s \<in> set (syntheticSurvivors ?h)) (harvest_sources ?h) = []" by code_simp
  have "MintBuckets ''op2'' [] False 0 (fold retire (filter (\<lambda>s. s \<in> set (syntheticSurvivors ?h)) (harvest_sources ?h)) ?r) = Inr ?r"
    by (simp only: e MintBuckets_def Let_def rfold.simps fold_simps)
  from harvest_coverage_check_redundant [OF T registry_run_ok [OF registry_ok_new r] h c this] r show ?thesis by blast
qed

section \<open>Collision flags\<close>

lemma neighbour_exact:
  assumes sorted: "sorted (map f ps)" and i: "i < length ps"
  shows "neighbour (\<lambda>ps l r. f (ps ! l) = (f (ps ! r) :: 'k :: linorder)) ps i \<longleftrightarrow>
    (\<exists>j < length ps. j \<noteq> i \<and> f (ps ! j) = f (ps ! i))"
proof
  assume "\<exists>j < length ps. j \<noteq> i \<and> f (ps ! j) = f (ps ! i)"
  then obtain j where j: "j < length ps" "j \<noteq> i" "f (ps ! j) = f (ps ! i)" by blast
  have mono: "f (ps ! a) \<le> f (ps ! b)" if "a \<le> b" "b < length ps" for a b
    using sorted_nth_mono [OF sorted that(1)] that by simp
  show "neighbour (\<lambda>ps l r. f (ps ! l) = f (ps ! r)) ps i"
  proof (cases "j < i")
    case True
    then have "f (ps ! (i - 1)) = f (ps ! i)" using mono [of j "i - 1"] mono [of "i - 1" i] i j(3) by simp
    with True show ?thesis by (simp add: neighbour_def)
  next
    case False
    then have "i < j" using j(2) by simp
    then have "f (ps ! i) = f (ps ! (i + 1))" using mono [of i "i + 1"] mono [of "i + 1" j] j by simp
    with \<open>i < j\<close> j(1) show ?thesis by (simp add: neighbour_def)
  qed
next
  assume "neighbour (\<lambda>ps l r. f (ps ! l) = f (ps ! r)) ps i"
  then show "\<exists>j < length ps. j \<noteq> i \<and> f (ps ! j) = f (ps ! i)"
  proof (cases "0 < i \<and> f (ps ! (i - 1)) = f (ps ! i)")
    case True
    then show ?thesis using i by (intro exI [of _ "i - 1"]) auto
  next
    case False
    with \<open>neighbour _ ps i\<close> have "i + 1 < length ps" "f (ps ! (i + 1)) = f (ps ! i)" by (auto simp: neighbour_def)
    then show ?thesis by (intro exI [of _ "i + 1"]) auto
  qed
qed

lemma sorted_names: "sorted (map (\<lambda>p. (mint_kindRank p, mint_normalizedName p)) (sort_key mint_key plans))"
proof -
  have "sorted (map mint_key (sort_key mint_key plans))" by (rule sorted_sort_key)
  then have "sorted_wrt (\<lambda>p q. mint_key p \<le> mint_key q) (sort_key mint_key plans)" by (simp add: sorted_map)
  then have "sorted_wrt (\<lambda>p q. (mint_kindRank p, mint_normalizedName p) \<le> (mint_kindRank q, mint_normalizedName q)) (sort_key mint_key plans)"
    by (rule sorted_wrt_mono_rel [rotated]) (auto simp: mint_key_def less_eq_prod_def)
  then show ?thesis by (simp add: sorted_map)
qed

lemma mint_record_flags:
  assumes "i < length plans"
  shows "rec_nameCollision (mint_record op sc role (sort_key mint_key plans) i) \<longleftrightarrow>
      (\<exists>j < length plans. j \<noteq> i \<and> namesCollide (sort_key mint_key plans) i j)"
    and "rec_orderTie (mint_record op sc role (sort_key mint_key plans) i) \<longleftrightarrow>
      (\<exists>j < length plans. j \<noteq> i \<and> keysTie (sort_key mint_key plans) i j)"
proof -
  let ?ps = "sort_key mint_key plans" and ?f = "\<lambda>p. (mint_kindRank p, mint_normalizedName p)"
  have n: "namesCollide = (\<lambda>ps l r. ?f (ps ! l) = ?f (ps ! r))" by (auto simp: fun_eq_iff namesCollide_def)
  have k: "keysTie = (\<lambda>ps l r. mint_key (ps ! l) = mint_key (ps ! r))"
    by (auto simp: fun_eq_iff namesCollide_def keysTie_def mint_key_def)
  show "rec_nameCollision (mint_record op sc role ?ps i) \<longleftrightarrow> (\<exists>j < length plans. j \<noteq> i \<and> namesCollide ?ps i j)"
    using neighbour_exact [OF sorted_names, of i plans] assms
    by (simp add: mint_record_def Let_def n) metis
  show "rec_orderTie (mint_record op sc role ?ps i) \<longleftrightarrow> (\<exists>j < length plans. j \<noteq> i \<and> keysTie ?ps i j)"
    using neighbour_exact [OF sorted_sort_key, of i mint_key plans] assms
    by (simp add: mint_record_def Let_def k) metis
qed

lemma mint_range:
  assumes "rfold (mint_one op sc role ps) r [0..<n] = Inr r'"
  shows "length (records r') = length (records r) + n \<and>
    (\<forall>i < n. rec_identity (records r' ! (length (records r) + i)) = rec_identity (mint_record op sc role ps i))"
  using assms
proof (induction n arbitrary: r')
  case (Suc n)
  then obtain s where s: "rfold (mint_one op sc role ps) r [0..<n] = Inr s" and step: "mint_one op sc role ps s n = Inr r'"
    by (auto simp: rfold_snoc rbind_eq_Inr)
  from mint_one_frame [OF step] Suc.IH [OF s] show ?case
    by (auto simp: less_Suc_eq log_frame_def)
qed simp

text \<open>The collision flag is exact: in a freshly minted role bucket, a record is flagged as
  colliding exactly when another record of the bucket has the same kind and normalised name,
  although the code only compares neighbours after its stable sort.\<close>

theorem collision_flag_exact:
  assumes "mint_bucket op sc False r (role, plans) = Inr r'" and "i < length plans"
    and "\<forall>p \<in> set plans. KindRankOf (mint_kind p) = Inr (mint_kindRank p)"
  shows "rec_nameCollision (records r' ! (length (records r) + i)) \<longleftrightarrow>
    (\<exists>j < length plans. j \<noteq> i \<and>
       rec_kind (records r' ! (length (records r) + j)) = rec_kind (records r' ! (length (records r) + i)) \<and>
       rec_normalizedLineageName (records r' ! (length (records r) + j)) =
       rec_normalizedLineageName (records r' ! (length (records r) + i)))"
proof -
  let ?ps = "sort_key mint_key plans" and ?n = "length (records r)"
  have run: "rfold (mint_one op sc role ?ps) r [0..<length plans] = Inr r'" using assms(1) by (rule mint_bucketE)
  have rec: "rec_identity (records r' ! (?n + j)) = rec_identity (mint_record op sc role ?ps j)" if "j < length plans" for j
    using mint_range [OF run] that by blast
  have rank: "KindRankOf (mint_kind (?ps ! j)) = Inr (mint_kindRank (?ps ! j))" if "j < length plans" for j
    using assms(3) sorted_plan [OF that] by blast
  have kinds: "mint_kindRank (?ps ! i) = mint_kindRank (?ps ! j) \<longleftrightarrow> mint_kind (?ps ! j) = mint_kind (?ps ! i)"
    if "j < length plans" for j
    using rank [OF that] rank [OF assms(2)] by (auto simp: KindRankOf_def split: if_splits)
  have fields: "rec_kind (records r' ! (?n + j)) = mint_kind (?ps ! j)"
    "rec_normalizedLineageName (records r' ! (?n + j)) = mint_normalizedName (?ps ! j)"
    "rec_nameCollision (records r' ! (?n + j)) = rec_nameCollision (mint_record op sc role ?ps j)" if "j < length plans" for j
    using rec [OF that] by (simp_all add: rec_identity_def mint_record_def Let_def)
  have "namesCollide ?ps i j \<longleftrightarrow> rec_kind (records r' ! (?n + j)) = rec_kind (records r' ! (?n + i)) \<and>
      rec_normalizedLineageName (records r' ! (?n + j)) = rec_normalizedLineageName (records r' ! (?n + i))"
    if "j < length plans" for j
    using fields [OF that] fields [OF assms(2)] kinds [OF that] by (auto simp: namesCollide_def)
  then show ?thesis using fields(3) [OF assms(2)] mint_record_flags(1) [OF assms(2), of op sc role] by auto
qed

definition twin_plan :: "nat \<Rightarrow> nat MintPlan" where
  "twin_plan x = \<lparr>mint_shape = x, mint_aliasSource = None, mint_kind = CHR ''e'', mint_kindRank = 1,
     mint_lineageName = ''n'', mint_normalizedName = ''n'', mint_ancestors = [], mint_geometry = (0, 0, 0, 0, 0, []),
     mint_stableOrdinal = None\<rparr>"

theorem collision_flag_exact_witness:
  "\<exists>r'. mint_bucket ''op'' ''op'' False registry_new (''seam'', [twin_plan 1, twin_plan 2]) = Inr r' \<and>
     rec_nameCollision (records r' ! 0)"
proof -
  let ?run = "mint_bucket ''op'' ''op'' False registry_new (''seam'', [twin_plan 1, twin_plan 2])"
  have "\<not> isl ?run" by code_simp
  then obtain r' where r': "?run = Inr r'" using Inr_of_not_isl by metis
  have "map (\<lambda>rec. (rec_kind rec, rec_normalizedLineageName rec)) (records (projr ?run)) = [(CHR ''e'', ''n''), (CHR ''e'', ''n'')]"
    by code_simp
  then have "length (records r') = 2" "rec_kind (records r' ! 0) = CHR ''e''" "rec_kind (records r' ! 1) = CHR ''e''"
    "rec_normalizedLineageName (records r' ! 0) = ''n''" "rec_normalizedLineageName (records r' ! 1) = ''n''"
    unfolding r' by auto
  moreover have "rec_nameCollision (records r' ! (length (records (registry_new :: nat NamingRegistry)) + 0)) \<longleftrightarrow>
     (\<exists>j < length [twin_plan 1, twin_plan 2]. j \<noteq> 0 \<and>
       rec_kind (records r' ! (length (records (registry_new :: nat NamingRegistry)) + j)) = rec_kind (records r' ! (length (records (registry_new :: nat NamingRegistry)) + 0)) \<and>
       rec_normalizedLineageName (records r' ! (length (records (registry_new :: nat NamingRegistry)) + j)) =
       rec_normalizedLineageName (records r' ! (length (records (registry_new :: nat NamingRegistry)) + 0)))"
    by (rule collision_flag_exact [OF r']) (simp_all add: twin_plan_def KindRankOf_def)
  ultimately have "rec_nameCollision (records r' ! 0)" by (auto simp: registry_new_def intro!: exI [of _ "Suc 0"])
  with r' show ?thesis by blast
qed


section \<open>Sketch lineage\<close>

lemma op_prefix_loop_append: "op_prefix_loop p s = Inr q \<Longrightarrow> op_prefix_loop p (s @ t) = Inr q"
  by (induction p s rule: op_prefix_loop.induct) (auto simp: Let_def split: if_splits)

text \<open>The lineage name of a sketch edge is independent of its semantic id and of the lineage
  namespace: rooting an edge under the extended id \<open>op:namespace:semanticId\<close>, as
  \<open>RegisterSketchEdges\<close> does, names it exactly as rooting it under the operation id alone, because
  only the first eight hexadecimal digits of the id enter a root name.\<close>

theorem sketch_lineage_ignores_semantic_id:
  assumes "OperationIdPrefix operationId = Inr prefix"
  shows "AddPrimitive T (operationId @ '':'' @ lineageNamespace @ '':'' @ semanticId) backing book =
    AddPrimitive T operationId backing book"
  using assms op_prefix_loop_append [of "[]" operationId prefix]
  by (simp add: AddPrimitive_def OperationIdPrefix_def)

theorem sketch_lineage_ignores_semantic_id_witness:
  "AddPrimitive dot_occt (''0123abcd'' @ '':'' @ ''entity'' @ '':'' @ ''line-1'') 2 book_new =
   AddPrimitive dot_occt ''0123abcd'' 2 book_new"
  by (rule sketch_lineage_ignores_semantic_id [where prefix = "''0123abcd''"]) code_simp

end
