(* ===== verification/Replay_Cache.thy ===== *)
theory Replay_Cache
  imports Prelude "HOL-Library.AList"
begin

text \<open>
  The in-process replay cache (\<open>DocumentEvaluator::Impl\<close> of \<open>geometry.cpp\<close>): snapshots by
  cumulative hash with a recency list and a byte budget. The hash map is an association list; the
  map \<open>position_\<close> from keys to list iterators only serves to erase a key's node of the recency
  list, which is \<open>remove1\<close> here. The lemmas give the invariant of the three containers and the
  refinement to one list of entries in recency order.
\<close>

section \<open>State\<close>

record 'snap cache_entry =
  entry_snapshot :: 'snap
  entry_bytes :: u64

record 'snap replay_cache =
  entries :: "(string \<times> 'snap cache_entry) list"
  recency :: "string list"
  budgetBytes :: u64
  totalBytes :: u64
  hits :: u64
  misses :: u64
  evictions :: u64
  snapshotsStored :: u64

definition cache_new :: "u64 \<Rightarrow> 'snap replay_cache" where
  "cache_new budget = \<lparr>entries = [], recency = [], budgetBytes = budget, totalBytes = 0,
     hits = 0, misses = 0, evictions = 0, snapshotsStored = 0\<rparr>"

section \<open>Operations\<close>

definition Touch :: "string \<Rightarrow> 'snap replay_cache \<Rightarrow> 'snap replay_cache" where
  "Touch key c = c\<lparr>recency := key # remove1 key (recency c)\<rparr>"

definition Get :: "string \<Rightarrow> 'snap replay_cache \<Rightarrow> 'snap option \<times> 'snap replay_cache" where
  "Get key c =
     (case map_of (entries c) key of
        None \<Rightarrow> (None, c)
      | Some found \<Rightarrow> (Some (entry_snapshot found), Touch key c))"

definition EvictLeastRecent :: "'snap replay_cache \<Rightarrow> 'snap replay_cache" where
  "EvictLeastRecent c =
     (let leastRecent = last (recency c);
          freed = (case map_of (entries c) leastRecent of Some found \<Rightarrow> entry_bytes found | None \<Rightarrow> 0)
      in c\<lparr>recency := butlast (recency c), totalBytes := totalBytes c - freed,
           entries := AList.delete leastRecent (entries c), evictions := evictions c + 1\<rparr>)"

text \<open>The loop; the recency list is empty only when the map is, so its test changes nothing.\<close>

function EvictToBudget :: "'snap replay_cache \<Rightarrow> 'snap replay_cache" where
  "EvictToBudget c =
     (if budgetBytes c < totalBytes c \<and> 1 < length (entries c) \<and> recency c \<noteq> []
      then EvictToBudget (EvictLeastRecent c) else c)"
  by pat_completeness auto
termination
  by (relation "measure (\<lambda>c. length (recency c))") (auto simp: EvictLeastRecent_def Let_def)

declare EvictToBudget.simps [simp del]

definition Put :: "('snap \<Rightarrow> u64) \<Rightarrow> string \<Rightarrow> 'snap \<Rightarrow> 'snap replay_cache \<Rightarrow> 'snap replay_cache" where
  "Put estimate key snapshot c =
     (let bytes = estimate snapshot in
      case map_of (entries c) key of
        Some found \<Rightarrow>
          EvictToBudget (Touch key
            (c\<lparr>totalBytes := totalBytes c - entry_bytes found + bytes,
               entries := AList.update key \<lparr>entry_snapshot = snapshot, entry_bytes = bytes\<rparr> (entries c)\<rparr>))
      | None \<Rightarrow>
          EvictToBudget
            (c\<lparr>entries := AList.update key \<lparr>entry_snapshot = snapshot, entry_bytes = bytes\<rparr> (entries c),
               recency := key # recency c, totalBytes := totalBytes c + bytes,
               snapshotsStored := snapshotsStored c + 1\<rparr>))"

definition RecordPrefixOutcome :: "bool \<Rightarrow> 'snap replay_cache \<Rightarrow> 'snap replay_cache" where
  "RecordPrefixOutcome hit c = (if hit then c\<lparr>hits := hits c + 1\<rparr> else c\<lparr>misses := misses c + 1\<rparr>)"

record CacheStats =
  stat_entries :: nat
  stat_bytes :: u64
  stat_budgetBytes :: u64
  stat_hits :: u64
  stat_misses :: u64
  stat_evictions :: u64
  stat_snapshotsStored :: u64

definition StatsSnapshot :: "'snap replay_cache \<Rightarrow> CacheStats" where
  "StatsSnapshot c =
     \<lparr>stat_entries = length (entries c), stat_bytes = totalBytes c, stat_budgetBytes = budgetBytes c,
      stat_hits = hits c, stat_misses = misses c, stat_evictions = evictions c,
      stat_snapshotsStored = snapshotsStored c\<rparr>"

section \<open>The abstract store\<close>

text \<open>
  One list of keys with their snapshots, most recent first. A store moves a key to the front and
  drops least-recent entries while the total exceeds the budget, but never the last one.
\<close>

definition weight :: "('snap \<Rightarrow> u64) \<Rightarrow> (string \<times> 'snap) list \<Rightarrow> u64" where
  "weight estimate xs = sum_list (map (\<lambda>(k, s). estimate s) xs)"

fun lru_trim :: "('snap \<Rightarrow> u64) \<Rightarrow> u64 \<Rightarrow> nat \<Rightarrow> (string \<times> 'snap) list \<Rightarrow> (string \<times> 'snap) list" where
  "lru_trim estimate budget 0 xs = xs"
| "lru_trim estimate budget (Suc n) xs =
     (if budget < weight estimate xs \<and> 1 < length xs then lru_trim estimate budget n (butlast xs) else xs)"

definition lru_drop :: "string \<Rightarrow> (string \<times> 'snap) list \<Rightarrow> (string \<times> 'snap) list" where
  "lru_drop key xs = filter (\<lambda>(k, s). k \<noteq> key) xs"

definition lru_get :: "string \<Rightarrow> (string \<times> 'snap) list \<Rightarrow> 'snap option \<times> (string \<times> 'snap) list" where
  "lru_get key xs =
     (case map_of xs key of None \<Rightarrow> (None, xs) | Some s \<Rightarrow> (Some s, (key, s) # lru_drop key xs))"

definition lru_put :: "('snap \<Rightarrow> u64) \<Rightarrow> u64 \<Rightarrow> string \<Rightarrow> 'snap \<Rightarrow> (string \<times> 'snap) list \<Rightarrow> (string \<times> 'snap) list" where
  "lru_put estimate budget key s xs =
     lru_trim estimate budget (length xs) ((key, s) # lru_drop key xs)"

section \<open>Invariant and abstraction\<close>

definition lookup_snapshot :: "'snap replay_cache \<Rightarrow> string \<Rightarrow> 'snap" where
  "lookup_snapshot c key = entry_snapshot (the (map_of (entries c) key))"

definition lru_of :: "'snap replay_cache \<Rightarrow> (string \<times> 'snap) list" where
  "lru_of c = map (\<lambda>key. (key, lookup_snapshot c key)) (recency c)"

definition cache_ok :: "('snap \<Rightarrow> u64) \<Rightarrow> 'snap replay_cache \<Rightarrow> bool" where
  "cache_ok estimate c \<longleftrightarrow>
     distinct (map fst (entries c)) \<and> distinct (recency c) \<and> set (recency c) = fst ` set (entries c) \<and>
     (\<forall>(k, e) \<in> set (entries c). entry_bytes e = estimate (entry_snapshot e)) \<and>
     totalBytes c = weight estimate (lru_of c)"

lemma cache_ok_new: "cache_ok estimate (cache_new b)"
  by (simp add: cache_ok_def cache_new_def lru_of_def weight_def)

lemma cache_ok_length: "cache_ok estimate c \<Longrightarrow> length (recency c) = length (entries c)"
  using distinct_card [of "recency c"] distinct_card [of "map fst (entries c)"] by (simp add: cache_ok_def)

lemma map_of_lru: "cache_ok estimate c \<Longrightarrow> map_of (lru_of c) key = map_option entry_snapshot (map_of (entries c) key)"
proof -
  assume ok: "cache_ok estimate c"
  have "map_of (map (\<lambda>key. (key, f key)) ks) key = (if key \<in> set ks then Some (f key) else None)" for f :: "string \<Rightarrow> 'a" and ks
    by (induction ks) auto
  moreover have "key \<in> set (recency c) \<longleftrightarrow> map_of (entries c) key \<noteq> None"
    using ok by (simp add: cache_ok_def map_of_eq_None_iff)
  ultimately show ?thesis by (auto simp: lru_of_def lookup_snapshot_def)
qed

lemma lru_drop_map: "lru_drop key (map (\<lambda>k. (k, f k)) ks) = map (\<lambda>k. (k, f k)) (filter (\<lambda>k. k \<noteq> key) ks)"
  by (simp add: lru_drop_def filter_map comp_def)

lemma remove1_filter: "distinct ks \<Longrightarrow> remove1 key ks = filter (\<lambda>k. k \<noteq> key) ks"
  by (simp add: distinct_remove1_removeAll removeAll_filter_not_eq eq_commute)

lemma lru_of_Touch:
  assumes "cache_ok estimate c" and "key \<in> set (recency c)"
  shows "lru_of (Touch key c) = (key, lookup_snapshot c key) # lru_drop key (lru_of c)"
  using assms by (simp add: lru_of_def Touch_def lookup_snapshot_def lru_drop_map remove1_filter cache_ok_def)

lemma weight_drop:
  assumes "distinct (map fst xs)" and "map_of xs key = Some s"
  shows "weight estimate xs = estimate s + weight estimate (lru_drop key xs)"
  using assms
proof (induction xs)
  case (Cons x xs)
  obtain k t where x: "x = (k, t)" by force
  have "lru_drop key xs = xs" if "key \<notin> fst ` set xs"
    using that unfolding lru_drop_def by (intro filter_True) (force simp: case_prod_unfold)
  with Cons show ?case by (auto simp: x weight_def lru_drop_def algebra_simps)
qed simp

lemma lru_of_keys [simp]: "map fst (lru_of c) = recency c"
  by (simp add: lru_of_def comp_def)

text \<open>What both operations leave to the eviction loop: a consistent cache of the listed entries.\<close>

lemma cache_okI:
  assumes "distinct (map fst (entries c))" and "distinct (recency c)" and "set (recency c) = fst ` set (entries c)"
    and "\<forall>(k, e) \<in> set (entries c). entry_bytes e = estimate (entry_snapshot e)"
    and "totalBytes c = weight estimate (lru_of c)"
  shows "cache_ok estimate c"
  using assms by (simp add: cache_ok_def)

lemma evict_ok:
  assumes ok: "cache_ok estimate c" and ne: "recency c \<noteq> []"
  shows "cache_ok estimate (EvictLeastRecent c) \<and> lru_of (EvictLeastRecent c) = butlast (lru_of c) \<and>
    budgetBytes (EvictLeastRecent c) = budgetBytes c"
proof -
  let ?k = "last (recency c)" and ?c = "EvictLeastRecent c"
  obtain ks where ks: "recency c = ks @ [?k]" using ne append_butlast_last_id by metis
  have "?k \<in> fst ` set (entries c)" using ok ks by (metis cache_ok_def in_set_conv_decomp)
  then obtain e where e: "map_of (entries c) ?k = Some e" by (metis map_of_eq_None_iff not_None_eq)
  have kn: "?k \<notin> set ks" "distinct ks" using ok ks by (metis cache_ok_def distinct_append not_distinct_conv_prefix append_Nil2)+
  have rec: "recency ?c = ks" by (simp add: EvictLeastRecent_def Let_def) (metis ks butlast_snoc)
  have ent: "entries ?c = AList.delete ?k (entries c)" by (simp add: EvictLeastRecent_def Let_def)
  have look: "lookup_snapshot ?c k = lookup_snapshot c k" if "k \<in> set ks" for k
    using that kn by (auto simp: lookup_snapshot_def ent delete_conv')
  have lru: "lru_of c = lru_of ?c @ [(?k, lookup_snapshot c ?k)]"
    using look by (simp add: lru_of_def rec) (subst ks, simp)
  have "entry_bytes e = estimate (entry_snapshot e)" using ok e map_of_SomeD by (fastforce simp: cache_ok_def)
  moreover have "totalBytes ?c = totalBytes c - entry_bytes e" by (simp add: EvictLeastRecent_def Let_def e)
  moreover have "totalBytes c = weight estimate (lru_of ?c) + estimate (entry_snapshot e)"
    using ok lru e by (simp add: cache_ok_def weight_def lookup_snapshot_def)
  ultimately have "totalBytes ?c = weight estimate (lru_of ?c)" by simp
  moreover have "fst ` set (AList.delete ?k (entries c)) = fst ` set (entries c) - {?k}"
    unfolding set_map [symmetric] delete_keys by auto
  moreover have "set (recency c) = insert ?k (set ks)" by (subst ks) simp
  then have "set ks = fst ` set (entries c) - {?k}" using ok kn by (auto simp: cache_ok_def)
  ultimately have "cache_ok estimate ?c"
    using ok kn by (intro cache_okI) (auto simp: rec ent cache_ok_def AList.delete_eq distinct_map_filter)
  then show ?thesis by (simp add: lru) (simp add: EvictLeastRecent_def Let_def)
qed

lemma lru_trim_short: "length xs \<le> 1 \<Longrightarrow> lru_trim estimate b n xs = xs"
  by (cases n) auto

lemma EvictToBudget_ok:
  "cache_ok estimate c \<Longrightarrow> length (recency c) \<le> Suc n \<Longrightarrow>
     cache_ok estimate (EvictToBudget c) \<and>
     lru_of (EvictToBudget c) = lru_trim estimate (budgetBytes c) n (lru_of c) \<and>
     budgetBytes (EvictToBudget c) = budgetBytes c"
proof (induction n arbitrary: c)
  case 0
  then have "length (entries c) \<le> 1" using cache_ok_length [OF 0(1)] by simp
  with 0 show ?case by (subst (1 2 3) EvictToBudget.simps) simp
next
  case (Suc n)
  have len: "length (lru_of c) = length (entries c)" using cache_ok_length [OF Suc.prems(1)] by (simp add: lru_of_def)
  have tot: "totalBytes c = weight estimate (lru_of c)" using Suc.prems(1) by (simp add: cache_ok_def)
  show ?case
  proof (cases "budgetBytes c < totalBytes c \<and> 1 < length (entries c)")
    case True
    then have ne: "recency c \<noteq> []" using cache_ok_length [OF Suc.prems(1)] by auto
    note ev = evict_ok [OF Suc.prems(1) ne]
    have "length (recency (EvictLeastRecent c)) \<le> Suc n" using Suc.prems(2) by (simp add: EvictLeastRecent_def Let_def)
    with Suc.IH ev True ne len tot show ?thesis by (subst (1 2 3) EvictToBudget.simps) simp
  next
    case False
    with Suc.prems len tot show ?thesis by (subst (1 2 3) EvictToBudget.simps) auto
  qed
qed

lemma Get_ok:
  assumes ok: "cache_ok estimate c" and get: "Get key c = (found, c')"
  shows "cache_ok estimate c' \<and> (found, lru_of c') = lru_get key (lru_of c) \<and> budgetBytes c' = budgetBytes c"
proof (cases "map_of (entries c) key")
  case None
  then have "c' = c" "found = None" using get by (auto simp: Get_def)
  then show ?thesis using ok None map_of_lru [OF ok, of key] by (simp add: lru_get_def)
next
  case (Some e)
  then have c': "c' = Touch key c" "found = Some (entry_snapshot e)" using get by (auto simp: Get_def)
  have k: "key \<in> set (recency c)" using ok Some map_of_SomeD by (force simp: cache_ok_def)
  have s: "lookup_snapshot c key = entry_snapshot e" by (simp add: lookup_snapshot_def Some)
  have t: "lru_of c' = (key, entry_snapshot e) # lru_drop key (lru_of c)" using lru_of_Touch [OF ok k] by (simp add: c' s)
  have "distinct (map fst (lru_of c))" using ok by (simp add: cache_ok_def)
  from weight_drop [OF this, of key "entry_snapshot e"] have "weight estimate (lru_of c') = weight estimate (lru_of c)"
    by (simp add: t map_of_lru [OF ok] Some weight_def)
  then have "cache_ok estimate c'" using ok k
    by (intro cache_okI) (auto simp: c' cache_ok_def Touch_def distinct_remove1)
  then show ?thesis using t by (simp add: c' lru_get_def map_of_lru [OF ok] Some) (simp add: Touch_def)
qed

lemma Put_ok:
  assumes ok: "cache_ok estimate c"
  shows "cache_ok estimate (Put estimate key snap c) \<and>
    lru_of (Put estimate key snap c) = lru_put estimate (budgetBytes c) key snap (lru_of c) \<and>
    budgetBytes (Put estimate key snap c) = budgetBytes c"
proof -
  let ?e = "\<lparr>entry_snapshot = snap, entry_bytes = estimate snap\<rparr>"
  let ?es = "AList.update key ?e (entries c)"
  have keys: "fst ` set ?es = insert key (fst ` set (entries c))" by (simp add: dom_update)
  have dist: "distinct (map fst ?es)" using ok by (simp add: cache_ok_def distinct_update)
  have bytes: "\<forall>(k, e) \<in> set ?es. entry_bytes e = estimate (entry_snapshot e)"
  proof -
    have "entry_bytes e = estimate (entry_snapshot e)" if "map_of ?es k = Some e" for k e
      using that ok map_of_SomeD [of "entries c" k e] by (auto simp: update_conv' cache_ok_def split: if_splits)
    then show ?thesis using dist map_of_is_SomeI by fast
  qed
  have look: "lookup_snapshot (c\<lparr>entries := ?es\<rparr>) k = (if k = key then snap else lookup_snapshot c k)" for k
    by (simp add: lookup_snapshot_def update_conv')
  have drop: "lru_drop key (lru_of c) = map (\<lambda>k. (k, lookup_snapshot c k)) (filter (\<lambda>k. k \<noteq> key) (recency c))"
    by (simp add: lru_of_def lru_drop_map)
  define mid where "mid = (case map_of (entries c) key of
      Some found \<Rightarrow> Touch key (c\<lparr>totalBytes := totalBytes c - entry_bytes found + estimate snap, entries := ?es\<rparr>)
    | None \<Rightarrow> c\<lparr>entries := ?es, recency := key # recency c, totalBytes := totalBytes c + estimate snap,
               snapshotsStored := snapshotsStored c + 1\<rparr>)"
  have put: "Put estimate key snap c = EvictToBudget mid" by (auto simp: Put_def mid_def Let_def split: option.splits)
  have dr: "distinct (recency c)" "set (recency c) = fst ` set (entries c)" using ok by (auto simp: cache_ok_def)
  have rec: "recency mid = key # filter (\<lambda>k. k \<noteq> key) (recency c)"
  proof (cases "map_of (entries c) key")
    case None
    then have "key \<notin> set (recency c)" using dr by (simp add: map_of_eq_None_iff)
    then show ?thesis by (simp add: mid_def None) (metis (mono_tags, lifting) filter_True)
  qed (simp add: mid_def Touch_def remove1_filter [OF dr(1)])
  have ent: "entries mid = ?es" "budgetBytes mid = budgetBytes c" by (auto simp: mid_def Touch_def split: option.splits)
  have lru: "lru_of mid = (key, snap) # lru_drop key (lru_of c)"
    by (auto simp: lru_of_def rec lookup_snapshot_def ent update_conv' lru_drop_map)
  have "totalBytes mid = weight estimate (lru_of mid)"
  proof (cases "map_of (entries c) key")
    case None
    then have "lru_drop key (lru_of c) = lru_of c" using dr
      by (auto simp: lru_drop_def lru_of_def map_of_eq_None_iff intro!: filter_True)
    with None show ?thesis using ok by (simp add: lru) (simp add: mid_def weight_def cache_ok_def)
  next
    case (Some e)
    have "distinct (map fst (lru_of c))" using dr by simp
    from weight_drop [OF this, of key "entry_snapshot e" estimate]
    have "weight estimate (lru_of c) = estimate (entry_snapshot e) + weight estimate (lru_drop key (lru_of c))"
      by (simp add: map_of_lru [OF ok] Some)
    moreover have "entry_bytes e = estimate (entry_snapshot e)" using ok map_of_SomeD [OF Some] by (auto simp: cache_ok_def)
    moreover have "totalBytes c = weight estimate (lru_of c)" using ok by (simp add: cache_ok_def)
    ultimately show ?thesis by (simp add: lru) (simp add: mid_def Some Touch_def weight_def)
  qed
  then have mid: "cache_ok estimate mid" using dist bytes keys dr
    by (intro cache_okI) (auto simp: ent rec)
  have "length (recency mid) \<le> Suc (length (recency c))" by (simp add: rec le_SucI)
  from EvictToBudget_ok [OF mid this] show ?thesis
    by (simp add: put ent lru lru_put_def) (simp add: lru_of_def)
qed

section \<open>Runs\<close>

datatype 'snap cache_op = Lookup string | Store string 'snap | Outcome bool

fun cache_step :: "('snap \<Rightarrow> u64) \<Rightarrow> 'snap replay_cache \<Rightarrow> 'snap cache_op \<Rightarrow> 'snap option \<times> 'snap replay_cache" where
  "cache_step estimate c (Lookup key) = Get key c"
| "cache_step estimate c (Store key snap) = (None, Put estimate key snap c)"
| "cache_step estimate c (Outcome hit) = (None, RecordPrefixOutcome hit c)"

fun lru_step :: "('snap \<Rightarrow> u64) \<Rightarrow> u64 \<Rightarrow> (string \<times> 'snap) list \<Rightarrow> 'snap cache_op \<Rightarrow> 'snap option \<times> (string \<times> 'snap) list" where
  "lru_step estimate b xs (Lookup key) = lru_get key xs"
| "lru_step estimate b xs (Store key snap) = (None, lru_put estimate b key snap xs)"
| "lru_step estimate b xs (Outcome hit) = (None, xs)"

text \<open>The answers of a run of operations, and the state after it.\<close>

fun runs :: "('s \<Rightarrow> 'o \<Rightarrow> 'a \<times> 's) \<Rightarrow> 's \<Rightarrow> 'o list \<Rightarrow> 'a list \<times> 's" where
  "runs step s [] = ([], s)"
| "runs step s (a # as) = (let (x, s') = step s a; (xs, t) = runs step s' as in (x # xs, t))"

lemma cache_step_ok:
  assumes "cache_ok estimate c" and "cache_step estimate c a = (x, c')"
  shows "cache_ok estimate c' \<and> (x, lru_of c') = lru_step estimate (budgetBytes c) (lru_of c) a \<and> budgetBytes c' = budgetBytes c"
proof (cases a)
  case (Outcome hit)
  then have "entries c' = entries c" "recency c' = recency c" "totalBytes c' = totalBytes c" "budgetBytes c' = budgetBytes c" "x = None"
    using assms(2) by (auto simp: RecordPrefixOutcome_def split: if_splits)
  then show ?thesis using assms(1) Outcome by (simp add: cache_ok_def lru_of_def lookup_snapshot_def)
next
  case (Lookup key)
  then show ?thesis using assms(2) Get_ok [OF assms(1)] by simp
next
  case (Store key snap)
  then show ?thesis using assms(2) Put_ok [OF assms(1)] by auto
qed

lemma cache_run_ok:
  assumes "cache_ok estimate c" and "runs (cache_step estimate) c ops = (xs, c')"
  shows "cache_ok estimate c' \<and> (xs, lru_of c') = runs (lru_step estimate (budgetBytes c)) (lru_of c) ops \<and>
    budgetBytes c' = budgetBytes c"
  using assms
proof (induction ops arbitrary: c xs)
  case (Cons a ops)
  obtain x d where x: "cache_step estimate c a = (x, d)" by force
  obtain ys where ys: "runs (cache_step estimate) d ops = (ys, c')" "xs = x # ys"
    using Cons.prems(2) by (auto simp: x split: prod.splits)
  from cache_step_ok [OF Cons.prems(1) x] have d: "cache_ok estimate d" "lru_step estimate (budgetBytes c) (lru_of c) a = (x, lru_of d)"
    "budgetBytes d = budgetBytes c" by auto
  from Cons.IH [OF d(1) ys(1)] have ih: "cache_ok estimate c'" "runs (lru_step estimate (budgetBytes c)) (lru_of d) ops = (ys, lru_of c')"
    "budgetBytes c' = budgetBytes c" using d(3) by auto
  show ?case using ih by (simp add: d(2) ys(2))
qed simp

lemma lru_trim_prefix:
  "\<exists>n. lru_trim estimate b k xs = take n xs \<and> n \<le> length xs \<and> (1 \<le> length xs \<longrightarrow> 1 \<le> n) \<and>
     (length xs \<le> Suc k \<longrightarrow> n \<le> 1 \<or> weight estimate (take n xs) \<le> b) \<and>
     (\<forall>m. n < m \<longrightarrow> m \<le> length xs \<longrightarrow> b < weight estimate (take m xs))"
proof (induction k arbitrary: xs)
  case 0
  show ?case by (rule exI [of _ "length xs"]) auto
next
  case (Suc k)
  show ?case
  proof (cases "b < weight estimate xs \<and> 1 < length xs")
    case True
    from Suc.IH [of "butlast xs"] obtain n where n: "lru_trim estimate b k (butlast xs) = take n (butlast xs)"
      "n \<le> length (butlast xs)" "1 \<le> length (butlast xs) \<longrightarrow> 1 \<le> n"
      "length (butlast xs) \<le> Suc k \<longrightarrow> n \<le> 1 \<or> weight estimate (take n (butlast xs)) \<le> b"
      "\<forall>m. n < m \<longrightarrow> m \<le> length (butlast xs) \<longrightarrow> b < weight estimate (take m (butlast xs))" by blast
    have t: "take m (butlast xs) = take m xs" if "m < length xs" for m
      using that by (simp add: take_butlast)
    have "b < weight estimate (take m xs)" if "n < m" "m \<le> length xs" for m
      using n(5) that t [of m] True by (cases "m = length xs") auto
    then show ?thesis using True n t [of n] by (intro exI [of _ n]) auto
  next
    case False
    then show ?thesis by (intro exI [of _ "length xs"]) (auto simp: not_less)
  qed
qed

section \<open>Properties\<close>

text \<open>C4. The replay cache implements the abstract least-recently-used store: for any sequence of
  lookups, stores and outcome records on a fresh cache, the answers and the retained snapshots in
  recency order are those of the one-list store, and the byte counter is the total of their
  estimates.\<close>

theorem replay_cache_refines_lru:
  "case runs (cache_step estimate) (cache_new budget) ops of (answers, c) \<Rightarrow>
     runs (lru_step estimate budget) [] ops = (answers, lru_of c) \<and>
     stat_bytes (StatsSnapshot c) = weight estimate (lru_of c) \<and>
     stat_entries (StatsSnapshot c) = length (lru_of c)"
proof -
  obtain xs c where run: "runs (cache_step estimate) (cache_new budget) ops = (xs, c)" by force
  from cache_run_ok [OF cache_ok_new run] have "cache_ok estimate c" "runs (lru_step estimate budget) [] ops = (xs, lru_of c)"
    by (auto simp: cache_new_def lru_of_def)
  then show ?thesis using cache_ok_length [of estimate c] by (simp add: run StatsSnapshot_def cache_ok_def lru_of_def)
qed

text \<open>The byte governor is exact: a store after any history keeps the new snapshot in front and,
  of the entries in recency order, the longest prefix that fits the budget, or the new snapshot
  alone when nothing fits; every longer prefix exceeds the budget.\<close>

theorem store_keeps_longest_fitting_prefix:
  assumes "runs (cache_step estimate) (cache_new budget) ops = (answers, c)"
  shows "\<exists>n \<ge> 1. lru_of (Put estimate key snap c) = take n ((key, snap) # lru_drop key (lru_of c)) \<and>
    (n = 1 \<or> totalBytes (Put estimate key snap c) \<le> budget) \<and>
    (\<forall>m > n. m \<le> Suc (length (lru_drop key (lru_of c))) \<longrightarrow>
       budget < weight estimate (take m ((key, snap) # lru_drop key (lru_of c))))"
proof -
  from cache_run_ok [OF cache_ok_new assms] have ok: "cache_ok estimate c" and b: "budgetBytes c = budget"
    by (auto simp: cache_new_def)
  let ?xs = "(key, snap) # lru_drop key (lru_of c)"
  from Put_ok [OF ok, of key snap] have put: "lru_of (Put estimate key snap c) = lru_trim estimate budget (length (lru_of c)) ?xs"
    "totalBytes (Put estimate key snap c) = weight estimate (lru_of (Put estimate key snap c))"
    by (simp_all add: b lru_put_def cache_ok_def)
  have "length (lru_drop key (lru_of c)) \<le> length (lru_of c)" by (simp add: lru_drop_def)
  then have len: "length ?xs \<le> Suc (length (lru_of c))" by simp
  from lru_trim_prefix [of estimate budget "length (lru_of c)" ?xs] len obtain n where
    n: "lru_trim estimate budget (length (lru_of c)) ?xs = take n ?xs" "1 \<le> n"
      "n \<le> 1 \<or> weight estimate (take n ?xs) \<le> budget"
      "\<forall>m. n < m \<longrightarrow> m \<le> length ?xs \<longrightarrow> budget < weight estimate (take m ?xs)"
    by (metis One_nat_def length_Cons Suc_le_eq zero_less_Suc)
  show ?thesis
  proof (intro exI [of _ n] conjI)
    show "n = 1 \<or> totalBytes (Put estimate key snap c) \<le> budget" using n(2,3) put n(1) by auto
    show "\<forall>m > n. m \<le> Suc (length (lru_drop key (lru_of c))) \<longrightarrow> budget < weight estimate (take m ?xs)"
      using n(4) by simp
  qed (use n put in simp_all)
qed

theorem store_keeps_longest_fitting_prefix_witness:
  "\<exists>n \<ge> 1. lru_of (Put (\<lambda>s :: u64. s) ''c'' 60 (snd (runs (cache_step (\<lambda>s. s)) (cache_new 100) [Store ''a'' 30, Store ''b'' 50, Lookup ''a'']))) =
     take n [(''c'', 60), (''a'', 30), (''b'', 50)]"
proof -
  have "runs (cache_step (\<lambda>s. s)) (cache_new (100 :: u64)) [Store ''a'' 30, Store ''b'' 50, Lookup ''a''] =
      ([None, None, Some 30], \<lparr>entries = [(''a'', \<lparr>entry_snapshot = 30, entry_bytes = 30\<rparr>), (''b'', \<lparr>entry_snapshot = 50, entry_bytes = 50\<rparr>)],
         recency = [''a'', ''b''], budgetBytes = 100, totalBytes = 80, hits = 0, misses = 0, evictions = 0, snapshotsStored = 2\<rparr>)"
    by code_simp
  from store_keeps_longest_fitting_prefix [OF this, of "''c''" 60] this show ?thesis
    by (auto simp: lru_of_def lookup_snapshot_def lru_drop_def)
qed

end
