(* ===== verification/Replay_Dispatch.thy ===== *)
theory Replay_Dispatch
  imports Naming_Registry Body_Pool
begin

text \<open>
  The dispatch of one operation (\<open>ExecuteOperation\<close> of \<open>geometry.cpp\<close>): the epoch state it runs
  in, the root births (\<open>produceRoot\<close>), the routing by operation type with the order in which
  born bodies enter the pool, and the attribution of failures. The evaluators themselves compute
  geometry with OCCT and are the fields of a parameter record, one per shape of signature: what a
  signature takes by \<open>const&\<close> is an argument, what it takes by reference is returned.
\<close>

section \<open>Epoch state\<close>

text \<open>
  The two naming pointers of a call: none, a book alone, or a registry, whose own book the book
  pointer then aliases.
\<close>

datatype 'sh naming_channel = No_naming | Bare_book "'sh ElementNameBook" | With_registry "'sh NamingRegistry"

definition channel_registry :: "'sh naming_channel \<Rightarrow> 'sh NamingRegistry option" where
  "channel_registry ch = (case ch of With_registry r \<Rightarrow> Some r | _ \<Rightarrow> None)"

definition channel_book :: "'sh naming_channel \<Rightarrow> 'sh ElementNameBook option" where
  "channel_book ch = (case ch of No_naming \<Rightarrow> None | Bare_book b \<Rightarrow> Some b | With_registry r \<Rightarrow> Some (reg_book r))"

definition set_book :: "'sh ElementNameBook \<Rightarrow> 'sh naming_channel \<Rightarrow> 'sh naming_channel" where
  "set_book b ch =
     (case ch of No_naming \<Rightarrow> No_naming | Bare_book _ \<Rightarrow> Bare_book b | With_registry r \<Rightarrow> With_registry (r\<lparr>reg_book := b\<rparr>))"

definition set_registry :: "'sh NamingRegistry option \<Rightarrow> 'sh naming_channel \<Rightarrow> 'sh naming_channel" where
  "set_registry registry ch =
     (case ch of With_registry _ \<Rightarrow> (case registry of Some r \<Rightarrow> With_registry r | None \<Rightarrow> ch) | _ \<Rightarrow> ch)"

text \<open>An evaluator writes through its pointers; it cannot redirect its caller's.\<close>

definition write_channel :: "'sh naming_channel \<Rightarrow> 'sh naming_channel \<Rightarrow> 'sh naming_channel" where
  "write_channel ch ch' =
     (case ch of
        No_naming \<Rightarrow> No_naming
      | Bare_book b \<Rightarrow> (case ch' of Bare_book b' \<Rightarrow> Bare_book b' | _ \<Rightarrow> ch)
      | With_registry r \<Rightarrow> (case ch' of With_registry r' \<Rightarrow> With_registry r' | _ \<Rightarrow> ch))"

text \<open>A \<open>std::map\<close> by key order; \<open>insert_or_assign\<close>.\<close>

fun insert_or_assign :: "string \<Rightarrow> 'v \<Rightarrow> (string \<times> 'v) list \<Rightarrow> (string \<times> 'v) list" where
  "insert_or_assign k v [] = [(k, v)]"
| "insert_or_assign k v ((k', v') # m) =
     (if k < k' then (k, v) # (k', v') # m
      else if k = k' then (k, v) # m
      else (k', v') # insert_or_assign k v m)"

record ('sh, 'prof, 'path) exec_state =
  ex_pool :: "'sh body_pool"
  ex_profiles :: "(string \<times> 'prof) list"
  ex_openPaths :: "(string \<times> 'path) list"
  ex_naming :: "'sh naming_channel"

section \<open>Evaluators\<close>

type_synonym ('sh, 'prof, 'path, 'r) evaluator =
  "json \<Rightarrow> ('sh, 'prof, 'path) exec_state \<Rightarrow> bool \<Rightarrow> ('r \<times> 'sh body_pool \<times> 'sh naming_channel) result"

type_synonym ('sh, 'r) sketch_evaluator =
  "json \<Rightarrow> 'sh EvaluatedBody list \<Rightarrow> 'sh NamingRegistry option \<Rightarrow> bool \<Rightarrow> ('r \<times> 'sh NamingRegistry option) result"

record ('sh, 'prof, 'path) evaluators =
  ev_occt :: "'sh occt"
  ev_geometry :: "'sh geometry"
  ev_primitive :: "string \<Rightarrow> json \<Rightarrow> bool \<Rightarrow> 'sh EvaluatedBody result"
  ev_import_step :: "json \<Rightarrow> bool \<Rightarrow> 'sh EvaluatedBody list result"
  ev_profile :: "json \<Rightarrow> bool \<Rightarrow> 'prof result"
  ev_of_profiles :: "string \<Rightarrow> json \<Rightarrow> (string \<times> 'prof) list \<Rightarrow> bool \<Rightarrow> 'sh EvaluatedBody result"
  ev_sweep :: "json \<Rightarrow> (string \<times> 'prof) list \<Rightarrow> 'sh body_pool \<Rightarrow> 'sh NamingRegistry option \<Rightarrow> bool \<Rightarrow>
    ('sh EvaluatedBody \<times> 'sh NamingRegistry option) result"
  ev_harvest_birth :: "string \<Rightarrow> json \<Rightarrow> 'sh EvaluatedBody \<Rightarrow> (string \<times> 'prof) list \<Rightarrow> 'sh body_pool \<Rightarrow>
    'sh NamingRegistry \<Rightarrow> bool \<Rightarrow> 'sh NamingRegistry result"
  ev_sketch_construction :: "('sh, unit) sketch_evaluator"
  ev_sketch_boundary :: "('sh, unit) sketch_evaluator"
  ev_sketch_region :: "('sh, 'prof option) sketch_evaluator"
  ev_sketch_path :: "('sh, 'path option) sketch_evaluator"
  ev_body :: "string \<Rightarrow> ('sh, 'prof, 'path, 'sh EvaluatedBody) evaluator"
  ev_datum :: "string \<Rightarrow> ('sh, 'prof, 'path, unit) evaluator"
  ev_unfold :: "('sh, 'prof, 'path, 'sh EvaluatedBody list) evaluator"
  ev_mold_surface :: "json \<Rightarrow> ('sh, 'prof, 'path, 'sh EvaluatedBody) evaluator"
  ev_mold_split :: "json \<Rightarrow> ('sh, 'prof, 'path, 'sh EvaluatedBody list) evaluator"

section \<open>Root births\<close>

definition produce :: "'sh EvaluatedBody \<Rightarrow> ('sh, 'prof, 'path) exec_state \<Rightarrow> ('sh, 'prof, 'path) exec_state" where
  "produce body st = st\<lparr>ex_pool := Produce body (ex_pool st)\<rparr>"

definition birth_book :: "('sh, 'prof, 'path) evaluators \<Rightarrow> 'sh EvaluatedBody \<Rightarrow> 'sh naming_channel \<Rightarrow> 'sh naming_channel result" where
  "birth_book ev body ch =
     (case channel_book ch of
        None \<Rightarrow> Inr ch
      | Some book \<Rightarrow> rbind (AddPrimitive (ev_occt ev) (operationId body) (shape body) book) (\<lambda>b. Inr (set_book b ch)))"

definition birth_registry ::
  "('sh, 'prof, 'path) evaluators \<Rightarrow> json \<Rightarrow> string \<Rightarrow> 'sh EvaluatedBody \<Rightarrow> ('sh, 'prof, 'path) exec_state \<Rightarrow> bool \<Rightarrow>
   'sh naming_channel \<Rightarrow> 'sh naming_channel result" where
  "birth_registry ev op opType body st cancelled ch =
     (case channel_registry ch of
        None \<Rightarrow> Inr ch
      | Some r \<Rightarrow>
          rbind (if opType = ''import_step'' \<or> opType = ''import_mesh''
                 then HarvestImportedBody (ev_occt ev) (ev_geometry ev) (operationId body) (outputIndex body)
                        (shape body) cancelled r
                 else ev_harvest_birth ev opType op body (ex_profiles st) (ex_pool st) r cancelled)
            (\<lambda>r'. Inr (set_registry (Some r') ch)))"

definition produceRoot ::
  "('sh, 'prof, 'path) evaluators \<Rightarrow> json \<Rightarrow> string \<Rightarrow> bool \<Rightarrow> ('sh, 'prof, 'path) exec_state \<Rightarrow> 'sh EvaluatedBody \<Rightarrow>
   ('sh, 'prof, 'path) exec_state result" where
  "produceRoot ev op opType cancelled st body =
     rbind (birth_book ev body (ex_naming st)) (\<lambda>ch.
     rbind (birth_registry ev op opType body st cancelled ch) (\<lambda>ch'.
       Inr (produce body (st\<lparr>ex_naming := ch'\<rparr>))))"

section \<open>Dispatch\<close>

definition root_primitives :: "string list" where
  "root_primitives = [''create_box'', ''create_cylinder'', ''create_sphere'', ''create_cone'', ''create_torus'', ''create_wedge'']"

definition body_operations :: "string list" where
  "body_operations = [''boolean_combine'', ''hole'', ''transform'', ''offset'', ''fillet'', ''chamfer'', ''shell'',
     ''mirror'', ''pattern_linear'', ''pattern_circular'', ''edge_flange'', ''boundary_surface'', ''surface_offset'',
     ''stitch'', ''thicken'', ''wire_route'', ''mold_parting_line'', ''mold_shutoff_surface'']"

definition run_body ::
  "('sh, 'prof, 'path, 'r) evaluator \<Rightarrow> json \<Rightarrow> ('sh, 'prof, 'path) exec_state \<Rightarrow> bool \<Rightarrow> ('r \<times> ('sh, 'prof, 'path) exec_state) result" where
  "run_body evaluate op st cancelled =
     rbind (evaluate op st cancelled) (\<lambda>(r, pool, ch). Inr (r, st\<lparr>ex_pool := pool, ex_naming := write_channel (ex_naming st) ch\<rparr>))"

definition produce_one ::
  "('sh, 'prof, 'path, 'sh EvaluatedBody) evaluator \<Rightarrow> json \<Rightarrow> ('sh, 'prof, 'path) exec_state \<Rightarrow> bool \<Rightarrow>
   ('sh, 'prof, 'path) exec_state result" where
  "produce_one evaluate op st cancelled =
     rbind (run_body evaluate op st cancelled) (\<lambda>(body, st'). Inr (produce body st'))"

definition run_sketch ::
  "('sh, 'r) sketch_evaluator \<Rightarrow> json \<Rightarrow> 'sh EvaluatedBody list \<Rightarrow> bool \<Rightarrow> ('sh, 'prof, 'path) exec_state \<Rightarrow>
   ('r \<times> ('sh, 'prof, 'path) exec_state) result" where
  "run_sketch evaluate op bodies cancelled st =
     rbind (evaluate op bodies (channel_registry (ex_naming st)) cancelled) (\<lambda>(r, registry).
       Inr (r, st\<lparr>ex_naming := set_registry registry (ex_naming st)\<rparr>))"

definition execute_sketch ::
  "('sh, 'prof, 'path) evaluators \<Rightarrow> json \<Rightarrow> string \<Rightarrow> ('sh, 'prof, 'path) exec_state \<Rightarrow> bool \<Rightarrow>
   ('sh, 'prof, 'path) exec_state result" where
  "execute_sketch ev op opId st cancelled =
     (let bodies = PeekVisibleBodies (ex_pool st) in
      rbind (run_sketch (ev_sketch_construction ev) op bodies cancelled st) (\<lambda>(_, st1).
      rbind (run_sketch (ev_sketch_boundary ev) op bodies cancelled st1) (\<lambda>(_, st2).
      rbind (run_sketch (ev_sketch_region ev) op bodies cancelled st2) (\<lambda>(region, st3).
        case region of
          Some profile \<Rightarrow> Inr (st3\<lparr>ex_profiles := insert_or_assign opId profile (ex_profiles st3)\<rparr>)
        | None \<Rightarrow>
            rbind (run_sketch (ev_sketch_path ev) op bodies cancelled st3) (\<lambda>(path, st4).
              case path of
                Some p \<Rightarrow> Inr (st4\<lparr>ex_openPaths := insert_or_assign opId p (ex_openPaths st4)\<rparr>)
              | None \<Rightarrow> Inr st4)))))"

definition execute_unfold ::
  "('sh, 'prof, 'path) evaluators \<Rightarrow> json \<Rightarrow> ('sh, 'prof, 'path) exec_state \<Rightarrow> bool \<Rightarrow> ('sh, 'prof, 'path) exec_state result" where
  "execute_unfold ev op st cancelled =
     rbind (run_body (ev_unfold ev) op st cancelled) (\<lambda>(born, st').
       if length born \<noteq> 2
       then Inl (Runtime_error ''unfold must produce exactly two born bodies (folded, flat)'')
       else Inr (produce (born ! 0) (produce (born ! 1) st')))"

definition execute_mold_split ::
  "('sh, 'prof, 'path) evaluators \<Rightarrow> json \<Rightarrow> json \<Rightarrow> ('sh, 'prof, 'path) exec_state \<Rightarrow> bool \<Rightarrow>
   ('sh, 'prof, 'path) exec_state result" where
  "execute_mold_split ev op allOperations st cancelled =
     rbind (run_body (ev_mold_split ev allOperations) op st cancelled) (\<lambda>(born, st').
       if length born < 2
       then Inl (Runtime_error ''mold_tooling_split must produce at least two born bodies (core, cavity)'')
       else Inr (produce (born ! 0) (fold (\<lambda>index. produce (born ! index)) (rev [1..<length born]) st')))"

definition dispatch_operation ::
  "('sh, 'prof, 'path) evaluators \<Rightarrow> json \<Rightarrow> json \<Rightarrow> string \<Rightarrow> string \<Rightarrow> ('sh, 'prof, 'path) exec_state \<Rightarrow> bool \<Rightarrow>
   ('sh, 'prof, 'path) exec_state result" where
  "dispatch_operation ev op allOperations type opId st cancelled =
     (if type \<in> set root_primitives then
        rbind (ev_primitive ev type op cancelled) (produceRoot ev op type cancelled st)
      else if type = ''sketch'' then execute_sketch ev op opId st cancelled
      else if type = ''create_profile'' then
        rbind (ev_profile ev op cancelled) (\<lambda>profile.
          Inr (st\<lparr>ex_profiles := insert_or_assign opId profile (ex_profiles st)\<rparr>))
      else if type = ''extrude'' then produce_one (ev_body ev type) op st cancelled
      else if type = ''base_flange'' then
        rbind (ev_of_profiles ev type op (ex_profiles st) cancelled) (produceRoot ev op type cancelled st)
      else if type = ''revolve'' then
        rbind (jvalue op ''schemaVersion'' get_int 1) (\<lambda>version.
          if 2 \<le> version then produce_one (ev_body ev type) op st cancelled
          else rbind (ev_of_profiles ev type op (ex_profiles st) cancelled) (produceRoot ev op type cancelled st))
      else if type = ''loft'' then
        rbind (ev_of_profiles ev type op (ex_profiles st) cancelled) (produceRoot ev op type cancelled st)
      else if type = ''sweep'' then
        rbind (jvalue op ''schemaVersion'' get_int 1) (\<lambda>version.
        rbind (if 2 \<le> version
               then rbind (rbind (jat op ''parameters'') (\<lambda>p. jat p ''boolean'')) (\<lambda>boolean.
                    rbind (jvalue boolean ''mode'' get_string ''newBody'') (\<lambda>mode. Inr (mode \<noteq> ''newBody'')))
               else Inr False) (\<lambda>combines.
          if combines then produce_one (ev_body ev type) op st cancelled
          else rbind (ev_sweep ev op (ex_profiles st) (ex_pool st) (channel_registry (ex_naming st)) cancelled)
                 (\<lambda>(body, registry).
                    produceRoot ev op type cancelled (st\<lparr>ex_naming := set_registry registry (ex_naming st)\<rparr>) body)))
      else if type \<in> set body_operations then produce_one (ev_body ev type) op st cancelled
      else if type = ''datum_plane'' \<or> type = ''datum_axis'' then
        rbind (run_body (ev_datum ev type) op st cancelled) (\<lambda>(_, st'). Inr st')
      else if type = ''import_step'' then
        rbind (ev_import_step ev op cancelled) (rfold (produceRoot ev op type cancelled) st)
      else if type = ''import_mesh'' then
        rbind (ev_primitive ev type op cancelled) (produceRoot ev op type cancelled st)
      else if type = ''unfold'' then execute_unfold ev op st cancelled
      else if type = ''mold_parting_surface'' then produce_one (ev_mold_surface ev allOperations) op st cancelled
      else if type = ''mold_tooling_split'' then execute_mold_split ev op allOperations st cancelled
      else Inl (Invalid_argument (''unsupported operation: '' @ type)))"

text \<open>The handlers, in the order of the \<open>catch\<close> clauses; other exceptions pass.\<close>

fun attribute_failure :: "string \<Rightarrow> kexn \<Rightarrow> kexn" where
  "attribute_failure opId (Standard_failure what) = Operation_failure opId ''GEOMETRY_FAILED'' what JNull"
| "attribute_failure opId (Invalid_argument message) =
     Operation_failure opId
       (if take (length ''unsupported operation'') message = ''unsupported operation'' then ''UNSUPPORTED_OPERATION''
        else ''INVALID_REQUEST'') message JNull"
| "attribute_failure opId (Runtime_error what) = Operation_failure opId ''INTERNAL_ERROR'' what JNull"
| "attribute_failure opId (Filesystem_error what) = Operation_failure opId ''INTERNAL_ERROR'' what JNull"
| "attribute_failure opId (Protocol_error what) = Operation_failure opId ''INTERNAL_ERROR'' what JNull"
| "attribute_failure opId e = e"

definition ExecuteOperation ::
  "('sh, 'prof, 'path) evaluators \<Rightarrow> json \<Rightarrow> json \<Rightarrow> ('sh, 'prof, 'path) exec_state \<Rightarrow> bool \<Rightarrow>
   ('sh, 'prof, 'path) exec_state result" where
  "ExecuteOperation ev op allOperations st cancelled =
     rbind (CheckCancellation cancelled) (\<lambda>_.
     rbind (rbind (jat op ''type'') get_string) (\<lambda>type.
     rbind (rbind (jat op ''id'') get_string) (\<lambda>opId.
       case dispatch_operation ev op allOperations type opId st cancelled of
         Inl e \<Rightarrow> Inl (attribute_failure opId e)
       | Inr st' \<Rightarrow> Inr st')))"

end
