(* ===== verification/Dispatch_Laws.thy ===== *)
theory Dispatch_Laws
  imports Replay_Dispatch
begin

text \<open>
  Laws of the dispatch: it never redirects the naming pointers, it looks at the other operations of the
  document only for the two mold operations, every failure that leaves it is attributed, and the
  order in which several born bodies enter the pool decides what a later reference means.
\<close>

section \<open>Naming pointers\<close>

fun channel_kind :: "'sh naming_channel \<Rightarrow> nat" where
  "channel_kind No_naming = 0"
| "channel_kind (Bare_book _) = 1"
| "channel_kind (With_registry _) = 2"

named_theorems kind_simps \<open>operations that keep the kind of a naming channel\<close>

lemma channel_kind_write [simp]: "channel_kind (write_channel ch ch') = channel_kind ch"
  by (cases ch; cases ch') (simp_all add: write_channel_def)

lemma channel_kind_set_registry [simp]: "channel_kind (set_registry r ch) = channel_kind ch"
  by (cases ch; cases r) (simp_all add: set_registry_def)

lemma channel_kind_set_book [simp]: "channel_kind (set_book b ch) = channel_kind ch"
  by (cases ch) (simp_all add: set_book_def)

lemma produce_naming [simp]: "ex_naming (produce b st) = ex_naming st"
  by (simp add: produce_def)

lemma produceRoot_kind: "produceRoot ev op t c st b = Inr st' \<Longrightarrow> channel_kind (ex_naming st') = channel_kind (ex_naming st)"
  by (auto simp: produceRoot_def birth_book_def birth_registry_def rbind_eq_Inr split: option.splits)

lemma run_body_kind: "run_body f op st c = Inr (r, st') \<Longrightarrow> channel_kind (ex_naming st') = channel_kind (ex_naming st)"
  by (auto simp: run_body_def rbind_eq_Inr)

lemma produce_one_kind: "produce_one f op st c = Inr st' \<Longrightarrow> channel_kind (ex_naming st') = channel_kind (ex_naming st)"
  by (auto simp: produce_one_def rbind_eq_Inr dest: run_body_kind)

lemma run_sketch_kind: "run_sketch f op bs c st = Inr (r, st') \<Longrightarrow> channel_kind (ex_naming st') = channel_kind (ex_naming st)"
  by (auto simp: run_sketch_def rbind_eq_Inr)

lemma execute_sketch_kind:
  "execute_sketch ev op i st c = Inr st' \<Longrightarrow> channel_kind (ex_naming st') = channel_kind (ex_naming st)"
  by (auto simp: execute_sketch_def Let_def rbind_eq_Inr dest!: run_sketch_kind split: option.splits)

lemma fold_produce_naming [simp]: "ex_naming (fold (\<lambda>i. produce (f i)) is st) = ex_naming st"
  by (induction "is" arbitrary: st) simp_all

lemma execute_unfold_kind: "execute_unfold ev op st c = Inr st' \<Longrightarrow> channel_kind (ex_naming st') = channel_kind (ex_naming st)"
  by (auto simp: execute_unfold_def rbind_eq_Inr dest!: run_body_kind split: if_splits)

lemma execute_mold_split_kind:
  "execute_mold_split ev op all st c = Inr st' \<Longrightarrow> channel_kind (ex_naming st') = channel_kind (ex_naming st)"
  by (auto simp: execute_mold_split_def rbind_eq_Inr dest!: run_body_kind split: if_splits)

lemma rfold_produceRoot_kind:
  "rfold (produceRoot ev op t c) st bs = Inr st' \<Longrightarrow> channel_kind (ex_naming st') = channel_kind (ex_naming st)"
  by (rule rfold_rel [of "produceRoot ev op t c"]) (auto dest: produceRoot_kind)

definition keeps_kind :: "('sh, 'prof, 'path) exec_state \<Rightarrow> ('sh, 'prof, 'path) exec_state result \<Rightarrow> bool" where
  "keeps_kind st m \<longleftrightarrow> (\<forall>st'. m = Inr st' \<longrightarrow> channel_kind (ex_naming st') = channel_kind (ex_naming st))"

named_theorems keeps_intros \<open>rules for calls that keep the naming pointers\<close>

lemma keeps_if [keeps_intros]: "keeps_kind st a \<Longrightarrow> keeps_kind st b \<Longrightarrow> keeps_kind st (if c then a else b)"
  by simp

lemma keeps_Inl [keeps_intros]: "keeps_kind st (Inl e)"
  by (simp add: keeps_kind_def)

lemma keeps_Inr [keeps_intros]: "channel_kind (ex_naming st') = channel_kind (ex_naming st) \<Longrightarrow> keeps_kind st (Inr st')"
  by (simp add: keeps_kind_def)

lemma keeps_bind [keeps_intros]: "(\<And>x. m = Inr x \<Longrightarrow> keeps_kind st (f x)) \<Longrightarrow> keeps_kind st (rbind m f)"
  by (cases m) (simp_all add: keeps_kind_def)

lemma keeps_calls [keeps_intros]:
  "channel_kind (ex_naming st') = channel_kind (ex_naming st) \<Longrightarrow> keeps_kind st (produceRoot ev op t c st' b)"
  "keeps_kind st (produce_one g op st c)"
  "keeps_kind st (execute_sketch ev op i st c)"
  "keeps_kind st (execute_unfold ev op st c)"
  "keeps_kind st (execute_mold_split ev op all st c)"
  "keeps_kind st (rfold (produceRoot ev op t c) st bs)"
  by (auto simp: keeps_kind_def dest: produceRoot_kind produce_one_kind execute_sketch_kind execute_unfold_kind
      execute_mold_split_kind rfold_produceRoot_kind)

lemma keeps_pair [keeps_intros]: "(\<And>a b. p = (a, b) \<Longrightarrow> keeps_kind st (f a b)) \<Longrightarrow> keeps_kind st (case p of (a, b) \<Rightarrow> f a b)"
  by (cases p) simp

lemma dispatch_keeps: "keeps_kind st (dispatch_operation ev op all t i st c)"
  unfolding dispatch_operation_def by (intro keeps_intros) (auto dest: run_body_kind)

lemma ExecuteOperation_kind:
  assumes "ExecuteOperation ev op all st c = Inr st'"
  shows "channel_kind (ex_naming st') = channel_kind (ex_naming st)"
proof -
  obtain t i where "dispatch_operation ev op all t i st c = Inr st'"
    using assms by (auto simp: ExecuteOperation_def rbind_def split: sum.splits)
  then show ?thesis using dispatch_keeps unfolding keeps_kind_def by blast
qed

section \<open>Reach-back to the document\<close>

definition reach_back_operations :: "string list" where
  "reach_back_operations = [''mold_parting_surface'', ''mold_tooling_split'']"

definition reaches_back :: "json \<Rightarrow> bool" where
  "reaches_back op \<longleftrightarrow> (\<exists>t \<in> set reach_back_operations. jat op ''type'' = Inr (JString t))"

lemma ExecuteOperation_local:
  assumes "\<not> reaches_back op"
  shows "ExecuteOperation ev op all st c = ExecuteOperation ev op all' st c"
proof -
  have "dispatch_operation ev op all t i st c = dispatch_operation ev op all' t i st c"
    if "t \<notin> set reach_back_operations" for t i
    using that by (simp add: dispatch_operation_def reach_back_operations_def)
  moreover have "t \<notin> set reach_back_operations" if "jat op ''type'' = Inr (JString t)" for t
    using assms that by (auto simp: reaches_back_def)
  ultimately show ?thesis unfolding ExecuteOperation_def
    by (intro rbind_cong refl) (auto simp: rbind_eq_Inr)
qed

text \<open>A raised cancellation flag stops the operation before anything else happens.\<close>

lemma ExecuteOperation_cancelled [simp]: "ExecuteOperation ev op all st True = Inl Cancelled"
  by (simp add: ExecuteOperation_def CheckCancellation_def)

lemma ExecuteOperation_Inr_not_cancelled: "ExecuteOperation ev op all st c = Inr st' \<Longrightarrow> \<not> c"
  by (cases c) simp_all

section \<open>A sample host\<close>

text \<open>Solids are numbers without sub-shapes; the evaluators the examples need.\<close>

definition sample_probes :: ShapeProbes where
  "sample_probes = \<lparr>valid = True, volume = 0, surfaceArea = 0, centerOfMass = [0, 0, 0], bounds = [0, 0, 0, 0, 0, 0],
     solidCount = 1, shellCount = 1, faceCount = 6, edgeCount = 12, vertexCount = 8\<rparr>"

definition sample_body :: "string \<Rightarrow> int \<Rightarrow> nat \<Rightarrow> nat EvaluatedBody" where
  "sample_body i output solid = \<lparr>bodyId = i @ ''-b'', operationId = i, outputIndex = output, shape = solid, probes = sample_probes\<rparr>"

definition sample_id :: "json \<Rightarrow> string" where
  "sample_id op = (case jfind op ''id'' of Some (JString s) \<Rightarrow> s | _ \<Rightarrow> [])"

definition sample_host :: "(nat, unit, unit) evaluators" where
  "sample_host =
     \<lparr>ev_occt = \<lparr>shape_type = (\<lambda>_. OTHER_SHAPE), map_shapes = (\<lambda>_ _. []), quantum_for = (\<lambda>_. 0), quantized_measures = (\<lambda>_ _. (0, 0, 0, 0))\<rparr>,
      ev_geometry = (\<lambda>_. (0, 0, 0, 0, 0)),
      ev_primitive = (\<lambda>t op c. if t = ''create_box'' then Inr (sample_body (sample_id op) 0 7) else Inl (Standard_failure t)),
      ev_import_step = (\<lambda>op c. Inr []), ev_profile = (\<lambda>op c. Inr ()),
      ev_of_profiles = (\<lambda>t op ps c. Inl (Invalid_argument t)),
      ev_sweep = (\<lambda>op ps pool r c. Inl (Invalid_argument [])),
      ev_harvest_birth = (\<lambda>t op b ps pool r c. Inr r),
      ev_sketch_construction = (\<lambda>op bs r c. Inr ((), r)), ev_sketch_boundary = (\<lambda>op bs r c. Inr ((), r)),
      ev_sketch_region = (\<lambda>op bs r c. Inr (None, r)), ev_sketch_path = (\<lambda>op bs r c. Inr (None, r)),
      ev_body = (\<lambda>t op st c. Inl (Runtime_error t)), ev_datum = (\<lambda>t op st c. Inr ((), ex_pool st, ex_naming st)),
      ev_unfold = (\<lambda>op st c. Inr ([sample_body (sample_id op) 0 1, sample_body (sample_id op) 1 2], ex_pool st, ex_naming st)),
      ev_mold_surface = (\<lambda>all op st c. Inl (Runtime_error [])),
      ev_mold_split = (\<lambda>all op st c. Inr ([sample_body (sample_id op) 0 3, sample_body (sample_id op) 1 4, sample_body (sample_id op) 2 5],
         ex_pool st, ex_naming st))\<rparr>"

definition sample_op :: "string \<Rightarrow> string \<Rightarrow> json" where
  "sample_op t i = JObject [(''id'', JString i), (''type'', JString t)]"

definition empty_exec :: "('sh, 'prof, 'path) exec_state" where
  "empty_exec = \<lparr>ex_pool = body_pool_new, ex_profiles = [], ex_openPaths = [], ex_naming = No_naming\<rparr>"

section \<open>Properties\<close>



lemma fold_produce_pool:
  "ex_pool (fold (\<lambda>i. produce (f i)) is st) = fold (\<lambda>i. Produce (f i)) is (ex_pool st)"
  by (induction "is" arbitrary: st) (simp_all add: produce_def)

lemma fold_Produce_bodies: "pool_bodies (fold (\<lambda>i. Produce (f i)) is pool) = pool_bodies pool @ map f is"
  by (induction "is" arbitrary: pool) (simp_all add: Produce_def)

lemma pool_ok_fold_Produce: "pool_ok pool \<Longrightarrow> pool_ok (fold (\<lambda>i. Produce (f i)) is pool)"
  by (induction "is" arbitrary: pool) (simp_all add: pool_ok_Produce)

lemma visible_Produce: "pool_ok pool \<Longrightarrow> PeekVisibleBodies (Produce b pool) = PeekVisibleBodies pool @ [b]"
  using visible_loop_append [of "pool_consumed pool" "pool_bodies pool" "[b]" "[False]"]
  by (simp add: PeekVisibleBodies_def Produce_def pool_ok_def)

lemma visible_fold_Produce:
  "pool_ok pool \<Longrightarrow> PeekVisibleBodies (fold (\<lambda>i. Produce (f i)) is pool) = PeekVisibleBodies pool @ map f is"
  by (induction "is" arbitrary: pool) (simp_all add: pool_ok_Produce visible_Produce)

lemma Consume_Produce: "Consume c d r (operationId b) (Produce b pool) = Inr (shape b,
    (Produce b pool)\<lparr>availableByOperationId := (availableByOperationId (Produce b pool))(operationId b := None),
       pool_consumed := (pool_consumed (Produce b pool))[length (pool_bodies pool) := True]\<rparr>)"
  by (simp add: Consume_def Produce_def nth_append)

text \<open>Several bodies born of one operation: after a mold tooling split every born body is visible, in
  reverse order of birth after the bodies that were there, and a reference to the operation consumes
  the first born one (the core), whatever ids the others have.\<close>

theorem multi_birth_resolves_to_first:
  assumes "ev_mold_split ev allOperations op st cancelled = Inr (born, pool, ch)"
    and "execute_mold_split ev op allOperations st cancelled = Inr st'" and "pool_ok pool"
  shows "PeekVisibleBodies (ex_pool st') = PeekVisibleBodies pool @ rev born \<and>
    (\<exists>pool'. Consume c d r (operationId (hd born)) (ex_pool st') = Inr (shape (hd born), pool') \<and> pool_ok pool')"
proof -
  let ?later = "fold (\<lambda>i. Produce (born ! i)) (rev [1..<length born]) pool"
  have len: "2 \<le> length born" and st': "ex_pool st' = Produce (born ! 0) ?later"
    using assms(1,2) by (auto simp: execute_mold_split_def run_body_def produce_def fold_produce_pool not_less split: if_splits)
  then obtain b bs where born: "born = b # bs" by (cases born) auto
  have "map ((!) born) [1..<length born] = bs" by (rule nth_equalityI) (simp_all add: born del: upt_Suc)
  then have "map ((!) born) (rev [1..<length born]) = rev bs" by (simp only: rev_map [symmetric])
  then have vis: "PeekVisibleBodies ?later = PeekVisibleBodies pool @ rev bs"
    using visible_fold_Produce [OF assms(3), of "(!) born"] by simp
  have ok: "pool_ok ?later" by (rule pool_ok_fold_Produce [OF assms(3)])
  have "PeekVisibleBodies (ex_pool st') = PeekVisibleBodies pool @ rev born"
    unfolding st' visible_Produce [OF ok] vis by (simp add: born)
  moreover obtain pool' where "Consume c d r (operationId b) (ex_pool st') = Inr (shape b, pool')"
    unfolding st' using Consume_Produce [of c d r b ?later] by (simp only: born nth_Cons_0)
  moreover have "pool_ok pool'" if "Consume c d r (operationId b) (ex_pool st') = Inr (shape b, pool')" for pool'
    by (rule pool_ok_Consume [OF pool_ok_Produce [OF ok] that [unfolded st']])
  ultimately show ?thesis by (auto simp: born)
qed

theorem multi_birth_resolves_to_first_witness:
  "\<exists>st' pool'. execute_mold_split sample_host (sample_op ''mold_tooling_split'' ''m'') (JArray []) empty_exec False = Inr st' \<and>
     map shape (PeekVisibleBodies (ex_pool st')) = [5, 4, 3] \<and>
     Consume ''u'' ''transform'' ''target'' ''m'' (ex_pool st') = Inr (3, pool')"
proof -
  let ?op = "sample_op ''mold_tooling_split'' ''m''"
  let ?born = "[sample_body ''m'' 0 3, sample_body ''m'' 1 4, sample_body ''m'' 2 5]"
  have ev: "ev_mold_split sample_host (JArray []) ?op (empty_exec :: (nat, unit, unit) exec_state) False =
      Inr (?born, body_pool_new, No_naming)"
    by (simp add: sample_host_def empty_exec_def sample_op_def sample_id_def)
  then obtain st' where st': "execute_mold_split sample_host ?op (JArray []) empty_exec False = Inr st'"
    unfolding execute_mold_split_def run_body_def ev by simp
  note split = multi_birth_resolves_to_first [OF ev st' pool_ok_new, of "''u''" "''transform''" "''target''"]
  have "map shape (PeekVisibleBodies (ex_pool st')) = [5, 4, 3]"
    unfolding conjunct1 [OF split] by (simp add: sample_body_def PeekVisibleBodies_def body_pool_new_def)
  moreover obtain pool' where "Consume ''u'' ''transform'' ''target'' ''m'' (ex_pool st') = Inr (3, pool')"
    using conjunct2 [OF split] by (auto simp: sample_body_def)
  ultimately show ?thesis by (intro exI [of _ st'] exI [of _ pool'] conjI) (rule st')
qed

end
