(* ===== verification/Replay.thy ===== *)
theory Replay
  imports Replay_Dispatch Replay_Cache Operation_Hash
begin

text \<open>
  The replay engine of \<open>geometry.cpp\<close>: the resumable state of an evaluation with its snapshots,
  the test for documents that need a naming registry, the cold evaluation
  (\<open>EvaluateOperations\<close>) and the one that restores the longest cached prefix
  (\<open>DocumentEvaluator::Evaluate\<close>). The cancellation flag is read per operation, as a
  function of its index. The scoped deadline acts on an evaluation only through that flag, so of
  it only the computation of its argument is left here.
\<close>

section \<open>Evaluation state\<close>

record ('sh, 'prof, 'path) EvaluationState =
  es_pool :: "'sh body_pool"
  es_profiles :: "(string \<times> 'prof) list"
  es_openPaths :: "(string \<times> 'path) list"
  es_book :: "'sh ElementNameBook option"
  es_registry :: "'sh NamingRegistry option"

record ('sh, 'prof, 'path) state_snapshot =
  sn_pool :: "'sh pool_snapshot"
  sn_profiles :: "(string \<times> 'prof) list"
  sn_openPaths :: "(string \<times> 'path) list"
  sn_book :: "'sh book_snapshot option"

definition NamingBook :: "('sh, 'prof, 'path) EvaluationState \<Rightarrow> 'sh ElementNameBook option" where
  "NamingBook st = (case es_registry st of Some r \<Rightarrow> Some (reg_book r) | None \<Rightarrow> es_book st)"

definition TakeSnapshot :: "('sh, 'prof, 'path) EvaluationState \<Rightarrow> ('sh, 'prof, 'path) state_snapshot" where
  "TakeSnapshot st =
     \<lparr>sn_pool = pool_TakeSnapshot (es_pool st), sn_profiles = es_profiles st, sn_openPaths = es_openPaths st,
      sn_book = map_option book_TakeSnapshot (NamingBook st)\<rparr>"

definition restore_book :: "'sh book_snapshot option \<Rightarrow> ('sh, 'prof, 'path) EvaluationState \<Rightarrow> ('sh, 'prof, 'path) EvaluationState" where
  "restore_book snap st =
     (case snap of
        Some b \<Rightarrow>
          (case es_registry st of
             Some r \<Rightarrow> st\<lparr>es_registry := Some (r\<lparr>reg_book := book_RestoreFrom b (reg_book r)\<rparr>)\<rparr>
           | None \<Rightarrow> st\<lparr>es_book := Some (book_RestoreFrom b (case es_book st of Some book \<Rightarrow> book | None \<Rightarrow> book_new))\<rparr>)
      | None \<Rightarrow> if es_registry st = None then st\<lparr>es_book := None\<rparr> else st)"

definition RestoreFrom :: "('sh, 'prof, 'path) state_snapshot \<Rightarrow> ('sh, 'prof, 'path) EvaluationState \<Rightarrow> ('sh, 'prof, 'path) EvaluationState" where
  "RestoreFrom snap st =
     restore_book (sn_book snap)
       (st\<lparr>es_pool := pool_RestoreFrom (sn_pool snap) (es_pool st), es_profiles := sn_profiles snap,
           es_openPaths := sn_openPaths snap\<rparr>)"

text \<open>
  The byte estimate. The keys of the pool's index are ids of its bodies; \<open>size_t\<close> arithmetic wraps.
\<close>

definition available_ids :: "'sh pool_snapshot \<Rightarrow> string list" where
  "available_ids snap = filter (\<lambda>i. snap_available snap i \<noteq> None) (remdups (map operationId (snap_bodies snap)))"

definition EstimateSnapshotBytes :: "('sh, 'prof, 'path) state_snapshot \<Rightarrow> u64" where
  "EstimateSnapshotBytes snap =
     512 +
     sum_list (map (\<lambda>body.
       128 + of_nat (length (bodyId body)) + of_nat (length (operationId body)) +
       (word_of_int (solidCount (probes body)) + word_of_int (shellCount (probes body)) +
        word_of_int (faceCount (probes body)) + word_of_int (edgeCount (probes body)) +
        word_of_int (vertexCount (probes body))) * 1024) (snap_bodies (sn_pool snap))) +
     sum_list (map (\<lambda>i. 48 + of_nat (length i)) (available_ids (sn_pool snap))) +
     sum_list (map (\<lambda>(i, p). 48 + of_nat (length i) + 512) (sn_profiles snap)) +
     (case sn_book snap of None \<Rightarrow> 0 | Some book \<Rightarrow> of_nat (card (dom (snap_names book))) * (48 + 64))"

section \<open>Documents\<close>

definition JsonIsRefSlot :: "json \<Rightarrow> bool" where
  "JsonIsRefSlot value \<longleftrightarrow>
     is_object value \<and> jcontains value ''arity'' \<and> jcontains value ''onEmpty'' \<and>
     (jcontains value ''ast'' \<or> jcontains value ''query'')"

fun ContainsRefSlot :: "json \<Rightarrow> bool" where
  "ContainsRefSlot (JObject kvs) \<longleftrightarrow> JsonIsRefSlot (JObject kvs) \<or> list_ex (\<lambda>(k, v). ContainsRefSlot v) kvs"
| "ContainsRefSlot (JArray js) \<longleftrightarrow> list_ex ContainsRefSlot js"
| "ContainsRefSlot _ \<longleftrightarrow> False"

definition DocumentRequiresNamingRegistry :: "json \<Rightarrow> bool" where
  "DocumentRequiresNamingRegistry operations \<longleftrightarrow>
     is_array operations \<and>
     list_ex (\<lambda>op. is_object op \<and>
       (case jfind op ''parameters'' of Some parameters \<Rightarrow> ContainsRefSlot parameters | None \<Rightarrow> False))
       (elements operations)"

definition suppressed :: "json \<Rightarrow> bool result" where
  "suppressed op =
     (case jfind op ''metadata'' of
        Some metadata \<Rightarrow> if is_object metadata then jvalue metadata ''suppressed'' get_bool False else Inr False
      | None \<Rightarrow> Inr False)"

section \<open>Cold evaluation\<close>

definition scoped_execute ::
  "('sh, 'prof, 'path) evaluators \<Rightarrow> json \<Rightarrow> json \<Rightarrow> bool \<Rightarrow> ('sh, 'prof, 'path) exec_state \<Rightarrow> ('sh, 'prof, 'path) exec_state result" where
  "scoped_execute ev op allOperations cancelled st =
     rbind (jvalue op ''id'' get_string []) (\<lambda>_. ExecuteOperation ev op allOperations st cancelled)"

definition operation_step ::
  "('sh, 'prof, 'path) evaluators \<Rightarrow> json \<Rightarrow> (nat \<Rightarrow> bool) \<Rightarrow> ('sh, 'prof, 'path) exec_state \<Rightarrow> nat \<times> json \<Rightarrow> ('sh, 'prof, 'path) exec_state result" where
  "operation_step ev allOperations cancelled st = (\<lambda>(index, op).
     rbind (suppressed op) (\<lambda>skip. if skip then Inr st else scoped_execute ev op allOperations (cancelled index) st))"

definition indexed :: "nat \<Rightarrow> 'a list \<Rightarrow> (nat \<times> 'a) list" where
  "indexed start xs = drop start (zip [0..<length xs] xs)"

text \<open>The bodies of a cold evaluation, with the naming state its caller's pointers see afterwards.\<close>

definition EvaluateOperations ::
  "('sh, 'prof, 'path) evaluators \<Rightarrow> json \<Rightarrow> (nat \<Rightarrow> bool) \<Rightarrow> 'sh ElementNameBook option \<Rightarrow> 'sh NamingRegistry option \<Rightarrow>
   ('sh EvaluatedBody list \<times> 'sh naming_channel) result" where
  "EvaluateOperations ev operations cancelled elementNames registry =
     (if \<not> is_array operations then Inl (Invalid_argument ''operations must be an array'')
      else if registry \<noteq> None \<and> elementNames \<noteq> None
      then Inl (Runtime_error ''evaluate: pass either an element-name book or a naming registry, never both'')
      else
        rbind (rfold (operation_step ev operations cancelled)
                 \<lparr>ex_pool = body_pool_new, ex_profiles = [], ex_openPaths = [],
                  ex_naming = (case registry of Some r \<Rightarrow> With_registry r
                    | None \<Rightarrow> (case elementNames of Some b \<Rightarrow> Bare_book b | None \<Rightarrow> No_naming))\<rparr>
                 (indexed 0 (elements operations)))
          (\<lambda>st. Inr (TakeVisibleBodies (ex_pool st), ex_naming st)))"

section \<open>Evaluation with a replay cache\<close>

record evaluate_request =
  rq_operations :: json
  rq_documentId :: string
  rq_kernelGeomVersion :: string
  rq_includeElementNames :: bool
  rq_reuseEnabled :: bool
  rq_cancelled :: "nat \<Rightarrow> bool"

record 'sh evaluate_result =
  res_bodies :: "'sh EvaluatedBody list"
  res_elementNames :: "'sh ElementNameBook option"
  res_executedOperationCount :: nat

definition initial_state :: "evaluate_request \<Rightarrow> ('sh, 'prof, 'path) EvaluationState" where
  "initial_state rq =
     (let registry = DocumentRequiresNamingRegistry (rq_operations rq) in
      \<lparr>es_pool = body_pool_new, es_profiles = [], es_openPaths = [],
       es_book = (if \<not> registry \<and> rq_includeElementNames rq then Some book_new else None),
       es_registry = (if registry then Some registry_new else None)\<rparr>)"

text \<open>The search for the longest cached prefix, from the whole document down to one operation.\<close>

fun longest_prefix :: "string list \<Rightarrow> nat \<Rightarrow> 'snap replay_cache \<Rightarrow> (nat \<times> 'snap) option \<times> 'snap replay_cache" where
  "longest_prefix hashes 0 cache = (None, cache)"
| "longest_prefix hashes (Suc n) cache =
     (case Get (hashes ! Suc n) cache of
        (Some cached, cache') \<Rightarrow> (Some (Suc n, cached), cache')
      | (None, cache') \<Rightarrow> longest_prefix hashes n cache')"

text \<open>
  The naming pointers of an operation of the executed tail, and the state after it: the book pointer is
  \<open>NamingBook()\<close>, the registry pointer is null after a restored prefix.
\<close>

definition to_exec :: "bool \<Rightarrow> ('sh, 'prof, 'path) EvaluationState \<Rightarrow> ('sh, 'prof, 'path) exec_state" where
  "to_exec fresh st =
     \<lparr>ex_pool = es_pool st, ex_profiles = es_profiles st, ex_openPaths = es_openPaths st,
      ex_naming = (case es_registry st of
          Some r \<Rightarrow> if fresh then With_registry r else Bare_book (reg_book r)
        | None \<Rightarrow> (case es_book st of Some b \<Rightarrow> Bare_book b | None \<Rightarrow> No_naming))\<rparr>"

definition of_exec :: "('sh, 'prof, 'path) EvaluationState \<Rightarrow> ('sh, 'prof, 'path) exec_state \<Rightarrow> ('sh, 'prof, 'path) EvaluationState" where
  "of_exec st ex =
     (let st' = st\<lparr>es_pool := ex_pool ex, es_profiles := ex_profiles ex, es_openPaths := ex_openPaths ex\<rparr> in
      case ex_naming ex of
        No_naming \<Rightarrow> st'
      | With_registry r \<Rightarrow> st'\<lparr>es_registry := Some r\<rparr>
      | Bare_book b \<Rightarrow>
          (case es_registry st of Some r \<Rightarrow> st'\<lparr>es_registry := Some (r\<lparr>reg_book := b\<rparr>)\<rparr> | None \<Rightarrow> st'\<lparr>es_book := Some b\<rparr>))"

definition tail_step ::
  "('sh, 'prof, 'path) evaluators \<Rightarrow> evaluate_request \<Rightarrow> bool \<Rightarrow> ('sh, 'prof, 'path) EvaluationState \<Rightarrow> nat \<times> json \<Rightarrow>
   ('sh, 'prof, 'path) EvaluationState result" where
  "tail_step ev rq fresh st = (\<lambda>(index, op).
     rbind (suppressed op) (\<lambda>skip.
       if skip then Inr st
       else rbind (scoped_execute ev op (rq_operations rq) (rq_cancelled rq index) (to_exec fresh st)) (\<lambda>ex. Inr (of_exec st ex))))"

text \<open>The loop over the tail; after every operation, executed or skipped, the state is cached.\<close>

fun tail_loop ::
  "('sh, 'prof, 'path) evaluators \<Rightarrow> evaluate_request \<Rightarrow> bool \<Rightarrow> string list \<Rightarrow> (nat \<times> json) list \<Rightarrow>
   ('sh, 'prof, 'path) EvaluationState \<Rightarrow> ('sh, 'prof, 'path) state_snapshot replay_cache \<Rightarrow>
   ('sh, 'prof, 'path) EvaluationState result \<times> ('sh, 'prof, 'path) state_snapshot replay_cache" where
  "tail_loop ev rq fresh hashes [] st cache = (Inr st, cache)"
| "tail_loop ev rq fresh hashes ((index, op) # ops) st cache =
     (case tail_step ev rq fresh st (index, op) of
        Inl e \<Rightarrow> (Inl e, cache)
      | Inr st' \<Rightarrow>
          tail_loop ev rq fresh hashes ops st'
            (if rq_reuseEnabled rq
             then Put EstimateSnapshotBytes (hashes ! (index + 1)) (TakeSnapshot st') cache else cache))"

definition result_of ::
  "evaluate_request \<Rightarrow> nat \<Rightarrow> ('sh, 'prof, 'path) EvaluationState \<Rightarrow> 'sh evaluate_result" where
  "result_of rq startIndex st =
     \<lparr>res_bodies = PeekVisibleBodies (es_pool st),
      res_elementNames = (if rq_includeElementNames rq then NamingBook st else None),
      res_executedOperationCount = length (elements (rq_operations rq)) - startIndex\<rparr>"

definition Evaluate ::
  "('sh, 'prof, 'path) evaluators \<Rightarrow> evaluate_request \<Rightarrow> ('sh, 'prof, 'path) state_snapshot replay_cache \<Rightarrow>
   'sh evaluate_result result \<times> ('sh, 'prof, 'path) state_snapshot replay_cache" where
  "Evaluate ev rq cache =
     (if \<not> is_array (rq_operations rq) then (Inl (Invalid_argument ''operations must be an array''), cache)
      else
        let ops = elements (rq_operations rq); state = initial_state rq in
        case (if rq_reuseEnabled rq
              then CumulativeOperationHashes (rq_documentId rq) (rq_kernelGeomVersion rq) (rq_operations rq) else Inr []) of
          Inl e \<Rightarrow> (Inl e, cache)
        | Inr hashes \<Rightarrow>
            let (found, cache1) = (if rq_reuseEnabled rq then longest_prefix hashes (length ops) cache else (None, cache));
                (startIndex, state1) = (case found of Some (n, cached) \<Rightarrow> (n, RestoreFrom cached state) | None \<Rightarrow> (0, state));
                cache2 = (if rq_reuseEnabled rq then RecordPrefixOutcome (0 < startIndex) cache1 else cache1);
                (outcome, cache3) = tail_loop ev rq (startIndex = 0) hashes (indexed startIndex ops) state1 cache2
            in (rbind outcome (\<lambda>st. Inr (result_of rq startIndex st)), cache3))"

text \<open>The requests of a session, in order, on one cache.\<close>

definition session ::
  "('sh, 'prof, 'path) evaluators \<Rightarrow> evaluate_request list \<Rightarrow> ('sh, 'prof, 'path) state_snapshot replay_cache \<Rightarrow>
   ('sh, 'prof, 'path) state_snapshot replay_cache" where
  "session ev rqs cache = fold (\<lambda>rq c. snd (Evaluate ev rq c)) rqs cache"

end
