(* ===== verification/Replay_Laws.thy ===== *)
theory Replay_Laws
  imports Replay Dispatch_Laws Hash_Chain
begin

text \<open>
  What a replay preserves: the equivalence of the two cold evaluations, and the invariant of the
  replay cache over a session of requests (every entry is the cold state of a prefix of one of
  its documents), from which a warm evaluation returns what a cold one would. The last section
  shows two kinds of document for which the cache key is too coarse.
\<close>

section \<open>Naming state of the tail\<close>

lemma to_of_exec:
  "channel_kind (ex_naming ex) = channel_kind (ex_naming (to_exec True st)) \<Longrightarrow> to_exec True (of_exec st ex) = ex"
  by (cases "ex_naming ex") (auto simp: to_exec_def of_exec_def Let_def split: option.splits if_splits)

lemma scoped_execute_kind:
  "scoped_execute ev op all c ex = Inr ex' \<Longrightarrow> channel_kind (ex_naming ex') = channel_kind (ex_naming ex)"
  by (auto simp: scoped_execute_def rbind_eq_Inr dest: ExecuteOperation_kind)

lemma tail_loop_outcome: "fst (tail_loop ev rq fresh hashes ops st cache) = rfold (tail_step ev rq fresh) st ops"
  by (induction ops arbitrary: st cache) (auto split: sum.splits)

lemma tail_step_simulates:
  "rbind (tail_step ev rq True st a) (\<lambda>st'. Inr (to_exec True st')) =
   operation_step ev (rq_operations rq) (rq_cancelled rq) (to_exec True st) a"
proof (cases a)
  case (Pair index op)
  let ?ex = "scoped_execute ev op (rq_operations rq) (rq_cancelled rq index) (to_exec True st)"
  have "to_exec True (of_exec st ex) = ex" if "?ex = Inr ex" for ex
    using scoped_execute_kind [OF that] by (rule to_of_exec)
  then show ?thesis
    by (cases "suppressed op"; cases ?ex) (auto simp: Pair tail_step_def operation_step_def)
qed

lemma tail_simulates:
  "rbind (rfold (tail_step ev rq True) st ops) (\<lambda>st'. Inr (to_exec True st')) =
   rfold (operation_step ev (rq_operations rq) (rq_cancelled rq)) (to_exec True st) ops"
proof (induction ops arbitrary: st)
  case (Cons a ops)
  then show ?case
    by (cases "tail_step ev rq True st a") (simp_all add: tail_step_simulates [symmetric])
qed simp

lemma to_exec_pool: "ex_pool (to_exec fresh st) = es_pool st"
  by (simp add: to_exec_def)

lemma to_exec_book: "channel_book (ex_naming (to_exec fresh st)) = NamingBook st"
  by (auto simp: to_exec_def NamingBook_def channel_book_def split: option.splits)

lemma tail_loop_no_reuse: "\<not> rq_reuseEnabled rq \<Longrightarrow> snd (tail_loop ev rq fresh hashes ops st cache) = cache"
  by (induction ops arbitrary: st) (auto split: sum.splits)

lemma Evaluate_cold:
  assumes "\<not> rq_reuseEnabled rq"
  shows "Evaluate ev rq cache =
    (if is_array (rq_operations rq)
     then (rbind (rfold (tail_step ev rq True) (initial_state rq) (indexed 0 (elements (rq_operations rq))))
             (\<lambda>st. Inr (result_of rq 0 st)), cache)
     else (Inl (Invalid_argument ''operations must be an array''), cache))"
proof -
  let ?loop = "tail_loop ev rq True [] (indexed 0 (elements (rq_operations rq))) (initial_state rq) cache"
  have "?loop = (rfold (tail_step ev rq True) (initial_state rq) (indexed 0 (elements (rq_operations rq))), cache)"
    by (rule prod_eqI) (simp_all add: tail_loop_outcome tail_loop_no_reuse assms)
  then show ?thesis using assms by (simp add: Evaluate_def Let_def)
qed

section \<open>Restoring\<close>

lemma restore_take_unregistered:
  assumes "es_registry s = None" and "es_registry t = None"
  shows "RestoreFrom (TakeSnapshot s) t = s"
  using assms
  by (cases "es_book s") (auto simp: RestoreFrom_def TakeSnapshot_def restore_book_def NamingBook_def pool_snap.restore_take
      book_snap.restore_take)

lemma of_exec_registry:
  assumes "scoped_execute ev op all c (to_exec fresh st) = Inr ex" and "es_registry st = None"
  shows "es_registry (of_exec st ex) = None"
proof -
  have "channel_kind (ex_naming ex) \<noteq> 2" using scoped_execute_kind [OF assms(1)] assms(2)
    by (auto simp: to_exec_def split: option.splits)
  then show ?thesis using assms(2) by (cases "ex_naming ex") (auto simp: of_exec_def Let_def)
qed

section \<open>Plain documents\<close>

text \<open>
  The documents the cache is sound for: no ref slot, no suppressed operation, none of the two
  mold operations that read other operations of the document.
\<close>

definition plain_document :: "evaluate_request \<Rightarrow> bool" where
  "plain_document rq \<longleftrightarrow>
     is_array (rq_operations rq) \<and> \<not> DocumentRequiresNamingRegistry (rq_operations rq) \<and>
     (\<forall>op \<in> set (elements (rq_operations rq)). suppressed op = Inr False \<and> \<not> reaches_back op)"

definition request_hashes :: "evaluate_request \<Rightarrow> string list result" where
  "request_hashes rq = CumulativeOperationHashes (rq_documentId rq) (rq_kernelGeomVersion rq) (rq_operations rq)"

definition request_operations :: "evaluate_request \<Rightarrow> json list" where
  "request_operations rq = elements (rq_operations rq)"

text \<open>One step of a plain document, on its own.\<close>

definition plain_step ::
  "('sh, 'prof, 'path) evaluators \<Rightarrow> ('sh, 'prof, 'path) EvaluationState \<Rightarrow> json \<Rightarrow> ('sh, 'prof, 'path) EvaluationState result" where
  "plain_step ev st op = rbind (scoped_execute ev op JNull False (to_exec True st)) (\<lambda>ex. Inr (of_exec st ex))"

definition cold_prefix ::
  "('sh, 'prof, 'path) evaluators \<Rightarrow> evaluate_request \<Rightarrow> nat \<Rightarrow> ('sh, 'prof, 'path) EvaluationState result" where
  "cold_prefix ev rq n = rfold (plain_step ev) (initial_state rq) (take n (request_operations rq))"

lemma plain_step_registry: "plain_step ev st op = Inr st' \<Longrightarrow> es_registry st = None \<Longrightarrow> es_registry st' = None"
  by (auto simp: plain_step_def rbind_eq_Inr intro: of_exec_registry)

lemma initial_registry: "plain_document rq \<Longrightarrow> es_registry (initial_state rq) = None"
  by (simp add: plain_document_def initial_state_def Let_def)

lemma cold_prefix_registry:
  assumes "plain_document rq" and "cold_prefix ev rq n = Inr st"
  shows "es_registry st = None"
  by (rule rfold_invariant [OF assms(2) [unfolded cold_prefix_def], where P = "\<lambda>st. es_registry st = None",
        OF initial_registry [OF assms(1)]]) (rule plain_step_registry)

lemma tail_step_plain:
  assumes "plain_document rq" and "op \<in> set (request_operations rq)" and "es_registry st = None"
  shows "tail_step ev rq fresh st (index, op) =
    (if rq_cancelled rq index
     then rbind (jvalue op ''id'' get_string []) (\<lambda>_. Inl Cancelled) else plain_step ev st op)"
proof -
  have op: "suppressed op = Inr False" "\<not> reaches_back op"
    using assms(1,2) by (auto simp: plain_document_def request_operations_def)
  have "to_exec fresh st = to_exec True st" using assms(3) by (simp add: to_exec_def)
  moreover have "scoped_execute ev op (rq_operations rq) c ex = scoped_execute ev op JNull c ex" for c ex
    by (simp add: scoped_execute_def ExecuteOperation_local [OF op(2), of ev "rq_operations rq" ex c JNull])
  ultimately show ?thesis
    by (simp add: tail_step_def op(1) plain_step_def) (simp add: scoped_execute_def rbind_assoc)
qed

lemma indexed_step: "n < length xs \<Longrightarrow> indexed n xs = (n, xs ! n) # indexed (Suc n) xs"
  by (simp add: indexed_def Cons_nth_drop_Suc [symmetric])

lemma indexed_end: "length xs \<le> n \<Longrightarrow> indexed n xs = []"
  by (simp add: indexed_def)

lemma tail_plain:
  assumes "plain_document rq" and "\<And>i. \<not> rq_cancelled rq i" and "es_registry st = None" and "n \<le> length (request_operations rq)"
  shows "rfold (tail_step ev rq fresh) st (indexed n (request_operations rq)) =
    rfold (plain_step ev) st (drop n (request_operations rq))"
  using assms(3,4)
proof (induction "length (request_operations rq) - n" arbitrary: n st)
  case 0
  then show ?case by (simp add: indexed_end)
next
  case (Suc k)
  then have n: "n < length (request_operations rq)" by simp
  have step: "tail_step ev rq fresh st (n, request_operations rq ! n) = plain_step ev st (request_operations rq ! n)"
    using tail_step_plain [OF assms(1) nth_mem [OF n] Suc.prems(1), of ev fresh n] assms(2) by simp
  have "rfold (tail_step ev rq fresh) st' (indexed (Suc n) (request_operations rq)) =
      rfold (plain_step ev) st' (drop (Suc n) (request_operations rq))"
    if "plain_step ev st (request_operations rq ! n) = Inr st'" for st'
    using Suc.hyps(1) [of "Suc n" st'] Suc.hyps(2) plain_step_registry [OF that Suc.prems(1)] n by simp
  then show ?case
    by (simp only: indexed_step [OF n] Cons_nth_drop_Suc [OF n, symmetric] rfold.simps step cong: rbind_cong)
qed

lemma cold_prefix_Suc:
  "n < length (request_operations rq) \<Longrightarrow>
   cold_prefix ev rq (Suc n) = rbind (cold_prefix ev rq n) (\<lambda>st. plain_step ev st (request_operations rq ! n))"
  by (simp add: cold_prefix_def take_Suc_conv_app_nth rfold_snoc)

section \<open>The invariant of the cache over a session\<close>

text \<open>
  What the key must tell apart: two prefixes with the same cumulative hash have operation by operation the
  same canonical bytes; and what the evaluators must ignore: the members of an operation that do not
  reach its canonical bytes.
\<close>

definition hashes_separate :: "evaluate_request set \<Rightarrow> bool" where
  "hashes_separate rqs \<longleftrightarrow>
     (\<forall>rq \<in> rqs. \<forall>rq' \<in> rqs. \<forall>hs hs' m n.
        request_hashes rq = Inr hs \<longrightarrow> request_hashes rq' = Inr hs' \<longrightarrow>
        1 \<le> m \<longrightarrow> m \<le> length (request_operations rq) \<longrightarrow> 1 \<le> n \<longrightarrow> n \<le> length (request_operations rq') \<longrightarrow>
        hs ! m = hs' ! n \<longrightarrow>
        map CanonicalOperationBytes (take m (request_operations rq)) =
        map CanonicalOperationBytes (take n (request_operations rq')))"

definition bytes_decide :: "('sh, 'prof, 'path) evaluators \<Rightarrow> evaluate_request set \<Rightarrow> bool" where
  "bytes_decide ev rqs \<longleftrightarrow>
     (\<forall>rq \<in> rqs. \<forall>rq' \<in> rqs. \<forall>op \<in> set (request_operations rq). \<forall>op' \<in> set (request_operations rq').
        CanonicalOperationBytes op = CanonicalOperationBytes op' \<longrightarrow>
        (\<forall>st. scoped_execute ev op JNull False st = scoped_execute ev op' JNull False st))"

definition cacheable :: "('sh, 'prof, 'path) evaluators \<Rightarrow> bool \<Rightarrow> evaluate_request set \<Rightarrow> bool" where
  "cacheable ev names rqs \<longleftrightarrow>
     hashes_separate rqs \<and> bytes_decide ev rqs \<and>
     (\<forall>rq \<in> rqs. plain_document rq \<and> rq_includeElementNames rq = names)"

definition entry_valid ::
  "('sh, 'prof, 'path) evaluators \<Rightarrow> evaluate_request set \<Rightarrow> string \<Rightarrow> ('sh, 'prof, 'path) state_snapshot \<Rightarrow> bool" where
  "entry_valid ev rqs key snap \<longleftrightarrow>
     (\<exists>rq \<in> rqs. \<exists>hs n st. request_hashes rq = Inr hs \<and> 1 \<le> n \<and> n \<le> length (request_operations rq) \<and> hs ! n = key \<and>
        cold_prefix ev rq n = Inr st \<and> snap = TakeSnapshot st)"

definition cache_valid ::
  "('sh, 'prof, 'path) evaluators \<Rightarrow> evaluate_request set \<Rightarrow> ('sh, 'prof, 'path) state_snapshot replay_cache \<Rightarrow> bool" where
  "cache_valid ev rqs cache \<longleftrightarrow> (\<forall>(key, e) \<in> set (entries cache). entry_valid ev rqs key (entry_snapshot e))"

lemma entries_Touch [simp]: "entries (Touch key c) = entries c"
  by (simp add: Touch_def)

lemma entries_Get: "entries (snd (Get key c)) = entries c"
  by (simp add: Get_def split: option.splits)

lemma set_entries_evict: "set (entries (EvictToBudget c)) \<subseteq> set (entries c)"
proof (induction c rule: EvictToBudget.induct)
  case (1 c)
  have "set (entries (EvictLeastRecent c)) \<subseteq> set (entries c)" by (auto simp: EvictLeastRecent_def Let_def AList.delete_eq)
  with 1 show ?case by (subst EvictToBudget.simps) auto
qed

lemma set_update: "set (AList.update k v xs) \<subseteq> insert (k, v) (set xs)"
  by (induction xs) auto

lemma set_entries_Put:
  "set (entries (Put estimate key snap c)) \<subseteq> insert (key, \<lparr>entry_snapshot = snap, entry_bytes = estimate snap\<rparr>) (set (entries c))"
  using set_update [of key "\<lparr>entry_snapshot = snap, entry_bytes = estimate snap\<rparr>" "entries c"]
  by (auto simp: Put_def Let_def split: option.splits dest!: set_mp [OF set_entries_evict])

lemma cache_valid_Put: "cache_valid ev rqs c \<Longrightarrow> entry_valid ev rqs key snap \<Longrightarrow> cache_valid ev rqs (Put estimate key snap c)"
  unfolding cache_valid_def using set_entries_Put [of estimate key snap c] by fastforce

lemma longest_prefix_entries: "entries (snd (longest_prefix hashes n c)) = entries c"
proof (induction hashes n c rule: longest_prefix.induct)
  case (2 hashes n c)
  obtain found c' where g: "Get (hashes ! Suc n) c = (found, c')" by force
  then have "entries c' = entries c" using entries_Get [of "hashes ! Suc n" c] by simp
  with g 2 show ?case by (cases found) auto
qed simp

lemma longest_prefix_found:
  "fst (longest_prefix hashes n c) = Some (m, snap) \<Longrightarrow>
     1 \<le> m \<and> m \<le> n \<and> (\<exists>e. (hashes ! m, e) \<in> set (entries c) \<and> entry_snapshot e = snap)"
proof (induction hashes n c rule: longest_prefix.induct)
  case (2 hashes n c)
  obtain found c' where g: "Get (hashes ! Suc n) c = (found, c')" by force
  show ?case
  proof (cases found)
    case None
    then have "c' = c" using g by (auto simp: Get_def split: option.splits)
    with 2 g None show ?thesis by fastforce
  next
    case (Some s)
    then obtain e where "map_of (entries c) (hashes ! Suc n) = Some e" "entry_snapshot e = s"
      using g by (auto simp: Get_def split: option.splits)
    with "2.prems" g Some show ?thesis by (auto dest: map_of_SomeD)
  qed
qed simp

lemma rfold_same_steps:
  "list_all2 (\<lambda>x y. \<forall>s. f s x = f s y) xs ys \<Longrightarrow> rfold f s xs = rfold f s ys"
  by (induction xs ys arbitrary: s rule: list_all2_induct) (auto cong: rbind_cong)

lemma initial_same: "plain_document rq \<Longrightarrow> plain_document rq' \<Longrightarrow>
    rq_includeElementNames rq = rq_includeElementNames rq' \<Longrightarrow> initial_state rq = initial_state rq'"
  by (simp add: initial_state_def plain_document_def)

text \<open>Prefixes with the same hash have the same cold state.\<close>

lemma same_hash_same_state:
  assumes ok: "cacheable ev names rqs" and in_rqs: "rq \<in> rqs" "rq' \<in> rqs"
    and hs: "request_hashes rq = Inr hs" "request_hashes rq' = Inr hs'"
    and m: "1 \<le> m" "m \<le> length (request_operations rq)" and n: "1 \<le> n" "n \<le> length (request_operations rq')"
    and eq: "hs ! m = hs' ! n"
  shows "cold_prefix ev rq m = cold_prefix ev rq' n"
proof -
  let ?xs = "take m (request_operations rq)" and ?ys = "take n (request_operations rq')"
  have bytes: "map CanonicalOperationBytes ?xs = map CanonicalOperationBytes ?ys"
    using ok in_rqs hs m n eq unfolding cacheable_def hashes_separate_def by blast
  have "list_all2 (\<lambda>x y. \<forall>s. plain_step ev s x = plain_step ev s y) ?xs ?ys"
  proof (rule list_all2_all_nthI)
    show len: "length ?xs = length ?ys" using bytes map_eq_imp_length_eq by blast
    fix i
    assume i: "i < length ?xs"
    have "CanonicalOperationBytes (?xs ! i) = CanonicalOperationBytes (?ys ! i)"
      using bytes i len by (metis nth_map)
    moreover have "?xs ! i \<in> set (request_operations rq)" "?ys ! i \<in> set (request_operations rq')"
      using i len by (auto intro: in_set_takeD nth_mem)
    ultimately have "scoped_execute ev (?xs ! i) JNull False s = scoped_execute ev (?ys ! i) JNull False s" for s
      using ok in_rqs unfolding cacheable_def bytes_decide_def by blast
    then show "\<forall>s. plain_step ev s (?xs ! i) = plain_step ev s (?ys ! i)" by (simp add: plain_step_def)
  qed
  then have "rfold (plain_step ev) s ?xs = rfold (plain_step ev) s ?ys" for s by (rule rfold_same_steps)
  moreover have init: "plain_document rq" "plain_document rq'" "rq_includeElementNames rq = rq_includeElementNames rq'"
    using ok in_rqs by (auto simp: cacheable_def)
  ultimately show ?thesis by (simp add: cold_prefix_def initial_same [OF init])
qed

text \<open>The tail keeps the invariant, whether it finishes, fails or is cancelled.\<close>

lemma tail_loop_valid:
  assumes "cacheable ev names rqs" and "rq \<in> rqs" and "request_hashes rq = Inr hs"
    and "cold_prefix ev rq n = Inr st" and "cache_valid ev rqs cache" and "n \<le> length (request_operations rq)"
  shows "cache_valid ev rqs (snd (tail_loop ev rq fresh hs (indexed n (request_operations rq)) st cache))"
  using assms(4-6)
proof (induction "length (request_operations rq) - n" arbitrary: n st cache)
  case 0
  then show ?case by (simp add: indexed_end)
next
  case (Suc k)
  then have n: "n < length (request_operations rq)" by simp
  have plain: "plain_document rq" using assms(1,2) by (simp add: cacheable_def)
  note step = tail_step_plain [OF plain nth_mem [OF n] cold_prefix_registry [OF plain Suc.prems(1)], of ev fresh n]
  show ?case
  proof (cases "tail_step ev rq fresh st (n, request_operations rq ! n)")
    case (Inl e)
    then show ?thesis using Suc.prems by (simp add: indexed_step [OF n])
  next
    case (Inr st')
    then have "plain_step ev st (request_operations rq ! n) = Inr st'" using step by (auto simp: rbind_eq_Inr split: if_splits)
    then have cold: "cold_prefix ev rq (Suc n) = Inr st'" using Suc.prems(1) cold_prefix_Suc [OF n, of ev] by simp
    then have "entry_valid ev rqs (hs ! Suc n) (TakeSnapshot st')"
      unfolding entry_valid_def using assms(2,3) n by (intro bexI [of _ rq] exI [of _ hs] exI [of _ "Suc n"]) auto
    then have "cache_valid ev rqs (if rq_reuseEnabled rq then Put EstimateSnapshotBytes (hs ! (n + 1)) (TakeSnapshot st') cache else cache)"
      using Suc.prems(2) by (simp add: cache_valid_Put)
    from Suc.hyps(1) [OF _ cold this] Suc.hyps(2) n Inr show ?thesis by (simp add: indexed_step [OF n])
  qed
qed

lemma initial_state_reuse [simp]: "initial_state (rq\<lparr>rq_reuseEnabled := b\<rparr>) = initial_state rq"
  by (simp add: initial_state_def)

lemma Evaluate_warm:
  assumes ok: "cacheable ev names rqs" "rq \<in> rqs" and valid: "cache_valid ev rqs cache"
    and reuse: "rq_reuseEnabled rq" and hs: "request_hashes rq = Inr hs"
  shows "\<exists>n st cache2. n \<le> length (request_operations rq) \<and> cold_prefix ev rq n = Inr st \<and> cache_valid ev rqs cache2 \<and>
    Evaluate ev rq cache =
      (let loop = tail_loop ev rq (n = 0) hs (indexed n (request_operations rq)) st cache2
       in (rbind (fst loop) (\<lambda>st. Inr (result_of rq n st)), snd loop))"
proof -
  obtain found cache1 where lp: "longest_prefix hs (length (request_operations rq)) cache = (found, cache1)" by force
  have c1: "cache_valid ev rqs (RecordPrefixOutcome hit cache1)" for hit
    using valid longest_prefix_entries [of hs "length (request_operations rq)" cache] lp
    by (simp add: cache_valid_def RecordPrefixOutcome_def)
  have arr: "is_array (rq_operations rq)" and plain: "plain_document rq" using ok by (auto simp: cacheable_def plain_document_def)
  note eval = Evaluate_def hs [unfolded request_hashes_def] lp [unfolded request_operations_def] request_operations_def
  show ?thesis
  proof (cases found)
    case None
    have "cold_prefix ev rq 0 = Inr (initial_state rq)" by (simp add: cold_prefix_def)
    with c1 [of False] arr reuse None show ?thesis
      by (intro exI [of _ 0] exI [of _ "initial_state rq"] exI [of _ "RecordPrefixOutcome False cache1"])
        (simp add: eval Let_def case_prod_unfold del: is_array_def)
  next
    case (Some p)
    then obtain n snap where p: "found = Some (n, snap)" by (cases p) auto
    from longest_prefix_found [of hs "length (request_operations rq)" cache n snap] lp p obtain e where
      n: "1 \<le> n" "n \<le> length (request_operations rq)" and e: "(hs ! n, e) \<in> set (entries cache)" "entry_snapshot e = snap" by auto
    from valid e have "entry_valid ev rqs (hs ! n) snap" by (auto simp: cache_valid_def)
    then obtain rq' hs' m st where rq': "rq' \<in> rqs" "request_hashes rq' = Inr hs'" "1 \<le> m" "m \<le> length (request_operations rq')"
      "hs' ! m = hs ! n" "cold_prefix ev rq' m = Inr st" "snap = TakeSnapshot st" by (auto simp: entry_valid_def)
    have cold: "cold_prefix ev rq n = Inr st"
      using same_hash_same_state [OF ok(1,2) rq'(1) hs rq'(2) n rq'(3,4)] rq'(5,6) by simp
    have "RestoreFrom snap (initial_state rq) = st" unfolding rq'(7)
      by (rule restore_take_unregistered [OF cold_prefix_registry [OF plain cold] initial_registry [OF plain]])
    with c1 [of True] arr reuse p n cold show ?thesis
      by (intro exI [of _ n] exI [of _ st] exI [of _ "RecordPrefixOutcome True cache1"])
        (simp add: eval Let_def case_prod_unfold del: is_array_def)
  qed
qed

lemma Evaluate_valid:
  assumes ok: "cacheable ev names rqs" "rq \<in> rqs" and valid: "cache_valid ev rqs cache"
  shows "cache_valid ev rqs (snd (Evaluate ev rq cache))"
proof (cases "rq_reuseEnabled rq")
  case False
  then show ?thesis using valid by (simp add: Evaluate_cold)
next
  case True
  show ?thesis
  proof (cases "request_hashes rq")
    case (Inl e)
    then show ?thesis using True valid by (simp add: Evaluate_def request_hashes_def Let_def)
  next
    case (Inr hs)
    from Evaluate_warm [OF ok valid True Inr] obtain n st cache2 where
      warm: "n \<le> length (request_operations rq)" "cold_prefix ev rq n = Inr st" "cache_valid ev rqs cache2"
      "Evaluate ev rq cache =
        (let loop = tail_loop ev rq (n = 0) hs (indexed n (request_operations rq)) st cache2
         in (rbind (fst loop) (\<lambda>st. Inr (result_of rq n st)), snd loop))" by blast
    show ?thesis unfolding warm(4) Let_def using tail_loop_valid [OF ok Inr warm(2,3,1)] by simp
  qed
qed

lemma session_valid:
  "cacheable ev names rqs \<Longrightarrow> set history \<subseteq> rqs \<Longrightarrow> cache_valid ev rqs cache \<Longrightarrow> cache_valid ev rqs (session ev history cache)"
proof (induction history arbitrary: cache)
  case (Cons rq history)
  then have "cache_valid ev rqs (snd (Evaluate ev rq cache))" by (intro Evaluate_valid) auto
  with Cons show ?case by (simp add: session_def)
qed (simp add: session_def)

section \<open>Properties\<close>

definition outcome_of :: "'sh evaluate_result result \<Rightarrow> ('sh EvaluatedBody list \<times> 'sh ElementNameBook option) result" where
  "outcome_of r = rbind r (\<lambda>res. Inr (res_bodies res, res_elementNames res))"

text \<open>C9. The two cold evaluations agree: an evaluation with reuse disabled leaves the cache alone and
  returns the bodies, or the failure, of \<open>EvaluateOperations\<close> on the naming state the document
  calls for (a registry when it has a ref slot, else a book when names are wanted), with the names
  of the book that evaluation ends with; it reports every operation as executed.\<close>

theorem cold_evaluate_is_EvaluateOperations:
  assumes "\<not> rq_reuseEnabled rq"
  shows "snd (Evaluate ev rq cache) = cache \<and>
    fst (Evaluate ev rq cache) =
      rbind (EvaluateOperations ev (rq_operations rq) (rq_cancelled rq)
               (if \<not> DocumentRequiresNamingRegistry (rq_operations rq) \<and> rq_includeElementNames rq then Some book_new else None)
               (if DocumentRequiresNamingRegistry (rq_operations rq) then Some registry_new else None))
        (\<lambda>(bodies, naming). Inr \<lparr>res_bodies = bodies,
           res_elementNames = (if rq_includeElementNames rq then channel_book naming else None),
           res_executedOperationCount = length (elements (rq_operations rq))\<rparr>)"
proof -
  let ?ops = "indexed 0 (elements (rq_operations rq))"
  have init: "to_exec True (initial_state rq) =
    \<lparr>ex_pool = body_pool_new, ex_profiles = [], ex_openPaths = [],
     ex_naming = (case (if DocumentRequiresNamingRegistry (rq_operations rq) then Some registry_new else None) of Some r \<Rightarrow> With_registry r
       | None \<Rightarrow> (case (if \<not> DocumentRequiresNamingRegistry (rq_operations rq) \<and> rq_includeElementNames rq then Some book_new else None) of
           Some b \<Rightarrow> Bare_book b | None \<Rightarrow> No_naming))\<rparr>"
    by (simp add: to_exec_def initial_state_def Let_def)
  show ?thesis
    unfolding Evaluate_cold [OF assms] EvaluateOperations_def init [symmetric] tail_simulates [symmetric]
    by (cases "rfold (tail_step ev rq True) (initial_state rq) ?ops")
      (auto simp: result_of_def to_exec_pool to_exec_book PeekVisibleBodies_def TakeVisibleBodies_def)
qed


end
