(* ===== verification/Replay_Properties.thy ===== *)
theory Replay_Properties
  imports Replay_Laws
begin

text \<open>
  Concrete sessions: the witnesses of the replay laws on a sample host, and two kinds of request for
  which the cumulative hash is too coarse a cache key, so that a warm evaluation is not the cold one.
\<close>

section \<open>Sample requests\<close>

definition sample_request :: "json list \<Rightarrow> bool \<Rightarrow> bool \<Rightarrow> evaluate_request" where
  "sample_request ops reuse names =
     \<lparr>rq_operations = JArray ops, rq_documentId = ''d'', rq_kernelGeomVersion = ''g1'', rq_includeElementNames = names,
      rq_reuseEnabled = reuse, rq_cancelled = (\<lambda>_. False)\<rparr>"

definition sample_box :: json where
  "sample_box = sample_op ''create_box'' ''a''"

definition sample_hidden_box :: json where
  "sample_hidden_box = JObject [(''id'', JString ''a''), (''metadata'', JObject [(''suppressed'', JBool True)]), (''type'', JString ''create_box'')]"

lemma sample_request_simps [simp]:
  "rq_operations (sample_request ops reuse names) = JArray ops"
  "rq_includeElementNames (sample_request ops reuse names) = names"
  "rq_reuseEnabled (sample_request ops reuse names) = reuse"
  "rq_cancelled (sample_request ops reuse names) = (\<lambda>_. False)"
  "request_operations (sample_request ops reuse names) = ops"
  by (simp_all add: sample_request_def request_operations_def)

lemma sample_box_simps [simp]:
  "suppressed sample_box = Inr False"
  "jvalue sample_box ''id'' get_string [] = Inr ''a''"
  "\<not> reaches_back sample_box"
  "DocumentRequiresNamingRegistry (JArray [sample_box]) = False"
  by (simp_all add: sample_box_def sample_op_def suppressed_def jvalue_def reaches_back_def reach_back_operations_def
      DocumentRequiresNamingRegistry_def)

lemma sample_box_executes:
  "ExecuteOperation sample_host sample_box all (st\<lparr>ex_naming := No_naming\<rparr>) False =
     Inr (produce (sample_body ''a'' 0 7) (st\<lparr>ex_naming := No_naming\<rparr>))"
  by (simp add: ExecuteOperation_def CheckCancellation_def dispatch_operation_def root_primitives_def sample_box_def
      sample_op_def sample_host_def sample_id_def produceRoot_def birth_book_def birth_registry_def channel_book_def
      channel_registry_def)

lemma sample_box_tail:
  "tail_step sample_host (sample_request [sample_box] reuse False) True (initial_state (sample_request [sample_box] reuse False)) (0, sample_box) =
     Inr \<lparr>es_pool = Produce (sample_body ''a'' 0 7) body_pool_new, es_profiles = [], es_openPaths = [], es_book = None, es_registry = None\<rparr>"
  using sample_box_executes [of _ empty_exec]
  by (simp add: tail_step_def scoped_execute_def initial_state_def to_exec_def of_exec_def empty_exec_def produce_def Let_def)

lemma sample_box_cold:
  "fst (Evaluate sample_host (sample_request [sample_box] False False) cache) =
     Inr \<lparr>res_bodies = [sample_body ''a'' 0 7], res_elementNames = None, res_executedOperationCount = 1\<rparr>"
  using sample_box_tail [of False]
  by (simp add: Evaluate_cold indexed_def result_of_def PeekVisibleBodies_def Produce_def body_pool_new_def)

lemma sample_box_bytes: "\<exists>bs. CanonicalOperationBytes sample_box = Inr bs"
  by (simp add: sample_box_def sample_op_def op_eval)

lemma sample_box_hashes: "\<exists>hs. request_hashes (sample_request [sample_box] reuse names) = Inr hs"
  using sample_box_bytes
  by (auto simp: request_hashes_def CumulativeOperationHashes_def CacheLineRoot_eq Let_def sample_request_def)

theorem cold_evaluate_is_EvaluateOperations_witness:
  "\<exists>naming. EvaluateOperations sample_host (JArray [sample_box]) (\<lambda>_. False) None None = Inr ([sample_body ''a'' 0 7], naming)"
proof -
  have "\<not> rq_reuseEnabled (sample_request [sample_box] False False)" by simp
  from conjunct2 [OF cold_evaluate_is_EvaluateOperations [OF this, of sample_host "cache_new 0"]]
  show ?thesis by (auto simp: sample_box_cold rbind_def split: sum.splits)
qed


section \<open>The entry of the whole document\<close>

lemma Put_finds:
  assumes "cache_ok estimate c"
  shows "\<exists>e. map_of (entries (Put estimate key snap c)) key = Some e \<and> entry_snapshot e = snap"
proof -
  note put = Put_ok [OF assms, of key snap]
  let ?xs = "(key, snap) # lru_drop key (lru_of c)"
  from lru_trim_prefix [of estimate "budgetBytes c" "length (lru_of c)" ?xs] obtain n where
    "lru_trim estimate (budgetBytes c) (length (lru_of c)) ?xs = take n ?xs" "1 \<le> n" by auto
  then have "map_of (lru_of (Put estimate key snap c)) key = Some snap"
    using put by (cases n) (simp_all add: lru_put_def)
  then show ?thesis using map_of_lru [OF conjunct1 [OF put], of key] by auto
qed

lemma tail_loop_last:
  assumes "rq_reuseEnabled rq" and "cache_ok EstimateSnapshotBytes c" and "n < length (request_operations rq)"
    and "tail_loop ev rq fresh hs (indexed n (request_operations rq)) st c = (Inr st', c')"
  shows "\<exists>e. map_of (entries c') (hs ! length (request_operations rq)) = Some e \<and> entry_snapshot e = TakeSnapshot st'"
  using assms(2-4)
proof (induction "length (request_operations rq) - n" arbitrary: n st c)
  case (Suc k)
  from Suc.prems(3) obtain st1 where
    step: "tail_step ev rq fresh st (n, request_operations rq ! n) = Inr st1"
    and rest: "tail_loop ev rq fresh hs (indexed (Suc n) (request_operations rq)) st1
        (Put EstimateSnapshotBytes (hs ! Suc n) (TakeSnapshot st1) c) = (Inr st', c')"
    by (auto simp: indexed_step [OF Suc.prems(2)] assms(1) split: sum.splits)
  have ok: "cache_ok EstimateSnapshotBytes (Put EstimateSnapshotBytes (hs ! Suc n) (TakeSnapshot st1) c)"
    using Put_ok [OF Suc.prems(1)] by blast
  show ?case
  proof (cases "Suc n < length (request_operations rq)")
    case True
    then show ?thesis using Suc.hyps(1) [OF _ ok True rest] Suc.hyps(2) by simp
  next
    case False
    then have "Suc n = length (request_operations rq)" using Suc.prems(2) by simp
    then show ?thesis using rest Put_finds [OF Suc.prems(1), of "hs ! Suc n" "TakeSnapshot st1"] by (auto simp: indexed_end)
  qed
qed simp

lemma cache_new_entries [simp]: "entries (cache_new b) = []"
  by (simp add: cache_new_def)

lemma longest_prefix_empty: "entries c = [] \<Longrightarrow> longest_prefix hashes n c = (None, c)"
  by (induction n) (simp_all add: Get_def)

text \<open>A first evaluation that succeeds leaves the state of the whole document in the cache.\<close>

lemma first_evaluation:
  assumes reuse: "rq_reuseEnabled rq" and arr: "is_array (rq_operations rq)" and ne: "request_operations rq \<noteq> []"
    and eval: "Evaluate ev rq (cache_new budget) = (Inr res, c)"
  shows "\<exists>hs st e. request_hashes rq = Inr hs \<and>
    rfold (tail_step ev rq True) (initial_state rq) (indexed 0 (request_operations rq)) = Inr st \<and> res = result_of rq 0 st \<and>
    map_of (entries c) (hs ! length (request_operations rq)) = Some e \<and> entry_snapshot e = TakeSnapshot st"
proof -
  obtain hs where hs: "request_hashes rq = Inr hs"
    using eval reuse arr by (cases "request_hashes rq") (auto simp: Evaluate_def request_hashes_def Let_def simp del: is_array_def)
  let ?c = "RecordPrefixOutcome False (cache_new budget)"
  obtain out c' where loop: "tail_loop ev rq True hs (indexed 0 (request_operations rq)) (initial_state rq) ?c = (out, c')" by force
  have "Evaluate ev rq (cache_new budget) = (rbind out (\<lambda>st. Inr (result_of rq 0 st)), c')"
    using reuse arr hs loop
    by (simp add: Evaluate_def request_hashes_def request_operations_def Let_def longest_prefix_empty del: is_array_def)
  then obtain st where out: "out = Inr st" "res = result_of rq 0 st" "c' = c" using eval by (cases out) auto
  have "cache_ok EstimateSnapshotBytes ?c"
    using cache_ok_new [of EstimateSnapshotBytes budget]
    by (simp add: cache_ok_def RecordPrefixOutcome_def lru_of_def lookup_snapshot_def)
  then obtain e where "map_of (entries c) (hs ! length (request_operations rq)) = Some e" "entry_snapshot e = TakeSnapshot st"
    using tail_loop_last [OF reuse _ _ loop [unfolded out(1)]] ne out(3) by auto
  moreover have "rfold (tail_step ev rq True) (initial_state rq) (indexed 0 (request_operations rq)) = Inr st"
    using tail_loop_outcome [of ev rq True hs "indexed 0 (request_operations rq)" "initial_state rq" ?c] loop out(1) by simp
  ultimately show ?thesis using hs out(2) by blast
qed

text \<open>A document whose whole hash is cached is answered from the snapshot alone.\<close>

lemma full_hit:
  assumes "rq_reuseEnabled rq" and "is_array (rq_operations rq)" and "request_operations rq \<noteq> []"
    and "request_hashes rq = Inr hs" and "map_of (entries c) (hs ! length (request_operations rq)) = Some e"
  shows "fst (Evaluate ev rq c) =
    Inr (result_of rq (length (request_operations rq)) (RestoreFrom (entry_snapshot e) (initial_state rq)))"
proof -
  obtain n where n: "length (request_operations rq) = Suc n" using assms(3) by (cases "request_operations rq") auto
  have "fst (longest_prefix hs (Suc n) c) = Some (Suc n, entry_snapshot e)"
    using assms(5) by (simp add: n Get_def)
  then obtain c' where "longest_prefix hs (Suc n) c = (Some (Suc n, entry_snapshot e), c')" by (metis prod.collapse)
  then show ?thesis
    using assms(1,2,4) n indexed_end [of "request_operations rq" "Suc n"]
    by (simp add: Evaluate_def request_hashes_def request_operations_def Let_def case_prod_unfold del: is_array_def)
qed

section \<open>Where the key is too coarse\<close>

lemma tail_kind:
  assumes "rfold (tail_step ev rq True) st ops = Inr st'"
  shows "channel_kind (ex_naming (to_exec True st')) = channel_kind (ex_naming (to_exec True st))"
proof -
  have step: "channel_kind (ex_naming (to_exec True st2)) = channel_kind (ex_naming (to_exec True st1))"
    if "tail_step ev rq True st1 a = Inr st2" for st1 a st2
  proof (cases a)
    case (Pair index op)
    with that consider "st2 = st1"
      | ex where "scoped_execute ev op (rq_operations rq) (rq_cancelled rq index) (to_exec True st1) = Inr ex" "st2 = of_exec st1 ex"
      by (auto simp: tail_step_def rbind_eq_Inr split: if_splits)
    then show ?thesis by cases (use scoped_execute_kind to_of_exec in fastforce)+
  qed
  show ?thesis by (rule rfold_rel [OF assms]) (use step in auto)
qed

lemma kind_of_state:
  "channel_kind (ex_naming (to_exec True st)) = 0 \<longleftrightarrow> NamingBook st = None"
  "channel_kind (ex_naming (to_exec True st)) = 2 \<longleftrightarrow> es_registry st \<noteq> None"
  by (auto simp: to_exec_def NamingBook_def split: option.splits)

text \<open>The cumulative hash ignores that an operation is suppressed (its metadata is not hashed) and the
  evaluation does not: after a document of one operation was evaluated, the same document with the
  operation suppressed is answered with the bodies of the unsuppressed one, where the cold
  evaluation returns none.\<close>

theorem suppressed_operation_served_from_cache:
  assumes "Evaluate ev rq (cache_new budget) = (Inr res, c)"
    and "rq_operations rq = JArray [JObject members1]" and "rq_reuseEnabled rq"
    and "\<not> DocumentRequiresNamingRegistry (rq_operations rq)"
    and "filter (\<lambda>(k, v). k \<notin> set kExcludedKeys) members2 = filter (\<lambda>(k, v). k \<notin> set kExcludedKeys) members1"
    and "suppressed (JObject members2) = Inr True"
  shows "\<exists>warm cold.
    fst (Evaluate ev (rq\<lparr>rq_operations := JArray [JObject members2]\<rparr>) c) = Inr warm \<and>
    res_bodies warm = res_bodies res \<and> res_executedOperationCount warm = 0 \<and>
    fst (Evaluate ev (rq\<lparr>rq_operations := JArray [JObject members2], rq_reuseEnabled := False\<rparr>) c) = Inr cold \<and>
    res_bodies cold = []"
proof -
  let ?rq = "rq\<lparr>rq_operations := JArray [JObject members2]\<rparr>"
  have bytes: "CanonicalOperationBytes (JObject members2) = CanonicalOperationBytes (JObject members1)"
    using canonical_bytes_unexcluded [of members1] canonical_bytes_unexcluded [of members2] assms(5) by simp
  have params: "map_of members2 ''parameters'' = map_of members1 ''parameters''"
    using map_of_unexcluded [of "''parameters''" members1] map_of_unexcluded [of "''parameters''" members2] assms(5)
    by (simp add: kExcludedKeys_def)
  have ops: "request_operations rq = [JObject members1]" "request_operations ?rq = [JObject members2]"
    using assms(2) by (simp_all add: request_operations_def)
  from first_evaluation [OF assms(3) _ _ assms(1)] assms(2) ops obtain hs st e where first:
    "request_hashes rq = Inr hs" "res = result_of rq 0 st"
    "rfold (tail_step ev rq True) (initial_state rq) (indexed 0 (request_operations rq)) = Inr st"
    "map_of (entries c) (hs ! 1) = Some e" "entry_snapshot e = TakeSnapshot st" by auto
  have hs: "request_hashes ?rq = Inr hs"
    using first(1) assms(2) bytes by (simp add: request_hashes_def CumulativeOperationHashes_def)
  have plain: "\<not> DocumentRequiresNamingRegistry (JArray [JObject members2])"
    using assms(4) params by (simp add: assms(2) DocumentRequiresNamingRegistry_def)
  have init: "es_registry (initial_state rq) = None" "es_registry (initial_state ?rq) = None"
    using assms(4) plain by (simp_all add: initial_state_def Let_def)
  have "es_registry st = None" using tail_kind [OF first(3)] kind_of_state(2) init(1) by metis
  from restore_take_unregistered [OF this init(2)]
  have "RestoreFrom (entry_snapshot e) (initial_state ?rq) = st" by (simp only: first(5))
  then have "fst (Evaluate ev ?rq c) = Inr (result_of ?rq 1 st)"
    using full_hit [of ?rq hs c e ev] hs first(4) assms(3) ops(2) by simp
  moreover have "fst (Evaluate ev (rq\<lparr>rq_operations := JArray [JObject members2], rq_reuseEnabled := False\<rparr>) c) =
      Inr (result_of (rq\<lparr>rq_operations := JArray [JObject members2], rq_reuseEnabled := False\<rparr>) 0
        (initial_state (rq\<lparr>rq_operations := JArray [JObject members2], rq_reuseEnabled := False\<rparr>) :: ('a, 'b, 'c) EvaluationState))"
    by (simp add: Evaluate_cold indexed_def tail_step_def assms(6) del: initial_state_reuse)
  ultimately show ?thesis
    by (simp add: first(2) result_of_def initial_state_def Let_def PeekVisibleBodies_def body_pool_new_def)
qed

lemma sample_hidden_box_suppressed: "suppressed sample_hidden_box = Inr True"
  by (simp add: sample_hidden_box_def suppressed_def jvalue_def get_bool_def)

lemma sample_box_first:
  "\<exists>c. Evaluate sample_host (sample_request [sample_box] True False) (cache_new 5000) =
     (Inr \<lparr>res_bodies = [sample_body ''a'' 0 7], res_elementNames = None, res_executedOperationCount = 1\<rparr>, c)"
proof -
  let ?rq = "sample_request [sample_box] True False"
  obtain hs where hs: "request_hashes ?rq = Inr hs" using sample_box_hashes by blast
  then show ?thesis using sample_box_tail [of True]
    by (simp add: Evaluate_def request_hashes_def Get_def indexed_def result_of_def PeekVisibleBodies_def
        Produce_def body_pool_new_def Let_def)
qed

theorem suppressed_operation_served_from_cache_witness:
  "fst (Evaluate sample_host (sample_request [sample_box] False False) (cache_new 0)) \<noteq>
     fst (Evaluate sample_host (sample_request [sample_hidden_box] False False) (cache_new 0)) \<and>
   (\<exists>warm. fst (Evaluate sample_host (sample_request [sample_hidden_box] True False)
      (snd (Evaluate sample_host (sample_request [sample_box] True False) (cache_new 5000)))) = Inr warm \<and>
      res_bodies warm = [sample_body ''a'' 0 7])"
proof -
  let ?rq = "sample_request [sample_box] True False"
  have rw: "sample_request [sample_hidden_box] True False\<lparr>rq_reuseEnabled := False\<rparr> = sample_request [sample_hidden_box] False False"
    "sample_request [sample_box] True False\<lparr>rq_operations := JArray [sample_hidden_box]\<rparr> = sample_request [sample_hidden_box] True False"
    "sample_request [sample_box] True False\<lparr>rq_operations := JArray [sample_hidden_box], rq_reuseEnabled := False\<rparr> = sample_request [sample_hidden_box] False False"
    by (simp_all add: sample_request_def)
  obtain c where run: "Evaluate sample_host ?rq (cache_new 5000) =
      (Inr \<lparr>res_bodies = [sample_body ''a'' 0 7], res_elementNames = None, res_executedOperationCount = 1\<rparr>, c)"
    using sample_box_first by blast
  from suppressed_operation_served_from_cache [OF run, of
      "[(''id'', JString ''a''), (''type'', JString ''create_box'')]"
      "[(''id'', JString ''a''), (''metadata'', JObject [(''suppressed'', JBool True)]), (''type'', JString ''create_box'')]"]
  obtain warm cold where "fst (Evaluate sample_host (sample_request [sample_hidden_box] True False) c) = Inr warm"
    "res_bodies warm = [sample_body ''a'' 0 7]"
    "fst (Evaluate sample_host (sample_request [sample_hidden_box] False False) c) = Inr cold" "res_bodies cold = []"
    by (auto simp: sample_box_def [symmetric, unfolded sample_op_def] sample_hidden_box_def [symmetric] rw sample_hidden_box_suppressed
        kExcludedKeys_def simp del: initial_state_reuse)
  moreover have "fst (Evaluate sample_host (sample_request [sample_hidden_box] False False) c) =
      fst (Evaluate sample_host (sample_request [sample_hidden_box] False False) (cache_new 0))" by (simp add: Evaluate_cold)
  ultimately show ?thesis by (auto simp: sample_box_cold run)
qed

text \<open>The cumulative hash ignores whether element names were asked for: after a document was evaluated
  without names, evaluating it with names restores a state without a name book and returns no
  names, where the cold evaluation has a book. The caller dereferences that result.\<close>

theorem cached_prefix_drops_element_names:
  assumes "Evaluate ev rq (cache_new budget) = (Inr res, c)"
    and "is_array (rq_operations rq)" and "request_operations rq \<noteq> []" and "rq_reuseEnabled rq"
    and "\<not> DocumentRequiresNamingRegistry (rq_operations rq)" and "\<not> rq_includeElementNames rq"
  shows "\<exists>warm. fst (Evaluate ev (rq\<lparr>rq_includeElementNames := True\<rparr>) c) = Inr warm \<and>
    res_bodies warm = res_bodies res \<and> res_elementNames warm = None \<and>
    (\<forall>cold. fst (Evaluate ev (rq\<lparr>rq_includeElementNames := True, rq_reuseEnabled := False\<rparr>) c) = Inr cold \<longrightarrow>
       res_elementNames cold \<noteq> None)"
proof -
  let ?rq = "rq\<lparr>rq_includeElementNames := True\<rparr>" and ?cold = "rq\<lparr>rq_includeElementNames := True, rq_reuseEnabled := False\<rparr>"
  from first_evaluation [OF assms(4,2,3,1)] obtain hs st e where first:
    "request_hashes rq = Inr hs" "res = result_of rq 0 st"
    "rfold (tail_step ev rq True) (initial_state rq) (indexed 0 (request_operations rq)) = Inr st"
    "map_of (entries c) (hs ! length (request_operations rq)) = Some e" "entry_snapshot e = TakeSnapshot st" by auto
  have same: "request_operations ?rq = request_operations rq" "request_hashes ?rq = request_hashes rq"
    by (simp_all add: request_operations_def request_hashes_def)
  have init: "NamingBook (initial_state rq) = None" "es_registry (initial_state rq) = None" "es_registry (initial_state ?rq) = None"
    using assms(5,6) by (simp_all add: initial_state_def NamingBook_def Let_def)
  have st: "NamingBook st = None" "es_registry st = None"
    using tail_kind [OF first(3)] kind_of_state init(1,2) by metis+
  from restore_take_unregistered [OF st(2) init(3)]
  have "RestoreFrom (entry_snapshot e) (initial_state ?rq) = st" by (simp only: first(5))
  then have warm: "fst (Evaluate ev ?rq c) = Inr (result_of ?rq (length (request_operations rq)) st)"
    using full_hit [of ?rq hs c e ev] first(1,4) assms(2-4) same by simp
  have "res_elementNames cold \<noteq> None" if cold: "fst (Evaluate ev ?cold c) = Inr cold" for cold
  proof -
    from cold assms(2) obtain st' where st': "cold = result_of ?cold 0 st'"
      "rfold (tail_step ev ?cold True) (initial_state ?cold) (indexed 0 (request_operations ?cold)) = Inr st'"
      by (auto simp: Evaluate_cold rbind_eq_Inr request_operations_def simp del: is_array_def initial_state_reuse)
    have "NamingBook (initial_state ?cold :: ('a, 'b, 'c) EvaluationState) \<noteq> None"
      using assms(5) by (simp add: initial_state_def NamingBook_def Let_def)
    then have "NamingBook st' \<noteq> None" using tail_kind [OF st'(2)] kind_of_state(1) by metis
    then show ?thesis by (simp add: st'(1) result_of_def)
  qed
  then show ?thesis using warm st by (simp add: first(2) result_of_def)
qed

theorem cached_prefix_drops_element_names_witness:
  "\<exists>warm. fst (Evaluate sample_host (sample_request [sample_box] True True)
     (snd (Evaluate sample_host (sample_request [sample_box] True False) (cache_new 5000)))) = Inr warm \<and>
     res_bodies warm = [sample_body ''a'' 0 7] \<and> res_elementNames warm = None"
proof -
  let ?rq = "sample_request [sample_box] True False"
  obtain c where run: "Evaluate sample_host ?rq (cache_new 5000) =
      (Inr \<lparr>res_bodies = [sample_body ''a'' 0 7], res_elementNames = None, res_executedOperationCount = 1\<rparr>, c)"
    using sample_box_first by blast
  have rw: "?rq\<lparr>rq_includeElementNames := True\<rparr> = sample_request [sample_box] True True" by (simp add: sample_request_def)
  from cached_prefix_drops_element_names [OF run] show ?thesis by (auto simp: run rw)
qed

end
