(* ===== verification/Server_Requests.thy ===== *)
theory Server_Requests
  imports Protocol Replay_Cache
begin

text \<open>
  The request server's pure parts (\<open>server.cpp\<close>): the envelopes of a response, the validation and
  routing of a frame (\<open>HandleRequest\<close>), the mapping of every exception of a job to its error
  response and the publication of that response (\<open>RunWork\<close>), and the parsers of request options.
  The build constants, the text of a library exception and the printer of the JSON library are
  parameters.
\<close>

section \<open>Envelopes\<close>

definition kKernelProtocolVersion :: int where
  "kKernelProtocolVersion = 3"

definition MakeSuccess :: "string \<Rightarrow> json \<Rightarrow> json" where
  "MakeSuccess requestId result =
     make_object [(''protocolVersion'', JInt kKernelProtocolVersion), (''requestId'', JString requestId),
       (''ok'', JBool True), (''result'', result)]"

text \<open>\<open>empty()\<close>: no elements; a primitive that is not null has one.\<close>

definition jempty :: "json \<Rightarrow> bool" where
  "jempty j = (case j of JNull \<Rightarrow> True | JArray js \<Rightarrow> js = [] | JObject kvs \<Rightarrow> kvs = [] | _ \<Rightarrow> False)"

definition MakeError :: "string \<Rightarrow> string \<Rightarrow> string \<Rightarrow> string \<Rightarrow> json \<Rightarrow> json" where
  "MakeError requestId code message opId details =
     (let error0 = [(''code'', JString code), (''message'', JString message)];
          error1 = (if opId \<noteq> [] then error0 @ [(''operationId'', JString opId)] else error0);
          error2 = (if \<not> is_null details \<and> \<not> jempty details then error1 @ [(''details'', details)] else error1)
      in make_object [(''protocolVersion'', JInt kKernelProtocolVersion), (''requestId'', JString requestId),
           (''ok'', JBool False), (''error'', make_object error2)])"

section \<open>Routing\<close>

definition kFallbackRequestId :: string where
  "kFallbackRequestId = ''00000000-0000-0000-0000-000000000000''"

definition work_methods :: "string list" where
  "work_methods = [''evaluate_document'', ''evaluate_definition'', ''resolve_mate_frames'', ''mutation_case'', ''ocaf_case'',
     ''export_step'', ''export_step_xde'', ''interference_exact'', ''export_mesh'', ''inspect_step'', ''inspect_step_xde'',
     ''query'', ''simulate'', ''solve_sketch'', ''hlr_project'', ''mold_draft_analysis'']"

text \<open>What a frame asks for: an answer at once, or one of the three kinds of handler.\<close>

datatype routed = Reply json | Route_health string | Route_stats string | Route_cancel json | Route_work json

definition request_id :: "json \<Rightarrow> string" where
  "request_id request =
     (case jfind request ''requestId'' of Some (JString i) \<Rightarrow> i | _ \<Rightarrow> kFallbackRequestId)"

definition version_ok :: "json \<Rightarrow> bool" where
  "version_ok request =
     (case jfind request ''protocolVersion'' of
        None \<Rightarrow> False
      | Some v \<Rightarrow> is_number_integer v \<and> get_int v = Inr kKernelProtocolVersion)"

definition HandleRequest :: "json \<Rightarrow> routed" where
  "HandleRequest request =
     (let requestId = request_id request in
      if \<not> is_object request
      then Reply (MakeError requestId ''INVALID_REQUEST'' ''kernel request must be an object'' [] JNull)
      else if requestId = []
      then Reply (MakeError kFallbackRequestId ''INVALID_REQUEST'' ''requestId is required'' [] JNull)
      else if \<not> version_ok request
      then Reply (MakeError requestId ''INVALID_REQUEST'' ''unsupported kernel protocol version'' [] JNull)
      else case jfind request ''method'' of
          Some (JString method) \<Rightarrow>
            if method = ''health'' then Route_health requestId
            else if method = ''stats'' then Route_stats requestId
            else if method = ''cancel'' then Route_cancel request
            else if method \<in> set work_methods then Route_work request
            else Reply (MakeError requestId ''INVALID_REQUEST'' ''unknown kernel method'' [] JNull)
        | _ \<Rightarrow> Reply (MakeError requestId ''INVALID_REQUEST'' ''method is required'' [] JNull))"

record build_info =
  build_kernelHostVersion :: string
  build_occtTag :: string
  build_occtCommit :: string
  build_occtManifestSha256 :: string
  build_compiler :: string
  build_buildType :: string

definition HandleHealth :: "build_info \<Rightarrow> string \<Rightarrow> json" where
  "HandleHealth build requestId =
     MakeSuccess requestId (make_object [(''type'', JString ''health''),
       (''build'', make_object [(''kernelProtocolVersion'', JInt kKernelProtocolVersion),
          (''kernelHostVersion'', JString (build_kernelHostVersion build)), (''occtTag'', JString (build_occtTag build)),
          (''occtCommit'', JString (build_occtCommit build)),
          (''occtManifestSha256'', JString (build_occtManifestSha256 build)),
          (''compiler'', JString (build_compiler build)), (''buildType'', JString (build_buildType build))])])"

definition KernelGeomVersion :: "build_info \<Rightarrow> string" where
  "KernelGeomVersion build = build_occtTag build @ ''+'' @ build_kernelHostVersion build"

definition HandleStats :: "build_info \<Rightarrow> CacheStats \<Rightarrow> u64 \<Rightarrow> string \<Rightarrow> json" where
  "HandleStats build stats uptimeMs requestId =
     (let number = (\<lambda>n :: u64. JUInt (unat n)) in
      MakeSuccess requestId (make_object [(''type'', JString ''stats''),
        (''cache'', make_object [(''entries'', JUInt (stat_entries stats)), (''bytes'', number (stat_bytes stats)),
           (''budgetBytes'', number (stat_budgetBytes stats)), (''hits'', number (stat_hits stats)),
           (''misses'', number (stat_misses stats)), (''evictions'', number (stat_evictions stats)),
           (''snapshotsStored'', number (stat_snapshotsStored stats))]),
        (''uptimeMs'', number uptimeMs), (''occtTag'', JString (build_occtTag build)),
        (''occtCommit'', JString (build_occtCommit build)), (''kernelGeomVersion'', JString (KernelGeomVersion build))]))"

text \<open>
  The first lines of \<open>HandleCancel\<close> and \<open>StartWork\<close>, which may throw: the id of the request is read
  with \<open>at\<close>, not with the fallback.
\<close>

definition cancel_target :: "json \<Rightarrow> (string \<times> string option) result" where
  "cancel_target request =
     rbind (rbind (jat request ''requestId'') get_string) (\<lambda>requestId.
       Inr (requestId, case jfind request ''targetRequestId'' of Some (JString target) \<Rightarrow> Some target | _ \<Rightarrow> None))"

definition work_id :: "json \<Rightarrow> string result" where
  "work_id request = rbind (jat request ''requestId'') get_string"

definition cancellation_reply :: "string \<Rightarrow> string \<Rightarrow> json" where
  "cancellation_reply requestId target =
     MakeSuccess requestId (make_object [(''type'', JString ''cancellation''), (''targetRequestId'', JString target)])"

section \<open>The response of a job\<close>

definition starts_with :: "string \<Rightarrow> string \<Rightarrow> bool" where
  "starts_with prefix s \<longleftrightarrow> take (length prefix) s = prefix"

text \<open>
  The handlers of \<open>RunWork\<close>, in order. The watchdog's trip is the operation and the budget it
  recorded; \<open>json_what\<close> is the text of a library exception.
\<close>

definition failure_response :: "(kexn \<Rightarrow> string) \<Rightarrow> (string \<times> int) option \<Rightarrow> string \<Rightarrow> kexn \<Rightarrow> json" where
  "failure_response json_what trip requestId e =
     (case e of
        Cancelled \<Rightarrow>
          (case trip of
             Some (opId, budget) \<Rightarrow>
               MakeError requestId ''TIMEOUT'' ''operation exceeded its per-operation time budget'' opId
                 (make_object [(''timeoutMs'', JInt budget)])
           | None \<Rightarrow> MakeError requestId ''CANCELLED'' ''kernel request was cancelled'' [] JNull)
      | Reference_missing opId message \<Rightarrow> MakeError requestId ''REFERENCE_MISSING'' message opId JNull
      | Selector_failure opId code selectorCode message details \<Rightarrow> MakeError requestId code message opId details
      | Operation_failure opId code message details \<Rightarrow> MakeError requestId code message opId details
      | Json_type_error _ \<Rightarrow> MakeError requestId ''INVALID_REQUEST'' (json_what e) [] JNull
      | Json_out_of_range _ \<Rightarrow> MakeError requestId ''INVALID_REQUEST'' (json_what e) [] JNull
      | Json_parse_error \<Rightarrow> MakeError requestId ''INVALID_REQUEST'' (json_what e) [] JNull
      | Invalid_argument message \<Rightarrow>
          MakeError requestId
            (if starts_with ''unsupported operation'' message then ''UNSUPPORTED_OPERATION'' else ''INVALID_REQUEST'')
            message [] JNull
      | Standard_failure what \<Rightarrow> MakeError requestId ''GEOMETRY_FAILED'' what [] JNull
      | Filesystem_error what \<Rightarrow> MakeError requestId ''IO_ERROR'' what [] JNull
      | Runtime_error what \<Rightarrow> MakeError requestId ''INTERNAL_ERROR'' what [] JNull
      | Logic_error what \<Rightarrow> MakeError requestId ''INTERNAL_ERROR'' what [] JNull
      | Protocol_error what \<Rightarrow> MakeError requestId ''INTERNAL_ERROR'' what [] JNull
      | Out_of_range_error \<Rightarrow> MakeError requestId ''INTERNAL_ERROR'' (json_what e) [] JNull
      | _ \<Rightarrow> MakeError requestId ''INTERNAL_ERROR'' ''unknown native exception'' [] JNull)"

definition work_response :: "(kexn \<Rightarrow> string) \<Rightarrow> (string \<times> int) option \<Rightarrow> string \<Rightarrow> json result \<Rightarrow> json" where
  "work_response json_what trip requestId outcome =
     (case outcome of Inr result \<Rightarrow> MakeSuccess requestId result | Inl e \<Rightarrow> failure_response json_what trip requestId e)"

text \<open>The last lines: a response over the frame budget is replaced by a short error.\<close>

definition publish_response :: "(json \<Rightarrow> string) \<Rightarrow> string \<Rightarrow> json \<Rightarrow> writer \<Rightarrow> writer result" where
  "publish_response dump requestId response w =
     (case WriteControl dump response w of
        Inr w' \<Rightarrow> Inr w'
      | Inl (Protocol_error what) \<Rightarrow>
          if what \<noteq> ''control response exceeds the frame budget'' then Inl (Protocol_error what)
          else WriteControl dump (MakeError requestId ''INTERNAL_ERROR''
                 (''kernel response could not be published: '' @ what) [] JNull) w
      | Inl e \<Rightarrow> Inl e)"

section \<open>Options\<close>

text \<open>The value of \<open>AETH_OP_TIMEOUT_MS\<close> where \<open>strtoll\<close> reads all of it.\<close>

definition OpTimeoutForMethod :: "int option \<Rightarrow> string \<Rightarrow> int" where
  "OpTimeoutForMethod env method =
     (case env of
        Some parsed \<Rightarrow> if 0 \<le> parsed then parsed else
          (if method \<in> {''export_step'', ''export_step_xde'', ''interference_exact'', ''export_mesh''} then 120000 else 30000)
      | None \<Rightarrow>
          (if method \<in> {''export_step'', ''export_step_xde'', ''interference_exact'', ''export_mesh''} then 120000 else 30000))"

definition EvaluationLodTier :: "json \<Rightarrow> nat result" where
  "EvaluationLodTier request =
     (let refused = Inl (Invalid_argument ''lodTier must be an integer from 0 through 2'') in
      case jfind request ''lodTier'' of
        None \<Rightarrow> Inr 0
      | Some (JUInt n) \<Rightarrow> if n \<le> 2 then Inr n else refused
      | Some (JInt i) \<Rightarrow> if 0 \<le> i \<and> i \<le> 2 then Inr (nat i) else refused
      | Some _ \<Rightarrow> refused)"

record TopologySelectionRequest =
  sel_bodyId :: string
  sel_kind :: string
  sel_entityIndex :: nat

definition entity_index_of :: "json \<Rightarrow> nat result" where
  "entity_index_of v =
     (let refused = Inl (Invalid_argument ''topologySelection entityIndex must be an integer from 0 through 999999'') in
      case v of
        JUInt n \<Rightarrow> if n > 999999 then refused else Inr n
      | JInt i \<Rightarrow> if i < 0 \<or> i > 999999 then refused else Inr (nat i)
      | _ \<Rightarrow> refused)"

definition ParseTopologySelectionRequest :: "json \<Rightarrow> TopologySelectionRequest option result" where
  "ParseTopologySelectionRequest request =
     (case jfind request ''topologySelection'' of
        None \<Rightarrow> Inr None
      | Some selection \<Rightarrow>
          rbind (jvalue request ''includeTopology'' get_bool False) (\<lambda>include.
          if include
          then Inl (Invalid_argument ''includeTopology and topologySelection are mutually exclusive evaluation modes'')
          else if \<not> is_object selection \<or> length (object_members selection) \<noteq> 3
          then Inl (Invalid_argument ''topologySelection must contain exactly bodyId, kind, and entityIndex'')
          else case jfind selection ''bodyId'' of
            Some (JString bodyId) \<Rightarrow>
              (case jfind selection ''kind'' of
                 Some (JString kind) \<Rightarrow>
                   (case jfind selection ''entityIndex'' of
                      Some v \<Rightarrow>
                        if \<not> is_number_integer v
                        then Inl (Invalid_argument ''topologySelection entityIndex must be an integer from 0 through 999999'')
                        else if bodyId = [] \<or> 64 < length bodyId
                        then Inl (Invalid_argument ''topologySelection bodyId is invalid'')
                        else if kind \<notin> {''face'', ''edge'', ''vertex''}
                        then Inl (Invalid_argument ''topologySelection kind must be face, edge, or vertex'')
                        else rbind (entity_index_of v) (\<lambda>entityIndex.
                          Inr (Some \<lparr>sel_bodyId = bodyId, sel_kind = kind, sel_entityIndex = entityIndex\<rparr>))
                    | None \<Rightarrow> Inl (Invalid_argument ''topologySelection entityIndex must be an integer from 0 through 999999''))
               | _ \<Rightarrow> Inl (Invalid_argument ''topologySelection kind must be face, edge, or vertex''))
          | _ \<Rightarrow> Inl (Invalid_argument ''topologySelection bodyId must be a string'')))"

end
