(* ===== verification/Server.thy ===== *)
theory Server
  imports Server_Requests
begin

text \<open>
  The request server (\<open>server.cpp\<close>, the loop of \<open>main.cpp\<close>) as a step relation: the reader thread,
  which takes one frame at a time, and the worker thread of the running job share the busy and
  cancellation flags, the id of the current request and the control stream. A step is the code of
  one thread between two accesses to what they share: an atomic, a section under the state mutex, a
  join, or one write to the stream. The work of a job is any outcome; only a raised flag makes it
  \<open>Cancelled\<close> (\<open>cancel.hpp\<close>). The watchdog's trip raises the flag of a running job. The counts of
  jobs and the lists of received frames and effective cancellations are history.
\<close>

section \<open>State\<close>

datatype worker_phase =
    No_thread
  | Working json
  | Responding string json
  | Publishing string json
  | Finished_thread

datatype reader_phase =
    Reading
  | Cancel_locking string string
  | Cancel_joining string string
  | Cancel_acking string string
  | Start_claimed json
  | Start_joined json
  | Stopping bool
  | Stop_joining bool
  | Exited bool

record server =
  sv_busy :: bool
  sv_current :: string
  sv_cancelled :: bool
  sv_trip :: "(string \<times> int) option"
  sv_worker :: worker_phase
  sv_reader :: reader_phase
  sv_output :: "json list"
  sv_jobs :: nat
  sv_received :: "json list"
  sv_hits :: "(nat \<times> string) list"

definition server_new :: server where
  "server_new = \<lparr>sv_busy = False, sv_current = [], sv_cancelled = False, sv_trip = None, sv_worker = No_thread,
     sv_reader = Reading, sv_output = [], sv_jobs = 0, sv_received = [], sv_hits = []\<rparr>"

text \<open>What the steps need from outside: build constants, library texts, the JSON printer.\<close>

record host =
  host_build :: build_info
  host_what :: "kexn \<Rightarrow> string"
  host_dump :: "json \<Rightarrow> string"

section \<open>The reader thread\<close>

definition write_reply :: "json \<Rightarrow> server \<Rightarrow> server" where
  "write_reply reply s = s\<lparr>sv_output := sv_output s @ [reply]\<rparr>"

text \<open>
  A frame, up to the first access to shared state. \<open>HandleCancel\<close> and \<open>StartWork\<close> may throw: the
  exception ends the loop of \<open>main\<close>, whose handler returns after the server's destructor.
\<close>

definition receive_cancel :: "json \<Rightarrow> server \<Rightarrow> server" where
  "receive_cancel request s =
     (case cancel_target request of
        Inl e \<Rightarrow> s\<lparr>sv_reader := Stopping True\<rparr>
      | Inr (requestId, None) \<Rightarrow>
          write_reply (MakeError requestId ''INVALID_REQUEST'' ''targetRequestId is required'' [] JNull) s
      | Inr (requestId, Some target) \<Rightarrow> s\<lparr>sv_reader := Cancel_locking requestId target\<rparr>)"

definition receive_work :: "json \<Rightarrow> server \<Rightarrow> server" where
  "receive_work request s =
     (case work_id request of
        Inl e \<Rightarrow> s\<lparr>sv_reader := Stopping True\<rparr>
      | Inr requestId \<Rightarrow>
          if sv_busy s
          then write_reply (MakeError requestId ''BUSY'' ''kernel is already evaluating a request'' [] JNull) s
          else s\<lparr>sv_busy := True, sv_reader := Start_claimed request\<rparr>)"

definition receive :: "host \<Rightarrow> CacheStats \<Rightarrow> u64 \<Rightarrow> json \<Rightarrow> server \<Rightarrow> server" where
  "receive h stats uptime request s =
     (let s = s\<lparr>sv_received := sv_received s @ [request]\<rparr> in
      case HandleRequest request of
        Reply reply \<Rightarrow> write_reply reply s
      | Route_health requestId \<Rightarrow> write_reply (HandleHealth (host_build h) requestId) s
      | Route_stats requestId \<Rightarrow> write_reply (HandleStats (host_build h) stats uptime requestId) s
      | Route_cancel request \<Rightarrow> receive_cancel request s
      | Route_work request \<Rightarrow> receive_work request s)"

text \<open>\<open>joinable\<close> is false without a thread; \<open>join\<close> returns once the thread has ended.\<close>

definition can_join :: "server \<Rightarrow> bool" where
  "can_join s \<longleftrightarrow> sv_worker s = No_thread \<or> sv_worker s = Finished_thread"

definition HandleCancel_lock :: "string \<Rightarrow> string \<Rightarrow> server \<Rightarrow> server" where
  "HandleCancel_lock requestId target s =
     (if sv_busy s \<and> target = sv_current s
      then s\<lparr>sv_cancelled := True, sv_hits := sv_hits s @ [(sv_jobs s, target)], sv_reader := Cancel_joining requestId target\<rparr>
      else s\<lparr>sv_reader := Cancel_acking requestId target\<rparr>)"

definition StartWork_spawn :: "json \<Rightarrow> server \<Rightarrow> server" where
  "StartWork_spawn request s =
     s\<lparr>sv_current := request_id request, sv_cancelled := False, sv_trip := None, sv_worker := Working request,
       sv_jobs := Suc (sv_jobs s), sv_reader := Reading\<rparr>"

fun reader_step :: "server \<Rightarrow> server option" where
  "reader_step s =
     (case sv_reader s of
        Reading \<Rightarrow> None
      | Cancel_locking requestId target \<Rightarrow> Some (HandleCancel_lock requestId target s)
      | Cancel_joining requestId target \<Rightarrow>
          if can_join s then Some (s\<lparr>sv_worker := No_thread, sv_reader := Cancel_acking requestId target\<rparr>) else None
      | Cancel_acking requestId target \<Rightarrow> Some (write_reply (cancellation_reply requestId target) (s\<lparr>sv_reader := Reading\<rparr>))
      | Start_claimed request \<Rightarrow>
          if can_join s then Some (s\<lparr>sv_worker := No_thread, sv_reader := Start_joined request\<rparr>) else None
      | Start_joined request \<Rightarrow> Some (StartWork_spawn request s)
      | Stopping failed \<Rightarrow> Some (s\<lparr>sv_cancelled := True, sv_reader := Stop_joining failed\<rparr>)
      | Stop_joining failed \<Rightarrow>
          if can_join s then Some (s\<lparr>sv_worker := No_thread, sv_reader := Exited failed\<rparr>) else None
      | Exited failed \<Rightarrow> None)"

section \<open>The worker thread\<close>

text \<open>The response that reaches the stream, in place of one over the frame budget.\<close>

definition published :: "host \<Rightarrow> string \<Rightarrow> json \<Rightarrow> json" where
  "published h requestId response =
     (let size = length (host_dump h response) in
      if size = 0 \<or> kMaxControlFrameBytes < size
      then MakeError requestId ''INTERNAL_ERROR''
             ''kernel response could not be published: control response exceeds the frame budget'' [] JNull
      else response)"

definition RunWork_respond :: "host \<Rightarrow> json result \<Rightarrow> server \<Rightarrow> server option" where
  "RunWork_respond h outcome s =
     (case sv_worker s of
        Working request \<Rightarrow>
          if outcome = Inl Cancelled \<and> \<not> sv_cancelled s then None
          else Some (s\<lparr>sv_worker := Responding (request_id request)
                 (work_response (host_what h) (sv_trip s) (request_id request) outcome)\<rparr>)
      | _ \<Rightarrow> None)"

definition RunWork_clear :: "server \<Rightarrow> server option" where
  "RunWork_clear s =
     (case sv_worker s of
        Responding requestId response \<Rightarrow>
          Some (s\<lparr>sv_busy := False, sv_current := [], sv_worker := Publishing requestId response\<rparr>)
      | _ \<Rightarrow> None)"

definition RunWork_publish :: "host \<Rightarrow> server \<Rightarrow> server option" where
  "RunWork_publish h s =
     (case sv_worker s of
        Publishing requestId response \<Rightarrow>
          Some (write_reply (published h requestId response) (s\<lparr>sv_worker := Finished_thread\<rparr>))
      | _ \<Rightarrow> None)"

text \<open>
  A trip of the watchdog: it records the operation and raises the flag, once, and not after a cancel
  request reached it first.
\<close>

definition watchdog_trip :: "string \<Rightarrow> int \<Rightarrow> server \<Rightarrow> server option" where
  "watchdog_trip opId budget s =
     (case sv_worker s of
        Working request \<Rightarrow>
          if sv_trip s \<noteq> None \<or> sv_jobs s \<in> set (map fst (sv_hits s)) then None
          else Some (s\<lparr>sv_trip := Some (opId, budget), sv_cancelled := True\<rparr>)
      | _ \<Rightarrow> None)"

section \<open>Runs\<close>

datatype server_action =
    Frame CacheStats u64 json
  | End_of_input
  | Reader
  | Work "json result"
  | Clear
  | Publish
  | Trip string int

inductive sv_step :: "host \<Rightarrow> server \<Rightarrow> server_action \<Rightarrow> server \<Rightarrow> bool" for h where
  frame: "sv_reader s = Reading \<Longrightarrow> sv_step h s (Frame stats uptime request) (receive h stats uptime request s)"
| eof: "sv_reader s = Reading \<Longrightarrow> sv_step h s End_of_input (s\<lparr>sv_reader := Stopping False\<rparr>)"
| reader: "reader_step s = Some s' \<Longrightarrow> sv_step h s Reader s'"
| work: "RunWork_respond h outcome s = Some s' \<Longrightarrow> sv_step h s (Work outcome) s'"
| clear: "RunWork_clear s = Some s' \<Longrightarrow> sv_step h s Clear s'"
| publish: "RunWork_publish h s = Some s' \<Longrightarrow> sv_step h s Publish s'"
| trip: "watchdog_trip opId budget s = Some s' \<Longrightarrow> sv_step h s (Trip opId budget) s'"

inductive sv_run :: "host \<Rightarrow> server \<Rightarrow> server_action list \<Rightarrow> server \<Rightarrow> bool" for h where
  nil: "sv_run h s [] s"
| snoc: "sv_run h s as s' \<Longrightarrow> sv_step h s' a s'' \<Longrightarrow> sv_run h s (as @ [a]) s''"

inductive_cases step_FrameE: "sv_step h s (Frame stats uptime request) s'"
inductive_cases step_ReaderE: "sv_step h s Reader s'"

inductive_simps step_simps:
  "sv_step h s (Frame stats uptime request) s'"
  "sv_step h s End_of_input s'"
  "sv_step h s Reader s'"
  "sv_step h s (Work outcome) s'"
  "sv_step h s Clear s'"
  "sv_step h s Publish s'"
  "sv_step h s (Trip opId budget) s'"

end
