(* ===== verification/Server_Laws.thy ===== *)
theory Server_Laws
  imports Server "HOL-Library.Multiset"
begin

text \<open>
  The laws of the server for every interleaving of the reader, the worker and the watchdog: the
  invariant of the flags, one response for every frame, the order of a cancellation and the
  response it waits for, and the drain to a quiescent state.
\<close>

section \<open>Responses\<close>

definition response_id :: "json \<Rightarrow> string" where
  "response_id j = (case jfind j ''requestId'' of Some (JString i) \<Rightarrow> i | _ \<Rightarrow> [])"

text \<open>The shape the protocol promises of a response.\<close>

definition wire_response :: "json \<Rightarrow> bool" where
  "wire_response j \<longleftrightarrow>
     jfind j ''protocolVersion'' = Some (JInt 3) \<and> (\<exists>i. jfind j ''requestId'' = Some (JString i)) \<and>
     (jfind j ''ok'' = Some (JBool True) \<and> jcontains j ''result'' \<or>
      jfind j ''ok'' = Some (JBool False) \<and>
      (\<exists>e code message. jfind j ''error'' = Some e \<and> jfind e ''code'' = Some (JString code) \<and> jfind e ''message'' = Some (JString message)))"

lemma MakeSuccess_wire [simp]: "wire_response (MakeSuccess i r)" "response_id (MakeSuccess i r) = i"
  by (simp_all add: wire_response_def response_id_def MakeSuccess_def make_object_def kKernelProtocolVersion_def jcontains_def)

lemma MakeError_wire [simp]: "wire_response (MakeError i c m opId d)" "response_id (MakeError i c m opId d) = i"
  by (simp_all add: wire_response_def response_id_def MakeError_def make_object_def kKernelProtocolVersion_def Let_def)

lemma failure_wire [simp]:
  "wire_response (failure_response w t i e)" "response_id (failure_response w t i e) = i"
  by (cases e; simp add: failure_response_def split: option.splits)+

lemma work_response_wire [simp]:
  "wire_response (work_response w t i r)" "response_id (work_response w t i r) = i"
  by (cases r; simp add: work_response_def)+

lemma published_wire [simp]:
  "wire_response r \<Longrightarrow> wire_response (published h i r)" "response_id r = i \<Longrightarrow> response_id (published h i r) = i"
  by (simp_all add: published_def Let_def)

lemma reply_wire [simp]:
  "wire_response (HandleHealth b i)" "response_id (HandleHealth b i) = i"
  "wire_response (HandleStats b st u i)" "response_id (HandleStats b st u i) = i"
  "wire_response (cancellation_reply i t)" "response_id (cancellation_reply i t) = i"
  by (simp_all add: HandleHealth_def HandleStats_def cancellation_reply_def Let_def)

text \<open>The id a frame's response carries.\<close>

definition expected_id :: "json \<Rightarrow> string" where
  "expected_id request = (if request_id request = [] then kFallbackRequestId else request_id request)"

lemma fallback_id [simp]: "kFallbackRequestId \<noteq> []" "\<not> is_object request \<Longrightarrow> request_id request = kFallbackRequestId"
  by (cases request; simp add: kFallbackRequestId_def request_id_def jfind_def)+

lemma HandleRequest_reply:
  "HandleRequest request = Reply r \<Longrightarrow> wire_response r \<and> response_id r = expected_id request"
  by (auto simp del: is_object_def simp: HandleRequest_def expected_id_def Let_def split: if_splits option.splits json.splits)

lemma HandleRequest_ids:
  "HandleRequest request = Route_health i \<Longrightarrow> i = expected_id request"
  "HandleRequest request = Route_stats i \<Longrightarrow> i = expected_id request"
  "HandleRequest request = Route_cancel rq \<Longrightarrow> rq = request \<and> request_id request \<noteq> []"
  "HandleRequest request = Route_work rq \<Longrightarrow> rq = request \<and> request_id request \<noteq> []"
  by (auto simp: HandleRequest_def expected_id_def Let_def split: if_splits option.splits json.splits)

lemma work_id_Inr: "work_id request = Inr i \<Longrightarrow> request_id request = i"
  by (auto simp: work_id_def rbind_eq_Inr jat_eq_Inr request_id_def)

lemma cancel_target_Inr: "cancel_target request = Inr (i, t) \<Longrightarrow> request_id request = i"
  by (auto simp: cancel_target_def rbind_eq_Inr jat_eq_Inr request_id_def)

section \<open>The invariant\<close>

definition starting :: "server \<Rightarrow> bool" where
  "starting s \<longleftrightarrow> (case sv_reader s of Start_claimed _ \<Rightarrow> True | Start_joined _ \<Rightarrow> True | _ \<Rightarrow> False)"

definition running :: "server \<Rightarrow> bool" where
  "running s \<longleftrightarrow> (case sv_worker s of Working _ \<Rightarrow> True | Responding _ _ \<Rightarrow> True | _ \<Rightarrow> False)"

definition pending_worker :: "server \<Rightarrow> string list" where
  "pending_worker s =
     (case sv_worker s of Working request \<Rightarrow> [request_id request] | Responding i r \<Rightarrow> [i] | Publishing i r \<Rightarrow> [i] | _ \<Rightarrow> [])"

definition pending_reader :: "server \<Rightarrow> string list" where
  "pending_reader s =
     (case sv_reader s of
        Cancel_locking i t \<Rightarrow> [i] | Cancel_joining i t \<Rightarrow> [i] | Cancel_acking i t \<Rightarrow> [i]
      | Start_claimed request \<Rightarrow> [request_id request] | Start_joined request \<Rightarrow> [request_id request] | _ \<Rightarrow> [])"

text \<open>The frame whose handler threw, if one did.\<close>

definition lost :: "server \<Rightarrow> string list" where
  "lost s =
     (case sv_reader s of
        Stopping failed \<Rightarrow> if failed then [expected_id (last (sv_received s))] else []
      | Stop_joining failed \<Rightarrow> if failed then [expected_id (last (sv_received s))] else []
      | Exited failed \<Rightarrow> if failed then [expected_id (last (sv_received s))] else []
      | _ \<Rightarrow> [])"

definition stop_requested :: "server \<Rightarrow> bool" where
  "stop_requested s \<longleftrightarrow> (case sv_reader s of Stop_joining _ \<Rightarrow> True | Exited _ \<Rightarrow> True | _ \<Rightarrow> False)"

definition flags_ok :: "server \<Rightarrow> bool" where
  "flags_ok s \<longleftrightarrow>
     (sv_busy s \<longleftrightarrow> starting s \<or> running s) \<and> \<not> (starting s \<and> running s) \<and>
     (case sv_reader s of Start_claimed request \<Rightarrow> request_id request \<noteq> []
        | Start_joined request \<Rightarrow> request_id request \<noteq> [] \<and> sv_worker s = No_thread
        | Exited _ \<Rightarrow> sv_worker s = No_thread | _ \<Rightarrow> True) \<and>
     (if running s then sv_current s \<noteq> [] \<and> pending_worker s = [sv_current s] else sv_current s = [])"

definition wire_ok :: "server \<Rightarrow> bool" where
  "wire_ok s \<longleftrightarrow>
     (case sv_worker s of Responding i r \<Rightarrow> wire_response r \<and> response_id r = i
        | Publishing i r \<Rightarrow> wire_response r \<and> response_id r = i | _ \<Rightarrow> True) \<and>
     (\<forall>j \<in> set (sv_output s). wire_response j)"

definition answers_ok :: "server \<Rightarrow> bool" where
  "answers_ok s \<longleftrightarrow>
     mset (map expected_id (sv_received s)) =
       mset (map response_id (sv_output s)) + mset (pending_reader s) + mset (pending_worker s) + mset (lost s)"

definition cancel_ok :: "server \<Rightarrow> bool" where
  "cancel_ok s \<longleftrightarrow>
     (running s \<and> sv_cancelled s \<longrightarrow>
        sv_trip s \<noteq> None \<or> (sv_jobs s, sv_current s) \<in> set (sv_hits s) \<or> stop_requested s)"

definition server_ok :: "server \<Rightarrow> bool" where
  "server_ok s \<longleftrightarrow> flags_ok s \<and> wire_ok s \<and> answers_ok s \<and> cancel_ok s"

lemmas phase_defs = starting_def running_def pending_worker_def pending_reader_def lost_def stop_requested_def

lemma server_ok_new: "server_ok server_new"
  by (simp add: server_ok_def flags_ok_def wire_ok_def answers_ok_def cancel_ok_def server_new_def phase_defs)

section \<open>Every step keeps it\<close>

text \<open>A frame: an answer at once, a failure of the handler, or a phase of the reader.\<close>

lemma server_ok_reply:
  assumes "sv_reader s = Reading" and "wire_response r" and "response_id r = expected_id request" and "server_ok s"
  shows "server_ok (write_reply r (s\<lparr>sv_received := sv_received s @ [request]\<rparr>))"
  using assms
  by (auto simp: server_ok_def flags_ok_def wire_ok_def answers_ok_def cancel_ok_def write_reply_def phase_defs)

lemma server_ok_phase:
  assumes "sv_reader s = Reading" and "server_ok s"
  shows "server_ok (s\<lparr>sv_received := sv_received s @ [request], sv_reader := Stopping True\<rparr>)"
    and "expected_id request = i \<Longrightarrow> server_ok (s\<lparr>sv_received := sv_received s @ [request], sv_reader := Cancel_locking i t\<rparr>)"
    and "expected_id request = request_id request \<Longrightarrow> request_id request \<noteq> [] \<Longrightarrow> \<not> sv_busy s \<Longrightarrow>
      server_ok (s\<lparr>sv_received := sv_received s @ [request], sv_busy := True, sv_reader := Start_claimed request\<rparr>)"
  using assms by (auto simp: server_ok_def flags_ok_def wire_ok_def answers_ok_def cancel_ok_def phase_defs)

lemma server_ok_frame:
  assumes ok: "server_ok s" and reading: "sv_reader s = Reading"
  shows "server_ok (receive h stats uptime request s)"
proof -
  note reply = server_ok_reply [OF reading _ _ ok, of _ request] and phase = server_ok_phase [OF reading ok, where request = request]
  show ?thesis
  proof (cases "HandleRequest request")
    case (Reply r)
    then show ?thesis using reply HandleRequest_reply by (simp add: receive_def)
  next
    case (Route_health i)
    then show ?thesis using reply HandleRequest_ids(1) [of request i] by (simp add: receive_def)
  next
    case (Route_stats i)
    then show ?thesis using reply HandleRequest_ids(2) [of request i] by (simp add: receive_def)
  next
    case (Route_cancel rq)
    then have rq: "rq = request" "expected_id request = request_id request" using HandleRequest_ids(3) by (auto simp: expected_id_def)
    show ?thesis
    proof (cases "cancel_target request")
      case (Inl e)
      then show ?thesis using phase(1) by (simp add: receive_def receive_cancel_def Route_cancel rq)
    next
      case (Inr p)
      obtain i t where p: "p = (i, t)" by force
      have "expected_id request = i" using cancel_target_Inr Inr p rq by simp
      then show ?thesis using reply phase(2)
        by (cases t) (simp_all add: receive_def receive_cancel_def Route_cancel rq Inr p)
    qed
  next
    case (Route_work rq)
    then have rq: "rq = request" "expected_id request = request_id request" "request_id request \<noteq> []"
      using HandleRequest_ids(4) by (auto simp: expected_id_def)
    show ?thesis
    proof (cases "work_id request")
      case (Inl e)
      then show ?thesis using phase(1) by (simp add: receive_def receive_work_def Route_work rq)
    next
      case (Inr i)
      then have "request_id request = i" using work_id_Inr by simp
      then show ?thesis using reply phase(3) rq by (simp add: receive_def receive_work_def Route_work Inr Let_def)
    qed
  qed
qed

text \<open>The reader.\<close>

lemma flags_ok_reader: "flags_ok s \<Longrightarrow> reader_step s = Some s' \<Longrightarrow> flags_ok s'"
  by (cases "sv_reader s")
    (auto simp: flags_ok_def phase_defs can_join_def HandleCancel_lock_def StartWork_spawn_def write_reply_def split: if_splits)

lemma wire_ok_reader: "wire_ok s \<Longrightarrow> reader_step s = Some s' \<Longrightarrow> wire_ok s'"
  by (cases "sv_reader s")
    (auto simp: wire_ok_def can_join_def HandleCancel_lock_def StartWork_spawn_def write_reply_def split: if_splits)

lemma answers_ok_reader: "flags_ok s \<Longrightarrow> answers_ok s \<Longrightarrow> reader_step s = Some s' \<Longrightarrow> answers_ok s'"
  by (cases "sv_reader s")
    (auto simp: flags_ok_def answers_ok_def phase_defs can_join_def HandleCancel_lock_def StartWork_spawn_def write_reply_def split: if_splits)

lemma cancel_ok_reader: "cancel_ok s \<Longrightarrow> reader_step s = Some s' \<Longrightarrow> cancel_ok s'"
  by (cases "sv_reader s")
    (auto simp: cancel_ok_def phase_defs can_join_def HandleCancel_lock_def StartWork_spawn_def write_reply_def split: if_splits)

lemma server_ok_reader: "server_ok s \<Longrightarrow> reader_step s = Some s' \<Longrightarrow> server_ok s'"
  unfolding server_ok_def using flags_ok_reader wire_ok_reader answers_ok_reader cancel_ok_reader by blast

text \<open>The worker and the watchdog.\<close>

lemmas worker_defs = RunWork_respond_def RunWork_clear_def RunWork_publish_def watchdog_trip_def write_reply_def

lemma respondE:
  assumes "RunWork_respond h outcome s = Some s'"
  obtains request where "sv_worker s = Working request" "outcome = Inl Cancelled \<Longrightarrow> sv_cancelled s"
    "s' = s\<lparr>sv_worker := Responding (request_id request) (work_response (host_what h) (sv_trip s) (request_id request) outcome)\<rparr>"
  using assms by (auto simp: RunWork_respond_def split: worker_phase.splits if_splits)

lemma clearE:
  assumes "RunWork_clear s = Some s'"
  obtains i r where "sv_worker s = Responding i r" "s' = s\<lparr>sv_busy := False, sv_current := [], sv_worker := Publishing i r\<rparr>"
  using assms by (auto simp: RunWork_clear_def split: worker_phase.splits)

lemma publishE:
  assumes "RunWork_publish h s = Some s'"
  obtains i r where "sv_worker s = Publishing i r" "s' = s\<lparr>sv_worker := Finished_thread, sv_output := sv_output s @ [published h i r]\<rparr>"
  using assms by (auto simp: RunWork_publish_def write_reply_def split: worker_phase.splits)

lemma tripE:
  assumes "watchdog_trip opId budget s = Some s'"
  obtains request where "sv_worker s = Working request" "sv_trip s = None" "sv_jobs s \<notin> fst ` set (sv_hits s)"
    "s' = s\<lparr>sv_trip := Some (opId, budget), sv_cancelled := True\<rparr>"
  using assms by (cases "sv_trip s") (auto simp: watchdog_trip_def split: worker_phase.splits if_splits)

lemma reader_part [simp]:
  "pending_reader (s\<lparr>sv_worker := w\<rparr>) = pending_reader s" "lost (s\<lparr>sv_worker := w\<rparr>) = lost s"
  "pending_reader (s\<lparr>sv_busy := b\<rparr>) = pending_reader s" "lost (s\<lparr>sv_busy := b\<rparr>) = lost s"
  "pending_reader (s\<lparr>sv_current := i\<rparr>) = pending_reader s" "lost (s\<lparr>sv_current := i\<rparr>) = lost s"
  "pending_reader (s\<lparr>sv_output := out\<rparr>) = pending_reader s" "lost (s\<lparr>sv_output := out\<rparr>) = lost s"
  "pending_reader (s\<lparr>sv_trip := t\<rparr>) = pending_reader s" "lost (s\<lparr>sv_trip := t\<rparr>) = lost s"
  "pending_reader (s\<lparr>sv_cancelled := b\<rparr>) = pending_reader s" "lost (s\<lparr>sv_cancelled := b\<rparr>) = lost s"
  by (cases "sv_reader s"; simp add: pending_reader_def lost_def)+

lemma flags_ok_worker:
  assumes ok: "flags_ok s"
  shows "RunWork_respond h outcome s = Some s' \<Longrightarrow> flags_ok s'" and "RunWork_clear s = Some s' \<Longrightarrow> flags_ok s'"
    and "RunWork_publish h s = Some s' \<Longrightarrow> flags_ok s'" and "watchdog_trip opId budget s = Some s' \<Longrightarrow> flags_ok s'"
proof -
  show "flags_ok s'" if "RunWork_respond h outcome s = Some s'"
    by (rule respondE [OF that]) (use ok in \<open>cases "sv_reader s"; simp add: flags_ok_def phase_defs\<close>)
  show "flags_ok s'" if "RunWork_clear s = Some s'"
    by (rule clearE [OF that]) (use ok in \<open>cases "sv_reader s"; simp add: flags_ok_def phase_defs\<close>)
  show "flags_ok s'" if "RunWork_publish h s = Some s'"
    by (rule publishE [OF that]) (use ok in \<open>cases "sv_reader s"; simp add: flags_ok_def phase_defs\<close>)
  show "flags_ok s'" if "watchdog_trip opId budget s = Some s'"
    by (rule tripE [OF that]) (use ok in \<open>cases "sv_reader s"; simp add: flags_ok_def phase_defs\<close>)
qed

lemma wire_ok_worker:
  assumes ok: "wire_ok s"
  shows "RunWork_respond h outcome s = Some s' \<Longrightarrow> wire_ok s'" and "RunWork_clear s = Some s' \<Longrightarrow> wire_ok s'"
    and "RunWork_publish h s = Some s' \<Longrightarrow> wire_ok s'" and "watchdog_trip opId budget s = Some s' \<Longrightarrow> wire_ok s'"
  using ok by (auto elim!: respondE clearE publishE tripE simp: wire_ok_def)

lemma answers_ok_worker:
  assumes "wire_ok s" and "answers_ok s"
  shows "RunWork_respond h outcome s = Some s' \<Longrightarrow> answers_ok s'" and "RunWork_clear s = Some s' \<Longrightarrow> answers_ok s'"
    and "RunWork_publish h s = Some s' \<Longrightarrow> answers_ok s'" and "watchdog_trip opId budget s = Some s' \<Longrightarrow> answers_ok s'"
  using assms by (auto elim!: respondE clearE publishE tripE simp: wire_ok_def answers_ok_def pending_worker_def)

lemma cancel_ok_worker:
  assumes "cancel_ok s"
  shows "RunWork_respond h outcome s = Some s' \<Longrightarrow> cancel_ok s'" and "RunWork_clear s = Some s' \<Longrightarrow> cancel_ok s'"
    and "RunWork_publish h s = Some s' \<Longrightarrow> cancel_ok s'" and "watchdog_trip opId budget s = Some s' \<Longrightarrow> cancel_ok s'"
  using assms by (auto elim!: respondE clearE publishE tripE simp: cancel_ok_def running_def stop_requested_def)

lemma server_ok_worker:
  assumes "server_ok s"
  shows "RunWork_respond h outcome s = Some s' \<Longrightarrow> server_ok s'" and "RunWork_clear s = Some s' \<Longrightarrow> server_ok s'"
    and "RunWork_publish h s = Some s' \<Longrightarrow> server_ok s'" and "watchdog_trip opId budget s = Some s' \<Longrightarrow> server_ok s'"
  using assms unfolding server_ok_def
  by (auto dest: flags_ok_worker wire_ok_worker answers_ok_worker cancel_ok_worker)

lemma worker_part [simp]:
  "pending_worker (s\<lparr>sv_reader := p\<rparr>) = pending_worker s" "running (s\<lparr>sv_reader := p\<rparr>) = running s"
  by (simp_all add: pending_worker_def running_def)

lemma server_ok_eof: "server_ok s \<Longrightarrow> sv_reader s = Reading \<Longrightarrow> server_ok (s\<lparr>sv_reader := Stopping False\<rparr>)"
  by (simp add: server_ok_def flags_ok_def wire_ok_def answers_ok_def cancel_ok_def starting_def pending_reader_def lost_def
      stop_requested_def)

lemma server_ok_step: "sv_step h s a s' \<Longrightarrow> server_ok s \<Longrightarrow> server_ok s'"
  by (induction rule: sv_step.induct)
    (auto intro: server_ok_frame server_ok_eof server_ok_reader server_ok_worker)

lemma server_ok_run: "sv_run h s as s' \<Longrightarrow> server_ok s \<Longrightarrow> server_ok s'"
  by (induction rule: sv_run.induct) (auto intro: server_ok_step)

section \<open>Properties\<close>

text \<open>C3. The flags of the server are consistent in every interleaving: the kernel is busy exactly while a
  job is being started or runs, never two at once, and the current request is the running job's
  id while it runs and empty otherwise.\<close>

theorem server_runs_one_job:
  assumes "sv_run h server_new actions s"
  shows "(sv_busy s \<longleftrightarrow> starting s \<or> running s) \<and> \<not> (starting s \<and> running s) \<and>
    (if running s then pending_worker s = [sv_current s] else sv_current s = [])"
  using server_ok_run [OF assms server_ok_new] by (simp add: server_ok_def flags_ok_def)

text \<open>C2. Every frame is answered exactly once: whenever the server is quiescent (it waits for a frame or
  left the loop at the end of the input, and no job is in flight), the ids of the responses on the
  control stream are, as a multiset, the ids of the frames received.\<close>

theorem every_frame_answered_once:
  assumes "sv_run h server_new actions s" and "pending_worker s = []"
    and "sv_reader s = Reading \<or> sv_reader s = Exited False"
  shows "mset (map response_id (sv_output s)) = mset (map expected_id (sv_received s))"
  using server_ok_run [OF assms(1) server_ok_new] assms(2,3)
  by (auto simp: server_ok_def answers_ok_def pending_reader_def lost_def)

text \<open>C33. Every message the server writes has the protocol's response shape: version 3, a string id, and
  either a result or an error object with a string code and a string message.\<close>

theorem responses_are_well_formed:
  assumes "sv_run h server_new actions s" and "message \<in> set (sv_output s)"
  shows "wire_response message"
  using server_ok_run [OF assms(1) server_ok_new] assms(2) by (simp add: server_ok_def wire_ok_def)

text \<open>C32. A cancellation reaches only its target: if a job ends as cancelled without a watchdog trip, then
  either a cancel request naming that job's id was received while this very job ran, or the server
  was stopping. In particular a late cancel of an earlier job never hits the next one.\<close>

theorem cancellation_hits_only_its_target:
  assumes "sv_run h server_new actions s" and "sv_step h s (Work (Inl Cancelled)) s'" and "sv_trip s = None"
  shows "(sv_jobs s, sv_current s) \<in> set (sv_hits s) \<or> stop_requested s"
proof -
  from assms(2) have "RunWork_respond h (Inl Cancelled) s = Some s'" by (simp add: step_simps)
  then have "running s" "sv_cancelled s" by (auto elim!: respondE simp: running_def)
  then show ?thesis using server_ok_run [OF assms(1) server_ok_new] assms(3) by (simp add: server_ok_def cancel_ok_def)
qed

section \<open>Order of a cancellation\<close>

text \<open>What a run writes after the state \<open>s\<close>.\<close>

definition written_since :: "server \<Rightarrow> server \<Rightarrow> json list" where
  "written_since s s' = drop (length (sv_output s)) (sv_output s')"

text \<open>After an effective cancel: the job's response is still to come, or it is the first message.\<close>

definition awaits_target :: "string \<Rightarrow> server \<Rightarrow> server \<Rightarrow> bool" where
  "awaits_target target s s' \<longleftrightarrow>
     (\<exists>more. sv_output s' = sv_output s @ more \<and>
       (more = [] \<and> (\<exists>i. sv_reader s' = Cancel_joining i target) \<and> pending_worker s' = [target] \<or>
        more \<noteq> [] \<and> response_id (hd more) = target))"

lemma awaits_step:
  assumes step: "sv_step h s' a s''" and ok: "server_ok s'" and aw: "awaits_target target s s'"
  shows "awaits_target target s s''"
proof -
  obtain more where more: "sv_output s' = sv_output s @ more"
    and cases: "more = [] \<and> (\<exists>i. sv_reader s' = Cancel_joining i target) \<and> pending_worker s' = [target] \<or>
      more \<noteq> [] \<and> response_id (hd more) = target" using aw by (auto simp: awaits_target_def)
  have grows: "\<exists>ys. sv_output s'' = sv_output s' @ ys" using step
    by (induction rule: sv_step.induct)
      (auto simp: receive_def receive_cancel_def receive_work_def write_reply_def Let_def can_join_def HandleCancel_lock_def
        StartWork_spawn_def elim!: respondE clearE publishE tripE split: routed.splits sum.splits option.splits prod.splits
        reader_phase.splits if_splits)
  show ?thesis
  proof (cases "more = []")
    case False
    then show ?thesis using grows more cases by (auto simp: awaits_target_def)
  next
    case True
    then obtain i where j: "sv_reader s' = Cancel_joining i target" and w: "pending_worker s' = [target]" using cases by auto
    have nj: "\<not> can_join s'" using w by (auto simp: can_join_def pending_worker_def)
    from step show ?thesis
    proof (cases rule: sv_step.cases)
      case reader
      then show ?thesis using j nj by simp
    next
      case work
      then show ?thesis using j w more True by (auto elim!: respondE simp: awaits_target_def pending_worker_def)
    next
      case clear
      then show ?thesis using j w more True by (auto elim!: clearE simp: awaits_target_def pending_worker_def)
    next
      case publish
      have "wire_ok s'" using ok by (simp add: server_ok_def)
      then show ?thesis using publish w more True
        by (auto elim!: publishE simp: awaits_target_def pending_worker_def wire_ok_def)
    next
      case trip
      then show ?thesis using j w more True by (auto elim!: tripE simp: awaits_target_def pending_worker_def)
    qed (use j in simp_all)
  qed
qed

lemma awaits_run:
  "sv_run h s' actions s'' \<Longrightarrow> server_ok s' \<Longrightarrow> awaits_target target s s' \<Longrightarrow> awaits_target target s s''"
proof (induction rule: sv_run.induct)
  case (snoc s1 as s2 a s3)
  then show ?case using awaits_step server_ok_run by blast
qed simp

text \<open>C30. The acknowledgement of an effective cancel comes after the response it cancelled: once the reader
  has raised the flag of the running job, the next message on the control stream, whatever the
  threads do, is that job's response.\<close>

theorem cancelled_job_answers_first:
  assumes "sv_run h server_new before s" and "sv_reader s = Cancel_locking requestId target"
    and "sv_busy s" and "target = sv_current s"
    and "sv_step h s Reader s1" and "sv_run h s1 later s'" and "written_since s s' \<noteq> []"
  shows "response_id (hd (written_since s s')) = target"
proof -
  note ok = server_ok_run [OF assms(1) server_ok_new]
  have s1: "s1 = s\<lparr>sv_cancelled := True, sv_hits := sv_hits s @ [(sv_jobs s, target)], sv_reader := Cancel_joining requestId target\<rparr>"
    using assms(2-5) by (auto simp: step_simps HandleCancel_lock_def)
  have "running s" using ok assms(2,3) by (simp add: server_ok_def flags_ok_def starting_def)
  then have "pending_worker s = [target]" using ok assms(4) by (simp add: server_ok_def flags_ok_def)
  then have "awaits_target target s s1" by (simp add: awaits_target_def s1 pending_worker_def)
  from awaits_run [OF assms(6) server_ok_step [OF assms(5) ok] this] assms(7) show ?thesis
    by (auto simp: awaits_target_def written_since_def)
qed

end
