(* ===== verification/Server_Properties.thy ===== *)
theory Server_Properties
  imports Server_Laws
begin

text \<open>
  A concrete session of the server (a job, a cancel request that reaches it, its response and the
  acknowledgement), evaluated step by step, which witnesses the laws of the server; and the frames
  that end the process.
\<close>

section \<open>Executing a session\<close>

fun exec_action :: "host \<Rightarrow> server_action \<Rightarrow> server \<Rightarrow> server option" where
  "exec_action h (Frame stats uptime request) s = (if sv_reader s = Reading then Some (receive h stats uptime request s) else None)"
| "exec_action h End_of_input s = (if sv_reader s = Reading then Some (s\<lparr>sv_reader := Stopping False\<rparr>) else None)"
| "exec_action h Reader s = reader_step s"
| "exec_action h (Work outcome) s = RunWork_respond h outcome s"
| "exec_action h Clear s = RunWork_clear s"
| "exec_action h Publish s = RunWork_publish h s"
| "exec_action h (Trip opId budget) s = watchdog_trip opId budget s"

fun exec_session :: "host \<Rightarrow> server \<Rightarrow> server_action list \<Rightarrow> server option" where
  "exec_session h s [] = Some s"
| "exec_session h s (a # as) = Option.bind (exec_action h a s) (\<lambda>s'. exec_session h s' as)"

lemma exec_action_step: "exec_action h a s = Some s' \<Longrightarrow> sv_step h s a s'"
  by (cases a) (auto simp: step_simps split: if_splits)

lemma sv_run_cons: "sv_run h s' as s'' \<Longrightarrow> sv_step h s a s' \<Longrightarrow> sv_run h s (a # as) s''"
proof (induction rule: sv_run.induct)
  case (nil s')
  then show ?case using sv_run.snoc [OF sv_run.nil] by fastforce
next
  case (snoc s' as t b u)
  then show ?case using sv_run.snoc by fastforce
qed

lemma exec_session_run: "exec_session h s as = Some s' \<Longrightarrow> sv_run h s as s'"
proof (induction as arbitrary: s)
  case Nil
  then show ?case by (simp add: sv_run.nil)
next
  case (Cons a as)
  then obtain t where t: "exec_action h a s = Some t" "exec_session h t as = Some s'" by (auto split: bind_splits)
  from sv_run_cons [OF Cons.IH [OF t(2)] exec_action_step [OF t(1)]] show ?case .
qed

section \<open>The sample session\<close>

definition sample_server_host :: host where
  "sample_server_host = \<lparr>host_build = \<lparr>build_kernelHostVersion = ''1'', build_occtTag = ''V8'', build_occtCommit = ''c'',
     build_occtManifestSha256 = ''m'', build_compiler = ''g'', build_buildType = ''r''\<rparr>,
     host_what = (\<lambda>_. ''library error''), host_dump = (\<lambda>_. ''json'')\<rparr>"

definition frame_of :: "json \<Rightarrow> server_action" where
  "frame_of request = Frame \<lparr>stat_entries = 0, stat_bytes = 0, stat_budgetBytes = 0, stat_hits = 0, stat_misses = 0,
     stat_evictions = 0, stat_snapshotsStored = 0\<rparr> 5 request"

definition sample_job :: json where
  "sample_job = JObject [(''method'', JString ''query''), (''protocolVersion'', JInt 3), (''requestId'', JString ''job'')]"

definition sample_cancel :: json where
  "sample_cancel = JObject [(''method'', JString ''cancel''), (''protocolVersion'', JInt 3), (''requestId'', JString ''stop''),
     (''targetRequestId'', JString ''job'')]"

definition job_started :: server where
  "job_started = \<lparr>sv_busy = True, sv_current = ''job'', sv_cancelled = False, sv_trip = None, sv_worker = Working sample_job,
     sv_reader = Cancel_locking ''stop'' ''job'', sv_output = [], sv_jobs = 1, sv_received = [sample_job, sample_cancel], sv_hits = []\<rparr>"

definition job_hit :: server where
  "job_hit = job_started\<lparr>sv_cancelled := True, sv_hits := [(1, ''job'')], sv_reader := Cancel_joining ''stop'' ''job''\<rparr>"

definition cancelled_response :: json where
  "cancelled_response = MakeError ''job'' ''CANCELLED'' ''kernel request was cancelled'' [] JNull"

definition job_answered :: server where
  "job_answered = job_hit\<lparr>sv_busy := False, sv_current := [], sv_worker := Finished_thread, sv_output := [cancelled_response]\<rparr>"

definition session_over :: server where
  "session_over = job_answered\<lparr>sv_worker := No_thread, sv_reader := Reading,
     sv_output := [cancelled_response, cancellation_reply ''stop'' ''job'']\<rparr>"

lemma routes:
  "HandleRequest sample_job = Route_work sample_job" "work_id sample_job = Inr ''job''" "request_id sample_job = ''job''"
  "HandleRequest sample_cancel = Route_cancel sample_cancel" "cancel_target sample_cancel = Inr (''stop'', Some ''job'')"
  by code_simp+

lemma to_job_started:
  "exec_session sample_server_host server_new [frame_of sample_job, Reader, Reader, frame_of sample_cancel] = Some job_started"
  by (simp add: frame_of_def receive_def routes receive_work_def receive_cancel_def server_new_def can_join_def StartWork_spawn_def
      job_started_def)

lemma to_job_hit: "exec_session sample_server_host job_started [Reader] = Some job_hit"
  by (simp add: job_started_def job_hit_def HandleCancel_lock_def)

lemma published_sample [simp]: "published sample_server_host i r = r"
  by (simp add: published_def sample_server_host_def kMaxControlFrameBytes_def)

lemma to_job_answered: "exec_session sample_server_host job_hit [Work (Inl Cancelled), Clear, Publish] = Some job_answered"
  by (simp add: job_hit_def job_started_def job_answered_def RunWork_respond_def RunWork_clear_def RunWork_publish_def routes
      work_response_def failure_response_def write_reply_def cancelled_response_def)

lemma to_session_over: "exec_session sample_server_host job_answered [Reader, Reader] = Some session_over"
  by (simp add: job_answered_def job_hit_def job_started_def session_over_def can_join_def write_reply_def)

lemma exec_session_append:
  "exec_session h s as = Some t \<Longrightarrow> exec_session h t bs = Some u \<Longrightarrow> exec_session h s (as @ bs) = Some u"
  by (induction as arbitrary: s) (auto split: bind_splits)

lemmas sample_runs =
  exec_session_run [OF to_job_started]
  exec_session_run [OF exec_session_append [OF to_job_started to_job_hit]]
  exec_session_run [OF exec_session_append [OF exec_session_append [OF exec_session_append [OF to_job_started to_job_hit]
    to_job_answered] to_session_over]]

section \<open>Witnesses\<close>

theorem server_runs_one_job_witness:
  "sv_busy job_started \<and> running job_started \<and> pending_worker job_started = [''job'']"
  using server_runs_one_job [OF sample_runs(1)] by (simp add: job_started_def running_def)

theorem every_frame_answered_once_witness:
  "mset (map response_id (sv_output session_over)) = mset [''job'', ''stop'']"
proof -
  have "pending_worker session_over = []" "sv_reader session_over = Reading \<or> sv_reader session_over = Exited False"
    "sv_received session_over = [sample_job, sample_cancel]"
    by (simp_all add: session_over_def job_answered_def job_hit_def job_started_def pending_worker_def)
  moreover have "expected_id sample_job = ''job''" "expected_id sample_cancel = ''stop''" by code_simp+
  ultimately show ?thesis using every_frame_answered_once [OF sample_runs(3)] by simp
qed

theorem responses_are_well_formed_witness: "wire_response cancelled_response"
  by (rule responses_are_well_formed [OF sample_runs(3)]) (simp add: session_over_def)

theorem cancellation_hits_only_its_target_witness: "(1, ''job'') \<in> set (sv_hits job_hit)"
proof -
  have "exec_action sample_server_host (Work (Inl Cancelled)) job_hit \<noteq> None"
    by (simp add: job_hit_def job_started_def RunWork_respond_def)
  then obtain s' where "sv_step sample_server_host job_hit (Work (Inl Cancelled)) s'" using exec_action_step by blast
  from cancellation_hits_only_its_target [OF sample_runs(2) this] show ?thesis
    by (simp add: job_hit_def job_started_def stop_requested_def)
qed

theorem cancelled_job_answers_first_witness:
  "response_id (hd (written_since job_started session_over)) = ''job''"
proof -
  have step: "sv_step sample_server_host job_started Reader job_hit"
    using to_job_hit by (auto intro!: exec_action_step split: bind_splits)
  show ?thesis
    by (rule cancelled_job_answers_first [OF sample_runs(1) _ _ _ step
          exec_session_run [OF exec_session_append [OF to_job_answered to_session_over]]])
      (simp_all add: job_started_def session_over_def written_since_def)
qed

section \<open>Frames that end the process\<close>

text \<open>A frame without a string request id but with a valid version and the method of a job or of a cancel
  request ends the server: \<open>HandleRequest\<close> falls back to a nil id for its own replies, but the two
  handlers read the id with \<open>at\<close> and throw through the loop of \<open>main\<close>. Nothing is written for the
  frame. The same frame with the method health or stats is answered.\<close>

theorem frame_without_id_ends_server:
  assumes "sv_reader s = Reading" and "version_ok request" and "\<forall>i. jfind request ''requestId'' \<noteq> Some (JString i)"
    and "jfind request ''method'' = Some (JString method)" and "method = ''cancel'' \<or> method \<in> set work_methods"
  shows "sv_step h s (Frame stats uptime request) (s\<lparr>sv_received := sv_received s @ [request], sv_reader := Stopping True\<rparr>)"
proof -
  obtain kvs where obj: "request = JObject kvs" using assms(4) by (cases request) (auto simp: jfind_def)
  have "request_id request = kFallbackRequestId" using assms(3) by (auto simp: request_id_def split: option.splits json.splits)
  moreover have "method \<noteq> ''health'' \<and> method \<noteq> ''stats'' \<and> (method \<noteq> ''cancel'' \<longrightarrow> method \<in> set work_methods)"
    using assms(5) by (auto simp: work_methods_def)
  ultimately have route: "HandleRequest request = (if method = ''cancel'' then Route_cancel request else Route_work request)"
    using assms(2,4) by (simp add: HandleRequest_def Let_def obj)
  obtain e where "rbind (jat request ''requestId'') get_string = Inl e"
    using assms(3) by (cases "rbind (jat request ''requestId'') get_string") (auto simp: rbind_eq_Inr obj split: option.splits)
  then have "cancel_target request = Inl e" "work_id request = Inl e" by (simp_all add: cancel_target_def work_id_def)
  then have "receive h stats uptime request s = s\<lparr>sv_received := sv_received s @ [request], sv_reader := Stopping True\<rparr>"
    by (simp add: receive_def route receive_cancel_def receive_work_def Let_def)
  with assms(1) show ?thesis by (simp add: step_simps)
qed

theorem frame_without_id_ends_server_witness:
  "\<exists>s. sv_step sample_server_host server_new (frame_of (JObject [(''method'', JString ''query''), (''protocolVersion'', JInt 3)])) s \<and>
     sv_reader s = Stopping True \<and> sv_output s = []"
proof -
  let ?r = "JObject [(''method'', JString ''query''), (''protocolVersion'', JInt 3)]"
  have "version_ok ?r" by code_simp
  then have "sv_step sample_server_host server_new (frame_of ?r) (server_new\<lparr>sv_received := sv_received server_new @ [?r], sv_reader := Stopping True\<rparr>)"
    unfolding frame_of_def
    by (intro frame_without_id_ends_server [of _ _ "''query''"]) (simp_all add: server_new_def work_methods_def)
  then show ?thesis by (intro exI conjI) (assumption, simp_all add: server_new_def)
qed

end
