(* ===== verification/Geometry_Measures.thy ===== *)
theory Geometry_Measures
  imports F64_Arith Occt
begin

text \<open>
  The measures of faces and edges (\<open>geometry_measures.cpp\<close>): classes, canonical axes, radii, and the
  dihedral classification of an edge. What OCCT knows of a shape is the parameter record \<open>geom\<close>,
  its vector operations the record \<open>gp\<close>. \<open>measures_of\<close> gives the topology snapshots their measures
  from the same functions. The lemmas show that the canonical axis forgets the direction a curve
  is run through, and what each dihedral class says of the sampled angles.
\<close>

section \<open>What OCCT knows of a shape\<close>

type_synonym vec3 = "f64 \<times> f64 \<times> f64"

datatype surface_kind =
  Plane_surface | Cylinder_surface | Cone_surface | Sphere_surface | Torus_surface |
  Bezier_surface | BSpline_surface | Other_surface

datatype curve_kind =
  Line_curve | Circle_curve | Ellipse_curve | Bezier_curve | BSpline_curve | Other_curve

datatype orientation = FORWARD | REVERSED | INTERNAL | EXTERNAL

record gp =
  gp_dir :: "vec3 \<Rightarrow> vec3 result"
  gp_reversed :: "vec3 \<Rightarrow> vec3"
  gp_cross :: "vec3 \<Rightarrow> vec3 \<Rightarrow> vec3"
  gp_dot :: "vec3 \<Rightarrow> vec3 \<Rightarrow> f64"

record 'sh geom =
  g_surface :: "'sh \<Rightarrow> surface_kind"
  g_surface_direction :: "'sh \<Rightarrow> vec3"
  g_surface_location :: "'sh \<Rightarrow> vec3"
  g_surface_radius :: "'sh \<Rightarrow> f64"
  g_curve :: "'sh \<Rightarrow> curve_kind"
  g_curve_direction :: "'sh \<Rightarrow> vec3"
  g_curve_location :: "'sh \<Rightarrow> vec3"
  g_curve_radius :: "'sh \<Rightarrow> f64"
  g_curve_range :: "'sh \<Rightarrow> (f64 \<times> f64) option"
  g_curve_tangent :: "'sh \<Rightarrow> f64 \<Rightarrow> vec3"
  g_degenerated :: "'sh \<Rightarrow> bool"
  g_orientation :: "'sh \<Rightarrow> orientation"
  g_explore :: "'sh \<Rightarrow> shape_kind \<Rightarrow> ('sh \<times> orientation) list"
  g_ancestors :: "'sh \<Rightarrow> shape_kind \<Rightarrow> shape_kind \<Rightarrow> 'sh \<Rightarrow> 'sh list option"
  g_curve_on_face :: "'sh \<Rightarrow> 'sh \<Rightarrow> f64 \<Rightarrow> f64 \<times> f64"
  g_normal_at :: "'sh \<Rightarrow> f64 \<times> f64 \<Rightarrow> vec3 option"
  g_face_mass :: "'sh \<Rightarrow> f64"
  g_face_centre :: "'sh \<Rightarrow> vec3"
  g_edge_mass :: "'sh \<Rightarrow> f64"
  g_edge_centre :: "'sh \<Rightarrow> vec3"
  g_vertex_point :: "'sh \<Rightarrow> vec3"
  g_first_vertex_point :: "'sh \<Rightarrow> vec3 option"
  g_distance :: "vec3 \<Rightarrow> 'sh \<Rightarrow> f64 option"
  g_box :: "'sh \<Rightarrow> (vec3 \<times> vec3) option"
  g_curve_parameters :: "'sh \<Rightarrow> f64 \<times> f64"
  g_curve_value :: "'sh \<Rightarrow> f64 \<Rightarrow> vec3"

section \<open>Classes\<close>

definition Orientation :: "orientation \<Rightarrow> string" where
  "Orientation orientation =
     (case orientation of FORWARD \<Rightarrow> ''forward'' | REVERSED \<Rightarrow> ''reversed'' | INTERNAL \<Rightarrow> ''internal''
      | EXTERNAL \<Rightarrow> ''external'')"

definition SurfaceClass :: "'sh geom \<Rightarrow> 'sh \<Rightarrow> string" where
  "SurfaceClass G face =
     (case g_surface G face of
        Plane_surface \<Rightarrow> ''plane''
      | Cylinder_surface \<Rightarrow> ''cylinder''
      | Cone_surface \<Rightarrow> ''cone''
      | Sphere_surface \<Rightarrow> ''sphere''
      | Torus_surface \<Rightarrow> ''torus''
      | Bezier_surface \<Rightarrow> ''bezier-surface''
      | BSpline_surface \<Rightarrow> ''bspline-surface''
      | Other_surface \<Rightarrow> ''other'')"

definition CurveClass :: "'sh geom \<Rightarrow> 'sh \<Rightarrow> string" where
  "CurveClass G edge =
     (if g_degenerated G edge then ''other''
      else case g_curve G edge of
        Line_curve \<Rightarrow> ''line''
      | Circle_curve \<Rightarrow> ''circle''
      | Ellipse_curve \<Rightarrow> ''ellipse''
      | Bezier_curve \<Rightarrow> ''bezier-curve''
      | BSpline_curve \<Rightarrow> ''bspline-curve''
      | Other_curve \<Rightarrow> ''other'')"

section \<open>Axes\<close>

text \<open>The first component that is not negligible decides the sign.\<close>

fun leading_negative :: "f64 list \<Rightarrow> bool" where
  "leading_negative [] = False"
| "leading_negative (component # components) =
     (if f64_less (f64_decimal 1 9) (f64_abs component) then f64_less component 0
      else leading_negative components)"

definition Canonicalize :: "vec3 \<Rightarrow> vec3" where
  "Canonicalize direction =
     (case direction of (x, y, z) \<Rightarrow>
        if leading_negative [x, y, z] then (f64_neg x, f64_neg y, f64_neg z) else (x, y, z))"

definition PlanarOutwardNormal :: "gp \<Rightarrow> 'sh geom \<Rightarrow> 'sh \<Rightarrow> vec3" where
  "PlanarOutwardNormal V G face =
     (if g_orientation G face = REVERSED then gp_reversed V (g_surface_direction G face)
      else g_surface_direction G face)"

definition SurfaceAxis :: "gp \<Rightarrow> 'sh geom \<Rightarrow> 'sh \<Rightarrow> vec3 option" where
  "SurfaceAxis V G face =
     (case g_surface G face of
        Plane_surface \<Rightarrow> Some (PlanarOutwardNormal V G face)
      | Cylinder_surface \<Rightarrow> Some (Canonicalize (g_surface_direction G face))
      | Cone_surface \<Rightarrow> Some (Canonicalize (g_surface_direction G face))
      | _ \<Rightarrow> None)"

definition CurveAxis :: "'sh geom \<Rightarrow> 'sh \<Rightarrow> vec3 option" where
  "CurveAxis G edge =
     (if g_degenerated G edge then None
      else case g_curve G edge of
        Line_curve \<Rightarrow> Some (Canonicalize (g_curve_direction G edge))
      | Circle_curve \<Rightarrow> Some (Canonicalize (g_curve_direction G edge))
      | Ellipse_curve \<Rightarrow> Some (Canonicalize (g_curve_direction G edge))
      | _ \<Rightarrow> None)"

section \<open>Radii\<close>

definition CylindricalFaceRadius :: "'sh geom \<Rightarrow> 'sh \<Rightarrow> f64 result" where
  "CylindricalFaceRadius G face =
     (if g_surface G face \<noteq> Cylinder_surface
      then Inl (Invalid_argument ''CylindricalFaceRadius requires a cylindrical face'')
      else Inr (g_surface_radius G face))"

definition ConicalFaceReferenceRadius :: "'sh geom \<Rightarrow> 'sh \<Rightarrow> f64 result" where
  "ConicalFaceReferenceRadius G face =
     (if g_surface G face \<noteq> Cone_surface
      then Inl (Invalid_argument ''ConicalFaceReferenceRadius requires a conical face'')
      else Inr (g_surface_radius G face))"

definition CircleEdgeRadius :: "'sh geom \<Rightarrow> 'sh \<Rightarrow> f64 result" where
  "CircleEdgeRadius G edge =
     (if g_curve G edge \<noteq> Circle_curve
      then Inl (Invalid_argument ''CircleEdgeRadius requires a circular edge'')
      else Inr (g_curve_radius G edge))"

definition SurfaceRadius :: "'sh geom \<Rightarrow> 'sh \<Rightarrow> f64 option result" where
  "SurfaceRadius G face =
     (case g_surface G face of
        Cylinder_surface \<Rightarrow> rbind (CylindricalFaceRadius G face) (\<lambda>r. Inr (Some r))
      | Cone_surface \<Rightarrow> rbind (ConicalFaceReferenceRadius G face) (\<lambda>r. Inr (Some r))
      | _ \<Rightarrow> Inr None)"

definition CurveRadius :: "'sh geom \<Rightarrow> 'sh \<Rightarrow> f64 option result" where
  "CurveRadius G edge =
     (if g_degenerated G edge then Inr None
      else if g_curve G edge \<noteq> Circle_curve then Inr None
      else rbind (CircleEdgeRadius G edge) (\<lambda>r. Inr (Some r)))"

lemma SurfaceRadius_total [simp]:
  "SurfaceRadius G face =
     Inr (if g_surface G face \<in> {Cylinder_surface, Cone_surface} then Some (g_surface_radius G face) else None)"
  by (cases "g_surface G face") (simp_all add: SurfaceRadius_def CylindricalFaceRadius_def ConicalFaceReferenceRadius_def)

lemma CurveRadius_total [simp]:
  "CurveRadius G edge =
     Inr (if \<not> g_degenerated G edge \<and> g_curve G edge = Circle_curve then Some (g_curve_radius G edge) else None)"
  by (simp add: CurveRadius_def CircleEdgeRadius_def)

section \<open>Dihedral classes\<close>

datatype DihedralClass = Convex | Concave | Smooth | Mixed | NotApplicable

record DihedralRange =
  range_applicable :: bool
  range_minTheta :: f64
  range_maxTheta :: f64

definition no_range :: DihedralRange where
  "no_range = \<lparr>range_applicable = False, range_minTheta = 0, range_maxTheta = 0\<rparr>"

definition OutwardNormalAtPoint :: "gp \<Rightarrow> 'sh geom \<Rightarrow> 'sh \<Rightarrow> f64 \<times> f64 \<Rightarrow> vec3 result" where
  "OutwardNormalAtPoint V G face uv =
     (case g_normal_at G face uv of
        None \<Rightarrow> Inl (Runtime_error ''surface normal is not defined at the given parameter point'')
      | Some normal \<Rightarrow> Inr (if g_orientation G face = REVERSED then gp_reversed V normal else normal))"

text \<open>\<open>kPi\<close>, and the three fractions of the curve at which the angle is sampled.\<close>

definition kPi :: f64 where
  "kPi = f64_decimal 314159265358979323846 20"

definition kDihedralSampleFractions :: "f64 list" where
  "kDihedralSampleFractions = [f64_decimal 25 2, f64_decimal 5 1, f64_decimal 75 2]"

definition dihedral_angle ::
  "libm \<Rightarrow> gp \<Rightarrow> 'sh geom \<Rightarrow> 'sh \<Rightarrow> 'sh \<Rightarrow> 'sh \<Rightarrow> f64 \<times> f64 \<Rightarrow> f64 \<Rightarrow> f64 result" where
  "dihedral_angle L V G edge f1 f2 curveBounds fraction =
     (let param = f64_add (fst curveBounds) (f64_mul fraction (f64_sub (snd curveBounds) (fst curveBounds)));
          tangentRaw = g_curve_tangent G edge param
      in case map_of (g_explore G f1 EDGE) edge of
           None \<Rightarrow> Inl (Runtime_error ''edge not found on its own ancestor face F1 (topology inconsistency)'')
         | Some orientationInF1 \<Rightarrow>
             let t = (if orientationInF1 = REVERSED then gp_reversed V tangentRaw else tangentRaw) in
             rbind (OutwardNormalAtPoint V G f1 (g_curve_on_face G edge f1 param)) (\<lambda>n1.
             rbind (OutwardNormalAtPoint V G f2 (g_curve_on_face G edge f2 param)) (\<lambda>n2.
               let thetaRadians = m_atan2 L (gp_dot V (gp_cross V n1 n2) t) (gp_dot V n1 n2)
               in Inr (f64_div (f64_mul (f64_neg thetaRadians) (f64_of_nat 180)) kPi))))"

definition widen :: "DihedralRange \<Rightarrow> f64 \<Rightarrow> DihedralRange" where
  "widen angles thetaDegrees =
     angles\<lparr>range_minTheta := f64_min (range_minTheta angles) thetaDegrees,
            range_maxTheta := f64_max (range_maxTheta angles) thetaDegrees\<rparr>"

definition dihedral_sample ::
  "libm \<Rightarrow> gp \<Rightarrow> 'sh geom \<Rightarrow> 'sh \<Rightarrow> 'sh \<Rightarrow> 'sh \<Rightarrow> f64 \<times> f64 \<Rightarrow> DihedralRange \<Rightarrow> f64 \<Rightarrow> DihedralRange result" where
  "dihedral_sample L V G edge f1 f2 curveBounds angles fraction =
     rbind (dihedral_angle L V G edge f1 f2 curveBounds fraction) (\<lambda>thetaDegrees. Inr (widen angles thetaDegrees))"

definition ComputeDihedralRange ::
  "libm \<Rightarrow> gp \<Rightarrow> 'sh geom \<Rightarrow> 'sh \<Rightarrow> 'sh \<Rightarrow> DihedralRange result" where
  "ComputeDihedralRange L V G owningBody edge =
     (case g_ancestors G owningBody EDGE FACE edge of
        None \<Rightarrow> Inr no_range
      | Some incidentFaces \<Rightarrow>
          if length incidentFaces \<noteq> 2 then Inr no_range
          else case g_curve_range G edge of
            None \<Rightarrow> Inr no_range
          | Some curveBounds \<Rightarrow>
              rfold (dihedral_sample L V G edge (hd incidentFaces) (last incidentFaces) curveBounds)
                \<lparr>range_applicable = True, range_minTheta = f64_inf, range_maxTheta = f64_neg f64_inf\<rparr>
                kDihedralSampleFractions)"

definition kDihedralFixedThresholdDegrees :: f64 where
  "kDihedralFixedThresholdDegrees = f64_of_nat 1"

definition ClassifyFromRange :: "DihedralRange \<Rightarrow> f64 \<Rightarrow> DihedralClass result" where
  "ClassifyFromRange angles smoothToleranceDegrees =
     (if \<not> range_applicable angles then Inr NotApplicable
      else if f64_less smoothToleranceDegrees kDihedralFixedThresholdDegrees
      then Inl (Invalid_argument ''smoothToleranceDegrees must be >= 1.0 (it widens the fixed convex/concave boundary, never narrows it)'')
      else let hasConvexSample = f64_less (range_minTheta angles) (f64_neg kDihedralFixedThresholdDegrees);
               hasConcaveSample = f64_less kDihedralFixedThresholdDegrees (range_maxTheta angles)
           in Inr (if hasConvexSample \<and> hasConcaveSample then Mixed
                   else if hasConvexSample then Convex
                   else if hasConcaveSample then Concave
                   else Smooth))"

definition ClassifyDihedral :: "libm \<Rightarrow> gp \<Rightarrow> 'sh geom \<Rightarrow> 'sh \<Rightarrow> 'sh \<Rightarrow> f64 \<Rightarrow> DihedralClass result" where
  "ClassifyDihedral L V G owningBody edge smoothToleranceDegrees =
     rbind (ComputeDihedralRange L V G owningBody edge) (\<lambda>angles. ClassifyFromRange angles smoothToleranceDegrees)"
section \<open>Lemmas\<close>

lemma f64_neg_neg [simp]: "f64_neg (f64_neg b) = b"
  by (simp add: f64_neg_def xor.assoc)

lemma bit_f64_neg: "bit (f64_neg b) n \<longleftrightarrow> n < 64 \<and> (bit b n \<noteq> (n = 63))"
  using bit_imp_le_length [of b n]
  by (auto simp: f64_neg_def bit_xor_iff bit_push_bit_iff bit_1_iff simp del: push_bit_of_1 push_bit_numeral)

lemma take_bit_f64_neg [simp]: "n \<le> 63 \<Longrightarrow> take_bit n (f64_neg b) = take_bit n b"
  by (rule bit_eqI) (auto simp: bit_take_bit_iff bit_f64_neg)

lemma f64_abs_neg [simp]: "f64_abs (f64_neg b) = f64_abs b"
  by (simp add: f64_abs_def)

lemma f64_exp_neg [simp]: "f64_exp (f64_neg b) = f64_exp b"
proof -
  have "drop_bit 52 b AND 0x7FF = take_bit 11 (drop_bit 52 b)" for b :: f64
    by (simp add: take_bit_eq_mask mask_eq_exp_minus_1)
  moreover have "take_bit 11 (drop_bit 52 b) = drop_bit 52 (take_bit 63 b)" for b :: f64
    by (simp add: drop_bit_take_bit)
  ultimately show ?thesis by (simp add: f64_exp_def)
qed

lemma f64_nan_neg [simp]: "f64_nan (f64_neg b) = f64_nan b"
  by (simp add: f64_nan_def f64_frac_def)

lemma f64_nan_abs [simp]: "f64_nan (f64_abs b) = f64_nan b"
proof -
  have "f64_exp (f64_abs b) = f64_exp b"
    by (simp add: f64_exp_def f64_abs_def drop_bit_take_bit take_bit_eq_mask mask_eq_exp_minus_1)
  then show ?thesis by (simp add: f64_nan_def f64_frac_def f64_abs_def)
qed

lemma f64_rank_neg [simp]: "f64_rank (f64_neg b) = - f64_rank b"
  by (simp add: f64_rank_def f64_sign_def bit_f64_neg)

lemma f64_rank_abs: "f64_rank (f64_abs b) = \<bar>f64_rank b\<bar>"
  by (simp add: f64_rank_def f64_sign_def f64_abs_def bit_take_bit_iff)
lemma f64_less_trans_rank: "f64_less a b \<longleftrightarrow> \<not> f64_nan a \<and> \<not> f64_nan b \<and> f64_rank a < f64_rank b"
  by (simp add: f64_less_def)

lemma f64_le_rank: "f64_le a b \<longleftrightarrow> \<not> f64_nan a \<and> \<not> f64_nan b \<and> f64_rank a \<le> f64_rank b"
  by (auto simp: f64_le_def f64_less_def f64_eq_def)

lemma f64_literal_rank: "f64_rank (f64_decimal 1 9) \<ge> 0" "f64_rank 0 = 0" "\<not> f64_nan 0"
  by (simp_all add: f64_arith_eval)

text \<open>A component that is not negligible has a sign, and negation flips it.\<close>

lemma significant_sign:
  "f64_less (f64_decimal 1 9) (f64_abs c) \<Longrightarrow> f64_less (f64_neg c) 0 \<longleftrightarrow> \<not> f64_less c 0"
  using f64_literal_rank by (auto simp: f64_less_def f64_rank_abs)

lemma leading_negative_flip:
  "\<exists>c \<in> set cs. f64_less (f64_decimal 1 9) (f64_abs c) \<Longrightarrow>
     leading_negative (map f64_neg cs) \<longleftrightarrow> \<not> leading_negative cs"
  by (induction cs) (auto simp: significant_sign)

text \<open>The canonical axis is undirected: a direction with a component that is not negligible and
  its reverse have the same canonical form, so the orientation of an edge never shows.\<close>

theorem Canonicalize_undirected:
  assumes "\<exists>c \<in> {x, y, z}. f64_less (f64_decimal 1 9) (f64_abs c)"
  shows "Canonicalize (f64_neg x, f64_neg y, f64_neg z) = Canonicalize (x, y, z)"
  using leading_negative_flip [of "[x, y, z]"] assms by (simp add: Canonicalize_def)

text \<open>The extremes of the samples decide the class, as long as the running extremes are numbers.\<close>

lemma f64_min_less: "\<not> f64_nan a \<Longrightarrow> f64_less (f64_min a b) x \<longleftrightarrow> f64_less a x \<or> f64_less b x"
  by (auto simp: f64_min_def f64_less_def)

lemma f64_max_greater: "\<not> f64_nan a \<Longrightarrow> f64_less x (f64_max a b) \<longleftrightarrow> f64_less x a \<or> f64_less x b"
  by (auto simp: f64_max_def f64_less_def)

lemma f64_extreme_nan [simp]: "\<not> f64_nan a \<Longrightarrow> \<not> f64_nan (f64_min a b)" "\<not> f64_nan a \<Longrightarrow> \<not> f64_nan (f64_max a b)"
  by (auto simp: f64_min_def f64_max_def f64_less_def)

lemma widen_simps [simp]:
  "range_applicable (widen angles t) = range_applicable angles"
  "range_minTheta (widen angles t) = f64_min (range_minTheta angles) t"
  "range_maxTheta (widen angles t) = f64_max (range_maxTheta angles) t"
  by (simp_all add: widen_def)

lemma foldl_widen:
  assumes "\<not> f64_nan (range_minTheta angles)" "\<not> f64_nan (range_maxTheta angles)"
  shows "range_applicable (foldl widen angles ts) = range_applicable angles"
    and "f64_less (range_minTheta (foldl widen angles ts)) x \<longleftrightarrow>
           f64_less (range_minTheta angles) x \<or> (\<exists>t \<in> set ts. f64_less t x)"
    and "f64_less y (range_maxTheta (foldl widen angles ts)) \<longleftrightarrow>
           f64_less y (range_maxTheta angles) \<or> (\<exists>t \<in> set ts. f64_less y t)"
  using assms by (induction ts arbitrary: angles) (auto simp: f64_min_less f64_max_greater)

lemma rfold_samples:
  "rfold (dihedral_sample L V G edge f1 f2 curveBounds) angles fractions =
     rbind (rmap (dihedral_angle L V G edge f1 f2 curveBounds) fractions) (\<lambda>ts. Inr (foldl widen angles ts))"
  by (induction fractions arbitrary: angles) (simp_all add: dihedral_sample_def rbind_assoc)

definition class_of_samples :: "f64 list \<Rightarrow> DihedralClass" where
  "class_of_samples ts =
     (let convex = (\<exists>t \<in> set ts. f64_less t (f64_neg kDihedralFixedThresholdDegrees));
          concave = (\<exists>t \<in> set ts. f64_less kDihedralFixedThresholdDegrees t)
      in if convex \<and> concave then Mixed else if convex then Convex else if concave then Concave else Smooth)"

lemma infinite_extremes [simp]:
  "\<not> f64_nan f64_inf" "\<not> f64_nan (f64_neg f64_inf)"
  "\<not> f64_less f64_inf (f64_neg kDihedralFixedThresholdDegrees)" "\<not> f64_less kDihedralFixedThresholdDegrees (f64_neg f64_inf)"
  by (simp_all add: f64_arith_eval kDihedralFixedThresholdDegrees_def Let_def)

text \<open>The class of an edge is that of its sampled angles: mixed when one is below the convex
  threshold and one above the concave, convex or concave when only one kind occurs, else smooth.\<close>

theorem ClassifyDihedral_samples:
  assumes "g_ancestors G owningBody EDGE FACE edge = Some [f1, f2]" and "g_curve_range G edge = Some curveBounds"
    and "\<not> f64_less tolerance kDihedralFixedThresholdDegrees"
  shows "ClassifyDihedral L V G owningBody edge tolerance =
     rbind (rmap (dihedral_angle L V G edge f1 f2 curveBounds) kDihedralSampleFractions)
       (\<lambda>ts. Inr (class_of_samples ts))"
proof -
  let ?start = "\<lparr>range_applicable = True, range_minTheta = f64_inf, range_maxTheta = f64_neg f64_inf\<rparr>"
  have "ClassifyFromRange (foldl widen ?start ts) tolerance = Inr (class_of_samples ts)" for ts
    by (simp add: ClassifyFromRange_def class_of_samples_def foldl_widen assms(3) Let_def)
  then show ?thesis using assms(1,2)
    by (simp add: ClassifyDihedral_def ComputeDihedralRange_def rfold_samples rbind_assoc)
qed

end
