(* ===== verification/Selector_Query.thy ===== *)
theory Selector_Query
  imports Geometry_Measures Naming_Registry Body_Pool
begin

text \<open>
  The selector evaluator, first part (\<open>selector_evaluator-core.cpp\<close>): the entities of a query and
  its outcome, the evaluation context, the measured primitives, the accessors of filter arguments,
  the expansion of a scope source into the initial set and the canonical order. Each accessor
  checks the tag of the argument it reads, so a mis-shaped query is an exception and never a guess.
\<close>

section \<open>Entities and outcomes\<close>

record 'sh QueryEntity =
  ent_shape :: 'sh
  ent_kind :: char
  ent_bodyId :: string
  ent_token :: string
  ent_normalizedName :: string
  ent_adjHash :: string

record QueryDiagnostic =
  diag_code :: string
  diag_message :: string
  diag_token :: string

record 'sh QueryOutcome =
  out_entities :: "'sh QueryEntity list"
  out_stageCardinalities :: "nat list"
  out_diagnostics :: "QueryDiagnostic list"

text \<open>The kernel a query is measured with, and the state it is evaluated against.\<close>

record 'sh kernel =
  k_topology :: "'sh occt"
  k_geom :: "'sh geom"
  k_gp :: gp
  k_libm :: libm

record 'sh EvalContext =
  ctx_bodies :: "'sh EvaluatedBody list"
  ctx_registry :: "'sh NamingRegistry"
  ctx_cancelled :: bool
  ctx_shapeToBodyId :: "'sh \<Rightarrow> string option"
  ctx_shapeToBody :: "'sh \<Rightarrow> 'sh option"

text \<open>What an evaluation writes besides its result: the diagnostics and \<open>mixedNoted\<close>.\<close>

record 'sh EvalNotes =
  note_diagnostics :: "QueryDiagnostic list"
  note_mixed :: "'sh list"

definition Unsupported :: "string \<Rightarrow> 'a result" where
  "Unsupported message = Inl (Invalid_argument (''unsupported operation: '' @ message))"

section \<open>Kinds\<close>

definition HeadKindChar :: "string \<Rightarrow> char result" where
  "HeadKindChar kind =
     (if kind = ''faces'' then Inr (CHR ''f'')
      else if kind = ''edges'' then Inr (CHR ''e'')
      else if kind = ''vertices'' then Inr (CHR ''v'')
      else if kind = ''bodies'' \<or> kind = ''regions''
      then Unsupported (''selector head kind '' @ [CHR 0x27] @ kind @ [CHR 0x27] @
             '' is deferred (no body/region evaluation in this tranche)'')
      else Inl (Invalid_argument (''selector query has an unknown head kind: '' @ kind)))"

definition TopAbsOf :: "char \<Rightarrow> shape_kind result" where
  "TopAbsOf kind =
     (if kind = CHR ''f'' then Inr FACE
      else if kind = CHR ''e'' then Inr EDGE
      else if kind = CHR ''v'' then Inr VERTEX
      else Inl (Runtime_error ''selector evaluator covers faces, edges, and vertices only''))"

definition KindRank :: "char \<Rightarrow> int" where
  "KindRank kind = (if kind = CHR ''f'' then 0 else if kind = CHR ''e'' then 1 else if kind = CHR ''v'' then 2 else 3)"

section \<open>Measured primitives\<close>

definition Centroid :: "'sh kernel \<Rightarrow> 'sh \<Rightarrow> vec3 result" where
  "Centroid K s =
     (case shape_type (k_topology K) s of
        FACE \<Rightarrow> Inr (g_face_centre (k_geom K) s)
      | EDGE \<Rightarrow>
          if g_degenerated (k_geom K) s
          then (case g_first_vertex_point (k_geom K) s of
                  Some point \<Rightarrow> Inr point
                | None \<Rightarrow> Inl (Runtime_error ''selector evaluator found a degenerate edge with no vertex''))
          else Inr (g_edge_centre (k_geom K) s)
      | VERTEX \<Rightarrow> Inr (g_vertex_point (k_geom K) s)
      | OTHER_SHAPE \<Rightarrow> Inl (Runtime_error ''selector evaluator cannot take a centroid of this shape kind''))"

definition FaceArea :: "'sh kernel \<Rightarrow> 'sh \<Rightarrow> f64" where
  "FaceArea K face = f64_abs (g_face_mass (k_geom K) face)"

definition EdgeLength :: "'sh kernel \<Rightarrow> 'sh \<Rightarrow> f64" where
  "EdgeLength K edge = f64_abs (g_edge_mass (k_geom K) edge)"

definition Measure :: "'sh kernel \<Rightarrow> 'sh \<Rightarrow> f64" where
  "Measure K s =
     (case shape_type (k_topology K) s of FACE \<Rightarrow> FaceArea K s | EDGE \<Rightarrow> EdgeLength K s | _ \<Rightarrow> 0)"

definition ClosestDistance :: "'sh kernel \<Rightarrow> vec3 \<Rightarrow> 'sh \<Rightarrow> f64 result" where
  "ClosestDistance K point s =
     (case g_distance (k_geom K) point s of
        None \<Rightarrow> Inl (Runtime_error ''selector evaluator could not measure a point-to-entity distance'')
      | Some d \<Rightarrow> Inr d)"

definition AngleDegrees :: "'sh kernel \<Rightarrow> vec3 \<Rightarrow> vec3 \<Rightarrow> f64" where
  "AngleDegrees K a b =
     f64_div (f64_mul (m_acos (k_libm K) (f64_clamp (gp_dot (k_gp K) a b) (f64_neg (f64_decimal 1 0)) (f64_decimal 1 0)))
       (f64_of_nat 180)) kPi"

definition AsDir :: "'sh kernel \<Rightarrow> vec3 option \<Rightarrow> vec3 option result" where
  "AsDir K axis =
     (case axis of
        None \<Rightarrow> Inr None
      | Some (x, y, z) \<Rightarrow>
          if f64_less (f64_add (f64_add (f64_mul x x) (f64_mul y y)) (f64_mul z z)) (f64_decimal 1 18)
          then Inr None else rbind (gp_dir (k_gp K) (x, y, z)) (\<lambda>d. Inr (Some d)))"

definition FaceOutwardNormal :: "'sh kernel \<Rightarrow> 'sh \<Rightarrow> vec3 option result" where
  "FaceOutwardNormal K face =
     (if g_surface (k_geom K) face \<noteq> Plane_surface then Inr None
      else AsDir K (Some (PlanarOutwardNormal (k_gp K) (k_geom K) face)))"

definition EntityAxis :: "'sh kernel \<Rightarrow> 'sh \<Rightarrow> vec3 option result" where
  "EntityAxis K s =
     (case shape_type (k_topology K) s of
        FACE \<Rightarrow> AsDir K (SurfaceAxis (k_gp K) (k_geom K) s)
      | EDGE \<Rightarrow> AsDir K (CurveAxis (k_geom K) s)
      | _ \<Rightarrow> Inr None)"

section \<open>Arguments\<close>

text \<open>\<open>at(index)\<close> of an array.\<close>

definition jat_index :: "json \<Rightarrow> nat \<Rightarrow> json result" where
  "jat_index j i =
     (case j of
        JArray js \<Rightarrow> if i < length js then Inr (js ! i) else Inl (Json_out_of_range 401)
      | _ \<Rightarrow> Inl (Json_type_error 304))"

definition get_at :: "json \<Rightarrow> nat \<Rightarrow> f64 result" where
  "get_at j i = rbind (jat_index j i) get_double"

definition get_vec3 :: "json \<Rightarrow> vec3 result" where
  "get_vec3 j = rbind (get_at j 0) (\<lambda>x. rbind (get_at j 1) (\<lambda>y. rbind (get_at j 2) (\<lambda>z. Inr (x, y, z))))"

definition ArgAt :: "json \<Rightarrow> nat \<Rightarrow> json result" where
  "ArgAt args index =
     (if \<not> is_array args \<or> length (elements args) \<le> index
      then Inl (Invalid_argument ''selector filter is missing a required argument'')
      else jat_index args index)"

text \<open>The guard the accessors share: the argument at \<open>index\<close> has the wanted tag; its value follows.\<close>

definition tagged_arg :: "string \<Rightarrow> string \<Rightarrow> json \<Rightarrow> nat \<Rightarrow> json result" where
  "tagged_arg tag message args index =
     rbind (ArgAt args index) (\<lambda>arg.
     rbind (jat arg ''arg'') (\<lambda>t.
     rbind (get_string t) (\<lambda>found.
       if found \<noteq> tag then Inl (Invalid_argument message) else jat arg ''value'')))"

definition NumberArg :: "json \<Rightarrow> nat \<Rightarrow> f64 result" where
  "NumberArg args index =
     rbind (tagged_arg ''number'' ''selector filter expected a number argument'' args index) get_double"

definition NumberArgOr :: "json \<Rightarrow> nat \<Rightarrow> f64 \<Rightarrow> f64 result" where
  "NumberArgOr args index fallback =
     (if \<not> is_array args \<or> length (elements args) \<le> index then Inr fallback else NumberArg args index)"

definition AxisArg :: "json \<Rightarrow> nat \<Rightarrow> char result" where
  "AxisArg args index =
     rbind (tagged_arg ''axis'' ''selector filter expected an axis argument'' args index) (\<lambda>value.
     rbind (get_string value) (\<lambda>axis.
       if axis = ''x'' then Inr (CHR ''x'')
       else if axis = ''y'' then Inr (CHR ''y'')
       else if axis = ''z'' then Inr (CHR ''z'')
       else Inl (Invalid_argument ''selector axis argument must be x, y, or z'')))"

definition IdentArg :: "json \<Rightarrow> nat \<Rightarrow> string result" where
  "IdentArg args index =
     rbind (tagged_arg ''ident'' ''selector filter expected an identifier argument'' args index) get_string"

definition DirectionArg :: "'sh kernel \<Rightarrow> json \<Rightarrow> nat \<Rightarrow> vec3 result" where
  "DirectionArg K args index =
     rbind (tagged_arg ''direction'' ''selector filter expected a direction argument'' args index) (\<lambda>value.
     rbind (jat value ''form'') (\<lambda>f.
     rbind (get_string f) (\<lambda>form.
       if form = ''axis'' then
         rbind (jat value ''sign'') (\<lambda>s.
         rbind (get_double s) (\<lambda>sign.
         rbind (jat value ''axis'') (\<lambda>a.
         rbind (get_string a) (\<lambda>axis.
           if axis = ''x'' then gp_dir (k_gp K) (sign, 0, 0)
           else if axis = ''y'' then gp_dir (k_gp K) (0, sign, 0)
           else if axis = ''z'' then gp_dir (k_gp K) (0, 0, sign)
           else Inl (Invalid_argument ''selector direction axis must be x, y, or z'')))))
       else if form = ''vector'' then
         rbind (jat value ''vector'') (\<lambda>vector. rbind (get_vec3 vector) (gp_dir (k_gp K)))
       else Inl (Invalid_argument ''selector direction has an unknown form''))))"

definition PointArg :: "json \<Rightarrow> nat \<Rightarrow> vec3 result" where
  "PointArg args index =
     rbind (tagged_arg ''point'' ''selector filter expected a point argument'' args index) (\<lambda>value.
       if \<not> is_array value then Inl (Invalid_argument ''selector point argument must be an array'')
       else if length (elements value) = 3 then get_vec3 value
       else Unsupported ''2-component point arguments are sketch-only and deferred'')"

definition QueryArg :: "json \<Rightarrow> nat \<Rightarrow> json result" where
  "QueryArg args index = tagged_arg ''query'' ''selector filter expected a nested query argument'' args index"

section \<open>Entity sets\<close>

definition NewestToken :: "'sh NamingRegistry \<Rightarrow> 'sh \<Rightarrow> string" where
  "NewestToken registry s = (case TokensOf registry s of [] \<Rightarrow> [] | tokens \<Rightarrow> last tokens)"

definition entity_of :: "'sh EvalContext \<Rightarrow> 'sh \<Rightarrow> char \<Rightarrow> string option \<Rightarrow> 'sh QueryEntity" where
  "entity_of ctx s kind owner =
     (let token = NewestToken (ctx_registry ctx) s in
      \<lparr>ent_shape = s, ent_kind = kind, ent_bodyId = (case owner of None \<Rightarrow> [] | Some i \<Rightarrow> i), ent_token = token,
       ent_normalizedName = (case FindByToken (ctx_registry ctx) token of
          None \<Rightarrow> [] | Some record \<Rightarrow> rec_normalizedLineageName record),
       ent_adjHash = []\<rparr>)"

definition MakeEntity :: "'sh EvalContext \<Rightarrow> 'sh \<Rightarrow> char \<Rightarrow> bool \<Rightarrow> 'sh QueryEntity result" where
  "MakeEntity ctx s kind allowBodyless =
     (if ctx_shapeToBodyId ctx s = None \<and> \<not> allowBodyless
      then Inl (Runtime_error ''selector evaluator found an entity not owned by any visible body'')
      else if NewestToken (ctx_registry ctx) s = []
      then Inl (Runtime_error ''selector evaluator found a live entity with no naming record (registry coverage defect)'')
      else Inr (entity_of ctx s kind (ctx_shapeToBodyId ctx s)))"

text \<open>\<open>EntitySet\<close>: insertion order, membership by shape identity.\<close>

definition set_Add :: "'sh QueryEntity list \<Rightarrow> 'sh QueryEntity \<Rightarrow> 'sh QueryEntity list" where
  "set_Add es entity = (if ent_shape entity \<in> ent_shape ` set es then es else es @ [entity])"

definition add_shape ::
  "'sh EvalContext \<Rightarrow> char \<Rightarrow> ('sh \<Rightarrow> bool) \<Rightarrow> 'sh QueryEntity list \<Rightarrow> 'sh \<Rightarrow> 'sh QueryEntity list result" where
  "add_shape ctx headKind bodyless into s =
     rbind (MakeEntity ctx s headKind (bodyless s)) (\<lambda>entity. Inr (set_Add into entity))"

section \<open>Scope sources\<close>

definition expand_op :: "'sh EvalContext \<Rightarrow> char \<Rightarrow> string \<Rightarrow> 'sh QueryEntity list \<Rightarrow> 'sh QueryEntity list result" where
  "expand_op ctx headKind opId into =
     rfold (\<lambda>into index.
       rbind (CheckCancellation (ctx_cancelled ctx)) (\<lambda>_.
       rbind (RecordAt (ctx_registry ctx) index) (\<lambda>record.
         if rec_live record \<and> rec_minter record = opId \<and> rec_kind record = headKind
         then add_shape ctx headKind (\<lambda>s. ctx_shapeToBodyId ctx s = None) into (rec_shape record)
         else Inr into))) into [0..<length (records (ctx_registry ctx))]"

definition expand_bodies ::
  "'sh kernel \<Rightarrow> 'sh EvalContext \<Rightarrow> char \<Rightarrow> shape_kind \<Rightarrow> 'sh EvaluatedBody list \<Rightarrow> 'sh QueryEntity list \<Rightarrow> 'sh QueryEntity list result" where
  "expand_bodies K ctx headKind topAbs bodies into =
     rfold (\<lambda>into body. rfold (add_shape ctx headKind (\<lambda>_. False)) into (map_shapes (k_topology K) (shape body) topAbs))
       into bodies"

definition expand_token ::
  "'sh EvalContext \<Rightarrow> char \<Rightarrow> string \<Rightarrow> 'sh QueryEntity list \<Rightarrow> 'sh EvalNotes \<Rightarrow> ('sh QueryEntity list \<times> 'sh EvalNotes) result" where
  "expand_token ctx headKind token into notes =
     (case FindByToken (ctx_registry ctx) token of
        None \<Rightarrow> Inr (into, notes)
      | Some record \<Rightarrow>
          if \<not> rec_live record
          then Inr (into, notes\<lparr>note_diagnostics := note_diagnostics notes @
                 [\<lparr>diag_code = ''D_TOKEN_DEAD'', diag_message = ''token no longer resolves to a live entity'',
                   diag_token = token\<rparr>]\<rparr>)
          else if rec_kind record = headKind
          then rbind (add_shape ctx headKind (\<lambda>s. ctx_shapeToBodyId ctx s = None) into (rec_shape record))
                 (\<lambda>into'. Inr (into', notes))
          else Inr (into, notes))"

definition ExpandSource ::
  "'sh kernel \<Rightarrow> 'sh EvalContext \<Rightarrow> json \<Rightarrow> char \<Rightarrow> 'sh QueryEntity list \<times> 'sh EvalNotes \<Rightarrow>
   ('sh QueryEntity list \<times> 'sh EvalNotes) result" where
  "ExpandSource K ctx source headKind st =
     rbind (jat source ''source'') (\<lambda>k.
     rbind (get_string k) (\<lambda>kind.
     rbind (TopAbsOf headKind) (\<lambda>topAbs.
       if kind = ''op'' then
         rbind (jat source ''opId'') (\<lambda>i.
         rbind (get_string i) (\<lambda>opId.
         rbind (expand_op ctx headKind opId (fst st)) (\<lambda>into. Inr (into, snd st))))
       else if kind = ''body'' then
         rbind (jat source ''opId'') (\<lambda>i.
         rbind (get_string i) (\<lambda>opId.
         rbind (expand_bodies K ctx headKind topAbs (filter (\<lambda>b. operationId b = opId) (ctx_bodies ctx)) (fst st))
           (\<lambda>into. Inr (into, snd st))))
       else if kind = ''token'' then
         rbind (jat source ''token'') (\<lambda>t.
         rbind (get_string t) (\<lambda>token. expand_token ctx headKind token (fst st) (snd st)))
       else if kind = ''all'' then
         rbind (expand_bodies K ctx headKind topAbs (ctx_bodies ctx) (fst st)) (\<lambda>into. Inr (into, snd st))
       else if kind = ''sketch'' \<or> kind = ''tag'' \<or> kind = ''world''
       then Unsupported (''selector source '' @ [CHR 0x27] @ kind @ [CHR 0x27] @ '' is deferred in this tranche'')
       else Inl (Invalid_argument (''selector query has an unknown scope source: '' @ kind)))))"

section \<open>The canonical order\<close>

definition Quantize :: "'sh kernel \<Rightarrow> f64 \<Rightarrow> f64 \<Rightarrow> int" where
  "Quantize K value quantum = f64_llrint (k_libm K) (f64_add (f64_div value quantum) (f64_decimal 1 9))"

type_synonym OrderKey = "int \<times> string \<times> int \<times> int \<times> int \<times> int \<times> string"

text \<open>\<open>OrderKey\<close> with the lexicographic order of its members.\<close>

definition KeyOf :: "'sh kernel \<Rightarrow> 'sh QueryEntity \<Rightarrow> OrderKey result" where
  "KeyOf K entity =
     rbind (Centroid K (ent_shape entity)) (\<lambda>(x, y, z).
       Inr (KindRank (ent_kind entity), ent_normalizedName entity, Quantize K x (f64_decimal 1 3),
            Quantize K y (f64_decimal 1 3), Quantize K z (f64_decimal 1 3),
            Quantize K (Measure K (ent_shape entity)) (f64_decimal 1 6), ent_token entity))"

text \<open>
  \<open>std::stable_sort\<close> by a key: a vector of fewer than two elements is not compared at all, in a
  longer one every element is.
\<close>

definition stable_sort_by :: "('a \<Rightarrow> ('k :: linorder) result) \<Rightarrow> 'a list \<Rightarrow> 'a list result" where
  "stable_sort_by key xs =
     (if length xs < 2 then Inr xs
      else rbind (rmap key xs) (\<lambda>ks. Inr (map snd (sort_key fst (zip ks xs)))))"

definition CanonicalSort :: "'sh kernel \<Rightarrow> 'sh QueryEntity list \<Rightarrow> 'sh QueryEntity list result" where
  "CanonicalSort K entities = stable_sort_by (KeyOf K) entities"

section \<open>Lemmas on the order\<close>

text \<open>A sort that returned has a total key function \<open>f\<close> and the result is \<open>sort_key f\<close>.\<close>

lemma stable_sort_by_cases:
  assumes "stable_sort_by key xs = Inr ys"
  obtains (short) "length xs < 2" "ys = xs"
  | (keyed) f where "\<And>x. x \<in> set xs \<Longrightarrow> key x = Inr (f x)" "ys = sort_key f xs"
proof (cases "length xs < 2")
  case True
  with assms have "ys = xs" by (simp add: stable_sort_by_def)
  with True show ?thesis by (rule short)
next
  case False
  then obtain ks where ks: "rmap key xs = Inr ks" and ys: "ys = map snd (sort_key fst (zip ks xs))"
    using assms by (auto simp: stable_sort_by_def rbind_eq_Inr)
  define f where "f x = projr (key x)" for x
  have ks': "ks = map f xs" using ks
    by (induction xs arbitrary: ks) (auto simp: rbind_eq_Inr f_def)
  have keyed: "\<And>x. x \<in> set xs \<Longrightarrow> key x = Inr (f x)"
    using rmap_defined [OF ks] by (metis f_def sum.sel(2))
  have zip: "zip (map f zs) zs = map (\<lambda>x. (f x, x)) zs" for zs by (induction zs) auto
  have insort: "insort_key fst (f a, a) (map (\<lambda>x. (f x, x)) zs) = map (\<lambda>x. (f x, x)) (insort_key f a zs)" for a zs
    by (induction zs) auto
  have "sort_key fst (map (\<lambda>x. (f x, x)) zs) = map (\<lambda>x. (f x, x)) (sort_key f zs)" for zs
    by (induction zs) (auto simp: insort)
  then have "ys = sort_key f xs" by (simp add: ys ks' zip comp_def)
  with keyed show ?thesis by (rule that(2))
qed

lemma stable_sort_by_mset: "stable_sort_by key xs = Inr ys \<Longrightarrow> mset ys = mset xs"
  by (erule stable_sort_by_cases) simp_all

lemma stable_sort_by_set: "stable_sort_by key xs = Inr ys \<Longrightarrow> set ys = set xs"
  by (metis stable_sort_by_mset set_mset_mset)

lemma stable_sort_by_sorted:
  assumes "stable_sort_by key xs = Inr ys" and "i < j" and "j < length ys"
  shows "\<exists>k l. key (ys ! i) = Inr k \<and> key (ys ! j) = Inr l \<and> k \<le> l"
  using assms(1)
proof (cases rule: stable_sort_by_cases)
  case short
  then show ?thesis using assms(2,3) by simp
next
  case (keyed f)
  have "sorted (map f ys)" by (simp add: keyed(2))
  then have "f (ys ! i) \<le> f (ys ! j)" using assms(2,3) by (simp add: sorted_iff_nth_mono)
  moreover have "ys ! i \<in> set xs" "ys ! j \<in> set xs"
    using assms(2,3) stable_sort_by_set [OF assms(1)] by (metis dual_order.strict_trans nth_mem)+
  ultimately show ?thesis using keyed(1) by auto
qed

text \<open>Where no two elements share a key, the result does not depend on the initial order.\<close>

lemma stable_sort_by_unique:
  assumes "stable_sort_by key xs = Inr ys" and "stable_sort_by key xs' = Inr ys'" and "mset xs = mset xs'"
    and "distinct xs" and "\<And>x y k. x \<in> set xs \<Longrightarrow> y \<in> set xs \<Longrightarrow> key x = Inr k \<Longrightarrow> key y = Inr k \<Longrightarrow> x = y"
  shows "ys = ys'"
proof (cases "length xs < 2")
  case True
  moreover have "length xs = length xs'" using assms(3) mset_eq_length by blast
  ultimately have "ys = xs" "ys' = xs'" using assms(1,2) by (simp_all add: stable_sort_by_def)
  moreover have "xs = xs'" using True assms(3) by (cases xs; cases xs') (auto simp: less_Suc_eq)
  ultimately show ?thesis by simp
next
  case False
  from assms(1) False obtain f where f: "\<And>x. x \<in> set xs \<Longrightarrow> key x = Inr (f x)" "ys = sort_key f xs"
    by (cases rule: stable_sort_by_cases) auto
  have len: "length xs = length xs'" and same: "set xs = set xs'" "distinct xs'"
    using assms(3,4) mset_eq_length mset_eq_setD mset_eq_imp_distinct_iff by blast+
  from assms(2) False len obtain g where g: "\<And>x. x \<in> set xs' \<Longrightarrow> key x = Inr (g x)" "ys' = sort_key g xs'"
    by (cases rule: stable_sort_by_cases) auto
  have fg: "\<And>x. x \<in> set xs \<Longrightarrow> f x = g x" using f(1) g(1) same(1) by (metis sum.inject(2))
  have inj: "inj_on f (set xs)" using assms(5) f(1) by (auto simp: inj_on_def)
  have eq: "map f ys' = map g ys'" using fg by (simp add: g(2) same(1))
  have "sorted (map f ys')" unfolding eq by (simp add: g(2))
  moreover have "sorted (map f ys)" by (simp add: f(2))
  ultimately show ?thesis
    using inj same assms(4) by (intro map_sorted_distinct_set_unique [of f]) (auto simp: f(2) g(2) distinct_map inj_on_subset)
qed

end
