(* ===== verification/Selector_Filters.thy ===== *)
theory Selector_Filters
  imports Selector_Query
begin

text \<open>
  The selector evaluator, second part (\<open>ApplyFilter\<close>, \<open>EvaluateToSet\<close> and \<open>EvaluateQuery\<close> of
  \<open>selector_evaluator-core.cpp\<close>): each filter maps the current set to the next, nested queries
  recurse into the same evaluator, and the survivors are put in canonical order.
  A filter that evaluates a nested query takes the evaluator as an argument; the congruence rule of
  \<open>ApplyFilter\<close> says that it is only called on a part of the filter, which is why the recursion ends.
\<close>

section \<open>Keeping entities\<close>

definition keepBy ::
  "'sh EvalContext \<Rightarrow> ('sh QueryEntity \<Rightarrow> bool result) \<Rightarrow> 'sh QueryEntity list \<Rightarrow> 'sh QueryEntity list result" where
  "keepBy ctx predicate input =
     rfold (\<lambda>output entity.
       rbind (CheckCancellation (ctx_cancelled ctx)) (\<lambda>_.
       rbind (predicate entity) (\<lambda>keep. Inr (if keep then output @ [entity] else output)))) [] input"

text \<open>\<open>static_cast<int>\<close> of a double, undefined outside the range.\<close>

definition cast_int :: "f64 \<Rightarrow> int result" where
  "cast_int d =
     (if f64_finite d \<and> - (2 ^ 31) \<le> f64_trunc d \<and> f64_trunc d < 2 ^ 31 then Inr (f64_trunc d)
      else Inl Undefined_behaviour)"

section \<open>Creation and role\<close>

definition records_of :: "'sh NamingRegistry \<Rightarrow> 'sh \<Rightarrow> 'sh NamingRecord list" where
  "records_of registry s = List.map_filter (FindByToken registry) (TokensOf registry s)"

definition filter_role :: "'sh EvalContext \<Rightarrow> json \<Rightarrow> 'sh QueryEntity list \<Rightarrow> 'sh QueryEntity list result" where
  "filter_role ctx args input =
     rbind (IdentArg args 0) (\<lambda>role.
       keepBy ctx (\<lambda>e. Inr (\<exists>record \<in> set (records_of (ctx_registry ctx) (ent_shape e)). rec_role record = role)) input)"

definition filter_history ::
  "'sh EvalContext \<Rightarrow> bool \<Rightarrow> 'sh QueryEntity list \<Rightarrow> 'sh QueryEntity list result" where
  "filter_history ctx wantModified input =
     keepBy ctx (\<lambda>e. Inr (\<exists>record \<in> set (records_of (ctx_registry ctx) (ent_shape e)).
       (rec_role record = ''modified'') = wantModified)) input"

section \<open>Geometric class\<close>

definition analytic_surfaces :: "(string \<times> string) list" where
  "analytic_surfaces = [(''planar'', ''plane''), (''cylindrical'', ''cylinder''), (''conical'', ''cone''),
     (''spherical'', ''sphere''), (''toroidal'', ''torus'')]"

definition filter_surface ::
  "'sh kernel \<Rightarrow> 'sh EvalContext \<Rightarrow> string \<Rightarrow> 'sh QueryEntity list \<Rightarrow> 'sh QueryEntity list result" where
  "filter_surface K ctx name input =
     keepBy ctx (\<lambda>e. Inr (
       if ent_kind e \<noteq> CHR ''f'' then False
       else let surface = SurfaceClass (k_geom K) (ent_shape e) in
         case map_of analytic_surfaces name of
           Some wanted \<Rightarrow> surface = wanted
         | None \<Rightarrow> surface \<notin> snd ` set analytic_surfaces)) input"

definition analytic_curves :: "(string \<times> string) list" where
  "analytic_curves = [(''line'', ''line''), (''circle'', ''circle''), (''ellipse'', ''ellipse'')]"

definition filter_curve ::
  "'sh kernel \<Rightarrow> 'sh EvalContext \<Rightarrow> string \<Rightarrow> 'sh QueryEntity list \<Rightarrow> 'sh QueryEntity list result" where
  "filter_curve K ctx name input =
     keepBy ctx (\<lambda>e. Inr (
       if ent_kind e \<noteq> CHR ''e'' then False
       else let curve = CurveClass (k_geom K) (ent_shape e) in
         case map_of analytic_curves name of
           Some wanted \<Rightarrow> curve = wanted
         | None \<Rightarrow> curve = ''bspline-curve'' \<or> curve = ''bezier-curve'')) input"

section \<open>Direction\<close>

definition filter_normal ::
  "'sh kernel \<Rightarrow> 'sh EvalContext \<Rightarrow> json \<Rightarrow> 'sh QueryEntity list \<Rightarrow> 'sh QueryEntity list result" where
  "filter_normal K ctx args input =
     rbind (DirectionArg K args 0) (\<lambda>dir.
     rbind (NumberArgOr args 1 (f64_decimal 1 0)) (\<lambda>tol.
       keepBy ctx (\<lambda>e.
         if ent_kind e \<noteq> CHR ''f'' then Inr False
         else rbind (FaceOutwardNormal K (ent_shape e)) (\<lambda>outward.
           Inr (case outward of None \<Rightarrow> False | Some n \<Rightarrow> f64_le (AngleDegrees K n dir) tol))) input))"

definition filter_parallel ::
  "'sh kernel \<Rightarrow> 'sh EvalContext \<Rightarrow> bool \<Rightarrow> json \<Rightarrow> 'sh QueryEntity list \<Rightarrow> 'sh QueryEntity list result" where
  "filter_parallel K ctx wantParallel args input =
     rbind (DirectionArg K args 0) (\<lambda>dir.
     rbind (NumberArgOr args 1 (f64_decimal 1 0)) (\<lambda>tol.
       keepBy ctx (\<lambda>e.
         rbind (EntityAxis K (ent_shape e)) (\<lambda>axis.
           Inr (case axis of
                  None \<Rightarrow> False
                | Some a \<Rightarrow>
                    let angle = AngleDegrees K a dir;
                        folded = (if f64_less (f64_of_nat 90) angle then f64_sub (f64_of_nat 180) angle else angle)
                    in if wantParallel then f64_le folded tol
                       else f64_le (f64_sub (f64_of_nat 90) tol) folded))) input))"

section \<open>Position\<close>

definition coord :: "char \<Rightarrow> vec3 \<Rightarrow> f64" where
  "coord axis p = (case p of (x, y, z) \<Rightarrow> if axis = CHR ''x'' then x else if axis = CHR ''y'' then y else z)"

definition filter_extreme ::
  "'sh kernel \<Rightarrow> 'sh EvalContext \<Rightarrow> bool \<Rightarrow> json \<Rightarrow> 'sh QueryEntity list \<Rightarrow> 'sh QueryEntity list result" where
  "filter_extreme K ctx wantMax args input =
     rbind (AxisArg args 0) (\<lambda>axis.
       if input = [] then Inr []
       else let bound = f64_decimal (10 ^ 300) 0 in
         rbind (rfold (\<lambda>extreme e. rbind (Centroid K (ent_shape e)) (\<lambda>c.
                  Inr ((if wantMax then f64_max else f64_min) extreme (coord axis c))))
                  (if wantMax then f64_neg bound else bound) input) (\<lambda>extreme.
           keepBy ctx (\<lambda>e. rbind (Centroid K (ent_shape e)) (\<lambda>c.
             Inr (f64_le (f64_abs (f64_sub (coord axis c) extreme)) (f64_decimal 1 3)))) input))"

definition filter_at ::
  "'sh kernel \<Rightarrow> 'sh EvalContext \<Rightarrow> json \<Rightarrow> 'sh QueryEntity list \<Rightarrow> 'sh QueryEntity list result" where
  "filter_at K ctx args input =
     rbind (PointArg args 0) (\<lambda>point.
     rbind (NumberArgOr args 1 (f64_decimal 5 1)) (\<lambda>tol.
       keepBy ctx (\<lambda>e. rbind (ClosestDistance K point (ent_shape e)) (\<lambda>d. Inr (f64_le d tol))) input))"

definition box_within :: "vec3 \<Rightarrow> vec3 \<Rightarrow> vec3 \<times> vec3 \<Rightarrow> bool" where
  "box_within lo hi box =
     (case (lo, hi, box) of ((lx, ly, lz), (hx, hy, hz), ((xmin, ymin, zmin), (xmax, ymax, zmax))) \<Rightarrow>
        let eps = f64_decimal 1 6 in
        f64_le (f64_sub (f64_min lx hx) eps) xmin \<and> f64_le (f64_sub (f64_min ly hy) eps) ymin \<and>
        f64_le (f64_sub (f64_min lz hz) eps) zmin \<and> f64_le xmax (f64_add (f64_max lx hx) eps) \<and>
        f64_le ymax (f64_add (f64_max ly hy) eps) \<and> f64_le zmax (f64_add (f64_max lz hz) eps))"

definition filter_within ::
  "'sh kernel \<Rightarrow> 'sh EvalContext \<Rightarrow> json \<Rightarrow> 'sh QueryEntity list \<Rightarrow> 'sh QueryEntity list result" where
  "filter_within K ctx args input =
     rbind (PointArg args 0) (\<lambda>lo.
     rbind (PointArg args 1) (\<lambda>hi.
       keepBy ctx (\<lambda>e. Inr (case g_box (k_geom K) (ent_shape e) of
         None \<Rightarrow> False | Some box \<Rightarrow> box_within lo hi box)) input))"

definition filter_onGround ::
  "'sh kernel \<Rightarrow> 'sh EvalContext \<Rightarrow> json \<Rightarrow> 'sh QueryEntity list \<Rightarrow> 'sh QueryEntity list result" where
  "filter_onGround K ctx args input =
     rbind (NumberArgOr args 0 (f64_decimal 1 3)) (\<lambda>tol.
     rbind (gp_dir (k_gp K) (0, 0, f64_neg (f64_decimal 1 0))) (\<lambda>downward.
       keepBy ctx (\<lambda>e.
         if ent_kind e \<noteq> CHR ''f'' then Inr False
         else rbind (FaceOutwardNormal K (ent_shape e)) (\<lambda>outward.
           case outward of
             None \<Rightarrow> Inr False
           | Some n \<Rightarrow>
               if f64_less (f64_decimal 1 0) (AngleDegrees K n downward) then Inr False
               else rbind (Centroid K (ent_shape e)) (\<lambda>c. Inr (f64_le (f64_abs (coord (CHR ''z'') c)) tol)))) input))"

section \<open>Size\<close>

text \<open>
  The first \<open>limit\<close> elements (none when it is negative). A stable sort by a double: comparing a
  NaN breaks the strict weak order the library requires.
\<close>

definition resize_to :: "int \<Rightarrow> 'a list \<Rightarrow> 'a list" where
  "resize_to limit xs = (if limit < int (length xs) then take (nat (max 0 limit)) xs else xs)"

definition measure_key :: "bool \<Rightarrow> f64 \<Rightarrow> int result" where
  "measure_key descending d =
     (if f64_nan d then Inl Undefined_behaviour else Inr (if descending then - f64_rank d else f64_rank d))"

definition filter_largest ::
  "'sh kernel \<Rightarrow> bool \<Rightarrow> json \<Rightarrow> 'sh QueryEntity list \<Rightarrow> 'sh QueryEntity list result" where
  "filter_largest K wantLargest args input =
     rbind (NumberArgOr args 0 (f64_decimal 1 0)) (\<lambda>n.
     rbind (cast_int n) (\<lambda>limit.
     rbind (stable_sort_by (\<lambda>e. measure_key wantLargest (Measure K (ent_shape e))) input) (\<lambda>ordered.
       Inr (resize_to limit ordered))))"

text \<open>A negative bound is open.\<close>

definition in_bounds :: "f64 \<Rightarrow> f64 \<Rightarrow> f64 \<Rightarrow> bool" where
  "in_bounds lo hi d \<longleftrightarrow> (f64_less lo 0 \<or> f64_le lo d) \<and> (f64_less hi 0 \<or> f64_le d hi)"

definition filter_area ::
  "'sh kernel \<Rightarrow> 'sh EvalContext \<Rightarrow> json \<Rightarrow> 'sh QueryEntity list \<Rightarrow> 'sh QueryEntity list result" where
  "filter_area K ctx args input =
     rbind (NumberArg args 0) (\<lambda>lo. rbind (NumberArg args 1) (\<lambda>hi.
       keepBy ctx (\<lambda>e. Inr (ent_kind e = CHR ''f'' \<and> in_bounds lo hi (FaceArea K (ent_shape e)))) input))"

definition filter_length ::
  "'sh kernel \<Rightarrow> 'sh EvalContext \<Rightarrow> json \<Rightarrow> 'sh QueryEntity list \<Rightarrow> 'sh QueryEntity list result" where
  "filter_length K ctx args input =
     rbind (NumberArg args 0) (\<lambda>lo. rbind (NumberArg args 1) (\<lambda>hi.
       keepBy ctx (\<lambda>e. Inr (ent_kind e = CHR ''e'' \<and> in_bounds lo hi (EdgeLength K (ent_shape e)))) input))"

definition entity_radius :: "'sh kernel \<Rightarrow> 'sh QueryEntity \<Rightarrow> f64 option result" where
  "entity_radius K e =
     (if ent_kind e = CHR ''f'' then
        (if SurfaceClass (k_geom K) (ent_shape e) = ''cylinder''
         then rbind (CylindricalFaceRadius (k_geom K) (ent_shape e)) (\<lambda>r. Inr (Some r))
         else if SurfaceClass (k_geom K) (ent_shape e) = ''cone''
         then rbind (ConicalFaceReferenceRadius (k_geom K) (ent_shape e)) (\<lambda>r. Inr (Some r))
         else Inr None)
      else if ent_kind e = CHR ''e'' then
        (if CurveClass (k_geom K) (ent_shape e) = ''circle''
         then rbind (CircleEdgeRadius (k_geom K) (ent_shape e)) (\<lambda>r. Inr (Some r)) else Inr None)
      else Inr None)"

definition radius_bounds :: "bool \<Rightarrow> json \<Rightarrow> (f64 \<times> f64) result" where
  "radius_bounds exact args =
     (if exact
      then rbind (NumberArg args 0) (\<lambda>r. rbind (NumberArgOr args 1 (f64_decimal 1 3)) (\<lambda>tol.
             Inr (f64_sub r tol, f64_add r tol)))
      else rbind (NumberArg args 0) (\<lambda>lo. rbind (NumberArg args 1) (\<lambda>hi. Inr (lo, hi))))"

definition filter_radius ::
  "'sh kernel \<Rightarrow> 'sh EvalContext \<Rightarrow> bool \<Rightarrow> json \<Rightarrow> 'sh QueryEntity list \<Rightarrow> 'sh QueryEntity list result" where
  "filter_radius K ctx exact args input =
     rbind (radius_bounds exact args) (\<lambda>(lo, hi).
       keepBy ctx (\<lambda>e. rbind (entity_radius K e) (\<lambda>r.
         Inr (case r of None \<Rightarrow> False | Some r \<Rightarrow> f64_le lo r \<and> f64_le r hi))) input)"

section \<open>Topology\<close>

definition mixed_note :: "string \<Rightarrow> QueryDiagnostic" where
  "mixed_note token = \<lparr>diag_code = ''D_MIXED_CONVEXITY'', diag_message = ''edge has mixed convexity along its length'',
     diag_token = token\<rparr>"

definition note_mixed_edge :: "DihedralClass \<Rightarrow> 'sh QueryEntity \<Rightarrow> 'sh EvalNotes \<Rightarrow> 'sh EvalNotes" where
  "note_mixed_edge classified e notes =
     (if classified = Mixed \<and> ent_shape e \<notin> set (note_mixed notes)
      then notes\<lparr>note_mixed := note_mixed notes @ [ent_shape e],
                 note_diagnostics := note_diagnostics notes @ [mixed_note (ent_token e)]\<rparr>
      else notes)"

definition convexity_of ::
  "'sh kernel \<Rightarrow> 'sh EvalContext \<Rightarrow> f64 \<Rightarrow> 'sh QueryEntity \<Rightarrow> DihedralClass option result" where
  "convexity_of K ctx smoothTol e =
     (if ent_kind e \<noteq> CHR ''e'' then Inr None
      else case ctx_shapeToBody ctx (ent_shape e) of
        None \<Rightarrow> Inr None
      | Some body \<Rightarrow>
          rbind (ComputeDihedralRange (k_libm K) (k_gp K) (k_geom K) body (ent_shape e)) (\<lambda>angles.
          rbind (ClassifyFromRange angles smoothTol) (\<lambda>classified. Inr (Some classified))))"

definition wanted_class :: "string \<Rightarrow> DihedralClass" where
  "wanted_class name = (if name = ''convex'' then Convex else if name = ''concave'' then Concave else Smooth)"

definition convexity_step ::
  "'sh kernel \<Rightarrow> 'sh EvalContext \<Rightarrow> string \<Rightarrow> f64 \<Rightarrow> 'sh QueryEntity list \<times> 'sh EvalNotes \<Rightarrow> 'sh QueryEntity \<Rightarrow>
   ('sh QueryEntity list \<times> 'sh EvalNotes) result" where
  "convexity_step K ctx name smoothTol st e =
     rbind (CheckCancellation (ctx_cancelled ctx)) (\<lambda>_.
     rbind (convexity_of K ctx smoothTol e) (\<lambda>c.
       case c of
         None \<Rightarrow> Inr st
       | Some classified \<Rightarrow>
           Inr (if classified = wanted_class name then fst st @ [e] else fst st, note_mixed_edge classified e (snd st))))"

definition filter_convexity ::
  "'sh kernel \<Rightarrow> 'sh EvalContext \<Rightarrow> string \<Rightarrow> json \<Rightarrow> 'sh QueryEntity list \<Rightarrow> 'sh EvalNotes \<Rightarrow>
   ('sh QueryEntity list \<times> 'sh EvalNotes) result" where
  "filter_convexity K ctx name args input notes =
     rbind (if name = ''smooth'' then NumberArgOr args 0 (f64_decimal 1 0) else Inr (f64_decimal 1 0)) (\<lambda>smoothTol.
       rfold (convexity_step K ctx name smoothTol) ([], notes) input)"

text \<open>The sub-shapes of every kind of a nested result, with the shapes themselves.\<close>

definition SubShapesOf :: "'sh kernel \<Rightarrow> 'sh QueryEntity list \<Rightarrow> 'sh list" where
  "SubShapesOf K entities =
     concat (map (\<lambda>e. concat (map (map_shapes (k_topology K) (ent_shape e)) kNamedKinds) @ [ent_shape e]) entities)"

definition ShapesOf :: "'sh QueryEntity list \<Rightarrow> 'sh list" where
  "ShapesOf entities = map ent_shape entities"

definition touches :: "'sh kernel \<Rightarrow> 'sh list \<Rightarrow> 'sh \<Rightarrow> bool" where
  "touches K neighborhood s \<longleftrightarrow>
     (\<exists>kind \<in> set kNamedKinds. \<exists>x \<in> set (map_shapes (k_topology K) s kind). x \<noteq> s \<and> x \<in> set neighborhood)"

definition filter_adjacentTo ::
  "'sh kernel \<Rightarrow> 'sh EvalContext \<Rightarrow> 'sh QueryEntity list \<Rightarrow> 'sh QueryEntity list \<Rightarrow> 'sh QueryEntity list result" where
  "filter_adjacentTo K ctx other input =
     keepBy ctx (\<lambda>e. Inr (if ent_shape e \<in> set (ShapesOf other) then False
       else touches K (SubShapesOf K other) (ent_shape e))) input"

definition filter_boundary ::
  "'sh kernel \<Rightarrow> 'sh EvalContext \<Rightarrow> 'sh QueryEntity list \<Rightarrow> 'sh QueryEntity list \<Rightarrow> 'sh QueryEntity list result" where
  "filter_boundary K ctx faces input =
     keepBy ctx (\<lambda>e. Inr (ent_shape e \<in> set (SubShapesOf K faces))) input"

definition owning_faces :: "'sh kernel \<Rightarrow> 'sh QueryEntity list \<Rightarrow> 'sh \<Rightarrow> nat" where
  "owning_faces K faces edge =
     length (filter (\<lambda>f. ent_kind f = CHR ''f'' \<and> edge \<in> set (map_shapes (k_topology K) (ent_shape f) EDGE)) faces)"

definition filter_interiorTo ::
  "'sh kernel \<Rightarrow> 'sh EvalContext \<Rightarrow> 'sh QueryEntity list \<Rightarrow> 'sh QueryEntity list \<Rightarrow> 'sh QueryEntity list result" where
  "filter_interiorTo K ctx faces input =
     keepBy ctx (\<lambda>e. Inr (if ent_kind e \<noteq> CHR ''e'' then False else 2 \<le> owning_faces K faces (ent_shape e))) input"

section \<open>Set and order\<close>

definition filter_union :: "'sh QueryEntity list \<Rightarrow> 'sh QueryEntity list \<Rightarrow> 'sh QueryEntity list result" where
  "filter_union other input = Inr (foldl set_Add (foldl set_Add [] input) other)"

definition filter_not ::
  "'sh EvalContext \<Rightarrow> 'sh QueryEntity list \<Rightarrow> 'sh QueryEntity list \<Rightarrow> 'sh QueryEntity list result" where
  "filter_not ctx other input = keepBy ctx (\<lambda>e. Inr (ent_shape e \<notin> set (ShapesOf other))) input"

definition filter_nth :: "'sh kernel \<Rightarrow> json \<Rightarrow> 'sh QueryEntity list \<Rightarrow> 'sh QueryEntity list result" where
  "filter_nth K args input =
     rbind (NumberArg args 0) (\<lambda>n.
     rbind (cast_int n) (\<lambda>index.
     rbind (CanonicalSort K input) (\<lambda>ordered.
       Inr (if index < 0 \<or> int (length ordered) \<le> index then [] else [ordered ! nat index]))))"

definition filter_first :: "'sh kernel \<Rightarrow> json \<Rightarrow> 'sh QueryEntity list \<Rightarrow> 'sh QueryEntity list result" where
  "filter_first K args input =
     rbind (NumberArg args 0) (\<lambda>n.
     rbind (cast_int n) (\<lambda>limit.
     rbind (CanonicalSort K input) (\<lambda>ordered. Inr (resize_to limit ordered))))"

section \<open>The filter catalogue\<close>

definition filter_args :: "json \<Rightarrow> json" where
  "filter_args flt = (case jfind flt ''args'' of Some args \<Rightarrow> args | None \<Rightarrow> JArray [])"

text \<open>The filters that only read the current set.\<close>

definition local_filter ::
  "'sh kernel \<Rightarrow> 'sh EvalContext \<Rightarrow> string \<Rightarrow> json \<Rightarrow> 'sh QueryEntity list \<Rightarrow> 'sh QueryEntity list result option" where
  "local_filter K ctx name args input =
     (if name = ''role'' then Some (filter_role ctx args input)
      else if name = ''created'' \<or> name = ''modified'' then Some (filter_history ctx (name = ''modified'') input)
      else if name \<in> fst ` set analytic_surfaces \<or> name = ''freeform'' then Some (filter_surface K ctx name input)
      else if name \<in> fst ` set analytic_curves \<or> name = ''bspline'' then Some (filter_curve K ctx name input)
      else if name = ''normal'' then Some (filter_normal K ctx args input)
      else if name = ''parallel'' \<or> name = ''perpendicular'' then Some (filter_parallel K ctx (name = ''parallel'') args input)
      else if name = ''min'' \<or> name = ''max'' then Some (filter_extreme K ctx (name = ''max'') args input)
      else if name = ''at'' then Some (filter_at K ctx args input)
      else if name = ''within'' then Some (filter_within K ctx args input)
      else if name = ''onGround'' then Some (filter_onGround K ctx args input)
      else if name = ''largest'' \<or> name = ''smallest'' then Some (filter_largest K (name = ''largest'') args input)
      else if name = ''area'' then Some (filter_area K ctx args input)
      else if name = ''length'' then Some (filter_length K ctx args input)
      else if name = ''radius'' \<or> name = ''radiusBetween'' then Some (filter_radius K ctx (name = ''radius'') args input)
      else if name = ''nth'' then Some (filter_nth K args input)
      else if name = ''first'' then Some (filter_first K args input)
      else None)"

text \<open>The filters that combine the current set with the result of a nested query.\<close>

definition nested_filter ::
  "'sh kernel \<Rightarrow> 'sh EvalContext \<Rightarrow> string \<Rightarrow> ('sh QueryEntity list \<Rightarrow> 'sh QueryEntity list \<Rightarrow> 'sh QueryEntity list result) option" where
  "nested_filter K ctx name =
     (if name = ''adjacentTo'' then Some (filter_adjacentTo K ctx)
      else if name = ''on'' \<or> name = ''boundaryOf'' then Some (filter_boundary K ctx)
      else if name = ''interiorTo'' then Some (filter_interiorTo K ctx)
      else if name = ''union'' then Some filter_union
      else if name = ''not'' then Some (filter_not ctx)
      else None)"

definition ApplyFilter ::
  "'sh kernel \<Rightarrow> 'sh EvalContext \<Rightarrow> (json \<Rightarrow> 'sh EvalNotes \<Rightarrow> ('sh QueryEntity list \<times> 'sh EvalNotes) result) \<Rightarrow> json \<Rightarrow>
   'sh QueryEntity list \<Rightarrow> 'sh EvalNotes \<Rightarrow> ('sh QueryEntity list \<times> 'sh EvalNotes) result" where
  "ApplyFilter K ctx nested flt input notes =
     rbind (jat flt ''name'') (\<lambda>n.
     rbind (get_string n) (\<lambda>name.
       let args = filter_args flt in
       case local_filter K ctx name args input of
         Some out \<Rightarrow> rbind out (\<lambda>es. Inr (es, notes))
       | None \<Rightarrow>
           if name \<in> {''convex'', ''concave'', ''smooth''} then filter_convexity K ctx name args input notes
           else case nested_filter K ctx name of
             Some combine \<Rightarrow>
               rbind (QueryArg args 0) (\<lambda>q.
               rbind (nested q notes) (\<lambda>(other, notes').
               rbind (combine other input) (\<lambda>es. Inr (es, notes'))))
           | None \<Rightarrow> Unsupported (''selector filter '' @ [CHR 0x27] @ name @ [CHR 0x27] @ '' is not implemented'')))"

section \<open>Evaluation\<close>

lemma jat_index_size: "jat_index j i = Inr v \<Longrightarrow> size v \<le> size j"
  by (rule elements_size) (auto simp: jat_index_def split: json.splits if_splits)

lemma QueryArg_size: "QueryArg (filter_args flt) 0 = Inr q \<Longrightarrow> size q < size flt"
proof -
  assume q: "QueryArg (filter_args flt) 0 = Inr q"
  then obtain arg where arg: "jat_index (filter_args flt) 0 = Inr arg" "jat arg ''value'' = Inr q"
    by (auto simp: QueryArg_def tagged_arg_def ArgAt_def rbind_eq_Inr split: if_splits)
  have "size (filter_args flt) \<le> size flt"
  proof (cases "jfind flt ''args''")
    case None
    then show ?thesis using arg(1) by (simp add: filter_args_def jat_index_def)
  next
    case (Some args)
    then have "jat flt ''args'' = Inr args" by (cases flt) (auto simp: jfind_def)
    then show ?thesis using Some jat_size by (fastforce simp: filter_args_def)
  qed
  then show ?thesis using jat_index_size [OF arg(1)] jat_size [OF arg(2)] by simp
qed

lemma ApplyFilter_cong [fundef_cong]:
  assumes "K = K'" "ctx = ctx'" "flt = flt'" "input = input'" "notes = notes'"
    and "\<And>q m. size q < size flt' \<Longrightarrow> nested q m = nested' q m"
  shows "ApplyFilter K ctx nested flt input notes = ApplyFilter K' ctx' nested' flt' input' notes'"
  unfolding assms(1-5) ApplyFilter_def Let_def
  by (intro rbind_cong refl option.case_cong if_cong) (auto intro!: assms(6) dest: QueryArg_size)

lemma rfold_cong [fundef_cong]:
  "s = s' \<Longrightarrow> xs = ys \<Longrightarrow> (\<And>x t. x \<in> set ys \<Longrightarrow> f t x = g t x) \<Longrightarrow> rfold f s xs = rfold g s' ys"
  by (induction ys arbitrary: s s' xs) (auto intro!: rbind_cong)

text \<open>The filters of a query; without the member there are none.\<close>

definition query_filters :: "json \<Rightarrow> json list" where
  "query_filters ast = (case jfind ast ''filters'' of Some fs \<Rightarrow> elements fs | None \<Rightarrow> [])"

lemma query_filters_size: "flt \<in> set (query_filters ast) \<Longrightarrow> size flt < size ast"
proof -
  assume f: "flt \<in> set (query_filters ast)"
  then obtain fs where fs: "jfind ast ''filters'' = Some fs" "flt \<in> set (elements fs)"
    by (cases "jfind ast ''filters''") (auto simp: query_filters_def)
  then have "jat ast ''filters'' = Inr fs" by (cases ast) (auto simp: jfind_def)
  then show ?thesis using jat_size elements_size [OF fs(2)] by fastforce
qed

text \<open>The initial set of a query and its head kind.\<close>

definition expand_scope ::
  "'sh kernel \<Rightarrow> 'sh EvalContext \<Rightarrow> json \<Rightarrow> 'sh EvalNotes \<Rightarrow> ('sh QueryEntity list \<times> 'sh EvalNotes) result" where
  "expand_scope K ctx ast notes =
     rbind (jat ast ''kind'') (\<lambda>k.
     rbind (get_string k) (\<lambda>kind.
     rbind (HeadKindChar kind) (\<lambda>headKind.
     rbind (jat ast ''scope'') (\<lambda>scope.
       rfold (\<lambda>st source. ExpandSource K ctx source headKind st) ([], notes) (elements scope)))))"

type_synonym 'sh stage_state = "'sh QueryEntity list \<times> nat list \<times> 'sh EvalNotes"

text \<open>\<open>EvaluateToSet\<close>: the set, the cardinality of every stage, the notes.\<close>

function EvaluateToSet :: "'sh kernel \<Rightarrow> 'sh EvalContext \<Rightarrow> json \<Rightarrow> 'sh EvalNotes \<Rightarrow> 'sh stage_state result" where
  "EvaluateToSet K ctx ast notes =
     rbind (expand_scope K ctx ast notes) (\<lambda>zero.
       rfold (\<lambda>st flt.
         rbind (CheckCancellation (ctx_cancelled ctx)) (\<lambda>_.
         rbind (ApplyFilter K ctx
                  (\<lambda>q m. rbind (EvaluateToSet K ctx q m) (\<lambda>r. Inr (fst r, snd (snd r))))
                  flt (fst st) (snd (snd st))) (\<lambda>out.
           Inr (fst out, fst (snd st) @ [length (fst out)], snd out))))
         (fst zero, [length (fst zero)], snd zero) (query_filters ast))"
  by pat_completeness auto
termination
  by (relation "measure (\<lambda>(K, ctx, ast, notes). size ast)") (auto dest: query_filters_size)

declare EvaluateToSet.simps [simp del]

text \<open>A nested query contributes its set and its notes, not its stages.\<close>

definition nested_query ::
  "'sh kernel \<Rightarrow> 'sh EvalContext \<Rightarrow> json \<Rightarrow> 'sh EvalNotes \<Rightarrow> ('sh QueryEntity list \<times> 'sh EvalNotes) result" where
  "nested_query K ctx q notes = rbind (EvaluateToSet K ctx q notes) (\<lambda>r. Inr (fst r, snd (snd r)))"

text \<open>Every sub-shape belongs to the first visible body that has it.\<close>

definition owner_of :: "'sh kernel \<Rightarrow> 'sh EvaluatedBody list \<Rightarrow> 'sh \<Rightarrow> 'sh EvaluatedBody option" where
  "owner_of K bodies s =
     List.find (\<lambda>body. \<exists>kind \<in> set kNamedKinds. s \<in> set (map_shapes (k_topology K) (shape body) kind)) bodies"

definition query_context ::
  "'sh kernel \<Rightarrow> 'sh EvaluatedBody list \<Rightarrow> 'sh NamingRegistry \<Rightarrow> bool \<Rightarrow> 'sh EvalContext" where
  "query_context K bodies registry cancelled =
     \<lparr>ctx_bodies = bodies, ctx_registry = registry, ctx_cancelled = cancelled,
      ctx_shapeToBodyId = (\<lambda>s. map_option bodyId (owner_of K bodies s)),
      ctx_shapeToBody = (\<lambda>s. map_option shape (owner_of K bodies s))\<rparr>"

definition no_notes :: "'sh EvalNotes" where
  "no_notes = \<lparr>note_diagnostics = [], note_mixed = []\<rparr>"

definition EvaluateQueryCore ::
  "'sh kernel \<Rightarrow> json \<Rightarrow> 'sh EvaluatedBody list \<Rightarrow> 'sh NamingRegistry \<Rightarrow> bool \<Rightarrow> 'sh QueryOutcome result" where
  "EvaluateQueryCore K ast bodies registry cancelled =
     rbind (EvaluateToSet K (query_context K bodies registry cancelled) ast no_notes) (\<lambda>(entities, stages, notes).
     rbind (CanonicalSort K entities) (\<lambda>ordered.
       Inr \<lparr>out_entities = ordered, out_stageCardinalities = stages, out_diagnostics = note_diagnostics notes\<rparr>))"

end
