(* ===== verification/Selector_Result.thy ===== *)
theory Selector_Result
  imports Selector_Filters
begin

text \<open>
  The selector evaluator, third part: the projection of an entity to the wire
  (\<open>ResolvedEntityToJson\<close> of \<open>selector_evaluator-core.cpp\<close>) and the adjacency enrichment of
  \<open>selector_evaluator.cpp\<close>: the FNV-1a hash of the newest tokens on the immediate incident entities,
  which every entity of an outcome carries.
\<close>

section \<open>Adjacency\<close>

definition OwningBody :: "'sh QueryEntity \<Rightarrow> 'sh EvaluatedBody list \<Rightarrow> 'sh EvaluatedBody result" where
  "OwningBody entity bodies =
     (case List.find (\<lambda>body. bodyId body = ent_bodyId entity) bodies of
        None \<Rightarrow> Inl (Runtime_error ''selector adjacency could not find the entity's owning body'')
      | Some body \<Rightarrow> Inr body)"

text \<open>\<open>std::set<std::string>\<close> as the strictly ascending list.\<close>

definition set_insert :: "string \<Rightarrow> string list \<Rightarrow> string list" where
  "set_insert token tokens = (if token \<in> set tokens then tokens else insort token tokens)"

definition AddNewestToken :: "'sh NamingRegistry \<Rightarrow> 'sh \<Rightarrow> string list \<Rightarrow> string list" where
  "AddNewestToken registry s tokens =
     (let answering = TokensOf registry s in if answering = [] then tokens else set_insert (last answering) tokens)"

definition add_tokens ::
  "'sh NamingRegistry \<Rightarrow> bool \<Rightarrow> 'sh list \<Rightarrow> string list \<Rightarrow> string list result" where
  "add_tokens registry cancelled shapes tokens =
     rfold (\<lambda>tokens s. rbind (CheckCancellation cancelled) (\<lambda>_. Inr (AddNewestToken registry s tokens))) tokens shapes"

definition AddSubshapeTokens ::
  "'sh kernel \<Rightarrow> 'sh \<Rightarrow> shape_kind \<Rightarrow> 'sh NamingRegistry \<Rightarrow> bool \<Rightarrow> string list \<Rightarrow> string list result" where
  "AddSubshapeTokens K owner kind registry cancelled tokens =
     add_tokens registry cancelled (map fst (g_explore (k_geom K) owner kind)) tokens"

definition AddAncestors ::
  "'sh kernel \<Rightarrow> 'sh \<Rightarrow> 'sh \<Rightarrow> shape_kind \<Rightarrow> shape_kind \<Rightarrow> 'sh NamingRegistry \<Rightarrow> bool \<Rightarrow> string list \<Rightarrow> string list result" where
  "AddAncestors K body entity entityKind ancestorKind registry cancelled tokens =
     (case g_ancestors (k_geom K) body entityKind ancestorKind entity of
        None \<Rightarrow> Inr tokens
      | Some shapes \<Rightarrow> add_tokens registry cancelled shapes tokens)"

text \<open>Every token is followed by the byte \<open>0xff\<close>.\<close>

definition fnv_token :: "u64 \<Rightarrow> string \<Rightarrow> u64" where
  "fnv_token hash token = fnv_step (foldl fnv_step hash token) (CHR 0xFF)"

text \<open>Sixteen lower-case hexadecimal digits.\<close>

definition hex64 :: "u64 \<Rightarrow> string" where
  "hex64 h = concat (map (\<lambda>i. hex_byte (ucast (drop_bit (8 * i) h))) [7, 6, 5, 4, 3, 2, 1, 0])"

definition Fnv1aHex :: "string list \<Rightarrow> string" where
  "Fnv1aHex tokens = (if tokens = [] then [] else hex64 (foldl fnv_token 14695981039346656037 tokens))"

definition incident_tokens ::
  "'sh kernel \<Rightarrow> 'sh QueryEntity \<Rightarrow> 'sh \<Rightarrow> 'sh NamingRegistry \<Rightarrow> bool \<Rightarrow> string list result" where
  "incident_tokens K entity body registry cancelled =
     (if ent_kind entity = CHR ''f'' then
        rbind (AddSubshapeTokens K (ent_shape entity) EDGE registry cancelled [])
          (AddSubshapeTokens K (ent_shape entity) VERTEX registry cancelled)
      else if ent_kind entity = CHR ''e'' then
        rbind (AddSubshapeTokens K (ent_shape entity) VERTEX registry cancelled [])
          (AddAncestors K body (ent_shape entity) EDGE FACE registry cancelled)
      else if ent_kind entity = CHR ''v'' then
        rbind (AddAncestors K body (ent_shape entity) VERTEX EDGE registry cancelled [])
          (AddAncestors K body (ent_shape entity) VERTEX FACE registry cancelled)
      else Inl (Runtime_error ''selector adjacency covers faces, edges, and vertices only''))"

definition AdjacencyHash ::
  "'sh kernel \<Rightarrow> 'sh QueryEntity \<Rightarrow> 'sh EvaluatedBody list \<Rightarrow> 'sh NamingRegistry \<Rightarrow> bool \<Rightarrow> string result" where
  "AdjacencyHash K entity bodies registry cancelled =
     (if ent_bodyId entity = [] then Inr []
      else rbind (OwningBody entity bodies) (\<lambda>body.
           rbind (incident_tokens K entity (shape body) registry cancelled) (\<lambda>tokens. Inr (Fnv1aHex tokens))))"

definition enrich_entity ::
  "'sh kernel \<Rightarrow> 'sh EvaluatedBody list \<Rightarrow> 'sh NamingRegistry \<Rightarrow> bool \<Rightarrow> 'sh QueryEntity \<Rightarrow> 'sh QueryEntity result" where
  "enrich_entity K bodies registry cancelled entity =
     rbind (CheckCancellation cancelled) (\<lambda>_.
     rbind (AdjacencyHash K entity bodies registry cancelled) (\<lambda>h. Inr (entity\<lparr>ent_adjHash := h\<rparr>)))"

definition EvaluateQuery ::
  "'sh kernel \<Rightarrow> json \<Rightarrow> 'sh EvaluatedBody list \<Rightarrow> 'sh NamingRegistry \<Rightarrow> bool \<Rightarrow> 'sh QueryOutcome result" where
  "EvaluateQuery K ast bodies registry cancelled =
     rbind (EvaluateQueryCore K ast bodies registry cancelled) (\<lambda>outcome.
     rbind (rmap (enrich_entity K bodies registry cancelled) (out_entities outcome)) (\<lambda>entities.
       Inr (outcome\<lparr>out_entities := entities\<rparr>)))"

section \<open>The wire projection\<close>

definition PointJson :: "vec3 \<Rightarrow> json" where
  "PointJson p = (case p of (x, y, z) \<Rightarrow> JArray [JFloat x, JFloat y, JFloat z])"

definition SurfaceEnum :: "string \<Rightarrow> string" where
  "SurfaceEnum surfaceClass =
     (if surfaceClass = ''plane'' \<or> surfaceClass = ''cylinder'' \<or> surfaceClass = ''cone'' \<or>
         surfaceClass = ''sphere'' \<or> surfaceClass = ''torus''
      then surfaceClass else ''freeform'')"

definition CurveEnum :: "string \<Rightarrow> string" where
  "CurveEnum curveClass =
     (if curveClass = ''line'' \<or> curveClass = ''circle'' \<or> curveClass = ''ellipse'' then curveClass
      else if curveClass = ''bspline-curve'' \<or> curveClass = ''bezier-curve'' then ''bspline''
      else ''other'')"

definition axis_member :: "vec3 \<Rightarrow> vec3 option \<Rightarrow> (string \<times> json) list" where
  "axis_member location axis =
     (case axis of
        None \<Rightarrow> []
      | Some dir \<Rightarrow> [(''axis'', make_object [(''origin'', PointJson location), (''dir'', PointJson dir)])])"

definition face_members :: "'sh kernel \<Rightarrow> 'sh \<Rightarrow> (string \<times> json) list result" where
  "face_members K face =
     rbind (FaceOutwardNormal K face) (\<lambda>outward.
     rbind (if g_surface (k_geom K) face = Cylinder_surface
            then rbind (CylindricalFaceRadius (k_geom K) face) (\<lambda>r. Inr [(''radius'', JFloat r)])
            else if g_surface (k_geom K) face = Cone_surface
            then rbind (ConicalFaceReferenceRadius (k_geom K) face) (\<lambda>r. Inr [(''radius'', JFloat r)])
            else Inr []) (\<lambda>radius.
       Inr ([(''area'', JFloat (FaceArea K face)),
             (''surface'', JString (SurfaceEnum (SurfaceClass (k_geom K) face)))] @
            (case outward of None \<Rightarrow> [] | Some n \<Rightarrow> [(''normal'', PointJson n)]) @ radius @
            (if g_surface (k_geom K) face \<in> {Cylinder_surface, Cone_surface}
             then axis_member (g_surface_location (k_geom K) face) (SurfaceAxis (k_gp K) (k_geom K) face) else []))))"

definition sample_points :: "'sh kernel \<Rightarrow> 'sh \<Rightarrow> (string \<times> json) list" where
  "sample_points K edge =
     (case g_curve_parameters (k_geom K) edge of (lower, upper) \<Rightarrow>
        if f64_finite lower \<and> f64_finite upper \<and> f64_less lower upper
        then let segments = (if g_curve (k_geom K) edge = Line_curve then 1 else 64) in
          [(''samplePoints'', JArray (map (\<lambda>index.
              PointJson (g_curve_value (k_geom K) edge
                (f64_add lower (f64_div (f64_mul (f64_sub upper lower) (f64_of_nat index)) (f64_of_nat segments)))))
              [0..<segments + 1]))]
        else [])"

definition edge_members :: "'sh kernel \<Rightarrow> 'sh \<Rightarrow> (string \<times> json) list result" where
  "edge_members K edge =
     rbind (if g_degenerated (k_geom K) edge then Inr []
            else rbind (if g_curve (k_geom K) edge = Circle_curve
                        then rbind (CircleEdgeRadius (k_geom K) edge) (\<lambda>r. Inr [(''radius'', JFloat r)]) else Inr [])
                   (\<lambda>radius. Inr (sample_points K edge @ radius @
                      (if g_curve (k_geom K) edge \<in> {Circle_curve, Line_curve, Ellipse_curve}
                       then axis_member (g_curve_location (k_geom K) edge) (CurveAxis (k_geom K) edge) else []))))
       (\<lambda>shown.
         Inr ([(''length'', JFloat (EdgeLength K edge)),
               (''curve'', JString (CurveEnum (CurveClass (k_geom K) edge)))] @ shown))"

definition kind_members :: "'sh kernel \<Rightarrow> 'sh QueryEntity \<Rightarrow> (string \<times> json) list result" where
  "kind_members K entity =
     (if ent_kind entity = CHR ''f'' then face_members K (ent_shape entity)
      else if ent_kind entity = CHR ''e'' then edge_members K (ent_shape entity)
      else Inr [])"

definition kind_name :: "char \<Rightarrow> string" where
  "kind_name kind = (if kind = CHR ''f'' then ''face'' else if kind = CHR ''e'' then ''edge'' else ''vertex'')"

definition ResolvedEntityToJsonCore :: "'sh kernel \<Rightarrow> 'sh QueryEntity \<Rightarrow> json result" where
  "ResolvedEntityToJsonCore K entity =
     rbind (Centroid K (ent_shape entity)) (\<lambda>c.
     rbind (kind_members K entity) (\<lambda>measured.
       Inr (make_object ([(''token'', JString (ent_token entity)), (''kind'', JString (kind_name (ent_kind entity))),
              (''bodyId'', JString (ent_bodyId entity)), (''centroid'', PointJson c)] @ measured))))"

definition with_adjHash :: "'sh QueryEntity \<Rightarrow> json \<Rightarrow> json" where
  "with_adjHash entity j =
     (if ent_adjHash entity = [] then j
      else JObject (obj_put ''adjHash'' (JString (ent_adjHash entity)) (object_members j)))"

definition ResolvedEntityToJson :: "'sh kernel \<Rightarrow> 'sh QueryEntity \<Rightarrow> json result" where
  "ResolvedEntityToJson K entity =
     rbind (ResolvedEntityToJsonCore K entity) (\<lambda>j. Inr (with_adjHash entity j))"
end
