(* ===== verification/Ref_Resolution.thy ===== *)
theory Ref_Resolution
  imports Selector_Result
begin

text \<open>
  Reference resolution (\<open>ref_resolution-core.cpp\<close>, \<open>ref_resolution.cpp\<close>, \<open>ref_slot.hpp\<close>): a slot's
  query is evaluated, its arity applied, and a \<open>one\<close> slot with several candidates decided by two
  channels, the lineage names of the registry and the anchor score, which must commit to the same
  candidate. \<open>ResolveRef\<close> adds a second attempt with the enriched score.
\<close>

section \<open>Arity\<close>

datatype ArityKind = ArityOne | ArityOneOrMore | ArityAny | ArityRange

record Arity =
  arity_kind :: ArityKind
  arity_min :: nat
  arity_max :: "nat option"

definition ParseArity :: "json \<Rightarrow> Arity result" where
  "ParseArity refSlot =
     (case jfind refSlot ''arity'' of
        None \<Rightarrow> Inr \<lparr>arity_kind = ArityOne, arity_min = 1, arity_max = Some 1\<rparr>
      | Some arity \<Rightarrow>
          if is_string arity then
            rbind (get_string arity) (\<lambda>form.
              if form = ''one'' then Inr \<lparr>arity_kind = ArityOne, arity_min = 1, arity_max = Some 1\<rparr>
              else if form = ''one-or-more'' then Inr \<lparr>arity_kind = ArityOneOrMore, arity_min = 1, arity_max = None\<rparr>
              else if form = ''any'' then Inr \<lparr>arity_kind = ArityAny, arity_min = 0, arity_max = None\<rparr>
              else Inl (Invalid_argument (''ref slot has an unknown arity form: '' @ form)))
          else
            rbind (rbind (jat arity ''min'') get_size) (\<lambda>lo.
            rbind (case jfind arity ''max'' of None \<Rightarrow> Inr None | Some m \<Rightarrow> rbind (get_size m) (\<lambda>hi. Inr (Some hi))) (\<lambda>hi.
              Inr \<lparr>arity_kind = ArityRange, arity_min = lo, arity_max = hi\<rparr>)))"

section \<open>The anchor score\<close>

definition ReadVec3 :: "json \<Rightarrow> string \<Rightarrow> vec3 option result" where
  "ReadVec3 owner key =
     (case jfind owner key of
        None \<Rightarrow> Inr None
      | Some value \<Rightarrow>
          if \<not> is_array value \<or> length (elements value) \<noteq> 3 then Inr None
          else rbind (get_vec3 value) (\<lambda>v. Inr (Some v)))"

definition Dot :: "vec3 \<Rightarrow> vec3 \<Rightarrow> f64" where
  "Dot a b =
     (case (a, b) of ((a0, a1, a2), (b0, b1, b2)) \<Rightarrow> f64_add (f64_add (f64_mul a0 b0) (f64_mul a1 b1)) (f64_mul a2 b2))"

definition Norm :: "vec3 \<Rightarrow> vec3 \<Rightarrow> f64" where
  "Norm a b =
     (case (a, b) of ((a0, a1, a2), (b0, b1, b2)) \<Rightarrow>
        let d = (f64_sub a0 b0, f64_sub a1 b1, f64_sub a2 b2) in f64_sqrt (Dot d d))"

text \<open>One agreement of the score table: the points are added when both sides agree.\<close>

definition agree_string :: "json \<Rightarrow> json \<Rightarrow> string \<Rightarrow> nat \<Rightarrow> f64 \<Rightarrow> f64 result" where
  "agree_string anchor candidate key points score =
     (case (jfind anchor key, jfind candidate key) of
        (Some a, Some c) \<Rightarrow>
          rbind (get_string a) (\<lambda>s. rbind (get_string c) (\<lambda>t.
            Inr (if s = t then f64_add score (f64_of_nat points) else score)))
      | _ \<Rightarrow> Inr score)"

definition agree_measure :: "json \<Rightarrow> json \<Rightarrow> string \<Rightarrow> f64 \<Rightarrow> f64 result" where
  "agree_measure anchor candidate key score =
     (case (jfind anchor key, jfind candidate key) of
        (Some ja, Some jc) \<Rightarrow>
          rbind (get_double ja) (\<lambda>a. rbind (get_double jc) (\<lambda>c.
            Inr (if f64_less (f64_div (f64_abs (f64_sub c a)) (f64_max a (f64_decimal 1 9))) (f64_decimal 25 2)
                 then f64_add score (f64_of_nat 15) else score)))
      | _ \<Rightarrow> Inr score)"

definition degrees :: "nat \<Rightarrow> f64" where
  "degrees n = f64_div (f64_mul (f64_of_nat n) kPi) (f64_of_nat 180)"

definition agree_normal :: "libm \<Rightarrow> json \<Rightarrow> json \<Rightarrow> f64 \<Rightarrow> f64 result" where
  "agree_normal L anchor candidate score =
     rbind (ReadVec3 anchor ''normal'') (\<lambda>a. rbind (ReadVec3 candidate ''normal'') (\<lambda>c.
       Inr (case (a, c) of
              (Some n, Some m) \<Rightarrow>
                if f64_less (m_cos L (degrees 15)) (f64_clamp (Dot n m) (f64_neg (f64_decimal 1 0)) (f64_decimal 1 0))
                then f64_add score (f64_of_nat 15) else score
            | _ \<Rightarrow> score)))"

definition agree_centroid :: "libm \<Rightarrow> json \<Rightarrow> json \<Rightarrow> f64 \<Rightarrow> f64 result" where
  "agree_centroid L anchor candidate score =
     rbind (ReadVec3 anchor ''centroid'') (\<lambda>a. rbind (ReadVec3 candidate ''centroid'') (\<lambda>c.
       Inr (case (a, c) of
              (Some p, Some q) \<Rightarrow>
                f64_add score (f64_mul (f64_of_nat 15) (m_exp L (f64_div (f64_neg (Norm p q)) (f64_of_nat 5))))
            | _ \<Rightarrow> score)))"

definition AnchorScore :: "libm \<Rightarrow> json \<Rightarrow> json \<Rightarrow> f64 result" where
  "AnchorScore L candidate anchor =
     rbind (agree_string anchor candidate ''token'' 100 0) (\<lambda>s1.
     rbind (agree_string anchor candidate ''surface'' 20 s1) (\<lambda>s2.
     rbind (agree_string anchor candidate ''curve'' 20 s2) (\<lambda>s3.
     rbind (agree_measure anchor candidate ''area'' s3) (\<lambda>s4.
     rbind (agree_measure anchor candidate ''length'' s4) (\<lambda>s5.
     rbind (agree_normal L anchor candidate s5)
       (agree_centroid L anchor candidate))))))"

definition entity_score :: "'sh kernel \<Rightarrow> json \<Rightarrow> 'sh QueryEntity \<Rightarrow> f64 result" where
  "entity_score K anchor entity =
     rbind (ResolvedEntityToJson K entity) (\<lambda>projected. AnchorScore (k_libm K) projected anchor)"

section \<open>Channels\<close>

datatype ChannelVerdict = Proven nat | Ambiguous | Missing

definition HistoryChannel ::
  "'sh QueryEntity list \<Rightarrow> json \<Rightarrow> 'sh NamingRegistry \<Rightarrow> ChannelVerdict result" where
  "HistoryChannel candidates anchor registry =
     (case jfind anchor ''token'' of
        None \<Rightarrow> Inr Missing
      | Some t \<Rightarrow>
          rbind (get_string t) (\<lambda>token.
            case FindByToken registry token of
              None \<Rightarrow> Inr Missing
            | Some anchorRecord \<Rightarrow>
                let matches = filter (\<lambda>index. ent_normalizedName (candidates ! index) = rec_normalizedLineageName anchorRecord)
                                [0..<length candidates]
                in Inr (if matches = [] then Missing else if 1 < length matches then Ambiguous else Proven (hd matches))))"

text \<open>The running best, runner-up and index of the best: the loop both score channels share.\<close>

record tournament =
  best_score :: f64
  runner_up :: f64
  best_index :: nat

definition tournament_step :: "tournament \<Rightarrow> nat \<Rightarrow> f64 \<Rightarrow> tournament" where
  "tournament_step t index score =
     (if f64_less (best_score t) score then \<lparr>best_score = score, runner_up = best_score t, best_index = index\<rparr>
      else if f64_less (runner_up t) score then t\<lparr>runner_up := score\<rparr>
      else t)"

definition run_tournament :: "('e \<Rightarrow> f64 result) \<Rightarrow> 'e list \<Rightarrow> tournament result" where
  "run_tournament score candidates =
     rfold (\<lambda>t index. rbind (score (candidates ! index)) (\<lambda>s. Inr (tournament_step t index s)))
       \<lparr>best_score = f64_neg (f64_decimal 1 0), runner_up = f64_neg (f64_decimal 1 0), best_index = 0\<rparr>
       [0..<length candidates]"

definition separated :: "nat \<Rightarrow> nat \<Rightarrow> tournament \<Rightarrow> bool" where
  "separated floor margin t \<longleftrightarrow>
     f64_le (f64_of_nat floor) (best_score t) \<and> f64_le (f64_of_nat margin) (f64_sub (best_score t) (runner_up t))"

definition SignatureChannel :: "'sh kernel \<Rightarrow> 'sh QueryEntity list \<Rightarrow> json \<Rightarrow> ChannelVerdict result" where
  "SignatureChannel K candidates anchor =
     rbind (run_tournament (entity_score K anchor) candidates) (\<lambda>t.
       Inr (if separated 40 15 t then Proven (best_index t) else Ambiguous))"

definition Corroborate :: "ChannelVerdict \<Rightarrow> ChannelVerdict \<Rightarrow> nat option" where
  "Corroborate history signature =
     (case (history, signature) of (Proven i, Proven j) \<Rightarrow> if i = j then Some i else None | _ \<Rightarrow> None)"

section \<open>Outcomes\<close>

datatype RefStatus = ResolvedStatus | EmptyStatus | AmbiguousStatus

record 'sh RefResolution =
  res_status :: RefStatus
  res_entities :: "'sh QueryEntity list"
  res_candidates :: "'sh QueryEntity list"
  res_stageCardinalities :: "nat list"
  res_diagnostics :: "QueryDiagnostic list"
  res_message :: string

definition TopCandidates ::
  "'sh kernel \<Rightarrow> 'sh QueryEntity list \<Rightarrow> json option \<Rightarrow> 'sh QueryEntity list result" where
  "TopCandidates K candidates anchor =
     rbind (case anchor of
              None \<Rightarrow> Inr candidates
            | Some a \<Rightarrow> stable_sort_by (\<lambda>e. rbind (entity_score K a e) (measure_key True)) candidates)
       (\<lambda>ranked. Inr (take 5 ranked))"

definition Resolved :: "'sh QueryEntity list \<Rightarrow> QueryDiagnostic list \<Rightarrow> 'sh RefResolution" where
  "Resolved entities diagnostics =
     \<lparr>res_status = ResolvedStatus, res_entities = entities, res_candidates = [], res_stageCardinalities = [],
      res_diagnostics = diagnostics, res_message = []\<rparr>"

definition EmptyResult :: "'sh QueryOutcome \<Rightarrow> string \<Rightarrow> 'sh RefResolution" where
  "EmptyResult outcome message =
     \<lparr>res_status = EmptyStatus, res_entities = [], res_candidates = [],
      res_stageCardinalities = out_stageCardinalities outcome, res_diagnostics = out_diagnostics outcome,
      res_message = message\<rparr>"

definition AmbiguousResult ::
  "'sh QueryEntity list \<Rightarrow> QueryDiagnostic list \<Rightarrow> string \<Rightarrow> 'sh RefResolution" where
  "AmbiguousResult candidates diagnostics message =
     \<lparr>res_status = AmbiguousStatus, res_entities = [], res_candidates = candidates, res_stageCardinalities = [],
      res_diagnostics = diagnostics, res_message = message\<rparr>"

definition ApplyEmptyPolicy :: "json \<Rightarrow> 'sh QueryOutcome \<Rightarrow> 'sh RefResolution result" where
  "ApplyEmptyPolicy refSlot outcome =
     rbind (case jfind refSlot ''onEmpty'' of None \<Rightarrow> Inr ''error'' | Some p \<Rightarrow> get_string p) (\<lambda>onEmpty.
       if onEmpty = ''empty-ok'' then Inr (Resolved [] (out_diagnostics outcome))
       else if onEmpty = ''skip-op''
       then Inl (Invalid_argument ''unsupported operation: onEmpty=skip-op is not yet supported for a fillet-class reference (the op cannot skip and still produce its output body)'')
       else Inr (EmptyResult outcome ''reference resolved to no entities''))"

section \<open>Resolution\<close>

definition slot_anchor :: "json \<Rightarrow> json option" where
  "slot_anchor refSlot =
     (case jfind refSlot ''anchors'' of
        Some anchors \<Rightarrow> if is_array anchors \<and> elements anchors \<noteq> [] then Some (hd (elements anchors)) else None
      | None \<Rightarrow> None)"

definition drift :: "string \<Rightarrow> string \<Rightarrow> QueryDiagnostic" where
  "drift message token = \<lparr>diag_code = ''D_ANCHOR_DRIFT'', diag_message = message, diag_token = token\<rparr>"

definition ambiguous_refusal ::
  "'sh kernel \<Rightarrow> 'sh QueryOutcome \<Rightarrow> json option \<Rightarrow> string \<Rightarrow> 'sh RefResolution result" where
  "ambiguous_refusal K outcome anchor message =
     rbind (TopCandidates K (out_entities outcome) anchor) (\<lambda>top.
       Inr (AmbiguousResult top (out_diagnostics outcome) message))"

definition resolve_several ::
  "'sh kernel \<Rightarrow> 'sh QueryOutcome \<Rightarrow> json \<Rightarrow> 'sh NamingRegistry \<Rightarrow> 'sh RefResolution result" where
  "resolve_several K outcome anchor registry =
     rbind (HistoryChannel (out_entities outcome) anchor registry) (\<lambda>history.
     rbind (SignatureChannel K (out_entities outcome) anchor) (\<lambda>signature.
       case Corroborate history signature of
         None \<Rightarrow> ambiguous_refusal K outcome (Some anchor)
           ''reference is ambiguous: the history and signature channels did not independently agree on one entity''
       | Some accepted \<Rightarrow>
           Inr (Resolved [out_entities outcome ! accepted]
             (out_diagnostics outcome @ [drift ''reference recovered from ambiguity by two-channel anchor agreement''
                (ent_token (out_entities outcome ! accepted))]))))"

definition apply_arity ::
  "'sh kernel \<Rightarrow> json \<Rightarrow> Arity \<Rightarrow> 'sh QueryOutcome \<Rightarrow> 'sh NamingRegistry \<Rightarrow> 'sh RefResolution result" where
  "apply_arity K refSlot arity outcome registry =
     (let resolved = out_entities outcome; count = length resolved in
      case arity_kind arity of
        ArityAny \<Rightarrow> Inr (Resolved resolved (out_diagnostics outcome))
      | ArityOneOrMore \<Rightarrow>
          if count = 0 then ApplyEmptyPolicy refSlot outcome else Inr (Resolved resolved (out_diagnostics outcome))
      | ArityRange \<Rightarrow>
          if count = 0 then ApplyEmptyPolicy refSlot outcome
          else if count < arity_min arity
          then Inr (EmptyResult outcome ''reference resolved to fewer entities than the slot's arity minimum'')
          else if (case arity_max arity of Some m \<Rightarrow> m < count | None \<Rightarrow> False)
          then ambiguous_refusal K outcome (slot_anchor refSlot)
                 ''reference resolved to more entities than the slot's arity maximum''
          else Inr (Resolved resolved (out_diagnostics outcome))
      | ArityOne \<Rightarrow>
          if count = 0 then ApplyEmptyPolicy refSlot outcome
          else if count = 1 then Inr (Resolved resolved (out_diagnostics outcome))
          else case slot_anchor refSlot of
            None \<Rightarrow> ambiguous_refusal K outcome None
              ''reference resolved to several entities and carries no anchor to disambiguate''
          | Some anchor \<Rightarrow> resolve_several K outcome anchor registry)"

definition ResolveRefCore ::
  "'sh kernel \<Rightarrow> json \<Rightarrow> 'sh EvaluatedBody list \<Rightarrow> 'sh NamingRegistry \<Rightarrow> bool \<Rightarrow> 'sh RefResolution result" where
  "ResolveRefCore K refSlot bodies registry cancelled =
     rbind (CheckCancellation cancelled) (\<lambda>_.
     rbind (ParseArity refSlot) (\<lambda>arity.
     rbind (jat refSlot ''ast'') (\<lambda>ast.
     rbind (EvaluateQuery K ast bodies registry cancelled) (\<lambda>outcome.
       apply_arity K refSlot arity outcome registry))))"

section \<open>The enriched attempt\<close>

definition ReadAnalyticAxis :: "json \<Rightarrow> (vec3 \<times> vec3) option result" where
  "ReadAnalyticAxis owner =
     (case jfind owner ''axis'' of
        None \<Rightarrow> Inr None
      | Some axis \<Rightarrow>
          if \<not> is_object axis then Inr None
          else rbind (ReadVec3 axis ''origin'') (\<lambda>origin. rbind (ReadVec3 axis ''dir'') (\<lambda>dir.
                 Inr (case (origin, dir) of (Some p, Some d) \<Rightarrow> Some (p, d) | _ \<Rightarrow> None))))"

definition RelativeDifference :: "f64 \<Rightarrow> f64 \<Rightarrow> f64" where
  "RelativeDifference left right =
     f64_div (f64_abs (f64_sub left right)) (f64_max (f64_max (f64_abs left) (f64_abs right)) (f64_decimal 1 12))"

definition AxisLineDistance :: "vec3 \<times> vec3 \<Rightarrow> vec3 \<times> vec3 \<Rightarrow> f64" where
  "AxisLineDistance left right =
     (case (left, right) of (((l0, l1, l2), (v0, v1, v2)), ((r0, r1, r2), _)) \<Rightarrow>
        let d0 = f64_sub r0 l0; d1 = f64_sub r1 l1; d2 = f64_sub r2 l2;
            cross = (f64_sub (f64_mul d1 v2) (f64_mul d2 v1),
                     f64_sub (f64_mul d2 v0) (f64_mul d0 v2),
                     f64_sub (f64_mul d0 v1) (f64_mul d1 v0))
        in f64_sqrt (Dot cross cross))"

definition agree_radius :: "json \<Rightarrow> json \<Rightarrow> f64 \<Rightarrow> f64 result" where
  "agree_radius anchor candidate score =
     (case (jfind anchor ''radius'', jfind candidate ''radius'') of
        (Some ja, Some jc) \<Rightarrow>
          rbind (get_double ja) (\<lambda>recorded. rbind (get_double jc) (\<lambda>current.
            Inr (if f64_le (RelativeDifference recorded current) (f64_decimal 1 6)
                 then f64_add score (f64_of_nat 25) else score)))
      | _ \<Rightarrow> Inr score)"

definition agree_axis :: "libm \<Rightarrow> json \<Rightarrow> json \<Rightarrow> f64 \<Rightarrow> f64 result" where
  "agree_axis L anchor candidate score =
     rbind (ReadAnalyticAxis anchor) (\<lambda>a. rbind (ReadAnalyticAxis candidate) (\<lambda>c.
       Inr (case (a, c) of
              (Some recorded, Some current) \<Rightarrow>
                if f64_le (m_cos L (degrees 2))
                     (f64_abs (f64_clamp (Dot (snd recorded) (snd current)) (f64_neg (f64_decimal 1 0)) (f64_decimal 1 0)))
                then if f64_le (AxisLineDistance recorded current) (f64_decimal 1 5)
                     then f64_add (f64_add score (f64_of_nat 20)) (f64_of_nat 15)
                     else f64_add score (f64_of_nat 20)
                else score
            | _ \<Rightarrow> score)))"

definition EnrichedAnchorScore :: "'sh kernel \<Rightarrow> json \<Rightarrow> 'sh QueryEntity \<Rightarrow> f64 result" where
  "EnrichedAnchorScore K anchor candidate =
     rbind (ResolvedEntityToJson K candidate) (\<lambda>projected.
     rbind (AnchorScore (k_libm K) projected anchor) (\<lambda>s1.
     rbind (agree_radius anchor projected s1) (\<lambda>s2.
     rbind (agree_axis (k_libm K) anchor projected s2) (\<lambda>s3.
       agree_string anchor projected ''adjHash'' 20 s3))))"

definition UniqueHistoryCandidate ::
  "'sh QueryEntity list \<Rightarrow> json \<Rightarrow> 'sh NamingRegistry \<Rightarrow> nat option result" where
  "UniqueHistoryCandidate candidates anchor registry =
     (case jfind anchor ''token'' of
        None \<Rightarrow> Inr None
      | Some t \<Rightarrow>
          rbind (get_string t) (\<lambda>token.
            case FindByToken registry token of
              None \<Rightarrow> Inr None
            | Some recorded \<Rightarrow>
                Inr (case filter (\<lambda>index. ent_normalizedName (candidates ! index) = rec_normalizedLineageName recorded)
                            [0..<length candidates] of
                       [index] \<Rightarrow> Some index
                     | _ \<Rightarrow> None)))"

definition enriched_anchor :: "json \<Rightarrow> bool" where
  "enriched_anchor anchor \<longleftrightarrow> jcontains anchor ''radius'' \<or> jcontains anchor ''axis'' \<or> jcontains anchor ''adjHash''"

definition UniqueEnrichedCandidate :: "'sh kernel \<Rightarrow> 'sh QueryEntity list \<Rightarrow> json \<Rightarrow> nat option result" where
  "UniqueEnrichedCandidate K candidates anchor =
     (if \<not> enriched_anchor anchor then Inr None
      else rbind (run_tournament (EnrichedAnchorScore K anchor) candidates) (\<lambda>t.
             Inr (if separated 60 20 t then Some (best_index t) else None)))"

definition recovered_message :: string where
  "recovered_message = ''reference recovered by independent lineage and enriched signature corroboration''"

definition recover_ambiguous ::
  "'sh kernel \<Rightarrow> json \<Rightarrow> 'sh QueryOutcome \<Rightarrow> 'sh NamingRegistry \<Rightarrow> 'sh RefResolution \<Rightarrow> 'sh RefResolution result" where
  "recover_ambiguous K anchor outcome registry resolution =
     (if length (out_entities outcome) < 2 then Inr resolution
      else rbind (UniqueHistoryCandidate (out_entities outcome) anchor registry) (\<lambda>history.
           rbind (UniqueEnrichedCandidate K (out_entities outcome) anchor) (\<lambda>enriched.
             if history = None \<or> enriched = None \<or> history \<noteq> enriched then Inr resolution
             else rbind (jvalue anchor ''token'' get_string []) (\<lambda>token.
               Inr ((Resolved [out_entities outcome ! the history]
                 (out_diagnostics outcome @ [drift ''AQL remained ambiguous after topology evolution; lineage and analytic/incidence evidence independently proved the same entity'' token]))
                 \<lparr>res_message := recovered_message\<rparr>)))))"

definition ResolveRef ::
  "'sh kernel \<Rightarrow> json \<Rightarrow> 'sh EvaluatedBody list \<Rightarrow> 'sh NamingRegistry \<Rightarrow> bool \<Rightarrow> 'sh RefResolution result" where
  "ResolveRef K refSlot bodies registry cancelled =
     rbind (ResolveRefCore K refSlot bodies registry cancelled) (\<lambda>resolution.
       if res_status resolution \<noteq> AmbiguousStatus then Inr resolution
       else case slot_anchor refSlot of
         None \<Rightarrow> Inr resolution
       | Some anchor \<Rightarrow>
           if \<not> enriched_anchor anchor then Inr resolution
           else rbind (jat refSlot ''ast'') (\<lambda>ast.
                rbind (EvaluateQuery K ast bodies registry cancelled) (\<lambda>outcome.
                  recover_ambiguous K anchor outcome registry resolution)))"

section \<open>Strict slots\<close>

definition empty_failure :: "string \<Rightarrow> string \<Rightarrow> string \<Rightarrow> 'sh RefResolution \<Rightarrow> kexn" where
  "empty_failure opId opLabel slotName resolution =
     Selector_failure opId ''REFERENCE_MISSING'' ''E_SEL_EMPTY''
       (opLabel @ '' '' @ slotName @ '': '' @ res_message resolution)
       (make_object [(''selectorCode'', JString ''E_SEL_EMPTY''),
          (''stageCardinalities'', JArray (map JUInt (res_stageCardinalities resolution)))])"

definition ambiguous_failure :: "string \<Rightarrow> string \<Rightarrow> string \<Rightarrow> 'sh RefResolution \<Rightarrow> json list \<Rightarrow> kexn" where
  "ambiguous_failure opId opLabel slotName resolution candidates =
     Selector_failure opId ''REFERENCE_AMBIGUOUS'' ''E_SEL_AMBIGUOUS''
       (opLabel @ '' '' @ slotName @ '': '' @ res_message resolution)
       (make_object [(''selectorCode'', JString ''E_SEL_AMBIGUOUS''), (''candidates'', JArray candidates)])"

definition ResolveRefSlotStrict ::
  "'sh kernel \<Rightarrow> string \<Rightarrow> string \<Rightarrow> string \<Rightarrow> json \<Rightarrow> 'sh EvaluatedBody list \<Rightarrow> 'sh NamingRegistry \<Rightarrow> bool \<Rightarrow>
   'sh RefResolution result" where
  "ResolveRefSlotStrict K opId opLabel slotName slot bodies registry cancelled =
     (if \<not> is_object slot \<or> \<not> jcontains slot ''ast''
      then Inl (Invalid_argument (opLabel @ '' '' @ slotName @ '' reference reached the kernel unparsed (persisted query form); the transport must ship the wire AST (operationRefWireSchema)''))
      else rbind (ResolveRef K slot bodies registry cancelled) (\<lambda>resolution.
        if res_status resolution = EmptyStatus then Inl (empty_failure opId opLabel slotName resolution)
        else if res_status resolution = AmbiguousStatus
        then rbind (rmap (ResolvedEntityToJson K) (res_candidates resolution)) (\<lambda>candidates.
               Inl (ambiguous_failure opId opLabel slotName resolution candidates))
        else Inr resolution))"

definition SingleResolvedEntity ::
  "string \<Rightarrow> string \<Rightarrow> char \<Rightarrow> 'sh RefResolution \<Rightarrow> 'sh QueryEntity result" where
  "SingleResolvedEntity opLabel slotName expectedKind resolution =
     (if length (res_entities resolution) \<noteq> 1
      then Inl (Invalid_argument (opLabel @ '' '' @ slotName @ '' reference resolved to '' @
             decimal (length (res_entities resolution)) @ '' entities; the slot requires exactly one''))
      else let entity = hd (res_entities resolution) in
        if ent_kind entity \<noteq> expectedKind
        then Inl (Invalid_argument (opLabel @ '' '' @ slotName @ '' reference resolved a non-'' @ kind_name expectedKind @
               '' entity; the slot is '' @ kind_name expectedKind @ ''-kinded''))
        else Inr entity)"

end
