(* ===== verification/Ref_Laws.thy ===== *)
theory Ref_Laws
  imports Ref_Resolution
begin

text \<open>
  What reference resolution guarantees: the score tournament finds the candidate no other comes
  near, the history channel the only candidate with the anchored lineage, a \<open>one\<close> slot that resolves
  among several candidates has both, and the arity of a slot bounds what the core resolves.
\<close>

section \<open>The tournament\<close>

definition dominates :: "('e \<Rightarrow> f64 result) \<Rightarrow> nat \<Rightarrow> nat \<Rightarrow> 'e list \<Rightarrow> nat \<Rightarrow> bool" where
  "dominates score minimum margin es i \<longleftrightarrow>
     i < length es \<and>
     (\<exists>best runner. score (es ! i) = Inr best \<and> f64_le (f64_of_nat minimum) best \<and>
        f64_le (f64_of_nat margin) (f64_sub best runner) \<and>
        (\<forall>j < length es. j \<noteq> i \<longrightarrow> (\<exists>s. score (es ! j) = Inr s \<and> \<not> f64_less runner s)))"

definition tournament_inv :: "('e \<Rightarrow> f64 result) \<Rightarrow> 'e list \<Rightarrow> nat \<Rightarrow> tournament \<Rightarrow> bool" where
  "tournament_inv score es n t \<longleftrightarrow>
     \<not> f64_nan (best_score t) \<and> \<not> f64_nan (runner_up t) \<and> f64_rank (runner_up t) \<le> f64_rank (best_score t) \<and>
     (\<forall>j < n. \<exists>s. score (es ! j) = Inr s \<and> \<not> f64_less (best_score t) s \<and>
        (j \<noteq> best_index t \<longrightarrow> \<not> f64_less (runner_up t) s)) \<and>
     (best_score t = f64_neg (f64_decimal 1 0) \<or> best_index t < n \<and> score (es ! best_index t) = Inr (best_score t))"

lemma tournament_step_inv:
  assumes "tournament_inv score es n t" and "score (es ! n) = Inr s"
  shows "tournament_inv score es (Suc n) (tournament_step t n s)"
proof -
  note inv = assms(1) [unfolded tournament_inv_def]
  consider (best) "f64_less (best_score t) s"
    | (second) "\<not> f64_less (best_score t) s" "f64_less (runner_up t) s"
    | (neither) "\<not> f64_less (best_score t) s" "\<not> f64_less (runner_up t) s" by blast
  then show ?thesis
  proof cases
    case best
    then show ?thesis using inv assms(2)
      by (auto simp: tournament_step_def tournament_inv_def less_Suc_eq f64_less_def)
  next
    case second
    then show ?thesis using inv assms(2)
      by (auto simp: tournament_step_def tournament_inv_def less_Suc_eq f64_less_def)
  next
    case neither
    then show ?thesis using inv assms(2)
      by (auto simp: tournament_step_def tournament_inv_def less_Suc_eq)
  qed
qed

lemma run_tournament_inv: "run_tournament score es = Inr t \<Longrightarrow> tournament_inv score es (length es) t"
proof -
  let ?f = "\<lambda>t index. rbind (score (es ! index)) (\<lambda>s. Inr (tournament_step t index s))"
  let ?start = "\<lparr>best_score = f64_neg (f64_decimal 1 0), runner_up = f64_neg (f64_decimal 1 0), best_index = 0\<rparr>"
  have start: "tournament_inv score es 0 ?start" by (simp add: tournament_inv_def f64_arith_eval)
  have "rfold ?f ?start [0..<n] = Inr t \<Longrightarrow> tournament_inv score es n t" for n t
  proof (induction n arbitrary: t)
    case (Suc n)
    then show ?case by (auto simp: rfold_snoc rbind_eq_Inr intro: tournament_step_inv)
  qed (use start in simp)
  then show "run_tournament score es = Inr t \<Longrightarrow> ?thesis" by (simp add: run_tournament_def)
qed

lemma separated_dominates:
  assumes "run_tournament score es = Inr t" and "separated minimum margin t" and "\<not> f64_le (f64_of_nat minimum) (f64_neg (f64_decimal 1 0))"
  shows "dominates score minimum margin es (best_index t)"
proof -
  note inv = run_tournament_inv [OF assms(1), unfolded tournament_inv_def]
  have "best_score t \<noteq> f64_neg (f64_decimal 1 0)" using assms(2,3) by (auto simp: separated_def)
  then have "best_index t < length es" "score (es ! best_index t) = Inr (best_score t)" using inv by auto
  moreover have "\<forall>j < length es. j \<noteq> best_index t \<longrightarrow> (\<exists>s. score (es ! j) = Inr s \<and> \<not> f64_less (runner_up t) s)"
    using inv by blast
  ultimately show ?thesis using assms(2) unfolding dominates_def separated_def by blast
qed

lemma minima_positive:
  "\<not> f64_le (f64_of_nat 40) (f64_neg (f64_decimal 1 0))" "\<not> f64_le (f64_of_nat 60) (f64_neg (f64_decimal 1 0))"
  by (simp_all add: f64_arith_eval Let_def)

section \<open>The channels\<close>

definition lineage_proves :: "'sh NamingRegistry \<Rightarrow> json \<Rightarrow> 'sh QueryEntity list \<Rightarrow> nat \<Rightarrow> bool" where
  "lineage_proves registry anchor es i \<longleftrightarrow>
     (\<exists>token record. jfind anchor ''token'' = Some (JString token) \<and> FindByToken registry token = Some record \<and>
        i < length es \<and>
        (\<forall>j < length es. ent_normalizedName (es ! j) = rec_normalizedLineageName record \<longleftrightarrow> j = i))"

lemma unique_match:
  "filter P [0..<n] = [i] \<Longrightarrow> i < n \<and> (\<forall>j < n. P j \<longleftrightarrow> j = i)"
proof -
  assume f: "filter P [0..<n] = [i]"
  have "set (filter P [0..<n]) = {i}" by (simp add: f)
  then show ?thesis by auto
qed

lemma HistoryChannel_proven: "HistoryChannel es anchor registry = Inr (Proven i) \<Longrightarrow> lineage_proves registry anchor es i"
proof -
  assume h: "HistoryChannel es anchor registry = Inr (Proven i)"
  then obtain token recorded where t: "jfind anchor ''token'' = Some (JString token)"
    and r: "FindByToken registry token = Some recorded"
    by (auto simp: HistoryChannel_def rbind_eq_Inr split: option.splits)
  let ?m = "filter (\<lambda>index. ent_normalizedName (es ! index) = rec_normalizedLineageName recorded) [0..<length es]"
  have "?m \<noteq> []" "\<not> 1 < length ?m" "hd ?m = i" using h t r
    by (auto simp: HistoryChannel_def Let_def split: if_splits)
  then have "?m = [i]" by (cases ?m) auto
  then show ?thesis using t r unique_match unfolding lineage_proves_def by blast
qed

lemma UniqueHistoryCandidate_some:
  "UniqueHistoryCandidate es anchor registry = Inr (Some i) \<Longrightarrow> lineage_proves registry anchor es i"
proof -
  assume h: "UniqueHistoryCandidate es anchor registry = Inr (Some i)"
  then obtain token recorded where t: "jfind anchor ''token'' = Some (JString token)"
    and r: "FindByToken registry token = Some recorded"
    by (auto simp: UniqueHistoryCandidate_def rbind_eq_Inr split: option.splits)
  let ?m = "filter (\<lambda>index. ent_normalizedName (es ! index) = rec_normalizedLineageName recorded) [0..<length es]"
  have "?m = [i]" using h t r
    by (auto simp: UniqueHistoryCandidate_def split: list.splits)
  then show ?thesis using t r unique_match unfolding lineage_proves_def by blast
qed

lemma SignatureChannel_proven:
  "SignatureChannel K es anchor = Inr (Proven i) \<Longrightarrow> dominates (entity_score K anchor) 40 15 es i"
  using separated_dominates minima_positive(1)
  by (auto simp: SignatureChannel_def rbind_eq_Inr split: if_splits)

lemma UniqueEnrichedCandidate_some:
  "UniqueEnrichedCandidate K es anchor = Inr (Some i) \<Longrightarrow> dominates (EnrichedAnchorScore K anchor) 60 20 es i"
  using separated_dominates minima_positive(2)
  by (auto simp: UniqueEnrichedCandidate_def rbind_eq_Inr split: if_splits)

lemma Corroborate_some: "Corroborate h s = Some i \<longleftrightarrow> h = Proven i \<and> s = Proven i"
  by (auto simp: Corroborate_def split: ChannelVerdict.splits if_splits)

section \<open>A slot for one entity\<close>

lemma Resolved_simps [simp]:
  "res_status (Resolved es ds) = ResolvedStatus" "res_entities (Resolved es ds) = es"
  "res_diagnostics (Resolved es ds) = ds"
  "res_status (EmptyResult out m) = EmptyStatus" "res_status (AmbiguousResult cs ds m) = AmbiguousStatus"
  by (simp_all add: Resolved_def EmptyResult_def AmbiguousResult_def)

lemma ambiguous_refusal_status: "ambiguous_refusal K out anchor m = Inr res \<Longrightarrow> res_status res = AmbiguousStatus"
  by (auto simp: ambiguous_refusal_def rbind_eq_Inr)

text \<open>The evidence on which one of several candidates is accepted.\<close>

definition proven_by_both ::
  "'sh kernel \<Rightarrow> 'sh NamingRegistry \<Rightarrow> json \<Rightarrow> 'sh QueryEntity list \<Rightarrow> nat \<Rightarrow> bool" where
  "proven_by_both K registry anchor es i \<longleftrightarrow>
     lineage_proves registry anchor es i \<and>
     (dominates (entity_score K anchor) 40 15 es i \<or> dominates (EnrichedAnchorScore K anchor) 60 20 es i)"

definition drift_recorded :: "'sh RefResolution \<Rightarrow> bool" where
  "drift_recorded res \<longleftrightarrow> (\<exists>d \<in> set (res_diagnostics res). diag_code d = ''D_ANCHOR_DRIFT'')"

lemma drift_recorded_simps [simp]:
  "drift_recorded (Resolved es (ds @ [drift m t]))"
  "drift_recorded ((Resolved es (ds @ [drift m t]))\<lparr>res_message := x\<rparr>)"
  by (simp_all add: drift_recorded_def drift_def)

lemma resolve_several_resolved:
  assumes "resolve_several K out anchor registry = Inr res" and "res_status res = ResolvedStatus"
  shows "\<exists>i. res_entities res = [out_entities out ! i] \<and> proven_by_both K registry anchor (out_entities out) i \<and>
    drift_recorded res"
  using assms ambiguous_refusal_status
  by (fastforce simp: resolve_several_def rbind_eq_Inr Corroborate_some proven_by_both_def
      dest: HistoryChannel_proven SignatureChannel_proven split: option.splits)

lemma recover_ambiguous_resolved:
  assumes "recover_ambiguous K anchor out registry res0 = Inr res" and "res_status res = ResolvedStatus"
    and "res_status res0 \<noteq> ResolvedStatus"
  shows "\<exists>i. res_entities res = [out_entities out ! i] \<and> proven_by_both K registry anchor (out_entities out) i \<and>
    drift_recorded res"
  using assms
  by (fastforce simp: recover_ambiguous_def rbind_eq_Inr proven_by_both_def
      dest: UniqueHistoryCandidate_some UniqueEnrichedCandidate_some split: if_splits)

lemma apply_arity_one:
  assumes "apply_arity K slot arity out registry = Inr res" and "arity_kind arity = ArityOne"
    and "1 < length (out_entities out)" and "res_status res = ResolvedStatus"
  shows "\<exists>anchor i. slot_anchor slot = Some anchor \<and> res_entities res = [out_entities out ! i] \<and>
    proven_by_both K registry anchor (out_entities out) i \<and> drift_recorded res"
proof (cases "slot_anchor slot")
  case None
  then show ?thesis using assms ambiguous_refusal_status by (fastforce simp: apply_arity_def Let_def split: if_splits)
next
  case (Some anchor)
  have "resolve_several K out anchor registry = Inr res"
    using assms(1,2,3) Some by (auto simp: apply_arity_def Let_def split: if_splits)
  from resolve_several_resolved [OF this assms(4)] Some show ?thesis by blast
qed

lemma ResolveRefCore_cases:
  assumes "ResolveRefCore K slot bodies registry cancelled = Inr res"
  obtains arity ast out where "ParseArity slot = Inr arity" "jat slot ''ast'' = Inr ast"
    "EvaluateQuery K ast bodies registry cancelled = Inr out" "apply_arity K slot arity out registry = Inr res"
  using assms by (auto simp: ResolveRefCore_def rbind_eq_Inr)

lemma ResolveRef_cases:
  assumes "ResolveRef K slot bodies registry cancelled = Inr res"
  obtains (core) "ResolveRefCore K slot bodies registry cancelled = Inr res"
  | (recovered) res0 anchor ast out where "ResolveRefCore K slot bodies registry cancelled = Inr res0"
      "res_status res0 = AmbiguousStatus" "slot_anchor slot = Some anchor" "enriched_anchor anchor"
      "jat slot ''ast'' = Inr ast" "EvaluateQuery K ast bodies registry cancelled = Inr out"
      "recover_ambiguous K anchor out registry res0 = Inr res"
proof -
  from assms obtain res0 where res0: "ResolveRefCore K slot bodies registry cancelled = Inr res0"
    by (auto simp: ResolveRef_def rbind_eq_Inr)
  show ?thesis
  proof (cases "res_status res0 = AmbiguousStatus \<and> (\<exists>anchor. slot_anchor slot = Some anchor \<and> enriched_anchor anchor)")
    case True
    then obtain anchor where anchor: "slot_anchor slot = Some anchor" "enriched_anchor anchor" by blast
    with True res0 assms show ?thesis
      by (auto simp: ResolveRef_def rbind_eq_Inr intro: recovered)
  next
    case False
    then have "res = res0" using res0 assms by (auto simp: ResolveRef_def split: if_splits option.splits)
    then show ?thesis using res0 core by simp
  qed
qed

text \<open>C7. No silent misreference: when a slot for one entity resolves although its query matches
  several, the slot carries an anchor, the accepted entity is the only match with the anchored
  lineage name, its score dominates every other candidate's by the margin of the channel that
  accepted it, and the drift is recorded in the diagnostics.\<close>

theorem one_slot_never_guesses:
  assumes "ResolveRef K slot bodies registry cancelled = Inr res" and "res_status res = ResolvedStatus"
    and "ParseArity slot = Inr arity" and "arity_kind arity = ArityOne"
    and "jat slot ''ast'' = Inr ast" and "EvaluateQuery K ast bodies registry cancelled = Inr out"
    and "1 < length (out_entities out)"
  shows "\<exists>anchor i. slot_anchor slot = Some anchor \<and> res_entities res = [out_entities out ! i] \<and>
    proven_by_both K registry anchor (out_entities out) i \<and> drift_recorded res"
  using assms(1)
proof (cases rule: ResolveRef_cases)
  case core
  then have "apply_arity K slot arity out registry = Inr res"
    by (rule ResolveRefCore_cases) (use assms(3,5,6) in auto)
  from apply_arity_one [OF this assms(4,7,2)] show ?thesis .
next
  case (recovered res0 anchor ast' out')
  have "out' = out" using recovered(5,6) assms(5,6) by simp
  from recover_ambiguous_resolved [OF recovered(7) assms(2)] recovered(2,3) this show ?thesis by auto
qed

section \<open>Arity bounds\<close>

definition within_arity :: "Arity \<Rightarrow> nat \<Rightarrow> bool" where
  "within_arity arity n \<longleftrightarrow> arity_min arity \<le> n \<and> (case arity_max arity of Some m \<Rightarrow> n \<le> m | None \<Rightarrow> True)"

lemma ParseArity_bounds:
  "ParseArity slot = Inr arity \<Longrightarrow>
     (arity_kind arity = ArityOne \<longrightarrow> arity_min arity = 1 \<and> arity_max arity = Some 1) \<and>
     (arity_kind arity = ArityOneOrMore \<longrightarrow> arity_min arity = 1 \<and> arity_max arity = None) \<and>
     (arity_kind arity = ArityAny \<longrightarrow> arity_min arity = 0 \<and> arity_max arity = None)"
  by (auto simp: ParseArity_def rbind_eq_Inr split: option.splits if_splits)

lemma ApplyEmptyPolicy_resolved:
  "ApplyEmptyPolicy slot out = Inr res \<Longrightarrow> res_status res = ResolvedStatus \<Longrightarrow>
     jfind slot ''onEmpty'' = Some (JString ''empty-ok'') \<and> res_entities res = []"
proof -
  assume a: "ApplyEmptyPolicy slot out = Inr res" and r: "res_status res = ResolvedStatus"
  define policy where "policy = (case jfind slot ''onEmpty'' of None \<Rightarrow> Inr ''error'' | Some p \<Rightarrow> get_string p)"
  obtain onEmpty where p: "policy = Inr onEmpty"
    using a unfolding ApplyEmptyPolicy_def policy_def [symmetric] by (cases policy) auto
  have e: "onEmpty = ''empty-ok''"
    using a r unfolding ApplyEmptyPolicy_def policy_def [symmetric] p
    by (cases "onEmpty = ''empty-ok''"; cases "onEmpty = ''skip-op''") auto
  have "jfind slot ''onEmpty'' = Some (JString onEmpty)"
    using p e unfolding policy_def by (cases "jfind slot ''onEmpty''") auto
  moreover have "res_entities res = []"
    using a unfolding ApplyEmptyPolicy_def policy_def [symmetric] p e by auto
  ultimately show ?thesis using e by simp
qed

text \<open>The core resolution respects the slot: what it resolves is matched by the query, and the
  number of entities lies within the arity, except that an empty match is accepted under
  \<open>onEmpty: empty-ok\<close>. So no policy turns a partial match into an empty one.\<close>

theorem core_respects_arity:
  assumes "ResolveRefCore K slot bodies registry cancelled = Inr res" and "res_status res = ResolvedStatus"
    and "ParseArity slot = Inr arity" and "jat slot ''ast'' = Inr ast"
    and "EvaluateQuery K ast bodies registry cancelled = Inr out"
  shows "set (res_entities res) \<subseteq> set (out_entities out) \<and>
    (if within_arity arity (length (res_entities res)) then True
     else out_entities out = [] \<and> jfind slot ''onEmpty'' = Some (JString ''empty-ok''))"
proof -
  have arity_applied: "apply_arity K slot arity out registry = Inr res"
    using assms(1) by (rule ResolveRefCore_cases) (use assms(3,4,5) in auto)
  note bounds = ParseArity_bounds [OF assms(3)]
  show ?thesis
  proof (cases "arity_kind arity = ArityOne \<and> 1 < length (out_entities out)")
    case True
    then obtain anchor i where "res_entities res = [out_entities out ! i]" "proven_by_both K registry anchor (out_entities out) i"
      using apply_arity_one [OF arity_applied _ _ assms(2)] by blast
    then show ?thesis using bounds True by (auto simp: proven_by_both_def lineage_proves_def within_arity_def)
  next
    case False
    have refused: "ambiguous_refusal K out anchor m \<noteq> Inr res" for anchor m
      using ambiguous_refusal_status [of K out anchor m res] assms(2) by auto
    have empty: "ApplyEmptyPolicy slot out = Inr res \<Longrightarrow> jfind slot ''onEmpty'' = Some (JString ''empty-ok'') \<and> res_entities res = []"
      using ApplyEmptyPolicy_resolved assms(2) by blast
    have outcome: "res = Resolved (out_entities out) (out_diagnostics out) \<and> within_arity arity (length (out_entities out)) \<or>
        ApplyEmptyPolicy slot out = Inr res \<and> out_entities out = []"
    proof (cases "arity_kind arity")
      case ArityOne
      then show ?thesis using False arity_applied bounds
        by (auto simp: apply_arity_def Let_def within_arity_def Suc_lessI split: if_splits)
    next
      case ArityOneOrMore
      then show ?thesis using arity_applied bounds
        by (auto simp: apply_arity_def Let_def within_arity_def Suc_le_eq split: if_splits)
    next
      case ArityAny
      then show ?thesis using arity_applied bounds by (auto simp: apply_arity_def Let_def within_arity_def)
    next
      case ArityRange
      then show ?thesis using arity_applied refused assms(2)
        by (auto simp: apply_arity_def Let_def within_arity_def split: if_splits option.splits)
    qed
    then show ?thesis using empty by (elim disjE) auto
  qed
qed

section \<open>Strict slots\<close>

lemma ResolveRefSlotStrict_resolved:
  "ResolveRefSlotStrict K opId opLabel slotName slot bodies registry cancelled = Inr res \<Longrightarrow>
     ResolveRef K slot bodies registry cancelled = Inr res \<and> res_status res = ResolvedStatus"
  by (auto simp: ResolveRefSlotStrict_def rbind_eq_Inr split: if_splits) (metis RefStatus.exhaust)+

lemma SingleResolvedEntity_one:
  "SingleResolvedEntity opLabel slotName kind res = Inr e \<Longrightarrow> res_entities res = [e] \<and> ent_kind e = kind"
  by (cases "res_entities res") (auto simp: SingleResolvedEntity_def Let_def split: if_splits)

text \<open>Whatever a resolution of the core returns as its only entity was the only match or is proven.\<close>

lemma core_single_entity:
  assumes "ResolveRefCore K slot bodies registry cancelled = Inr res" and "res_entities res = [e]"
    and "res_status res = ResolvedStatus"
    and "jat slot ''ast'' = Inr ast" and "EvaluateQuery K ast bodies registry cancelled = Inr out"
  shows "out_entities out = [e] \<or>
    (\<exists>anchor i. slot_anchor slot = Some anchor \<and> out_entities out ! i = e \<and>
       proven_by_both K registry anchor (out_entities out) i \<and> drift_recorded res)"
proof -
  from assms(1) obtain arity where arity: "ParseArity slot = Inr arity" "apply_arity K slot arity out registry = Inr res"
    by (rule ResolveRefCore_cases) (use assms(4,5) in auto)
  show ?thesis
  proof (cases "arity_kind arity = ArityOne \<and> 1 < length (out_entities out)")
    case True
    then show ?thesis using apply_arity_one [OF arity(2) _ _ assms(3)] assms(2) by auto
  next
    case False
    have refused: "ambiguous_refusal K out anchor m \<noteq> Inr res" for anchor m
      using ambiguous_refusal_status [of K out anchor m res] assms(3) by auto
    have empty: "ApplyEmptyPolicy slot out \<noteq> Inr res"
      using ApplyEmptyPolicy_resolved [of slot out res] assms(2,3) by auto
    have "res = Resolved (out_entities out) (out_diagnostics out)"
      using False arity(2) refused empty assms(3)
      by (cases "arity_kind arity"; cases "out_entities out"; cases "tl (out_entities out)")
        (auto simp: apply_arity_def Let_def split: if_splits option.splits)
    then show ?thesis using assms(2) by auto
  qed
qed

text \<open>C25. What an executor with a single-entity slot acts on has the slot's kind and is the only
  match of the query or proven by both channels against the slot's anchor, whatever arity the
  frame claims.\<close>

theorem single_slot_acts_on_proven_entity:
  assumes "ResolveRefSlotStrict K opId opLabel slotName slot bodies registry cancelled = Inr res"
    and "SingleResolvedEntity opLabel slotName kind res = Inr e"
    and "jat slot ''ast'' = Inr ast" and "EvaluateQuery K ast bodies registry cancelled = Inr out"
  shows "ent_kind e = kind \<and>
    (out_entities out = [e] \<or>
     (\<exists>anchor i. slot_anchor slot = Some anchor \<and> out_entities out ! i = e \<and>
        proven_by_both K registry anchor (out_entities out) i \<and> drift_recorded res))"
proof -
  from ResolveRefSlotStrict_resolved [OF assms(1)]
  have res: "ResolveRef K slot bodies registry cancelled = Inr res" "res_status res = ResolvedStatus" by auto
  from SingleResolvedEntity_one [OF assms(2)] have e: "res_entities res = [e]" "ent_kind e = kind" by auto
  from res(1) show ?thesis
  proof (cases rule: ResolveRef_cases)
    case core
    from core_single_entity [OF core e(1) res(2) assms(3,4)] e(2) show ?thesis by blast
  next
    case (recovered res0 anchor ast' out')
    have "out' = out" using recovered(5,6) assms(3,4) by simp
    from recover_ambiguous_resolved [OF recovered(7) res(2)] recovered(2,3) this e show ?thesis by auto
  qed
qed

end
