(* ===== verification/Ref_Properties.thy ===== *)
theory Ref_Properties
  imports Ref_Laws
begin

text \<open>
  Reference resolution on a concrete model: a body with three spherical faces whose records carry
  distinct lineage names. The witnesses of the resolution properties evaluate it, and a slot with a
  range arity shows how the second attempt of \<open>ResolveRef\<close> leaves the bounds of the slot.
\<close>

section \<open>A body with three faces\<close>

definition sample_topology :: "nat occt" where
  "sample_topology =
     \<lparr>shape_type = (\<lambda>s. if s = 0 then OTHER_SHAPE else FACE),
      map_shapes = (\<lambda>s k. if k = FACE then (if s = 0 then [10, 20, 30] else [s]) else []),
      quantum_for = (\<lambda>_. 0), quantized_measures = (\<lambda>_ _. (0, 0, 0, 0))\<rparr>"

definition sample_geom :: "nat geom" where
  "sample_geom =
     \<lparr>g_surface = (\<lambda>_. Sphere_surface), g_surface_direction = (\<lambda>_. (0, 0, 0)), g_surface_location = (\<lambda>_. (0, 0, 0)),
      g_surface_radius = (\<lambda>_. 0), g_curve = (\<lambda>_. Line_curve), g_curve_direction = (\<lambda>_. (0, 0, 0)),
      g_curve_location = (\<lambda>_. (0, 0, 0)), g_curve_radius = (\<lambda>_. 0), g_curve_range = (\<lambda>_. None),
      g_curve_tangent = (\<lambda>_ _. (0, 0, 0)), g_degenerated = (\<lambda>_. False), g_orientation = (\<lambda>_. FORWARD),
      g_explore = (\<lambda>_ _. []), g_ancestors = (\<lambda>_ _ _ _. None), g_curve_on_face = (\<lambda>_ _ _. (0, 0)),
      g_normal_at = (\<lambda>_ _. None), g_face_mass = (\<lambda>_. 0), g_face_centre = (\<lambda>_. (0, 0, 0)), g_edge_mass = (\<lambda>_. 0),
      g_edge_centre = (\<lambda>_. (0, 0, 0)), g_vertex_point = (\<lambda>_. (0, 0, 0)), g_first_vertex_point = (\<lambda>_. None),
      g_distance = (\<lambda>_ _. Some 0), g_box = (\<lambda>_. None), g_curve_parameters = (\<lambda>_. (0, 0)),
      g_curve_value = (\<lambda>_ _. (0, 0, 0))\<rparr>"

definition sample_kernel :: "nat kernel" where
  "sample_kernel =
     \<lparr>k_topology = sample_topology, k_geom = sample_geom,
      k_gp = \<lparr>gp_dir = (\<lambda>d. Inr d), gp_reversed = (\<lambda>d. d), gp_cross = (\<lambda>a b. (0, 0, 0)), gp_dot = (\<lambda>a b. 0)\<rparr>,
      k_libm = \<lparr>m_exp = (\<lambda>_. 0), m_cos = (\<lambda>_. 0), m_acos = (\<lambda>_. 0), m_atan2 = (\<lambda>_ _. 0), m_llrint_invalid = (\<lambda>_. 0)\<rparr>\<rparr>"

definition sample_body :: "nat EvaluatedBody" where
  "sample_body = \<lparr>bodyId = ''b'', operationId = ''op'', outputIndex = 0, shape = 0,
     probes = \<lparr>valid = True, volume = 0, surfaceArea = 0, centerOfMass = [], bounds = [], solidCount = 1,
       shellCount = 1, faceCount = 3, edgeCount = 0, vertexCount = 0\<rparr>\<rparr>"

definition sample_record :: "nat \<Rightarrow> string \<Rightarrow> string \<Rightarrow> nat NamingRecord" where
  "sample_record s token name =
     \<lparr>rec_token = token, rec_shape = s, rec_minter = ''op'', rec_role = ''face'', rec_kind = CHR ''f'',
      rec_lineageName = name, rec_normalizedLineageName = name, rec_ancestors = [], rec_live = True,
      rec_nameCollision = False, rec_orderTie = False\<rparr>"

definition sample_registry :: "nat NamingRegistry" where
  "sample_registry =
     \<lparr>reg_book = book_new,
      records = [sample_record 10 ''t1'' ''n1'', sample_record 20 ''t2'' ''n2'', sample_record 30 ''t3'' ''n3''],
      byToken = [''t1'' \<mapsto> 0, ''t2'' \<mapsto> 1, ''t3'' \<mapsto> 2],
      byNormalizedName = (\<lambda>_. None),
      shapeIndex = [10 \<mapsto> [0], 20 \<mapsto> [1], 30 \<mapsto> [2]]\<rparr>"

definition sample_ast :: json where
  "sample_ast = JObject [(''kind'', JString ''faces''), (''scope'', JArray [JObject [(''source'', JString ''all'')]])]"

definition sample_entity :: "nat \<Rightarrow> string \<Rightarrow> string \<Rightarrow> nat QueryEntity" where
  "sample_entity s token name =
     \<lparr>ent_shape = s, ent_kind = CHR ''f'', ent_bodyId = ''b'', ent_token = token, ent_normalizedName = name, ent_adjHash = []\<rparr>"

definition sample_entities :: "nat QueryEntity list" where
  "sample_entities = [sample_entity 10 ''t1'' ''n1'', sample_entity 20 ''t2'' ''n2'', sample_entity 30 ''t3'' ''n3'']"

lemmas sample_defs = sample_topology_def sample_geom_def sample_kernel_def sample_body_def sample_record_def
  sample_registry_def sample_ast_def sample_entity_def sample_entities_def

lemma sample_projections [simp]:
  "k_topology sample_kernel = sample_topology" "k_geom sample_kernel = sample_geom"
  "shape_type sample_topology = (\<lambda>s. if s = 0 then OTHER_SHAPE else FACE)"
  "map_shapes sample_topology = (\<lambda>s k. if k = FACE then (if s = 0 then [10, 20, 30] else [s]) else [])"
  "bodyId sample_body = ''b''" "shape sample_body = 0"
  by (simp_all add: sample_kernel_def sample_topology_def sample_body_def)

lemma sample_owner: "s \<in> {10, 20, 30} \<Longrightarrow> owner_of sample_kernel [sample_body] s = Some sample_body"
  by (auto simp: owner_of_def kNamedKinds_def)

lemma sample_tokens:
  "TokensOf sample_registry 10 = [''t1'']" "TokensOf sample_registry 20 = [''t2'']" "TokensOf sample_registry 30 = [''t3'']"
  by (simp_all add: TokensOf_def sample_registry_def sample_record_def)

lemma sample_find:
  "FindByToken sample_registry ''t1'' = Some (sample_record 10 ''t1'' ''n1'')"
  "FindByToken sample_registry ''t2'' = Some (sample_record 20 ''t2'' ''n2'')"
  "FindByToken sample_registry ''t3'' = Some (sample_record 30 ''t3'' ''n3'')"
  by (simp_all add: FindByToken_def sample_registry_def)

abbreviation sample_ctx :: "nat EvalContext" where
  "sample_ctx \<equiv> query_context sample_kernel [sample_body] sample_registry False"

lemma sample_make:
  "MakeEntity sample_ctx 10 (CHR ''f'') False = Inr (sample_entity 10 ''t1'' ''n1'')"
  "MakeEntity sample_ctx 20 (CHR ''f'') False = Inr (sample_entity 20 ''t2'' ''n2'')"
  "MakeEntity sample_ctx 30 (CHR ''f'') False = Inr (sample_entity 30 ''t3'' ''n3'')"
  by (simp_all add: MakeEntity_def entity_of_def query_context_def sample_owner NewestToken_def sample_tokens sample_find
      sample_entity_def sample_record_def)

lemma sample_expand:
  "expand_bodies sample_kernel sample_ctx (CHR ''f'') FACE [sample_body] [] = Inr sample_entities"
  by (simp add: expand_bodies_def add_shape_def sample_make set_Add_def sample_entities_def)
     (simp add: sample_entity_def)

lemma sample_set: "EvaluateToSet sample_kernel sample_ctx sample_ast no_notes = Inr (sample_entities, [3], no_notes)"
  using sample_expand
  by (subst EvaluateToSet.simps)
     (simp add: expand_scope_def sample_ast_def HeadKindChar_def ExpandSource_def TopAbsOf_def query_filters_def
        query_context_def sample_entities_def)

lemma sample_sorted: "CanonicalSort sample_kernel sample_entities = Inr sample_entities"
  by (simp add: CanonicalSort_def stable_sort_by_def KeyOf_def Centroid_def sample_entities_def sample_entity_def
      sample_geom_def Measure_def FaceArea_def KindRank_def)

lemma sample_enriched:
  "rmap (enrich_entity sample_kernel [sample_body] sample_registry False) sample_entities = Inr sample_entities"
  by (simp add: enrich_entity_def CheckCancellation_def AdjacencyHash_def OwningBody_def incident_tokens_def
      AddSubshapeTokens_def add_tokens_def sample_geom_def Fnv1aHex_def sample_entities_def sample_entity_def)

lemma sample_no_notes: "note_diagnostics no_notes = []"
  by (simp add: no_notes_def)

lemma sample_query:
  "EvaluateQuery sample_kernel sample_ast [sample_body] sample_registry False =
     Inr \<lparr>out_entities = sample_entities, out_stageCardinalities = [3], out_diagnostics = []\<rparr>"
  by (simp add: EvaluateQuery_def EvaluateQueryCore_def sample_set sample_sorted sample_enriched sample_no_notes)

section \<open>Scores\<close>

definition sample_anchor :: json where
  "sample_anchor = JObject [(''adjHash'', JString []), (''token'', JString ''t1'')]"

definition hundred :: f64 where
  "hundred = f64_add 0 (f64_of_nat 100)"

definition sample_candidate :: "string \<Rightarrow> json" where
  "sample_candidate t = make_object [(''token'', JString t), (''kind'', JString ''face''), (''bodyId'', JString ''b''),
     (''centroid'', PointJson (0, 0, 0)), (''area'', JFloat (f64_abs 0)), (''surface'', JString ''sphere'')]"

lemma sample_json:
  "ResolvedEntityToJson sample_kernel (sample_entity 10 t n) = Inr (sample_candidate t)"
  "ResolvedEntityToJson sample_kernel (sample_entity 20 t n) = Inr (sample_candidate t)"
  "ResolvedEntityToJson sample_kernel (sample_entity 30 t n) = Inr (sample_candidate t)"
  by (simp_all add: ResolvedEntityToJson_def ResolvedEntityToJsonCore_def Centroid_def kind_members_def face_members_def
      FaceOutwardNormal_def FaceArea_def SurfaceClass_def SurfaceEnum_def kind_name_def with_adjHash_def sample_geom_def
      sample_entity_def sample_candidate_def)

lemma sample_candidate_find:
  "jfind (sample_candidate t) ''token'' = Some (JString t)" "jfind (sample_candidate t) ''adjHash'' = None"
  "jfind (sample_candidate t) ''radius'' = None" "jfind (sample_candidate t) ''axis'' = None"
  by (simp_all add: sample_candidate_def make_object_def)

lemma sample_anchor_find:
  "jfind sample_anchor ''token'' = Some (JString ''t1'')" "jfind sample_anchor ''adjHash'' = Some (JString [])"
  "jfind sample_anchor ''surface'' = None" "jfind sample_anchor ''curve'' = None" "jfind sample_anchor ''area'' = None"
  "jfind sample_anchor ''length'' = None" "jfind sample_anchor ''normal'' = None" "jfind sample_anchor ''centroid'' = None"
  "jfind sample_anchor ''radius'' = None" "jfind sample_anchor ''axis'' = None"
  by (simp_all add: sample_anchor_def)

lemma sample_candidate_vectors:
  "ReadVec3 (sample_candidate t) ''normal'' = Inr None"
  "ReadVec3 (sample_candidate t) ''centroid'' = Inr (Some (0, 0, 0))"
proof -
  have "jfind (sample_candidate t) ''normal'' = None" "jfind (sample_candidate t) ''centroid'' = Some (PointJson (0, 0, 0))"
    by (simp_all add: sample_candidate_def make_object_def)
  then show "ReadVec3 (sample_candidate t) ''normal'' = Inr None"
    "ReadVec3 (sample_candidate t) ''centroid'' = Inr (Some (0, 0, 0))"
    by (simp_all add: ReadVec3_def PointJson_def get_vec3_def get_at_def jat_index_def get_double_def)
qed

lemma sample_anchor_vectors:
  "ReadVec3 sample_anchor ''normal'' = Inr None" "ReadVec3 sample_anchor ''centroid'' = Inr None"
  by (simp_all add: ReadVec3_def sample_anchor_find)

lemma sample_anchor_score:
  "AnchorScore L (sample_candidate t) sample_anchor = Inr (if t = ''t1'' then hundred else 0)"
  by (cases "t = ''t1''")
     (simp_all add: AnchorScore_def agree_string_def agree_measure_def agree_normal_def agree_centroid_def
        sample_anchor_vectors sample_candidate_vectors sample_anchor_find sample_candidate_find hundred_def)

lemma sample_scores:
  "entity_score sample_kernel sample_anchor (sample_entity 10 ''t1'' ''n1'') = Inr hundred"
  "entity_score sample_kernel sample_anchor (sample_entity 20 ''t2'' ''n2'') = Inr 0"
  "entity_score sample_kernel sample_anchor (sample_entity 30 ''t3'' ''n3'') = Inr 0"
  by (simp_all add: entity_score_def sample_json sample_anchor_score)

lemma sample_enriched_scores:
  "EnrichedAnchorScore sample_kernel sample_anchor (sample_entity 10 ''t1'' ''n1'') = Inr hundred"
  "EnrichedAnchorScore sample_kernel sample_anchor (sample_entity 20 ''t2'' ''n2'') = Inr 0"
  "EnrichedAnchorScore sample_kernel sample_anchor (sample_entity 30 ''t3'' ''n3'') = Inr 0"
  by (simp_all add: EnrichedAnchorScore_def sample_json sample_anchor_score agree_radius_def
      agree_axis_def ReadAnalyticAxis_def agree_string_def sample_anchor_find sample_candidate_find)

lemma point_values:
  "f64_of_nat 100 = 0x4059000000000000" "f64_of_nat 40 = 0x4044000000000000" "f64_of_nat 60 = 0x404E000000000000"
  "f64_of_nat 15 = 0x402E000000000000" "f64_of_nat 20 = 0x4034000000000000"
  by (simp_all add: f64_eval)

lemma hundred_number: "f64_finite 0x4059000000000000" "\<not> f64_zero 0x4059000000000000" "f64_zero 0" "f64_zero (f64_neg 0)"
  by (simp_all add: f64_eval)

lemma hundred_value: "hundred = 0x4059000000000000"
  by (simp add: hundred_def point_values f64_add_zero hundred_number)

section \<open>Resolution\<close>

lemma minus_one: "f64_neg (f64_decimal (Suc 0) 0) = 0xBFF0000000000000"
  by (simp add: f64_arith_eval)

lemma sample_steps:
  "f64_less 0xBFF0000000000000 0x4059000000000000" "\<not> f64_less 0x4059000000000000 0"
  "f64_less 0xBFF0000000000000 0" "\<not> f64_less (0 :: f64) 0"
  by (simp_all add: f64_eval)

lemma sample_margin: "f64_sub 0x4059000000000000 0 = 0x4059000000000000"
  by (simp add: f64_sub_def f64_add_zero hundred_number)

lemma sample_tournament:
  "score (sample_entity 10 ''t1'' ''n1'') = Inr hundred \<Longrightarrow> score (sample_entity 20 ''t2'' ''n2'') = Inr 0 \<Longrightarrow>
   score (sample_entity 30 ''t3'' ''n3'') = Inr 0 \<Longrightarrow>
     run_tournament score sample_entities = Inr \<lparr>best_score = hundred, runner_up = 0, best_index = 0\<rparr>"
  by (simp add: run_tournament_def sample_entities_def tournament_step_def hundred_value minus_one sample_steps upt_conv_Cons
      numeral_2_eq_2 numeral_3_eq_3)

lemma sample_separated:
  "separated 40 15 \<lparr>best_score = hundred, runner_up = 0, best_index = i\<rparr>"
  "separated 60 20 \<lparr>best_score = hundred, runner_up = 0, best_index = i\<rparr>"
  by (simp_all add: separated_def hundred_value sample_margin point_values) (simp_all add: f64_le_def f64_eval)

definition one_slot :: json where
  "one_slot = JObject [(''anchors'', JArray [sample_anchor]), (''ast'', sample_ast)]"

definition range_slot :: json where
  "range_slot = JObject [(''anchors'', JArray [sample_anchor]),
     (''arity'', JObject [(''max'', JUInt 2), (''min'', JUInt 2)]), (''ast'', sample_ast)]"

abbreviation sample_out :: "nat QueryOutcome" where
  "sample_out \<equiv> \<lparr>out_entities = sample_entities, out_stageCardinalities = [3], out_diagnostics = []\<rparr>"

lemma slot_members:
  "slot_anchor one_slot = Some sample_anchor" "jat one_slot ''ast'' = Inr sample_ast"
  "slot_anchor range_slot = Some sample_anchor" "jat range_slot ''ast'' = Inr sample_ast"
  "ParseArity one_slot = Inr \<lparr>arity_kind = ArityOne, arity_min = 1, arity_max = Some 1\<rparr>"
  "ParseArity range_slot = Inr \<lparr>arity_kind = ArityRange, arity_min = 2, arity_max = Some 2\<rparr>"
  by (simp_all add: one_slot_def range_slot_def slot_anchor_def ParseArity_def get_size_def)

lemma sample_nth: "sample_entities ! 0 = sample_entity 10 ''t1'' ''n1''" "length sample_entities = 3"
  by (simp_all add: sample_entities_def)

lemma sample_matches:
  "filter (\<lambda>index. ent_normalizedName (sample_entities ! index) = ''n1'') [0..<length sample_entities] = [0]"
  by (simp add: sample_nth(2) upt_conv_Cons numeral_2_eq_2 numeral_3_eq_3)
     (simp add: sample_entities_def sample_entity_def numeral_2_eq_2)

lemma sample_history:
  "HistoryChannel sample_entities sample_anchor sample_registry = Inr (Proven 0)"
  "UniqueHistoryCandidate sample_entities sample_anchor sample_registry = Inr (Some 0)"
  using sample_matches
  by (simp_all add: HistoryChannel_def UniqueHistoryCandidate_def sample_anchor_find sample_find sample_record_def)

lemma sample_signature:
  "SignatureChannel sample_kernel sample_entities sample_anchor = Inr (Proven 0)"
  "UniqueEnrichedCandidate sample_kernel sample_entities sample_anchor = Inr (Some 0)"
  by (simp_all add: SignatureChannel_def UniqueEnrichedCandidate_def enriched_anchor_def jcontains_def sample_anchor_find
      sample_tournament sample_scores sample_enriched_scores sample_separated)

abbreviation one_resolution :: "nat RefResolution" where
  "one_resolution \<equiv> Resolved [sample_entity 10 ''t1'' ''n1'']
     [drift ''reference recovered from ambiguity by two-channel anchor agreement'' ''t1'']"

lemma one_core: "ResolveRefCore sample_kernel one_slot [sample_body] sample_registry False = Inr one_resolution"
  by (simp add: ResolveRefCore_def CheckCancellation_def slot_members sample_query apply_arity_def sample_nth
      resolve_several_def sample_history sample_signature Corroborate_def Let_def)
     (simp add: sample_entity_def)

lemma one_resolves: "ResolveRef sample_kernel one_slot [sample_body] sample_registry False = Inr one_resolution"
  by (simp add: ResolveRef_def one_core)

lemma one_strict:
  "ResolveRefSlotStrict sample_kernel ''op2'' ''datum'' ''plane'' one_slot [sample_body] sample_registry False = Inr one_resolution"
  "SingleResolvedEntity ''datum'' ''plane'' (CHR ''f'') one_resolution = Inr (sample_entity 10 ''t1'' ''n1'')"
proof -
  have "is_object one_slot" "jcontains one_slot ''ast''" by (simp_all add: one_slot_def jcontains_def)
  then show "ResolveRefSlotStrict sample_kernel ''op2'' ''datum'' ''plane'' one_slot [sample_body] sample_registry False = Inr one_resolution"
    by (simp add: ResolveRefSlotStrict_def one_resolves del: is_object_def)
  show "SingleResolvedEntity ''datum'' ''plane'' (CHR ''f'') one_resolution = Inr (sample_entity 10 ''t1'' ''n1'')"
    by (simp add: SingleResolvedEntity_def sample_entity_def)
qed

theorem one_slot_never_guesses_witness:
  "\<exists>anchor i. slot_anchor one_slot = Some anchor \<and> res_entities one_resolution = [out_entities sample_out ! i] \<and>
     proven_by_both sample_kernel sample_registry anchor (out_entities sample_out) i \<and> drift_recorded one_resolution"
  by (rule one_slot_never_guesses [OF one_resolves _ slot_members(5) _ slot_members(2) sample_query])
     (simp_all add: sample_nth)

theorem single_slot_acts_on_proven_entity_witness:
  "\<exists>e. SingleResolvedEntity ''datum'' ''plane'' (CHR ''f'') one_resolution = Inr e \<and> ent_kind e = CHR ''f'' \<and>
     (out_entities sample_out = [e] \<or>
      (\<exists>anchor i. slot_anchor one_slot = Some anchor \<and> out_entities sample_out ! i = e \<and>
         proven_by_both sample_kernel sample_registry anchor (out_entities sample_out) i \<and> drift_recorded one_resolution))"
  using single_slot_acts_on_proven_entity [OF one_strict slot_members(2) sample_query] one_strict(2) by blast

theorem core_respects_arity_witness:
  "set (res_entities one_resolution) \<subseteq> set sample_entities \<and> within_arity \<lparr>arity_kind = ArityOne, arity_min = 1, arity_max = Some 1\<rparr> 1"
  using core_respects_arity [OF one_core _ slot_members(5) slot_members(2) sample_query]
  by (simp add: within_arity_def)

section \<open>A range slot below its minimum\<close>

lemma range_top:
  "\<exists>cs. TopCandidates sample_kernel sample_entities (Some sample_anchor) = Inr cs"
proof -
  have "measure_key True hundred = Inr (- f64_rank hundred)" "measure_key True 0 = Inr (- f64_rank 0)"
    by (simp_all add: measure_key_def hundred_value) (simp_all add: f64_eval)
  then show ?thesis
    by (simp add: TopCandidates_def stable_sort_by_def sample_entities_def sample_scores)
qed

text \<open>The second attempt of \<open>ResolveRef\<close> ignores the arity: a slot that requires two entities and
  matches three is resolved to a single one, with the status that promises a satisfied arity.\<close>

theorem range_slot_resolves_below_minimum:
  "ParseArity range_slot = Inr \<lparr>arity_kind = ArityRange, arity_min = 2, arity_max = Some 2\<rparr> \<and>
   (\<exists>res. ResolveRef sample_kernel range_slot [sample_body] sample_registry False = Inr res \<and>
      res_status res = ResolvedStatus \<and> length (res_entities res) = 1)"
proof -
  obtain cs where cs: "TopCandidates sample_kernel sample_entities (Some sample_anchor) = Inr cs" using range_top by blast
  let ?message = "''reference resolved to more entities than the slot's arity maximum''"
  have core: "ResolveRefCore sample_kernel range_slot [sample_body] sample_registry False = Inr (AmbiguousResult cs [] ?message)"
    by (simp add: ResolveRefCore_def CheckCancellation_def slot_members sample_query apply_arity_def sample_nth
        ambiguous_refusal_def cs Let_def)
  have "enriched_anchor sample_anchor" by (simp add: enriched_anchor_def jcontains_def sample_anchor_find)
  moreover have "jvalue sample_anchor ''token'' get_string [] = Inr ''t1''" by (simp add: jvalue_def sample_anchor_def)
  ultimately show ?thesis
    by (simp add: slot_members ResolveRef_def core sample_query recover_ambiguous_def sample_nth sample_history sample_signature)
qed

end
