(* ===== verification/Selector_Laws.thy ===== *)
theory Selector_Laws
  imports Selector_Result
begin

text \<open>
  What a query guarantees: every stage is a set of distinct entities that the registry names and
  the bodies own, a filter other than \<open>union\<close> only removes, the stage cardinalities describe the
  pipeline, the outcome is in canonical order, and the initial set is the union of its sources.
\<close>

section \<open>Selections\<close>

named_theorems selects \<open>filters return a selection of their input\<close>

text \<open>A selection drops and reorders, nothing else.\<close>

definition selection :: "'sh QueryEntity list \<Rightarrow> 'sh QueryEntity list \<Rightarrow> bool" where
  "selection xs ys \<longleftrightarrow> mset ys \<subseteq># mset xs"

lemma selection_refl [simp]: "selection xs xs" "selection xs []"
  by (simp_all add: selection_def)

lemma selection_set: "selection xs ys \<Longrightarrow> set ys \<subseteq> set xs"
  unfolding selection_def by (metis set_mset_mono set_mset_mset)

lemma selection_trans: "selection xs ys \<Longrightarrow> selection ys zs \<Longrightarrow> selection xs zs"
  by (auto simp: selection_def)

lemma selection_shapes: "selection xs ys \<Longrightarrow> distinct (map ent_shape xs) \<Longrightarrow> distinct (map ent_shape ys)"
proof -
  assume sel: "selection xs ys" and d: "distinct (map ent_shape xs)"
  have "mset (map ent_shape ys) \<subseteq># mset (map ent_shape xs)"
    using sel unfolding selection_def by (simp add: image_mset_subseteq_mono)
  moreover have "count (mset (map ent_shape xs)) s \<le> 1" for s
    using d by (simp add: distinct_count_atmost_1)
  ultimately have "count (mset (map ent_shape ys)) s \<le> 1" for s
    by (meson dual_order.trans mset_subset_eq_count)
  then show ?thesis using distinct_count_atmost_1 [of "map ent_shape ys"]
    by (metis One_nat_def count_mset_0_iff le_Suc_eq le_zero_eq)
qed

lemma selection_filter: "selection xs (filter p xs)"
  by (simp add: selection_def multiset_filter_subset)

lemma selection_take: "selection xs (take n xs)"
proof -
  have "mset xs = mset (take n xs) + mset (drop n xs)" by (metis append_take_drop_id mset_append)
  then show ?thesis by (simp add: selection_def)
qed

lemma selection_nth: "i < length xs \<Longrightarrow> selection xs [xs ! i]"
  by (simp add: selection_def)

lemma keepBy_result: "keepBy ctx p xs = Inr ys \<Longrightarrow> ys = filter (\<lambda>e. p e = Inr True) xs"
proof -
  let ?f = "\<lambda>output entity. rbind (CheckCancellation (ctx_cancelled ctx)) (\<lambda>_.
       rbind (p entity) (\<lambda>keep. Inr (if keep then output @ [entity] else output)))"
  have "zs = acc @ filter (\<lambda>e. p e = Inr True) xs" if "rfold ?f acc xs = Inr zs" for acc zs
    using that
  proof (induction xs arbitrary: acc)
    case (Cons x xs)
    then obtain keep where k: "p x = Inr keep" "rfold ?f (if keep then acc @ [x] else acc) xs = Inr zs"
      by (auto simp: rbind_eq_Inr)
    from Cons.IH [OF k(2)] k(1) show ?case by (cases keep) simp_all
  qed simp
  from this [of "[]" ys] show "keepBy ctx p xs = Inr ys \<Longrightarrow> ?thesis" by (simp add: keepBy_def)
qed

lemma keepBy_selects [selects]: "keepBy ctx p xs = Inr ys \<Longrightarrow> selection xs ys"
  using keepBy_result selection_filter by metis

lemma sort_selects [selects]: "stable_sort_by key xs = Inr ys \<Longrightarrow> selection xs ys"
  by (simp add: selection_def stable_sort_by_mset)

lemma resize_selects: "selection xs ys \<Longrightarrow> selection xs (resize_to limit ys)"
  by (auto simp: resize_to_def intro: selection_trans selection_take)

lemma filter_selects [selects]:
  "filter_role ctx args xs = Inr ys \<Longrightarrow> selection xs ys"
  "filter_history ctx b xs = Inr ys \<Longrightarrow> selection xs ys"
  "filter_surface K ctx name xs = Inr ys \<Longrightarrow> selection xs ys"
  "filter_curve K ctx name xs = Inr ys \<Longrightarrow> selection xs ys"
  "filter_normal K ctx args xs = Inr ys \<Longrightarrow> selection xs ys"
  "filter_parallel K ctx b args xs = Inr ys \<Longrightarrow> selection xs ys"
  "filter_extreme K ctx b args xs = Inr ys \<Longrightarrow> selection xs ys"
  "filter_at K ctx args xs = Inr ys \<Longrightarrow> selection xs ys"
  "filter_within K ctx args xs = Inr ys \<Longrightarrow> selection xs ys"
  "filter_onGround K ctx args xs = Inr ys \<Longrightarrow> selection xs ys"
  "filter_area K ctx args xs = Inr ys \<Longrightarrow> selection xs ys"
  "filter_length K ctx args xs = Inr ys \<Longrightarrow> selection xs ys"
  "filter_radius K ctx b args xs = Inr ys \<Longrightarrow> selection xs ys"
  unfolding filter_role_def filter_history_def filter_surface_def filter_curve_def filter_normal_def
    filter_parallel_def filter_extreme_def filter_at_def filter_within_def filter_onGround_def filter_area_def
    filter_length_def filter_radius_def Let_def
  by (auto simp: rbind_eq_Inr intro: keepBy_selects split: if_splits prod.splits)

lemma order_filter_selects [selects]:
  "filter_largest K b args xs = Inr ys \<Longrightarrow> selection xs ys"
  "filter_nth K args xs = Inr ys \<Longrightarrow> selection xs ys"
  "filter_first K args xs = Inr ys \<Longrightarrow> selection xs ys"
  unfolding filter_largest_def filter_nth_def filter_first_def CanonicalSort_def
  by (auto simp: rbind_eq_Inr not_le intro!: selection_trans [OF sort_selects selection_nth] resize_selects intro: sort_selects
      split: if_splits)

lemma cascadeE: "(if b then Some x else y) = Some z \<Longrightarrow> (x = z \<Longrightarrow> P) \<Longrightarrow> (y = Some z \<Longrightarrow> P) \<Longrightarrow> P"
  by (cases b) auto

lemma local_filter_selects: "local_filter K ctx name args xs = Some (Inr ys) \<Longrightarrow> selection xs ys"
  unfolding local_filter_def by (elim cascadeE) (auto dest: selects)

lemma convexity_fold_selects:
  "rfold (convexity_step K ctx name tol) st xs = Inr st' \<Longrightarrow> \<exists>zs. fst st' = fst st @ zs \<and> selection xs zs"
proof (induction xs arbitrary: st)
  case (Cons x xs)
  then obtain st1 where s: "convexity_step K ctx name tol st x = Inr st1" "rfold (convexity_step K ctx name tol) st1 xs = Inr st'"
    by (auto simp: rbind_eq_Inr)
  from Cons.IH [OF s(2)] obtain zs where zs: "fst st' = fst st1 @ zs" "selection xs zs" by blast
  have "fst st1 = fst st \<or> fst st1 = fst st @ [x]"
    using s(1) by (auto simp: convexity_step_def rbind_eq_Inr split: option.splits if_splits)
  moreover have "selection (x # xs) zs" "selection (x # xs) (x # zs)"
    using zs(2) by (auto simp: selection_def intro: subset_mset.add_increasing subset_mset.le_imp_diff_is_add)
      (metis add_mset_add_single mset_subset_eq_add_left subset_mset.order_trans)
  ultimately show ?case using zs(1) by auto
qed simp

lemma filter_convexity_selects:
  "filter_convexity K ctx name args xs notes = Inr (ys, notes') \<Longrightarrow> selection xs ys"
  by (auto simp: filter_convexity_def rbind_eq_Inr dest: convexity_fold_selects)

section \<open>Well-formed sets\<close>

text \<open>A live record of the registry with this shape and kind: what an entity without a body comes from.\<close>

definition live_record :: "'sh NamingRegistry \<Rightarrow> char \<Rightarrow> 'sh \<Rightarrow> bool" where
  "live_record registry kind s \<longleftrightarrow>
     (\<exists>r. rec_live r \<and> rec_kind r = kind \<and> rec_shape r = s \<and>
        (r \<in> set (records registry) \<or> (\<exists>t. FindByToken registry t = Some r)))"

definition entity_ok :: "'sh EvalContext \<Rightarrow> 'sh QueryEntity \<Rightarrow> bool" where
  "entity_ok ctx e \<longleftrightarrow>
     e = entity_of ctx (ent_shape e) (ent_kind e) (ctx_shapeToBodyId ctx (ent_shape e)) \<and>
     ent_token e = NewestToken (ctx_registry ctx) (ent_shape e) \<and> ent_token e \<noteq> [] \<and>
     ent_kind e \<in> {CHR ''f'', CHR ''e'', CHR ''v''} \<and>
     (ctx_shapeToBodyId ctx (ent_shape e) \<noteq> None \<or> live_record (ctx_registry ctx) (ent_kind e) (ent_shape e))"

definition set_ok :: "'sh EvalContext \<Rightarrow> 'sh QueryEntity list \<Rightarrow> bool" where
  "set_ok ctx es \<longleftrightarrow> distinct (map ent_shape es) \<and> (\<forall>e \<in> set es. entity_ok ctx e)"

lemma set_ok_Nil [simp]: "set_ok ctx []"
  by (simp add: set_ok_def)

lemma set_ok_selection: "selection xs ys \<Longrightarrow> set_ok ctx xs \<Longrightarrow> set_ok ctx ys"
  using selection_set selection_shapes unfolding set_ok_def by blast

lemma set_ok_Add: "set_ok ctx es \<Longrightarrow> entity_ok ctx e \<Longrightarrow> set_ok ctx (set_Add es e)"
  by (auto simp: set_ok_def set_Add_def)

lemma set_ok_foldl_Add: "set_ok ctx es \<Longrightarrow> (\<And>x. x \<in> set xs \<Longrightarrow> entity_ok ctx x) \<Longrightarrow> set_ok ctx (foldl set_Add es xs)"
  by (induction xs arbitrary: es) (auto intro: set_ok_Add)

lemma MakeEntity_result:
  "MakeEntity ctx s kind b = Inr e \<Longrightarrow>
     e = entity_of ctx s kind (ctx_shapeToBodyId ctx s) \<and> NewestToken (ctx_registry ctx) s \<noteq> [] \<and>
     (ctx_shapeToBodyId ctx s \<noteq> None \<or> b)"
  by (auto simp: MakeEntity_def split: if_splits)

lemma entity_of_simps [simp]:
  "ent_shape (entity_of ctx s kind owner) = s" "ent_kind (entity_of ctx s kind owner) = kind"
  "ent_token (entity_of ctx s kind owner) = NewestToken (ctx_registry ctx) s"
  by (simp_all add: entity_of_def Let_def)

lemma TopAbsOf_kind: "TopAbsOf k = Inr t \<Longrightarrow> k \<in> {CHR ''f'', CHR ''e'', CHR ''v''}"
  by (auto simp: TopAbsOf_def split: if_splits)

lemma add_shape_ok:
  "add_shape ctx k b es s = Inr es' \<Longrightarrow> k \<in> {CHR ''f'', CHR ''e'', CHR ''v''} \<Longrightarrow> set_ok ctx es \<Longrightarrow>
     (b s \<Longrightarrow> live_record (ctx_registry ctx) k s) \<Longrightarrow> set_ok ctx es'"
  unfolding add_shape_def rbind_eq_Inr
  by (elim exE conjE, drule MakeEntity_result) (auto simp: entity_ok_def intro!: set_ok_Add)

lemma live_recordI:
  "rec_live r \<Longrightarrow> rec_kind r = k \<Longrightarrow> r \<in> set (records registry) \<or> FindByToken registry t = Some r \<Longrightarrow>
     live_record registry k (rec_shape r)"
  by (auto simp: live_record_def)

lemma RecordAt_in: "RecordAt registry index = Inr r \<Longrightarrow> r \<in> set (records registry)"
  by (auto simp: RecordAt_def split: if_splits)

lemma expand_op_ok:
  "expand_op ctx k i es = Inr es' \<Longrightarrow> k \<in> {CHR ''f'', CHR ''e'', CHR ''v''} \<Longrightarrow> set_ok ctx es \<Longrightarrow> set_ok ctx es'"
  unfolding expand_op_def
  by (erule rfold_invariant)
     (auto simp: rbind_eq_Inr elim!: add_shape_ok dest!: RecordAt_in intro: live_recordI split: if_splits)

lemma expand_bodies_ok:
  "expand_bodies K ctx k t bs es = Inr es' \<Longrightarrow> k \<in> {CHR ''f'', CHR ''e'', CHR ''v''} \<Longrightarrow> set_ok ctx es \<Longrightarrow> set_ok ctx es'"
  unfolding expand_bodies_def
proof (erule rfold_invariant, assumption)
  fix s x s'
  assume k: "k \<in> {CHR ''f'', CHR ''e'', CHR ''v''}" and s: "set_ok ctx s"
    and r: "rfold (add_shape ctx k (\<lambda>_. False)) s (map_shapes (k_topology K) (shape x) t) = Inr s'"
  from r s show "set_ok ctx s'" by (rule rfold_invariant) (erule add_shape_ok [OF _ k]; simp)
qed

lemma expand_token_ok:
  "expand_token ctx k t es n = Inr (es', n') \<Longrightarrow> k \<in> {CHR ''f'', CHR ''e'', CHR ''v''} \<Longrightarrow> set_ok ctx es \<Longrightarrow> set_ok ctx es'"
  by (auto simp: expand_token_def rbind_eq_Inr elim!: add_shape_ok intro: live_recordI split: option.splits if_splits)

text \<open>What a source contributes, by its kind.\<close>

lemma ExpandSource_cases:
  assumes "ExpandSource K ctx src k st = Inr st'"
  obtains (op) i topAbs where "TopAbsOf k = Inr topAbs" "expand_op ctx k i (fst st) = Inr (fst st')" "snd st' = snd st"
      "jat src ''source'' = Inr (JString ''op'')" "jat src ''opId'' = Inr (JString i)"
  | (body) i topAbs where "TopAbsOf k = Inr topAbs"
      "expand_bodies K ctx k topAbs (filter (\<lambda>b. operationId b = i) (ctx_bodies ctx)) (fst st) = Inr (fst st')" "snd st' = snd st"
      "jat src ''source'' = Inr (JString ''body'')" "jat src ''opId'' = Inr (JString i)"
  | (token) t topAbs where "TopAbsOf k = Inr topAbs" "expand_token ctx k t (fst st) (snd st) = Inr st'"
      "jat src ''source'' = Inr (JString ''token'')" "jat src ''token'' = Inr (JString t)"
  | (all) topAbs where "TopAbsOf k = Inr topAbs" "expand_bodies K ctx k topAbs (ctx_bodies ctx) (fst st) = Inr (fst st')"
      "snd st' = snd st" "jat src ''source'' = Inr (JString ''all'')"
proof -
  obtain kind topAbs where kind: "jat src ''source'' = Inr (JString kind)" "TopAbsOf k = Inr topAbs"
    using assms by (auto simp: ExpandSource_def rbind_eq_Inr)
  note expand = assms [unfolded ExpandSource_def kind(1) rbind_simps get_string_simps kind(2)]
  consider "kind = ''op''" | "kind = ''body''" | "kind = ''token''" | "kind = ''all''"
    using expand by (auto simp: Unsupported_def split: if_splits)
  then show ?thesis
  proof cases
    case 1
    with expand show ?thesis by (auto simp: rbind_eq_Inr intro!: op [OF kind(2)] kind(1) [unfolded 1])
  next
    case 2
    with expand show ?thesis by (auto simp: rbind_eq_Inr intro!: body [OF kind(2)] kind(1) [unfolded 2])
  next
    case 3
    with expand show ?thesis by (auto simp: rbind_eq_Inr intro!: token [OF kind(2)] kind(1) [unfolded 3])
  next
    case 4
    with expand show ?thesis by (auto simp: rbind_eq_Inr intro!: all [OF kind(2)] kind(1) [unfolded 4])
  qed
qed

lemma ExpandSource_ok: "ExpandSource K ctx src k st = Inr st' \<Longrightarrow> set_ok ctx (fst st) \<Longrightarrow> set_ok ctx (fst st')"
proof (erule ExpandSource_cases)
  fix t topAbs
  assume "TopAbsOf k = Inr topAbs" "expand_token ctx k t (fst st) (snd st) = Inr st'" "set_ok ctx (fst st)"
  then show "set_ok ctx (fst st')" using expand_token_ok TopAbsOf_kind by (metis prod.collapse)
qed (use expand_op_ok expand_bodies_ok TopAbsOf_kind in blast)+

section \<open>Filters keep sets well-formed\<close>

lemma nested_selects [selects]:
  "filter_adjacentTo K ctx other xs = Inr ys \<Longrightarrow> selection xs ys"
  "filter_boundary K ctx other xs = Inr ys \<Longrightarrow> selection xs ys"
  "filter_interiorTo K ctx other xs = Inr ys \<Longrightarrow> selection xs ys"
  "filter_not ctx other xs = Inr ys \<Longrightarrow> selection xs ys"
  unfolding filter_adjacentTo_def filter_boundary_def filter_interiorTo_def filter_not_def
  by (auto intro: keepBy_selects)

lemma nested_filter_cases:
  "nested_filter K ctx name = Some combine \<Longrightarrow>
     name = ''union'' \<and> combine = filter_union \<or>
     name \<noteq> ''union'' \<and> (\<forall>other xs ys. combine other xs = Inr ys \<longrightarrow> selection xs ys)"
  unfolding nested_filter_def by (auto intro: selects split: if_splits)

lemma union_set:
  "set_ok ctx xs \<Longrightarrow> set_ok ctx other \<Longrightarrow> filter_union other xs = Inr ys \<Longrightarrow> set_ok ctx ys"
  by (auto simp: filter_union_def set_ok_def [of ctx xs] set_ok_def [of ctx other] intro!: set_ok_foldl_Add)

text \<open>The three ways a filter is applied.\<close>

lemma ApplyFilter_cases:
  assumes "ApplyFilter K ctx nested flt xs notes = Inr r"
  obtains (local) name where "jat flt ''name'' = Inr (JString name)" "local_filter K ctx name (filter_args flt) xs = Some (Inr (fst r))"
      "snd r = notes"
  | (convexity) name where "jat flt ''name'' = Inr (JString name)" "filter_convexity K ctx name (filter_args flt) xs notes = Inr r"
      "name \<in> {''convex'', ''concave'', ''smooth''}"
  | (nested) name combine q other where "jat flt ''name'' = Inr (JString name)" "nested_filter K ctx name = Some combine"
      "QueryArg (filter_args flt) 0 = Inr q" "nested q notes = Inr (other, snd r)" "combine other xs = Inr (fst r)"
proof -
  obtain name where name: "jat flt ''name'' = Inr (JString name)" using assms by (auto simp: ApplyFilter_def rbind_eq_Inr)
  note run = assms [unfolded ApplyFilter_def name rbind_simps get_string_simps Let_def]
  show ?thesis
  proof (cases "local_filter K ctx name (filter_args flt) xs")
    case (Some out)
    then show ?thesis using run name by (auto simp: rbind_eq_Inr intro: local)
  next
    case None
    then show ?thesis using run name
      by (auto simp: rbind_eq_Inr Unsupported_def split: if_splits option.splits prod.splits intro: convexity nested)
  qed
qed

lemma ApplyFilter_ok:
  assumes "ApplyFilter K ctx nested flt xs notes = Inr r" and "set_ok ctx xs"
    and "\<And>q m r. size q < size flt \<Longrightarrow> nested q m = Inr r \<Longrightarrow> set_ok ctx (fst r)"
  shows "set_ok ctx (fst r)"
  using assms(1)
proof (cases rule: ApplyFilter_cases)
  case local
  then show ?thesis using local_filter_selects set_ok_selection assms(2) by blast
next
  case convexity
  then show ?thesis using filter_convexity_selects set_ok_selection assms(2) by (metis prod.collapse)
next
  case (nested name combine q other)
  have other: "set_ok ctx other" using assms(3) [OF QueryArg_size [OF nested(3)] nested(4)] by simp
  show ?thesis using nested_filter_cases [OF nested(2)] nested(5) union_set [OF assms(2) other] set_ok_selection assms(2)
    by blast
qed

section \<open>Evaluation\<close>

lemma expand_scope_ok: "expand_scope K ctx ast notes = Inr zero \<Longrightarrow> set_ok ctx (fst zero)"
proof -
  assume "expand_scope K ctx ast notes = Inr zero"
  then obtain k scope where "rfold (\<lambda>st source. ExpandSource K ctx source k st) ([], notes) (elements scope) = Inr zero"
    by (auto simp: expand_scope_def rbind_eq_Inr)
  then show ?thesis by (rule rfold_invariant) (auto intro: ExpandSource_ok)
qed

definition stage_step ::
  "'sh kernel \<Rightarrow> 'sh EvalContext \<Rightarrow> 'sh stage_state \<Rightarrow> json \<Rightarrow> 'sh stage_state result" where
  "stage_step K ctx st flt =
     rbind (CheckCancellation (ctx_cancelled ctx)) (\<lambda>_.
     rbind (ApplyFilter K ctx (nested_query K ctx) flt (fst st) (snd (snd st))) (\<lambda>out.
       Inr (fst out, fst (snd st) @ [length (fst out)], snd out)))"

lemma EvaluateToSet_stages:
  "EvaluateToSet K ctx ast notes =
     rbind (expand_scope K ctx ast notes) (\<lambda>zero.
       rfold (stage_step K ctx) (fst zero, [length (fst zero)], snd zero) (query_filters ast))"
  by (subst EvaluateToSet.simps) (simp add: stage_step_def [abs_def] nested_query_def [abs_def])

definition stages_ok :: "'sh EvalContext \<Rightarrow> nat \<Rightarrow> 'sh stage_state \<Rightarrow> bool" where
  "stages_ok ctx n st \<longleftrightarrow>
     set_ok ctx (fst st) \<and> length (fst (snd st)) = n \<and> 0 < n \<and> last (fst (snd st)) = length (fst st)"

text \<open>The pipeline without its stages: the scope's set and the set after each filter, on its own.\<close>

definition filter_run ::
  "'sh kernel \<Rightarrow> 'sh EvalContext \<Rightarrow> json list \<Rightarrow> 'sh QueryEntity list \<times> 'sh EvalNotes \<Rightarrow>
   ('sh QueryEntity list \<times> 'sh EvalNotes) result" where
  "filter_run K ctx flts st =
     rfold (\<lambda>st flt. ApplyFilter K ctx (nested_query K ctx) flt (fst st) (snd st)) st flts"

definition after_filters ::
  "'sh kernel \<Rightarrow> 'sh EvalContext \<Rightarrow> json \<Rightarrow> nat \<Rightarrow> 'sh QueryEntity list result" where
  "after_filters K ctx ast n =
     rbind (expand_scope K ctx ast no_notes) (\<lambda>zero.
     rbind (filter_run K ctx (List.take n (query_filters ast)) zero) (\<lambda>st. Inr (fst st)))"

lemma stage_fold_runs:
  assumes "rfold (stage_step K ctx) st flts = Inr st'"
  shows "filter_run K ctx flts (fst st, snd (snd st)) = Inr (fst st', snd (snd st')) \<and>
    (\<exists>cards. fst (snd st') = fst (snd st) @ cards \<and> length cards = length flts \<and>
       (\<forall>n < length flts. \<exists>out. filter_run K ctx (List.take (Suc n) flts) (fst st, snd (snd st)) = Inr out \<and>
          cards ! n = length (fst out)))"
  using assms
proof (induction flts arbitrary: st)
  case (Cons flt flts)
  then obtain st1 where s: "stage_step K ctx st flt = Inr st1" "rfold (stage_step K ctx) st1 flts = Inr st'"
    by (auto simp: rbind_eq_Inr)
  then obtain out where out: "ApplyFilter K ctx (nested_query K ctx) flt (fst st) (snd (snd st)) = Inr out"
    "st1 = (fst out, fst (snd st) @ [length (fst out)], snd out)"
    by (auto simp: stage_step_def rbind_eq_Inr)
  have run: "filter_run K ctx (flt # fs) (fst st, snd (snd st)) = filter_run K ctx fs out" for fs
    by (simp add: filter_run_def out(1))
  from Cons.IH [OF s(2)] obtain cards where rest: "filter_run K ctx flts out = Inr (fst st', snd (snd st'))"
    "fst (snd st') = fst (snd st) @ length (fst out) # cards" "length cards = length flts"
    "\<forall>n < length flts. \<exists>o'. filter_run K ctx (List.take (Suc n) flts) out = Inr o' \<and> cards ! n = length (fst o')"
    by (auto simp: out(2))
  have "\<exists>o'. filter_run K ctx (List.take (Suc n) (flt # flts)) (fst st, snd (snd st)) = Inr o' \<and>
      (length (fst out) # cards) ! n = length (fst o')" if "n < Suc (length flts)" for n
    using rest(4) that by (cases n) (auto simp: run filter_run_def [of _ _ "[]"])
  then show ?case using rest(1-3) by (intro conjI exI [of _ "length (fst out) # cards"]) (simp_all add: run)
qed (simp add: filter_run_def)

lemma EvaluateToSet_runs:
  assumes "EvaluateToSet K ctx ast no_notes = Inr st"
  shows "after_filters K ctx ast (length (query_filters ast)) = Inr (fst st)"
    "list_all2 (\<lambda>n c. \<exists>es. after_filters K ctx ast n = Inr es \<and> c = length es)
       [0..<Suc (length (query_filters ast))] (fst (snd st))"
proof -
  from assms obtain zero where zero: "expand_scope K ctx ast no_notes = Inr zero"
    "rfold (stage_step K ctx) (fst zero, [length (fst zero)], snd zero) (query_filters ast) = Inr st"
    by (auto simp: EvaluateToSet_stages rbind_eq_Inr)
  from stage_fold_runs [OF zero(2)] obtain cards where
    run: "filter_run K ctx (query_filters ast) zero = Inr (fst st, snd (snd st))"
    and cards: "fst (snd st) = length (fst zero) # cards" "length cards = length (query_filters ast)"
    and each: "\<And>n. n < length cards \<Longrightarrow>
      \<exists>out. filter_run K ctx (List.take (Suc n) (query_filters ast)) zero = Inr out \<and> cards ! n = length (fst out)"
    by auto
  show "after_filters K ctx ast (length (query_filters ast)) = Inr (fst st)"
    by (simp add: after_filters_def zero(1) run)
  have "\<exists>es. after_filters K ctx ast n = Inr es \<and> (length (fst zero) # cards) ! n = length es" if "n < Suc (length cards)" for n
    using each [of "n - 1"] that by (cases n) (auto simp: after_filters_def zero(1) filter_run_def [of _ _ "[]"])
  then show "list_all2 (\<lambda>n c. \<exists>es. after_filters K ctx ast n = Inr es \<and> c = length es)
       [0..<Suc (length (query_filters ast))] (fst (snd st))"
    by (auto simp: list_all2_conv_all_nth cards simp del: upt_Suc)
qed

definition nested_ok :: "'sh kernel \<Rightarrow> 'sh EvalContext \<Rightarrow> json \<Rightarrow> bool" where
  "nested_ok K ctx flt \<longleftrightarrow>
     (\<forall>q m r. size q < size flt \<longrightarrow> nested_query K ctx q m = Inr r \<longrightarrow> set_ok ctx (fst r))"

lemma stages_ok_fold:
  assumes "rfold (stage_step K ctx) st flts = Inr st'" and "stages_ok ctx n st"
    and "\<forall>flt \<in> set flts. nested_ok K ctx flt"
  shows "stages_ok ctx (n + length flts) st'"
  using assms
proof (induction flts arbitrary: st n)
  case (Cons flt flts)
  then obtain st1 where s: "stage_step K ctx st flt = Inr st1" "rfold (stage_step K ctx) st1 flts = Inr st'"
    by (auto simp: rbind_eq_Inr)
  then obtain out where out: "ApplyFilter K ctx (nested_query K ctx) flt (fst st) (snd (snd st)) = Inr out"
    "st1 = (fst out, fst (snd st) @ [length (fst out)], snd out)"
    by (auto simp: stage_step_def rbind_eq_Inr)
  have "set_ok ctx (fst out)"
  proof (rule ApplyFilter_ok [OF out(1)])
    have flt: "nested_ok K ctx flt" using Cons.prems(3) by simp
    show "set_ok ctx (fst st)" using Cons.prems(2) by (simp add: stages_ok_def)
    show "set_ok ctx (fst r)" if "size q < size flt" "nested_query K ctx q m = Inr r" for q m r
      using flt that unfolding nested_ok_def by blast
  qed
  then have "stages_ok ctx (Suc n) st1" using Cons.prems(2) out(2) by (simp add: stages_ok_def)
  from Cons.IH [OF s(2) this] Cons.prems(3) show ?case by simp
qed simp

lemma EvaluateToSet_ok:
  "EvaluateToSet K ctx ast ns = Inr st \<Longrightarrow> stages_ok ctx (Suc (length (query_filters ast))) st"
proof (induction "size ast" arbitrary: ast ns st rule: less_induct)
  case less
  then obtain zero where zero: "expand_scope K ctx ast ns = Inr zero"
    "rfold (stage_step K ctx) (fst zero, [length (fst zero)], snd zero) (query_filters ast) = Inr st"
    by (auto simp: EvaluateToSet_stages rbind_eq_Inr)
  have "stages_ok ctx (1 + length (query_filters ast)) st"
  proof (rule stages_ok_fold [OF zero(2)])
    show "stages_ok ctx 1 (fst zero, [length (fst zero)], snd zero)"
      using expand_scope_ok [OF zero(1)] by (simp add: stages_ok_def)
    show "\<forall>flt \<in> set (query_filters ast). nested_ok K ctx flt"
      unfolding nested_ok_def
    proof (intro ballI allI impI)
      fix flt q m r
      assume "flt \<in> set (query_filters ast)" and q: "size q < size flt" and r: "nested_query K ctx q m = Inr r"
      then have "size q < size ast" using query_filters_size by fastforce
      moreover obtain st where "EvaluateToSet K ctx q m = Inr st" "r = (fst st, snd (snd st))"
        using r by (auto simp: nested_query_def rbind_eq_Inr)
      ultimately show "set_ok ctx (fst r)" using less.hyps by (auto simp: stages_ok_def)
    qed
  qed
  then show ?case by simp
qed

section \<open>Outcomes\<close>

abbreviation erase_hash :: "'sh QueryEntity \<Rightarrow> 'sh QueryEntity" where
  "erase_hash e \<equiv> e\<lparr>ent_adjHash := []\<rparr>"

definition canonically_ordered :: "'sh kernel \<Rightarrow> 'sh QueryEntity list \<Rightarrow> bool" where
  "canonically_ordered K es \<longleftrightarrow>
     (\<forall>i j. i < j \<longrightarrow> j < length es \<longrightarrow> (\<exists>k l. KeyOf K (es ! i) = Inr k \<and> KeyOf K (es ! j) = Inr l \<and> k \<le> l))"

text \<open>An entity belongs to a visible body that has its shape, or to none: then it is a datum, which the
  registry knows as live.\<close>

definition entity_owned :: "'sh kernel \<Rightarrow> 'sh EvaluatedBody list \<Rightarrow> 'sh NamingRegistry \<Rightarrow> 'sh QueryEntity \<Rightarrow> bool" where
  "entity_owned K bodies registry e \<longleftrightarrow>
     (\<exists>body \<in> set bodies. ent_bodyId e = bodyId body \<and>
        (\<exists>kind \<in> set kNamedKinds. ent_shape e \<in> set (map_shapes (k_topology K) (shape body) kind))) \<or>
     ent_bodyId e = [] \<and> live_record registry (ent_kind e) (ent_shape e) \<and>
       (\<forall>body \<in> set bodies. \<forall>kind \<in> set kNamedKinds. ent_shape e \<notin> set (map_shapes (k_topology K) (shape body) kind))"

lemma entity_ok_body:
  "entity_ok ctx e \<Longrightarrow> ent_bodyId e = (case ctx_shapeToBodyId ctx (ent_shape e) of None \<Rightarrow> [] | Some i \<Rightarrow> i)"
  unfolding entity_ok_def entity_of_def Let_def by (metis QueryEntity.select_convs(3))

lemma entity_ok_owned:
  assumes "entity_ok (query_context K bodies registry cancelled) e"
  shows "entity_owned K bodies registry e"
proof (cases "owner_of K bodies (ent_shape e)")
  case None
  then have "live_record registry (ent_kind e) (ent_shape e)" "ent_bodyId e = []"
    using assms entity_ok_body [OF assms] by (auto simp: entity_ok_def query_context_def)
  then show ?thesis using None by (auto simp: entity_owned_def owner_of_def find_None_iff)
next
  case (Some body)
  then have "ent_bodyId e = bodyId body"
    using entity_ok_body [OF assms] by (simp add: query_context_def)
  moreover have "body \<in> set bodies" "\<exists>kind \<in> set kNamedKinds. ent_shape e \<in> set (map_shapes (k_topology K) (shape body) kind)"
    using Some by (auto simp: owner_of_def find_Some_iff)
  ultimately show ?thesis by (auto simp: entity_owned_def)
qed

definition outcome_ok ::
  "'sh kernel \<Rightarrow> json \<Rightarrow> 'sh EvaluatedBody list \<Rightarrow> 'sh NamingRegistry \<Rightarrow> bool \<Rightarrow> 'sh QueryOutcome \<Rightarrow> bool" where
  "outcome_ok K ast bodies registry cancelled out \<longleftrightarrow>
     (let ctx = query_context K bodies registry cancelled in
      set_ok ctx (map erase_hash (out_entities out)) \<and>
      list_all (entity_owned K bodies registry) (out_entities out) \<and>
      canonically_ordered K (out_entities out) \<and>
      (\<exists>es. after_filters K ctx ast (length (query_filters ast)) = Inr es \<and>
         mset (map erase_hash (out_entities out)) = mset es) \<and>
      list_all2 (\<lambda>n c. \<exists>es. after_filters K ctx ast n = Inr es \<and> c = length es)
        [0..<Suc (length (query_filters ast))] (out_stageCardinalities out))"

lemma KeyOf_erase [simp]: "KeyOf K (e\<lparr>ent_adjHash := h\<rparr>) = KeyOf K e"
  by (simp add: KeyOf_def)

lemma entity_ok_hash: "entity_ok ctx e \<Longrightarrow> ent_adjHash e = []"
  by (metis entity_ok_def entity_of_def QueryEntity.select_convs(6))

lemma enriched_entities:
  assumes "rmap (enrich_entity K bodies registry cancelled) es = Inr es'"
  shows "length es' = length es \<and> (\<forall>i < length es. \<exists>h. es' ! i = (es ! i)\<lparr>ent_adjHash := h\<rparr>)"
proof -
  have "list_all2 (\<lambda>x y. enrich_entity K bodies registry cancelled x = Inr y) es es'"
    using assms by (simp add: rmap_eq_Inr_iff)
  then have "length es = length es'" "\<forall>i < length es. enrich_entity K bodies registry cancelled (es ! i) = Inr (es' ! i)"
    by (simp_all add: list_all2_conv_all_nth)
  then show ?thesis by (auto simp: enrich_entity_def rbind_eq_Inr) metis
qed

text \<open>C8. The outcome of every query is a set of distinct entities, each with the newest token the
  registry gives its shape, that token's lineage name and the id of a visible body that has the
  shape; only a live record that no visible body has comes without a body. The entities are those the
  last filter leaves, in canonical order, and the stage cardinalities are the sizes of the scope and
  of the set after each filter.\<close>

theorem query_outcome_invariant:
  assumes "EvaluateQuery K ast bodies registry cancelled = Inr out"
  shows "outcome_ok K ast bodies registry cancelled out"
proof -
  let ?ctx = "query_context K bodies registry cancelled"
  from assms obtain st es es' where st: "EvaluateToSet K ?ctx ast no_notes = Inr st"
    and sorted: "CanonicalSort K (fst st) = Inr es"
    and es': "rmap (enrich_entity K bodies registry cancelled) es = Inr es'"
    and out: "out_entities out = es'" "out_stageCardinalities out = fst (snd st)"
    by (auto simp: EvaluateQuery_def EvaluateQueryCore_def rbind_eq_Inr)
  have "selection (fst st) es" using sorted by (simp add: CanonicalSort_def sort_selects)
  then have ok: "set_ok ?ctx es" using EvaluateToSet_ok [OF st] set_ok_selection by (auto simp: stages_ok_def)
  have len: "length es' = length es" and nth: "\<And>i. i < length es \<Longrightarrow> \<exists>h. es' ! i = (es ! i)\<lparr>ent_adjHash := h\<rparr>"
    using enriched_entities [OF es'] by auto
  have erased: "map erase_hash es' = es"
  proof (rule nth_equalityI)
    fix i
    assume "i < length (map erase_hash es')"
    then have i: "i < length es" by (simp add: len)
    have "ent_adjHash (es ! i) = []" using ok nth_mem [OF i] entity_ok_hash unfolding set_ok_def by blast
    then show "map erase_hash es' ! i = es ! i" using nth [OF i] i len by auto
  qed (simp add: len)
  have "entity_owned K bodies registry e" if "e \<in> set es'" for e
  proof -
    have "erase_hash e \<in> set es" using that erased by (metis image_eqI set_map)
    then have "entity_owned K bodies registry (erase_hash e)" using ok entity_ok_owned unfolding set_ok_def by blast
    then show ?thesis by (simp add: entity_owned_def)
  qed
  moreover have "KeyOf K (es' ! i) = KeyOf K (es ! i)" if "i < length es" for i using nth [OF that] by auto
  then have "canonically_ordered K es'"
    using stable_sort_by_sorted [of "KeyOf K" "fst st" es] sorted len
    by (auto simp: canonically_ordered_def CanonicalSort_def)
  moreover have "mset es = mset (fst st)"
    using stable_sort_by_mset [of "KeyOf K"] sorted unfolding CanonicalSort_def by metis
  ultimately show ?thesis using EvaluateToSet_runs [OF st]
    unfolding outcome_ok_def Let_def out erased by (simp add: ok list_all_iff)
qed

section \<open>The scope denotes the union of its sources\<close>

text \<open>The shapes a source stands for, without reference to the set built so far.\<close>

definition live_shapes :: "'sh EvalContext \<Rightarrow> char \<Rightarrow> ('sh NamingRecord \<Rightarrow> bool) \<Rightarrow> 'sh set" where
  "live_shapes ctx k p =
     rec_shape ` {r \<in> set (records (ctx_registry ctx)). rec_live r \<and> rec_kind r = k \<and> p r}"

definition body_shapes :: "'sh kernel \<Rightarrow> 'sh EvalContext \<Rightarrow> char \<Rightarrow> ('sh EvaluatedBody \<Rightarrow> bool) \<Rightarrow> 'sh set" where
  "body_shapes K ctx k p =
     (\<Union>b \<in> {b \<in> set (ctx_bodies ctx). p b}. case TopAbsOf k of Inr t \<Rightarrow> set (map_shapes (k_topology K) (shape b) t) | Inl _ \<Rightarrow> {})"

definition token_shapes :: "'sh EvalContext \<Rightarrow> char \<Rightarrow> string \<Rightarrow> 'sh set" where
  "token_shapes ctx k t =
     (case FindByToken (ctx_registry ctx) t of
        Some r \<Rightarrow> if rec_live r \<and> rec_kind r = k then {rec_shape r} else {}
      | None \<Rightarrow> {})"

definition source_shapes :: "'sh kernel \<Rightarrow> 'sh EvalContext \<Rightarrow> char \<Rightarrow> json \<Rightarrow> 'sh set" where
  "source_shapes K ctx k src =
     (case (jat src ''source'', jat src ''opId'', jat src ''token'') of
        (Inr (JString kind), i, t) \<Rightarrow>
          if kind = ''op'' then (case i of Inr (JString i) \<Rightarrow> live_shapes ctx k (\<lambda>r. rec_minter r = i) | _ \<Rightarrow> {})
          else if kind = ''body'' then (case i of Inr (JString i) \<Rightarrow> body_shapes K ctx k (\<lambda>b. operationId b = i) | _ \<Rightarrow> {})
          else if kind = ''token'' then (case t of Inr (JString t) \<Rightarrow> token_shapes ctx k t | _ \<Rightarrow> {})
          else if kind = ''all'' then body_shapes K ctx k (\<lambda>_. True)
          else {}
      | _ \<Rightarrow> {})"

definition shapes_of :: "'sh QueryEntity list \<Rightarrow> 'sh set" where
  "shapes_of es = ent_shape ` set es"

lemma add_shape_shapes: "add_shape ctx k b es s = Inr es' \<Longrightarrow> shapes_of es' = insert s (shapes_of es)"
  by (auto simp: add_shape_def rbind_eq_Inr shapes_of_def set_Add_def dest!: MakeEntity_result split: if_splits)

text \<open>A loop that adds the shapes \<open>f x\<close> in every iteration adds their union.\<close>

lemma rfold_shapes:
  assumes "rfold step es xs = Inr es'"
    and "\<And>x es es'. x \<in> set xs \<Longrightarrow> step es x = Inr es' \<Longrightarrow> shapes_of es' = f x \<union> shapes_of es"
  shows "shapes_of es' = (\<Union>x \<in> set xs. f x) \<union> shapes_of es"
  using assms
proof (induction xs arbitrary: es)
  case (Cons x xs)
  then obtain es1 where s: "step es x = Inr es1" "rfold step es1 xs = Inr es'" by (auto simp: rbind_eq_Inr)
  have "shapes_of es' = (\<Union>x \<in> set xs. f x) \<union> shapes_of es1" by (rule Cons.IH [OF s(2)]) (use Cons.prems(2) in auto)
  moreover have "shapes_of es1 = f x \<union> shapes_of es" by (rule Cons.prems(2) [OF _ s(1)]) simp
  ultimately show ?case by auto
qed simp

lemma expand_op_shapes:
  "expand_op ctx k i es = Inr es' \<Longrightarrow> shapes_of es' = live_shapes ctx k (\<lambda>r. rec_minter r = i) \<union> shapes_of es"
proof -
  let ?rs = "records (ctx_registry ctx)"
  let ?f = "\<lambda>n. if rec_live (?rs ! n) \<and> rec_minter (?rs ! n) = i \<and> rec_kind (?rs ! n) = k then {rec_shape (?rs ! n)} else {}"
  assume "expand_op ctx k i es = Inr es'"
  then have "shapes_of es' = (\<Union>n \<in> set [0..<length ?rs]. ?f n) \<union> shapes_of es"
    unfolding expand_op_def
    by (rule rfold_shapes) (auto simp: rbind_eq_Inr RecordAt_def dest!: add_shape_shapes split: if_splits)
  moreover have "(\<Union>n \<in> set [0..<length ?rs]. ?f n) = live_shapes ctx k (\<lambda>r. rec_minter r = i)"
    by (fastforce simp: live_shapes_def in_set_conv_nth split: if_splits)
  ultimately show ?thesis by simp
qed

lemma expand_bodies_shapes:
  "expand_bodies K ctx k t bs es = Inr es' \<Longrightarrow>
     shapes_of es' = (\<Union>b \<in> set bs. set (map_shapes (k_topology K) (shape b) t)) \<union> shapes_of es"
  unfolding expand_bodies_def
proof (erule rfold_shapes)
  fix b es es'
  assume "rfold (add_shape ctx k (\<lambda>_. False)) es (map_shapes (k_topology K) (shape b) t) = Inr es'"
  then have "shapes_of es' = (\<Union>s \<in> set (map_shapes (k_topology K) (shape b) t). {s}) \<union> shapes_of es"
    by (rule rfold_shapes) (simp add: add_shape_shapes)
  then show "shapes_of es' = set (map_shapes (k_topology K) (shape b) t) \<union> shapes_of es" by simp
qed

lemma expand_token_shapes:
  "expand_token ctx k t es n = Inr st' \<Longrightarrow> shapes_of (fst st') = token_shapes ctx k t \<union> shapes_of es"
proof -
  assume e: "expand_token ctx k t es n = Inr st'"
  show ?thesis
  proof (cases "FindByToken (ctx_registry ctx) t")
    case None
    then show ?thesis using e by (auto simp: expand_token_def token_shapes_def)
  next
    case (Some r)
    show ?thesis
    proof (cases "rec_live r \<and> rec_kind r = k")
      case True
      then obtain es' where "add_shape ctx k (\<lambda>s. ctx_shapeToBodyId ctx s = None) es (rec_shape r) = Inr es'" "fst st' = es'"
        using e Some by (auto simp: expand_token_def rbind_eq_Inr)
      then show ?thesis using Some True add_shape_shapes by (fastforce simp: token_shapes_def)
    next
      case False
      then have "fst st' = es" using e Some by (auto simp: expand_token_def split: if_splits)
      then show ?thesis using Some False by (auto simp: token_shapes_def)
    qed
  qed
qed

lemma ExpandSource_shapes:
  "ExpandSource K ctx src k st = Inr st' \<Longrightarrow> shapes_of (fst st') = source_shapes K ctx k src \<union> shapes_of (fst st)"
proof (erule ExpandSource_cases)
  fix i topAbs
  assume a: "expand_op ctx k i (fst st) = Inr (fst st')" "jat src ''source'' = Inr (JString ''op'')" "jat src ''opId'' = Inr (JString i)"
  show ?thesis using expand_op_shapes [OF a(1)] a(2,3) by (simp add: source_shapes_def)
next
  fix i topAbs
  assume a: "expand_bodies K ctx k topAbs (filter (\<lambda>b. operationId b = i) (ctx_bodies ctx)) (fst st) = Inr (fst st')"
    "jat src ''source'' = Inr (JString ''body'')" "jat src ''opId'' = Inr (JString i)" "TopAbsOf k = Inr topAbs"
  show ?thesis using expand_bodies_shapes [OF a(1)] a(2-4) by (simp add: source_shapes_def body_shapes_def)
next
  fix t topAbs
  assume a: "expand_token ctx k t (fst st) (snd st) = Inr st'" "jat src ''source'' = Inr (JString ''token'')"
    "jat src ''token'' = Inr (JString t)"
  show ?thesis using expand_token_shapes [OF a(1)] a(2,3) by (simp add: source_shapes_def)
next
  fix topAbs
  assume a: "expand_bodies K ctx k topAbs (ctx_bodies ctx) (fst st) = Inr (fst st')"
    "jat src ''source'' = Inr (JString ''all'')" "TopAbsOf k = Inr topAbs"
  show ?thesis using expand_bodies_shapes [OF a(1)] a(2,3) by (simp add: source_shapes_def body_shapes_def)
qed

lemma set_ok_kinds:
  assumes "set_ok ctx es" and "\<forall>e \<in> set es. ent_kind e = k"
  shows "set es = (\<lambda>s. entity_of ctx s k (ctx_shapeToBodyId ctx s)) ` shapes_of es"
proof -
  have "e = entity_of ctx (ent_shape e) k (ctx_shapeToBodyId ctx (ent_shape e))" if "e \<in> set es" for e
    using assms that unfolding set_ok_def entity_ok_def by metis
  then show ?thesis unfolding shapes_of_def image_image by force
qed

lemma add_shape_kind:
  "add_shape ctx k b es s = Inr es' \<Longrightarrow> \<forall>e \<in> set es. ent_kind e = k \<Longrightarrow> \<forall>e \<in> set es'. ent_kind e = k"
  by (auto simp: add_shape_def rbind_eq_Inr set_Add_def dest!: MakeEntity_result split: if_splits)

lemma add_shapes_kind:
  "rfold (add_shape ctx k b) es xs = Inr es' \<Longrightarrow> \<forall>e \<in> set es. ent_kind e = k \<Longrightarrow> \<forall>e \<in> set es'. ent_kind e = k"
  by (erule rfold_invariant) (auto dest: add_shape_kind)

lemma expand_kinds:
  "expand_op ctx k i es = Inr es' \<Longrightarrow> \<forall>e \<in> set es. ent_kind e = k \<Longrightarrow> \<forall>e \<in> set es'. ent_kind e = k"
  "expand_bodies K ctx k t bs es = Inr es' \<Longrightarrow> \<forall>e \<in> set es. ent_kind e = k \<Longrightarrow> \<forall>e \<in> set es'. ent_kind e = k"
  unfolding expand_op_def expand_bodies_def
  by (erule rfold_invariant; auto simp: rbind_eq_Inr dest: add_shape_kind add_shapes_kind split: if_splits)+

lemma expand_token_kind:
  "expand_token ctx k t es n = Inr st' \<Longrightarrow> \<forall>e \<in> set es. ent_kind e = k \<Longrightarrow> \<forall>e \<in> set (fst st'). ent_kind e = k"
  by (cases "FindByToken (ctx_registry ctx) t")
     (auto simp: expand_token_def rbind_eq_Inr dest: add_shape_kind split: if_splits)

lemma ExpandSource_kind:
  "ExpandSource K ctx src k st = Inr st' \<Longrightarrow> \<forall>e \<in> set (fst st). ent_kind e = k \<Longrightarrow> \<forall>e \<in> set (fst st'). ent_kind e = k"
  by (erule ExpandSource_cases) (metis expand_kinds expand_token_kind)+

text \<open>The sources of a query and their shapes.\<close>

definition scope_shapes :: "'sh kernel \<Rightarrow> 'sh EvalContext \<Rightarrow> char \<Rightarrow> json list \<Rightarrow> 'sh set" where
  "scope_shapes K ctx k srcs = (\<Union>src \<in> set srcs. source_shapes K ctx k src)"

theorem scope_denotes_sources:
  assumes "expand_scope K ctx ast ns = Inr zero" and "jat ast ''kind'' = Inr (JString head)"
    and "HeadKindChar head = Inr k" and "jat ast ''scope'' = Inr scope"
  shows "set (fst zero) =
    (\<lambda>s. entity_of ctx s k (ctx_shapeToBodyId ctx s)) ` scope_shapes K ctx k (elements scope)"
proof -
  have run: "rfold (\<lambda>st source. ExpandSource K ctx source k st) ([], ns) (elements scope) = Inr zero"
    using assms by (simp add: expand_scope_def)
  have "shapes_of (fst zero) = (\<Union>src \<in> set srcs. source_shapes K ctx k src) \<union> shapes_of (fst st)"
    if "rfold (\<lambda>st source. ExpandSource K ctx source k st) st srcs = Inr zero" for st srcs
    using that
  proof (induction srcs arbitrary: st)
    case (Cons src srcs)
    then obtain st1 where s: "ExpandSource K ctx src k st = Inr st1"
      "rfold (\<lambda>st source. ExpandSource K ctx source k st) st1 srcs = Inr zero" by (auto simp: rbind_eq_Inr)
    show ?case using Cons.IH [OF s(2)] ExpandSource_shapes [OF s(1)] by auto
  qed simp
  from this [OF run] have "shapes_of (fst zero) = scope_shapes K ctx k (elements scope)"
    by (simp add: scope_shapes_def shapes_of_def)
  moreover have "\<forall>e \<in> set (fst zero). ent_kind e = k"
    using run by (rule rfold_invariant) (auto dest: ExpandSource_kind)
  ultimately show ?thesis using set_ok_kinds [OF expand_scope_ok [OF assms(1)]] by simp
qed

lemma KeyOf_token: "KeyOf K e = Inr key \<Longrightarrow> snd (snd (snd (snd (snd (snd key))))) = ent_token e"
  by (auto simp: KeyOf_def rbind_eq_Inr)

lemma unfiltered_query:
  assumes "EvaluateQuery K ast bodies registry cancelled = Inr out" and "query_filters ast = []"
  obtains zero es where "expand_scope K (query_context K bodies registry cancelled) ast no_notes = Inr zero"
    "CanonicalSort K (fst zero) = Inr es"
    "rmap (enrich_entity K bodies registry cancelled) es = Inr (out_entities out)"
  using assms by (auto simp: EvaluateQuery_def EvaluateQueryCore_def EvaluateToSet_stages rbind_eq_Inr)

text \<open>Neither the order nor the repetition of the sources of a scope can be observed: two unfiltered
  queries over the same set of sources have the same outcome, where its tokens are distinct.\<close>

theorem scope_order_irrelevant:
  assumes "EvaluateQuery K ast bodies registry cancelled = Inr out"
    and "EvaluateQuery K ast' bodies registry cancelled = Inr out'"
    and "jat ast ''kind'' = jat ast' ''kind''"
    and "jat ast ''scope'' = Inr scope" and "jat ast' ''scope'' = Inr scope'"
    and "set (elements scope) = set (elements scope')"
    and "query_filters ast = []" and "query_filters ast' = []"
    and "distinct (map ent_token (out_entities out))"
  shows "out_entities out = out_entities out'"
proof -
  let ?ctx = "query_context K bodies registry cancelled"
  obtain zero es where z: "expand_scope K ?ctx ast no_notes = Inr zero" "CanonicalSort K (fst zero) = Inr es"
    "rmap (enrich_entity K bodies registry cancelled) es = Inr (out_entities out)"
    using unfiltered_query [OF assms(1,7)] .
  obtain zero' es' where z': "expand_scope K ?ctx ast' no_notes = Inr zero'" "CanonicalSort K (fst zero') = Inr es'"
    "rmap (enrich_entity K bodies registry cancelled) es' = Inr (out_entities out')"
    using unfiltered_query [OF assms(2,8)] .
  obtain head k where head: "jat ast ''kind'' = Inr (JString head)" "HeadKindChar head = Inr k"
    using z(1) by (auto simp: expand_scope_def rbind_eq_Inr)
  have same: "set (fst zero) = set (fst zero')"
    using scope_denotes_sources [OF z(1) head assms(4)] scope_denotes_sources [OF z'(1) _ head(2) assms(5)] head(1) assms(3,6)
    by (simp add: scope_shapes_def)
  have ok: "set_ok ?ctx (fst zero)" "set_ok ?ctx (fst zero')" by (rule expand_scope_ok [OF z(1)], rule expand_scope_ok [OF z'(1)])
  then have dist: "distinct (fst zero)" "distinct (fst zero')" by (auto simp: set_ok_def distinct_map)
  have "map ent_token es = map ent_token (out_entities out)"
    using enriched_entities [OF z(3)] by (intro nth_equalityI) auto
  then have tokens: "distinct (map ent_token es)" using assms(9) by simp
  have members: "set es = set (fst zero)" using z(2) stable_sort_by_set unfolding CanonicalSort_def by blast
  have "es = es'"
  proof (rule stable_sort_by_unique [OF z(2) [unfolded CanonicalSort_def] z'(2) [unfolded CanonicalSort_def] _ dist(1)])
    show "mset (fst zero) = mset (fst zero')" using same dist set_eq_iff_mset_eq_distinct by blast
    fix x y key
    assume "x \<in> set (fst zero)" "y \<in> set (fst zero)" and key: "KeyOf K x = Inr key" "KeyOf K y = Inr key"
    then have "x \<in> set es" "y \<in> set es" "ent_token x = ent_token y"
      using members KeyOf_token [OF key(1)] KeyOf_token [OF key(2)] by simp_all
    then show "x = y" using tokens by (auto simp: distinct_map inj_on_def)
  qed
  then show ?thesis using z(3) z'(3) by simp
qed

section \<open>Set filters\<close>

lemma shapes_of_foldl_Add: "shapes_of (foldl set_Add es xs) = shapes_of es \<union> shapes_of xs"
  by (induction xs arbitrary: es) (auto simp: shapes_of_def set_Add_def)

lemma keepBy_shapes: "keepBy ctx (\<lambda>e. Inr (P (ent_shape e))) xs = Inr ys \<Longrightarrow> shapes_of ys = {s \<in> shapes_of xs. P s}"
  by (auto simp: shapes_of_def dest!: keepBy_result)

text \<open>\<open>union\<close>, \<open>not\<close> and \<open>on\<close> are the set operations they are named after: union, difference, and
  intersection with the sub-shapes of the nested result.\<close>

theorem set_filters_algebra:
  assumes "ApplyFilter K ctx (nested_query K ctx) flt xs ns = Inr (ys, ns')" and "jat flt ''name'' = Inr (JString name)"
    and "QueryArg (filter_args flt) 0 = Inr q" and "nested_query K ctx q ns = Inr (other, ns'')"
  shows "(name = ''union'' \<longrightarrow> shapes_of ys = shapes_of xs \<union> shapes_of other) \<and>
    (name = ''not'' \<longrightarrow> shapes_of ys = shapes_of xs - shapes_of other) \<and>
    (name = ''on'' \<longrightarrow> shapes_of ys = shapes_of xs \<inter> set (SubShapesOf K other))"
proof -
  have union: "filter_union other xs = Inr ys" if "name = ''union''"
    using assms that by (simp add: ApplyFilter_def local_filter_def nested_filter_def analytic_surfaces_def analytic_curves_def rbind_eq_Inr)
  have minus: "filter_not ctx other xs = Inr ys" if "name = ''not''"
    using assms that by (simp add: ApplyFilter_def local_filter_def nested_filter_def analytic_surfaces_def analytic_curves_def rbind_eq_Inr)
  have on: "filter_boundary K ctx other xs = Inr ys" if "name = ''on''"
    using assms that by (simp add: ApplyFilter_def local_filter_def nested_filter_def analytic_surfaces_def analytic_curves_def rbind_eq_Inr)
  have others: "set (ShapesOf other) = shapes_of other" by (simp add: ShapesOf_def shapes_of_def)
  have "shapes_of [] = {}" by (simp add: shapes_of_def)
  then have "shapes_of ys = shapes_of xs \<union> shapes_of other" if "name = ''union''"
    using union [OF that] by (auto simp: filter_union_def shapes_of_foldl_Add)
  moreover have "shapes_of ys = shapes_of xs - shapes_of other" if "name = ''not''"
    using keepBy_shapes [OF minus [OF that, unfolded filter_not_def]] others by auto
  moreover have "shapes_of ys = shapes_of xs \<inter> set (SubShapesOf K other)" if "name = ''on''"
    using keepBy_shapes [OF on [OF that, unfolded filter_boundary_def]] by auto
  ultimately show ?thesis by blast
qed

end
