(* ===== verification/Selector_Topology.thy ===== *)
theory Selector_Topology
  imports Selector_Result Topology
begin

text \<open>
  The query projection and the topology harvest describe the same entity: \<open>measures_of\<close> gives the
  snapshots of theory \<open>Topology\<close> their measures from \<open>geometry_measures.cpp\<close>, and the axis, radius,
  size and centroid a resolved entity carries are those of the evidence row of its shape.
\<close>

section \<open>The measures of the topology snapshots\<close>

definition measures_of :: "gp \<Rightarrow> 'sh geom \<Rightarrow> 'sh measures" where
  "measures_of V G =
     \<lparr>surface_class = SurfaceClass G, surface_mass = g_face_mass G, surface_centre = g_face_centre G,
      surface_axis = SurfaceAxis V G,
      surface_radius = (\<lambda>s. case SurfaceRadius G s of Inr r \<Rightarrow> r | Inl _ \<Rightarrow> None),
      curve_class = CurveClass G, curve_mass = g_edge_mass G, curve_centre = g_edge_centre G,
      curve_axis = CurveAxis G, curve_radius = (\<lambda>s. case CurveRadius G s of Inr r \<Rightarrow> r | Inl _ \<Rightarrow> None),
      degenerated = g_degenerated G, vertex_point = g_vertex_point G,
      orientation_name = (\<lambda>s. Orientation (g_orientation G s))\<rparr>"

section \<open>Members of an object\<close>

lemma obj_put_fold:
  "sorted_wrt (<) (map fst acc) \<Longrightarrow>
     sorted_wrt (<) (map fst (fold (\<lambda>(k, v). obj_put k v) kvs acc)) \<and>
     map_of (fold (\<lambda>(k, v). obj_put k v) kvs acc) = map_of acc ++ map_of (rev kvs)"
proof (induction kvs arbitrary: acc)
  case (Cons kv kvs)
  obtain k v where kv: "kv = (k, v)" by force
  have "sorted_wrt (<) (map fst (obj_put k v acc))" by (rule sorted_obj_put [OF Cons.prems])
  from Cons.IH [OF this] show ?case
    by (simp add: kv map_of_obj_put [OF Cons.prems]) (rule ext, simp add: map_add_def split: option.splits)
qed simp

lemma jfind_make_object: "jfind (make_object kvs) k = map_of (rev kvs) k"
  using obj_put_fold [of "[]" kvs] by (simp add: make_object_def)

lemma jfind_with_adjHash:
  "k \<noteq> ''adjHash'' \<Longrightarrow> jfind (with_adjHash e (make_object kvs)) k = map_of (rev kvs) k"
  using obj_put_fold [of "[]" kvs]
  by (simp add: with_adjHash_def jfind_make_object object_members_def make_object_def map_of_obj_put)

lemma jat_find: "jfind j k = Some v \<Longrightarrow> jat j k = Inr v"
  by (cases j) (auto simp: jfind_def)

lemma Point_PointJson: "Point p = PointJson p"
  by (simp add: Point_def PointJson_def)

section \<open>Agreement\<close>

text \<open>What a resolved entity says is what the evidence row says; a missing radius is \<open>null\<close> there.\<close>

definition evidence_agrees :: "json \<Rightarrow> json \<Rightarrow> bool" where
  "evidence_agrees j ev \<longleftrightarrow>
     (\<forall>k \<in> {''area'', ''length''}. jfind j k \<noteq> None \<longrightarrow> jfind j k = jfind ev ''measure'') \<and>
     jfind ev ''radius'' = Some (case jfind j ''radius'' of Some r \<Rightarrow> r | None \<Rightarrow> JNull) \<and>
     (\<forall>axis. jfind j ''axis'' = Some axis \<longrightarrow> jfind axis ''dir'' = jfind ev ''axis'')"

lemma evidence_row:
  "DescribeTopologyEvidence M ''face'' s = Inr ev \<Longrightarrow> ev =
     make_object [(''kind'', JString ''face''), (''geometryClass'', JString (surface_class M s)),
       (''measure'', JFloat (f64_abs (surface_mass M s))), (''centroid'', Point (surface_centre M s)),
       (''axis'', AxisJson (surface_axis M s)), (''radius'', RadiusJson (surface_radius M s))]"
  "DescribeTopologyEvidence M ''edge'' s = Inr ev \<Longrightarrow> ev =
     make_object [(''kind'', JString ''edge''), (''geometryClass'', JString (curve_class M s)),
       (''measure'', JFloat (f64_abs (curve_mass M s))), (''centroid'', Point (curve_centre M s)),
       (''axis'', AxisJson (EdgeAxis M s)), (''radius'', RadiusJson (EdgeRadius M s))]"
  by (simp_all add: DescribeTopologyEvidence_def)

lemma face_agrees:
  assumes "face_members K s = Inr ms" and "DescribeTopologyEvidence (measures_of (k_gp K) (k_geom K)) ''face'' s = Inr ev"
    and "\<And>k. k \<in> {''area'', ''length'', ''radius'', ''axis''} \<Longrightarrow> jfind j k = map_of (rev ms) k"
  shows "evidence_agrees j ev"
proof -
  have ev: "jfind ev ''measure'' = Some (JFloat (FaceArea K s))"
    "jfind ev ''axis'' = Some (AxisJson (SurfaceAxis (k_gp K) (k_geom K) s))"
    "jfind ev ''radius'' = Some (RadiusJson (case SurfaceRadius (k_geom K) s of Inr r \<Rightarrow> r | Inl _ \<Rightarrow> None))"
    unfolding evidence_row(1) [OF assms(2)] by (simp_all add: jfind_make_object measures_of_def FaceArea_def)
  obtain outward where outward: "FaceOutwardNormal K s = Inr outward"
    using assms(1) by (auto simp: face_members_def rbind_eq_Inr)
  define nm where "nm = (case outward of None \<Rightarrow> [] | Some n \<Rightarrow> [(''normal'', PointJson n)])"
  have nm: "map_of (rev nm) k = None" if "k \<noteq> ''normal''" for k using that by (cases outward) (simp_all add: nm_def)
  let ?loc = "g_surface_location (k_geom K) s" and ?dir = "SurfaceAxis (k_gp K) (k_geom K) s"
  let ?r = "if g_surface (k_geom K) s \<in> {Cylinder_surface, Cone_surface}
            then [(''radius'', JFloat (g_surface_radius (k_geom K) s))] @ axis_member ?loc ?dir else []"
  have "ms = [(''area'', JFloat (FaceArea K s)), (''surface'', JString (SurfaceEnum (SurfaceClass (k_geom K) s)))] @ nm @ ?r"
    using assms(1) outward
    by (cases "g_surface (k_geom K) s")
       (simp_all add: face_members_def nm_def CylindricalFaceRadius_def ConicalFaceReferenceRadius_def)
  then have j: "jfind j ''area'' = Some (JFloat (FaceArea K s))" "jfind j ''length'' = None"
    "jfind j ''radius'' = map_of (rev ?r) ''radius''" "jfind j ''axis'' = map_of (rev ?r) ''axis''"
    by (simp_all add: assms(3) nm map_add_def axis_member_def split: option.splits)
  show ?thesis
    by (cases "g_surface (k_geom K) s")
       (simp_all add: evidence_agrees_def ev j axis_member_def SurfaceAxis_def RadiusJson_def AxisJson_def
          Point_PointJson jfind_make_object)
qed

lemma edge_agrees:
  assumes "edge_members K s = Inr ms" and "DescribeTopologyEvidence (measures_of (k_gp K) (k_geom K)) ''edge'' s = Inr ev"
    and "\<And>k. k \<in> {''area'', ''length'', ''radius'', ''axis''} \<Longrightarrow> jfind j k = map_of (rev ms) k"
  shows "evidence_agrees j ev"
proof -
  have ev: "jfind ev ''measure'' = Some (JFloat (EdgeLength K s))"
    "jfind ev ''axis'' = Some (AxisJson (if g_degenerated (k_geom K) s then None else CurveAxis (k_geom K) s))"
    "jfind ev ''radius'' = Some (RadiusJson (if g_degenerated (k_geom K) s then None
       else case CurveRadius (k_geom K) s of Inr r \<Rightarrow> r | Inl _ \<Rightarrow> None))"
    unfolding evidence_row(2) [OF assms(2)]
    by (simp_all add: jfind_make_object measures_of_def EdgeLength_def EdgeAxis_def EdgeRadius_def)
  have samples: "map_of (rev (sample_points K s)) k = None" if "k \<noteq> ''samplePoints''" for k
    using that by (cases "g_curve_parameters (k_geom K) s") (simp add: sample_points_def Let_def)
  let ?loc = "g_curve_location (k_geom K) s" and ?dir = "CurveAxis (k_geom K) s" and ?kind = "g_curve (k_geom K) s"
  let ?r = "if g_degenerated (k_geom K) s then []
            else (if ?kind = Circle_curve then [(''radius'', JFloat (g_curve_radius (k_geom K) s))] else []) @
                 (if ?kind \<in> {Circle_curve, Line_curve, Ellipse_curve} then axis_member ?loc ?dir else [])"
  have "ms = [(''length'', JFloat (EdgeLength K s)), (''curve'', JString (CurveEnum (CurveClass (k_geom K) s)))] @
          (if g_degenerated (k_geom K) s then [] else sample_points K s) @ ?r"
    using assms(1) by (cases ?kind) (auto simp: edge_members_def CircleEdgeRadius_def)
  then have j: "jfind j ''length'' = Some (JFloat (EdgeLength K s))" "jfind j ''area'' = None"
    "jfind j ''radius'' = map_of (rev ?r) ''radius''" "jfind j ''axis'' = map_of (rev ?r) ''axis''"
    by (simp_all add: assms(3) samples map_add_def axis_member_def split: option.splits)
  show ?thesis
    by (cases "g_degenerated (k_geom K) s"; cases ?kind)
       (simp_all add: evidence_agrees_def ev j axis_member_def CurveAxis_def RadiusJson_def AxisJson_def
          Point_PointJson jfind_make_object)
qed

text \<open>The query path and the topology harvest agree: the area or length, the radius and the axis
  direction a resolved face or edge carries are those of the evidence row of its shape.\<close>

theorem query_projection_matches_evidence:
  assumes "ResolvedEntityToJson K e = Inr j" and "ent_kind e \<in> {CHR ''f'', CHR ''e''}"
    and "DescribeTopologyEvidence (measures_of (k_gp K) (k_geom K)) (kind_name (ent_kind e)) (ent_shape e) = Inr ev"
  shows "evidence_agrees j ev"
proof -
  obtain c ms where c: "kind_members K e = Inr ms"
    and j: "j = with_adjHash e (make_object ([(''token'', JString (ent_token e)), (''kind'', JString (kind_name (ent_kind e))),
              (''bodyId'', JString (ent_bodyId e)), (''centroid'', PointJson c)] @ ms))"
    using assms(1) by (auto simp: ResolvedEntityToJson_def ResolvedEntityToJsonCore_def rbind_eq_Inr)
  have k: "jfind j k = map_of (rev ms) k" if "k \<in> {''area'', ''length'', ''radius'', ''axis''}" for k
    using that by (subst j, subst jfind_with_adjHash) (auto simp: map_add_def split: option.splits)
  show ?thesis
  proof (cases "ent_kind e = CHR ''f''")
    case True
    then show ?thesis using c assms(3) face_agrees [OF _ _ k] by (simp add: kind_members_def kind_name_def)
  next
    case False
    then have "ent_kind e = CHR ''e''" using assms(2) by simp
    then show ?thesis using c assms(3) edge_agrees [OF _ _ k] by (simp add: kind_members_def kind_name_def)
  qed
qed

end
