(* ===== verification/Selector_Properties.thy ===== *)
theory Selector_Properties
  imports Ref_Properties Selector_Laws Selector_Topology
begin

text \<open>
  The properties of the selector evaluator and of the measures on concrete inputs: the body with
  three faces of theory \<open>Ref_Properties\<close>, a scope that names it twice, a union filter, an edge with
  two incident faces.
\<close>

theorem query_outcome_invariant_witness:
  "outcome_ok sample_kernel sample_ast [sample_body] sample_registry False sample_out"
  by (rule query_outcome_invariant [OF sample_query])

section \<open>A repeated source\<close>

definition repeated_ast :: json where
  "repeated_ast = JObject [(''kind'', JString ''faces''),
     (''scope'', JArray [JObject [(''source'', JString ''all'')], JObject [(''source'', JString ''all'')]])]"

lemma sample_expand_again:
  "expand_bodies sample_kernel sample_ctx (CHR ''f'') FACE [sample_body] sample_entities = Inr sample_entities"
  by (simp add: expand_bodies_def add_shape_def sample_make set_Add_def sample_entities_def)

lemma repeated_set: "EvaluateToSet sample_kernel sample_ctx repeated_ast no_notes = Inr (sample_entities, [3], no_notes)"
  using sample_expand sample_expand_again
  by (subst EvaluateToSet.simps)
     (simp add: expand_scope_def repeated_ast_def HeadKindChar_def ExpandSource_def TopAbsOf_def query_filters_def
        query_context_def sample_nth)

lemma repeated_query:
  "EvaluateQuery sample_kernel repeated_ast [sample_body] sample_registry False = Inr sample_out"
  by (simp add: EvaluateQuery_def EvaluateQueryCore_def repeated_set sample_sorted sample_enriched sample_no_notes)

lemma scope_facts:
  "jat sample_ast ''kind'' = jat repeated_ast ''kind''"
  "jat sample_ast ''scope'' = Inr (JArray [JObject [(''source'', JString ''all'')]])"
  "jat repeated_ast ''scope'' = Inr (JArray [JObject [(''source'', JString ''all'')], JObject [(''source'', JString ''all'')]])"
  "query_filters sample_ast = []" "query_filters repeated_ast = []"
  "distinct (map ent_token (out_entities sample_out))"
  by (simp_all add: sample_ast_def repeated_ast_def query_filters_def sample_entities_def sample_entity_def)

theorem scope_order_irrelevant_witness:
  "\<exists>out'. EvaluateQuery sample_kernel repeated_ast [sample_body] sample_registry False = Inr out' \<and>
     out_entities sample_out = out_entities out'"
  using scope_order_irrelevant [OF sample_query repeated_query scope_facts(1-3) _ scope_facts(4-6)] repeated_query by auto

section \<open>A union\<close>

definition union_filter :: json where
  "union_filter = JObject [(''args'', JArray [JObject [(''arg'', JString ''query''), (''value'', sample_ast)]]), (''name'', JString ''union'')]"

lemma union_operand: "QueryArg (filter_args union_filter) 0 = Inr sample_ast" "jat union_filter ''name'' = Inr (JString ''union'')"
  by (simp_all add: union_filter_def filter_args_def QueryArg_def tagged_arg_def ArgAt_def jat_index_def)

lemma union_nested: "nested_query sample_kernel sample_ctx sample_ast no_notes = Inr (sample_entities, no_notes)"
  by (simp add: nested_query_def sample_set)

lemma union_applied:
  "ApplyFilter sample_kernel sample_ctx (nested_query sample_kernel sample_ctx) union_filter [sample_entity 30 ''t3'' ''n3''] no_notes =
     Inr ([sample_entity 30 ''t3'' ''n3'', sample_entity 10 ''t1'' ''n1'', sample_entity 20 ''t2'' ''n2''], no_notes)"
  by (simp add: ApplyFilter_def union_operand union_nested local_filter_def nested_filter_def analytic_surfaces_def
      analytic_curves_def filter_union_def)
     (simp add: set_Add_def sample_entities_def sample_entity_def)

theorem set_filters_algebra_witness:
  "shapes_of [sample_entity 30 ''t3'' ''n3'', sample_entity 10 ''t1'' ''n1'', sample_entity 20 ''t2'' ''n2''] =
     shapes_of [sample_entity 30 ''t3'' ''n3''] \<union> shapes_of sample_entities"
  using set_filters_algebra [OF union_applied union_operand(2,1) union_nested] by blast

section \<open>Measures\<close>

theorem query_projection_matches_evidence_witness:
  "\<exists>ev. DescribeTopologyEvidence (measures_of (k_gp sample_kernel) (k_geom sample_kernel)) ''face'' 10 = Inr ev \<and>
     evidence_agrees (sample_candidate ''t1'') ev"
proof -
  obtain ev where ev: "DescribeTopologyEvidence (measures_of (k_gp sample_kernel) (k_geom sample_kernel)) ''face'' 10 = Inr ev"
    by (simp add: DescribeTopologyEvidence_def)
  have "evidence_agrees (sample_candidate ''t1'') ev"
    by (rule query_projection_matches_evidence [OF sample_json(1) [of "''t1''" "''n1''"]])
       (use ev in \<open>simp_all add: sample_entity_def kind_name_def\<close>)
  with ev show ?thesis by blast
qed

theorem Canonicalize_undirected_witness:
  "Canonicalize (f64_neg 0x3FF0000000000000, f64_neg 0, f64_neg 0) = Canonicalize (0x3FF0000000000000, 0, 0)"
  by (rule Canonicalize_undirected) (simp add: f64_arith_eval)

definition sample_corner :: "nat geom" where
  "sample_corner = sample_geom\<lparr>g_ancestors := (\<lambda>_ _ _ _. Some [1, 2]), g_curve_range := (\<lambda>_. Some (0, 0)),
     g_explore := (\<lambda>_ _. [(3, FORWARD)]), g_normal_at := (\<lambda>_ _. Some (0, 0, 0))\<rparr>"

theorem ClassifyDihedral_samples_witness:
  "ClassifyDihedral (k_libm sample_kernel) (k_gp sample_kernel) sample_corner 0 3 (f64_of_nat 2) =
     rbind (rmap (dihedral_angle (k_libm sample_kernel) (k_gp sample_kernel) sample_corner 3 1 2 (0, 0)) kDihedralSampleFractions)
       (\<lambda>ts. Inr (class_of_samples ts))"
  by (rule ClassifyDihedral_samples)
     (simp_all add: sample_corner_def kDihedralFixedThresholdDegrees_def f64_eval Let_def)

end
