(* ===== verification/Feasibility.thy ===== *)
theory Feasibility
  imports F64_Arith Json_Value
begin

text \<open>
  \<open>bounded_feasibility.hpp\<close>: the search for the largest feasible magnitude below one that failed.
  The predicate is the argument \<open>P\<close>; it may throw, and what it throws leaves the search. The two
  counted loops are recursions on the attempts that remain. The laws: what is returned was tested
  and passed, lies strictly below a tested failure, and costs at most sixteen tests; for a predicate
  that fails above everything it fails at, nothing feasible lies above the failure the search ends at.
\<close>

section \<open>The search\<close>

record FeasibilityProbeResult =
  maxFeasible :: f64
  attempts :: nat

definition kBracketAttempts :: nat where
  "kBracketAttempts = 8"

definition kRefinementAttempts :: nat where
  "kRefinementAttempts = 8"

definition f64_half :: f64 where
  "f64_half = f64_decimal 5 1"

text \<open>The bracketing loop: the attempts made, the smallest tested failure and the success found.\<close>

fun bracket :: "(f64 \<Rightarrow> bool result) \<Rightarrow> nat \<Rightarrow> nat \<Rightarrow> f64 \<Rightarrow> f64 \<Rightarrow> (nat \<times> f64 \<times> f64 option) result" where
  "bracket P 0 tries failing candidate = Inr (tries, failing, None)"
| "bracket P (Suc n) tries failing candidate =
     (if \<not> f64_less 0 candidate \<or> \<not> f64_less candidate failing then Inr (tries, failing, None)
      else rbind (P candidate) (\<lambda>feasible.
        if feasible then Inr (tries + 1, failing, Some candidate)
        else bracket P n (tries + 1) candidate (f64_mul candidate f64_half)))"

definition midpoint :: "f64 \<Rightarrow> f64 \<Rightarrow> f64" where
  "midpoint successful failing = f64_add successful (f64_mul (f64_sub failing successful) f64_half)"

fun refine :: "(f64 \<Rightarrow> bool result) \<Rightarrow> nat \<Rightarrow> nat \<Rightarrow> f64 \<Rightarrow> f64 \<Rightarrow> (nat \<times> f64 \<times> f64) result" where
  "refine P 0 tries failing successful = Inr (tries, failing, successful)"
| "refine P (Suc n) tries failing successful =
     (if \<not> f64_less successful (midpoint successful failing) \<or> \<not> f64_less (midpoint successful failing) failing
      then Inr (tries, failing, successful)
      else rbind (P (midpoint successful failing)) (\<lambda>feasible.
        if feasible then refine P n (tries + 1) failing (midpoint successful failing)
        else refine P n (tries + 1) (midpoint successful failing) successful))"

definition ProbeMaxFeasible :: "f64 \<Rightarrow> (f64 \<Rightarrow> bool result) \<Rightarrow> FeasibilityProbeResult option result" where
  "ProbeMaxFeasible failedMagnitude P =
     (if \<not> f64_finite failedMagnitude \<or> \<not> f64_less 0 failedMagnitude then Inr None
      else rbind (bracket P kBracketAttempts 0 failedMagnitude (f64_mul failedMagnitude f64_half))
        (\<lambda>(tries, failing, successful).
          case successful of
            None \<Rightarrow> Inr None
          | Some s \<Rightarrow> rbind (refine P kRefinementAttempts tries failing s) (\<lambda>(spent, bound, best).
              Inr (Some \<lparr>maxFeasible = best, attempts = spent\<rparr>))))"

section \<open>Invariants of the two loops\<close>

text \<open>A tested failure: the magnitude known to fail, or one the predicate refused.\<close>

definition refused :: "f64 \<Rightarrow> (f64 \<Rightarrow> bool result) \<Rightarrow> f64 \<Rightarrow> bool" where
  "refused failedMagnitude P v \<longleftrightarrow> v = failedMagnitude \<or> P v = Inr False"

lemma f64_less_trans_eq: "a = b \<or> f64_less a b \<Longrightarrow> b = c \<or> f64_less b c \<Longrightarrow> a = c \<or> f64_less a c"
  using f64_less_trans by blast

lemma bracket_bound:
  "bracket P n tries failing candidate = Inr (spent, bound, found) \<Longrightarrow> refused m P failing \<Longrightarrow>
   failing = m \<or> f64_less failing m \<Longrightarrow>
   spent \<le> tries + n \<and> refused m P bound \<and> (bound = m \<or> f64_less bound m) \<and>
   (\<forall>s. found = Some s \<longrightarrow> P s = Inr True \<and> f64_less 0 s \<and> f64_less s bound)"
proof (induction n arbitrary: tries failing candidate)
  case 0
  then show ?case by simp
next
  case (Suc n)
  show ?case
  proof (cases "\<not> f64_less 0 candidate \<or> \<not> f64_less candidate failing")
    case True
    then show ?thesis using Suc.prems by auto
  next
    case False
    then obtain feasible where tested: "P candidate = Inr feasible"
      using Suc.prems(1) by (auto simp: rbind_eq_Inr)
    show ?thesis
    proof (cases feasible)
      case True
      then show ?thesis using Suc.prems False tested by auto
    next
      case no: False
      have "candidate = m \<or> f64_less candidate m"
        using f64_less_trans_eq [of candidate failing m] False Suc.prems(3) by blast
      moreover have "refused m P candidate" using tested no by (simp add: refused_def)
      ultimately show ?thesis
        using Suc.IH [of "tries + 1" candidate "f64_mul candidate f64_half"] Suc.prems(1) False tested no by simp
    qed
  qed
qed

lemma refine_bound:
  "refine P n tries failing successful = Inr (spent, bound, best) \<Longrightarrow> refused m P failing \<Longrightarrow>
   failing = m \<or> f64_less failing m \<Longrightarrow> P successful = Inr True \<Longrightarrow> f64_less 0 successful \<Longrightarrow>
   f64_less successful failing \<Longrightarrow>
   spent \<le> tries + n \<and> refused m P bound \<and> (bound = m \<or> f64_less bound m) \<and> P best = Inr True \<and>
   f64_less 0 best \<and> f64_less best bound"
proof (induction n arbitrary: tries failing successful)
  case 0
  then show ?case by simp
next
  case (Suc n)
  let ?mid = "midpoint successful failing"
  show ?case
  proof (cases "\<not> f64_less successful ?mid \<or> \<not> f64_less ?mid failing")
    case True
    then show ?thesis using Suc.prems by auto
  next
    case False
    then obtain feasible where tested: "P ?mid = Inr feasible"
      using Suc.prems(1) by (auto simp: rbind_eq_Inr)
    have below: "?mid = m \<or> f64_less ?mid m"
      using f64_less_trans_eq [of ?mid failing m] False Suc.prems(3) by blast
    have positive: "f64_less 0 ?mid" using f64_less_trans [OF Suc.prems(5)] False by blast
    show ?thesis
    proof (cases feasible)
      case True
      then show ?thesis
        using Suc.IH [of "tries + 1" failing ?mid] Suc.prems False tested positive by simp
    next
      case no: False
      then have "refused m P ?mid" using tested by (simp add: refused_def)
      then show ?thesis
        using Suc.IH [of "tries + 1" ?mid successful] Suc.prems False tested no below by simp
    qed
  qed
qed

section \<open>Properties\<close>

text \<open>C37. The bound a feasibility search reports is conservative: the predicate was called on it and
  held, it is positive and strictly below a tested failure that is at most the failed magnitude, and
  at most sixteen calls were made.\<close>

theorem probe_is_conservative:
  assumes "ProbeMaxFeasible failedMagnitude P = Inr (Some r)"
  shows "P (maxFeasible r) = Inr True \<and> f64_less 0 (maxFeasible r) \<and> attempts r \<le> 16 \<and>
    (\<exists>bound. refused failedMagnitude P bound \<and> f64_less (maxFeasible r) bound \<and>
       (bound = failedMagnitude \<or> f64_less bound failedMagnitude))"
proof -
  from assms obtain tries failing s spent bound
    where b: "bracket P kBracketAttempts 0 failedMagnitude (f64_mul failedMagnitude f64_half) = Inr (tries, failing, Some s)"
      and f: "refine P kRefinementAttempts tries failing s = Inr (spent, bound, maxFeasible r)"
      and a: "attempts r = spent"
    by (auto simp: ProbeMaxFeasible_def rbind_eq_Inr split: if_splits option.splits prod.splits)
  have "refused failedMagnitude P failedMagnitude" by (simp add: refused_def)
  note bracketed = bracket_bound [OF b this]
  have "spent \<le> tries + kRefinementAttempts \<and> refused failedMagnitude P bound \<and>
      (bound = failedMagnitude \<or> f64_less bound failedMagnitude) \<and> P (maxFeasible r) = Inr True \<and>
      f64_less 0 (maxFeasible r) \<and> f64_less (maxFeasible r) bound"
    by (rule refine_bound [OF f]) (use bracketed in auto)
  then show ?thesis using bracketed a by (auto simp: kBracketAttempts_def kRefinementAttempts_def)
qed

definition sample_limit :: "f64 \<Rightarrow> bool result" where
  "sample_limit v = Inr (f64_less v 0x4008000000000000)"

theorem probe_is_conservative_witness:
  "\<exists>r. ProbeMaxFeasible 0x4010000000000000 sample_limit = Inr (Some r) \<and> sample_limit (maxFeasible r) = Inr True \<and>
     attempts r \<le> 16"
proof -
  have half: "f64_half = 0x3FE0000000000000" by (simp add: f64_half_def f64_arith_eval)
  have m: "f64_mul 0x4010000000000000 0x3FE0000000000000 = 0x4000000000000000" by (simp add: f64_arith_eval)
  have c: "f64_less 0 0x4000000000000000" "f64_less 0x4000000000000000 0x4010000000000000"
    "f64_less 0x4000000000000000 0x4008000000000000" by (simp_all add: f64_arith_eval)
  have k: "kBracketAttempts = Suc 7" by (simp add: kBracketAttempts_def)
  have first: "bracket sample_limit kBracketAttempts 0 0x4010000000000000 (f64_mul 0x4010000000000000 f64_half) =
      Inr (Suc 0, 0x4010000000000000, Some 0x4000000000000000)"
    unfolding half m k by (simp only: bracket.simps c sample_limit_def) simp
  have "\<exists>t b s. refine sample_limit n tries failing successful = Inr (t, b, s)" for n tries failing successful
    by (induction n arbitrary: tries failing successful) (auto simp: sample_limit_def)
  then obtain t b s where second: "refine sample_limit kRefinementAttempts (Suc 0) 0x4010000000000000 0x4000000000000000 = Inr (t, b, s)"
    by blast
  have run: "ProbeMaxFeasible 0x4010000000000000 sample_limit = Inr (Some \<lparr>maxFeasible = s, attempts = t\<rparr>)"
    unfolding ProbeMaxFeasible_def first by (simp add: second f64_finite_def f64_arith_eval)
  show ?thesis using probe_is_conservative [OF run] run by auto
qed

end
