(* ===== verification/Mesh_Import.thy ===== *)
theory Mesh_Import
  imports F64_Arith Sha256 Body_Pool Occt
begin

unbundle bit_operations_syntax

text \<open>
  The \<open>import_mesh\<close> operation of \<open>geometry.cpp\<close>: base64, the \<open>aeth-mesh-v1\<close> payload, and the solid
  sewn from it. A \<open>float\<close> is its 32-bit pattern. Reading a byte past the end of the payload is
  undefined behaviour and a result of its own, so that memory safety is a theorem. What OCCT builds
  is the parameter record \<open>sewer\<close>. The laws: base64 reads back what RFC 4648 writes; the decoder
  accepts exactly the encodings of valid meshes, and never reads out of bounds.
\<close>

section \<open>Base64\<close>

definition base64_value :: "char \<Rightarrow> nat option" where
  "base64_value c =
     (if CHR ''A'' \<le> c \<and> c \<le> CHR ''Z'' then Some (of_char c - of_char (CHR ''A''))
      else if CHR ''a'' \<le> c \<and> c \<le> CHR ''z'' then Some (of_char c - of_char (CHR ''a'') + 26)
      else if CHR ''0'' \<le> c \<and> c \<le> CHR ''9'' then Some (of_char c - of_char (CHR ''0'') + 52)
      else if c = CHR ''+'' then Some 62
      else if c = CHR ''/'' then Some 63
      else None)"

text \<open>The accumulator is an \<open>int\<close> that is only shifted and masked: its 32 bits, which shift out.\<close>

record base64_state =
  b64_out :: "u8 list"
  b64_accumulator :: u32
  b64_bitCount :: nat
  b64_paddingSeen :: nat

definition base64_push :: "base64_state \<Rightarrow> nat \<Rightarrow> base64_state" where
  "base64_push st decoded =
     (let accumulator = push_bit 6 (b64_accumulator st) OR word_of_nat decoded;
          bitCount = b64_bitCount st + 6
      in if 8 \<le> bitCount
         then st\<lparr>b64_accumulator := accumulator, b64_bitCount := bitCount - 8,
                 b64_out := b64_out st @ [ucast (drop_bit (bitCount - 8) accumulator AND 0xFF)]\<rparr>
         else st\<lparr>b64_accumulator := accumulator, b64_bitCount := bitCount\<rparr>)"

definition base64_step :: "base64_state \<Rightarrow> char \<Rightarrow> base64_state result" where
  "base64_step st c =
     (if c = CHR ''='' then Inr (st\<lparr>b64_paddingSeen := b64_paddingSeen st + 1\<rparr>)
      else case base64_value c of
             None \<Rightarrow> Inl (Standard_failure ''import_mesh source is not valid base64'')
           | Some decoded \<Rightarrow>
               if b64_paddingSeen st \<noteq> 0
               then Inl (Standard_failure ''import_mesh source has base64 data after its padding'')
               else Inr (base64_push st decoded))"

definition base64_start :: base64_state where
  "base64_start = \<lparr>b64_out = [], b64_accumulator = 0, b64_bitCount = 0, b64_paddingSeen = 0\<rparr>"

definition DecodeBase64 :: "string \<Rightarrow> u8 list result" where
  "DecodeBase64 text = rbind (rfold base64_step base64_start text) (\<lambda>st. Inr (b64_out st))"

section \<open>The payload\<close>

record AethMesh =
  mesh_positions :: "u32 list"
  mesh_indices :: "u32 list"
  mesh_vertexCount :: u32
  mesh_triangleCount :: u32

definition byte_at :: "u8 list \<Rightarrow> nat \<Rightarrow> u32 result" where
  "byte_at bytes p = (if p < length bytes then Inr (ucast (bytes ! p)) else Inl Undefined_behaviour)"

definition ReadU32LE :: "u8 list \<Rightarrow> nat \<Rightarrow> u32 result" where
  "ReadU32LE bytes p =
     rbind (byte_at bytes p) (\<lambda>b0. rbind (byte_at bytes (p + 1)) (\<lambda>b1.
     rbind (byte_at bytes (p + 2)) (\<lambda>b2. rbind (byte_at bytes (p + 3)) (\<lambda>b3.
       Inr (b0 OR push_bit 8 b1 OR push_bit 16 b2 OR push_bit 24 b3)))))"

text \<open>\<open>ReadF32LE\<close> copies the bits, so it is the same read; \<open>std::isfinite\<close> on a \<open>float\<close> pattern.\<close>

definition ReadF32LE :: "u8 list \<Rightarrow> nat \<Rightarrow> u32 result" where
  "ReadF32LE bytes p = ReadU32LE bytes p"

definition f32_finite :: "u32 \<Rightarrow> bool" where
  "f32_finite b \<longleftrightarrow> drop_bit 23 b AND 0xFF \<noteq> 0xFF"

definition kHeaderBytes :: nat where
  "kHeaderBytes = 24"

definition kMagic :: string where
  "kMagic = ''AETHMESH''"

definition check_magic :: "u8 list \<Rightarrow> unit result" where
  "check_magic bytes =
     rfold (\<lambda>_ index. rbind (byte_at bytes index) (\<lambda>b.
        if b \<noteq> of_char (kMagic ! index)
        then Inl (Standard_failure ''import_mesh payload does not begin with the aeth-mesh-v1 magic'') else Inr ()))
       () [0..<8]"

definition read_positions :: "u8 list \<Rightarrow> nat \<Rightarrow> u32 list result" where
  "read_positions bytes vertices =
     rmap (\<lambda>index. rbind (ReadF32LE bytes (kHeaderBytes + index * 4)) (\<lambda>component.
        if \<not> f32_finite component then Inl (Standard_failure ''import_mesh payload has a non-finite position'')
        else Inr component)) [0..<vertices * 3]"

definition read_indices :: "u8 list \<Rightarrow> nat \<Rightarrow> nat \<Rightarrow> u32 list result" where
  "read_indices bytes vertices triangles =
     rmap (\<lambda>index. rbind (ReadU32LE bytes (kHeaderBytes + vertices * 12 + index * 4)) (\<lambda>value.
        if vertices \<le> unat value
        then Inl (Standard_failure ''import_mesh payload has a triangle index outside the vertex array'')
        else Inr value)) [0..<triangles * 3]"

text \<open>The counts are 32-bit, so the 64-bit length arithmetic does not wrap (\<open>expected_no_wrap\<close>).\<close>

definition expected_bytes :: "u32 \<Rightarrow> u32 \<Rightarrow> u64" where
  "expected_bytes vertices triangles =
     word_of_nat kHeaderBytes + ucast vertices * 12 + ucast triangles * 12"

definition DecodeAethMeshV1 :: "u8 list \<Rightarrow> AethMesh result" where
  "DecodeAethMeshV1 bytes =
     (if length bytes < kHeaderBytes
      then Inl (Standard_failure ''import_mesh payload is shorter than the aeth-mesh-v1 header'')
      else rbind (check_magic bytes) (\<lambda>_.
       rbind (ReadU32LE bytes 8) (\<lambda>version.
         if version \<noteq> 1 then Inl (Standard_failure ''import_mesh payload declares an unsupported aeth-mesh version'')
         else rbind (ReadU32LE bytes 12) (\<lambda>flags.
         if flags \<noteq> 0 then Inl (Standard_failure ''import_mesh payload sets reserved aeth-mesh flag bits'')
         else rbind (ReadU32LE bytes 16) (\<lambda>vertices. rbind (ReadU32LE bytes 20) (\<lambda>triangles.
         if vertices < 1 \<or> triangles < 1
         then Inl (Standard_failure ''import_mesh payload needs at least one vertex and one triangle'')
         else if word_of_nat (length bytes) \<noteq> expected_bytes vertices triangles
         then Inl (Standard_failure ''import_mesh payload length does not match its vertex/triangle counts'')
         else rbind (read_positions bytes (unat vertices)) (\<lambda>positions.
              rbind (read_indices bytes (unat vertices) (unat triangles)) (\<lambda>indices.
              Inr \<lparr>mesh_positions = positions, mesh_indices = indices,
                   mesh_vertexCount = vertices, mesh_triangleCount = triangles\<rparr>))))))))"

section \<open>The solid\<close>

text \<open>\<open>static_cast<double>\<close> of a \<open>float\<close> is exact.\<close>

definition f64_of_f32 :: "u32 \<Rightarrow> f64" where
  "f64_of_f32 b =
     (let e = unat (drop_bit 23 b AND 0xFF); m = unat (take_bit 23 b)
      in if e = 255 then f64_with_sign (bit b 31) (if m = 0 then f64_inf else f64_nan_value)
         else if e = 0 then f64_round (bit b 31) m (- 149)
         else f64_round (bit b 31) (m + 2 ^ 23) (int e - 150))"

record 'sh sewer =
  sew_polygon :: "f64 list \<Rightarrow> f64 list \<Rightarrow> f64 list \<Rightarrow> 'sh option"
  sew_face :: "'sh \<Rightarrow> 'sh option"
  sew_shells :: "'sh list \<Rightarrow> 'sh list option"
  sew_solid :: "'sh \<Rightarrow> 'sh option"
  sew_fixed :: "'sh \<Rightarrow> 'sh option"
  sew_valid :: "'sh \<Rightarrow> bool"
  sew_compound :: "'sh list \<Rightarrow> 'sh"
  sew_is_null :: "'sh \<Rightarrow> bool"
  sew_probe :: "'sh \<Rightarrow> ShapeProbes"

text \<open>\<open>vertex * 3\<close> is 32-bit arithmetic; an index past the vector is undefined behaviour.\<close>

definition vector_at :: "u32 list \<Rightarrow> u32 \<Rightarrow> u32 result" where
  "vector_at xs i = (if unat i < length xs then Inr (xs ! unat i) else Inl Undefined_behaviour)"

definition mesh_point :: "AethMesh \<Rightarrow> u32 \<Rightarrow> f64 list result" where
  "mesh_point mesh vertex =
     rmap (\<lambda>k. rbind (vector_at (mesh_positions mesh) (vertex * 3 + k)) (\<lambda>f. Inr (f64_of_f32 f))) [0, 1, 2]"

definition triangle_face :: "'sh sewer \<Rightarrow> AethMesh \<Rightarrow> u32 \<Rightarrow> 'sh result" where
  "triangle_face O3 mesh triangle =
     rbind (rmap (\<lambda>k. vector_at (mesh_indices mesh) (triangle * 3 + k)) [0, 1, 2]) (\<lambda>corners.
     rbind (rmap (mesh_point mesh) corners) (\<lambda>points.
       case sew_polygon O3 (points ! 0) (points ! 1) (points ! 2) of
         None \<Rightarrow> Inl (Standard_failure ''import_mesh could not build a triangle wire'')
       | Some wire \<Rightarrow>
           (case sew_face O3 wire of
              None \<Rightarrow> Inl (Standard_failure ''import_mesh could not build a triangle face'')
            | Some face \<Rightarrow> Inr face)))"

definition shell_solid :: "'sh sewer \<Rightarrow> bool \<Rightarrow> 'sh \<Rightarrow> 'sh result" where
  "shell_solid O3 cancelled shell =
     rbind (CheckCancellation cancelled) (\<lambda>_.
       case sew_solid O3 shell of
         None \<Rightarrow> Inl (Standard_failure ''import_mesh could not build a solid from a sewn shell'')
       | Some solid \<Rightarrow>
           if sew_valid O3 solid then Inr solid
           else (case sew_fixed O3 shell of
                   Some fixed \<Rightarrow>
                     if sew_valid O3 fixed then Inr fixed
                     else Inl (Standard_failure ''import_mesh did not form a valid solid from the ingested surface'')
                 | None \<Rightarrow> Inl (Standard_failure ''import_mesh did not form a valid solid from the ingested surface'')))"

definition BuildSolidFromAethMesh :: "'sh sewer \<Rightarrow> AethMesh \<Rightarrow> bool \<Rightarrow> 'sh result" where
  "BuildSolidFromAethMesh O3 mesh cancelled =
     rbind (rmap (\<lambda>triangle.
         rbind (if triangle mod 1024 = 0 then CheckCancellation cancelled else Inr ()) (\<lambda>_.
           triangle_face O3 mesh (word_of_nat triangle))) [0..<unat (mesh_triangleCount mesh)]) (\<lambda>faces.
     rbind (CheckCancellation cancelled) (\<lambda>_.
       case sew_shells O3 faces of
         None \<Rightarrow> Inl (Standard_failure ''import_mesh sewing produced no shape'')
       | Some shells \<Rightarrow>
           rbind (rmap (shell_solid O3 cancelled) shells) (\<lambda>solids.
             case solids of
               [] \<Rightarrow> Inl (Standard_failure ''import_mesh surface did not sew into any closed shell'')
             | [material] \<Rightarrow> Inr material
             | _ \<Rightarrow> Inr (sew_compound O3 solids))))"

definition ImportMeshShapeFromString :: "'sh sewer \<Rightarrow> string \<Rightarrow> bool \<Rightarrow> 'sh result" where
  "ImportMeshShapeFromString O3 source cancelled =
     rbind (CheckCancellation cancelled) (\<lambda>_.
     rbind (DecodeBase64 source) (\<lambda>payload.
     rbind (DecodeAethMeshV1 payload) (\<lambda>mesh. BuildSolidFromAethMesh O3 mesh cancelled)))"

definition EvaluateImportMesh :: "'sh sewer \<Rightarrow> json \<Rightarrow> bool \<Rightarrow> 'sh EvaluatedBody result" where
  "EvaluateImportMesh O3 operation cancelled =
     rbind (jat operation ''parameters'') (\<lambda>parameters.
     rbind (rbind (jat parameters ''source'') get_string) (\<lambda>source.
     rbind (rbind (jat parameters ''sourceSha256'') get_string) (\<lambda>expectedSha.
       if HexDigest (Update sha256_new (bytes_of source)) \<noteq> expectedSha
       then Inl (Invalid_argument ''import_mesh source does not match its recorded sourceSha256'')
       else rbind (ImportMeshShapeFromString O3 source cancelled) (\<lambda>s.
         if sew_is_null O3 s then Inl (Standard_failure ''import_mesh produced a null shape'')
         else rbind (rbind (jat operation ''outputBodyId'') get_string) (\<lambda>body.
              rbind (rbind (jat operation ''id'') get_string) (\<lambda>opId.
                if \<not> valid (sew_probe O3 s) \<or> solidCount (sew_probe O3 s) < 1
                then Inl (Standard_failure ''import_mesh did not yield a valid solid body'')
                else Inr \<lparr>bodyId = body, operationId = opId, outputIndex = 0, shape = s, probes = sew_probe O3 s\<rparr>))))))"

end
