(* ===== verification/Mesh_Import_Laws.thy ===== *)
theory Mesh_Import_Laws
  imports Mesh_Import
begin

unbundle bit_operations_syntax

text \<open>
  The laws of \<open>import_mesh\<close>. The format is specified by an encoder for each layer (RFC 4648, and
  \<open>aeth-mesh-v1\<close> as the comment above \<open>DecodeAethMeshV1\<close> lays it out); the decoders are their
  inverses, read nothing out of bounds, and a truncated source never becomes another mesh.
\<close>

section \<open>Loops that read\<close>

lemma rmap_upt: "rmap f [0..<n] = Inr xs \<longleftrightarrow> length xs = n \<and> (\<forall>i < n. f i = Inr (xs ! i))"
  by (auto simp: rmap_eq_Inr_iff list_all2_conv_all_nth)

lemma rmap_throws: "rmap f xs = Inl e \<Longrightarrow> \<exists>x \<in> set xs. f x = Inl e"
  by (induction xs) (auto simp: rbind_eq_Inl)

lemma rfold_throws: "rfold f s xs = Inl e \<Longrightarrow> \<exists>x \<in> set xs. \<exists>t. f t x = Inl e"
  by (induction xs arbitrary: s) (fastforce simp: rbind_eq_Inl)+

section \<open>Words in the payload\<close>

definition u32_bytes :: "u32 \<Rightarrow> u8 list" where
  "u32_bytes w = [ucast w, ucast (drop_bit 8 w), ucast (drop_bit 16 w), ucast (drop_bit 24 w)]"

lemma no_high_bits: "\<not> bit (b :: u8) (8 + n)" "\<not> bit (b :: u8) (16 + n)" "\<not> bit (b :: u8) (24 + n)"
  using bit_imp_le_length [of b "8 + n"] bit_imp_le_length [of b "16 + n"] bit_imp_le_length [of b "24 + n"] by auto

lemma u32_join_bytes:
  "(ucast b0 OR push_bit 8 (ucast b1) OR push_bit 16 (ucast b2) OR push_bit 24 (ucast b3) :: u32) = w \<longleftrightarrow>
   [b0, b1, b2, b3 :: u8] = u32_bytes w"
proof
  assume "ucast b0 OR push_bit 8 (ucast b1) OR push_bit 16 (ucast b2) OR push_bit 24 (ucast b3) = w"
  then show "[b0, b1, b2, b3] = u32_bytes w"
    by (auto simp: u32_bytes_def intro!: bit_word_eqI simp: bit_simps no_high_bits)
next
  assume "[b0, b1, b2, b3] = u32_bytes w"
  then have b: "b0 = ucast w" "b1 = ucast (drop_bit 8 w)" "b2 = ucast (drop_bit 16 w)" "b3 = ucast (drop_bit 24 w)"
    by (simp_all add: u32_bytes_def)
  show "ucast b0 OR push_bit 8 (ucast b1) OR push_bit 16 (ucast b2) OR push_bit 24 (ucast b3) = w"
  proof (rule bit_word_eqI)
    fix n assume "n < LENGTH(32)"
    then consider "n < 8" | "8 \<le> n" "n < 16" | "16 \<le> n" "n < 24" | "24 \<le> n" "n < 32" by fastforce
    then show "bit (ucast b0 OR push_bit 8 (ucast b1) OR push_bit 16 (ucast b2) OR push_bit 24 (ucast b3) :: u32) n = bit w n"
      unfolding b by cases (auto simp: bit_simps)
  qed
qed

lemma ReadU32LE_eq_Inr:
  "ReadU32LE bytes p = Inr w \<longleftrightarrow> p + 4 \<le> length bytes \<and> take 4 (drop p bytes) = u32_bytes w"
proof (cases "p + 4 \<le> length bytes")
  case True
  then have "take 4 (drop p bytes) = [bytes ! p, bytes ! (p + 1), bytes ! (p + 2), bytes ! (p + 3)]"
    by (simp add: list_eq_iff_nth_eq numeral_eq_Suc All_less_Suc)
  then show ?thesis using True u32_join_bytes [of "bytes ! p" "bytes ! (p + 1)" "bytes ! (p + 2)" "bytes ! (p + 3)" w]
    by (auto simp: ReadU32LE_def byte_at_def)
next
  case False
  then show ?thesis by (auto simp: ReadU32LE_def byte_at_def rbind_eq_Inr split: if_splits)
qed

lemma ReadU32LE_inside: "p + 4 \<le> length bytes \<Longrightarrow> \<exists>w. ReadU32LE bytes p = Inr w"
  by (simp add: ReadU32LE_def byte_at_def)

lemma length_u32_bytes [simp]: "length (u32_bytes w) = 4"
  by (simp add: u32_bytes_def)

lemma u32_bytes_inj [simp]: "u32_bytes v = u32_bytes w \<longleftrightarrow> v = w"
  using u32_join_bytes [of "ucast v" "ucast (drop_bit 8 v)" "ucast (drop_bit 16 v)" "ucast (drop_bit 24 v)"]
  by (metis u32_bytes_def)

definition words_bytes :: "u32 list \<Rightarrow> u8 list" where
  "words_bytes ws = concat (map u32_bytes ws)"

lemma length_words_bytes [simp]: "length (words_bytes ws) = 4 * length ws"
  unfolding words_bytes_def by (rule length_concat_const) simp

lemma words_bytes_at:
  "base \<le> length bytes \<Longrightarrow>
   (\<forall>i < length ws. base + i * 4 + 4 \<le> length bytes \<and> take 4 (drop (base + i * 4) bytes) = u32_bytes (ws ! i)) \<longleftrightarrow>
   base + 4 * length ws \<le> length bytes \<and> take (4 * length ws) (drop base bytes) = words_bytes ws"
proof (induction ws arbitrary: base)
  case Nil
  then show ?case by (simp add: words_bytes_def)
next
  case (Cons w ws)
  let ?at = "\<lambda>base i v. base + i * 4 + 4 \<le> length bytes \<and> take 4 (drop (base + i * 4) bytes) = u32_bytes v"
  have split: "(\<forall>i < length (w # ws). ?at base i ((w # ws) ! i)) \<longleftrightarrow>
      ?at base 0 w \<and> (\<forall>i < length ws. ?at (base + 4) i (ws ! i))"
    by (auto simp: less_Suc_eq_0_disj add.assoc)
  show ?case
  proof (cases "base + 4 \<le> length bytes")
    case True
    have "take (4 * length (w # ws)) (drop base bytes) =
        take 4 (drop base bytes) @ take (4 * length ws) (drop (base + 4) bytes)"
      using take_add [of 4 "4 * length ws" "drop base bytes"] by (simp add: add.commute)
    then show ?thesis using split Cons.IH [OF True] True
      by (auto simp: words_bytes_def append_eq_append_conv)
  qed (use split in auto)
qed

section \<open>The mesh format\<close>

definition EncodeAethMesh :: "AethMesh \<Rightarrow> u8 list" where
  "EncodeAethMesh m =
     bytes_of kMagic @ words_bytes ([1, 0, mesh_vertexCount m, mesh_triangleCount m] @ mesh_positions m @ mesh_indices m)"

definition mesh_ok :: "AethMesh \<Rightarrow> bool" where
  "mesh_ok m \<longleftrightarrow>
     mesh_vertexCount m \<noteq> 0 \<and> mesh_triangleCount m \<noteq> 0 \<and>
     length (mesh_positions m) = unat (mesh_vertexCount m) * 3 \<and>
     length (mesh_indices m) = unat (mesh_triangleCount m) * 3 \<and>
     (\<forall>p \<in> set (mesh_positions m). f32_finite p) \<and>
     (\<forall>i \<in> set (mesh_indices m). i < mesh_vertexCount m)"

lemma of_char_byte_nth: "index < length s \<Longrightarrow> bytes_of s ! index = of_char (s ! index)"
  by (simp add: bytes_of_def)

lemma rfold_checks: "rfold (\<lambda>_. g) () xs = Inr () \<longleftrightarrow> (\<forall>x \<in> set xs. g x = Inr ())"
  by (induction xs) (auto simp: rbind_eq_Inr)

lemma ucast_of_char: "ucast b = (of_char c :: u32) \<longleftrightarrow> (b :: u8) = of_char c"
proof -
  have "of_char c = (ucast (of_char c :: u8) :: u32)"
    by (metis of_nat_of_char of_nat_unat unat_of_char)
  moreover have "ucast (ucast b :: u32) = b" for b :: u8
    by (rule bit_word_eqI) (simp add: bit_simps)
  ultimately show ?thesis by metis
qed

lemma check_magic_iff: "8 \<le> length bytes \<Longrightarrow> check_magic bytes = Inr () \<longleftrightarrow> take 8 bytes = bytes_of kMagic"
proof -
  assume n: "8 \<le> length bytes"
  then have "check_magic bytes = Inr () \<longleftrightarrow> (\<forall>index \<in> set [0..<8]. bytes ! index = of_char (kMagic ! index))"
    unfolding check_magic_def rfold_checks by (auto simp: byte_at_def ucast_of_char)
  also have "\<dots> \<longleftrightarrow> take 8 bytes = bytes_of kMagic"
    using n by (auto simp: list_eq_iff_nth_eq kMagic_def of_char_byte_nth)
  finally show ?thesis .
qed

lemma check_magic_safe: "8 \<le> length bytes \<Longrightarrow> check_magic bytes \<noteq> Inl Undefined_behaviour"
  unfolding check_magic_def
  by (auto dest!: rfold_throws simp: byte_at_def rbind_eq_Inl split: if_splits)

section \<open>The decoder accepts the encodings of valid meshes\<close>

lemma expected_no_wrap:
  assumes "length bytes < 2 ^ 64"
  shows "word_of_nat (length bytes) = expected_bytes vertices triangles \<longleftrightarrow>
    length bytes = 24 + unat vertices * 12 + unat triangles * 12"
proof -
  have "unat vertices < 2 ^ 32" "unat triangles < 2 ^ 32"
    using unsigned_less [of vertices] unsigned_less [of triangles] by simp_all
  then have small: "24 + unat vertices * 12 + unat triangles * 12 < (2 :: nat) ^ 64" by simp
  have "expected_bytes vertices triangles = word_of_nat (24 + unat vertices * 12 + unat triangles * 12)"
    by (simp add: expected_bytes_def kHeaderBytes_def)
  then show ?thesis using assms small
    by (simp only: word_of_nat_eq_iff) (simp add: take_bit_nat_eq_self)
qed

lemma rbind_guard: "rbind m (\<lambda>c. if P c then Inl e else Inr c) = Inr x \<longleftrightarrow> m = Inr x \<and> \<not> P x"
  by (cases m) auto

lemma read_positions_iff:
  assumes "24 \<le> length bytes"
  shows "read_positions bytes n = Inr ps \<longleftrightarrow>
    length ps = n * 3 \<and> 24 + 4 * (n * 3) \<le> length bytes \<and> take (4 * (n * 3)) (drop 24 bytes) = words_bytes ps \<and>
    (\<forall>p \<in> set ps. f32_finite p)"
proof -
  have "read_positions bytes n = Inr ps \<longleftrightarrow> length ps = n * 3 \<and>
      (\<forall>i < length ps. 24 + i * 4 + 4 \<le> length bytes \<and> take 4 (drop (24 + i * 4) bytes) = u32_bytes (ps ! i)) \<and>
      (\<forall>i < length ps. f32_finite (ps ! i))"
    unfolding read_positions_def rmap_upt ReadF32LE_def kHeaderBytes_def
    by (auto simp: rbind_guard ReadU32LE_eq_Inr)
  then show ?thesis using words_bytes_at [OF assms, of ps] by (auto simp: all_set_conv_all_nth)
qed

lemma read_indices_iff:
  assumes "24 + n * 12 \<le> length bytes"
  shows "read_indices bytes n t = Inr js \<longleftrightarrow>
    length js = t * 3 \<and> 24 + n * 12 + 4 * (t * 3) \<le> length bytes \<and>
    take (4 * (t * 3)) (drop (24 + n * 12) bytes) = words_bytes js \<and> (\<forall>j \<in> set js. unat j < n)"
proof -
  have "read_indices bytes n t = Inr js \<longleftrightarrow> length js = t * 3 \<and>
      (\<forall>i < length js. 24 + n * 12 + i * 4 + 4 \<le> length bytes \<and>
         take 4 (drop (24 + n * 12 + i * 4) bytes) = u32_bytes (js ! i)) \<and>
      (\<forall>i < length js. unat (js ! i) < n)"
    unfolding read_indices_def rmap_upt kHeaderBytes_def
    by (auto simp: rbind_guard ReadU32LE_eq_Inr not_le)
  then show ?thesis using words_bytes_at [OF assms, of js] by (auto simp: all_set_conv_all_nth)
qed

lemma length_kMagic: "length (bytes_of kMagic) = 8"
  by (simp add: kMagic_def)

lemma words_bytes_append: "words_bytes (ws @ vs) = words_bytes ws @ words_bytes vs"
  by (simp add: words_bytes_def)

lemma words_bytes_header: "words_bytes [a, b, c, d] = u32_bytes a @ u32_bytes b @ u32_bytes c @ u32_bytes d"
  by (simp add: words_bytes_def)

lemma EncodeAethMesh_layout:
  assumes "length bytes = 24 + n * 12 + t * 12"
    and "length (mesh_positions m) = n * 3" and "length (mesh_indices m) = t * 3"
  shows "bytes = EncodeAethMesh m \<longleftrightarrow>
    take 8 bytes = bytes_of kMagic \<and> take 4 (drop 8 bytes) = u32_bytes 1 \<and> take 4 (drop 12 bytes) = u32_bytes 0 \<and>
    take 4 (drop 16 bytes) = u32_bytes (mesh_vertexCount m) \<and> take 4 (drop 20 bytes) = u32_bytes (mesh_triangleCount m) \<and>
    take (4 * (n * 3)) (drop 24 bytes) = words_bytes (mesh_positions m) \<and>
    take (4 * (t * 3)) (drop (24 + n * 12) bytes) = words_bytes (mesh_indices m)"
proof -
  have all: "take (4 * (t * 3)) (drop (24 + n * 12) bytes) = drop (24 + n * 12) bytes" using assms(1) by simp
  have "bytes = EncodeAethMesh m \<longleftrightarrow> EncodeAethMesh m = bytes" by auto
  then show ?thesis unfolding all
    by (simp only: EncodeAethMesh_def words_bytes_append words_bytes_header append_assoc append_eq_conv_conj
          length_kMagic length_u32_bytes length_words_bytes assms drop_drop)
      (simp, metis add.commute mult.commute)
qed

lemma length_EncodeAethMesh:
  "length (EncodeAethMesh m) = 24 + 4 * length (mesh_positions m) + 4 * length (mesh_indices m)"
  by (simp add: EncodeAethMesh_def kMagic_def)

text \<open>The mesh decoder is exact: it accepts a payload precisely when it is the encoding of a valid
  mesh (counts positive and matching, positions finite, every index inside the vertex array), and
  returns that mesh.\<close>

lemma DecodeAethMeshV1_exact:
  assumes "length bytes < 2 ^ 64"
  shows "DecodeAethMeshV1 bytes = Inr m \<longleftrightarrow> mesh_ok m \<and> bytes = EncodeAethMesh m"
proof
  assume d: "DecodeAethMeshV1 bytes = Inr m"
  then have n: "24 \<le> length bytes" by (auto simp: DecodeAethMeshV1_def kHeaderBytes_def split: if_splits)
  let ?v = "mesh_vertexCount m" and ?t = "mesh_triangleCount m"
  from d n have magic: "take 8 bytes = bytes_of kMagic"
    and heads: "ReadU32LE bytes 8 = Inr 1" "ReadU32LE bytes 12 = Inr 0" "ReadU32LE bytes 16 = Inr ?v" "ReadU32LE bytes 20 = Inr ?t"
    and counts: "?v \<noteq> 0" "?t \<noteq> 0" and len: "word_of_nat (length bytes) = expected_bytes ?v ?t"
    and ps: "read_positions bytes (unat ?v) = Inr (mesh_positions m)"
    and js: "read_indices bytes (unat ?v) (unat ?t) = Inr (mesh_indices m)"
    by (auto simp: DecodeAethMeshV1_def rbind_eq_Inr check_magic_iff not_less word_le_nat_alt word_less_nat_alt
        split: if_splits)
  have l: "length bytes = 24 + unat ?v * 12 + unat ?t * 12" using len by (simp add: expected_no_wrap [OF assms])
  have p: "length (mesh_positions m) = unat ?v * 3" "take (4 * (unat ?v * 3)) (drop 24 bytes) = words_bytes (mesh_positions m)"
    "\<forall>p \<in> set (mesh_positions m). f32_finite p"
    using ps n by (simp_all add: read_positions_iff)
  have j: "length (mesh_indices m) = unat ?t * 3"
    "take (4 * (unat ?t * 3)) (drop (24 + unat ?v * 12) bytes) = words_bytes (mesh_indices m)"
    "\<forall>j \<in> set (mesh_indices m). unat j < unat ?v"
    using js l by (simp_all add: read_indices_iff)
  show "mesh_ok m \<and> bytes = EncodeAethMesh m"
    using magic heads counts p j by (simp add: mesh_ok_def EncodeAethMesh_layout [OF l] ReadU32LE_eq_Inr word_less_nat_alt)
next
  assume m: "mesh_ok m \<and> bytes = EncodeAethMesh m"
  let ?v = "mesh_vertexCount m" and ?t = "mesh_triangleCount m"
  have ok: "?v \<noteq> 0" "?t \<noteq> 0" "length (mesh_positions m) = unat ?v * 3" "length (mesh_indices m) = unat ?t * 3"
    using m by (simp_all add: mesh_ok_def)
  have l: "length bytes = 24 + unat ?v * 12 + unat ?t * 12" using m ok by (simp add: length_EncodeAethMesh)
  note parts = m [THEN conjunct2, unfolded EncodeAethMesh_layout [OF l ok(3,4)]]
  have "read_positions bytes (unat ?v) = Inr (mesh_positions m)"
    using parts m l ok by (simp add: read_positions_iff mesh_ok_def)
  moreover have "read_indices bytes (unat ?v) (unat ?t) = Inr (mesh_indices m)"
    using parts m l ok by (simp add: read_indices_iff mesh_ok_def word_less_nat_alt)
  moreover have "ReadU32LE bytes 8 = Inr 1" "ReadU32LE bytes 12 = Inr 0" "ReadU32LE bytes 16 = Inr ?v" "ReadU32LE bytes 20 = Inr ?t"
    using parts l by (simp_all add: ReadU32LE_eq_Inr)
  moreover have "check_magic bytes = Inr ()" using parts l by (simp add: check_magic_iff)
  moreover have "word_of_nat (length bytes) = expected_bytes ?v ?t" using expected_no_wrap [OF assms] l by blast
  ultimately show "DecodeAethMeshV1 bytes = Inr m"
    using l ok by (simp add: DecodeAethMeshV1_def kHeaderBytes_def word_less_nat_alt unat_eq_0)
qed

section \<open>Memory safety\<close>

lemma read_words_safe:
  assumes "base + n * 4 \<le> length bytes"
  shows "rmap (\<lambda>index. rbind (ReadU32LE bytes (base + index * 4)) (\<lambda>c. if P c then Inl (Standard_failure what) else Inr c))
    [0..<n] \<noteq> Inl Undefined_behaviour"
proof
  assume "rmap (\<lambda>index. rbind (ReadU32LE bytes (base + index * 4)) (\<lambda>c. if P c then Inl (Standard_failure what) else Inr c))
    [0..<n] = Inl Undefined_behaviour"
  from rmap_throws [OF this] obtain index where i: "index < n"
    and throws: "rbind (ReadU32LE bytes (base + index * 4)) (\<lambda>c. if P c then Inl (Standard_failure what) else Inr c) =
      Inl Undefined_behaviour" by auto
  have "base + index * 4 + 4 \<le> length bytes" using assms i by linarith
  with throws show False using ReadU32LE_inside by (fastforce split: if_splits)
qed

lemma DecodeAethMeshV1_safe:
  assumes "length bytes < 2 ^ 64"
  shows "DecodeAethMeshV1 bytes \<noteq> Inl Undefined_behaviour"
proof (cases "length bytes < 24")
  case True
  then show ?thesis by (simp add: DecodeAethMeshV1_def kHeaderBytes_def)
next
  case False
  then have n: "24 \<le> length bytes" by simp
  obtain version flags v t where heads: "ReadU32LE bytes 8 = Inr version" "ReadU32LE bytes 12 = Inr flags"
      "ReadU32LE bytes 16 = Inr v" "ReadU32LE bytes 20 = Inr t"
    using n ReadU32LE_inside [of 8 bytes] ReadU32LE_inside [of 12 bytes] ReadU32LE_inside [of 16 bytes]
      ReadU32LE_inside [of 20 bytes] by auto
  show ?thesis
  proof (cases "length bytes = 24 + unat v * 12 + unat t * 12")
    case True
    then have "read_positions bytes (unat v) \<noteq> Inl Undefined_behaviour"
      "read_indices bytes (unat v) (unat t) \<noteq> Inl Undefined_behaviour"
      unfolding read_positions_def read_indices_def ReadF32LE_def kHeaderBytes_def
      by (auto intro!: read_words_safe)
    then show ?thesis using check_magic_safe [of bytes] n heads
      by (auto simp: DecodeAethMeshV1_def rbind_eq_Inl split: if_splits)
  next
    case False
    then show ?thesis using check_magic_safe [of bytes] n heads expected_no_wrap [OF assms]
      by (auto simp: DecodeAethMeshV1_def rbind_eq_Inl split: if_splits)
  qed
qed

lemma three_apart:
  assumes "unat (v :: u32) * 3 + 2 < 2 ^ 32" and "k \<le> 2"
  shows "unat (v * 3 + word_of_nat k) = unat v * 3 + k"
proof -
  have "v * 3 + word_of_nat k = word_of_nat (unat v * 3 + k)" by simp
  then show ?thesis using assms by (simp only: unat_of_nat) (simp add: mod_less)
qed

lemma mesh_point_safe:
  assumes "mesh_ok m" "unat (mesh_vertexCount m) * 3 < 2 ^ 32" "vertex < mesh_vertexCount m"
  shows "mesh_point m vertex \<noteq> Inl Undefined_behaviour"
proof -
  have "unat vertex * 3 + 2 < unat (mesh_vertexCount m) * 3" using assms(3) by (simp add: word_less_nat_alt)
  then have fits: "unat vertex * 3 + 2 < 2 ^ 32" and inside: "unat vertex * 3 + 2 < length (mesh_positions m)"
    using assms(1,2) by (auto simp: mesh_ok_def)
  show ?thesis using inside
    by (simp add: mesh_point_def vector_at_def three_apart [OF fits, of 0, simplified]
        three_apart [OF fits, of 1, simplified] three_apart [OF fits, of 2, simplified])
qed

lemma triangle_corners:
  assumes "mesh_ok m" "unat (mesh_triangleCount m) * 3 < 2 ^ 32" "triangle < unat (mesh_triangleCount m)"
  shows "\<exists>a b c. rmap (\<lambda>k. vector_at (mesh_indices m) (word_of_nat triangle * 3 + k)) [0, 1, 2] = Inr [a, b, c] \<and>
    {a, b, c} \<subseteq> set (mesh_indices m)"
proof -
  let ?v = "word_of_nat triangle :: u32"
  have v: "unat ?v = triangle" using assms(2,3) by (simp add: unat_of_nat)
  have fits: "unat ?v * 3 + 2 < 2 ^ 32" and inside: "triangle * 3 + 2 < length (mesh_indices m)"
    using assms unfolding v by (auto simp: mesh_ok_def)
  show ?thesis using inside v
    by (simp add: vector_at_def three_apart [OF fits, of 0, simplified]
        three_apart [OF fits, of 1, simplified] three_apart [OF fits, of 2, simplified])
qed

lemma triangle_face_safe:
  assumes "mesh_ok m" "unat (mesh_vertexCount m) * 3 < 2 ^ 32" "unat (mesh_triangleCount m) * 3 < 2 ^ 32"
    "triangle < unat (mesh_triangleCount m)"
  shows "triangle_face O3 m (word_of_nat triangle) \<noteq> Inl Undefined_behaviour"
proof -
  obtain a b c where corners: "rmap (\<lambda>k. vector_at (mesh_indices m) (word_of_nat triangle * 3 + k)) [0, 1, 2] = Inr [a, b, c]"
    and abc: "{a, b, c} \<subseteq> set (mesh_indices m)" using triangle_corners [OF assms(1,3,4)] by blast
  have below: "v < mesh_vertexCount m" if "v \<in> {a, b, c}" for v using abc assms(1) that by (auto simp: mesh_ok_def)
  have "rmap (mesh_point m) [a, b, c] \<noteq> Inl Undefined_behaviour"
    using rmap_throws [of "mesh_point m" "[a, b, c]" Undefined_behaviour] mesh_point_safe [OF assms(1,2) below] by auto
  then show ?thesis unfolding triangle_face_def corners
    by (auto simp: rbind_eq_Inl split: option.splits)
qed

lemma shell_solid_safe: "shell_solid O3 cancelled shell \<noteq> Inl Undefined_behaviour"
  by (auto simp: shell_solid_def CheckCancellation_def split: option.splits)

lemma solids_safe:
  "(case solids of [] \<Rightarrow> Inl (Standard_failure what) | [x] \<Rightarrow> Inr x | _ \<Rightarrow> Inr (f solids)) \<noteq> Inl Undefined_behaviour"
  by (auto split: list.splits)

lemma BuildSolidFromAethMesh_safe:
  assumes "mesh_ok m" "unat (mesh_vertexCount m) * 3 < 2 ^ 32" "unat (mesh_triangleCount m) * 3 < 2 ^ 32"
  shows "BuildSolidFromAethMesh O3 m cancelled \<noteq> Inl Undefined_behaviour"
proof
  assume "BuildSolidFromAethMesh O3 m cancelled = Inl Undefined_behaviour"
  then consider "rmap (\<lambda>triangle. rbind (if triangle mod 1024 = 0 then CheckCancellation cancelled else Inr ()) (\<lambda>_.
           triangle_face O3 m (word_of_nat triangle))) [0..<unat (mesh_triangleCount m)] = Inl Undefined_behaviour"
    | shells where "rmap (shell_solid O3 cancelled) shells = Inl Undefined_behaviour"
    by (auto simp: BuildSolidFromAethMesh_def rbind_eq_Inl CheckCancellation_def solids_safe split: if_splits option.splits)
  then show False
  proof cases
    case 1
    from rmap_throws [OF this] show False using triangle_face_safe [OF assms]
      by (fastforce simp: rbind_eq_Inl CheckCancellation_def split: if_splits)
  next
    case 2
    from rmap_throws [OF this] show False by (auto simp: shell_solid_safe)
  qed
qed

section \<open>Base64\<close>

lemma base64_step_out:
  "base64_step st c = Inr st' \<Longrightarrow> length (b64_out st') \<le> Suc (length (b64_out st)) \<and> (\<exists>more. b64_out st' = b64_out st @ more)"
  by (auto simp: base64_step_def base64_push_def Let_def split: if_splits option.splits)

lemma base64_fold_out:
  "rfold base64_step st cs = Inr st' \<Longrightarrow>
   length (b64_out st') \<le> length (b64_out st) + length cs \<and> (\<exists>more. b64_out st' = b64_out st @ more)"
proof (induction cs arbitrary: st)
  case (Cons c cs)
  then obtain mid where mid: "base64_step st c = Inr mid" "rfold base64_step mid cs = Inr st'" by (auto simp: rbind_eq_Inr)
  from base64_step_out [OF mid(1)] Cons.IH [OF mid(2)] show ?case by auto
qed simp

lemma base64_step_safe: "base64_step st c \<noteq> Inl Undefined_behaviour"
  by (cases "base64_value c") (simp_all add: base64_step_def)

lemma base64_fold_safe: "rfold base64_step st cs \<noteq> Inl Undefined_behaviour"
  using rfold_throws [of base64_step st cs Undefined_behaviour] base64_step_safe by blast

lemma DecodeBase64_length: "DecodeBase64 source = Inr bytes \<Longrightarrow> length bytes \<le> length source"
  using base64_fold_out [of base64_start source] by (auto simp: DecodeBase64_def rbind_eq_Inr base64_start_def)

lemma DecodeBase64_safe: "DecodeBase64 source \<noteq> Inl Undefined_behaviour"
  using base64_fold_safe [of base64_start source] by (auto simp: DecodeBase64_def rbind_eq_Inl)

text \<open>A prefix of an accepted base64 source is accepted and decodes to a prefix of its bytes, wherever
  it is cut: the loop drops leftover bits and asks for no padding.\<close>

lemma base64_prefix_accepted:
  assumes "DecodeBase64 source = Inr bytes"
  shows "\<exists>m. DecodeBase64 (take n source) = Inr (take m bytes)"
proof -
  obtain st where st: "rfold base64_step base64_start source = Inr st" "bytes = b64_out st"
    using assms by (auto simp: DecodeBase64_def rbind_eq_Inr)
  have "rfold base64_step base64_start (take n source @ drop n source) = Inr st" using st by simp
  then obtain mid where mid: "rfold base64_step base64_start (take n source) = Inr mid" "rfold base64_step mid (drop n source) = Inr st"
    by (auto simp only: rfold_append rbind_eq_Inr)
  obtain more where "b64_out st = b64_out mid @ more" using base64_fold_out [OF mid(2)] by blast
  then have "b64_out mid = take (length (b64_out mid)) bytes" using st by simp
  then show ?thesis using mid(1) by (auto simp: DecodeBase64_def intro!: exI [of _ "length (b64_out mid)"])
qed

text \<open>RFC 4648 base64: what a source should look like.\<close>

definition base64_char :: "u8 \<Rightarrow> char" where
  "base64_char n = ''ABCDEFGHIJKLMNOPQRSTUVWXYZabcdefghijklmnopqrstuvwxyz0123456789+/'' ! unat n"

fun EncodeBase64 :: "u8 list \<Rightarrow> string" where
  "EncodeBase64 [] = []"
| "EncodeBase64 [a] = [base64_char (drop_bit 2 a), base64_char (push_bit 4 (a AND 3)), CHR ''='', CHR ''='']"
| "EncodeBase64 [a, b] =
     [base64_char (drop_bit 2 a), base64_char (push_bit 4 (a AND 3) OR drop_bit 4 b), base64_char (push_bit 2 (b AND 15)), CHR ''='']"
| "EncodeBase64 (a # b # c # bytes) =
     [base64_char (drop_bit 2 a), base64_char (push_bit 4 (a AND 3) OR drop_bit 4 b),
      base64_char (push_bit 2 (b AND 15) OR drop_bit 6 c), base64_char (c AND 63)] @ EncodeBase64 bytes"

lemma base64_value_char: "n < 64 \<Longrightarrow> base64_value (base64_char n) = Some (unat n) \<and> base64_char n \<noteq> CHR ''=''"
proof -
  let ?s = "''ABCDEFGHIJKLMNOPQRSTUVWXYZabcdefghijklmnopqrstuvwxyz0123456789+/''"
  have "list_all (\<lambda>(k, c). base64_value c = Some k \<and> c \<noteq> CHR ''='') (zip [0..<64] ?s)"
    by code_simp
  then have all: "\<forall>k < 64. base64_value (?s ! k) = Some k \<and> ?s ! k \<noteq> CHR ''=''"
    by (auto simp: list_all_length)
  assume "n < 64"
  then have "unat n < 64" by (simp add: word_less_nat_alt)
  with all show ?thesis unfolding base64_char_def by blast
qed

lemma low_bits:
  "(x :: u32) AND 0xFF = take_bit 8 x" "(a :: u8) AND 3 = take_bit 2 a" "a AND 15 = take_bit 4 a" "a AND 63 = take_bit 6 a"
  by (simp_all add: take_bit_eq_mask mask_eq_exp_minus_1)

lemma byte_bits_eqI: "(\<And>n. n < 8 \<Longrightarrow> bit (a :: u8) n = bit b n) \<Longrightarrow> a = b"
  by (rule bit_word_eqI) simp

lemma all_less_eight: "n < 8 \<Longrightarrow> n \<in> {0, 1, 2, 3, 4, 5, 6, 7 :: nat}"
  by auto

lemma high_numerals: "n \<in> {8, 9, 10, 11, 12, 13, 14, 15} \<Longrightarrow> \<not> bit (b :: u8) n"
  using bit_imp_le_length [of b n] by auto

lemmas base64_bit_rules = bit_unsigned_iff bit_take_bit_iff bit_drop_bit_eq bit_push_bit_iff bit_or_iff o_apply

lemma base64_first_byte:
  "ucast (drop_bit 4 (push_bit 6 (push_bit 6 acc OR ucast (drop_bit 2 a)) OR ucast (push_bit 4 (a AND 3) OR drop_bit 4 b) :: u32) AND 0xFF) = (a :: u8)"
  unfolding low_bits
  by (rule byte_bits_eqI, simp only: base64_bit_rules, drule all_less_eight, elim insertE emptyE,
      simp_all add: high_numerals)

lemma base64_second_byte:
  "ucast (drop_bit 2 (push_bit 6 (push_bit 6 acc OR ucast (push_bit 4 (a AND 3) OR drop_bit 4 b)) OR ucast (push_bit 2 (b AND 15) OR drop_bit 6 c) :: u32) AND 0xFF) = (b :: u8)"
  unfolding low_bits
  by (rule byte_bits_eqI, simp only: base64_bit_rules, drule all_less_eight, elim insertE emptyE,
      simp_all add: high_numerals)

lemma base64_third_byte:
  "ucast ((push_bit 6 (push_bit 6 acc OR ucast (push_bit 2 (b AND 15) OR drop_bit 6 c)) OR ucast (c AND 63)) AND 0xFF :: u32) = (c :: u8)"
  unfolding low_bits
  by (rule byte_bits_eqI, simp only: base64_bit_rules, drule all_less_eight, elim insertE emptyE,
      simp_all add: high_numerals)

lemma sextets_small:
  "drop_bit 2 (a :: u8) < 64" "push_bit 4 (a AND 3) OR drop_bit 4 b < (64 :: u8)"
  "push_bit 2 (b AND 15) OR drop_bit 6 c < (64 :: u8)" "c AND 63 < (64 :: u8)"
  "push_bit 4 (a AND 3) < (64 :: u8)" "push_bit 2 (b AND 15) < (64 :: u8)"
proof -
  have low: "x < (64 :: u8)" if "\<not> bit x 6" "\<not> bit x 7" for x
  proof -
    have "x = take_bit 6 x"
      by (rule byte_bits_eqI, simp only: bit_take_bit_iff, drule all_less_eight) (use that in auto)
    moreover have "unat (take_bit 6 x) < 64" using take_bit_nat_less_exp [of 6 "unat x"] by (simp add: unsigned_take_bit_eq)
    ultimately show ?thesis by (simp add: word_less_nat_alt)
  qed
  show "drop_bit 2 (a :: u8) < 64" "push_bit 4 (a AND 3) OR drop_bit 4 b < (64 :: u8)"
    "push_bit 2 (b AND 15) OR drop_bit 6 c < (64 :: u8)" "c AND 63 < (64 :: u8)"
    "push_bit 4 (a AND 3) < (64 :: u8)" "push_bit 2 (b AND 15) < (64 :: u8)"
    unfolding low_bits
    by (rule low; simp only: base64_bit_rules; simp add: high_numerals)+
qed

text \<open>The state between two groups of four characters: whatever was shifted in before does not matter.\<close>

definition base64_aligned :: "base64_state \<Rightarrow> bool" where
  "base64_aligned st \<longleftrightarrow> b64_bitCount st = 0 \<and> b64_paddingSeen st = 0"

lemma base64_step_sextet:
  "n < 64 \<Longrightarrow> b64_paddingSeen st = 0 \<Longrightarrow> base64_step st (base64_char n) = Inr (base64_push st (unat n))"
  by (simp add: base64_step_def base64_value_char)

lemma base64_push_padding [simp]: "b64_paddingSeen (base64_push st n) = b64_paddingSeen st"
  by (simp add: base64_push_def Let_def)

definition shift_in :: "u32 \<Rightarrow> u8 \<Rightarrow> u32" where
  "shift_in acc s = push_bit 6 acc OR ucast s"

lemma base64_push_counts:
  "b64_bitCount st = 0 \<Longrightarrow> base64_push st (unat s) = st\<lparr>b64_accumulator := shift_in (b64_accumulator st) s, b64_bitCount := 6\<rparr>"
  "b64_bitCount st = 6 \<Longrightarrow> base64_push st (unat s) = st\<lparr>b64_accumulator := shift_in (b64_accumulator st) s, b64_bitCount := 4,
     b64_out := b64_out st @ [ucast (drop_bit 4 (shift_in (b64_accumulator st) s) AND 0xFF)]\<rparr>"
  "b64_bitCount st = 4 \<Longrightarrow> base64_push st (unat s) = st\<lparr>b64_accumulator := shift_in (b64_accumulator st) s, b64_bitCount := 2,
     b64_out := b64_out st @ [ucast (drop_bit 2 (shift_in (b64_accumulator st) s) AND 0xFF)]\<rparr>"
  "b64_bitCount st = 2 \<Longrightarrow> base64_push st (unat s) = st\<lparr>b64_accumulator := shift_in (b64_accumulator st) s, b64_bitCount := 0,
     b64_out := b64_out st @ [ucast (shift_in (b64_accumulator st) s AND 0xFF)]\<rparr>"
  by (simp_all add: base64_push_def shift_in_def Let_def)

lemma base64_four:
  assumes "base64_aligned st" and "s1 < 64" "s2 < 64" "s3 < 64" "s4 < 64"
  defines "a1 \<equiv> shift_in (b64_accumulator st) s1"
  defines "a2 \<equiv> shift_in a1 s2"
  defines "a3 \<equiv> shift_in a2 s3"
  defines "a4 \<equiv> shift_in a3 s4"
  shows "rfold base64_step st ([base64_char s1, base64_char s2, base64_char s3, base64_char s4] @ rest) =
    rfold base64_step (st\<lparr>b64_accumulator := a4, b64_bitCount := 0, b64_out := b64_out st @
      [ucast (drop_bit 4 a2 AND 0xFF), ucast (drop_bit 2 a3 AND 0xFF), ucast (a4 AND 0xFF)]\<rparr>) rest"
  using assms(1-5)
  by (simp add: base64_step_sextet base64_aligned_def base64_push_counts a1_def a2_def a3_def a4_def)

lemma base64_group:
  assumes "base64_aligned st"
  obtains st' where "rfold base64_step st (EncodeBase64 (a # b # c # bytes)) = rfold base64_step st' (EncodeBase64 bytes)"
    and "base64_aligned st'" and "b64_out st' = b64_out st @ [a, b, c]"
proof -
  let ?a1 = "shift_in (b64_accumulator st) (drop_bit 2 a)"
  let ?a2 = "shift_in ?a1 (push_bit 4 (a AND 3) OR drop_bit 4 b)"
  let ?a3 = "shift_in ?a2 (push_bit 2 (b AND 15) OR drop_bit 6 c)"
  let ?a4 = "shift_in ?a3 (c AND 63)"
  let ?st = "st\<lparr>b64_accumulator := ?a4, b64_bitCount := 0, b64_out := b64_out st @
      [ucast (drop_bit 4 ?a2 AND 0xFF), ucast (drop_bit 2 ?a3 AND 0xFF), ucast (?a4 AND 0xFF)]\<rparr>"
  have "rfold base64_step st (EncodeBase64 (a # b # c # bytes)) = rfold base64_step ?st (EncodeBase64 bytes)"
    unfolding EncodeBase64.simps(4) by (rule base64_four [OF assms]) (rule sextets_small)+
  moreover have "base64_aligned ?st" using assms by (simp add: base64_aligned_def)
  moreover have "b64_out ?st = b64_out st @ [a, b, c]"
    using base64_first_byte [of "b64_accumulator st" a b] base64_second_byte [of ?a1 a b c] base64_third_byte [of ?a2 b c]
    unfolding shift_in_def by simp
  ultimately show thesis by (rule that)
qed

lemma base64_step_padding: "base64_step st (CHR ''='') = Inr (st\<lparr>b64_paddingSeen := b64_paddingSeen st + 1\<rparr>)"
  by (simp add: base64_step_def)

lemma base64_two:
  assumes "base64_aligned st" and "s1 < 64" "s2 < 64"
  shows "\<exists>st'. rfold base64_step st [base64_char s1, base64_char s2, CHR ''='', CHR ''=''] = Inr st' \<and>
    b64_out st' = b64_out st @ [ucast (drop_bit 4 (shift_in (shift_in (b64_accumulator st) s1) s2) AND 0xFF)]"
  using assms by (simp add: base64_step_sextet base64_step_padding base64_aligned_def base64_push_counts)

lemma base64_three:
  assumes "base64_aligned st" and "s1 < 64" "s2 < 64" "s3 < 64"
  shows "\<exists>st'. rfold base64_step st [base64_char s1, base64_char s2, base64_char s3, CHR ''=''] = Inr st' \<and>
    b64_out st' = b64_out st @ [ucast (drop_bit 4 (shift_in (shift_in (b64_accumulator st) s1) s2) AND 0xFF),
      ucast (drop_bit 2 (shift_in (shift_in (shift_in (b64_accumulator st) s1) s2) s3) AND 0xFF)]"
  using assms by (simp add: base64_step_sextet base64_step_padding base64_aligned_def base64_push_counts)

lemma base64_encoded:
  "base64_aligned st \<Longrightarrow> \<exists>st'. rfold base64_step st (EncodeBase64 bytes) = Inr st' \<and> b64_out st' = b64_out st @ bytes"
proof (induction bytes arbitrary: st rule: EncodeBase64.induct)
  case 1
  then show ?case by simp
next
  case (2 a)
  then show ?case using base64_two [OF 2 sextets_small(1) sextets_small(5), of a a]
      base64_first_byte [of "b64_accumulator st" a 0] by (simp add: shift_in_def)
next
  case (3 a b)
  then show ?case using base64_three [OF 3 sextets_small(1) sextets_small(2) sextets_small(6), of a a b b]
      base64_first_byte [of "b64_accumulator st" a b]
      base64_second_byte [of "shift_in (b64_accumulator st) (drop_bit 2 a)" a b 0] by (simp add: shift_in_def)
next
  case (4 a b c bytes)
  from base64_group [OF 4(2), of a b c bytes] obtain st'
    where "rfold base64_step st (EncodeBase64 (a # b # c # bytes)) = rfold base64_step st' (EncodeBase64 bytes)"
      and "base64_aligned st'" and "b64_out st' = b64_out st @ [a, b, c]" by blast
  then show ?case using 4(1) [of st'] by auto
qed

text \<open>Base64 reads back what RFC 4648 writes.\<close>

lemma DecodeBase64_EncodeBase64: "DecodeBase64 (EncodeBase64 bytes) = Inr bytes"
  using base64_encoded [of base64_start bytes]
  by (auto simp: DecodeBase64_def base64_aligned_def base64_start_def)

section \<open>Properties\<close>

definition source_mesh :: "string \<Rightarrow> AethMesh result" where
  "source_mesh source = rbind (DecodeBase64 source) DecodeAethMeshV1"

lemma source_mesh_iff:
  assumes "length source < 2 ^ 64"
  shows "source_mesh source = Inr m \<longleftrightarrow> mesh_ok m \<and> DecodeBase64 source = Inr (EncodeAethMesh m)"
proof (cases "DecodeBase64 source")
  case (Inl e)
  then show ?thesis by (simp add: source_mesh_def)
next
  case (Inr bytes)
  have "length bytes < 2 ^ 64" using DecodeBase64_length [OF Inr] assms by simp
  from DecodeAethMeshV1_exact [OF this, of m] Inr show ?thesis by (simp add: source_mesh_def)
qed

lemma source_mesh_exact:
  "source_mesh source = Inr m \<Longrightarrow> length source < 2 ^ 64 \<Longrightarrow> DecodeBase64 source = Inr (EncodeAethMesh m) \<and> mesh_ok m"
  using source_mesh_iff by blast

text \<open>C27. The import format is exact: a source is accepted precisely when the bytes it decodes to are the
  encoding of a valid mesh (positive and matching counts, finite positions, every index inside the
  vertex array), which is the mesh returned; and what the RFC 4648 encoder writes for a valid mesh
  is accepted.\<close>

theorem mesh_source_roundtrip:
  assumes "length source < 2 ^ 64"
  shows "(source_mesh source = Inr m \<longleftrightarrow> mesh_ok m \<and> DecodeBase64 source = Inr (EncodeAethMesh m)) \<and>
    (mesh_ok m \<and> source = EncodeBase64 (EncodeAethMesh m) \<longrightarrow> source_mesh source = Inr m)"
proof (intro conjI impI)
  show exact: "source_mesh source = Inr m \<longleftrightarrow> mesh_ok m \<and> DecodeBase64 source = Inr (EncodeAethMesh m)"
    by (rule source_mesh_iff [OF assms])
  assume "mesh_ok m \<and> source = EncodeBase64 (EncodeAethMesh m)"
  then show "source_mesh source = Inr m" unfolding exact using DecodeBase64_EncodeBase64 by metis
qed

lemma EncodeAethMesh_prefix:
  assumes "mesh_ok m" "mesh_ok m'" "EncodeAethMesh m' = take k (EncodeAethMesh m)"
  shows "m' = m"
proof -
  let ?h = "\<lambda>m. bytes_of kMagic @ words_bytes [1, 0, mesh_vertexCount m, mesh_triangleCount m]"
  let ?r = "\<lambda>m. words_bytes (mesh_positions m @ mesh_indices m)"
  have enc: "EncodeAethMesh m = ?h m @ ?r m" for m by (simp add: EncodeAethMesh_def words_bytes_def)
  obtain rest where whole: "?h m' @ ?r m' @ rest = ?h m @ ?r m"
    using assms(3) by (metis append_assoc append_take_drop_id enc)
  have lh: "length (?h m') = length (?h m)" by simp
  from whole lh have "?h m' = ?h m" using append_eq_append_conv by blast
  then have counts: "mesh_vertexCount m' = mesh_vertexCount m" "mesh_triangleCount m' = mesh_triangleCount m"
    by (simp_all add: words_bytes_def)
  have "length (EncodeAethMesh m') = length (EncodeAethMesh m)"
    using assms(1,2) counts by (simp add: length_EncodeAethMesh mesh_ok_def)
  then have same: "EncodeAethMesh m' = EncodeAethMesh m" using assms(3) by (metis length_take take_all_iff min.cobounded2 min_def)
  show ?thesis
  proof (cases "length (EncodeAethMesh m) < 2 ^ 64")
    case True
    with same assms(1,2) DecodeAethMeshV1_exact show ?thesis by (metis Inr_inject)
  next
    case False
    have "unat (mesh_vertexCount m) < 2 ^ 32" "unat (mesh_triangleCount m) < 2 ^ 32"
      using unsigned_less [of "mesh_vertexCount m"] unsigned_less [of "mesh_triangleCount m"] by simp_all
    then show ?thesis using False assms(1) by (simp add: length_EncodeAethMesh mesh_ok_def)
  qed
qed

text \<open>Truncating an accepted mesh source never yields another mesh: base64 lets a cut source through,
  but the payload it decodes to is then refused or is the whole one.\<close>

theorem truncated_source_keeps_mesh:
  assumes "source_mesh source = Inr m" and "source_mesh (take n source) = Inr m'" and "length source < 2 ^ 64"
  shows "m' = m"
proof -
  have m: "DecodeBase64 source = Inr (EncodeAethMesh m)" "mesh_ok m" using source_mesh_exact [OF assms(1,3)] by simp_all
  have m': "DecodeBase64 (take n source) = Inr (EncodeAethMesh m')" "mesh_ok m'"
    using source_mesh_exact [OF assms(2)] assms(3) by simp_all
  from base64_prefix_accepted [OF m(1), of n] m'(1) obtain k where "EncodeAethMesh m' = take k (EncodeAethMesh m)" by auto
  from EncodeAethMesh_prefix [OF m(2) m'(2) this] show ?thesis .
qed

text \<open>C29. Importing a mesh is memory safe: with a source below 4 GiB, whatever its bytes are, no read of
  the payload, of the positions or of the indices is out of bounds.\<close>

theorem import_mesh_memory_safe:
  assumes "length source < 2 ^ 32"
  shows "ImportMeshShapeFromString O3 source cancelled \<noteq> Inl Undefined_behaviour"
proof
  assume u: "ImportMeshShapeFromString O3 source cancelled = Inl Undefined_behaviour"
  obtain bytes where b: "DecodeBase64 source = Inr bytes"
    using u DecodeBase64_safe [of source]
    by (cases "DecodeBase64 source") (auto simp: ImportMeshShapeFromString_def CheckCancellation_def split: if_splits)
  have l: "length bytes < 2 ^ 32" using DecodeBase64_length [OF b] assms by simp
  then have small: "length bytes < 2 ^ 64" by simp
  obtain m where m: "DecodeAethMeshV1 bytes = Inr m"
    using u b DecodeAethMeshV1_safe [OF small]
    by (cases "DecodeAethMeshV1 bytes") (auto simp: ImportMeshShapeFromString_def CheckCancellation_def split: if_splits)
  then have ok: "mesh_ok m" "bytes = EncodeAethMesh m" using DecodeAethMeshV1_exact [OF small] by blast+
  then have "unat (mesh_vertexCount m) * 3 < 2 ^ 32" "unat (mesh_triangleCount m) * 3 < 2 ^ 32"
    using l by (simp_all add: length_EncodeAethMesh mesh_ok_def)
  from BuildSolidFromAethMesh_safe [OF ok(1) this] u b m show False
    by (auto simp: ImportMeshShapeFromString_def CheckCancellation_def split: if_splits)
qed

text \<open>C39. An imported body comes from the recorded source: its hash is the recorded one, its bytes are the
  encoding of a valid mesh, the shape is the one sewn from that mesh, and its probes say it is valid
  and has at least one solid.\<close>

theorem import_mesh_faithful:
  assumes "EvaluateImportMesh O3 operation cancelled = Inr body"
    and "rbind (jat operation ''parameters'') (\<lambda>p. rbind (jat p ''source'') get_string) = Inr source"
    and "length source < 2 ^ 64"
  shows "\<exists>m expected. rbind (jat operation ''parameters'') (\<lambda>p. rbind (jat p ''sourceSha256'') get_string) = Inr expected \<and>
    HexDigest (Update sha256_new (bytes_of source)) = expected \<and>
    DecodeBase64 source = Inr (EncodeAethMesh m) \<and> mesh_ok m \<and>
    BuildSolidFromAethMesh O3 m cancelled = Inr (shape body) \<and>
    probes body = sew_probe O3 (shape body) \<and> valid (probes body) \<and> 1 \<le> solidCount (probes body) \<and> outputIndex body = 0"
proof -
  from assms(1,2) obtain expected where
      e: "rbind (jat operation ''parameters'') (\<lambda>p. rbind (jat p ''sourceSha256'') get_string) = Inr expected"
      "HexDigest (Update sha256_new (bytes_of source)) = expected"
      "ImportMeshShapeFromString O3 source cancelled = Inr (shape body)"
    and rest: "probes body = sew_probe O3 (shape body)" "valid (probes body)" "1 \<le> solidCount (probes body)" "outputIndex body = 0"
    by (auto simp: EvaluateImportMesh_def rbind_eq_Inr not_less split: if_splits)
  from e(3) obtain m where m: "source_mesh source = Inr m" "BuildSolidFromAethMesh O3 m cancelled = Inr (shape body)"
    by (auto simp: ImportMeshShapeFromString_def source_mesh_def rbind_eq_Inr)
  from source_mesh_exact [OF m(1) assms(3)] e(1,2) m(2) rest show ?thesis by blast
qed

end
