(* ===== verification/Mesh_Import_Properties.thy ===== *)
theory Mesh_Import_Properties
  imports Mesh_Import_Laws
begin

text \<open>
  A concrete mesh (one vertex, one triangle), its source text and the operation that imports it,
  with an OCCT that sews every surface into one valid solid.
\<close>

definition sample_mesh :: AethMesh where
  "sample_mesh = \<lparr>mesh_positions = [0, 0x3F800000, 0xC0000000], mesh_indices = [0, 0, 0],
     mesh_vertexCount = 1, mesh_triangleCount = 1\<rparr>"

definition sample_source :: string where
  "sample_source = EncodeBase64 (EncodeAethMesh sample_mesh)"

definition sample_solid_probes :: ShapeProbes where
  "sample_solid_probes = \<lparr>valid = True, volume = 0, surfaceArea = 0, centerOfMass = [0, 0, 0],
     bounds = [], solidCount = 1, shellCount = 1, faceCount = 1, edgeCount = 3, vertexCount = 3\<rparr>"

definition sample_sewer :: "nat sewer" where
  "sample_sewer = \<lparr>sew_polygon = (\<lambda>a b c. Some 10), sew_face = Some, sew_shells = Some, sew_solid = Some,
     sew_fixed = (\<lambda>s. None), sew_valid = (\<lambda>s. True), sew_compound = hd, sew_is_null = (\<lambda>s. False),
     sew_probe = (\<lambda>s. sample_solid_probes)\<rparr>"

definition sample_import :: json where
  "sample_import = JObject
     [(''id'', JString ''op1''), (''outputBodyId'', JString ''b1''),
      (''parameters'', JObject [(''source'', JString sample_source),
         (''sourceSha256'', JString (HexDigest (Update sha256_new (bytes_of sample_source))))])]"

lemma sample_mesh_ok: "mesh_ok sample_mesh"
  by (simp add: mesh_ok_def sample_mesh_def f32_finite_def)

lemma length_sample_bytes: "length (EncodeAethMesh sample_mesh) = 48"
  by (simp add: length_EncodeAethMesh sample_mesh_def)

lemma length_EncodeBase64: "length (EncodeBase64 bytes) \<le> 4 * length bytes"
  by (induction bytes rule: EncodeBase64.induct) auto

lemma length_sample_source: "length sample_source < 2 ^ 32"
  using length_EncodeBase64 [of "EncodeAethMesh sample_mesh"] by (simp add: sample_source_def length_sample_bytes)

lemma sample_decodes: "source_mesh sample_source = Inr sample_mesh"
  unfolding source_mesh_def sample_source_def DecodeBase64_EncodeBase64
  using DecodeAethMeshV1_exact [of "EncodeAethMesh sample_mesh" sample_mesh] sample_mesh_ok
  by (simp add: length_sample_bytes)

theorem mesh_source_roundtrip_witness: "length sample_source < 2 ^ 64 \<and> source_mesh sample_source = Inr sample_mesh"
  using mesh_source_roundtrip [of sample_source sample_mesh] sample_mesh_ok length_sample_source
  by (simp add: sample_source_def)

theorem truncated_source_keeps_mesh_witness:
  "source_mesh sample_source = Inr sample_mesh \<and> source_mesh (take (length sample_source) sample_source) = Inr sample_mesh"
  using truncated_source_keeps_mesh [of sample_source sample_mesh "length sample_source" sample_mesh]
    sample_decodes length_sample_source by simp

theorem import_mesh_memory_safe_witness:
  "length sample_source < 2 ^ 32 \<and> ImportMeshShapeFromString sample_sewer sample_source False \<noteq> Inl Undefined_behaviour"
  using import_mesh_memory_safe [OF length_sample_source] length_sample_source by blast

lemma sample_built: "\<exists>s. BuildSolidFromAethMesh sample_sewer sample_mesh False = Inr s"
  by (simp add: BuildSolidFromAethMesh_def CheckCancellation_def sample_mesh_def triangle_face_def vector_at_def
      mesh_point_def sample_sewer_def shell_solid_def)

theorem import_mesh_faithful_witness:
  "\<exists>body. EvaluateImportMesh sample_sewer sample_import False = Inr body \<and> valid (probes body)"
proof -
  obtain s where s: "BuildSolidFromAethMesh sample_sewer sample_mesh False = Inr s" using sample_built by blast
  have imported: "ImportMeshShapeFromString sample_sewer sample_source False = Inr s"
    using sample_decodes s by (auto simp: ImportMeshShapeFromString_def CheckCancellation_def source_mesh_def rbind_eq_Inr)
  have "\<exists>body. EvaluateImportMesh sample_sewer sample_import False = Inr body"
    unfolding EvaluateImportMesh_def sample_import_def
    by (simp add: imported) (simp add: sample_sewer_def sample_solid_probes_def)
  then obtain body where body: "EvaluateImportMesh sample_sewer sample_import False = Inr body" by blast
  have "rbind (jat sample_import ''parameters'') (\<lambda>p. rbind (jat p ''source'') get_string) = Inr sample_source"
    by (simp add: sample_import_def)
  from import_mesh_faithful [OF body this] length_sample_source body show ?thesis by auto
qed

end
