(* ===== verification/Printf.thy ===== *)
theory Printf
  imports F64_Arith
begin

text \<open>
  The conversions of \<open>std::snprintf\<close> the code uses for a \<open>double\<close>: \<open>%f\<close> (also \<open>std::to_string\<close>),
  \<open>%e\<close> and \<open>%g\<close>. The digits are those of the exact value of the pattern, rounded to nearest with
  ties to even, as the C library of the platforms does. The sign of a NaN is that of its pattern.
\<close>


text \<open>A finite magnitude is the fraction \<open>f64_num b / f64_over b\<close>.\<close>

definition f64_num :: "f64 \<Rightarrow> nat" where
  "f64_num b = (if 0 \<le> f64_scale b then f64_mant b * 2 ^ nat (f64_scale b) else f64_mant b)"

definition f64_over :: "f64 \<Rightarrow> nat" where
  "f64_over b = (if 0 \<le> f64_scale b then 1 else 2 ^ nat (- f64_scale b))"

definition printf_sign :: "f64 \<Rightarrow> string \<Rightarrow> string" where
  "printf_sign b s = (if f64_sign b then CHR ''-'' # s else s)"

definition not_finite :: "f64 \<Rightarrow> string" where
  "not_finite b = printf_sign b (if f64_nan b then ''nan'' else ''inf'')"

definition pad_zeros :: "nat \<Rightarrow> string \<Rightarrow> string" where
  "pad_zeros p s = replicate (p - length s) (CHR ''0'') @ s"

definition with_point :: "nat \<Rightarrow> nat \<Rightarrow> string" where
  "with_point p n = decimal (n div 10 ^ p) @ (if p = 0 then [] else CHR ''.'' # pad_zeros p (decimal (n mod 10 ^ p)))"

text \<open>\<open>%.pf\<close>.\<close>

definition printf_fixed :: "nat \<Rightarrow> f64 \<Rightarrow> string" where
  "printf_fixed p b =
     (if \<not> f64_finite b then not_finite b
      else printf_sign b (with_point p (round_quotient (f64_num b * 10 ^ p) (f64_over b))))"

text \<open>\<open>p + 1\<close> significant digits and the decimal exponent; a carry out of the top digit moves it.\<close>

definition digits_at :: "f64 \<Rightarrow> nat \<Rightarrow> int \<Rightarrow> nat" where
  "digits_at b p k = round_quotient (f64_num b * 10 ^ nat (int p - k)) (f64_over b * 10 ^ nat (k - int p))"

definition carry_digits :: "nat \<Rightarrow> nat \<Rightarrow> int \<Rightarrow> nat \<times> int" where
  "carry_digits p n k = (if n = 10 ^ (p + 1) then (10 ^ p, k + 1) else (n, k))"

definition scientific_parts :: "nat \<Rightarrow> f64 \<Rightarrow> nat \<times> int" where
  "scientific_parts p b =
     (if f64_mant b = 0 then (0, 0)
      else carry_digits p (digits_at b p (floor_log10 (f64_num b) (f64_over b))) (floor_log10 (f64_num b) (f64_over b)))"

text \<open>\<open>%.pe\<close>.\<close>

definition printf_scientific :: "nat \<Rightarrow> f64 \<Rightarrow> string" where
  "printf_scientific p b =
     (if \<not> f64_finite b then not_finite b
      else case scientific_parts p b of
             (n, k) \<Rightarrow> printf_sign b (with_point p n @ CHR ''e'' # exponent_string k))"

definition drop_point_zeros :: "string \<Rightarrow> string" where
  "drop_point_zeros s =
     (if CHR ''.'' \<in> set s then (let t = strip_zeros s in if last t = CHR ''.'' then butlast t else t) else s)"

text \<open>\<open>%g\<close>, six significant digits.\<close>

definition printf_general :: "f64 \<Rightarrow> string" where
  "printf_general b =
     (if \<not> f64_finite b then not_finite b
      else case scientific_parts 5 b of
             (n, k) \<Rightarrow>
               if - 4 \<le> k \<and> k < 6
               then printf_sign b (drop_point_zeros (with_point (nat (5 - k))
                      (round_quotient (f64_num b * 10 ^ nat (5 - k)) (f64_over b))))
               else printf_sign b (drop_point_zeros (with_point 5 n) @ CHR ''e'' # exponent_string k))"

text \<open>\<open>std::snprintf\<close> into a buffer of \<open>n\<close> characters keeps the terminator inside it.\<close>

definition snprintf :: "nat \<Rightarrow> string \<Rightarrow> string" where
  "snprintf n s = take (n - 1) s"

lemma replicate_numeral_eval: "replicate (numeral k) x = x # replicate (pred_numeral k) x"
  by (simp add: numeral_eq_Suc)

lemmas printf_eval = replicate_numeral_eval f64_num_def f64_over_def printf_sign_def not_finite_def pad_zeros_def with_point_def
  printf_fixed_def digits_at_def carry_digits_def scientific_parts_def printf_scientific_def
  drop_point_zeros_def printf_general_def exponent_string_def floor_log10.simps strip_zeros_def decimal.simps digit_char_def
  f64_finite_def

text \<open>What the C library prints for \<open>0.5\<close>, \<open>1234567\<close> and \<open>2.5\<close>.\<close>

lemma printf_vectors:
  "printf_fixed 6 0x3FE0000000000000 = ''0.500000''"
  "printf_scientific 3 0x3FE0000000000000 = ''5.000e-01''"
  "printf_general 0x3FE0000000000000 = ''0.5''"
  "printf_general (f64_of_nat 1234567) = ''1.23457e+06''"
  "printf_fixed 0 0x4004000000000000 = ''2''"
  by (simp_all add: printf_eval f64_arith_eval Let_def)

end
