(* ===== verification/Voxel_Grid.thy ===== *)
theory Voxel_Grid
  imports Printf Selector_Result
begin

text \<open>
  The voxelization of \<open>simulation.cpp\<close>: the grid over the bounds of the bodies and its occupancy by
  column ray parity. What OCCT says about shapes is the parameter record \<open>probe\<close>: the bounds of a
  list of shapes, the parameters of a vertical line's crossings with one, whether a point lies outside
  a shape's box enlarged by a margin. Coordinates are the code's 64-bit integers as \<open>int\<close>: a
  conversion that does not fit is undefined behaviour, and after the grid guard every cell index is
  below 256 million.
\<close>

record 'sh probe =
  pr_bounds :: "'sh list \<Rightarrow> (vec3 \<times> vec3) option"
  pr_crossings :: "'sh \<Rightarrow> f64 \<Rightarrow> f64 \<Rightarrow> f64 list"
  pr_out :: "'sh \<Rightarrow> f64 \<Rightarrow> vec3 \<Rightarrow> bool"

section \<open>Constants and refusals\<close>

definition kSimulationElementCap :: nat where
  "kSimulationElementCap = 150000"

definition kGridCellGuard :: f64 where
  "kGridCellGuard = f64_of_nat 256000000"

definition ThrowSimulation :: "string \<Rightarrow> string \<Rightarrow> string \<Rightarrow> (string \<times> json) list \<Rightarrow> 'a result" where
  "ThrowSimulation simulationCode wireCode message details =
     Inl (Operation_failure [] wireCode (simulationCode @ '': '' @ message)
       (make_object (details @ [(''simulationCode'', JString simulationCode)])))"

section \<open>The grid\<close>

record VoxelGrid =
  vg_h :: f64
  vg_originX :: f64
  vg_originY :: f64
  vg_originZ :: f64
  vg_nx :: int
  vg_ny :: int
  vg_nz :: int
  vg_occupied :: "bool list"
  vg_occupiedCount :: nat

definition cell_index :: "VoxelGrid \<Rightarrow> int \<Rightarrow> int \<Rightarrow> int \<Rightarrow> nat" where
  "cell_index grid i j k = nat (((k * vg_ny grid) + j) * vg_nx grid + i)"

definition in_grid :: "VoxelGrid \<Rightarrow> int \<Rightarrow> int \<Rightarrow> int \<Rightarrow> bool" where
  "in_grid grid i j k \<longleftrightarrow> 0 \<le> i \<and> 0 \<le> j \<and> 0 \<le> k \<and> i < vg_nx grid \<and> j < vg_ny grid \<and> k < vg_nz grid"

definition Occupied :: "VoxelGrid \<Rightarrow> int \<Rightarrow> int \<Rightarrow> int \<Rightarrow> bool" where
  "Occupied grid i j k = (if \<not> in_grid grid i j k then False else vg_occupied grid ! cell_index grid i j k)"

text \<open>\<open>static_cast<std::int64_t>(std::ceil(d))\<close>.\<close>

definition f64_ceil :: "f64 \<Rightarrow> int" where
  "f64_ceil d =
     (if 0 \<le> f64_scale d then f64_signed d * 2 ^ nat (f64_scale d)
      else - ((- f64_signed d) div 2 ^ nat (- f64_scale d)))"

definition ceil_int64 :: "f64 \<Rightarrow> int result" where
  "ceil_int64 d =
     (if f64_finite d \<and> - (2 ^ 63) \<le> f64_ceil d \<and> f64_ceil d < 2 ^ 63 then Inr (f64_ceil d) else Inl Undefined_behaviour)"

definition cellsFor :: "f64 \<Rightarrow> f64 \<Rightarrow> int result" where
  "cellsFor h span = rbind (ceil_int64 (f64_div span h)) (\<lambda>c. Inr (c + 1))"

definition grid_too_large :: "f64 \<Rightarrow> f64 \<Rightarrow> string" where
  "grid_too_large h cellCount =
     snprintf 160 (''a '' @ printf_general h @ '' mm voxel grid over this model spans '' @ printf_fixed 0 cellCount @
       '' cells, beyond what the simulator will scan for its '' @ decimal kSimulationElementCap @
       ''-element cap; coarsen resolutionMm'')"

definition origin_at :: "f64 \<Rightarrow> f64 \<Rightarrow> int \<Rightarrow> f64 \<Rightarrow> f64" where
  "origin_at lo hi n h =
     f64_sub (f64_mul (f64_decimal 5 1) (f64_add lo hi)) (f64_mul (f64_mul (f64_decimal 5 1) (f64_of_int n)) h)"

text \<open>\<open>assign\<close> with a negative product throws, since it becomes an enormous size.\<close>

definition empty_grid :: "vec3 \<Rightarrow> vec3 \<Rightarrow> f64 \<Rightarrow> VoxelGrid result" where
  "empty_grid lo hi h =
     (case (lo, hi) of ((xMin, yMin, zMin), (xMax, yMax, zMax)) \<Rightarrow>
       rbind (cellsFor h (f64_sub xMax xMin)) (\<lambda>nx.
       rbind (cellsFor h (f64_sub yMax yMin)) (\<lambda>ny.
       rbind (cellsFor h (f64_sub zMax zMin)) (\<lambda>nz.
         let cellCount = f64_mul (f64_mul (f64_of_int nx) (f64_of_int ny)) (f64_of_int nz)
         in if f64_less kGridCellGuard cellCount
            then ThrowSimulation ''SIM_RESOLUTION'' ''INVALID_REQUEST'' (grid_too_large h cellCount)
                   [(''elementCap'', JUInt kSimulationElementCap), (''gridCellCount'', JFloat cellCount)]
            else if nx * ny * nz < 0 then Inl Foreign_exception
            else Inr \<lparr>vg_h = h, vg_originX = origin_at xMin xMax nx h, vg_originY = origin_at yMin yMax ny h,
                      vg_originZ = origin_at zMin zMax nz h, vg_nx = nx, vg_ny = ny, vg_nz = nz,
                      vg_occupied = replicate (nat (nx * ny * nz)) False, vg_occupiedCount = 0\<rparr>))))"

section \<open>One column\<close>

text \<open>\<open>std::sort\<close> on doubles; with a NaN among several the comparison is not an order.\<close>

definition sort_doubles :: "f64 list \<Rightarrow> f64 list result" where
  "sort_doubles xs =
     (if 2 \<le> length xs \<and> (\<exists>x \<in> set xs. f64_nan x) then Inl Undefined_behaviour else Inr (sort_key f64_rank xs))"

definition weld_step :: "f64 \<Rightarrow> f64 list \<Rightarrow> f64 \<Rightarrow> f64 list" where
  "weld_step weld kept c = (if kept = [] \<or> f64_less weld (f64_sub c (last kept)) then kept @ [c] else kept)"

definition weld_crossings :: "f64 \<Rightarrow> f64 list \<Rightarrow> f64 list" where
  "weld_crossings weld crossings = foldl (weld_step weld) [] crossings"

fun runs_of :: "f64 list \<Rightarrow> (f64 \<times> f64) list" where
  "runs_of (enter # exit # kept) = (enter, exit) # runs_of kept"
| "runs_of kept = []"

definition grid_offset :: "f64 \<Rightarrow> f64" where
  "grid_offset h = f64_mul h (f64_decimal 1 4)"

text \<open>\<open>origin + (i + 0.5) * h + offset\<close>.\<close>

definition sample_at :: "f64 \<Rightarrow> f64 \<Rightarrow> int \<Rightarrow> f64" where
  "sample_at h origin i =
     f64_add (f64_add origin (f64_mul (f64_add (f64_of_int i) (f64_decimal 5 1)) h)) (grid_offset h)"

definition too_many_elements :: "f64 \<Rightarrow> nat \<Rightarrow> string" where
  "too_many_elements h reached =
     ''voxelizing at '' @ printf_fixed 6 h @ '' mm passed '' @ decimal reached @ '' occupied elements, above the '' @
     decimal kSimulationElementCap @ ''-element cap; coarsen resolutionMm''"

definition occupy :: "VoxelGrid \<Rightarrow> nat \<Rightarrow> VoxelGrid result" where
  "occupy grid cell =
     (if vg_occupied grid ! cell then Inr grid
      else if kSimulationElementCap < vg_occupiedCount grid + 1
      then ThrowSimulation ''SIM_RESOLUTION'' ''INVALID_REQUEST'' (too_many_elements (vg_h grid) (vg_occupiedCount grid + 1))
             [(''elementCap'', JUInt kSimulationElementCap), (''elementCount'', JUInt (vg_occupiedCount grid + 1))]
      else Inr (grid\<lparr>vg_occupied := (vg_occupied grid)[cell := True], vg_occupiedCount := vg_occupiedCount grid + 1\<rparr>))"

definition inside_run :: "f64 \<Rightarrow> f64 \<times> f64 \<Rightarrow> bool" where
  "inside_run cz run \<longleftrightarrow> \<not> (f64_less cz (fst run) \<or> f64_le (snd run) cz)"

definition fill_run :: "int \<Rightarrow> int \<Rightarrow> VoxelGrid \<Rightarrow> f64 \<times> f64 \<Rightarrow> VoxelGrid result" where
  "fill_run i j grid run =
     rfold (\<lambda>g k. if inside_run (sample_at (vg_h g) (vg_originZ g) k) run then occupy g (cell_index g i j k) else Inr g)
       grid [0..vg_nz grid - 1]"

definition column_runs :: "'sh probe \<Rightarrow> f64 \<Rightarrow> 'sh \<Rightarrow> f64 \<Rightarrow> f64 \<Rightarrow> (f64 \<times> f64) list result" where
  "column_runs P h s cx cy =
     rbind (sort_doubles (pr_crossings P s cx cy)) (\<lambda>crossings.
       let kept = weld_crossings (f64_mul h (f64_decimal 1 6)) crossings
       in Inr (if odd (length kept) then [] else runs_of kept))"

definition fill_body :: "'sh probe \<Rightarrow> int \<Rightarrow> int \<Rightarrow> VoxelGrid \<Rightarrow> 'sh EvaluatedBody \<Rightarrow> VoxelGrid result" where
  "fill_body P i j grid body =
     rbind (column_runs P (vg_h grid) (shape body) (sample_at (vg_h grid) (vg_originX grid) i)
              (sample_at (vg_h grid) (vg_originY grid) j))
       (\<lambda>runs. rfold (fill_run i j) grid runs)"

definition fill_column :: "'sh probe \<Rightarrow> 'sh EvaluatedBody list \<Rightarrow> bool \<Rightarrow> VoxelGrid \<Rightarrow> int \<times> int \<Rightarrow> VoxelGrid result" where
  "fill_column P bodies cancelled grid ij =
     rbind (CheckCancellation cancelled) (\<lambda>_. rfold (fill_body P (snd ij) (fst ij)) grid bodies)"

definition columns_of :: "VoxelGrid \<Rightarrow> (int \<times> int) list" where
  "columns_of grid = concat (map (\<lambda>j. map (\<lambda>i. (j, i)) [0..vg_nx grid - 1]) [0..vg_ny grid - 1])"

definition Voxelize :: "'sh probe \<Rightarrow> 'sh EvaluatedBody list \<Rightarrow> f64 \<Rightarrow> bool \<Rightarrow> VoxelGrid result" where
  "Voxelize P bodies h cancelled =
     (case pr_bounds P (map shape bodies) of
        None \<Rightarrow> Inl (Invalid_argument ''simulation needs at least one solid body with real extent'')
      | Some (lo, hi) \<Rightarrow>
          rbind (empty_grid lo hi h) (\<lambda>grid. rfold (fill_column P bodies cancelled) grid (columns_of grid)))"

end
