(* ===== verification/Fem_Model.thy ===== *)
theory Fem_Model
  imports Voxel_Grid
begin

text \<open>
  The mesh of \<open>simulation.cpp\<close>: one hexahedral element per occupied voxel, its eight grid nodes
  numbered in key order, the skin quads between an occupied voxel and an empty neighbour, and the
  triangle mesh emitted from them. Node keys are 64-bit integers and node ids 32-bit ones in the
  code; with at most 150000 elements and 256 million cells both stay far from their limits, so they
  are \<open>int\<close> and \<open>nat\<close> here.
\<close>

section \<open>Tables\<close>

type_synonym cell = "int \<times> int \<times> int"

definition kCornerOffset :: "cell list" where
  "kCornerOffset =
     [(0, 0, 0), (1, 0, 0), (1, 1, 0), (0, 1, 0), (0, 0, 1), (1, 0, 1), (1, 1, 1), (0, 1, 1)]"

definition kFaceNeighbor :: "cell list" where
  "kFaceNeighbor = [(1, 0, 0), (-1, 0, 0), (0, 1, 0), (0, -1, 0), (0, 0, 1), (0, 0, -1)]"

definition kFaceCorners :: "nat list list" where
  "kFaceCorners = [[1, 2, 6, 5], [0, 4, 7, 3], [3, 7, 6, 2], [0, 1, 5, 4], [4, 5, 6, 7], [0, 3, 2, 1]]"

definition cell_add :: "cell \<Rightarrow> cell \<Rightarrow> cell" where
  "cell_add c d = (case (c, d) of ((i, j, k), (di, dj, dk)) \<Rightarrow> (i + di, j + dj, k + dk))"

section \<open>The model\<close>

record FemModel =
  fem_nodeKeys :: "int list"
  fem_nodeIdOf :: "int \<Rightarrow> nat option"
  fem_elementNodes :: "nat list list"
  fem_elementCells :: "cell list"
  fem_skinQuads :: "(nat \<times> nat) list"
  fem_nodeOnSkin :: "bool list"

definition nodeKey :: "VoxelGrid \<Rightarrow> cell \<Rightarrow> int" where
  "nodeKey grid p = (case p of (i, j, k) \<Rightarrow> (k * (vg_ny grid + 1) + j) * (vg_nx grid + 1) + i)"

definition NodePosition :: "VoxelGrid \<Rightarrow> int \<Rightarrow> vec3" where
  "NodePosition grid key =
     (let nodesX = vg_nx grid + 1; nodesY = vg_ny grid + 1;
          i = key mod nodesX; j = key div nodesX mod nodesY; k = key div (nodesX * nodesY)
      in (f64_add (vg_originX grid) (f64_mul (f64_of_int i) (vg_h grid)),
          f64_add (vg_originY grid) (f64_mul (f64_of_int j) (vg_h grid)),
          f64_add (vg_originZ grid) (f64_mul (f64_of_int k) (vg_h grid))))"

definition occupied_cell :: "VoxelGrid \<Rightarrow> cell \<Rightarrow> bool" where
  "occupied_cell grid c = (case c of (i, j, k) \<Rightarrow> Occupied grid i j k)"

definition element_cells :: "VoxelGrid \<Rightarrow> cell list" where
  "element_cells grid =
     filter (occupied_cell grid)
       (concat (map (\<lambda>k. concat (map (\<lambda>j. map (\<lambda>i. (i, j, k)) [0..vg_nx grid - 1]) [0..vg_ny grid - 1])) [0..vg_nz grid - 1]))"

definition corner_keys :: "VoxelGrid \<Rightarrow> cell \<Rightarrow> int list" where
  "corner_keys grid c = map (\<lambda>corner. nodeKey grid (cell_add c corner)) kCornerOffset"

definition node_at :: "FemModel \<Rightarrow> int \<Rightarrow> nat result" where
  "node_at model key = (case fem_nodeIdOf model key of Some n \<Rightarrow> Inr n | None \<Rightarrow> Inl Out_of_range_error)"

definition mark_nodes :: "nat list \<Rightarrow> nat list \<Rightarrow> bool list \<Rightarrow> bool list" where
  "mark_nodes nodes corners on = foldl (\<lambda>on corner. on[nodes ! corner := True]) on corners"

definition build_face :: "VoxelGrid \<Rightarrow> cell \<Rightarrow> nat \<Rightarrow> nat list \<Rightarrow> FemModel \<Rightarrow> nat \<Rightarrow> FemModel" where
  "build_face grid c element nodes model face =
     (if occupied_cell grid (cell_add c (kFaceNeighbor ! face)) then model
      else model\<lparr>fem_skinQuads := fem_skinQuads model @ [(element, face)],
                 fem_nodeOnSkin := mark_nodes nodes (kFaceCorners ! face) (fem_nodeOnSkin model)\<rparr>)"

definition build_element :: "VoxelGrid \<Rightarrow> bool \<Rightarrow> FemModel \<Rightarrow> nat \<times> cell \<Rightarrow> FemModel result" where
  "build_element grid cancelled model elem =
     rbind (CheckCancellation cancelled) (\<lambda>_.
     rbind (rmap (node_at model) (corner_keys grid (snd elem))) (\<lambda>nodes.
       Inr (foldl (build_face grid (snd elem) (fst elem) nodes)
              (model\<lparr>fem_elementNodes := fem_elementNodes model @ [nodes]\<rparr>) [0..<6])))"

definition node_keys :: "VoxelGrid \<Rightarrow> int list" where
  "node_keys grid = sort_unique (concat (map (corner_keys grid) (element_cells grid)))"

definition new_model :: "VoxelGrid \<Rightarrow> FemModel" where
  "new_model grid =
     \<lparr>fem_nodeKeys = node_keys grid,
      fem_nodeIdOf = map_of (zip (node_keys grid) [0..<length (node_keys grid)]),
      fem_elementNodes = [], fem_elementCells = element_cells grid, fem_skinQuads = [],
      fem_nodeOnSkin = replicate (length (node_keys grid)) False\<rparr>"

definition BuildModel :: "VoxelGrid \<Rightarrow> bool \<Rightarrow> FemModel result" where
  "BuildModel grid cancelled =
     rfold (build_element grid cancelled) (new_model grid) (List.enumerate 0 (element_cells grid))"

section \<open>The skin mesh\<close>

record SimulationMesh =
  sm_positions :: "f64 list"
  sm_triangles :: "nat list"
  sm_scalars :: "f64 list"

definition kNoVertex :: nat where
  "kNoVertex = 2 ^ 32 - 1"

fun number_skin :: "nat \<Rightarrow> bool list \<Rightarrow> nat list" where
  "number_skin vertices [] = []"
| "number_skin vertices (on # rest) =
     (if on then vertices # number_skin (vertices + 1) rest else kNoVertex # number_skin vertices rest)"

definition skin_nodes :: "FemModel \<Rightarrow> nat list" where
  "skin_nodes model = filter (\<lambda>node. fem_nodeOnSkin model ! node) [0..<length (fem_nodeKeys model)]"

definition quad_nodes :: "FemModel \<Rightarrow> nat \<times> nat \<Rightarrow> nat list" where
  "quad_nodes model quad = map (\<lambda>corner. fem_elementNodes model ! fst quad ! corner) (kFaceCorners ! snd quad)"

definition quad_triangles :: "nat list \<Rightarrow> nat list" where
  "quad_triangles corners = map (\<lambda>c. corners ! c) [0, 1, 2, 0, 2, 3]"

definition EmitSkin :: "FemModel \<Rightarrow> VoxelGrid \<Rightarrow> f64 list \<Rightarrow> SimulationMesh" where
  "EmitSkin model grid nodalScalar =
     (let vertexOf = number_skin 0 (fem_nodeOnSkin model)
      in \<lparr>sm_positions = concat (map (\<lambda>node. case NodePosition grid (fem_nodeKeys model ! node) of (x, y, z) \<Rightarrow> [x, y, z])
                           (skin_nodes model)),
          sm_triangles = concat (map (\<lambda>quad. quad_triangles (map (\<lambda>node. vertexOf ! node) (quad_nodes model quad)))
                           (fem_skinQuads model)),
          sm_scalars = map (\<lambda>node. nodalScalar ! node) (skin_nodes model)\<rparr>)"

end
