(* ===== verification/Fem_Solve.thy ===== *)
theory Fem_Solve
  imports Fem_Model
begin

text \<open>
  The linear algebra of \<open>simulation.cpp\<close> in IEEE arithmetic, every operation rounded on its own:
  the element matrices, the block-sparse system, the matrix-vector product, Jacobi-preconditioned
  conjugate gradients and the recovery of nodal stress. A matrix is its vector of values, as in the
  code; an entry that several loop iterations add to is the fold of its additions in loop order.
\<close>

section \<open>Constants\<close>

definition f64_one :: f64 where
  "f64_one = f64_of_nat 1"

definition f64_two :: f64 where
  "f64_two = f64_of_nat 2"

definition kSimulationCgMaxIterations :: nat where
  "kSimulationCgMaxIterations = 10000"

definition kCgRelativeTolerance :: f64 where
  "kCgRelativeTolerance = f64_decimal 1 8"

definition corner_sign :: "int \<Rightarrow> f64" where
  "corner_sign offset = (if offset = 0 then f64_neg f64_one else f64_one)"

definition kCornerSign :: "vec3 list" where
  "kCornerSign = map (\<lambda>(i, j, k). (corner_sign i, corner_sign j, corner_sign k)) kCornerOffset"

definition component :: "vec3 \<Rightarrow> nat \<Rightarrow> f64" where
  "component v r = (case v of (x, y, z) \<Rightarrow> if r = 0 then x else if r = 1 then y else z)"

section \<open>Element matrices\<close>

definition shape_gradient :: "f64 \<Rightarrow> vec3 \<Rightarrow> vec3 \<Rightarrow> vec3" where
  "shape_gradient scale at sign =
     (case (at, sign) of ((xi, eta, zeta), (sx, sy, sz)) \<Rightarrow>
        let px = f64_add f64_one (f64_mul xi sx); py = f64_add f64_one (f64_mul eta sy);
            pz = f64_add f64_one (f64_mul zeta sz)
        in (f64_mul (f64_mul (f64_mul scale sx) py) pz,
            f64_mul (f64_mul (f64_mul scale sy) px) pz,
            f64_mul (f64_mul (f64_mul scale sz) px) py))"

definition ShapeGradients :: "vec3 \<Rightarrow> f64 \<Rightarrow> vec3 list" where
  "ShapeGradients at h =
     map (shape_gradient (f64_div (f64_div f64_two h) (f64_of_nat 8)) at) kCornerSign"

definition dot3 :: "vec3 \<Rightarrow> vec3 \<Rightarrow> f64" where
  "dot3 a b =
     (case (a, b) of ((ax, ay, az), (bx, by', bz)) \<Rightarrow>
        f64_add (f64_add (f64_mul ax bx) (f64_mul ay by')) (f64_mul az bz))"

definition gauss_points :: "f64 \<Rightarrow> vec3 list list" where
  "gauss_points h =
     (let gauss = f64_div f64_one (f64_sqrt (f64_of_nat 3))
      in map (\<lambda>(x, y, z). ShapeGradients (f64_mul x gauss, f64_mul y gauss, f64_mul z gauss) h) kCornerSign)"

definition weightDetJ :: "f64 \<Rightarrow> f64" where
  "weightDetJ h = f64_div (f64_mul (f64_mul h h) h) (f64_of_nat 8)"

definition elastic_value :: "f64 \<Rightarrow> f64 \<Rightarrow> vec3 \<Rightarrow> vec3 \<Rightarrow> nat \<Rightarrow> nat \<Rightarrow> f64" where
  "elastic_value lambda mu ga gb r c =
     (let value = f64_add (f64_mul (f64_mul lambda (component ga r)) (component gb c))
                          (f64_mul (f64_mul mu (component ga c)) (component gb r))
      in if r = c then f64_add value (f64_mul mu (dot3 ga gb)) else value)"

text \<open>Entry \<open>(row, column)\<close> of an element matrix of \<open>n\<close> unknowns per node.\<close>

definition element_matrix :: "nat \<Rightarrow> f64 \<Rightarrow> (vec3 \<Rightarrow> vec3 \<Rightarrow> nat \<Rightarrow> nat \<Rightarrow> f64) \<Rightarrow> f64 list" where
  "element_matrix n h value =
     (let points = gauss_points h
      in concat (map (\<lambda>row. map (\<lambda>column.
            foldl (\<lambda>sum g. f64_add sum (value (g ! (row div n)) (g ! (column div n)) (row mod n) (column mod n))) 0 points)
          [0..<8 * n]) [0..<8 * n]))"

definition ElasticElementMatrix :: "f64 \<Rightarrow> f64 \<Rightarrow> f64 \<Rightarrow> f64 list" where
  "ElasticElementMatrix h lambda mu =
     element_matrix 3 h (\<lambda>ga gb r c. f64_mul (weightDetJ h) (elastic_value lambda mu ga gb r c))"

definition HeatElementMatrix :: "f64 \<Rightarrow> f64 \<Rightarrow> f64 list" where
  "HeatElementMatrix h conductivity =
     element_matrix 1 h (\<lambda>ga gb r c. f64_mul (f64_mul (weightDetJ h) conductivity) (dot3 ga gb))"

section \<open>The sparse system\<close>

record SparseBlocks =
  sb_dof :: nat
  sb_rowPtr :: "nat list"
  sb_columns :: "nat list"
  sb_values :: "f64 list"

definition row_columns :: "SparseBlocks \<Rightarrow> nat \<Rightarrow> nat list" where
  "row_columns system row =
     take (sb_rowPtr system ! (row + 1) - sb_rowPtr system ! row) (drop (sb_rowPtr system ! row) (sb_columns system))"

text \<open>\<open>std::lower_bound\<close> in the sorted columns of the row.\<close>

definition EntryOf :: "SparseBlocks \<Rightarrow> nat \<Rightarrow> nat \<Rightarrow> nat" where
  "EntryOf system row column =
     sb_rowPtr system ! row + length (takeWhile (\<lambda>c. c < column) (row_columns system row))"

definition adjacency_of :: "nat \<Rightarrow> nat list list \<Rightarrow> nat list list" where
  "adjacency_of nodeCount nodeLists =
     map sort_unique
       (foldl (\<lambda>adjacency nodes. foldl (\<lambda>adjacency row. adjacency[row := adjacency ! row @ nodes]) adjacency nodes)
          (replicate nodeCount []) nodeLists)"

fun row_pointers :: "nat \<Rightarrow> nat list list \<Rightarrow> nat list" where
  "row_pointers start [] = [start]"
| "row_pointers start (columns # rest) = start # row_pointers (start + length columns) rest"

definition add_at_index :: "f64 list \<Rightarrow> nat \<times> f64 \<Rightarrow> f64 list" where
  "add_at_index values contribution =
     values[fst contribution := f64_add (values ! fst contribution) (snd contribution)]"

definition element_contributions :: "SparseBlocks \<Rightarrow> f64 list \<Rightarrow> nat list \<Rightarrow> (nat \<times> f64) list" where
  "element_contributions system elementMatrix nodes =
     (let n = sb_dof system
      in concat (map (\<lambda>a. concat (map (\<lambda>b.
           concat (map (\<lambda>r. map (\<lambda>c.
             (EntryOf system (nodes ! a) (nodes ! b) * (n * n) + r * n + c,
              elementMatrix ! ((a * n + r) * (8 * n) + (b * n + c)))) [0..<n]) [0..<n])) [0..<8])) [0..<8]))"

definition add_element :: "f64 list \<Rightarrow> bool \<Rightarrow> SparseBlocks \<Rightarrow> nat \<times> nat list \<Rightarrow> SparseBlocks result" where
  "add_element elementMatrix cancelled system elem =
     rbind (if fst elem mod 1024 = 0 then CheckCancellation cancelled else Inr ()) (\<lambda>_.
       Inr (system\<lparr>sb_values :=
         foldl add_at_index (sb_values system) (element_contributions system elementMatrix (snd elem))\<rparr>))"

definition empty_system :: "FemModel \<Rightarrow> nat \<Rightarrow> SparseBlocks" where
  "empty_system model n =
     (let adjacency = adjacency_of (length (fem_nodeKeys model)) (fem_elementNodes model)
      in \<lparr>sb_dof = n, sb_rowPtr = row_pointers 0 adjacency, sb_columns = concat adjacency,
          sb_values = replicate (length (concat adjacency) * (n * n)) 0\<rparr>)"

definition AssembleSystem :: "FemModel \<Rightarrow> f64 list \<Rightarrow> nat \<Rightarrow> bool \<Rightarrow> SparseBlocks result" where
  "AssembleSystem model elementMatrix n cancelled =
     rfold (add_element elementMatrix cancelled) (empty_system model n) (List.enumerate 0 (fem_elementNodes model))"

definition entry_product :: "SparseBlocks \<Rightarrow> f64 list \<Rightarrow> nat \<Rightarrow> nat \<Rightarrow> f64" where
  "entry_product system x r entry =
     (let n = sb_dof system
      in foldl (\<lambda>sum c. f64_add sum (f64_mul (sb_values system ! (entry * (n * n) + r * n + c))
                                        (x ! ((sb_columns system ! entry) * n + c)))) 0 [0..<n])"

definition Multiply :: "SparseBlocks \<Rightarrow> f64 list \<Rightarrow> f64 list" where
  "Multiply system x =
     concat (map (\<lambda>row. map (\<lambda>r.
        foldl (\<lambda>sum entry. f64_add sum (entry_product system x r entry)) 0
          [sb_rowPtr system ! row..<sb_rowPtr system ! (row + 1)]) [0..<sb_dof system])
       [0..<length (sb_rowPtr system) - 1])"

section \<open>Conjugate gradients\<close>

record CgOutcome =
  cg_iterations :: nat
  cg_relativeResidual :: f64
  cg_converged :: bool

definition dot_product :: "f64 list \<Rightarrow> f64 list \<Rightarrow> f64" where
  "dot_product u v = foldl (\<lambda>sum p. f64_add sum (f64_mul (fst p) (snd p))) 0 (zip u v)"

definition mask_fixed :: "bool list \<Rightarrow> f64 list \<Rightarrow> f64 list" where
  "mask_fixed fixedDof v = map2 (\<lambda>fixed value. if fixed then 0 else value) fixedDof v"

definition diagonal_of :: "SparseBlocks \<Rightarrow> f64 list" where
  "diagonal_of system =
     concat (map (\<lambda>row. map (\<lambda>d.
       let value = sb_values system ! (EntryOf system row row * (sb_dof system * sb_dof system) + d * sb_dof system + d)
       in if f64_less 0 value then value else f64_one) [0..<sb_dof system]) [0..<length (sb_rowPtr system) - 1])"

definition axpy :: "f64 \<Rightarrow> f64 list \<Rightarrow> f64 list \<Rightarrow> f64 list" where
  "axpy alpha p x = map2 (\<lambda>xi pi. f64_add xi (f64_mul alpha pi)) x p"

definition axmy :: "f64 \<Rightarrow> f64 list \<Rightarrow> f64 list \<Rightarrow> f64 list" where
  "axmy alpha q r = map2 (\<lambda>ri qi. f64_sub ri (f64_mul alpha qi)) r q"

definition precondition :: "bool list \<Rightarrow> f64 list \<Rightarrow> f64 list \<Rightarrow> f64 list" where
  "precondition fixedDof diagonal r = mask_fixed fixedDof (map2 f64_div r diagonal)"

record cg_state =
  cg_x :: "f64 list"
  cg_r :: "f64 list"
  cg_p :: "f64 list"
  cg_rz :: f64

definition relative_residual :: "f64 list \<Rightarrow> f64 \<Rightarrow> f64" where
  "relative_residual r bNorm = f64_div (f64_sqrt (dot_product r r)) bNorm"

text \<open>What one iteration computes before it decides: the product, the step and the new state.\<close>

definition cg_product :: "SparseBlocks \<Rightarrow> bool list \<Rightarrow> cg_state \<Rightarrow> f64 list" where
  "cg_product system fixedDof st = mask_fixed fixedDof (Multiply system (cg_p st))"

definition cg_alpha :: "f64 list \<Rightarrow> cg_state \<Rightarrow> f64" where
  "cg_alpha q st = f64_div (cg_rz st) (dot_product (cg_p st) q)"

definition cg_moved :: "f64 list \<Rightarrow> cg_state \<Rightarrow> cg_state" where
  "cg_moved q st =
     st\<lparr>cg_x := axpy (cg_alpha q st) (cg_p st) (cg_x st), cg_r := axmy (cg_alpha q st) q (cg_r st)\<rparr>"

definition cg_turned :: "bool list \<Rightarrow> f64 list \<Rightarrow> cg_state \<Rightarrow> cg_state" where
  "cg_turned fixedDof diagonal st =
     (let z = precondition fixedDof diagonal (cg_r st); rzNext = dot_product (cg_r st) z;
          beta = f64_div rzNext (cg_rz st)
      in st\<lparr>cg_rz := rzNext, cg_p := map2 (\<lambda>zi pi. f64_add zi (f64_mul beta pi)) z (cg_p st)\<rparr>)"

text \<open>The loop with the iterations that remain; \<open>iteration\<close> is the code's counter.\<close>

fun cg_loop :: "SparseBlocks \<Rightarrow> bool list \<Rightarrow> f64 list \<Rightarrow> f64 \<Rightarrow> bool \<Rightarrow> nat \<Rightarrow> nat \<Rightarrow> cg_state \<Rightarrow> (CgOutcome \<times> f64 list) result" where
  "cg_loop system fixedDof diagonal bNorm cancelled 0 iteration st =
     Inr (\<lparr>cg_iterations = kSimulationCgMaxIterations, cg_relativeResidual = 0, cg_converged = False\<rparr>, cg_x st)"
| "cg_loop system fixedDof diagonal bNorm cancelled (Suc remaining) iteration st =
     rbind (CheckCancellation cancelled) (\<lambda>_.
       let q = cg_product system fixedDof st
       in if f64_le (dot_product (cg_p st) q) 0
          then Inr (\<lparr>cg_iterations = iteration, cg_relativeResidual = relative_residual (cg_r st) bNorm,
                     cg_converged = f64_le (relative_residual (cg_r st) bNorm) kCgRelativeTolerance\<rparr>, cg_x st)
          else let moved = cg_moved q st; residual = relative_residual (cg_r moved) bNorm
               in if f64_le residual kCgRelativeTolerance
                  then Inr (\<lparr>cg_iterations = iteration, cg_relativeResidual = residual, cg_converged = True\<rparr>, cg_x moved)
                  else cg_loop system fixedDof diagonal bNorm cancelled remaining (iteration + 1)
                         (cg_turned fixedDof diagonal moved))"

definition SolveConjugateGradient ::
  "SparseBlocks \<Rightarrow> bool list \<Rightarrow> f64 list \<Rightarrow> bool \<Rightarrow> (CgOutcome \<times> f64 list) result" where
  "SolveConjugateGradient system fixedDof b cancelled =
     (let x = replicate (length b) 0; diagonal = diagonal_of system; bNorm = f64_sqrt (dot_product b b)
      in if f64_eq bNorm 0 then Inr (\<lparr>cg_iterations = 0, cg_relativeResidual = 0, cg_converged = True\<rparr>, x)
         else let z = precondition fixedDof diagonal b
              in cg_loop system fixedDof diagonal bNorm cancelled kSimulationCgMaxIterations 1
                   \<lparr>cg_x = x, cg_r = b, cg_p = z, cg_rz = dot_product b z\<rparr>)"

end
