(* ===== verification/Simulation.thy ===== *)
theory Simulation
  imports Fem_Solve
begin

text \<open>
  \<open>SimulateStudy\<close> of \<open>simulation.cpp\<close>: the boundary conditions resolved by the selector evaluator,
  matched to the nodes of the skin, the Dirichlet elimination, the solve, the recovered field and
  the emitted mesh. The typed refusals carry the code's \<open>SIM_*\<close> names.
\<close>

section \<open>A study\<close>

record SimulationMaterial =
  youngsModulusGPa :: f64
  poissonsRatio :: f64
  yieldStrengthMPa :: f64
  thermalConductivityWPerMK :: f64

record SimulationConstraint =
  con_id :: string
  con_ast :: json
  con_kind :: string
  con_valueC :: f64

record SimulationLoad =
  load_id :: string
  load_ast :: json
  load_kind :: string
  load_vectorN :: vec3
  load_wattsPerM2 :: f64

record SimulationStudy =
  study_kind :: string
  study_resolutionMm :: f64
  study_material :: SimulationMaterial
  study_constraints :: "SimulationConstraint list"
  study_loads :: "SimulationLoad list"

record SimulationResult =
  sim_kind :: string
  sim_mesh :: SimulationMesh
  sim_scalarName :: string
  sim_scalarMin :: f64
  sim_scalarMax :: f64
  sim_displacementMaxMm :: f64
  sim_elementCount :: nat
  sim_nodeCount :: nat
  sim_iterations :: nat

section \<open>Boundary conditions\<close>

definition quoted :: "string \<Rightarrow> string" where
  "quoted s = [CHR 0x22] @ s @ [CHR 0x22]"

definition entity_touches :: "'sh kernel \<Rightarrow> 'sh probe \<Rightarrow> f64 \<Rightarrow> vec3 \<Rightarrow> 'sh QueryEntity \<Rightarrow> bool" where
  "entity_touches K P h position entity =
     (if pr_out P (ent_shape entity) h position then False
      else case g_distance (k_geom K) position (ent_shape entity) of
             Some distance \<Rightarrow> f64_le distance (f64_mul (f64_decimal 9 1) h)
           | None \<Rightarrow> False)"

definition match_node ::
  "'sh kernel \<Rightarrow> 'sh probe \<Rightarrow> FemModel \<Rightarrow> VoxelGrid \<Rightarrow> 'sh QueryEntity list \<Rightarrow> bool \<Rightarrow> nat list \<Rightarrow> nat \<Rightarrow> nat list result" where
  "match_node K P model grid entities cancelled matched node =
     (if \<not> fem_nodeOnSkin model ! node then Inr matched
      else rbind (if node mod 4096 = 0 then CheckCancellation cancelled else Inr ()) (\<lambda>_.
        if \<exists>entity \<in> set entities. entity_touches K P (vg_h grid) (NodePosition grid (fem_nodeKeys model ! node)) entity
        then Inr (matched @ [node]) else Inr matched))"

definition MatchBoundaryNodes ::
  "'sh kernel \<Rightarrow> 'sh probe \<Rightarrow> json \<Rightarrow> string \<Rightarrow> 'sh EvaluatedBody list \<Rightarrow> 'sh NamingRegistry \<Rightarrow> FemModel \<Rightarrow> VoxelGrid \<Rightarrow> bool \<Rightarrow>
   nat list result" where
  "MatchBoundaryNodes K P ast condition bodies registry model grid cancelled =
     rbind (EvaluateQuery K ast bodies registry cancelled) (\<lambda>outcome.
       if out_entities outcome = []
       then ThrowSimulation ''SIM_BC_UNRESOLVED'' ''REFERENCE_MISSING''
              (''boundary condition '' @ quoted condition @ '' resolves to zero faces'') [(''id'', JString condition)]
       else rfold (match_node K P model grid (out_entities outcome) cancelled) []
              [0..<length (fem_nodeKeys model)])"

type_synonym dirichlet = "bool list \<times> f64 list"

definition clamp_node :: "bool \<Rightarrow> f64 \<Rightarrow> dirichlet \<Rightarrow> nat \<Rightarrow> dirichlet" where
  "clamp_node isStatic valueC st node =
     (case st of (fixedDof, prescribed) \<Rightarrow>
        if isStatic
        then (fixedDof[node * 3 := True, node * 3 + 1 := True, node * 3 + 2 := True], prescribed)
        else if fixedDof ! node then (fixedDof, prescribed)
        else (fixedDof[node := True], prescribed[node := valueC]))"

definition apply_constraint ::
  "'sh kernel \<Rightarrow> 'sh probe \<Rightarrow> 'sh EvaluatedBody list \<Rightarrow> 'sh NamingRegistry \<Rightarrow> FemModel \<Rightarrow> VoxelGrid \<Rightarrow> bool \<Rightarrow> bool \<Rightarrow>
   dirichlet \<Rightarrow> SimulationConstraint \<Rightarrow> dirichlet result" where
  "apply_constraint K P bodies registry model grid cancelled isStatic st constraint =
     rbind (CheckCancellation cancelled) (\<lambda>_.
     rbind (MatchBoundaryNodes K P (con_ast constraint) (con_id constraint) bodies registry model grid cancelled) (\<lambda>matched.
       Inr (foldl (clamp_node isStatic (con_valueC constraint)) st matched)))"

definition add_force :: "vec3 \<Rightarrow> f64 \<Rightarrow> f64 list \<Rightarrow> nat \<Rightarrow> f64 list" where
  "add_force vectorN share loadVector node =
     foldl add_at_index loadVector (map (\<lambda>d. (node * 3 + d, f64_mul (component vectorN d) share)) [0, 1, 2])"

definition matched_quads :: "FemModel \<Rightarrow> nat list \<Rightarrow> nat" where
  "matched_quads model matched =
     length (filter (\<lambda>quad. list_all (\<lambda>node. node \<in> set matched) (quad_nodes model quad)) (fem_skinQuads model))"

definition load_watts :: "SimulationLoad \<Rightarrow> nat \<Rightarrow> f64 \<Rightarrow> f64" where
  "load_watts load quads h =
     f64_mul (f64_mul (load_wattsPerM2 load) (f64_mul (f64_mul (f64_of_nat quads) h) h)) (f64_decimal 1 6)"

definition spread_load :: "bool \<Rightarrow> FemModel \<Rightarrow> f64 \<Rightarrow> SimulationLoad \<Rightarrow> nat list \<Rightarrow> f64 list \<Rightarrow> f64 list" where
  "spread_load isStatic model h load matched loadVector =
     (let share = f64_div f64_one (f64_of_nat (length matched))
      in if isStatic then foldl (add_force (load_vectorN load) share) loadVector matched
         else let watts = load_watts load (matched_quads model matched) h
              in foldl add_at_index loadVector (map (\<lambda>node. (node, f64_mul watts share)) matched))"

definition apply_load ::
  "'sh kernel \<Rightarrow> 'sh probe \<Rightarrow> 'sh EvaluatedBody list \<Rightarrow> 'sh NamingRegistry \<Rightarrow> FemModel \<Rightarrow> VoxelGrid \<Rightarrow> bool \<Rightarrow> bool \<Rightarrow>
   f64 list \<Rightarrow> SimulationLoad \<Rightarrow> f64 list result" where
  "apply_load K P bodies registry model grid cancelled isStatic loadVector load =
     rbind (CheckCancellation cancelled) (\<lambda>_.
     rbind (MatchBoundaryNodes K P (load_ast load) (load_id load) bodies registry model grid cancelled) (\<lambda>matched.
       if matched = []
       then ThrowSimulation ''SIM_BC_UNRESOLVED'' ''REFERENCE_MISSING''
              (''load '' @ quoted (load_id load) @ '' resolves to faces but matches no mesh node at this resolution'')
              [(''id'', JString (load_id load))]
       else Inr (spread_load isStatic model (vg_h grid) load matched loadVector)))"

section \<open>Recovery\<close>

definition strain_terms :: "f64 \<Rightarrow> vec3 \<Rightarrow> vec3 \<Rightarrow> f64 list" where
  "strain_terms h sign u =
     (case (sign, u) of ((sx, sy, sz), (ux, uy, uz)) \<Rightarrow>
        let four = f64_mul (f64_of_nat 4) h; gx = f64_div sx four; gy = f64_div sy four; gz = f64_div sz four
        in [f64_mul gx ux, f64_mul gy uy, f64_mul gz uz,
            f64_add (f64_mul gy ux) (f64_mul gx uy),
            f64_add (f64_mul gz uy) (f64_mul gy uz),
            f64_add (f64_mul gx uz) (f64_mul gz ux)])"

definition element_strain :: "f64 \<Rightarrow> f64 list \<Rightarrow> nat list \<Rightarrow> f64 list" where
  "element_strain h u nodes =
     foldl (\<lambda>strain a. map2 f64_add strain
        (strain_terms h (kCornerSign ! a) (u ! (nodes ! a * 3), u ! (nodes ! a * 3 + 1), u ! (nodes ! a * 3 + 2))))
       (replicate 6 0) [0..<8]"

definition squared :: "f64 \<Rightarrow> f64" where
  "squared x = f64_mul x x"

definition von_mises :: "f64 \<Rightarrow> f64 \<Rightarrow> f64 list \<Rightarrow> f64" where
  "von_mises lambda mu strain =
     (let trace = f64_add (f64_add (strain ! 0) (strain ! 1)) (strain ! 2);
          normal = (\<lambda>e. f64_add (f64_mul lambda trace) (f64_mul (f64_mul f64_two mu) e));
          sx = normal (strain ! 0); sy = normal (strain ! 1); sz = normal (strain ! 2);
          txy = f64_mul mu (strain ! 3); tyz = f64_mul mu (strain ! 4); tzx = f64_mul mu (strain ! 5)
      in f64_sqrt (f64_add
           (f64_mul (f64_decimal 5 1)
              (f64_add (f64_add (squared (f64_sub sx sy)) (squared (f64_sub sy sz))) (squared (f64_sub sz sx))))
           (f64_mul (f64_of_nat 3) (f64_add (f64_add (squared txy) (squared tyz)) (squared tzx)))))"

definition add_stress :: "f64 \<Rightarrow> f64 list \<Rightarrow> f64 \<Rightarrow> f64 \<Rightarrow> f64 list \<times> nat list \<Rightarrow> nat list \<Rightarrow> f64 list \<times> nat list" where
  "add_stress h u lambda mu st nodes =
     (let vonMises = von_mises lambda mu (element_strain h u nodes)
      in foldl (\<lambda>(nodal, adjacent) node.
           (add_at_index nodal (node, vonMises), adjacent[node := adjacent ! node + 1])) st nodes)"

definition RecoverVonMises :: "FemModel \<Rightarrow> f64 list \<Rightarrow> f64 \<Rightarrow> f64 \<Rightarrow> f64 \<Rightarrow> f64 list" where
  "RecoverVonMises model u h lambda mu =
     (case foldl (add_stress h u lambda mu)
             (replicate (length (fem_nodeKeys model)) 0, replicate (length (fem_nodeKeys model)) 0) (fem_elementNodes model) of
        (nodal, adjacent) \<Rightarrow>
          map2 (\<lambda>value uses. if 0 < uses then f64_div value (f64_of_nat uses) else value) nodal adjacent)"

definition displacement_squared :: "f64 list \<Rightarrow> nat \<Rightarrow> f64" where
  "displacement_squared u node =
     f64_add (f64_add (squared (u ! (node * 3))) (squared (u ! (node * 3 + 1)))) (squared (u ! (node * 3 + 2)))"

definition displacement_max :: "f64 list \<Rightarrow> nat \<Rightarrow> f64" where
  "displacement_max u nodeCount =
     f64_sqrt (foldl (\<lambda>m node. f64_max m (displacement_squared u node)) 0 [0..<nodeCount])"

section \<open>The study\<close>

definition check_study :: "SimulationStudy \<Rightarrow> 'sh EvaluatedBody list \<Rightarrow> bool result" where
  "check_study study bodies =
     (let isStatic = study_kind study = ''static-stress''; nu = poissonsRatio (study_material study)
      in if \<not> isStatic \<and> study_kind study \<noteq> ''steady-heat''
         then Inl (Invalid_argument ''simulation study kind must be static-stress or steady-heat'')
         else if \<not> f64_less 0 (study_resolutionMm study) \<or> \<not> f64_finite (study_resolutionMm study)
         then Inl (Invalid_argument ''simulation resolutionMm must be a positive finite number'')
         else if \<not> f64_less (f64_neg f64_one) nu \<or> \<not> f64_less nu (f64_decimal 5 1)
         then Inl (Invalid_argument ''simulation poissonsRatio must lie inside (-1, 0.5)'')
         else if bodies = [] then Inl (Invalid_argument ''simulation needs at least one evaluated body'')
         else Inr isStatic)"

definition clamp_study ::
  "'sh kernel \<Rightarrow> 'sh probe \<Rightarrow> 'sh EvaluatedBody list \<Rightarrow> 'sh NamingRegistry \<Rightarrow> FemModel \<Rightarrow> VoxelGrid \<Rightarrow> bool \<Rightarrow> bool \<Rightarrow>
   SimulationStudy \<Rightarrow> nat \<Rightarrow> dirichlet result" where
  "clamp_study K P bodies registry model grid cancelled isStatic study size_of =
     rbind (rfold (apply_constraint K P bodies registry model grid cancelled isStatic)
              (replicate size_of False, replicate size_of 0) (study_constraints study)) (\<lambda>clamped.
       if True \<notin> set (fst clamped)
       then ThrowSimulation ''SIM_UNCONSTRAINED'' ''INVALID_REQUEST''
              (''no constraint clamps any mesh node, so the system is singular; add a fixed '' @
               ''or temperature constraint that touches the model'') []
       else Inr clamped)"

definition lame_mu :: "SimulationMaterial \<Rightarrow> f64" where
  "lame_mu material =
     f64_div (f64_mul (youngsModulusGPa material) (f64_of_nat 1000)) (f64_mul f64_two (f64_add f64_one (poissonsRatio material)))"

definition lame_lambda :: "SimulationMaterial \<Rightarrow> f64" where
  "lame_lambda material =
     (let nu = poissonsRatio material
      in f64_div (f64_mul (f64_mul (youngsModulusGPa material) (f64_of_nat 1000)) nu)
           (f64_mul (f64_add f64_one nu) (f64_sub f64_one (f64_mul f64_two nu))))"

definition study_matrix :: "bool \<Rightarrow> SimulationMaterial \<Rightarrow> f64 \<Rightarrow> f64 list" where
  "study_matrix isStatic material h =
     (if isStatic then ElasticElementMatrix h (lame_lambda material) (lame_mu material)
      else HeatElementMatrix h (f64_mul (thermalConductivityWPerMK material) (f64_decimal 1 3)))"

definition reduced_load :: "SparseBlocks \<Rightarrow> dirichlet \<Rightarrow> f64 list \<Rightarrow> f64 list" where
  "reduced_load system clamped loadVector =
     map2 (\<lambda>fixed (f, a). if fixed then 0 else f64_sub f a) (fst clamped)
       (zip loadVector (Multiply system (snd clamped)))"

definition not_converged :: "CgOutcome \<Rightarrow> 'a result" where
  "not_converged outcome =
     ThrowSimulation ''SIM_DID_NOT_CONVERGE'' ''GEOMETRY_FAILED''
       (snprintf 128 (''conjugate gradients hit the '' @ decimal kSimulationCgMaxIterations @
          ''-iteration cap at relative residual '' @ printf_scientific 3 (cg_relativeResidual outcome)))
       [(''iterations'', JUInt kSimulationCgMaxIterations), (''relativeResidual'', JFloat (cg_relativeResidual outcome))]"

text \<open>The solution with the prescribed values added back.\<close>

definition solve_study ::
  "FemModel \<Rightarrow> bool \<Rightarrow> SimulationStudy \<Rightarrow> f64 \<Rightarrow> dirichlet \<Rightarrow> f64 list \<Rightarrow> bool \<Rightarrow> (CgOutcome \<times> f64 list) result" where
  "solve_study model isStatic study h clamped loadVector cancelled =
     rbind (AssembleSystem model (study_matrix isStatic (study_material study) h) (if isStatic then 3 else 1) cancelled) (\<lambda>system.
     rbind (SolveConjugateGradient system (fst clamped) (reduced_load system clamped loadVector) cancelled) (\<lambda>(outcome, solution).
       if \<not> cg_converged outcome then not_converged outcome
       else Inr (outcome, map2 f64_add solution (snd clamped))))"

definition scalar_extremes :: "f64 list \<Rightarrow> f64 \<times> f64" where
  "scalar_extremes scalars =
     (if scalars = [] then (0, 0) else (foldl f64_min f64_inf scalars, foldl f64_max (f64_neg f64_inf) scalars))"

definition present_study ::
  "FemModel \<Rightarrow> VoxelGrid \<Rightarrow> bool \<Rightarrow> SimulationStudy \<Rightarrow> CgOutcome \<Rightarrow> f64 list \<Rightarrow> SimulationResult" where
  "present_study model grid isStatic study outcome solution =
     (let material = study_material study;
          nodalScalar = (if isStatic then RecoverVonMises model solution (vg_h grid) (lame_lambda material) (lame_mu material)
                         else solution);
          mesh = EmitSkin model grid nodalScalar
      in \<lparr>sim_kind = study_kind study, sim_mesh = mesh,
          sim_scalarName = (if isStatic then ''vonMisesMPa'' else ''temperatureC''),
          sim_scalarMin = fst (scalar_extremes (sm_scalars mesh)), sim_scalarMax = snd (scalar_extremes (sm_scalars mesh)),
          sim_displacementMaxMm = (if isStatic then displacement_max solution (length (fem_nodeKeys model)) else 0),
          sim_elementCount = vg_occupiedCount grid, sim_nodeCount = length (fem_nodeKeys model),
          sim_iterations = cg_iterations outcome\<rparr>)"

definition SimulateStudy ::
  "'sh kernel \<Rightarrow> 'sh probe \<Rightarrow> 'sh EvaluatedBody list \<Rightarrow> 'sh NamingRegistry \<Rightarrow> SimulationStudy \<Rightarrow> bool \<Rightarrow> SimulationResult result" where
  "SimulateStudy K P bodies registry study cancelled =
     rbind (check_study study bodies) (\<lambda>isStatic.
     rbind (Voxelize P bodies (study_resolutionMm study) cancelled) (\<lambda>grid.
       if vg_occupiedCount grid = 0
       then Inl (Invalid_argument
              ''no voxel element center falls inside the bodies at this resolution; refine resolutionMm'')
       else rbind (BuildModel grid cancelled) (\<lambda>model.
         let size_of = length (fem_nodeKeys model) * (if isStatic then 3 else 1)
         in rbind (clamp_study K P bodies registry model grid cancelled isStatic study size_of) (\<lambda>clamped.
            rbind (rfold (apply_load K P bodies registry model grid cancelled isStatic) (replicate size_of 0) (study_loads study))
              (\<lambda>loadVector.
            rbind (solve_study model isStatic study (study_resolutionMm study) clamped loadVector cancelled) (\<lambda>(outcome, solution).
              Inr (present_study model grid isStatic study outcome solution)))))))"

end
