(* ===== verification/Voxel_Laws.thy ===== *)
theory Voxel_Laws
  imports Fem_Model
begin

text \<open>
  The laws of the voxel grid: every loop of the scan only adds cells (\<open>adds\<close>), so the occupancy of
  the result is the union over bodies and runs, the counter counts it, and the cap holds.
\<close>

section \<open>Cells of a grid\<close>

lemma cell_bounds:
  assumes "in_grid grid i j k"
  shows "0 \<le> ((k * vg_ny grid) + j) * vg_nx grid + i"
    and "((k * vg_ny grid) + j) * vg_nx grid + i < vg_nx grid * vg_ny grid * vg_nz grid"
proof -
  let ?x = "vg_nx grid" and ?y = "vg_ny grid" and ?z = "vg_nz grid"
  have c: "0 \<le> i" "0 \<le> j" "0 \<le> k" "i < ?x" "j < ?y" "k < ?z" using assms by (auto simp: in_grid_def)
  show "0 \<le> (k * ?y + j) * ?x + i" using c by simp
  have row: "k * ?y + j + 1 \<le> ?y * ?z"
  proof -
    have "(k + 1) * ?y \<le> ?z * ?y" by (rule mult_right_mono) (use c in auto)
    then show ?thesis using c by (simp add: algebra_simps)
  qed
  have "(k * ?y + j) * ?x + i < (k * ?y + j + 1) * ?x" using c by (simp add: algebra_simps)
  also have "\<dots> \<le> (?y * ?z) * ?x" by (rule mult_right_mono) (use row c in auto)
  finally show "(k * ?y + j) * ?x + i < ?x * ?y * ?z" by (simp add: ac_simps)
qed

lemma cell_index_less: "in_grid grid i j k \<Longrightarrow> cell_index grid i j k < nat (vg_nx grid * vg_ny grid * vg_nz grid)"
  using cell_bounds [of grid i j k] by (simp add: cell_index_def)

lemma lattice_index_inj:
  assumes "(k * y + j) * x + i = (k' * y + j') * x + (i' :: int)"
    and "0 \<le> i" "i < x" "0 \<le> i'" "i' < x" "0 \<le> j" "j < y" "0 \<le> j'" "j' < y"
  shows "i = i' \<and> j = j' \<and> k = k'"
proof -
  have "i = ((k * y + j) * x + i) mod x" using assms(2,3) by simp
  also have "\<dots> = ((k' * y + j') * x + i') mod x" by (simp only: assms(1))
  also have "\<dots> = i'" using assms(4,5) by simp
  finally have i: "i = i'" .
  then have r: "k * y + j = k' * y + j'" using assms by simp
  have "j = (k * y + j) mod y" using assms(6,7) by simp
  also have "\<dots> = (k' * y + j') mod y" by (simp only: r)
  also have "\<dots> = j'" using assms(8,9) by simp
  finally have "j = j'" .
  then show ?thesis using i r assms by simp
qed

lemma cell_index_inj:
  assumes "cell_index grid i j k = cell_index grid i' j' k'" and "in_grid grid i j k" and "in_grid grid i' j' k'"
  shows "i = i' \<and> j = j' \<and> k = k'"
proof -
  have "(k * vg_ny grid + j) * vg_nx grid + i = (k' * vg_ny grid + j') * vg_nx grid + i'"
    using assms cell_bounds(1) [OF assms(2)] cell_bounds(1) [OF assms(3)] by (simp add: cell_index_def)
  from lattice_index_inj [OF this] assms(2,3) show ?thesis by (auto simp: in_grid_def)
qed

section \<open>Scans only add cells\<close>

definition frame_of :: "VoxelGrid \<Rightarrow> VoxelGrid" where
  "frame_of g = g\<lparr>vg_occupied := [], vg_occupiedCount := 0\<rparr>"

definition counts_cells :: "VoxelGrid \<Rightarrow> bool" where
  "counts_cells g \<longleftrightarrow> vg_occupiedCount g = length (filter (\<lambda>b. b) (vg_occupied g)) \<and> vg_occupiedCount g \<le> kSimulationElementCap"

definition adds :: "nat set \<Rightarrow> VoxelGrid \<Rightarrow> VoxelGrid \<Rightarrow> bool" where
  "adds S g g' \<longleftrightarrow>
     frame_of g' = frame_of g \<and> length (vg_occupied g') = length (vg_occupied g) \<and>
     (\<forall>c < length (vg_occupied g). vg_occupied g' ! c \<longleftrightarrow> vg_occupied g ! c \<or> c \<in> S) \<and>
     (counts_cells g \<longrightarrow> counts_cells g')"

lemma adds_refl: "adds {} g g"
  by (simp add: adds_def)

lemma adds_trans: "adds S g g' \<Longrightarrow> adds T g' g'' \<Longrightarrow> adds (S \<union> T) g g''"
  by (auto simp: adds_def)

lemma adds_frame: "adds S g g' \<Longrightarrow> frame_of g' = frame_of g \<and> length (vg_occupied g') = length (vg_occupied g)"
  by (simp add: adds_def)

lemma frame_simps:
  assumes "frame_of g' = frame_of g"
  shows "vg_h g' = vg_h g" "vg_originX g' = vg_originX g" "vg_originY g' = vg_originY g" "vg_originZ g' = vg_originZ g"
    "vg_nx g' = vg_nx g" "vg_ny g' = vg_ny g" "vg_nz g' = vg_nz g"
  using assms by (cases g, cases g', simp add: frame_of_def)+

lemma rfold_adds:
  assumes "rfold f g xs = Inr g'"
    and "\<And>x h h'. x \<in> set xs \<Longrightarrow> frame_of h = frame_of g \<Longrightarrow> length (vg_occupied h) = length (vg_occupied g) \<Longrightarrow>
      f h x = Inr h' \<Longrightarrow> adds (S x) h h'"
  shows "adds (\<Union>x \<in> set xs. S x) g g'"
  using assms
proof (induction xs arbitrary: g)
  case Nil
  then show ?case by (simp add: adds_refl)
next
  case (Cons x xs)
  then obtain h where h: "f g x = Inr h" "rfold f h xs = Inr g'" by (auto simp: rbind_eq_Inr)
  have first: "adds (S x) g h" by (rule Cons.prems(2)) (use h in simp_all)
  note frame = adds_frame [OF first]
  have "adds (\<Union>x \<in> set xs. S x) h g'"
    by (rule Cons.IH [OF h(2)]) (rule Cons.prems(2), use frame in simp_all)
  from adds_trans [OF first this] show ?case by simp
qed

lemma filter_set_True:
  "c < length bs \<Longrightarrow> \<not> bs ! c \<Longrightarrow> length (filter (\<lambda>b. b) (bs[c := True])) = Suc (length (filter (\<lambda>b. b) bs))"
  by (induction bs arbitrary: c) (auto split: nat.splits simp: nth_Cons')

lemma occupy_adds:
  assumes "occupy g c = Inr g'" and "c < length (vg_occupied g)"
  shows "adds {c} g g'"
  using assms
  by (auto simp: occupy_def adds_def frame_of_def ThrowSimulation_def counts_cells_def nth_list_update filter_set_True
      split: if_splits)

text \<open>The cells a run covers in a column, and a column's runs for a shape.\<close>

definition run_cells :: "VoxelGrid \<Rightarrow> int \<Rightarrow> int \<Rightarrow> f64 \<times> f64 \<Rightarrow> nat set" where
  "run_cells g i j run =
     {cell_index g i j k | k. 0 \<le> k \<and> k < vg_nz g \<and> inside_run (sample_at (vg_h g) (vg_originZ g) k) run}"

lemma frame_cells:
  assumes "frame_of g' = frame_of g"
  shows "cell_index g' = cell_index g" "run_cells g' = run_cells g" "columns_of g' = columns_of g" "in_grid g' = in_grid g"
  using frame_simps [OF assms]
  by (simp_all add: fun_eq_iff cell_index_def run_cells_def columns_of_def in_grid_def)

definition whole_grid :: "VoxelGrid \<Rightarrow> bool" where
  "whole_grid g \<longleftrightarrow> length (vg_occupied g) = nat (vg_nx g * vg_ny g * vg_nz g)"

lemma fill_run_adds:
  assumes "fill_run i j g run = Inr g'" and "whole_grid g" and "0 \<le> i" "i < vg_nx g" "0 \<le> j" "j < vg_ny g"
  shows "adds (run_cells g i j run) g g'"
proof -
  let ?S = "\<lambda>k. if inside_run (sample_at (vg_h g) (vg_originZ g) k) run then {cell_index g i j k} else {}"
  have "adds (\<Union>k \<in> set [0..vg_nz g - 1]. ?S k) g g'"
  proof (rule rfold_adds)
    show "rfold (\<lambda>g k. if inside_run (sample_at (vg_h g) (vg_originZ g) k) run then occupy g (cell_index g i j k) else Inr g)
       g [0..vg_nz g - 1] = Inr g'" using assms(1) by (simp add: fill_run_def)
    fix k h h'
    assume k: "k \<in> set [0..vg_nz g - 1]" and same: "frame_of h = frame_of g" "length (vg_occupied h) = length (vg_occupied g)"
      and step: "(if inside_run (sample_at (vg_h h) (vg_originZ h) k) run then occupy h (cell_index h i j k) else Inr h) = Inr h'"
    have "in_grid g i j k" using assms k by (auto simp: in_grid_def)
    then have "cell_index g i j k < length (vg_occupied h)"
      using cell_index_less [of g i j k] assms(2) same(2) by (simp add: whole_grid_def)
    then show "adds (?S k) h h'"
      using step occupy_adds [of h "cell_index g i j k" h'] frame_simps [OF same(1)] frame_cells(1) [OF same(1)]
      by (auto simp: adds_refl split: if_splits)
  qed
  moreover have "(\<Union>k \<in> set [0..vg_nz g - 1]. ?S k) = run_cells g i j run"
    by (auto simp: run_cells_def split: if_splits)
  ultimately show ?thesis by simp
qed

section \<open>The occupancy of the result\<close>

text \<open>The runs of a shape in the column \<open>(i, j)\<close> of a grid, when its crossings can be sorted.\<close>

definition runs_in_column :: "'sh probe \<Rightarrow> VoxelGrid \<Rightarrow> 'sh \<Rightarrow> int \<Rightarrow> int \<Rightarrow> (f64 \<times> f64) list" where
  "runs_in_column P g s i j =
     (case column_runs P (vg_h g) s (sample_at (vg_h g) (vg_originX g) i) (sample_at (vg_h g) (vg_originY g) j) of
        Inr runs \<Rightarrow> runs | Inl e \<Rightarrow> [])"

definition body_cells :: "'sh probe \<Rightarrow> VoxelGrid \<Rightarrow> int \<Rightarrow> int \<Rightarrow> 'sh EvaluatedBody \<Rightarrow> nat set" where
  "body_cells P g i j body = (\<Union>run \<in> set (runs_in_column P g (shape body) i j). run_cells g i j run)"

lemma frame_body_cells: "frame_of g' = frame_of g \<Longrightarrow> body_cells P g' = body_cells P g"
  by (intro ext) (simp only: body_cells_def runs_in_column_def frame_simps [of g' g] frame_cells [of g' g])

lemma frame_whole: "frame_of g' = frame_of g \<Longrightarrow> length (vg_occupied g') = length (vg_occupied g) \<Longrightarrow> whole_grid g' = whole_grid g"
  using frame_simps [of g' g] by (simp add: whole_grid_def)

lemma fill_body_adds:
  assumes "fill_body P i j g body = Inr g'" and "whole_grid g" and "0 \<le> i" "i < vg_nx g" "0 \<le> j" "j < vg_ny g"
  shows "adds (body_cells P g i j body) g g'"
proof -
  from assms(1) obtain runs where runs: "runs_in_column P g (shape body) i j = runs" and fill: "rfold (fill_run i j) g runs = Inr g'"
    by (auto simp: fill_body_def runs_in_column_def rbind_eq_Inr)
  have "adds (\<Union>run \<in> set runs. run_cells g i j run) g g'"
  proof (rule rfold_adds [OF fill])
    fix run h h'
    assume same: "frame_of h = frame_of g" "length (vg_occupied h) = length (vg_occupied g)" and step: "fill_run i j h run = Inr h'"
    have "adds (run_cells h i j run) h h'"
      by (rule fill_run_adds [OF step]) (use assms frame_whole [OF same] frame_simps [OF same(1)] in simp_all)
    then show "adds (run_cells g i j run) h h'" by (simp add: frame_cells(2) [OF same(1)])
  qed
  then show ?thesis using runs by (simp add: body_cells_def)
qed

lemma fill_column_adds:
  assumes "fill_column P bodies cancelled g (j, i) = Inr g'" and "whole_grid g" and "0 \<le> i" "i < vg_nx g" "0 \<le> j" "j < vg_ny g"
  shows "adds (\<Union>body \<in> set bodies. body_cells P g i j body) g g'"
proof -
  from assms(1) have "rfold (fill_body P i j) g bodies = Inr g'" by (auto simp: fill_column_def rbind_eq_Inr)
  then show ?thesis
  proof (rule rfold_adds)
    fix body h h'
    assume same: "frame_of h = frame_of g" "length (vg_occupied h) = length (vg_occupied g)" and step: "fill_body P i j h body = Inr h'"
    have "adds (body_cells P h i j body) h h'"
      by (rule fill_body_adds [OF step]) (use assms frame_whole [OF same] frame_simps [OF same(1)] in simp_all)
    then show "adds (body_cells P g i j body) h h'" by (simp add: frame_body_cells [OF same(1)])
  qed
qed

lemma set_columns_of: "(j, i) \<in> set (columns_of g) \<longleftrightarrow> 0 \<le> i \<and> i < vg_nx g \<and> 0 \<le> j \<and> j < vg_ny g"
  by (auto simp: columns_of_def image_iff)

lemma fill_grid_adds:
  assumes "rfold (fill_column P bodies cancelled) g (columns_of g) = Inr g'" and "whole_grid g"
  shows "adds (\<Union>ji \<in> set (columns_of g). \<Union>body \<in> set bodies. body_cells P g (snd ji) (fst ji) body) g g'"
proof (rule rfold_adds [OF assms(1)])
  fix ji h h'
  assume ji: "ji \<in> set (columns_of g)" and same: "frame_of h = frame_of g" "length (vg_occupied h) = length (vg_occupied g)"
    and step: "fill_column P bodies cancelled h ji = Inr h'"
  obtain j i where [simp]: "ji = (j, i)" by (cases ji)
  have "adds (\<Union>body \<in> set bodies. body_cells P h i j body) h h'"
    by (rule fill_column_adds) (use step assms(2) ji frame_whole [OF same] frame_simps [OF same(1)] in \<open>simp_all add: set_columns_of\<close>)
  then show "adds (\<Union>body \<in> set bodies. body_cells P g (snd ji) (fst ji) body) h h'"
    by (simp add: frame_body_cells [OF same(1)])
qed

lemma empty_grid_whole:
  assumes "empty_grid lo hi h = Inr g"
  shows "whole_grid g" "counts_cells g" "\<And>c. c < length (vg_occupied g) \<Longrightarrow> \<not> vg_occupied g ! c" "vg_h g = h"
  using assms
  by (auto simp: empty_grid_def rbind_eq_Inr ThrowSimulation_def Let_def whole_grid_def counts_cells_def split: prod.splits if_splits)

text \<open>A cell is inside the union of the bodies: its sample lies in a run of a body's column.\<close>

definition inside_bodies :: "'sh probe \<Rightarrow> VoxelGrid \<Rightarrow> 'sh EvaluatedBody list \<Rightarrow> int \<Rightarrow> int \<Rightarrow> int \<Rightarrow> bool" where
  "inside_bodies P g bodies i j k \<longleftrightarrow>
     (\<exists>body \<in> set bodies. \<exists>run \<in> set (runs_in_column P g (shape body) i j).
        inside_run (sample_at (vg_h g) (vg_originZ g) k) run)"

lemma Voxelize_facts:
  assumes "Voxelize P bodies h cancelled = Inr grid"
  shows "whole_grid grid" "counts_cells grid" "vg_h grid = h"
    "Occupied grid i j k \<longleftrightarrow> in_grid grid i j k \<and> inside_bodies P grid bodies i j k"
proof -
  from assms obtain lo hi g where g: "empty_grid lo hi h = Inr g" "rfold (fill_column P bodies cancelled) g (columns_of g) = Inr grid"
    by (auto simp: Voxelize_def rbind_eq_Inr split: option.splits)
  note e = empty_grid_whole [OF g(1)]
  let ?S = "\<Union>ji \<in> set (columns_of g). \<Union>body \<in> set bodies. body_cells P g (snd ji) (fst ji) body"
  have added: "adds ?S g grid" by (rule fill_grid_adds [OF g(2) e(1)])
  then have frame: "frame_of grid = frame_of g" "length (vg_occupied grid) = length (vg_occupied g)" by (simp_all add: adds_def)
  show whole: "whole_grid grid" using e(1) frame_whole [OF frame] by simp
  show "counts_cells grid" using added e(2) by (simp add: adds_def)
  show "vg_h grid = h" using e(4) frame_simps [OF frame(1)] by simp
  have inside: "inside_bodies P grid bodies = inside_bodies P g bodies"
    using frame_simps [OF frame(1)] by (simp add: fun_eq_iff inside_bodies_def runs_in_column_def)
  show "Occupied grid i j k \<longleftrightarrow> in_grid grid i j k \<and> inside_bodies P grid bodies i j k"
  proof (cases "in_grid g i j k")
    case True
    let ?c = "cell_index g i j k"
    have less: "?c < length (vg_occupied g)" using cell_index_less [OF True] e(1) by (simp add: whole_grid_def)
    then have "vg_occupied grid ! ?c \<longleftrightarrow> ?c \<in> ?S" using added e(3) by (auto simp: adds_def)
    also have "\<dots> \<longleftrightarrow> inside_bodies P g bodies i j k"
    proof
      assume "?c \<in> ?S"
      then obtain i' j' k' body run where c: "0 \<le> i'" "i' < vg_nx g" "0 \<le> j'" "j' < vg_ny g" "body \<in> set bodies"
          "run \<in> set (runs_in_column P g (shape body) i' j')" "0 \<le> k'" "k' < vg_nz g"
          "inside_run (sample_at (vg_h g) (vg_originZ g) k') run" "?c = cell_index g i' j' k'"
        by (auto simp: body_cells_def run_cells_def set_columns_of)
      then have "in_grid g i' j' k'" by (simp add: in_grid_def)
      from cell_index_inj [OF c(10) True this] c show "inside_bodies P g bodies i j k" by (auto simp: inside_bodies_def)
    next
      assume "inside_bodies P g bodies i j k"
      then obtain body run where b: "body \<in> set bodies" "run \<in> set (runs_in_column P g (shape body) i j)"
          "inside_run (sample_at (vg_h g) (vg_originZ g) k) run" by (auto simp: inside_bodies_def)
      then have "?c \<in> body_cells P g i j body" using True by (auto simp: body_cells_def run_cells_def in_grid_def)
      moreover have "(j, i) \<in> set (columns_of g)" using True by (simp add: set_columns_of in_grid_def)
      ultimately show "?c \<in> ?S" using b(1) by force
    qed
    finally show ?thesis using True inside by (simp add: Occupied_def frame_cells [OF frame(1)])
  next
    case False
    then show ?thesis by (simp add: Occupied_def frame_cells [OF frame(1)])
  qed
qed

end
