(* ===== verification/Skin_Laws.thy ===== *)
theory Skin_Laws
  imports Voxel_Laws
begin

text \<open>
  The laws of the mesh: what \<open>BuildModel\<close> returns in closed form, and that the emitted skin is a
  closed, consistently oriented surface. The second rests on two facts about \<open>kFaceCorners\<close>: around
  one voxel the directed edges of the six faces cancel, and the two voxels at an inner face go round
  it in opposite directions.
\<close>

section \<open>The model in closed form\<close>

definition node_of :: "VoxelGrid \<Rightarrow> int \<Rightarrow> nat" where
  "node_of grid key = the (fem_nodeIdOf (new_model grid) key)"

definition cell_nodes :: "VoxelGrid \<Rightarrow> cell \<Rightarrow> nat list" where
  "cell_nodes grid c = map (node_of grid) (corner_keys grid c)"

definition open_faces :: "VoxelGrid \<Rightarrow> cell \<Rightarrow> nat list" where
  "open_faces grid c = filter (\<lambda>face. \<not> occupied_cell grid (cell_add c (kFaceNeighbor ! face))) [0..<6]"

lemma nth_set_True: "n < length on \<Longrightarrow> on[m := True] ! n \<longleftrightarrow> on ! n \<or> n = m"
  by (cases "n = m") (auto simp: nth_list_update)

lemma mark_nodes_nth:
  "n < length on \<Longrightarrow> mark_nodes nodes corners on ! n \<longleftrightarrow> on ! n \<or> n \<in> (\<lambda>corner. nodes ! corner) ` set corners"
  "length (mark_nodes nodes corners on) = length on"
  unfolding mark_nodes_def
  by (induction corners arbitrary: on) (auto simp: nth_set_True)

lemma build_faces:
  fixes grid c
  defines "faces fs \<equiv> filter (\<lambda>face. \<not> occupied_cell grid (cell_add c (kFaceNeighbor ! face))) fs"
  shows "foldl (build_face grid c element nodes) model fs =
    model\<lparr>fem_skinQuads := fem_skinQuads model @ map (Pair element) (faces fs),
          fem_nodeOnSkin := foldl (\<lambda>on face. mark_nodes nodes (kFaceCorners ! face) on) (fem_nodeOnSkin model) (faces fs)\<rparr>"
  unfolding faces_def by (induction fs arbitrary: model) (simp_all add: build_face_def)

lemma mark_faces_nth:
  "n < length on \<Longrightarrow> foldl (\<lambda>on face. mark_nodes nodes (kFaceCorners ! face) on) on fs ! n \<longleftrightarrow>
     on ! n \<or> (\<exists>face \<in> set fs. n \<in> (\<lambda>corner. nodes ! corner) ` set (kFaceCorners ! face))"
  "length (foldl (\<lambda>on face. mark_nodes nodes (kFaceCorners ! face) on) on fs) = length on"
  by (induction fs arbitrary: on) (auto simp: mark_nodes_nth)

lemma node_at_nodes:
  "rmap (node_at model) keys = Inr nodes \<Longrightarrow> nodes = map (\<lambda>key. the (fem_nodeIdOf model key)) keys"
  by (induction keys arbitrary: nodes) (auto simp: rbind_eq_Inr node_at_def split: option.splits)

text \<open>What the loop over elements keeps, adds and marks.\<close>

lemma build_elements:
  assumes "rfold (build_element grid cancelled) model ps = Inr model'" and "fem_nodeIdOf model = fem_nodeIdOf (new_model grid)"
  shows "fem_nodeKeys model' = fem_nodeKeys model \<and> fem_elementCells model' = fem_elementCells model \<and>
    fem_nodeIdOf model' = fem_nodeIdOf model \<and>
    fem_elementNodes model' = fem_elementNodes model @ map (\<lambda>p. cell_nodes grid (snd p)) ps \<and>
    fem_skinQuads model' = fem_skinQuads model @ concat (map (\<lambda>p. map (Pair (fst p)) (open_faces grid (snd p))) ps) \<and>
    length (fem_nodeOnSkin model') = length (fem_nodeOnSkin model) \<and>
    (\<forall>n < length (fem_nodeOnSkin model). fem_nodeOnSkin model' ! n \<longleftrightarrow> fem_nodeOnSkin model ! n \<or>
       (\<exists>p \<in> set ps. \<exists>face \<in> set (open_faces grid (snd p)).
          n \<in> (\<lambda>corner. cell_nodes grid (snd p) ! corner) ` set (kFaceCorners ! face)))"
  using assms
proof (induction ps arbitrary: model)
  case Nil
  then show ?case by simp
next
  case (Cons p ps)
  then obtain mid where mid: "build_element grid cancelled model p = Inr mid" "rfold (build_element grid cancelled) mid ps = Inr model'"
    by (auto simp: rbind_eq_Inr)
  from mid(1) obtain nodes where nodes: "rmap (node_at model) (corner_keys grid (snd p)) = Inr nodes"
    and m: "mid = foldl (build_face grid (snd p) (fst p) nodes) (model\<lparr>fem_elementNodes := fem_elementNodes model @ [nodes]\<rparr>) [0..<6]"
    by (auto simp: build_element_def rbind_eq_Inr)
  have n: "nodes = cell_nodes grid (snd p)"
    using node_at_nodes [OF nodes] Cons.prems(2) by (simp add: cell_nodes_def node_of_def)
  have step: "mid = model\<lparr>fem_elementNodes := fem_elementNodes model @ [cell_nodes grid (snd p)],
      fem_skinQuads := fem_skinQuads model @ map (Pair (fst p)) (open_faces grid (snd p)),
      fem_nodeOnSkin := foldl (\<lambda>on face. mark_nodes (cell_nodes grid (snd p)) (kFaceCorners ! face) on)
        (fem_nodeOnSkin model) (open_faces grid (snd p))\<rparr>"
    unfolding m build_faces n open_faces_def by simp
  have "fem_nodeIdOf mid = fem_nodeIdOf (new_model grid)" using step Cons.prems(2) by simp
  from Cons.IH [OF mid(2) this] show ?case
    unfolding step by (simp add: mark_faces_nth)
qed

lemma BuildModel_closed_form:
  assumes "BuildModel grid cancelled = Inr model"
  shows "fem_nodeKeys model = node_keys grid"
    and "fem_elementNodes model = map (cell_nodes grid) (element_cells grid)"
    and "fem_skinQuads model =
      concat (map (\<lambda>p. map (Pair (fst p)) (open_faces grid (snd p))) (List.enumerate 0 (element_cells grid)))"
    and "length (fem_nodeOnSkin model) = length (node_keys grid)"
    and "\<And>n. n < length (node_keys grid) \<Longrightarrow> fem_nodeOnSkin model ! n \<longleftrightarrow>
      (\<exists>c \<in> set (element_cells grid). \<exists>face \<in> set (open_faces grid c).
         n \<in> (\<lambda>corner. cell_nodes grid c ! corner) ` set (kFaceCorners ! face))"
proof -
  note built = build_elements [OF assms [unfolded BuildModel_def] refl]
  have snds: "map snd (List.enumerate 0 (element_cells grid)) = element_cells grid" by simp
  have nodes: "map (\<lambda>p. cell_nodes grid (snd p)) (List.enumerate 0 (element_cells grid)) = map (cell_nodes grid) (element_cells grid)"
    using arg_cong [OF snds, of "map (cell_nodes grid)"] by (simp only: map_map comp_def)
  show "fem_nodeKeys model = node_keys grid" "fem_elementNodes model = map (cell_nodes grid) (element_cells grid)"
    "fem_skinQuads model = concat (map (\<lambda>p. map (Pair (fst p)) (open_faces grid (snd p))) (List.enumerate 0 (element_cells grid)))"
    "length (fem_nodeOnSkin model) = length (node_keys grid)"
    using built nodes by (simp_all add: new_model_def)
  fix n assume n: "n < length (node_keys grid)"
  have marked: "(\<exists>p \<in> set (List.enumerate 0 (element_cells grid)). Q (snd p)) \<longleftrightarrow> (\<exists>c \<in> set (element_cells grid). Q c)" for Q
    using arg_cong [OF snds, of set] by (metis (no_types, lifting) image_iff set_map)
  show "fem_nodeOnSkin model ! n \<longleftrightarrow> (\<exists>c \<in> set (element_cells grid). \<exists>face \<in> set (open_faces grid c).
         n \<in> (\<lambda>corner. cell_nodes grid c ! corner) ` set (kFaceCorners ! face))"
    using built n marked [of "\<lambda>c. \<exists>face \<in> set (open_faces grid c). n \<in> (\<lambda>corner. cell_nodes grid c ! corner) ` set (kFaceCorners ! face)"]
    by (simp add: new_model_def)
qed

section \<open>Directed edges\<close>

fun directed_edges :: "nat list \<Rightarrow> (nat \<times> nat) list" where
  "directed_edges (a # b # c # triangles) = (a, b) # (b, c) # (c, a) # directed_edges triangles"
| "directed_edges triangles = []"

text \<open>Every directed edge is used as often as its reverse: a closed, consistently oriented surface.\<close>

definition closed_surface :: "nat list \<Rightarrow> bool" where
  "closed_surface triangles \<longleftrightarrow>
     (\<forall>u v. count_list (directed_edges triangles) (u, v) = count_list (directed_edges triangles) (v, u))"

definition balance :: "nat \<Rightarrow> nat \<Rightarrow> (nat \<times> nat) list \<Rightarrow> int" where
  "balance u v es = int (count_list es (u, v)) - int (count_list es (v, u))"

definition edge_sign :: "nat \<Rightarrow> nat \<Rightarrow> nat \<Rightarrow> nat \<Rightarrow> int" where
  "edge_sign u v a b = of_bool (a = u \<and> b = v) - of_bool (a = v \<and> b = u)"

lemma edge_sign_reverse: "edge_sign u v b a = - edge_sign u v a b"
  by (simp add: edge_sign_def conj_commute)

lemma balance_simps: "balance u v [] = 0" "balance u v ((a, b) # es) = edge_sign u v a b + balance u v es"
  "balance u v (es @ es') = balance u v es + balance u v es'"
proof -
  show "balance u v [] = 0" "balance u v (es @ es') = balance u v es + balance u v es'"
    by (simp_all add: balance_def)
  have "int (count_list ((a, b) # es) (x, y)) = of_bool (a = x \<and> b = y) + int (count_list es (x, y))" for x y
    by (cases "a = x \<and> b = y") auto
  then show "balance u v ((a, b) # es) = edge_sign u v a b + balance u v es"
    by (simp only: balance_def edge_sign_def)
qed

lemma closed_surface_balance: "closed_surface triangles \<longleftrightarrow> (\<forall>u v. balance u v (directed_edges triangles) = 0)"
  by (simp add: closed_surface_def balance_def)

definition loop_balance :: "nat \<Rightarrow> nat \<Rightarrow> nat list \<Rightarrow> int" where
  "loop_balance u v q =
     edge_sign u v (q ! 0) (q ! 1) + edge_sign u v (q ! 1) (q ! 2) + edge_sign u v (q ! 2) (q ! 3) + edge_sign u v (q ! 3) (q ! 0)"

text \<open>The diagonal of a quad is used once in each direction by its two triangles.\<close>

lemma balance_quads:
  "balance u v (directed_edges (concat (map quad_triangles qs))) = sum_list (map (loop_balance u v) qs)"
proof (induction qs)
  case Nil
  then show ?case by (simp add: balance_simps)
next
  case (Cons q qs)
  then show ?case using edge_sign_reverse [of u v "q ! 0" "q ! 2"]
    by (simp add: quad_triangles_def balance_simps loop_balance_def)
qed

section \<open>Faces of voxels\<close>

definition face_points :: "cell \<Rightarrow> nat \<Rightarrow> cell list" where
  "face_points c face = map (\<lambda>corner. cell_add c (kCornerOffset ! corner)) (kFaceCorners ! face)"

definition face_balance :: "nat \<Rightarrow> nat \<Rightarrow> (cell \<Rightarrow> nat) \<Rightarrow> cell \<Rightarrow> nat \<Rightarrow> int" where
  "face_balance u v name c face = loop_balance u v (map name (face_points c face))"

definition opposite_face :: "nat \<Rightarrow> nat" where
  "opposite_face face = [1, 0, 3, 2, 5, 4] ! face"

lemma less_six: "face < 6 \<Longrightarrow> face \<in> {0, 1, 2, 3, 4, 5 :: nat}"
  by auto

lemmas voxel_tables = kCornerOffset_def kFaceNeighbor_def kFaceCorners_def cell_add_def

text \<open>The neighbour goes round a shared face from the same corner in the other direction.\<close>

lemma face_points_opposite:
  assumes "face < 6"
  shows "face_points (cell_add c (kFaceNeighbor ! face)) (opposite_face face) =
    hd (face_points c face) # rev (tl (face_points c face))"
proof -
  obtain i j k where c: "c = (i, j, k)" by (cases c)
  show ?thesis using less_six [OF assms] unfolding c
    by (elim insertE emptyE) (simp_all add: face_points_def opposite_face_def voxel_tables)
qed

lemma length_face_points: "face < 6 \<Longrightarrow> length (face_points c face) = 4"
  by (drule less_six, elim insertE emptyE) (simp_all add: face_points_def kFaceCorners_def)

lemma loop_balance_reverse: "loop_balance u v [a, d, c, b] = - loop_balance u v [a, b, c, d]"
  using edge_sign_reverse [of u v a b] edge_sign_reverse [of u v b c] edge_sign_reverse [of u v c d] edge_sign_reverse [of u v d a]
  by (simp add: loop_balance_def)

lemma face_balance_opposite:
  assumes "face < 6"
  shows "face_balance u v name (cell_add c (kFaceNeighbor ! face)) (opposite_face face) = - face_balance u v name c face"
proof -
  have "length (face_points c face) = Suc (Suc (Suc (Suc 0)))" using length_face_points [OF assms, of c] by simp
  then obtain p q r s where "face_points c face = [p, q, r, s]" by (auto simp: length_Suc_conv)
  then show ?thesis by (simp add: face_balance_def face_points_opposite [OF assms]
        loop_balance_reverse [of u v "name p" "name s" "name r" "name q"])
qed

lemma cube_loops:
  "loop_balance u v (map p [1, 2, 6, 5]) + loop_balance u v (map p [0, 4, 7, 3]) + loop_balance u v (map p [3, 7, 6, 2]) +
   loop_balance u v (map p [0, 1, 5, 4]) + loop_balance u v (map p [4, 5, 6, 7]) + loop_balance u v (map p [0, 3, 2, 1]) = 0"
  using edge_sign_reverse [of u v "p 0" "p 1"] edge_sign_reverse [of u v "p 1" "p 2"] edge_sign_reverse [of u v "p 2" "p 3"]
    edge_sign_reverse [of u v "p 3" "p 0"] edge_sign_reverse [of u v "p 4" "p 5"] edge_sign_reverse [of u v "p 5" "p 6"]
    edge_sign_reverse [of u v "p 6" "p 7"] edge_sign_reverse [of u v "p 7" "p 4"] edge_sign_reverse [of u v "p 0" "p 4"]
    edge_sign_reverse [of u v "p 1" "p 5"] edge_sign_reverse [of u v "p 2" "p 6"] edge_sign_reverse [of u v "p 3" "p 7"]
  by (simp add: loop_balance_def)

lemma cube_balance: "(\<Sum>face < 6. face_balance u v name c face) = 0"
proof -
  let ?p = "\<lambda>corner. name (cell_add c (kCornerOffset ! corner))"
  have faces: "face_balance u v name c face = loop_balance u v (map ?p (kFaceCorners ! face))" for face
    by (simp add: face_balance_def face_points_def comp_def)
  have "{..<6} = {0, 1, 2, 3, 4, 5 :: nat}" by auto
  then show ?thesis using cube_loops [of u v ?p] by (simp add: faces kFaceCorners_def)
qed

section \<open>The skin is closed\<close>

lemma set_element_cells: "c \<in> set (element_cells grid) \<longleftrightarrow> occupied_cell grid c"
  by (cases c) (auto simp: element_cells_def occupied_cell_def Occupied_def in_grid_def image_iff split: if_splits)

lemma distinct_element_cells: "distinct (element_cells grid)"
proof -
  have rows: "distinct (concat (map (\<lambda>j. map (\<lambda>i. (i, j, k)) [0..x]) ys))" if "distinct ys" for ys :: "int list" and k x :: int
    using that by (induction ys) (auto simp: distinct_map inj_on_def)
  have "distinct (concat (map (\<lambda>k. concat (map (\<lambda>j. map (\<lambda>i. (i, j, k)) [0..x]) [0..y])) zs))"
    if "distinct zs" for zs :: "int list" and x y :: int
    using that by (induction zs) (auto simp: rows)
  from this [of "[0..vg_nz grid - 1]"] show ?thesis by (simp add: element_cells_def)
qed

lemma opposite_cell:
  assumes "face < 6"
  shows "cell_add (cell_add c (kFaceNeighbor ! face)) (kFaceNeighbor ! opposite_face face) = c"
    and "opposite_face face < 6" and "opposite_face (opposite_face face) = face"
  using less_six [OF assms]
  by (cases c, elim insertE emptyE, simp_all add: opposite_face_def kFaceNeighbor_def cell_add_def)+

text \<open>Inner faces cancel in pairs, so what is left of all the faces of all the cells is the skin.\<close>

lemma skin_balance:
  assumes "finite C"
  shows "(\<Sum>c \<in> C. \<Sum>face \<in> {face. face < 6 \<and> cell_add c (kFaceNeighbor ! face) \<notin> C}. face_balance u v name c face) = 0"
proof -
  let ?n = "\<lambda>c face. cell_add c (kFaceNeighbor ! face)"
  let ?b = "face_balance u v name"
  let ?I = "{p \<in> C \<times> {..<6}. ?n (fst p) (snd p) \<in> C}"
  let ?t = "\<lambda>p. (?n (fst p) (snd p), opposite_face (snd p))"
  have fin: "finite ?I" by (rule finite_subset [of _ "C \<times> {..<6}"]) (use assms in auto)
  have bij: "bij_betw ?t ?I ?I"
    by (rule bij_betw_byWitness [where f' = ?t]) (auto simp: opposite_cell)
  have "(\<Sum>p \<in> ?I. ?b (fst p) (snd p)) = (\<Sum>p \<in> ?I. ?b (fst (?t p)) (snd (?t p)))"
    by (rule sum.reindex_bij_betw [OF bij, symmetric])
  also have "\<dots> = (\<Sum>p \<in> ?I. - ?b (fst p) (snd p))"
    by (rule sum.cong) (auto simp: face_balance_opposite)
  finally have inner: "(\<Sum>p \<in> ?I. ?b (fst p) (snd p)) = 0" by (simp add: sum_negf)
  have "(\<Sum>p \<in> C \<times> {..<6}. ?b (fst p) (snd p)) = (\<Sum>c \<in> C. \<Sum>face < 6. ?b c face)"
    by (simp add: sum.cartesian_product split_def)
  then have all: "(\<Sum>p \<in> C \<times> {..<6}. ?b (fst p) (snd p)) = 0" by (simp add: cube_balance)
  have "(\<Sum>c \<in> C. \<Sum>face \<in> {face. face < 6 \<and> ?n c face \<notin> C}. ?b c face) =
      (\<Sum>p \<in> (SIGMA c:C. {face. face < 6 \<and> ?n c face \<notin> C}). ?b (fst p) (snd p))"
    using assms by (simp add: sum.Sigma split_def)
  also have "(SIGMA c:C. {face. face < 6 \<and> ?n c face \<notin> C}) = C \<times> {..<6} - ?I" by auto
  also have "(\<Sum>p \<in> C \<times> {..<6} - ?I. ?b (fst p) (snd p)) =
      (\<Sum>p \<in> C \<times> {..<6}. ?b (fst p) (snd p)) - (\<Sum>p \<in> ?I. ?b (fst p) (snd p))"
    by (rule sum_diff) (use assms in auto)
  finally show ?thesis using all inner by simp
qed

lemma length_kCornerOffset [simp]: "length kCornerOffset = 8"
  by (simp add: kCornerOffset_def)

lemma cell_nodes_corner:
  "corner < 8 \<Longrightarrow> cell_nodes grid c ! corner = node_of grid (nodeKey grid (cell_add c (kCornerOffset ! corner)))"
  by (simp add: cell_nodes_def corner_keys_def)

lemma face_corners_less: "face < 6 \<Longrightarrow> corner \<in> set (kFaceCorners ! face) \<Longrightarrow> corner < 8"
  by (drule less_six, elim insertE emptyE) (auto simp: kFaceCorners_def)

lemma quad_nodes_points:
  assumes "BuildModel grid cancelled = Inr model" and "(element, c) \<in> set (List.enumerate 0 (element_cells grid))" and "face < 6"
  shows "quad_nodes model (element, face) = map (\<lambda>p. node_of grid (nodeKey grid p)) (face_points c face)"
proof -
  have "element < length (element_cells grid)" "element_cells grid ! element = c"
    using assms(2) by (auto simp: in_set_enumerate_eq)
  then show ?thesis using cell_nodes_corner face_corners_less [OF assms(3)]
    by (simp add: quad_nodes_def face_points_def BuildModel_closed_form(2) [OF assms(1)])
qed

lemma sum_list_of_concat: "sum_list (concat xss) = (\<Sum>xs \<leftarrow> xss. sum_list xs)" for xss :: "int list list"
  by (induction xss) auto

lemma skin_closed:
  assumes "BuildModel grid cancelled = Inr model"
  shows "closed_surface (sm_triangles (EmitSkin model grid nodalScalar))"
proof -
  let ?cells = "List.enumerate 0 (element_cells grid)"
  let ?name = "\<lambda>p. number_skin 0 (fem_nodeOnSkin model) ! node_of grid (nodeKey grid p)"
  let ?quad = "\<lambda>quad. map (\<lambda>node. number_skin 0 (fem_nodeOnSkin model) ! node) (quad_nodes model quad)"
  have triangles: "sm_triangles (EmitSkin model grid nodalScalar) = concat (map quad_triangles (map ?quad (fem_skinQuads model)))"
    by (simp add: EmitSkin_def comp_def)
  have "balance u v (directed_edges (sm_triangles (EmitSkin model grid nodalScalar))) = 0" for u v
  proof -
    have "balance u v (directed_edges (sm_triangles (EmitSkin model grid nodalScalar))) =
        (\<Sum>quad \<leftarrow> fem_skinQuads model. loop_balance u v (?quad quad))"
      unfolding triangles balance_quads by (simp only: map_map comp_def)
    also have "\<dots> = (\<Sum>p \<leftarrow> ?cells. \<Sum>face \<leftarrow> open_faces grid (snd p). loop_balance u v (?quad (fst p, face)))"
      unfolding BuildModel_closed_form(3) [OF assms] by (simp add: map_concat sum_list_of_concat comp_def)
    also have "\<dots> = (\<Sum>p \<leftarrow> ?cells. \<Sum>face \<leftarrow> open_faces grid (snd p). face_balance u v ?name (snd p) face)"
    proof (rule arg_cong [of _ _ sum_list], rule map_cong [OF refl], rule arg_cong [of _ _ sum_list], rule map_cong [OF refl])
      fix p face assume "p \<in> set ?cells" "face \<in> set (open_faces grid (snd p))"
      then show "loop_balance u v (?quad (fst p, face)) = face_balance u v ?name (snd p) face"
        using quad_nodes_points [OF assms, of "fst p" "snd p" face]
        by (simp add: open_faces_def face_balance_def comp_def)
    qed
    also have "\<dots> = (\<Sum>c \<leftarrow> element_cells grid. \<Sum>face \<leftarrow> open_faces grid c. face_balance u v ?name c face)"
      using arg_cong [OF map_snd_enumerate [of 0 "element_cells grid"],
          of "\<lambda>cs. sum_list (map (\<lambda>c. \<Sum>face \<leftarrow> open_faces grid c. face_balance u v ?name c face) cs)"]
      by (simp only: map_map comp_def)
    also have "\<dots> = (\<Sum>c \<in> set (element_cells grid). \<Sum>face \<in> set (open_faces grid c). face_balance u v ?name c face)"
      by (simp add: sum_list_distinct_conv_sum_set distinct_element_cells open_faces_def)
    also have "\<dots> = 0"
      using skin_balance [of "set (element_cells grid)" u v ?name] by (simp add: open_faces_def set_element_cells conj_commute)
    finally show ?thesis .
  qed
  then show ?thesis by (simp add: closed_surface_balance)
qed

end
