(* ===== verification/Solve_Laws.thy ===== *)
theory Solve_Laws
  imports Simulation
begin

text \<open>
  The laws of the solver. The code keeps the clamped unknowns out of conjugate gradients by zeroing
  them in every vector; in floating point this holds as long as the step factors are finite, and when
  one is not, a NaN appears at a clamped unknown and never leaves, so that the solve cannot report
  convergence any more (\<open>cg_poisoned\<close>). Hence a converged solve has exact zeros there.
\<close>

section \<open>NaN and signed zeros\<close>

lemma f64_nan_nan_value [simp]: "f64_nan f64_nan_value"
  by (simp add: f64_nan_value_def f64_nan_def f64_exp_def f64_frac_def)

lemma f64_nan_add: "f64_nan a \<or> f64_nan b \<Longrightarrow> f64_nan (f64_add a b)"
  by (simp add: f64_add_def)

lemma f64_exp_neg_eq: "f64_exp (f64_neg a) = f64_exp a" and f64_frac_neg_eq: "f64_frac (f64_neg a) = f64_frac a"
  and f64_sign_neg_eq: "f64_sign (f64_neg a) \<longleftrightarrow> \<not> f64_sign a"
proof -
  have high: "bit (push_bit 63 1 :: u64) n \<longleftrightarrow> n = 63" for n
    by (auto simp: bit_push_bit_iff bit_1_iff simp del: push_bit_of_1 push_bit_numeral)
  have "take_bit 52 (f64_neg a) = take_bit 52 a" "take_bit 11 (drop_bit 52 (f64_neg a)) = take_bit 11 (drop_bit 52 a)"
    unfolding f64_neg_def
    by (rule bit_word_eqI, auto simp: bit_take_bit_iff bit_drop_bit_eq bit_xor_iff high simp del: push_bit_of_1 push_bit_numeral)+
  then show "f64_exp (f64_neg a) = f64_exp a" "f64_frac (f64_neg a) = f64_frac a"
    by (simp_all add: f64_exp_def f64_frac_def take_bit_eq_mask mask_eq_exp_minus_1)
  show "f64_sign (f64_neg a) \<longleftrightarrow> \<not> f64_sign a"
    unfolding f64_sign_def f64_neg_def by (simp add: bit_xor_iff high del: push_bit_of_1 push_bit_numeral)
qed

lemma f64_nan_sub: "f64_nan a \<or> f64_nan b \<Longrightarrow> f64_nan (f64_sub a b)"
  unfolding f64_sub_def by (rule f64_nan_add) (auto simp: f64_nan_def f64_exp_neg_eq f64_frac_neg_eq)

lemma f64_nan_mul: "f64_nan a \<or> f64_nan b \<Longrightarrow> f64_nan (f64_mul a b)"
  by (simp add: f64_mul_def)

lemma f64_nan_div: "f64_nan a \<or> f64_nan b \<Longrightarrow> f64_nan (f64_div a b)"
  by (simp add: f64_div_def)

lemma f64_nan_sqrt: "f64_nan a \<Longrightarrow> f64_nan (f64_sqrt a)"
  by (simp add: f64_sqrt_def)

lemma f64_le_nan: "f64_nan a \<Longrightarrow> \<not> f64_le a b"
  by (simp add: f64_le_def f64_less_def f64_eq_def)

lemma f64_zero_facts: "\<not> f64_nan 0" "f64_zero 0" "\<not> f64_is_inf 0" "f64_mant 0 = 0" "\<not> f64_sign 0" "f64_signed 0 = 0"
  by (simp_all add: f64_nan_def f64_zero_def f64_eq_def f64_is_inf_def f64_mant_def f64_exp_def f64_frac_def f64_sign_def f64_signed_def)

lemma f64_neg_neg_zero: "f64_neg (f64_neg 0) = 0"
  by (simp add: f64_neg_def)

lemma f64_zero_plus: "f64_add 0 0 = 0" "f64_add 0 (f64_neg 0) = 0"
proof -
  have e: "f64_exp 0 = 0" "f64_frac 0 = 0" "\<not> f64_sign 0" by (simp_all add: f64_exp_def f64_frac_def f64_sign_def)
  show "f64_add 0 0 = 0" "f64_add 0 (f64_neg 0) = 0"
    by (simp_all add: f64_add_def add_at_def f64_scale_def f64_nan_def f64_is_inf_def f64_signed_def f64_mant_def
        round_signed_def f64_exp_neg_eq f64_frac_neg_eq f64_sign_neg_eq e)
qed

text \<open>A product with zero is a zero when the factor is finite and a NaN otherwise.\<close>

lemma f64_not_finite: "\<not> f64_finite a \<longleftrightarrow> f64_nan a \<or> f64_is_inf a"
  by (auto simp: f64_finite_def f64_nan_def f64_is_inf_def)

lemma f64_mul_zero: "f64_finite a \<Longrightarrow> f64_mul a 0 = 0 \<or> f64_mul a 0 = f64_neg 0"
proof -
  assume "f64_finite a"
  then have "\<not> f64_nan a" "\<not> f64_is_inf a" using f64_not_finite by blast+
  then show ?thesis by (simp add: f64_mul_def f64_zero_facts f64_round_def round_magnitude_def)
qed

lemma f64_mul_zero_nan: "\<not> f64_finite a \<Longrightarrow> f64_nan (f64_mul a 0)"
  using f64_not_finite [of a] by (auto simp: f64_mul_def f64_zero_facts)

lemma zero_plus_product: "f64_finite a \<Longrightarrow> f64_add 0 (f64_mul a 0) = 0"
  using f64_mul_zero [of a] by (auto simp: f64_zero_plus)

lemma zero_minus_product: "f64_finite a \<Longrightarrow> f64_sub 0 (f64_mul a 0) = 0"
  using f64_mul_zero [of a] by (auto simp: f64_sub_def f64_zero_plus f64_neg_neg_zero)

lemma dot_product_nan:
  assumes "i < length u" "i < length v" "f64_nan (u ! i) \<or> f64_nan (v ! i)"
  shows "f64_nan (dot_product u v)"
proof -
  have spread: "f64_nan s \<Longrightarrow> f64_nan (foldl (\<lambda>sum p. f64_add sum (f64_mul (fst p) (snd p))) s ps)" for s ps
    by (induction ps arbitrary: s) (auto simp: f64_nan_add)
  have "f64_nan (foldl (\<lambda>sum p. f64_add sum (f64_mul (fst p) (snd p))) s ps)"
    if "j < length ps" "f64_nan (f64_mul (fst (ps ! j)) (snd (ps ! j)))" for s ps j
    using that
  proof (induction ps arbitrary: s j)
    case (Cons p ps)
    then show ?case by (cases j) (auto intro!: spread f64_nan_add)
  qed simp
  from this [of i "zip u v" 0] assms show ?thesis by (simp add: dot_product_def f64_nan_mul)
qed

section \<open>Vectors of one length\<close>

lemma vector_lengths [simp]:
  "length (mask_fixed fixedDof v) = min (length fixedDof) (length v)"
  "length (axpy alpha p x) = min (length x) (length p)" "length (axmy alpha q r) = min (length r) (length q)"
  "length (precondition fixedDof diagonal r) = min (length fixedDof) (min (length r) (length diagonal))"
  by (simp_all add: mask_fixed_def axpy_def axmy_def precondition_def)

lemma vector_nth:
  "i < length fixedDof \<Longrightarrow> i < length v \<Longrightarrow> mask_fixed fixedDof v ! i = (if fixedDof ! i then 0 else v ! i)"
  "i < length x \<Longrightarrow> i < length p \<Longrightarrow> axpy alpha p x ! i = f64_add (x ! i) (f64_mul alpha (p ! i))"
  "i < length r \<Longrightarrow> i < length q \<Longrightarrow> axmy alpha q r ! i = f64_sub (r ! i) (f64_mul alpha (q ! i))"
  by (simp_all add: mask_fixed_def axpy_def axmy_def)

text \<open>The system has as many unknowns as the vectors.\<close>

definition system_size :: "SparseBlocks \<Rightarrow> nat" where
  "system_size system = (length (sb_rowPtr system) - 1) * sb_dof system"

lemma length_rows: "length (concat (map (\<lambda>row. map (f row) [0..<n]) [0..<m])) = m * n"
  by (subst length_concat_const [where k = n]) simp_all

lemma length_system_vectors [simp]:
  "length (Multiply system x) = system_size system" "length (diagonal_of system) = system_size system"
  by (simp_all add: Multiply_def diagonal_of_def length_rows system_size_def)

definition state_size :: "nat \<Rightarrow> cg_state \<Rightarrow> bool" where
  "state_size n st \<longleftrightarrow> length (cg_x st) = n \<and> length (cg_r st) = n \<and> length (cg_p st) = n"

text \<open>What the code's allocations make of a system, its mask and its diagonal.\<close>

definition solver_sizes :: "SparseBlocks \<Rightarrow> bool list \<Rightarrow> f64 list \<Rightarrow> nat \<Rightarrow> bool" where
  "solver_sizes system fixedDof diagonal n \<longleftrightarrow>
     system_size system = n \<and> length fixedDof = n \<and> length diagonal = n"

lemma length_cg_product: "solver_sizes system fixedDof diagonal n \<Longrightarrow> length (cg_product system fixedDof st) = n"
  by (simp add: solver_sizes_def cg_product_def)

lemma moved_size:
  "solver_sizes system fixedDof diagonal n \<Longrightarrow> state_size n st \<Longrightarrow>
   state_size n (cg_moved (cg_product system fixedDof st) st)"
  by (simp add: state_size_def cg_moved_def length_cg_product)

lemma turned_size:
  "solver_sizes system fixedDof diagonal n \<Longrightarrow> state_size n st \<Longrightarrow> state_size n (cg_turned fixedDof diagonal st)"
  by (simp add: solver_sizes_def state_size_def cg_turned_def Let_def)

section \<open>One iteration at one unknown\<close>

text \<open>A NaN in the search direction spoils the step, the residual and the next direction.\<close>

lemma poisoned_iteration:
  assumes "solver_sizes system fixedDof diagonal n" "state_size n st" "i < n" "f64_nan (cg_p st ! i)"
  defines "q \<equiv> cg_product system fixedDof st"
  shows "f64_nan (dot_product (cg_p st) q)" "f64_nan (relative_residual (cg_r (cg_moved q st)) bNorm)"
    "f64_nan (cg_p (cg_turned fixedDof diagonal (cg_moved q st)) ! i)"
proof -
  have q: "length q = n" using assms length_cg_product by blast
  show pq: "f64_nan (dot_product (cg_p st) q)"
    by (rule dot_product_nan [of i]) (use assms q in \<open>auto simp: state_size_def\<close>)
  have "f64_nan (cg_alpha q st)" unfolding cg_alpha_def using pq by (simp add: f64_nan_div)
  then have r: "f64_nan (cg_r (cg_moved q st) ! i)" "length (cg_r (cg_moved q st)) = n"
    using assms(2,3) q by (auto simp: cg_moved_def vector_nth state_size_def f64_nan_sub f64_nan_mul)
  show "f64_nan (relative_residual (cg_r (cg_moved q st)) bNorm)"
    unfolding relative_residual_def
    by (intro f64_nan_div disjI1 f64_nan_sqrt dot_product_nan [of i]) (use r assms(3) in auto)
  have z: "length (precondition fixedDof diagonal (cg_r (cg_moved q st))) = n"
    using assms(1) r by (simp add: solver_sizes_def)
  have "f64_nan (dot_product (cg_r (cg_moved q st)) (precondition fixedDof diagonal (cg_r (cg_moved q st))))"
    by (rule dot_product_nan [of i]) (use r z assms(3) in auto)
  moreover have "length (cg_p (cg_moved q st)) = n" using assms(2) by (simp add: cg_moved_def state_size_def)
  ultimately show "f64_nan (cg_p (cg_turned fixedDof diagonal (cg_moved q st)) ! i)"
    using z assms(3) by (simp add: cg_turned_def Let_def f64_nan_add f64_nan_mul f64_nan_div)
qed

text \<open>A clamped unknown is clean while it and its residual and direction are exact zeros.\<close>

definition clean_at :: "nat \<Rightarrow> cg_state \<Rightarrow> bool" where
  "clean_at i st \<longleftrightarrow> cg_x st ! i = 0 \<and> cg_r st ! i = 0 \<and> cg_p st ! i = 0"

lemma clean_iteration:
  assumes "solver_sizes system fixedDof diagonal n" "state_size n st" "i < n" "fixedDof ! i" "clean_at i st"
  defines "q \<equiv> cg_product system fixedDof st"
  shows "\<not> f64_nan (relative_residual (cg_r (cg_moved q st)) bNorm) \<Longrightarrow> cg_x (cg_moved q st) ! i = 0"
    and "clean_at i (cg_turned fixedDof diagonal (cg_moved q st)) \<or>
         f64_nan (cg_p (cg_turned fixedDof diagonal (cg_moved q st)) ! i)"
proof -
  let ?m = "cg_moved q st"
  have q: "length q = n" "q ! i = 0"
    using assms(1-4) length_cg_product by (auto simp: q_def cg_product_def vector_nth solver_sizes_def)
  have m: "cg_x ?m ! i = f64_add 0 (f64_mul (cg_alpha q st) 0)" "cg_r ?m ! i = f64_sub 0 (f64_mul (cg_alpha q st) 0)"
    "cg_p ?m = cg_p st" "length (cg_r ?m) = n"
    using assms(2,3,5) q by (auto simp: cg_moved_def vector_nth state_size_def clean_at_def)
  show "cg_x ?m ! i = 0" if "\<not> f64_nan (relative_residual (cg_r ?m) bNorm)"
  proof -
    have "\<not> f64_nan (cg_r ?m ! i)"
    proof
      assume "f64_nan (cg_r ?m ! i)"
      then have "f64_nan (relative_residual (cg_r ?m) bNorm)"
        unfolding relative_residual_def
        by (intro f64_nan_div disjI1 f64_nan_sqrt dot_product_nan [of i]) (use m assms(3) in auto)
      with that show False by simp
    qed
    then have "f64_finite (cg_alpha q st)" using m f64_mul_zero_nan f64_nan_sub by metis
    then show ?thesis using m zero_plus_product by simp
  qed
  let ?z = "precondition fixedDof diagonal (cg_r ?m)"
  let ?beta = "f64_div (dot_product (cg_r ?m) ?z) (cg_rz ?m)"
  have z: "length ?z = n" "?z ! i = 0"
    using assms(1,3,4) m by (auto simp: solver_sizes_def precondition_def vector_nth)
  have t: "cg_p (cg_turned fixedDof diagonal ?m) ! i = f64_add 0 (f64_mul ?beta 0)"
    "cg_x (cg_turned fixedDof diagonal ?m) = cg_x ?m" "cg_r (cg_turned fixedDof diagonal ?m) = cg_r ?m"
    using z assms(2,3,5) m by (auto simp: cg_turned_def Let_def state_size_def clean_at_def)
  show "clean_at i (cg_turned fixedDof diagonal ?m) \<or> f64_nan (cg_p (cg_turned fixedDof diagonal ?m) ! i)"
  proof (cases "f64_finite (cg_alpha q st) \<and> f64_finite ?beta")
    case True
    then show ?thesis using t m zero_plus_product zero_minus_product by (simp add: clean_at_def)
  next
    case False
    then have "f64_nan (cg_r ?m ! i) \<or> \<not> f64_finite ?beta" using m f64_mul_zero_nan f64_nan_sub by metis
    then have "\<not> f64_finite ?beta"
      using dot_product_nan [of i "cg_r ?m" ?z] m z assms(3) f64_not_finite f64_nan_div by metis
    then show ?thesis using t f64_mul_zero_nan f64_nan_add by metis
  qed
qed


section \<open>The loop\<close>

text \<open>A clamped unknown of a converged solve is an exact zero.\<close>

lemma cg_loop_clamped:
  assumes "solver_sizes system fixedDof diagonal n" "i < n" "fixedDof ! i"
  shows "state_size n st \<Longrightarrow> clean_at i st \<or> f64_nan (cg_p st ! i) \<Longrightarrow>
    cg_loop system fixedDof diagonal bNorm cancelled remaining iteration st = Inr (outcome, x) \<Longrightarrow>
    cg_converged outcome \<Longrightarrow> x ! i = 0"
proof (induction remaining arbitrary: iteration st)
  case 0
  then show ?case by auto
next
  case (Suc remaining)
  let ?q = "cg_product system fixedDof st" let ?m = "cg_moved ?q st"
  have size: "state_size n (cg_turned fixedDof diagonal ?m)"
    using Suc.prems(1) assms(1) moved_size turned_size by blast
  show ?case
  proof (cases "f64_nan (cg_p st ! i)")
    case True
    note poison = poisoned_iteration [OF assms(1) Suc.prems(1) assms(2) True]
    show ?thesis
      by (rule Suc.IH [OF size])
         (use Suc.prems(3,4) poison f64_le_nan in \<open>auto simp: Let_def rbind_eq_Inr\<close>)
  next
    case False
    then have clean: "clean_at i st" using Suc.prems(2) by blast
    note step = clean_iteration [OF assms(1) Suc.prems(1) assms(2,3) clean]
    consider (breakdown) "f64_le (dot_product (cg_p st) ?q) 0" "x = cg_x st"
      | (met) "f64_le (relative_residual (cg_r ?m) bNorm) kCgRelativeTolerance" "x = cg_x ?m"
      | (more) "cg_loop system fixedDof diagonal bNorm cancelled remaining (iteration + 1)
                  (cg_turned fixedDof diagonal ?m) = Inr (outcome, x)"
      using Suc.prems(3) by (auto simp: Let_def rbind_eq_Inr split: if_splits)
    then show ?thesis
    proof cases
      case breakdown
      then show ?thesis using clean by (simp add: clean_at_def)
    next
      case met
      then show ?thesis using step(1) f64_le_nan by metis
    next
      case more
      then show ?thesis using Suc.IH [OF size] step(2) Suc.prems(4) by blast
    qed
  qed
qed

text \<open>What the loop reports: never more iterations than the cap, and within the tolerance when converged.\<close>

lemma cg_loop_outcome:
  "solver_sizes system fixedDof diagonal n \<Longrightarrow> state_size n st \<Longrightarrow>
   cg_loop system fixedDof diagonal bNorm cancelled remaining iteration st = Inr (outcome, x) \<Longrightarrow>
   iteration + remaining \<le> kSimulationCgMaxIterations + 1 \<Longrightarrow>
   length x = n \<and> cg_iterations outcome \<le> kSimulationCgMaxIterations \<and>
   (cg_converged outcome \<longrightarrow> f64_le (cg_relativeResidual outcome) kCgRelativeTolerance) \<and> \<not> cancelled \<or>
   length x = n \<and> remaining = 0 \<and> \<not> cg_converged outcome \<and> cg_iterations outcome = kSimulationCgMaxIterations"
proof (induction remaining arbitrary: iteration st)
  case 0
  then show ?case by (auto simp: state_size_def)
next
  case (Suc remaining)
  let ?m = "cg_moved (cg_product system fixedDof st) st"
  have m: "state_size n ?m" using Suc.prems(1,2) moved_size by blast
  have not_cancelled: "\<not> cancelled" using Suc.prems(3) by (auto simp: CheckCancellation_def rbind_eq_Inr split: if_splits)
  from Suc.prems(3) consider (here) "length x = n" "cg_iterations outcome = iteration"
      "cg_converged outcome \<longrightarrow> f64_le (cg_relativeResidual outcome) kCgRelativeTolerance"
    | (more) "cg_loop system fixedDof diagonal bNorm cancelled remaining (iteration + 1)
                (cg_turned fixedDof diagonal ?m) = Inr (outcome, x)"
    using Suc.prems(2) m by (auto simp: Let_def rbind_eq_Inr state_size_def split: if_splits)
  then show ?case
  proof cases
    case here
    then show ?thesis using Suc.prems(4) not_cancelled by simp
  next
    case more
    then show ?thesis
      using Suc.IH [OF Suc.prems(1) turned_size [OF Suc.prems(1) m] more] Suc.prems(4) not_cancelled by auto
  qed
qed

lemma cg_loop_poisoned:
  assumes "solver_sizes system fixedDof diagonal n" "i < n"
  shows "state_size n st \<Longrightarrow> f64_nan (cg_p st ! i) \<Longrightarrow>
    \<exists>x. cg_loop system fixedDof diagonal bNorm False remaining iteration st =
          Inr (\<lparr>cg_iterations = kSimulationCgMaxIterations, cg_relativeResidual = 0, cg_converged = False\<rparr>, x)"
proof (induction remaining arbitrary: iteration st)
  case (Suc remaining)
  let ?m = "cg_moved (cg_product system fixedDof st) st"
  note poison = poisoned_iteration [OF assms(1) Suc.prems(1) assms(2) Suc.prems(2)]
  have "state_size n (cg_turned fixedDof diagonal ?m)"
    using Suc.prems(1) assms(1) moved_size turned_size by blast
  from Suc.IH [OF this poison(3)] show ?case
    using poison(1,2) f64_le_nan by (simp add: Let_def CheckCancellation_def)
qed simp

section \<open>The solver\<close>

lemma start_size:
  assumes "length fixedDof = system_size system" "length b = system_size system"
  shows "solver_sizes system fixedDof (diagonal_of system) (length b)"
    "state_size (length b) \<lparr>cg_x = replicate (length b) 0, cg_r = b,
       cg_p = precondition fixedDof (diagonal_of system) b,
       cg_rz = dot_product b (precondition fixedDof (diagonal_of system) b)\<rparr>"
  using assms by (simp_all add: solver_sizes_def state_size_def)

lemma SolveConjugateGradient_outcome:
  assumes "length fixedDof = system_size system" "length b = system_size system"
    and "SolveConjugateGradient system fixedDof b cancelled = Inr (outcome, x)"
  shows "length x = length b" "cg_iterations outcome \<le> kSimulationCgMaxIterations"
    "cg_converged outcome \<Longrightarrow> f64_le (cg_relativeResidual outcome) kCgRelativeTolerance"
proof -
  have tol: "f64_le 0 kCgRelativeTolerance" by (simp add: kCgRelativeTolerance_def f64_arith_eval)
  have "length x = length b \<and> cg_iterations outcome \<le> kSimulationCgMaxIterations \<and>
    (cg_converged outcome \<longrightarrow> f64_le (cg_relativeResidual outcome) kCgRelativeTolerance)"
    using assms(3) cg_loop_outcome [OF start_size [OF assms(1,2)], of "f64_sqrt (dot_product b b)" cancelled
        kSimulationCgMaxIterations 1 outcome x] tol
    by (auto simp: SolveConjugateGradient_def Let_def split: if_splits)
  then show "length x = length b" "cg_iterations outcome \<le> kSimulationCgMaxIterations"
    "cg_converged outcome \<Longrightarrow> f64_le (cg_relativeResidual outcome) kCgRelativeTolerance" by blast+
qed

lemma SolveConjugateGradient_clamped:
  assumes "length fixedDof = system_size system" "length b = system_size system"
    and "SolveConjugateGradient system fixedDof b cancelled = Inr (outcome, x)" "cg_converged outcome"
    and "i < length b" "fixedDof ! i" "b ! i = 0"
  shows "x ! i = 0"
proof -
  let ?z = "precondition fixedDof (diagonal_of system) b"
  have "?z ! i = 0" using assms(1,2,5,6) by (simp add: precondition_def vector_nth)
  then have "clean_at i \<lparr>cg_x = replicate (length b) 0, cg_r = b, cg_p = ?z, cg_rz = dot_product b ?z\<rparr>"
    using assms(5,7) by (simp add: clean_at_def)
  with cg_loop_clamped [OF start_size(1) [OF assms(1,2)] assms(5,6) start_size(2) [OF assms(1,2)]] assms(3,4,5)
  show ?thesis by (auto simp: SolveConjugateGradient_def Let_def split: if_splits)
qed

end
