(* ===== verification/Study_Laws.thy ===== *)
theory Study_Laws
  imports Voxel_Laws Skin_Laws Solve_Laws
begin

text \<open>
  The laws of a whole study: the stages a returned study passed, the sizes of its vectors, the
  Dirichlet elimination (the first constraint of a node decides, a converged solve keeps its value)
  and the surface mesh that shows the nodal field.
\<close>

section \<open>Stages\<close>

lemma ThrowSimulation_not_Inr [simp]: "ThrowSimulation s w m d \<noteq> Inr x"
  by (simp add: ThrowSimulation_def)

lemma CheckCancellation_Inr: "CheckCancellation cancelled = Inr x \<longleftrightarrow> \<not> cancelled"
  by (simp add: CheckCancellation_def)

lemma SimulateStudyE:
  assumes "SimulateStudy K P bodies registry study cancelled = Inr result"
  obtains isStatic grid model clamped loadVector outcome solution size_of where
    "check_study study bodies = Inr isStatic"
    "Voxelize P bodies (study_resolutionMm study) cancelled = Inr grid" "vg_occupiedCount grid \<noteq> 0"
    "BuildModel grid cancelled = Inr model"
    "size_of = length (fem_nodeKeys model) * (if isStatic then 3 else 1)"
    "clamp_study K P bodies registry model grid cancelled isStatic study size_of = Inr clamped"
    "rfold (apply_load K P bodies registry model grid cancelled isStatic) (replicate size_of 0) (study_loads study) = Inr loadVector"
    "solve_study model isStatic study (study_resolutionMm study) clamped loadVector cancelled = Inr (outcome, solution)"
    "result = present_study model grid isStatic study outcome solution"
  using assms by (auto simp: SimulateStudy_def rbind_eq_Inr Let_def split: if_splits)

lemma check_study_kind:
  "check_study study bodies = Inr isStatic \<Longrightarrow>
   isStatic = (study_kind study = ''static-stress'') \<and> (isStatic \<or> study_kind study = ''steady-heat'') \<and> bodies \<noteq> []"
  by (auto simp: check_study_def Let_def split: if_splits)

section \<open>Sizes\<close>

lemma length_add_at_index [simp]: "length (add_at_index v c) = length v"
  by (simp add: add_at_index_def)

lemma length_fold_add_at_index [simp]: "length (foldl add_at_index v cs) = length v"
  by (induction cs arbitrary: v) auto

lemma length_row_pointers [simp]: "length (row_pointers start columns) = Suc (length columns)"
  by (induction start columns rule: row_pointers.induct) auto

lemma length_adjacency [simp]: "length (adjacency_of nodeCount nodeLists) = nodeCount"
proof -
  have inner: "length (foldl (\<lambda>adjacency row. adjacency[row := adjacency ! row @ nodes]) adjacency rows) = length adjacency"
    for adjacency :: "nat list list" and nodes rows
    by (induction rows arbitrary: adjacency) auto
  have "length (foldl (\<lambda>adjacency nodes. foldl (\<lambda>adjacency row. adjacency[row := adjacency ! row @ nodes]) adjacency nodes)
    adjacency nodeLists) = length adjacency" for adjacency :: "nat list list"
    by (induction nodeLists arbitrary: adjacency) (auto simp: inner)
  then show ?thesis by (simp add: adjacency_of_def)
qed

lemma AssembleSystem_size:
  assumes "AssembleSystem model elementMatrix n cancelled = Inr system"
  shows "system_size system = length (fem_nodeKeys model) * n"
proof -
  have "system_size system = system_size (empty_system model n)"
    using assms unfolding AssembleSystem_def
    by (rule rfold_invariant) (auto simp: add_element_def rbind_eq_Inr system_size_def)
  then show ?thesis by (simp add: system_size_def empty_system_def Let_def)
qed

lemma AssembleSystem_returns: "\<exists>system. AssembleSystem model elementMatrix n False = Inr system"
proof -
  have "\<exists>t. rfold (add_element elementMatrix False) s es = Inr t" for s es
    by (induction es arbitrary: s) (auto simp: add_element_def CheckCancellation_def)
  then show ?thesis by (simp add: AssembleSystem_def)
qed

definition dirichlet_size :: "nat \<Rightarrow> dirichlet \<Rightarrow> bool" where
  "dirichlet_size n st \<longleftrightarrow> length (fst st) = n \<and> length (snd st) = n"

lemma clamp_nodes_size: "dirichlet_size n st \<Longrightarrow> dirichlet_size n (foldl (clamp_node isStatic v) st nodes)"
  by (induction nodes arbitrary: st) (auto simp: clamp_node_def dirichlet_size_def split: prod.splits)

lemma clamp_study_size:
  assumes "clamp_study K P bodies registry model grid cancelled isStatic study n = Inr clamped"
  shows "dirichlet_size n clamped"
proof -
  have "rfold (apply_constraint K P bodies registry model grid cancelled isStatic)
      (replicate n False, replicate n 0) (study_constraints study) = Inr clamped"
    using assms by (auto simp: clamp_study_def rbind_eq_Inr split: if_splits)
  then show ?thesis
  proof (rule rfold_invariant [where P = "dirichlet_size n"])
    show "dirichlet_size n (replicate n False, replicate n 0)" by (simp add: dirichlet_size_def)
  next
    fix s c s'
    assume "dirichlet_size n s" "apply_constraint K P bodies registry model grid cancelled isStatic s c = Inr s'"
    then show "dirichlet_size n s'" using clamp_nodes_size [of n s isStatic "con_valueC c"]
      by (auto simp: apply_constraint_def rbind_eq_Inr simp del: foldl.simps)
  qed
qed

lemma spread_load_size [simp]: "length (spread_load isStatic model h load matched v) = length v"
proof -
  have "length (foldl (add_force vectorN share) v nodes) = length v" for vectorN share nodes v
    by (induction nodes arbitrary: v) (auto simp: add_force_def)
  then show ?thesis by (simp add: spread_load_def Let_def)
qed

lemma loads_size:
  assumes "rfold (apply_load K P bodies registry model grid cancelled isStatic) v loads = Inr w"
  shows "length w = length v"
  using assms by (rule rfold_invariant) (auto simp: apply_load_def rbind_eq_Inr split: if_splits)

section \<open>The solve of a study\<close>

text \<open>What a returned solve gives: the size, the cap on iterations, the tolerance, the clamped values.\<close>

lemma solve_study_laws:
  assumes "solve_study model isStatic study h clamped loadVector cancelled = Inr (outcome, solution)"
    and "n = length (fem_nodeKeys model) * (if isStatic then 3 else 1)" "dirichlet_size n clamped" "length loadVector = n"
  shows "length solution = n" "cg_iterations outcome \<le> kSimulationCgMaxIterations"
    "f64_le (cg_relativeResidual outcome) kCgRelativeTolerance"
    "i < n \<Longrightarrow> fst clamped ! i \<Longrightarrow> solution ! i = f64_add 0 (snd clamped ! i)"
proof -
  from assms(1) obtain system x where e:
    "AssembleSystem model (study_matrix isStatic (study_material study) h) (if isStatic then 3 else 1) cancelled = Inr system"
    "SolveConjugateGradient system (fst clamped) (reduced_load system clamped loadVector) cancelled = Inr (outcome, x)"
    "cg_converged outcome" "solution = map2 f64_add x (snd clamped)"
    by (auto simp: solve_study_def rbind_eq_Inr not_converged_def split: if_splits)
  have n: "system_size system = n" using AssembleSystem_size [OF e(1)] assms(2) by simp
  have b: "length (reduced_load system clamped loadVector) = n"
    using assms(3,4) n by (simp add: reduced_load_def dirichlet_size_def)
  have sizes: "length (fst clamped) = system_size system" "length (reduced_load system clamped loadVector) = system_size system"
    using assms(3) b n by (simp_all add: dirichlet_size_def)
  note outcome = SolveConjugateGradient_outcome [OF sizes e(2)]
  show "length solution = n" using outcome(1) e(4) assms(3) b by (simp add: dirichlet_size_def)
  show "cg_iterations outcome \<le> kSimulationCgMaxIterations" by (rule outcome(2))
  show "f64_le (cg_relativeResidual outcome) kCgRelativeTolerance" by (rule outcome(3) [OF e(3)])
  show "solution ! i = f64_add 0 (snd clamped ! i)" if "i < n" "fst clamped ! i"
  proof -
    have "reduced_load system clamped loadVector ! i = 0"
      using that assms(3,4) n by (simp add: reduced_load_def dirichlet_size_def)
    then have "x ! i = 0" using SolveConjugateGradient_clamped [OF sizes e(2,3)] that b by simp
    then show ?thesis using e(4) that outcome(1) assms(3) b by (simp add: dirichlet_size_def)
  qed
qed

lemma f64_add_zero_eq: "f64_finite v \<Longrightarrow> f64_eq (f64_add 0 v) v"
proof -
  assume fin: "f64_finite v"
  then have nan: "\<not> f64_nan v" by (simp add: f64_finite_def f64_nan_def)
  show ?thesis
  proof (cases "f64_zero v")
    case True
    then have "take_bit 63 v = 0" by (simp add: f64_zero_iff)
    then have "\<not> f64_is_inf v" "f64_mant v = 0" "f64_zero v" using True fin f64_not_finite by (auto simp: f64_mant_zero)
    then have "f64_zero (f64_add 0 v)"
      using nan by (simp add: f64_add_def f64_zero_facts f64_signed_def add_at_def round_signed_def f64_zero_def f64_eq_def)
    then show ?thesis using True by (auto simp: f64_zero_def f64_eq_def)
  next
    case False
    then show ?thesis using f64_add_zero(1) [of 0 v] fin nan f64_zero_facts(2) by (simp add: f64_eq_def)
  qed
qed


section \<open>Which constraint decides\<close>

text \<open>The loop over the nodes of one temperature constraint, and of one fixed constraint.\<close>

lemma heat_clamp_nodes:
  assumes "dirichlet_size n st" "j < n"
  shows "fst (foldl (clamp_node False v) st nodes) ! j \<longleftrightarrow> fst st ! j \<or> j \<in> set nodes"
    and "snd (foldl (clamp_node False v) st nodes) ! j = (if \<not> fst st ! j \<and> j \<in> set nodes then v else snd st ! j)"
proof -
  have "(fst (foldl (clamp_node False v) st nodes) ! j \<longleftrightarrow> fst st ! j \<or> j \<in> set nodes) \<and>
    snd (foldl (clamp_node False v) st nodes) ! j = (if \<not> fst st ! j \<and> j \<in> set nodes then v else snd st ! j)"
    using assms(1)
  proof (induction nodes arbitrary: st)
    case (Cons node nodes)
    have "dirichlet_size n (clamp_node False v st node)" using clamp_nodes_size [OF Cons.prems, of False v "[node]"] by simp
    moreover have "fst (clamp_node False v st node) ! j \<longleftrightarrow> fst st ! j \<or> j = node"
      "snd (clamp_node False v st node) ! j = (if \<not> fst st ! j \<and> j = node then v else snd st ! j)"
      using Cons.prems assms(2)
      by (cases "node = j", auto simp: clamp_node_def dirichlet_size_def split: prod.splits)+
    ultimately show ?case using Cons.IH by simp
  qed simp
  then show "fst (foldl (clamp_node False v) st nodes) ! j \<longleftrightarrow> fst st ! j \<or> j \<in> set nodes"
    "snd (foldl (clamp_node False v) st nodes) ! j = (if \<not> fst st ! j \<and> j \<in> set nodes then v else snd st ! j)" by blast+
qed

lemma static_clamp_nodes:
  assumes "dirichlet_size n st" "j < n"
  shows "snd (foldl (clamp_node True v) st nodes) = snd st"
    and "fst (foldl (clamp_node True v) st nodes) ! j \<longleftrightarrow> fst st ! j \<or> j div 3 \<in> set nodes"
proof -
  show "snd (foldl (clamp_node True v) st nodes) = snd st"
    by (induction nodes arbitrary: st) (auto simp: clamp_node_def split: prod.splits)
  show "fst (foldl (clamp_node True v) st nodes) ! j \<longleftrightarrow> fst st ! j \<or> j div 3 \<in> set nodes"
    using assms(1)
  proof (induction nodes arbitrary: st)
    case (Cons node nodes)
    have "dirichlet_size n (clamp_node True v st node)" using clamp_nodes_size [OF Cons.prems, of True v "[node]"] by simp
    moreover have "fst (clamp_node True v st node) ! j \<longleftrightarrow> fst st ! j \<or> j div 3 = node"
    proof -
      have "j div 3 = node \<longleftrightarrow> j = node * 3 \<or> j = node * 3 + 1 \<or> j = node * 3 + 2" by presburger
      then show ?thesis
        using Cons.prems assms(2) by (auto simp: clamp_node_def dirichlet_size_def nth_list_update split: prod.splits)
    qed
    ultimately show ?case using Cons.IH by auto
  qed simp
qed

text \<open>The nodes a constraint clamps, as the loop over the constraints sees them.\<close>

definition constraint_nodes ::
  "'sh kernel \<Rightarrow> 'sh probe \<Rightarrow> 'sh EvaluatedBody list \<Rightarrow> 'sh NamingRegistry \<Rightarrow> FemModel \<Rightarrow> VoxelGrid \<Rightarrow> SimulationConstraint \<Rightarrow> nat list result" where
  "constraint_nodes K P bodies registry model grid c =
     MatchBoundaryNodes K P (con_ast c) (con_id c) bodies registry model grid False"

lemma apply_constraintE:
  assumes "apply_constraint K P bodies registry model grid cancelled isStatic st c = Inr st'"
  obtains matched where "constraint_nodes K P bodies registry model grid c = Inr matched"
    "st' = foldl (clamp_node isStatic (con_valueC c)) st matched"
  using assms by (auto simp: apply_constraint_def constraint_nodes_def rbind_eq_Inr CheckCancellation_def split: if_splits)

lemma clamp_study_fold:
  "clamp_study K P bodies registry model grid cancelled isStatic study n = Inr clamped \<Longrightarrow>
   rfold (apply_constraint K P bodies registry model grid cancelled isStatic) (replicate n False, replicate n 0)
     (study_constraints study) = Inr clamped"
  by (auto simp: clamp_study_def rbind_eq_Inr split: if_splits)

lemma apply_constraint_size:
  "apply_constraint K P bodies registry model grid cancelled isStatic st c = Inr st' \<Longrightarrow>
   dirichlet_size n st \<Longrightarrow> dirichlet_size n st'"
  by (metis apply_constraintE clamp_nodes_size)

lemma first_constraint_decides:
  assumes "clamp_study K P bodies registry model grid cancelled False study n = Inr clamped"
    and "study_constraints study = earlier @ c # later"
    and "constraint_nodes K P bodies registry model grid c = Inr matched" "node \<in> set matched" "node < n"
    and "\<And>d others. d \<in> set earlier \<Longrightarrow> constraint_nodes K P bodies registry model grid d = Inr others \<Longrightarrow> node \<notin> set others"
  shows "fst clamped ! node" "snd clamped ! node = con_valueC c"
proof -
  let ?apply = "apply_constraint K P bodies registry model grid cancelled False"
  obtain st st' where e: "rfold ?apply (replicate n False, replicate n 0) earlier = Inr st" "?apply st c = Inr st'"
    "rfold ?apply st' later = Inr clamped"
    using clamp_study_fold [OF assms(1)] assms(2) by (auto simp: rfold_append rbind_eq_Inr)
  have st: "dirichlet_size n st \<and> \<not> fst st ! node"
    using e(1)
  proof (rule rfold_invariant [where P = "\<lambda>s. dirichlet_size n s \<and> \<not> fst s ! node"])
    show "dirichlet_size n (replicate n False, replicate n 0) \<and> \<not> fst (replicate n False, replicate n (0 :: f64)) ! node"
      using assms(5) by (simp add: dirichlet_size_def)
  next
    fix s d s'
    assume s: "dirichlet_size n s \<and> \<not> fst s ! node" "d \<in> set earlier" "?apply s d = Inr s'"
    then obtain others where "constraint_nodes K P bodies registry model grid d = Inr others"
      "s' = foldl (clamp_node False (con_valueC d)) s others" using apply_constraintE by metis
    with s show "dirichlet_size n s' \<and> \<not> fst s' ! node"
      using heat_clamp_nodes(1) [of n s node] clamp_nodes_size assms(5,6) by metis
  qed
  have "st' = foldl (clamp_node False (con_valueC c)) st matched"
    using e(2) assms(3) apply_constraintE by (metis sum.inject(2))
  then have st': "dirichlet_size n st' \<and> fst st' ! node \<and> snd st' ! node = con_valueC c"
    using st heat_clamp_nodes [of n st node] clamp_nodes_size assms(4,5) by metis
  have "dirichlet_size n clamped \<and> fst clamped ! node \<and> snd clamped ! node = con_valueC c"
    using e(3) st'
  proof (rule rfold_invariant [where P = "\<lambda>s. dirichlet_size n s \<and> fst s ! node \<and> snd s ! node = con_valueC c"])
    fix s d s'
    assume s: "dirichlet_size n s \<and> fst s ! node \<and> snd s ! node = con_valueC c" "?apply s d = Inr s'"
    then obtain others where "s' = foldl (clamp_node False (con_valueC d)) s others" using apply_constraintE by metis
    with s show "dirichlet_size n s' \<and> fst s' ! node \<and> snd s' ! node = con_valueC c"
      using heat_clamp_nodes [of n s node] clamp_nodes_size assms(5) by metis
  qed
  then show "fst clamped ! node" "snd clamped ! node = con_valueC c" by blast+
qed

lemma fixed_constraints_clamp:
  assumes "clamp_study K P bodies registry model grid cancelled True study n = Inr clamped"
    and "c \<in> set (study_constraints study)" "constraint_nodes K P bodies registry model grid c = Inr matched"
    and "j < n" "j div 3 \<in> set matched"
  shows "fst clamped ! j" "snd clamped ! j = 0"
proof -
  let ?apply = "apply_constraint K P bodies registry model grid cancelled True"
  let ?I = "\<lambda>s. dirichlet_size n s \<and> snd s ! j = 0"
  note fold = clamp_study_fold [OF assms(1)]
  have step: "?I s' \<and> (fst s ! j \<or> d = c \<longrightarrow> fst s' ! j)" if s: "?I s" "?apply s d = Inr s'" for s d s'
  proof -
    from s(2) obtain others where o: "constraint_nodes K P bodies registry model grid d = Inr others"
      "s' = foldl (clamp_node True (con_valueC d)) s others" using apply_constraintE by metis
    have "fst s' ! j \<longleftrightarrow> fst s ! j \<or> j div 3 \<in> set others" "snd s' = snd s"
      using static_clamp_nodes [of n s j] s(1) o(2) assms(4) by simp_all
    moreover have "d = c \<Longrightarrow> others = matched" using o(1) assms(3) by simp
    ultimately show ?thesis using s apply_constraint_size assms(5) by metis
  qed
  have start: "?I (replicate n False, replicate n 0)" using assms(4) by (simp add: dirichlet_size_def)
  have "?I clamped" using fold start by (rule rfold_invariant [where P = ?I]) (use step in blast)
  then show "snd clamped ! j = 0" by blast
  show "fst clamped ! j"
    using fold start
    by (rule rfold_eventually [where I = ?I and Q = "\<lambda>s. fst s ! j" and est = "\<lambda>d. d = c"])
       (use assms(2) step in blast)+
qed

section \<open>The vertices of the skin\<close>

lemma number_skin_nth:
  "n < length on \<Longrightarrow> on ! n \<Longrightarrow> number_skin v on ! n = v + length (filter (\<lambda>k. on ! k) [0..<n])"
proof (induction on arbitrary: v n)
  case (Cons o1 on)
  show ?case
  proof (cases n)
    case (Suc m)
    have "[0..<Suc m] = 0 # map Suc [0..<m]" by (simp add: upt_conv_Cons map_Suc_upt del: upt_Suc)
    then have "length (filter (\<lambda>k. (o1 # on) ! k) [0..<Suc m]) = (if o1 then 1 else 0) + length (filter (\<lambda>k. on ! k) [0..<m])"
      by (simp add: filter_map comp_def del: upt_Suc)
    then show ?thesis using Cons Suc by simp
  qed (use Cons in auto)
qed simp

lemma upt_split: "n < m \<Longrightarrow> [0..<m] = [0..<n] @ n # [Suc n..<m]"
  by (metis le0 le_add_diff_inverse less_imp_le_nat upt_add_eq_append upt_conv_Cons)

text \<open>The vertex of a skin node is its position among the skin nodes.\<close>

lemma skin_vertex:
  assumes "node < length (fem_nodeKeys model)" "length (fem_nodeOnSkin model) = length (fem_nodeKeys model)"
    and "fem_nodeOnSkin model ! node"
  defines "v \<equiv> number_skin 0 (fem_nodeOnSkin model) ! node"
  shows "v < length (skin_nodes model)" "skin_nodes model ! v = node"
proof -
  have v: "v = length (filter (\<lambda>k. fem_nodeOnSkin model ! k) [0..<node])"
    using number_skin_nth [of node "fem_nodeOnSkin model" 0] assms by simp
  have "skin_nodes model = filter (\<lambda>k. fem_nodeOnSkin model ! k) [0..<node] @
    node # filter (\<lambda>k. fem_nodeOnSkin model ! k) [Suc node..<length (fem_nodeKeys model)]"
    using assms(1,3) by (simp add: skin_nodes_def upt_split)
  then show "v < length (skin_nodes model)" "skin_nodes model ! v = node" using v by (simp_all add: nth_append)
qed

lemma skin_scalar:
  assumes "node < length (fem_nodeKeys model)" "length (fem_nodeOnSkin model) = length (fem_nodeKeys model)"
    and "fem_nodeOnSkin model ! node"
  shows "sm_scalars (EmitSkin model grid nodalScalar) ! (number_skin 0 (fem_nodeOnSkin model) ! node) = nodalScalar ! node"
  using skin_vertex [OF assms] by (simp add: EmitSkin_def Let_def)

lemma node_of_less:
  assumes "key \<in> set (node_keys grid)"
  shows "node_of grid key < length (node_keys grid)"
proof -
  obtain n where "map_of (zip (node_keys grid) [0..<length (node_keys grid)]) key = Some n"
    using assms by (metis length_upt map_of_zip_is_Some minus_nat.diff_0)
  moreover have "n < length (node_keys grid)" using map_of_SomeD [OF calculation] set_zip_rightD by fastforce
  ultimately show ?thesis by (simp add: node_of_def new_model_def)
qed

lemma cell_nodes_less:
  assumes "c \<in> set (element_cells grid)" "node \<in> set (cell_nodes grid c)"
  shows "node < length (node_keys grid)"
  using assms by (auto simp: cell_nodes_def intro!: node_of_less) (auto simp: node_keys_def sort_unique_def)

text \<open>Every corner of a skin quad is a skin node.\<close>

lemma quad_nodes_on_skin:
  assumes "BuildModel grid cancelled = Inr model" "quad \<in> set (fem_skinQuads model)" "node \<in> set (quad_nodes model quad)"
  shows "node < length (fem_nodeKeys model)" "fem_nodeOnSkin model ! node"
proof -
  note form = BuildModel_closed_form [OF assms(1)]
  obtain e face where q: "quad = (e, face)" "e < length (element_cells grid)"
    "face \<in> set (open_faces grid (element_cells grid ! e))"
    using assms(2) form(3) by (auto simp: in_set_enumerate_eq)
  let ?c = "element_cells grid ! e"
  have c: "?c \<in> set (element_cells grid)" using q(2) by simp
  obtain corner where k: "corner \<in> set (kFaceCorners ! face)" "node = cell_nodes grid ?c ! corner"
    using assms(3) q form(2) by (auto simp: quad_nodes_def)
  have "face < 6" using q(3) by (auto simp: open_faces_def)
  moreover have "length (cell_nodes grid ?c) = 8" by (simp add: cell_nodes_def corner_keys_def kCornerOffset_def)
  ultimately have "corner < length (cell_nodes grid ?c)" using face_corners_less k(1) by metis
  then have less: "node < length (node_keys grid)" using cell_nodes_less [OF c] k(2) by simp
  then show "node < length (fem_nodeKeys model)" using form(1) by simp
  show "fem_nodeOnSkin model ! node" using form(5) [OF less] c q(3) k by blast
qed


lemma quad_nodes_four:
  assumes "BuildModel grid cancelled = Inr model" "quad \<in> set (fem_skinQuads model)"
  shows "length (quad_nodes model quad) = 4"
proof -
  obtain e face where "quad = (e, face)" "face < 6"
    using assms(2) BuildModel_closed_form(3) [OF assms(1)] by (auto simp: open_faces_def)
  then show ?thesis using less_six [of face] by (auto simp: quad_nodes_def kFaceCorners_def)
qed

section \<open>Matched nodes, cancellation, the legend\<close>

lemma matched_on_skin:
  assumes "constraint_nodes K P bodies registry model grid c = Inr matched" "node \<in> set matched"
  shows "node < length (fem_nodeKeys model) \<and> fem_nodeOnSkin model ! node"
proof -
  obtain entities where "rfold (match_node K P model grid entities False) [] [0..<length (fem_nodeKeys model)] = Inr matched"
    using assms(1) by (auto simp: constraint_nodes_def MatchBoundaryNodes_def rbind_eq_Inr split: if_splits)
  then have "\<forall>node \<in> set matched. node < length (fem_nodeKeys model) \<and> fem_nodeOnSkin model ! node"
    by (rule rfold_invariant) (auto simp: match_node_def rbind_eq_Inr split: if_splits)
  then show ?thesis using assms(2) by blast
qed

lemma clamp_study_cancelled:
  assumes "clamp_study K P bodies registry model grid cancelled isStatic study n = Inr clamped"
  shows "\<not> cancelled"
proof
  assume cancelled
  then have "study_constraints study = []"
    using clamp_study_fold [OF assms] by (cases "study_constraints study") (auto simp: apply_constraint_def CheckCancellation_def)
  then show False using assms by (auto simp: clamp_study_def)
qed

text \<open>A running minimum passes below every number it has seen, whatever NaN values come between.\<close>

lemma foldl_extreme_rank:
  assumes "\<not> f64_nan a"
  shows "\<not> f64_nan (foldl f64_min a xs)" "f64_rank (foldl f64_min a xs) \<le> f64_rank a"
    "x \<in> set xs \<Longrightarrow> \<not> f64_nan x \<Longrightarrow> f64_rank (foldl f64_min a xs) \<le> f64_rank x"
    "\<not> f64_nan (foldl f64_max a xs)" "f64_rank a \<le> f64_rank (foldl f64_max a xs)"
    "x \<in> set xs \<Longrightarrow> \<not> f64_nan x \<Longrightarrow> f64_rank x \<le> f64_rank (foldl f64_max a xs)"
proof -
  have step: "f64_rank (f64_min a y) \<le> f64_rank a" "\<not> f64_nan y \<Longrightarrow> f64_rank (f64_min a y) \<le> f64_rank y"
    "f64_rank a \<le> f64_rank (f64_max a y)" "\<not> f64_nan y \<Longrightarrow> f64_rank y \<le> f64_rank (f64_max a y)" if "\<not> f64_nan a" for a y
    using that by (simp_all add: f64_min_def f64_max_def f64_less_def)
  have low: "\<not> f64_nan (foldl f64_min a xs) \<and> f64_rank (foldl f64_min a xs) \<le> f64_rank a \<and>
    (\<forall>x \<in> set xs. \<not> f64_nan x \<longrightarrow> f64_rank (foldl f64_min a xs) \<le> f64_rank x)"
    using assms
  proof (induction xs arbitrary: a)
    case (Cons y ys)
    have "\<not> f64_nan (f64_min a y)" using Cons.prems by simp
    from Cons.IH [OF this] show ?case using step(1,2) [OF Cons.prems, of y] by (auto intro: order_trans)
  qed simp
  have high: "\<not> f64_nan (foldl f64_max a xs) \<and> f64_rank a \<le> f64_rank (foldl f64_max a xs) \<and>
    (\<forall>x \<in> set xs. \<not> f64_nan x \<longrightarrow> f64_rank x \<le> f64_rank (foldl f64_max a xs))"
    using assms
  proof (induction xs arbitrary: a)
    case (Cons y ys)
    have "\<not> f64_nan (f64_max a y)" using Cons.prems by simp
    from Cons.IH [OF this] show ?case using step(3,4) [OF Cons.prems, of y] by (auto intro: order_trans)
  qed simp
  show "\<not> f64_nan (foldl f64_min a xs)" "f64_rank (foldl f64_min a xs) \<le> f64_rank a"
    "x \<in> set xs \<Longrightarrow> \<not> f64_nan x \<Longrightarrow> f64_rank (foldl f64_min a xs) \<le> f64_rank x" using low by blast+
  show "\<not> f64_nan (foldl f64_max a xs)" "f64_rank a \<le> f64_rank (foldl f64_max a xs)"
    "x \<in> set xs \<Longrightarrow> \<not> f64_nan x \<Longrightarrow> f64_rank x \<le> f64_rank (foldl f64_max a xs)" using high by blast+
qed

lemma scalar_extremes_bound:
  assumes "x \<in> set xs" "\<not> f64_nan x"
  shows "f64_le (fst (scalar_extremes xs)) x \<and> f64_le x (snd (scalar_extremes xs))"
proof -
  have "xs \<noteq> []" using assms(1) by auto
  then show ?thesis
    using foldl_extreme_rank(1,3) [OF infinite_extremes(1)] foldl_extreme_rank(4,6) [OF infinite_extremes(2)] assms
    by (simp add: scalar_extremes_def f64_le_rank)
qed

lemma not_converged_zero:
  "not_converged \<lparr>cg_iterations = kSimulationCgMaxIterations, cg_relativeResidual = 0, cg_converged = False\<rparr> =
     ThrowSimulation ''SIM_DID_NOT_CONVERGE'' ''GEOMETRY_FAILED''
       ''conjugate gradients hit the 10000-iteration cap at relative residual 0.000e+00''
       [(''iterations'', JUInt 10000), (''relativeResidual'', JFloat 0)]"
proof -
  have "printf_scientific 3 0 = ''0.000e+00''" by (simp add: printf_eval f64_arith_eval Let_def)
  moreover have "decimal 10000 = ''10000''" by (simp add: decimal.simps digit_char_def)
  ultimately show ?thesis by (simp add: not_converged_def kSimulationCgMaxIterations_def snprintf_def)
qed


section \<open>Studies that return\<close>

text \<open>Every node key that \<open>BuildModel\<close> looks up is one it has numbered.\<close>

lemma BuildModel_returns: "\<exists>model. BuildModel grid False = Inr model"
proof -
  have found: "\<exists>nodes. rmap (node_at model) keys = Inr nodes"
    if "fem_nodeIdOf model = fem_nodeIdOf (new_model grid)" "set keys \<subseteq> set (node_keys grid)" for model keys
    using that(2)
  proof (induction keys)
    case (Cons key keys)
    obtain n where "fem_nodeIdOf (new_model grid) key = Some n"
      using Cons.prems by (simp add: new_model_def) (metis length_upt map_of_zip_is_Some minus_nat.diff_0)
    then show ?case using Cons that(1) by (auto simp: node_at_def)
  qed simp
  have kept: "fem_nodeIdOf (foldl (build_face grid c e nodes) model faces) = fem_nodeIdOf model" for c e nodes model faces
    by (induction faces arbitrary: model) (auto simp: build_face_def)
  have "\<exists>model'. rfold (build_element grid False) model ps = Inr model'"
    if "fem_nodeIdOf model = fem_nodeIdOf (new_model grid)" "snd ` set ps \<subseteq> set (element_cells grid)" for model ps
    using that
  proof (induction ps arbitrary: model)
    case (Cons p ps)
    have "set (corner_keys grid (snd p)) \<subseteq> set (node_keys grid)"
      using Cons.prems(2) by (auto simp: node_keys_def sort_unique_def)
    then obtain nodes where "rmap (node_at model) (corner_keys grid (snd p)) = Inr nodes" using found Cons.prems(1) by blast
    then show ?case
      using Cons by (simp add: build_element_def CheckCancellation_def kept del: foldl.simps upt_Suc)
  qed simp
  from this [OF refl, of "List.enumerate 0 (element_cells grid)"] show ?thesis
    by (simp add: BuildModel_def flip: set_map)
qed

text \<open>With every unknown clamped the load vector is zero and the solve returns at once.\<close>

lemma dot_product_zeros: "dot_product (replicate n 0) (replicate n 0) = 0"
proof -
  have "f64_mul 0 0 = 0" by (simp add: f64_mul_def f64_zero_facts f64_round_def round_magnitude_def)
  then show ?thesis by (induction n) (simp_all add: dot_product_def f64_zero_plus)
qed

lemma solve_all_clamped:
  assumes "n = length (fem_nodeKeys model) * (if isStatic then 3 else 1)" "dirichlet_size n clamped"
    and "fst clamped = replicate n True" "length loadVector = n"
  shows "solve_study model isStatic study h clamped loadVector False =
    Inr (\<lparr>cg_iterations = 0, cg_relativeResidual = 0, cg_converged = True\<rparr>, map2 f64_add (replicate n 0) (snd clamped))"
proof -
  obtain system where s: "AssembleSystem model (study_matrix isStatic (study_material study) h) (if isStatic then 3 else 1) False = Inr system"
    using AssembleSystem_returns by blast
  have n: "system_size system = n" using AssembleSystem_size [OF s] assms(1) by simp
  have "reduced_load system clamped loadVector = replicate n 0"
    using assms(3,4) n by (simp add: reduced_load_def list_eq_iff_nth_eq)
  moreover have "f64_eq (f64_sqrt 0) 0" by (simp add: f64_sqrt_def f64_zero_facts f64_eq_def)
  ultimately show ?thesis
    by (simp add: solve_study_def s SolveConjugateGradient_def dot_product_zeros)
qed

end
