(* ===== verification/Study_Properties.thy ===== *)
theory Study_Properties
  imports Study_Laws Ref_Properties
begin

text \<open>
  What a simulation promises: the occupancy of its grid, the surface it returns, the bounds of its
  result, the boundary conditions that hold in it, and what it reports of a solve that ran out of
  iterations. The witnesses run a study on one voxel, all of whose nodes are clamped.
\<close>

section \<open>The surface and the bounds\<close>

text \<open>C28. The grid holds the bodies: a cell of the grid is occupied exactly when the ray through its
  column crosses some body around its sample point, whatever order the columns and bodies are filled
  in; the count is the number of occupied cells and never passes the element cap.\<close>

theorem voxels_are_the_union_of_bodies:
  assumes "Voxelize P bodies h cancelled = Inr grid"
  shows "(Occupied grid i j k \<longleftrightarrow> in_grid grid i j k \<and> inside_bodies P grid bodies i j k) \<and>
    vg_occupiedCount grid = length (filter (\<lambda>b. b) (vg_occupied grid)) \<and> vg_occupiedCount grid \<le> kSimulationElementCap \<and>
    vg_h grid = h"
  using Voxelize_facts [OF assms] by (simp add: counts_cells_def)

text \<open>C13. The mesh a study returns is a closed, consistently oriented surface, every index names a
  vertex of it, and every vertex has a position and a scalar.\<close>

theorem simulated_surface_is_closed:
  assumes "SimulateStudy K P bodies registry study cancelled = Inr result"
  shows "closed_surface (sm_triangles (sim_mesh result)) \<and>
    (\<forall>v \<in> set (sm_triangles (sim_mesh result)). v < length (sm_scalars (sim_mesh result))) \<and>
    length (sm_positions (sim_mesh result)) = 3 * length (sm_scalars (sim_mesh result))"
proof -
  obtain grid model nodalScalar where m: "BuildModel grid cancelled = Inr model" "sim_mesh result = EmitSkin model grid nodalScalar"
    using SimulateStudyE [OF assms] by (metis (no_types, lifting) present_study_def SimulationResult.select_convs(2))
  have vertices: "length (sm_scalars (sim_mesh result)) = length (skin_nodes model)" using m(2) by (simp add: EmitSkin_def Let_def)
  have on: "length (fem_nodeOnSkin model) = length (fem_nodeKeys model)" using BuildModel_closed_form [OF m(1)] by simp
  have "v < length (skin_nodes model)" if v: "v \<in> set (sm_triangles (sim_mesh result))" for v
  proof -
    obtain quad where q: "quad \<in> set (fem_skinQuads model)"
      "v \<in> set (quad_triangles (map (\<lambda>node. number_skin 0 (fem_nodeOnSkin model) ! node) (quad_nodes model quad)))"
      using v m(2) by (auto simp: EmitSkin_def Let_def)
    have "length (quad_nodes model quad) = 4" by (rule quad_nodes_four [OF m(1) q(1)])
    then have "v \<in> (\<lambda>node. number_skin 0 (fem_nodeOnSkin model) ! node) ` set (quad_nodes model quad)"
      using q(2) by (auto simp: quad_triangles_def)
    then show ?thesis using skin_vertex(1) [OF _ on] quad_nodes_on_skin [OF m(1) q(1)] by auto
  qed
  moreover have "length (sm_positions (sim_mesh result)) = 3 * length (skin_nodes model)"
    unfolding m(2) by (simp add: EmitSkin_def Let_def) (subst length_concat_const [where k = 3]; auto split: prod.splits)
  ultimately show ?thesis using skin_closed [OF m(1)] m(2) vertices by simp
qed

text \<open>A returned study stayed within its limits: at least one element and no more than the cap, no
  more iterations than the cap, and a legend that no displayed scalar leaves.\<close>

theorem study_result_bounds:
  assumes "SimulateStudy K P bodies registry study cancelled = Inr result"
  shows "0 < sim_elementCount result \<and> sim_elementCount result \<le> kSimulationElementCap \<and>
    sim_iterations result \<le> kSimulationCgMaxIterations \<and> \<not> cancelled \<and>
    (\<forall>s \<in> set (sm_scalars (sim_mesh result)). \<not> f64_nan s \<longrightarrow>
       f64_le (sim_scalarMin result) s \<and> f64_le s (sim_scalarMax result))"
proof -
  obtain isStatic grid model clamped loadVector outcome solution size_of where s:
    "Voxelize P bodies (study_resolutionMm study) cancelled = Inr grid" "vg_occupiedCount grid \<noteq> 0"
    "size_of = length (fem_nodeKeys model) * (if isStatic then 3 else 1)"
    "clamp_study K P bodies registry model grid cancelled isStatic study size_of = Inr clamped"
    "rfold (apply_load K P bodies registry model grid cancelled isStatic) (replicate size_of 0) (study_loads study) = Inr loadVector"
    "solve_study model isStatic study (study_resolutionMm study) clamped loadVector cancelled = Inr (outcome, solution)"
    "result = present_study model grid isStatic study outcome solution"
    using SimulateStudyE [OF assms] by metis
  have "length loadVector = size_of" using loads_size [OF s(5)] by simp
  note solved = solve_study_laws [OF s(6,3) clamp_study_size [OF s(4)] this]
  have legend: "f64_le (fst (scalar_extremes xs)) x \<and> f64_le x (snd (scalar_extremes xs))"
    if "x \<in> set xs" "\<not> f64_nan x" for xs x
    by (rule scalar_extremes_bound [OF that])
  have cancelled: "\<not> cancelled" by (rule clamp_study_cancelled [OF s(4)])
  show ?thesis
    using Voxelize_facts(2) [OF s(1)] s(2,7) solved(2) cancelled legend
    by (simp add: present_study_def Let_def counts_cells_def)
qed

section \<open>Boundary conditions\<close>

text \<open>C22. The temperature of a constraint holds where it is shown: in a heat study that returns, a
  skin node that a temperature constraint matches, and no earlier constraint does, is displayed with
  the value of that constraint.\<close>

theorem temperatures_hold_where_clamped:
  assumes "SimulateStudy K P bodies registry study cancelled = Inr result" and "study_kind study = ''steady-heat''"
    and "Voxelize P bodies (study_resolutionMm study) cancelled = Inr grid" and "BuildModel grid cancelled = Inr model"
    and "study_constraints study = earlier @ c # later"
    and "constraint_nodes K P bodies registry model grid c = Inr matched" and "node \<in> set matched"
    and "\<And>d others. d \<in> set earlier \<Longrightarrow> constraint_nodes K P bodies registry model grid d = Inr others \<Longrightarrow> node \<notin> set others"
    and "f64_finite (con_valueC c)"
  shows "f64_eq (sm_scalars (sim_mesh result) ! (number_skin 0 (fem_nodeOnSkin model) ! node)) (con_valueC c)"
proof -
  obtain isStatic clamped loadVector outcome solution size_of where s:
    "check_study study bodies = Inr isStatic" "size_of = length (fem_nodeKeys model) * (if isStatic then 3 else 1)"
    "clamp_study K P bodies registry model grid cancelled isStatic study size_of = Inr clamped"
    "rfold (apply_load K P bodies registry model grid cancelled isStatic) (replicate size_of 0) (study_loads study) = Inr loadVector"
    "solve_study model isStatic study (study_resolutionMm study) clamped loadVector cancelled = Inr (outcome, solution)"
    "result = present_study model grid isStatic study outcome solution"
    using SimulateStudyE [OF assms(1)] assms(3,4) by (metis sum.inject(2))
  have heat: "\<not> isStatic" using check_study_kind [OF s(1)] assms(2) by simp
  have node: "node < length (fem_nodeKeys model)" "fem_nodeOnSkin model ! node"
    using matched_on_skin [OF assms(6,7)] by blast+
  have size: "node < size_of" "size_of = length (fem_nodeKeys model)" using node heat s(2) by simp_all
  have decided: "fst clamped ! node" "snd clamped ! node = con_valueC c"
    using first_constraint_decides [OF _ assms(5,6,7) size(1) assms(8)] s(3) heat by simp_all
  have "length loadVector = size_of" using loads_size [OF s(4)] by simp
  from solve_study_laws(4) [OF s(5,2) clamp_study_size [OF s(3)] this size(1) decided(1)]
  have "solution ! node = f64_add 0 (con_valueC c)" using decided(2) by simp
  moreover have "sim_mesh result = EmitSkin model grid solution" using s(6) heat by (simp add: present_study_def Let_def)
  moreover have "length (fem_nodeOnSkin model) = length (fem_nodeKeys model)" using BuildModel_closed_form [OF assms(4)] by simp
  ultimately show ?thesis using skin_scalar [OF node(1) _ node(2)] f64_add_zero_eq [OF assms(9)] by simp
qed

text \<open>C26. Fixed nodes do not move: in the solution of a static study every displacement of a node that
  some fixed constraint matches is zero, although conjugate gradients work in floating point and only
  mask the clamped unknowns.\<close>

theorem fixed_nodes_do_not_move:
  assumes "clamp_study K P bodies registry model grid cancelled True study (length (fem_nodeKeys model) * 3) = Inr clamped"
    and "length loadVector = length (fem_nodeKeys model) * 3"
    and "solve_study model True study h clamped loadVector cancelled = Inr (outcome, solution)"
    and "c \<in> set (study_constraints study)" and "constraint_nodes K P bodies registry model grid c = Inr matched"
    and "node \<in> set matched" and "d < 3"
  shows "solution ! (node * 3 + d) = 0"
proof -
  have "node < length (fem_nodeKeys model)" using matched_on_skin [OF assms(5,6)] by blast
  then have j: "node * 3 + d < length (fem_nodeKeys model) * 3" "(node * 3 + d) div 3 = node" using assms(7) by simp_all
  note decided = fixed_constraints_clamp [OF assms(1,4,5) j(1)]
  have "solution ! (node * 3 + d) = f64_add 0 (snd clamped ! (node * 3 + d))"
    by (rule solve_study_laws(4) [OF assms(3) _ clamp_study_size [OF assms(1)] assms(2) j(1)])
       (use decided(1) j(2) assms(6) in simp_all)
  then show ?thesis using decided(2) j(2) assms(6) by (simp add: f64_zero_plus)
qed

section \<open>Running out of iterations\<close>

text \<open>A solve that runs out of iterations reports a residual of zero: with a NaN in the load of a
  free unknown every iteration fails its test, the cap ends the loop without convergence, and the
  refusal says the relative residual was \<open>0.000e+00\<close>.\<close>

lemma exhausted_solve_reports_zero_residual:
  assumes "length fixedDof = system_size system" and "length b = system_size system"
    and "i < length b" and "f64_nan (b ! i)" and "\<not> fixedDof ! i"
  shows "\<exists>outcome x. SolveConjugateGradient system fixedDof b False = Inr (outcome, x) \<and>
    cg_iterations outcome = kSimulationCgMaxIterations \<and> \<not> cg_converged outcome \<and>
    (not_converged outcome :: unit result) =
      ThrowSimulation ''SIM_DID_NOT_CONVERGE'' ''GEOMETRY_FAILED''
        ''conjugate gradients hit the 10000-iteration cap at relative residual 0.000e+00''
        [(''iterations'', JUInt 10000), (''relativeResidual'', JFloat 0)]"
proof -
  let ?z = "precondition fixedDof (diagonal_of system) b"
  have "f64_nan (?z ! i)" using assms by (simp add: precondition_def vector_nth f64_nan_div)
  then obtain x where "cg_loop system fixedDof (diagonal_of system) (f64_sqrt (dot_product b b)) False
      kSimulationCgMaxIterations 1 \<lparr>cg_x = replicate (length b) 0, cg_r = b, cg_p = ?z, cg_rz = dot_product b ?z\<rparr> =
      Inr (\<lparr>cg_iterations = kSimulationCgMaxIterations, cg_relativeResidual = 0, cg_converged = False\<rparr>, x)"
    using cg_loop_poisoned [OF start_size(1) [OF assms(1,2)] assms(3) start_size(2) [OF assms(1,2)]] by fastforce
  moreover have "\<not> f64_eq (f64_sqrt (dot_product b b)) 0"
    using dot_product_nan [of i b b] assms(3,4) f64_nan_sqrt by (simp add: f64_eq_def)
  ultimately show ?thesis using not_converged_zero by (auto simp: SolveConjugateGradient_def Let_def)
qed

section \<open>One voxel, clamped everywhere\<close>

definition one :: f64 where
  "one = 0x3FF0000000000000"

definition cube_probe :: "nat probe" where
  "cube_probe = \<lparr>pr_bounds = (\<lambda>_. Some ((0, 0, 0), (0, 0, 0))), pr_crossings = (\<lambda>_ _ _. [0, one]), pr_out = (\<lambda>_ _ _. False)\<rparr>"

definition cube_grid :: "bool \<Rightarrow> VoxelGrid" where
  "cube_grid full =
     \<lparr>vg_h = one, vg_originX = 0xBFE0000000000000, vg_originY = 0xBFE0000000000000, vg_originZ = 0xBFE0000000000000,
      vg_nx = 1, vg_ny = 1, vg_nz = 1, vg_occupied = [full], vg_occupiedCount = of_bool full\<rparr>"

definition cube_constraint :: SimulationConstraint where
  "cube_constraint = \<lparr>con_id = ''c'', con_ast = sample_ast, con_kind = ''temperature'', con_valueC = one\<rparr>"

definition cube_study :: "string \<Rightarrow> SimulationStudy" where
  "cube_study kind =
     \<lparr>study_kind = kind, study_resolutionMm = one,
      study_material = \<lparr>youngsModulusGPa = one, poissonsRatio = 0, yieldStrengthMPa = one, thermalConductivityWPerMK = one\<rparr>,
      study_constraints = [cube_constraint], study_loads = []\<rparr>"

lemma one_finite: "f64_finite one" "\<not> f64_nan one"
  by (simp_all add: one_def f64_finite_def f64_arith_eval)

lemma cube_numbers:
  "f64_of_int 1 = one" "f64_of_int 0 = 0" "f64_div 0 one = 0" "f64_mul one one = one"
  "f64_decimal 5 1 = 0x3FE0000000000000" "f64_mul 0x3FE0000000000000 0 = 0" "f64_mul 0x3FE0000000000000 one = 0x3FE0000000000000"
  "f64_decimal 1 4 = 0x3F1A36E2EB1C432D"
  by (simp_all add: one_def f64_of_int_def f64_arith_eval Let_def)

lemma cube_plus_zero:
  "f64_add 0 0x3FE0000000000000 = 0x3FE0000000000000" "f64_add 0 0x3F1A36E2EB1C432D = 0x3F1A36E2EB1C432D" "f64_sub one 0 = one"
  "f64_add 0 0xBFE0000000000000 = 0xBFE0000000000000"
  unfolding f64_sub_def
  by (rule f64_add_zero, simp_all add: one_def f64_zero_def f64_eq_def f64_neg_def f64_nan_def f64_rank_def f64_sign_def
      f64_exp_def f64_frac_def f64_finite_def)+

lemma cube_zeros: "f64_sub 0 0 = 0" "f64_add 0 0 = 0" "f64_sub 0 0x3FE0000000000000 = 0xBFE0000000000000"
  by (simp_all only: f64_sub_def f64_zero_plus) (use cube_plus_zero(4) in \<open>simp add: f64_neg_def\<close>)

lemma cube_sums:
  "f64_add 0xBFE0000000000000 0x3FE0000000000000 = 0"
  "f64_mul one 0x3F1A36E2EB1C432D = 0x3F1A36E2EB1C432D" "f64_decimal 1 6 = 0x3EB0C6F7A0B5ED8D"
  "f64_mul one 0x3EB0C6F7A0B5ED8D = 0x3EB0C6F7A0B5ED8D" "f64_of_nat 256000000 = 0x41AE848000000000"
  by (simp_all add: one_def f64_arith_eval Let_def)

lemma cube_compares:
  "f64_rank one = 0x3FF0000000000000" "f64_rank 0 = 0" "\<not> f64_nan 0" "\<not> f64_less 0x41AE848000000000 one"
  "f64_less 0x3EB0C6F7A0B5ED8D one" "\<not> f64_less 0x3F1A36E2EB1C432D 0" "\<not> f64_le one 0x3F1A36E2EB1C432D"
  by (simp_all add: one_def f64_rank_def f64_sign_def f64_nan_def f64_exp_def f64_frac_def f64_less_def f64_le_def f64_eq_def)

lemma cube_ceil: "ceil_int64 0 = Inr 0"
  by (simp add: ceil_int64_def f64_ceil_def f64_finite_def f64_scale_def f64_exp_def f64_frac_def f64_signed_def f64_mant_def)

lemma cube_empty: "empty_grid (0, 0, 0) (0, 0, 0) one = Inr (cube_grid False)"
proof -
  have "origin_at 0 0 1 one = 0xBFE0000000000000" unfolding origin_at_def cube_numbers cube_zeros by (rule refl)
  moreover have "cellsFor one (f64_sub 0 0) = Inr 1" unfolding cellsFor_def cube_numbers cube_zeros cube_ceil by simp
  moreover have "\<not> f64_less kGridCellGuard (f64_mul (f64_mul (f64_of_int 1) (f64_of_int 1)) (f64_of_int 1))"
    unfolding kGridCellGuard_def cube_numbers cube_sums by (rule cube_compares(4))
  ultimately show ?thesis by (simp add: empty_grid_def cube_grid_def)
qed

lemma cube_runs: "column_runs cube_probe one s cx cy = Inr [(0, one)]"
proof -
  have "sort_doubles [0, one] = Inr [0, one]" using one_finite cube_compares(1-3) by (simp add: sort_doubles_def)
  moreover have "weld_crossings 0x3EB0C6F7A0B5ED8D [0, one] = [0, one]"
    using cube_plus_zero(3) cube_compares(5) by (simp add: weld_crossings_def weld_step_def)
  moreover have "pr_crossings cube_probe s cx cy = [0, one]" by (simp add: cube_probe_def)
  ultimately show ?thesis using cube_sums(3,4) by (simp add: column_runs_def)
qed

lemma cube_sample: "inside_run (sample_at one 0xBFE0000000000000 0) (0, one)"
proof -
  have "sample_at one 0xBFE0000000000000 0 = 0x3F1A36E2EB1C432D"
    unfolding sample_at_def grid_offset_def cube_numbers cube_plus_zero cube_sums by (rule refl)
  then show ?thesis using cube_compares(6,7) by (simp add: inside_run_def)
qed

lemma cube_voxels: "Voxelize cube_probe [sample_body] one False = Inr (cube_grid True)"
proof -
  have "fill_run 0 0 (cube_grid False) (0, one) = Inr (cube_grid True)"
    using cube_sample by (simp add: fill_run_def cube_grid_def occupy_def cell_index_def kSimulationElementCap_def)
  then have body: "fill_body cube_probe 0 0 (cube_grid False) sample_body = Inr (cube_grid True)"
    by (simp add: fill_body_def cube_runs) (simp add: cube_grid_def cube_runs)
  have "columns_of (cube_grid False) = [(0, 0)]" by (simp add: columns_of_def cube_grid_def)
  moreover have "pr_bounds cube_probe [shape sample_body] = Some ((0, 0, 0), (0, 0, 0))" by (simp add: cube_probe_def)
  ultimately show ?thesis
    using cube_empty body by (simp add: Voxelize_def fill_column_def CheckCancellation_def)
qed

text \<open>The model of the voxel: eight nodes, all on the skin.\<close>

abbreviation cube :: VoxelGrid where
  "cube \<equiv> cube_grid True"

lemma cube_size [simp]: "vg_nx (cube_grid b) = 1" "vg_ny (cube_grid b) = 1" "vg_nz (cube_grid b) = 1"
  "vg_occupied (cube_grid b) = [b]" "vg_h (cube_grid b) = one"
  by (simp_all add: cube_grid_def)

lemma cube_element_cells: "element_cells cube = [(0, 0, 0)]"
  by (simp add: element_cells_def occupied_cell_def Occupied_def in_grid_def cell_index_def)

lemma cube_corner_keys: "corner_keys cube (0, 0, 0) = [0, 1, 3, 2, 4, 5, 7, 6]"
  by (simp add: corner_keys_def kCornerOffset_def nodeKey_def cell_add_def)

lemma cube_node_keys: "node_keys cube = [0, 1, 2, 3, 4, 5, 6, 7]"
  by (simp add: node_keys_def cube_element_cells cube_corner_keys sort_unique_def)

lemma cube_cell_nodes: "cell_nodes cube (0, 0, 0) = [0, 1, 3, 2, 4, 5, 7, 6]"
proof -
  have "[0..<8 :: nat] = [0, 1, 2, 3, 4, 5, 6, 7]" by (simp add: upt_conv_Cons)
  then show ?thesis by (simp add: cell_nodes_def cube_corner_keys node_of_def new_model_def cube_node_keys)
qed

lemma cube_open_faces: "open_faces cube (0, 0, 0) = [0, 1, 2, 3, 4, 5]"
proof -
  have "[0..<6 :: nat] = [0, 1, 2, 3, 4, 5]" by (simp add: upt_conv_Cons)
  then show ?thesis
    by (simp add: open_faces_def occupied_cell_def Occupied_def in_grid_def cell_add_def kFaceNeighbor_def)
qed

lemma cube_model:
  obtains model where "BuildModel cube False = Inr model" "fem_nodeKeys model = [0, 1, 2, 3, 4, 5, 6, 7]"
    "fem_nodeOnSkin model = replicate 8 True"
proof -
  obtain model where m: "BuildModel cube False = Inr model" using BuildModel_returns by blast
  note form = BuildModel_closed_form [OF m]
  have "fem_nodeOnSkin model ! n" if "n < 8" for n
  proof -
    have "n \<in> {0, 1, 2, 3, 4, 5, 6, 7}" using that by auto
    then have "\<exists>face \<in> set (open_faces cube (0, 0, 0)). n \<in> (\<lambda>corner. cell_nodes cube (0, 0, 0) ! corner) ` set (kFaceCorners ! face)"
      unfolding cube_open_faces cube_cell_nodes by (auto simp: kFaceCorners_def)
    then show ?thesis using form(5) [of n] that by (simp add: cube_node_keys cube_element_cells)
  qed
  then have "fem_nodeOnSkin model = replicate 8 True" using form(4) by (simp add: list_eq_iff_nth_eq cube_node_keys)
  then show thesis using that m form(1) cube_node_keys by simp
qed


text \<open>The constraint matches every node, and both kinds of study return.\<close>

lemma cube_touches:
  "entity_touches sample_kernel cube_probe one position (sample_entity 10 ''t1'' ''n1'')"
proof -
  have "f64_le 0 (f64_mul (f64_decimal 9 1) one)" by (simp add: one_def f64_arith_eval Let_def)
  then show ?thesis by (simp add: entity_touches_def cube_probe_def sample_geom_def)
qed

lemma cube_matched:
  assumes "fem_nodeKeys model = [0, 1, 2, 3, 4, 5, 6, 7]" "fem_nodeOnSkin model = replicate 8 True"
  shows "constraint_nodes sample_kernel cube_probe [sample_body] sample_registry model cube cube_constraint = Inr [0..<8]"
proof -
  have "rfold (match_node sample_kernel cube_probe model cube sample_entities False) [] [0..<m] = Inr [0..<m]" if "m \<le> 8" for m
    using that
  proof (induction m)
    case (Suc m)
    moreover have "\<exists>entity \<in> set sample_entities. entity_touches sample_kernel cube_probe one position entity" for position
      using cube_touches by (simp add: sample_entities_def)
    ultimately show ?case using assms by (simp add: rfold_snoc match_node_def CheckCancellation_def)
  qed simp
  note loop = this [of 8, OF order_refl]
  have len: "length (fem_nodeKeys model) = 8" using assms(1) by simp
  have "rfold (match_node sample_kernel cube_probe model cube sample_entities False) [] [0..<length (fem_nodeKeys model)] = Inr [0..<8]"
    unfolding len by (rule loop)
  moreover have "sample_entities \<noteq> []" by (simp add: sample_entities_def)
  ultimately show ?thesis
    using sample_query by (simp add: constraint_nodes_def MatchBoundaryNodes_def cube_constraint_def del: upt_Suc upt_rec_numeral)
qed

lemma cube_clamped:
  assumes "fem_nodeKeys model = [0, 1, 2, 3, 4, 5, 6, 7]" "fem_nodeOnSkin model = replicate 8 True"
    and "n = 8 * (if isStatic then 3 else 1)"
  obtains clamped where
    "clamp_study sample_kernel cube_probe [sample_body] sample_registry model cube False isStatic (cube_study kind) n = Inr clamped"
    "fst clamped = replicate n True" "dirichlet_size n clamped"
proof -
  let ?start = "(replicate n False, replicate n 0)"
  let ?clamped = "foldl (clamp_node isStatic one) ?start [0..<8]"
  have start: "dirichlet_size n ?start" by (simp add: dirichlet_size_def)
  have "fst ?clamped ! j" if "j < n" for j
    using heat_clamp_nodes(1) [OF start that] static_clamp_nodes(2) [OF start that] that assms(3)
    by (cases isStatic) auto
  then have all: "fst ?clamped = replicate n True"
    using clamp_nodes_size [OF start] by (simp add: list_eq_iff_nth_eq dirichlet_size_def)
  have "apply_constraint sample_kernel cube_probe [sample_body] sample_registry model cube False isStatic ?start cube_constraint =
      Inr ?clamped"
    using cube_matched [OF assms(1,2)] by (simp add: apply_constraint_def constraint_nodes_def CheckCancellation_def)
      (simp add: cube_constraint_def)
  then have "clamp_study sample_kernel cube_probe [sample_body] sample_registry model cube False isStatic (cube_study kind) n = Inr ?clamped"
    using all assms(3) by (simp add: clamp_study_def cube_study_def del: foldl.simps upt_Suc upt_rec_numeral)
  then show thesis using that all clamp_nodes_size [OF start] by blast
qed

lemma cube_checked:
  "check_study (cube_study ''steady-heat'') [sample_body] = Inr False"
  "check_study (cube_study ''static-stress'') [sample_body] = Inr True"
proof -
  have "f64_less 0 one" "f64_less (f64_neg f64_one) 0" "f64_less 0 (f64_decimal 5 1)"
    by (simp_all add: one_def f64_one_def f64_arith_eval Let_def)
  then show "check_study (cube_study ''steady-heat'') [sample_body] = Inr False"
    "check_study (cube_study ''static-stress'') [sample_body] = Inr True"
    using one_finite by (simp_all add: check_study_def cube_study_def Let_def)
qed

lemma cube_simulated:
  assumes "kind \<in> {''steady-heat'', ''static-stress''}"
  shows "\<exists>result. SimulateStudy sample_kernel cube_probe [sample_body] sample_registry (cube_study kind) False = Inr result"
proof -
  obtain isStatic where checked: "check_study (cube_study kind) [sample_body] = Inr isStatic"
    using assms cube_checked by auto
  obtain model where m: "BuildModel cube False = Inr model" "fem_nodeKeys model = [0, 1, 2, 3, 4, 5, 6, 7]"
    "fem_nodeOnSkin model = replicate 8 True" using cube_model by metis
  obtain n where n: "n = 8 * (if isStatic then 3 else 1 :: nat)" "n = length (fem_nodeKeys model) * (if isStatic then 3 else 1)"
    using m(2) by simp
  obtain clamped where c: "clamp_study sample_kernel cube_probe [sample_body] sample_registry model cube False isStatic
      (cube_study kind) n = Inr clamped" "fst clamped = replicate n True" "dirichlet_size n clamped"
    using cube_clamped [OF m(2,3) n(1)] by metis
  note solved = solve_all_clamped [OF n(2) c(3,2) length_replicate]
  have "study_resolutionMm (cube_study kind) = one" "study_loads (cube_study kind) = []" "vg_occupiedCount cube = 1"
    by (simp_all add: cube_study_def cube_grid_def)
  then show ?thesis
    using checked m(1) c(1) solved cube_voxels by (simp add: SimulateStudy_def flip: n(2))
qed

section \<open>Witnesses\<close>

theorem voxels_are_the_union_of_bodies_witness:
  "Voxelize cube_probe [sample_body] one False = Inr cube \<and> inside_bodies cube_probe cube [sample_body] 0 0 0"
proof -
  have "Occupied cube 0 0 0" by (simp add: Occupied_def in_grid_def cell_index_def)
  then show ?thesis using voxels_are_the_union_of_bodies [OF cube_voxels, of 0 0 0] cube_voxels by simp
qed

theorem simulated_surface_is_closed_witness:
  "\<exists>result. SimulateStudy sample_kernel cube_probe [sample_body] sample_registry (cube_study ''static-stress'') False = Inr result \<and>
     closed_surface (sm_triangles (sim_mesh result))"
  using cube_simulated [of "''static-stress''"] simulated_surface_is_closed by blast

theorem study_result_bounds_witness:
  "\<exists>result. SimulateStudy sample_kernel cube_probe [sample_body] sample_registry (cube_study ''static-stress'') False = Inr result \<and>
     0 < sim_elementCount result"
  using cube_simulated [of "''static-stress''"] study_result_bounds by blast

theorem temperatures_hold_where_clamped_witness:
  "\<exists>result model. SimulateStudy sample_kernel cube_probe [sample_body] sample_registry (cube_study ''steady-heat'') False = Inr result \<and>
     BuildModel cube False = Inr model \<and>
     f64_eq (sm_scalars (sim_mesh result) ! (number_skin 0 (fem_nodeOnSkin model) ! 5)) one"
proof -
  obtain result where r: "SimulateStudy sample_kernel cube_probe [sample_body] sample_registry (cube_study ''steady-heat'') False = Inr result"
    using cube_simulated [of "''steady-heat''"] by blast
  obtain model where m: "BuildModel cube False = Inr model" "fem_nodeKeys model = [0, 1, 2, 3, 4, 5, 6, 7]"
    "fem_nodeOnSkin model = replicate 8 True" using cube_model by metis
  have "f64_eq (sm_scalars (sim_mesh result) ! (number_skin 0 (fem_nodeOnSkin model) ! 5)) (con_valueC cube_constraint)"
    by (rule temperatures_hold_where_clamped [OF r _ _ m(1) _ cube_matched [OF m(2,3)], of "[]" "[]" 5])
       (use cube_voxels one_finite in \<open>simp_all add: cube_study_def cube_constraint_def\<close>)
  then show ?thesis using r m(1) by (auto simp: cube_constraint_def)
qed

theorem fixed_nodes_do_not_move_witness:
  "\<exists>model clamped outcome solution. BuildModel cube False = Inr model \<and>
     solve_study model True (cube_study ''static-stress'') one clamped (replicate 24 0) False = Inr (outcome, solution) \<and>
     solution ! (5 * 3 + 2) = 0"
proof -
  obtain model where m: "BuildModel cube False = Inr model" "fem_nodeKeys model = [0, 1, 2, 3, 4, 5, 6, 7]"
    "fem_nodeOnSkin model = replicate 8 True" using cube_model by metis
  obtain clamped where c: "clamp_study sample_kernel cube_probe [sample_body] sample_registry model cube False True
      (cube_study ''static-stress'') 24 = Inr clamped" "fst clamped = replicate 24 True" "dirichlet_size 24 clamped"
    by (rule cube_clamped [OF m(2,3), of 24 True "''static-stress''"]) simp_all
  obtain outcome solution where s:
    "solve_study model True (cube_study ''static-stress'') one clamped (replicate 24 0) False = Inr (outcome, solution)"
    using solve_all_clamped [of 24 model True clamped "replicate 24 0" "cube_study ''static-stress''" one] c(2,3) m(2) by simp
  have "solution ! (5 * 3 + 2) = 0"
    by (rule fixed_nodes_do_not_move [OF _ _ s _ cube_matched [OF m(2,3)]])
       (use c(1) m(2) in \<open>simp_all add: cube_study_def\<close>)
  then show ?thesis using m(1) s by blast
qed

end
