(* ===== verification/Server_Study.thy ===== *)
theory Server_Study
  imports Simulation Replay Server_Requests
begin

text \<open>
  The two jobs of \<open>server.cpp\<close> that evaluate a document with a naming registry and ask it questions:
  \<open>Query\<close>, which evaluates the operations up to \<open>atOperationId\<close>, and \<open>Simulate\<close>, which parses a study.
  The evaluators of the operations are the parameters of the replay engine, the kernel and the probe
  those of the selector evaluator and the simulation; the cancellation flag is one value per
  operation of the evaluation and one for what follows it.
\<close>

section \<open>Query\<close>

text \<open>The loop that collects the prefix; it reads the id of every operation up to the one it finds.\<close>

fun query_prefix :: "string \<Rightarrow> json list \<Rightarrow> json list \<Rightarrow> (json list \<times> bool) result" where
  "query_prefix atOperationId prefix [] = Inr (prefix, False)"
| "query_prefix atOperationId prefix (operation # operations) =
     rbind (jat operation ''id'') (\<lambda>i. rbind (get_string i) (\<lambda>opId.
       if opId = atOperationId then Inr (prefix @ [operation], True)
       else query_prefix atOperationId (prefix @ [operation]) operations))"

definition diagnostic_json :: "QueryDiagnostic \<Rightarrow> json" where
  "diagnostic_json diagnostic =
     make_object ([(''code'', JString (diag_code diagnostic)), (''message'', JString (diag_message diagnostic))] @
       (if diag_token diagnostic = [] then [] else [(''token'', JString (diag_token diagnostic))]))"

definition evaluated_with_registry ::
  "('sh, 'prof, 'path) evaluators \<Rightarrow> json \<Rightarrow> (nat \<Rightarrow> bool) \<Rightarrow> ('sh EvaluatedBody list \<times> 'sh NamingRegistry) result" where
  "evaluated_with_registry ev operations cancelled =
     rbind (EvaluateOperations ev operations cancelled None (Some registry_new)) (\<lambda>(bodies, channel).
       Inr (bodies, case channel_registry channel of Some r \<Rightarrow> r | None \<Rightarrow> registry_new))"

definition Query ::
  "'sh kernel \<Rightarrow> ('sh, 'prof, 'path) evaluators \<Rightarrow> (nat \<Rightarrow> bool) \<Rightarrow> bool \<Rightarrow> json \<Rightarrow> json result" where
  "Query K ev cancelled cancelledAfter request =
     rbind (rbind (jat request ''atOperationId'') get_string) (\<lambda>atOperationId.
     rbind (jat request ''operations'') (\<lambda>operations.
     rbind (query_prefix atOperationId [] (elements operations)) (\<lambda>(prefix, found).
       if \<not> found
       then Inl (Reference_missing atOperationId
              (''query atOperationId names no operation in the document: '' @ atOperationId))
       else rbind (evaluated_with_registry ev (JArray prefix) cancelled) (\<lambda>(bodies, registry).
            rbind (jat request ''ast'') (\<lambda>ast.
            rbind (EvaluateQuery K ast bodies registry cancelledAfter) (\<lambda>outcome.
            rbind (rmap (ResolvedEntityToJson K) (out_entities outcome)) (\<lambda>entities.
              Inr (make_object
                [(''type'', JString ''query''), (''entities'', JArray entities),
                 (''diagnostics'', JArray (map diagnostic_json (out_diagnostics outcome))),
                 (''stageCardinalities'', JArray (map JUInt (out_stageCardinalities outcome)))]))))))))"

section \<open>Simulate\<close>

definition double_at :: "json \<Rightarrow> string \<Rightarrow> f64 result" where
  "double_at j key = rbind (jat j key) get_double"

definition string_at :: "json \<Rightarrow> string \<Rightarrow> string result" where
  "string_at j key = rbind (jat j key) get_string"

definition optional_double_at :: "json \<Rightarrow> string \<Rightarrow> f64 result" where
  "optional_double_at j key = (if jcontains j key then double_at j key else Inr 0)"

definition parse_material :: "json \<Rightarrow> SimulationMaterial result" where
  "parse_material material =
     rbind (double_at material ''youngsModulusGPa'') (\<lambda>e.
     rbind (double_at material ''poissonsRatio'') (\<lambda>nu.
     rbind (double_at material ''yieldStrengthMPa'') (\<lambda>strength.
     rbind (double_at material ''thermalConductivityWPerMK'') (\<lambda>k.
       Inr \<lparr>youngsModulusGPa = e, poissonsRatio = nu, yieldStrengthMPa = strength, thermalConductivityWPerMK = k\<rparr>))))"

definition parse_constraint :: "json \<Rightarrow> SimulationConstraint result" where
  "parse_constraint constraint =
     rbind (string_at constraint ''id'') (\<lambda>i. rbind (jat constraint ''ast'') (\<lambda>ast.
     rbind (string_at constraint ''kind'') (\<lambda>kind. rbind (optional_double_at constraint ''valueC'') (\<lambda>v.
       Inr \<lparr>con_id = i, con_ast = ast, con_kind = kind, con_valueC = v\<rparr>))))"

definition parse_vectorN :: "json \<Rightarrow> vec3 result" where
  "parse_vectorN load =
     (if jcontains load ''vectorN''
      then rbind (jat load ''vectorN'') (\<lambda>vector.
           rbind (get_at vector 0) (\<lambda>x. rbind (get_at vector 1) (\<lambda>y. rbind (get_at vector 2) (\<lambda>z. Inr (x, y, z)))))
      else Inr (0, 0, 0))"

definition parse_load :: "json \<Rightarrow> SimulationLoad result" where
  "parse_load load =
     rbind (string_at load ''id'') (\<lambda>i. rbind (jat load ''ast'') (\<lambda>ast.
     rbind (string_at load ''kind'') (\<lambda>kind. rbind (parse_vectorN load) (\<lambda>vector.
     rbind (optional_double_at load ''wattsPerM2'') (\<lambda>watts.
       Inr \<lparr>load_id = i, load_ast = ast, load_kind = kind, load_vectorN = vector, load_wattsPerM2 = watts\<rparr>)))))"

definition parse_study :: "json \<Rightarrow> SimulationStudy result" where
  "parse_study studyJson =
     rbind (string_at studyJson ''kind'') (\<lambda>kind.
     rbind (double_at studyJson ''resolutionMm'') (\<lambda>resolution.
     rbind (jat studyJson ''material'') (\<lambda>materialJson. rbind (parse_material materialJson) (\<lambda>material.
     rbind (jat studyJson ''constraints'') (\<lambda>constraintsJson. rbind (rmap parse_constraint (elements constraintsJson)) (\<lambda>constraints.
     rbind (jat studyJson ''loads'') (\<lambda>loadsJson. rbind (rmap parse_load (elements loadsJson)) (\<lambda>loads.
       Inr \<lparr>study_kind = kind, study_resolutionMm = resolution, study_material = material,
            study_constraints = constraints, study_loads = loads\<rparr>))))))))"

definition simulation_json :: "SimulationResult \<Rightarrow> json" where
  "simulation_json simulated =
     make_object
      ([(''type'', JString ''simulation_result''), (''kind'', JString (sim_kind simulated)),
        (''mesh'', make_object
          [(''positions'', JArray (map JFloat (sm_positions (sim_mesh simulated)))),
           (''triangles'', JArray (map JUInt (sm_triangles (sim_mesh simulated)))),
           (''scalars'', JArray (map JFloat (sm_scalars (sim_mesh simulated))))]),
        (''scalar'', make_object
          [(''name'', JString (sim_scalarName simulated)), (''min'', JFloat (sim_scalarMin simulated)),
           (''max'', JFloat (sim_scalarMax simulated))]),
        (''summary'', make_object
          [(''elementCount'', JUInt (sim_elementCount simulated)), (''nodeCount'', JUInt (sim_nodeCount simulated)),
           (''iterations'', JUInt (sim_iterations simulated))])] @
       (if sim_kind simulated = ''static-stress'' then [(''displacementMaxMm'', JFloat (sim_displacementMaxMm simulated))] else []))"

definition Simulate ::
  "'sh kernel \<Rightarrow> 'sh probe \<Rightarrow> ('sh, 'prof, 'path) evaluators \<Rightarrow> (nat \<Rightarrow> bool) \<Rightarrow> bool \<Rightarrow> json \<Rightarrow> json result" where
  "Simulate K P ev cancelled cancelledAfter request =
     rbind (jat request ''study'') (\<lambda>studyJson. rbind (parse_study studyJson) (\<lambda>study.
     rbind (jat request ''operations'') (\<lambda>operations.
     rbind (evaluated_with_registry ev operations cancelled) (\<lambda>(bodies, registry).
     rbind (SimulateStudy K P bodies registry study cancelledAfter) (\<lambda>simulated.
       Inr (simulation_json simulated))))))"

section \<open>What a query sees\<close>

lemma query_prefix_found:
  assumes "\<forall>o' \<in> set earlier. \<exists>i. jat o' ''id'' = Inr (JString i) \<and> i \<noteq> at" and "jat op ''id'' = Inr (JString at)"
  shows "query_prefix at prefix (earlier @ op # later) = Inr (prefix @ earlier @ [op], True)"
  using assms by (induction earlier arbitrary: prefix) auto

lemma query_prefix_missing:
  assumes "\<forall>o' \<in> set operations. \<exists>i. jat o' ''id'' = Inr (JString i) \<and> i \<noteq> at"
  shows "query_prefix at prefix operations = Inr (prefix @ operations, False)"
  using assms by (induction operations arbitrary: prefix) auto

text \<open>C20. A query sees the document as it was at its operation: the answer, or the error, is that of
  the document cut off after the first operation with that id, whatever comes later, and an id that
  no operation has is a missing reference before anything is evaluated.\<close>

theorem query_sees_only_its_prefix:
  assumes "\<forall>o' \<in> set earlier. \<exists>i. jat o' ''id'' = Inr (JString i) \<and> i \<noteq> at"
    and "jat op ''id'' = Inr (JString at)"
    and "map_of kvs ''atOperationId'' = Some (JString at)"
  defines "request \<equiv> \<lambda>operations. JObject ((''operations'', JArray operations) # kvs)"
  shows "Query K ev cancelled cancelledAfter (request (earlier @ op # later)) =
           Query K ev cancelled cancelledAfter (request (earlier @ [op])) \<and>
         Query K ev cancelled cancelledAfter (request earlier) =
           Inl (Reference_missing at (''query atOperationId names no operation in the document: '' @ at))"
proof -
  note found = query_prefix_found [OF assms(1,2)] and missing = query_prefix_missing [OF assms(1)]
  show ?thesis
    using found [of "[]" later] found [of "[]" "[]"] missing [of "[]"] assms(3)
    by (simp add: Query_def request_def jat_def elements_def)
qed

definition operation_json :: "string \<Rightarrow> json" where
  "operation_json i = JObject [(''id'', JString i)]"

theorem query_sees_only_its_prefix_witness:
  "\<forall>(K :: nat kernel) (ev :: (nat, nat, nat) evaluators) cancelled cancelledAfter.
   Query K ev cancelled cancelledAfter
      (JObject [(''operations'', JArray [operation_json ''a'', operation_json ''b'', JNull]), (''atOperationId'', JString ''b'')]) =
   Query K ev cancelled cancelledAfter
      (JObject [(''operations'', JArray [operation_json ''a'', operation_json ''b'']), (''atOperationId'', JString ''b'')])"
proof (intro allI)
  fix K :: "nat kernel" and ev :: "(nat, nat, nat) evaluators" and cancelled cancelledAfter
  show "Query K ev cancelled cancelledAfter
      (JObject [(''operations'', JArray [operation_json ''a'', operation_json ''b'', JNull]), (''atOperationId'', JString ''b'')]) =
    Query K ev cancelled cancelledAfter
      (JObject [(''operations'', JArray [operation_json ''a'', operation_json ''b'']), (''atOperationId'', JString ''b'')])"
    using query_sees_only_its_prefix [of "[operation_json ''a'']" "''b''" "operation_json ''b''"
        "[(''atOperationId'', JString ''b'')]" K ev cancelled cancelledAfter "[JNull]"]
    by (simp add: operation_json_def jat_def)
qed

end
