(* ===== verification/Sketch_Region.thy ===== *)
theory Sketch_Region
  imports Voxel_Grid Ref_Resolution
begin

text \<open>
  Sketch boundaries of \<open>geometry.cpp\<close>, first part: the boundary segments, their endpoints, reversal
  and sampling, the polygon tests, and the lowering of the sketch's entities and projected edges to
  segments (the first half of \<open>SketchClosedRegions\<close>). The functions of the C library that IEEE 754
  does not fix are the record \<open>sketch_math\<close>; interpolation, the sketch frame and what OCCT knows of a
  projected edge are the record \<open>sketch_occt\<close>.
\<close>

section \<open>Parameters and constants\<close>

record sketch_math =
  sk_sin :: "f64 \<Rightarrow> f64"
  sk_cos :: "f64 \<Rightarrow> f64"
  sk_atan2 :: "f64 \<Rightarrow> f64 \<Rightarrow> f64"
  sk_hypot :: "f64 \<Rightarrow> f64 \<Rightarrow> f64"
  sk_fmod :: "f64 \<Rightarrow> f64 \<Rightarrow> f64"

record SketchRegionPoint =
  pt_u :: f64
  pt_v :: f64

abbreviation pt :: "f64 \<Rightarrow> f64 \<Rightarrow> SketchRegionPoint" where
  "pt u v \<equiv> \<lparr>pt_u = u, pt_v = v\<rparr>"

text \<open>An interpolated curve: its knots, its parameter range and its points; \<open>None\<close> when OCCT fails.\<close>

record ('sh, 'fr) sketch_occt =
  so_interpolate :: "SketchRegionPoint list \<Rightarrow> bool \<Rightarrow> (nat \<times> f64 \<times> f64 \<times> (f64 \<Rightarrow> SketchRegionPoint)) option"
  so_plane_point :: "'fr \<Rightarrow> vec3 \<Rightarrow> SketchRegionPoint"
  so_edge_closed :: "'sh \<Rightarrow> bool"
  so_axis_along :: "'fr \<Rightarrow> 'sh \<Rightarrow> f64"
  so_major :: "'fr \<Rightarrow> 'sh \<Rightarrow> f64 \<times> f64"
  so_radii :: "'sh \<Rightarrow> f64 \<times> f64"

definition kSketchPi :: f64 where
  "kSketchPi = f64_decimal 3141592653589793238462643383279502884 36"

definition kSketchDegreesToRadians :: f64 where
  "kSketchDegreesToRadians = f64_decimal 17453292519943295 18"

definition kSketchMinSize :: f64 where
  "kSketchMinSize = f64_decimal 1 6"

definition SketchGap :: "sketch_math \<Rightarrow> SketchRegionPoint \<Rightarrow> SketchRegionPoint \<Rightarrow> f64" where
  "SketchGap M a b = sk_hypot M (f64_sub (pt_u b) (pt_u a)) (f64_sub (pt_v b) (pt_v a))"

definition near :: "sketch_math \<Rightarrow> SketchRegionPoint \<Rightarrow> SketchRegionPoint \<Rightarrow> bool" where
  "near M a b = f64_less (SketchGap M a b) kSketchMinSize"

section \<open>Segments\<close>

datatype SegmentKind = Line_segment | Arc_segment | Circle_segment | Ellipse_segment | Spline_segment

record SketchRegionSegment =
  seg_kind :: SegmentKind
  seg_eid :: string
  seg_start :: SketchRegionPoint
  seg_end :: SketchRegionPoint
  seg_center :: SketchRegionPoint
  seg_radius :: f64
  seg_radiusX :: f64
  seg_radiusY :: f64
  seg_rotation :: f64
  seg_startAngle :: f64
  seg_endAngle :: f64
  seg_ccw :: bool
  seg_points :: "SketchRegionPoint list"
  seg_closed :: bool
  seg_construction :: bool

definition new_segment :: "SegmentKind \<Rightarrow> string \<Rightarrow> SketchRegionSegment" where
  "new_segment kind eid =
     \<lparr>seg_kind = kind, seg_eid = eid, seg_start = pt 0 0, seg_end = pt 0 0, seg_center = pt 0 0, seg_radius = 0,
      seg_radiusX = 0, seg_radiusY = 0, seg_rotation = 0, seg_startAngle = 0, seg_endAngle = 0, seg_ccw = True,
      seg_points = [], seg_closed = False, seg_construction = False\<rparr>"

record SketchRegionLoop =
  loop_segments :: "SketchRegionSegment list"
  loop_samples :: "SketchRegionPoint list"
  loop_signedArea :: f64
  loop_depth :: nat
  loop_hole :: bool

definition ArcEndpoint :: "sketch_math \<Rightarrow> SketchRegionPoint \<Rightarrow> f64 \<Rightarrow> f64 \<Rightarrow> SketchRegionPoint" where
  "ArcEndpoint M center radius angle =
     (let radians = f64_mul angle kSketchDegreesToRadians
      in pt (f64_add (pt_u center) (f64_mul radius (sk_cos M radians)))
            (f64_add (pt_v center) (f64_mul radius (sk_sin M radians))))"

definition SegmentStart :: "sketch_math \<Rightarrow> SketchRegionSegment \<Rightarrow> SketchRegionPoint" where
  "SegmentStart M s =
     (if seg_kind s = Circle_segment then pt (f64_add (pt_u (seg_center s)) (seg_radius s)) (pt_v (seg_center s))
      else if seg_kind s = Ellipse_segment
      then let radians = f64_mul (seg_rotation s) kSketchDegreesToRadians
           in pt (f64_add (pt_u (seg_center s)) (f64_mul (seg_radiusX s) (sk_cos M radians)))
                 (f64_add (pt_v (seg_center s)) (f64_mul (seg_radiusX s) (sk_sin M radians)))
      else if seg_kind s = Spline_segment \<and> seg_points s \<noteq> [] then hd (seg_points s)
      else seg_start s)"

definition SegmentEnd :: "sketch_math \<Rightarrow> SketchRegionSegment \<Rightarrow> SketchRegionPoint" where
  "SegmentEnd M s =
     (if seg_kind s = Circle_segment \<or> seg_kind s = Ellipse_segment then SegmentStart M s
      else if seg_kind s = Spline_segment \<and> seg_points s \<noteq> []
      then if seg_closed s then hd (seg_points s) else last (seg_points s)
      else seg_end s)"

definition ReverseSegment :: "SketchRegionSegment \<Rightarrow> SketchRegionSegment" where
  "ReverseSegment s =
     (if seg_kind s = Line_segment \<or> seg_kind s = Arc_segment
      then s\<lparr>seg_start := seg_end s, seg_end := seg_start s, seg_startAngle := seg_endAngle s,
             seg_endAngle := seg_startAngle s, seg_ccw := \<not> seg_ccw s\<rparr>
      else if seg_kind s = Spline_segment then s\<lparr>seg_points := rev (seg_points s)\<rparr>
      else s)"

section \<open>Sampling\<close>

definition two :: f64 where
  "two = f64_of_nat 2"

text \<open>\<open>a + span * index / count\<close>, evaluated from the left.\<close>

definition fraction :: "f64 \<Rightarrow> nat \<Rightarrow> nat \<Rightarrow> f64" where
  "fraction span index n = f64_div (f64_mul span (f64_of_nat index)) (f64_of_nat n)"

definition sample_spline :: "('sh, 'fr) sketch_occt \<Rightarrow> SketchRegionSegment \<Rightarrow> SketchRegionPoint list result" where
  "sample_spline S s =
     (if length (seg_points s) < 3 then Inl (Runtime_error ''sketch spline region has fewer than three points'')
      else case so_interpolate S (seg_points s) (seg_closed s) of
             None \<Rightarrow> Inl (Runtime_error ''sketch spline sampling interpolation failed'')
           | Some (knots, first, final, curve) \<Rightarrow>
               let samples = max 32 (knots * 24)
               in Inr (map (\<lambda>index. curve (f64_add first (fraction (f64_sub final first) index samples))) [0..<samples + 1]))"

definition ellipse_sample :: "sketch_math \<Rightarrow> SketchRegionSegment \<Rightarrow> f64 \<Rightarrow> SketchRegionPoint" where
  "ellipse_sample M s angle =
     (if seg_kind s = Circle_segment
      then pt (f64_add (pt_u (seg_center s)) (f64_mul (seg_radius s) (sk_cos M angle)))
              (f64_add (pt_v (seg_center s)) (f64_mul (seg_radius s) (sk_sin M angle)))
      else let radians = f64_mul (seg_rotation s) kSketchDegreesToRadians; c = sk_cos M radians; n = sk_sin M radians;
               u = f64_mul (seg_radiusX s) (sk_cos M angle); v = f64_mul (seg_radiusY s) (sk_sin M angle)
           in pt (f64_sub (f64_add (pt_u (seg_center s)) (f64_mul u c)) (f64_mul v n))
                 (f64_add (f64_add (pt_v (seg_center s)) (f64_mul u n)) (f64_mul v c)))"

definition normalize_angle :: "sketch_math \<Rightarrow> f64 \<Rightarrow> f64" where
  "normalize_angle M value =
     (let full = f64_mul two kSketchPi; normalized = sk_fmod M value full
      in if f64_less normalized 0 then f64_add normalized full else normalized)"

definition arc_sweep :: "sketch_math \<Rightarrow> SketchRegionSegment \<Rightarrow> f64" where
  "arc_sweep M s =
     (let start = f64_mul (seg_startAngle s) kSketchDegreesToRadians; stop = f64_mul (seg_endAngle s) kSketchDegreesToRadians
      in if seg_ccw s then normalize_angle M (f64_sub stop start) else f64_neg (normalize_angle M (f64_sub start stop)))"

text \<open>\<open>static_cast<int>(std::ceil(...))\<close>; a value that does not fit is undefined behaviour.\<close>

definition ceil_int :: "f64 \<Rightarrow> int result" where
  "ceil_int d =
     (if f64_finite d \<and> - (2 ^ 31) \<le> f64_ceil d \<and> f64_ceil d < 2 ^ 31 then Inr (f64_ceil d) else Inl Undefined_behaviour)"

definition sample_arc :: "sketch_math \<Rightarrow> SketchRegionSegment \<Rightarrow> SketchRegionPoint list result" where
  "sample_arc M s =
     (let start = f64_mul (seg_startAngle s) kSketchDegreesToRadians; sweep = arc_sweep M s
      in rbind (ceil_int (f64_div (f64_abs sweep) (f64_div kSketchPi (f64_of_nat 24)))) (\<lambda>steps.
           let n = nat (max 8 steps)
           in Inr (map (\<lambda>index.
                let angle = f64_add start (fraction sweep index n)
                in pt (f64_add (pt_u (seg_center s)) (f64_mul (seg_radius s) (sk_cos M angle)))
                      (f64_add (pt_v (seg_center s)) (f64_mul (seg_radius s) (sk_sin M angle)))) [0..<n + 1])))"

definition SampleRegionSegment :: "sketch_math \<Rightarrow> ('sh, 'fr) sketch_occt \<Rightarrow> SketchRegionSegment \<Rightarrow> SketchRegionPoint list result" where
  "SampleRegionSegment M S s =
     (case seg_kind s of
        Line_segment \<Rightarrow> Inr [seg_start s, seg_end s]
      | Spline_segment \<Rightarrow> sample_spline S s
      | Arc_segment \<Rightarrow> sample_arc M s
      | _ \<Rightarrow> Inr (map (\<lambda>index. ellipse_sample M s (fraction (f64_mul two kSketchPi) index 96)) [0..<97]))"

section \<open>Polygon tests\<close>

definition RegionPolygonArea :: "SketchRegionPoint list \<Rightarrow> f64" where
  "RegionPolygonArea points =
     (if length points < 3 then 0
      else f64_div
        (foldl (\<lambda>area index.
           let a = points ! index; b = points ! ((index + 1) mod length points)
           in f64_add area (f64_sub (f64_mul (pt_u a) (pt_v b)) (f64_mul (pt_u b) (pt_v a)))) 0 [0..<length points]) two)"

definition crosses_ray :: "SketchRegionPoint \<Rightarrow> SketchRegionPoint \<Rightarrow> SketchRegionPoint \<Rightarrow> bool" where
  "crosses_ray point prior current \<longleftrightarrow>
     f64_less (pt_v point) (pt_v current) \<noteq> f64_less (pt_v point) (pt_v prior) \<and>
     f64_less (pt_u point)
       (f64_add (f64_div (f64_mul (f64_sub (pt_u prior) (pt_u current)) (f64_sub (pt_v point) (pt_v current)))
                         (f64_sub (pt_v prior) (pt_v current))) (pt_u current))"

fun toggle_crossings :: "SketchRegionPoint \<Rightarrow> SketchRegionPoint \<Rightarrow> SketchRegionPoint list \<Rightarrow> bool \<Rightarrow> bool" where
  "toggle_crossings point previous [] inside = inside"
| "toggle_crossings point previous (current # rest) inside =
     toggle_crossings point current rest (if crosses_ray point previous current then \<not> inside else inside)"

definition RegionPointInPolygon :: "SketchRegionPoint \<Rightarrow> SketchRegionPoint list \<Rightarrow> bool" where
  "RegionPointInPolygon point polygon =
     (if length polygon < 3 then False else toggle_crossings point (last polygon) polygon False)"

definition region_cross :: "SketchRegionPoint \<Rightarrow> SketchRegionPoint \<Rightarrow> SketchRegionPoint \<Rightarrow> f64" where
  "region_cross a b c =
     f64_sub (f64_mul (f64_sub (pt_u b) (pt_u a)) (f64_sub (pt_v c) (pt_v a)))
             (f64_mul (f64_sub (pt_v b) (pt_v a)) (f64_sub (pt_u c) (pt_u a)))"

definition RegionEdgesCross ::
  "sketch_math \<Rightarrow> SketchRegionPoint \<Rightarrow> SketchRegionPoint \<Rightarrow> SketchRegionPoint \<Rightarrow> SketchRegionPoint \<Rightarrow> bool" where
  "RegionEdgesCross M a1 a2 b1 b2 =
     (if near M a1 b1 \<or> near M a1 b2 \<or> near M a2 b1 \<or> near M a2 b2 then False
      else f64_less 0 (region_cross a1 a2 b1) \<noteq> f64_less 0 (region_cross a1 a2 b2) \<and>
           f64_less 0 (region_cross b1 b2 a1) \<noteq> f64_less 0 (region_cross b1 b2 a2))"

end
