(* ===== verification/Sketch_Lower.thy ===== *)
theory Sketch_Lower
  imports Sketch_Region
begin

text \<open>
  The lowering of a sketch to boundary segments (\<open>SolvedSketchValues\<close> and the first half of
  \<open>SketchClosedRegions\<close> in \<open>geometry.cpp\<close>): one function per entity kind, in the code's order of
  reads. A refusal is \<open>Inl\<close> of its text inside the result, since the code returns no loops with it
  and throws nothing.
\<close>

section \<open>Solved values\<close>

definition jsize :: "json \<Rightarrow> nat" where
  "jsize j = (case j of JNull \<Rightarrow> 0 | JArray js \<Rightarrow> length js | JObject kvs \<Rightarrow> length kvs | _ \<Rightarrow> 1)"

text \<open>\<open>operator[]\<close> with an index: only for arrays; outside of one it is undefined.\<close>

definition jindex :: "json \<Rightarrow> nat \<Rightarrow> json result" where
  "jindex j i =
     (case j of JArray js \<Rightarrow> if i < length js then Inr (js ! i) else Inl Undefined_behaviour
      | _ \<Rightarrow> Inl (Json_type_error 305))"

fun solved_entry :: "string \<Rightarrow> nat \<Rightarrow> json list \<Rightarrow> json list option result" where
  "solved_entry eid expected [] = Inr None"
| "solved_entry eid expected (entry # entries) =
     (if \<not> is_object entry then solved_entry eid expected entries
      else rbind (jvalue entry ''eid'' get_string []) (\<lambda>e.
        if e \<noteq> eid then solved_entry eid expected entries
        else Inr (case jfind entry ''values'' of
               Some (JArray values) \<Rightarrow> if length values = expected then Some values else None
             | _ \<Rightarrow> None)))"

definition SolvedSketchValues :: "json \<Rightarrow> string \<Rightarrow> nat \<Rightarrow> json list option result" where
  "SolvedSketchValues parameters eid expected =
     (case jfind parameters ''solution'' of
        Some (JObject solution) \<Rightarrow>
          (case map_of solution ''entities'' of
             Some (JArray entries) \<Rightarrow> solved_entry eid expected entries
           | _ \<Rightarrow> Inr None)
      | _ \<Rightarrow> Inr None)"

definition pointFromJson :: "json \<Rightarrow> SketchRegionPoint result" where
  "pointFromJson value = rbind (get_at value 0) (\<lambda>u. rbind (get_at value 1) (\<lambda>v. Inr (pt u v)))"

definition number_or :: "json list option \<Rightarrow> nat \<Rightarrow> f64 result \<Rightarrow> f64 result" where
  "number_or solved i authored = (case solved of Some values \<Rightarrow> get_double (values ! i) | None \<Rightarrow> authored)"

definition point_or :: "json list option \<Rightarrow> nat \<Rightarrow> SketchRegionPoint result \<Rightarrow> SketchRegionPoint result" where
  "point_or solved i authored =
     (case solved of
        Some values \<Rightarrow> rbind (get_double (values ! i)) (\<lambda>u. rbind (get_double (values ! (i + 1))) (\<lambda>v. Inr (pt u v)))
      | None \<Rightarrow> authored)"

definition point_at :: "json list option \<Rightarrow> json \<Rightarrow> nat \<Rightarrow> string \<Rightarrow> SketchRegionPoint result" where
  "point_at solved entity i key = point_or solved i (rbind (jat entity key) pointFromJson)"

definition number_at :: "json list option \<Rightarrow> json \<Rightarrow> nat \<Rightarrow> string \<Rightarrow> f64 result" where
  "number_at solved entity i key = number_or solved i (rbind (jat entity key) get_double)"

definition rotation_at :: "json list option \<Rightarrow> json \<Rightarrow> f64 result" where
  "rotation_at solved entity = number_or solved 4 (jvalue entity ''rotation'' get_double 0)"

section \<open>Entities\<close>

type_synonym lowered = "(string + SketchRegionSegment list) result"

definition line_segment :: "string \<Rightarrow> SketchRegionPoint \<Rightarrow> SketchRegionPoint \<Rightarrow> SketchRegionSegment" where
  "line_segment eid a b = (new_segment Line_segment eid)\<lparr>seg_start := a, seg_end := b\<rparr>"

definition part_name :: "string \<Rightarrow> nat \<Rightarrow> string" where
  "part_name eid index = eid @ '':'' @ decimal index"

definition lower_line :: "json \<Rightarrow> json \<Rightarrow> string \<Rightarrow> lowered" where
  "lower_line parameters entity eid =
     rbind (SolvedSketchValues parameters eid 4) (\<lambda>solved.
     rbind (point_at solved entity 0 ''p1'') (\<lambda>a. rbind (point_at solved entity 2 ''p2'') (\<lambda>b.
       Inr (Inr [line_segment eid a b]))))"

text \<open>The points of a polyline or spline: two solved values each, or the authored array.\<close>

definition points_of :: "json list option \<Rightarrow> json \<Rightarrow> SketchRegionPoint list result" where
  "points_of solved points =
     rmap (\<lambda>index. point_or solved (index * 2) (rbind (jindex points index) pointFromJson)) [0..<jsize points]"

definition polyline_lines :: "string \<Rightarrow> SketchRegionPoint list \<Rightarrow> SketchRegionSegment list" where
  "polyline_lines eid points =
     map (\<lambda>index. line_segment (part_name eid index) (points ! index) (points ! (index + 1))) [0..<length points - 1]"

definition lower_polyline :: "json \<Rightarrow> json \<Rightarrow> string \<Rightarrow> lowered" where
  "lower_polyline parameters entity eid =
     rbind (jat entity ''points'') (\<lambda>pointsJson.
     rbind (SolvedSketchValues parameters eid (jsize pointsJson * 2)) (\<lambda>solved.
     rbind (points_of solved pointsJson) (\<lambda>points.
     rbind (jvalue entity ''closed'' get_bool False) (\<lambda>closed.
       Inr (Inr (polyline_lines eid points @
         (if closed \<and> 1 < length points then [line_segment (eid @ '':close'') (last points) (hd points)] else [])))))))"

text \<open>The lines round a closed ring of points.\<close>

definition ring_lines :: "string \<Rightarrow> SketchRegionPoint list \<Rightarrow> SketchRegionSegment list" where
  "ring_lines eid points =
     map (\<lambda>index. line_segment (part_name eid index) (points ! index) (points ! ((index + 1) mod length points)))
       [0..<length points]"

definition rotate_local :: "SketchRegionPoint \<Rightarrow> f64 \<Rightarrow> f64 \<Rightarrow> f64 \<times> f64 \<Rightarrow> SketchRegionPoint" where
  "rotate_local position c s local =
     (case local of (u, v) \<Rightarrow>
        pt (f64_sub (f64_add (pt_u position) (f64_mul u c)) (f64_mul v s))
           (f64_add (f64_add (pt_v position) (f64_mul u s)) (f64_mul v c)))"

definition rectangle_points :: "sketch_math \<Rightarrow> SketchRegionPoint \<Rightarrow> f64 \<Rightarrow> f64 \<Rightarrow> f64 \<Rightarrow> bool \<Rightarrow> SketchRegionPoint list" where
  "rectangle_points M position width height rotation centered =
     (let minU = (if centered then f64_div (f64_neg width) two else 0);
          minV = (if centered then f64_div (f64_neg height) two else 0);
          radians = f64_mul rotation kSketchDegreesToRadians
      in map (rotate_local position (sk_cos M radians) (sk_sin M radians))
           [(minU, minV), (f64_add minU width, minV), (f64_add minU width, f64_add minV height), (minU, f64_add minV height)])"

definition lower_rectangle :: "sketch_math \<Rightarrow> json \<Rightarrow> json \<Rightarrow> string \<Rightarrow> lowered" where
  "lower_rectangle M parameters entity eid =
     rbind (SolvedSketchValues parameters eid 5) (\<lambda>solved.
     rbind (point_at solved entity 0 ''position'') (\<lambda>position.
     rbind (number_at solved entity 2 ''width'') (\<lambda>width. rbind (number_at solved entity 3 ''height'') (\<lambda>height.
     rbind (rotation_at solved entity) (\<lambda>rotation.
     rbind (jvalue entity ''mode'' get_string ''corner'') (\<lambda>mode.
       Inr (Inr (ring_lines eid (rectangle_points M position width height rotation (mode = ''center'')))))))))) "

definition lower_circle :: "json \<Rightarrow> json \<Rightarrow> string \<Rightarrow> lowered" where
  "lower_circle parameters entity eid =
     rbind (SolvedSketchValues parameters eid 3) (\<lambda>solved.
     rbind (point_at solved entity 0 ''center'') (\<lambda>center. rbind (number_at solved entity 2 ''radius'') (\<lambda>radius.
       Inr (Inr [(new_segment Circle_segment eid)\<lparr>seg_center := center, seg_radius := radius\<rparr>]))))"

definition arc_segment :: "string \<Rightarrow> SketchRegionPoint \<Rightarrow> f64 \<Rightarrow> f64 \<Rightarrow> f64 \<Rightarrow> bool \<Rightarrow> SketchRegionPoint \<Rightarrow> SketchRegionPoint \<Rightarrow>
   SketchRegionSegment" where
  "arc_segment eid center radius startAngle endAngle ccw a b =
     (new_segment Arc_segment eid)\<lparr>seg_center := center, seg_radius := radius, seg_startAngle := startAngle,
        seg_endAngle := endAngle, seg_ccw := ccw, seg_start := a, seg_end := b\<rparr>"

definition lower_arc_center :: "sketch_math \<Rightarrow> json \<Rightarrow> json \<Rightarrow> string \<Rightarrow> lowered" where
  "lower_arc_center M parameters entity eid =
     rbind (SolvedSketchValues parameters eid 5) (\<lambda>solved.
     rbind (point_at solved entity 0 ''center'') (\<lambda>center. rbind (number_at solved entity 2 ''radius'') (\<lambda>radius.
     rbind (number_at solved entity 3 ''startAngle'') (\<lambda>startAngle. rbind (number_at solved entity 4 ''endAngle'') (\<lambda>endAngle.
     rbind (jvalue entity ''ccw'' get_bool True) (\<lambda>ccw.
       Inr (Inr [arc_segment eid center radius startAngle endAngle ccw
                   (ArcEndpoint M center radius startAngle) (ArcEndpoint M center radius endAngle)])))))))"

text \<open>\<open>(a - b) * (c - d) - (e - f) * (g - h)\<close> and the circle through three points.\<close>

definition cross_of :: "f64 \<Rightarrow> f64 \<Rightarrow> f64 \<Rightarrow> f64 \<Rightarrow> f64 \<Rightarrow> f64 \<Rightarrow> f64 \<Rightarrow> f64 \<Rightarrow> f64" where
  "cross_of a b c d e f g h = f64_sub (f64_mul (f64_sub a b) (f64_sub c d)) (f64_mul (f64_sub e f) (f64_sub g h))"

definition norm_squared :: "SketchRegionPoint \<Rightarrow> f64" where
  "norm_squared p = f64_add (f64_mul (pt_u p) (pt_u p)) (f64_mul (pt_v p) (pt_v p))"

definition circumcenter :: "SketchRegionPoint \<Rightarrow> SketchRegionPoint \<Rightarrow> SketchRegionPoint \<Rightarrow> f64 \<Rightarrow> SketchRegionPoint" where
  "circumcenter p1 p2 p3 twice =
     pt (f64_div (f64_add (f64_add (f64_mul (norm_squared p1) (f64_sub (pt_v p2) (pt_v p3)))
                                   (f64_mul (norm_squared p2) (f64_sub (pt_v p3) (pt_v p1))))
                          (f64_mul (norm_squared p3) (f64_sub (pt_v p1) (pt_v p2)))) twice)
        (f64_div (f64_add (f64_add (f64_mul (norm_squared p1) (f64_sub (pt_u p3) (pt_u p2)))
                                   (f64_mul (norm_squared p2) (f64_sub (pt_u p1) (pt_u p3))))
                          (f64_mul (norm_squared p3) (f64_sub (pt_u p2) (pt_u p1)))) twice)"

definition angle_from :: "sketch_math \<Rightarrow> SketchRegionPoint \<Rightarrow> SketchRegionPoint \<Rightarrow> f64" where
  "angle_from M center p =
     f64_div (sk_atan2 M (f64_sub (pt_v p) (pt_v center)) (f64_sub (pt_u p) (pt_u center))) kSketchDegreesToRadians"

definition lower_arc_three_point :: "sketch_math \<Rightarrow> json \<Rightarrow> json \<Rightarrow> string \<Rightarrow> lowered" where
  "lower_arc_three_point M parameters entity eid =
     rbind (SolvedSketchValues parameters eid 6) (\<lambda>solved.
     rbind (point_at solved entity 0 ''p1'') (\<lambda>p1. rbind (point_at solved entity 2 ''p2'') (\<lambda>p2.
     rbind (point_at solved entity 4 ''p3'') (\<lambda>p3.
       let area = cross_of (pt_u p1) (pt_u p2) (pt_v p2) (pt_v p3) (pt_u p2) (pt_u p3) (pt_v p1) (pt_v p2)
       in if f64_less (f64_abs area) (f64_decimal 1 12) then Inr (Inl ''a three-point arc has collinear points'')
          else let center = circumcenter p1 p2 p3 (f64_mul two area)
               in Inr (Inr [arc_segment eid center (SketchGap M center p1) (angle_from M center p1) (angle_from M center p3)
                    (f64_less 0 (cross_of (pt_u p2) (pt_u p1) (pt_v p3) (pt_v p2) (pt_v p2) (pt_v p1) (pt_u p3) (pt_u p2)))
                    p1 p3])))))"

definition ellipse_segment :: "string \<Rightarrow> SketchRegionPoint \<Rightarrow> f64 \<Rightarrow> f64 \<Rightarrow> f64 \<Rightarrow> SketchRegionSegment" where
  "ellipse_segment eid center radiusX radiusY rotation =
     (new_segment Ellipse_segment eid)\<lparr>seg_center := center, seg_radiusX := radiusX, seg_radiusY := radiusY, seg_rotation := rotation\<rparr>"

definition lower_ellipse :: "json \<Rightarrow> json \<Rightarrow> string \<Rightarrow> lowered" where
  "lower_ellipse parameters entity eid =
     rbind (SolvedSketchValues parameters eid 5) (\<lambda>solved.
     rbind (point_at solved entity 0 ''center'') (\<lambda>center. rbind (number_at solved entity 2 ''radiusX'') (\<lambda>radiusX.
     rbind (number_at solved entity 3 ''radiusY'') (\<lambda>radiusY. rbind (rotation_at solved entity) (\<lambda>rotation.
       Inr (Inr [ellipse_segment eid center radiusX radiusY rotation]))))))"


text \<open>\<open>static_cast<int>(std::llround(d))\<close>: halves away from zero, then the low 32 bits; a value that no
  64-bit integer holds is left open by the standard and is undefined here.\<close>

definition round_half_away :: "f64 \<Rightarrow> int" where
  "round_half_away d =
     (let magnitude = (if 0 \<le> f64_scale d then f64_mant d * 2 ^ nat (f64_scale d)
                       else (2 * f64_mant d + 2 ^ nat (- f64_scale d)) div 2 ^ (nat (- f64_scale d) + 1))
      in if f64_sign d then - int magnitude else int magnitude)"

definition llround_int :: "f64 \<Rightarrow> int result" where
  "llround_int d =
     (if f64_finite d \<and> - (2 ^ 63) \<le> round_half_away d \<and> round_half_away d < 2 ^ 63
      then Inr (wrap_int32 (round_half_away d)) else Inl Undefined_behaviour)"

definition polygon_corner :: "sketch_math \<Rightarrow> SketchRegionPoint \<Rightarrow> f64 \<Rightarrow> f64 \<Rightarrow> nat \<Rightarrow> nat \<Rightarrow> SketchRegionPoint" where
  "polygon_corner M center radius rotation sides index =
     (let a = f64_mul (f64_add rotation (fraction (f64_of_nat 360) index sides)) kSketchDegreesToRadians
      in pt (f64_add (pt_u center) (f64_mul radius (sk_cos M a))) (f64_add (pt_v center) (f64_mul radius (sk_sin M a))))"

definition lower_polygon :: "sketch_math \<Rightarrow> json \<Rightarrow> json \<Rightarrow> string \<Rightarrow> lowered" where
  "lower_polygon M parameters entity eid =
     rbind (SolvedSketchValues parameters eid 5) (\<lambda>solved.
     rbind (point_at solved entity 0 ''center'') (\<lambda>center.
     rbind (case solved of Some values \<Rightarrow> rbind (get_double (values ! 2)) llround_int
            | None \<Rightarrow> rbind (jat entity ''sides'') get_int) (\<lambda>sides.
     rbind (number_at solved entity 3 ''circumradius'') (\<lambda>radius. rbind (rotation_at solved entity) (\<lambda>rotation.
       let corner = polygon_corner M center radius rotation (nat sides)
       in Inr (Inr (map (\<lambda>index. line_segment (part_name eid index) (corner index) (corner (index + 1))) [0..<nat sides])))))))"

definition slot_segments :: "sketch_math \<Rightarrow> string \<Rightarrow> SketchRegionPoint \<Rightarrow> SketchRegionPoint \<Rightarrow> f64 \<Rightarrow> f64 \<Rightarrow> SketchRegionSegment list" where
  "slot_segments M eid p1 p2 width long =
     (let radius = f64_div width two;
          nx = f64_mul (f64_div (f64_neg (f64_sub (pt_v p2) (pt_v p1))) long) radius;
          ny = f64_mul (f64_div (f64_sub (pt_u p2) (pt_u p1)) long) radius;
          below = (\<lambda>p. pt (f64_sub (pt_u p) nx) (f64_sub (pt_v p) ny));
          above = (\<lambda>p. pt (f64_add (pt_u p) nx) (f64_add (pt_v p) ny));
          normalAngle = f64_div (sk_atan2 M ny nx) kSketchDegreesToRadians; half = f64_of_nat 180
      in [line_segment (eid @ '':lower'') (below p1) (below p2),
          arc_segment (eid @ '':end-cap'') p2 radius (f64_sub normalAngle half) normalAngle True (below p2) (above p2),
          line_segment (eid @ '':upper'') (above p2) (above p1),
          arc_segment (eid @ '':start-cap'') p1 radius normalAngle (f64_add normalAngle half) True (above p1) (below p1)])"

definition lower_slot :: "sketch_math \<Rightarrow> json \<Rightarrow> json \<Rightarrow> string \<Rightarrow> lowered" where
  "lower_slot M parameters entity eid =
     rbind (SolvedSketchValues parameters eid 5) (\<lambda>solved.
     rbind (point_at solved entity 0 ''p1'') (\<lambda>p1. rbind (point_at solved entity 2 ''p2'') (\<lambda>p2.
     rbind (number_at solved entity 4 ''width'') (\<lambda>width.
       Inr (if near M p1 p2 then Inl ''a slot needs a centreline with length''
            else Inr (slot_segments M eid p1 p2 width (SketchGap M p1 p2)))))))"

definition lower_spline :: "json \<Rightarrow> json \<Rightarrow> string \<Rightarrow> lowered" where
  "lower_spline parameters entity eid =
     rbind (jat entity ''points'') (\<lambda>pointsJson.
     rbind (SolvedSketchValues parameters eid (jsize pointsJson * 2)) (\<lambda>solved.
     rbind (jvalue entity ''closed'' get_bool False) (\<lambda>closed. rbind (points_of solved pointsJson) (\<lambda>points.
       Inr (Inr [(new_segment Spline_segment eid)\<lparr>seg_closed := closed, seg_points := points\<rparr>])))))"

definition lower_entity :: "sketch_math \<Rightarrow> json \<Rightarrow> json \<Rightarrow> lowered" where
  "lower_entity M parameters entity =
     (if \<not> is_object entity then Inr (Inr [])
      else rbind (jvalue entity ''construction'' get_bool False) (\<lambda>construction.
        if construction then Inr (Inr [])
        else rbind (jvalue entity ''kind'' get_string []) (\<lambda>kind. rbind (jvalue entity ''eid'' get_string []) (\<lambda>eid.
          if kind = ''line'' then lower_line parameters entity eid
          else if kind = ''polyline'' then lower_polyline parameters entity eid
          else if kind = ''rectangle'' then lower_rectangle M parameters entity eid
          else if kind = ''circle'' then lower_circle parameters entity eid
          else if kind = ''arc-center'' then lower_arc_center M parameters entity eid
          else if kind = ''arc-three-point'' then lower_arc_three_point M parameters entity eid
          else if kind = ''ellipse'' then lower_ellipse parameters entity eid
          else if kind = ''polygon'' then lower_polygon M parameters entity eid
          else if kind = ''slot'' then lower_slot M parameters entity eid
          else if kind = ''spline'' then lower_spline parameters entity eid
          else Inr (Inl (''a '' @ kind @ '' cannot bound a region''))))))"

text \<open>The loop over the entities ends at the first refusal.\<close>

fun lower_entities :: "sketch_math \<Rightarrow> json \<Rightarrow> SketchRegionSegment list \<Rightarrow> json list \<Rightarrow> lowered" where
  "lower_entities M parameters built [] = Inr (Inr built)"
| "lower_entities M parameters built (entity # entities) =
     rbind (lower_entity M parameters entity) (\<lambda>out.
       case out of Inl refusal \<Rightarrow> Inr (Inl refusal)
       | Inr added \<Rightarrow> lower_entities M parameters (built @ added) entities)"

section \<open>Projected edges\<close>

definition projected_spline :: "'sh kernel \<Rightarrow> ('sh, 'fr) sketch_occt \<Rightarrow> 'fr \<Rightarrow> string \<Rightarrow> 'sh \<Rightarrow> SketchRegionSegment" where
  "projected_spline K S frame eid edge =
     (case g_curve_parameters (k_geom K) edge of (first, final) \<Rightarrow>
        let at = (\<lambda>parameter. so_plane_point S frame (g_curve_value (k_geom K) edge parameter));
            closed = so_edge_closed S edge
        in (new_segment Spline_segment eid)\<lparr>seg_closed := closed,
             seg_points := map (\<lambda>index. at (f64_add first (fraction (f64_sub final first) index 48))) [0..<48] @
                           (if closed then [] else [at final])\<rparr>)"

definition projected_segment ::
  "sketch_math \<Rightarrow> 'sh kernel \<Rightarrow> ('sh, 'fr) sketch_occt \<Rightarrow> 'fr \<Rightarrow> string \<Rightarrow> 'sh \<Rightarrow> SketchRegionSegment" where
  "projected_segment M K S frame eid edge =
     (case g_curve_parameters (k_geom K) edge of (first, final) \<Rightarrow>
        let G = k_geom K; at = (\<lambda>parameter. so_plane_point S frame (g_curve_value G edge parameter));
            center = so_plane_point S frame (g_curve_location G edge)
        in if g_curve G edge = Line_curve then line_segment eid (at first) (at final)
           else if g_curve G edge = Circle_curve \<and> so_edge_closed S edge
           then (new_segment Circle_segment eid)\<lparr>seg_center := center, seg_radius := g_curve_radius G edge\<rparr>
           else if g_curve G edge = Circle_curve
           then arc_segment eid center (g_curve_radius G edge) (angle_from M center (at first)) (angle_from M center (at final))
                  (f64_le 0 (so_axis_along S frame edge)) (at first) (at final)
           else if g_curve G edge = Ellipse_curve \<and> so_edge_closed S edge
           then ellipse_segment eid center (fst (so_radii S edge)) (snd (so_radii S edge))
                  (f64_div (sk_atan2 M (snd (so_major S frame edge)) (fst (so_major S frame edge))) kSketchDegreesToRadians)
           else projected_spline K S frame eid edge)"

definition unsupported_projection :: "string \<Rightarrow> string \<Rightarrow> kexn" where
  "unsupported_projection opId mode =
     Operation_failure opId ''UNSUPPORTED_OPERATION''
       (''sketch projected geometry mode '' @ [CHR 0x27] @ mode @ [CHR 0x27] @
        '' is not implemented by the native region lowerer; use '' @ [CHR 0x27] @ ''project'' @ [CHR 0x27]) JNull"

definition lower_projection ::
  "sketch_math \<Rightarrow> 'sh kernel \<Rightarrow> ('sh, 'fr) sketch_occt \<Rightarrow> 'fr \<Rightarrow> 'sh EvaluatedBody list \<Rightarrow> 'sh NamingRegistry \<Rightarrow> string \<Rightarrow> bool \<Rightarrow>
   SketchRegionSegment list \<Rightarrow> json \<Rightarrow> SketchRegionSegment list result" where
  "lower_projection M K S frame bodies registry opId cancelled built projection =
     rbind (CheckCancellation cancelled) (\<lambda>_.
     rbind (rbind (jat projection ''eid'') get_string) (\<lambda>eid.
     rbind (jvalue projection ''mode'' get_string ''project'') (\<lambda>mode.
       if mode \<noteq> ''project'' then Inl (unsupported_projection opId mode)
       else rbind (jat projection ''source'') (\<lambda>slot.
            rbind (ResolveRefSlotStrict K opId ''sketch'' ''projected'' slot bodies registry cancelled) (\<lambda>resolution.
            rbind (SingleResolvedEntity ''sketch'' ''projected'' (CHR ''e'') resolution) (\<lambda>source.
            rbind (jvalue projection ''construction'' get_bool True) (\<lambda>construction.
              Inr (if construction then built
                   else built @ [projected_segment M K S frame eid (ent_shape source)]))))))))"

definition lower_projections ::
  "sketch_math \<Rightarrow> 'sh kernel \<Rightarrow> ('sh, 'fr) sketch_occt \<Rightarrow> 'fr \<Rightarrow> 'sh EvaluatedBody list \<Rightarrow> 'sh NamingRegistry option \<Rightarrow> string \<Rightarrow> bool \<Rightarrow>
   json \<Rightarrow> SketchRegionSegment list \<Rightarrow> SketchRegionSegment list result" where
  "lower_projections M K S frame bodies registry opId cancelled parameters built =
     (case jfind parameters ''projected'' of
        Some (JArray (projection # projections)) \<Rightarrow>
          (case registry of
             None \<Rightarrow> Inl (Operation_failure opId ''INVALID_REQUEST''
                           ''projected sketch geometry requires the naming registry'' JNull)
           | Some r \<Rightarrow> rfold (lower_projection M K S frame bodies r opId cancelled) built (projection # projections))
      | _ \<Rightarrow> Inr built)"

text \<open>All boundary segments of a sketch, or the refusal.\<close>

definition boundary_segments ::
  "sketch_math \<Rightarrow> 'sh kernel \<Rightarrow> ('sh, 'fr) sketch_occt \<Rightarrow> json \<Rightarrow> 'fr \<Rightarrow> 'sh EvaluatedBody list \<Rightarrow> 'sh NamingRegistry option \<Rightarrow> string \<Rightarrow>
   bool \<Rightarrow> lowered" where
  "boundary_segments M K S parameters frame bodies registry opId cancelled =
     rbind (jat parameters ''entities'') (\<lambda>entities.
     rbind (lower_entities M parameters [] (elements entities)) (\<lambda>out.
       case out of Inl refusal \<Rightarrow> Inr (Inl refusal)
       | Inr built \<Rightarrow>
           rbind (lower_projections M K S frame bodies registry opId cancelled parameters built) (\<lambda>all. Inr (Inr all))))"

end
