(* ===== verification/Sketch_Loops.thy ===== *)
theory Sketch_Loops
  imports Sketch_Lower
begin

text \<open>
  Sketch boundaries of \<open>geometry.cpp\<close>, second part: the arrangement of the segments into closed loops
  (the second half of \<open>SketchClosedRegions\<close>), their nesting, the open path of a sketch that encloses
  nothing (\<open>EvaluateSketchOpenPath\<close>), and the regions with their durable keys
  (\<open>EvaluateSketchRegion\<close>). Wires and faces are values of the record \<open>sketch_faces\<close>.
\<close>

section \<open>Chaining segments\<close>

definition closes_itself :: "SketchRegionSegment \<Rightarrow> bool" where
  "closes_itself s \<longleftrightarrow>
     seg_kind s = Circle_segment \<or> seg_kind s = Ellipse_segment \<or> (seg_kind s = Spline_segment \<and> seg_closed s)"

definition remove_nth :: "nat \<Rightarrow> 'a list \<Rightarrow> 'a list" where
  "remove_nth index xs = take index xs @ drop (index + 1) xs"

lemma length_remove_nth [simp]: "index < length xs \<Longrightarrow> length (remove_nth index xs) = length xs - 1"
  by (simp add: remove_nth_def)

text \<open>The pending segments that touch the end of the chain, each with whether it must be reversed.\<close>

definition loop_matches :: "sketch_math \<Rightarrow> SketchRegionPoint \<Rightarrow> SketchRegionSegment list \<Rightarrow> (nat \<times> bool) list" where
  "loop_matches M finish pending =
     concat (map (\<lambda>index.
       let s = pending ! index; atStart = near M finish (SegmentStart M s); atEnd = near M finish (SegmentEnd M s)
       in if closes_itself s \<or> \<not> (atStart \<or> atEnd) then [] else [(index, \<not> atStart)]) [0..<length pending])"

lemma loop_matches_index: "(index, backwards) \<in> set (loop_matches M finish pending) \<Longrightarrow> index < length pending"
  by (auto simp: loop_matches_def Let_def split: if_splits)

definition open_contour :: "sketch_math \<Rightarrow> SketchRegionSegment list \<Rightarrow> SketchRegionPoint \<Rightarrow> SketchRegionPoint \<Rightarrow> string" where
  "open_contour M chain finish start =
     ''this contour is open: '' @ seg_eid (last chain) @ '' ends '' @ printf_general (SketchGap M finish start) @
     '' mm from where '' @ seg_eid (hd chain) @ '' starts''"

definition oriented :: "bool \<Rightarrow> SketchRegionSegment \<Rightarrow> SketchRegionSegment" where
  "oriented backwards s = (if backwards then ReverseSegment s else s)"

function extend_loop ::
  "sketch_math \<Rightarrow> nat \<Rightarrow> SketchRegionPoint \<Rightarrow> SketchRegionPoint \<Rightarrow> SketchRegionSegment list \<Rightarrow> SketchRegionSegment list \<Rightarrow>
   string + SketchRegionSegment list \<times> SketchRegionSegment list" where
  "extend_loop M limit start finish chain pending =
     (if \<not> f64_le kSketchMinSize (SketchGap M finish start) then Inr (chain, pending)
      else case loop_matches M finish pending of
             [] \<Rightarrow> Inl (open_contour M chain finish start)
           | [(index, backwards)] \<Rightarrow>
               (if limit < length (chain @ [oriented backwards (pending ! index)])
                then Inl ''the sketch boundary could not be arranged into a closed loop''
                else extend_loop M limit start (SegmentEnd M (oriented backwards (pending ! index)))
                       (chain @ [oriented backwards (pending ! index)]) (remove_nth index pending))
           | _ \<Rightarrow> Inl ''the sketch boundary is ambiguous where multiple curves meet'')"
  by pat_completeness auto

termination
proof (relation "measure (\<lambda>(M, limit, start, finish, chain, pending). length pending)", goal_cases)
  case (2 M limit start finish chain pending m ms index backwards)
  then have "(index, backwards) \<in> set (loop_matches M finish pending)" by simp
  then show ?case by (auto dest: loop_matches_index)
qed simp

declare extend_loop.simps [simp del]

text \<open>A returned call is the end of the chain or one step of it.\<close>

lemma extend_loop_step:
  assumes "extend_loop M limit start finish chain pending = Inr (chain', rest)"
  shows "(chain' = chain \<and> rest = pending \<and> \<not> f64_le kSketchMinSize (SketchGap M finish start)) \<or>
    (\<exists>index backwards. loop_matches M finish pending = [(index, backwards)] \<and> index < length pending \<and>
       length chain < limit \<and>
       extend_loop M limit start (SegmentEnd M (oriented backwards (pending ! index)))
         (chain @ [oriented backwards (pending ! index)]) (remove_nth index pending) = Inr (chain', rest))"
proof -
  have "index < length pending" if "loop_matches M finish pending = [(index, backwards)]" for index backwards
    using loop_matches_index [of index backwards M finish pending] that by simp
  then show ?thesis
    using assms by (subst (asm) extend_loop.simps) (auto split: if_splits list.splits)
qed

lemma extend_loop_pending:
  "extend_loop M limit start finish chain pending = Inr (chain', rest) \<Longrightarrow> length rest \<le> length pending"
proof (induction pending arbitrary: finish chain rule: measure_induct_rule [where f = length])
  case (less pending)
  from extend_loop_step [OF less.prems] show ?case
  proof (elim disjE exE conjE)
    fix index backwards
    assume "index < length pending" and step: "extend_loop M limit start (SegmentEnd M (oriented backwards (pending ! index)))
         (chain @ [oriented backwards (pending ! index)]) (remove_nth index pending) = Inr (chain', rest)"
    then have "length (remove_nth index pending) < length pending" by simp
    from less.IH [OF this step] this show ?case by simp
  qed simp
qed

function arrange :: "sketch_math \<Rightarrow> nat \<Rightarrow> SketchRegionSegment list \<Rightarrow> string + SketchRegionSegment list list" where
  "arrange M limit [] = Inr []"
| "arrange M limit (first # pending) =
     (if closes_itself first
      then case arrange M limit pending of Inl refusal \<Rightarrow> Inl refusal | Inr loops \<Rightarrow> Inr ([first] # loops)
      else case extend_loop M limit (SegmentStart M first) (SegmentEnd M first) [first] pending of
             Inl refusal \<Rightarrow> Inl refusal
           | Inr (chain, rest) \<Rightarrow>
               (case arrange M limit rest of Inl refusal \<Rightarrow> Inl refusal | Inr loops \<Rightarrow> Inr (chain # loops)))"
  by pat_completeness auto

termination
  by (relation "measure (\<lambda>(M, limit, pending). length pending)") (auto dest!: extend_loop_pending)


section \<open>Samples and area\<close>

definition add_sample :: "sketch_math \<Rightarrow> SketchRegionPoint list \<Rightarrow> SketchRegionPoint \<Rightarrow> SketchRegionPoint list" where
  "add_sample M kept point =
     (if kept = [] \<or> f64_le kSketchMinSize (SketchGap M (last kept) point) then kept @ [point] else kept)"

definition loop_sample :: "sketch_math \<Rightarrow> SketchRegionPoint list \<Rightarrow> SketchRegionPoint list" where
  "loop_sample M points =
     (let kept = foldl (add_sample M) [] points
      in if 1 < length kept \<and> near M (hd kept) (last kept) then butlast kept else kept)"

definition self_intersects :: "sketch_math \<Rightarrow> SketchRegionPoint list \<Rightarrow> bool" where
  "self_intersects M points =
     (let n = length points
      in list_ex (\<lambda>i. list_ex (\<lambda>j.
           \<not> (j = i + 1 \<or> (i = 0 \<and> j = n - 1)) \<and>
           RegionEdgesCross M (points ! i) (points ! ((i + 1) mod n)) (points ! j) (points ! ((j + 1) mod n))) [i + 1..<n]) [0..<n])"

type_synonym measured = "SketchRegionPoint list \<times> f64"

definition measure_loop :: "sketch_math \<Rightarrow> ('sh, 'fr) sketch_occt \<Rightarrow> SketchRegionSegment list \<Rightarrow> (string + measured) result" where
  "measure_loop M S chain =
     rbind (rmap (SampleRegionSegment M S) chain) (\<lambda>sampled.
       let points = loop_sample M (concat sampled); area = RegionPolygonArea points
       in Inr (if length points < 3 \<or> f64_less (f64_abs area) (f64_mul kSketchMinSize kSketchMinSize)
               then Inl ''a sketch boundary has zero area''
               else if self_intersects M points then Inl ''a sketch boundary self-intersects''
               else Inr (points, area)))"

fun measure_loops :: "sketch_math \<Rightarrow> ('sh, 'fr) sketch_occt \<Rightarrow> SketchRegionSegment list list \<Rightarrow> (string + measured list) result" where
  "measure_loops M S [] = Inr (Inr [])"
| "measure_loops M S (chain # raw) =
     rbind (measure_loop M S chain) (\<lambda>out.
       case out of Inl refusal \<Rightarrow> Inr (Inl refusal)
       | Inr measured \<Rightarrow> rbind (measure_loops M S raw) (\<lambda>outs.
           case outs of Inl refusal \<Rightarrow> Inr (Inl refusal) | Inr all \<Rightarrow> Inr (Inr (measured # all))))"

section \<open>Nesting\<close>

definition sample_probe :: "SketchRegionPoint list \<Rightarrow> SketchRegionPoint" where
  "sample_probe points =
     foldl (\<lambda>probe point. pt (f64_add (pt_u probe) (f64_div (pt_u point) (f64_of_nat (length points))))
                            (f64_add (pt_v probe) (f64_div (pt_v point) (f64_of_nat (length points))))) (pt 0 0) points"

text \<open>Whether the loop \<open>other\<close> counts as one that encloses the loop \<open>index\<close>.\<close>

definition encloses :: "measured list \<Rightarrow> nat \<Rightarrow> nat \<Rightarrow> bool" where
  "encloses measured other index \<longleftrightarrow>
     other \<noteq> index \<and> \<not> f64_le (f64_abs (snd (measured ! other))) (f64_abs (snd (measured ! index))) \<and>
     RegionPointInPolygon (sample_probe (fst (measured ! index))) (fst (measured ! other))"

definition nesting_depth :: "measured list \<Rightarrow> nat \<Rightarrow> nat" where
  "nesting_depth measured index = length (filter (\<lambda>other. encloses measured other index) [0..<length measured])"

definition finish_loop :: "measured list \<Rightarrow> nat \<Rightarrow> SketchRegionSegment list \<Rightarrow> SketchRegionLoop" where
  "finish_loop measured index chain =
     (let area = snd (measured ! index); depth = nesting_depth measured index; hole = odd depth;
          flip = (f64_le 0 area = hole)
      in \<lparr>loop_segments = (if flip then map ReverseSegment (rev chain) else chain),
          loop_samples = fst (measured ! index), loop_signedArea = (if flip then f64_neg area else area),
          loop_depth = depth, loop_hole = hole\<rparr>)"

definition arranged_regions ::
  "sketch_math \<Rightarrow> ('sh, 'fr) sketch_occt \<Rightarrow> SketchRegionSegment list \<Rightarrow> (string + SketchRegionLoop list) result" where
  "arranged_regions M S pending =
     (case arrange M (length pending) pending of
        Inl refusal \<Rightarrow> Inr (Inl refusal)
      | Inr raw \<Rightarrow> rbind (measure_loops M S raw) (\<lambda>out.
          case out of Inl refusal \<Rightarrow> Inr (Inl refusal)
          | Inr measured \<Rightarrow> Inr (Inr (map (\<lambda>index. finish_loop measured index (raw ! index)) [0..<length raw]))))"

text \<open>The loops, the refusal and the caller's \<open>outSegments\<close>.\<close>

definition SketchClosedRegions ::
  "sketch_math \<Rightarrow> 'sh kernel \<Rightarrow> ('sh, 'fr) sketch_occt \<Rightarrow> json \<Rightarrow> 'fr \<Rightarrow> 'sh EvaluatedBody list \<Rightarrow> 'sh NamingRegistry option \<Rightarrow> string \<Rightarrow>
   bool \<Rightarrow> (SketchRegionLoop list \<times> string \<times> SketchRegionSegment list) result" where
  "SketchClosedRegions M K S parameters frame bodies registry opId cancelled =
     rbind (boundary_segments M K S parameters frame bodies registry opId cancelled) (\<lambda>out.
       case out of Inl refusal \<Rightarrow> Inr ([], refusal, [])
       | Inr pending \<Rightarrow> rbind (arranged_regions M S pending) (\<lambda>regions.
           Inr (case regions of Inl refusal \<Rightarrow> ([], refusal, pending) | Inr loops \<Rightarrow> (loops, [], pending))))"

section \<open>The open path\<close>

definition touches_anchor :: "sketch_math \<Rightarrow> SketchRegionPoint \<Rightarrow> SketchRegionSegment \<Rightarrow> bool" where
  "touches_anchor M anchor s \<longleftrightarrow> near M anchor (SegmentStart M s) \<or> near M anchor (SegmentEnd M s)"

text \<open>The first pending segment at the anchor, as its position.\<close>

definition path_match :: "sketch_math \<Rightarrow> SketchRegionPoint \<Rightarrow> SketchRegionSegment list \<Rightarrow> nat option" where
  "path_match M anchor pending = List.find (\<lambda>index. touches_anchor M anchor (pending ! index)) [0..<length pending]"

lemma path_match_index: "path_match M anchor pending = Some index \<Longrightarrow> index < length pending \<and> touches_anchor M anchor (pending ! index)"
  by (auto simp: path_match_def find_Some_iff)

definition path_anchor :: "sketch_math \<Rightarrow> bool \<Rightarrow> SketchRegionSegment list \<Rightarrow> SketchRegionPoint" where
  "path_anchor M forward ordered = (if forward then SegmentEnd M (last ordered) else SegmentStart M (hd ordered))"

definition path_next :: "sketch_math \<Rightarrow> bool \<Rightarrow> SketchRegionPoint \<Rightarrow> SketchRegionSegment \<Rightarrow> SketchRegionSegment" where
  "path_next M forward anchor s =
     oriented (near M anchor (if forward then SegmentEnd M s else SegmentStart M s)) s"

definition path_insert :: "bool \<Rightarrow> SketchRegionSegment \<Rightarrow> SketchRegionSegment list \<Rightarrow> SketchRegionSegment list" where
  "path_insert forward s ordered = (if forward then ordered @ [s] else s # ordered)"

function extend_path ::
  "sketch_math \<Rightarrow> bool \<Rightarrow> SketchRegionSegment list \<Rightarrow> SketchRegionSegment list \<Rightarrow> SketchRegionSegment list \<times> SketchRegionSegment list" where
  "extend_path M forward ordered pending =
     (case path_match M (path_anchor M forward ordered) pending of
        None \<Rightarrow> (ordered, pending)
      | Some index \<Rightarrow>
          extend_path M forward
            (path_insert forward (path_next M forward (path_anchor M forward ordered) (pending ! index)) ordered)
            (remove_nth index pending))"
  by pat_completeness auto

termination
proof (relation "measure (\<lambda>(M, forward, ordered, pending). length pending)", goal_cases)
  case (2 M forward ordered pending index)
  then show ?case by (auto dest: path_match_index)
qed simp

declare extend_path.simps [simp del]

text \<open>The path as one ordered run of all the segments, when the sketch has one.\<close>

definition open_path :: "sketch_math \<Rightarrow> SketchRegionSegment list \<Rightarrow> SketchRegionSegment list option" where
  "open_path M pending =
     (if pending = [] \<or> list_ex closes_itself pending then None
      else case extend_path M True [hd pending] (tl pending) of
        (forward, rest) \<Rightarrow>
          (case extend_path M False forward rest of
             (ordered, left) \<Rightarrow>
               if left \<noteq> [] then None
               else if near M (SegmentStart M (hd ordered)) (SegmentEnd M (last ordered)) then None
               else Some ordered))"

section \<open>Frames, wires and faces\<close>

record ('sh, 'fr, 'wire, 'face) sketch_faces =
  sf_world_axes :: "vec3 \<Rightarrow> vec3 \<Rightarrow> vec3 \<Rightarrow> 'fr"
  sf_face_axes :: "'sh \<Rightarrow> 'fr"
  sf_wire :: "'fr \<Rightarrow> SketchRegionSegment list \<Rightarrow> 'wire result"
  sf_null_wire :: "'wire \<Rightarrow> bool"
  sf_wire_closed :: "'wire \<Rightarrow> bool"
  sf_face :: "'fr \<Rightarrow> 'wire \<Rightarrow> 'face option"
  sf_add_hole :: "'face \<Rightarrow> 'wire \<Rightarrow> 'face"
  sf_valid :: "'face \<Rightarrow> bool"

definition axis_vector :: "int \<Rightarrow> int \<Rightarrow> int \<Rightarrow> vec3" where
  "axis_vector x y z = (f64_of_int x, f64_of_int y, f64_of_int z)"

definition WorldPlaneAxes :: "('sh, 'fr, 'wire, 'face) sketch_faces \<Rightarrow> string \<Rightarrow> 'fr option" where
  "WorldPlaneAxes F world =
     (if world = ''xy'' then Some (sf_world_axes F (axis_vector 0 0 0) (axis_vector 0 0 1) (axis_vector 1 0 0))
      else if world = ''xz'' then Some (sf_world_axes F (axis_vector 0 0 0) (axis_vector 0 (- 1) 0) (axis_vector 1 0 0))
      else if world = ''yz'' then Some (sf_world_axes F (axis_vector 0 0 0) (axis_vector 1 0 0) (axis_vector 0 1 0))
      else None)"

text \<open>The world plane a slot names by itself: a scope of one world source.\<close>

definition world_scope :: "json \<Rightarrow> json option result" where
  "world_scope slot =
     (if \<not> jcontains slot ''ast'' then Inr None
      else rbind (jat slot ''ast'') (\<lambda>ast.
        case jfind ast ''scope'' of
          Some (JArray [source]) \<Rightarrow>
            if is_object source
            then rbind (jvalue source ''source'' get_string []) (\<lambda>name. Inr (if name = ''world'' then Some source else None))
            else Inr None
        | _ \<Rightarrow> Inr None))"

text \<open>The UTF-8 bytes of the dash in a message.\<close>

definition em_dash :: string where
  "em_dash = [CHR 0xE2, CHR 0x80, CHR 0x94]"

definition SketchPlaneAxes ::
  "'sh kernel \<Rightarrow> ('sh, 'fr, 'wire, 'face) sketch_faces \<Rightarrow> json \<Rightarrow> 'sh EvaluatedBody list \<Rightarrow> 'sh NamingRegistry option \<Rightarrow> bool \<Rightarrow> 'fr result" where
  "SketchPlaneAxes K F operation bodies registry cancelled =
     rbind (rbind (jat operation ''id'') get_string) (\<lambda>opId.
     rbind (rbind (jat operation ''parameters'') (\<lambda>parameters. jat parameters ''plane'')) (\<lambda>slot.
     rbind (world_scope slot) (\<lambda>world.
       case world of
         Some source \<Rightarrow>
           rbind (jvalue source ''world'' get_string []) (\<lambda>name.
             case WorldPlaneAxes F name of
               Some axes \<Rightarrow> Inr axes
             | None \<Rightarrow> Inl (Operation_failure opId ''INVALID_REQUEST''
                 (''A sketch needs a plane; world('' @ name @ '') names an axis or a point, not one.'') JNull))
       | None \<Rightarrow>
           (case registry of
              None \<Rightarrow> Inl (Invalid_argument (''unsupported operation: a sketch on a model face requires the naming registry; evaluate '' @
                ''with a registry-threaded replay state''))
            | Some r \<Rightarrow>
                rbind (ResolveRefSlotStrict K opId ''sketch'' ''plane'' slot bodies r cancelled) (\<lambda>resolution.
                rbind (SingleResolvedEntity ''sketch'' ''plane'' (CHR ''f'') resolution) (\<lambda>planeEntity.
                  if g_surface (k_geom K) (ent_shape planeEntity) \<noteq> Plane_surface
                  then Inl (Operation_failure opId ''INVALID_REQUEST''
                         (''A sketch needs a flat face '' @ em_dash @ '' the one it is drawn on is curved.'') JNull)
                  else Inr (sf_face_axes F (ent_shape planeEntity)))))))) "

end
