(* ===== verification/Sketch_Profile.thy ===== *)
theory Sketch_Profile
  imports Sketch_Loops
begin

text \<open>
  The profiles of a sketch (\<open>geometry.cpp\<close>): \<open>EvaluateSketchOpenPath\<close> and \<open>EvaluateSketchRegion\<close>, with
  the durable key of a region.
\<close>

section \<open>The open path of a sketch\<close>

record ('fr, 'wire) EvaluatedOpenPath =
  op_wire :: 'wire
  op_frame :: 'fr

text \<open>The parameters and the id of an operation, read as the code reads them.\<close>

definition operation_parameters :: "json \<Rightarrow> json result" where
  "operation_parameters operation = jat operation ''parameters''"

definition operation_id :: "json \<Rightarrow> string result" where
  "operation_id operation = rbind (jat operation ''id'') get_string"

definition EvaluateSketchOpenPath ::
  "sketch_math \<Rightarrow> 'sh kernel \<Rightarrow> ('sh, 'fr) sketch_occt \<Rightarrow> ('sh, 'fr, 'wire, 'face) sketch_faces \<Rightarrow> json \<Rightarrow> 'sh EvaluatedBody list \<Rightarrow>
   'sh NamingRegistry option \<Rightarrow> bool \<Rightarrow> ('fr, 'wire) EvaluatedOpenPath option result" where
  "EvaluateSketchOpenPath M K S F operation bodies registry cancelled =
     rbind (operation_parameters operation) (\<lambda>parameters.
     rbind (CheckCancellation cancelled) (\<lambda>_.
     rbind (SketchPlaneAxes K F operation bodies registry cancelled) (\<lambda>frame.
     rbind (operation_id operation) (\<lambda>opId.
     rbind (SketchClosedRegions M K S parameters frame bodies registry opId cancelled) (\<lambda>(loops, refusal, pending).
       if loops \<noteq> [] then Inr None
       else case open_path M pending of
              None \<Rightarrow> Inr None
            | Some ordered \<Rightarrow>
                rbind (CheckCancellation cancelled) (\<lambda>_. rbind (sf_wire F frame ordered) (\<lambda>wire.
                  Inr (if sf_null_wire F wire then None else Some \<lparr>op_wire = wire, op_frame = frame\<rparr>))))))))"

section \<open>Regions\<close>

definition join_plus :: "string list \<Rightarrow> string" where
  "join_plus eids = concat (map2 (\<lambda>i eid. (if i = 0 then [] else ''+'') @ eid) [0..<length eids] eids)"

definition loop_eids :: "SketchRegionLoop list \<Rightarrow> string list" where
  "loop_eids loops = filter (\<lambda>eid. eid \<noteq> []) (map seg_eid (concat (map loop_segments loops)))"

text \<open>The sorted, deduplicated entity ids that bound the region.\<close>

definition region_key :: "SketchRegionLoop list \<Rightarrow> string" where
  "region_key loops = ''region:'' @ join_plus (sort_unique (loop_eids loops))"

text \<open>The loops attached to an outer loop as its holes, in order.\<close>

definition holes_of :: "SketchRegionLoop list \<Rightarrow> SketchRegionLoop \<Rightarrow> SketchRegionLoop list" where
  "holes_of loops outer =
     filter (\<lambda>hole. loop_depth hole = loop_depth outer + 1 \<and> loop_samples hole \<noteq> [] \<and> loop_samples outer \<noteq> [] \<and>
               RegionPointInPolygon (sample_probe (loop_samples hole)) (loop_samples outer)) loops"

definition region_face ::
  "('sh, 'fr, 'wire, 'face) sketch_faces \<Rightarrow> 'fr \<Rightarrow> bool \<Rightarrow> SketchRegionLoop list \<Rightarrow> SketchRegionLoop \<Rightarrow> ('face \<times> string) result" where
  "region_face F frame cancelled loops outer =
     rbind (sf_wire F frame (loop_segments outer)) (\<lambda>wire.
       if \<not> sf_wire_closed F wire then Inl (Runtime_error ''sketch region wire is not closed'')
       else rbind (CheckCancellation cancelled) (\<lambda>_.
         case sf_face F frame wire of
           None \<Rightarrow> Inl (Runtime_error ''sketch region face construction failed'')
         | Some face0 \<Rightarrow>
             rbind (rfold (\<lambda>face hole. rbind (sf_wire F frame (loop_segments hole)) (\<lambda>w. Inr (sf_add_hole F face w)))
                      face0 (holes_of loops outer)) (\<lambda>face.
               if \<not> sf_valid F face then Inl (Runtime_error ''OCCT produced an invalid sketch region face'')
               else Inr (face, region_key (outer # holes_of loops outer)))))"

record ('fr, 'face) SketchProfile =
  prof_face :: 'face
  prof_faces :: "'face list"
  prof_frame :: 'fr
  prof_regionIds :: "string list"

definition EvaluateSketchRegion ::
  "sketch_math \<Rightarrow> 'sh kernel \<Rightarrow> ('sh, 'fr) sketch_occt \<Rightarrow> ('sh, 'fr, 'wire, 'face) sketch_faces \<Rightarrow> json \<Rightarrow> 'sh EvaluatedBody list \<Rightarrow>
   'sh NamingRegistry option \<Rightarrow> bool \<Rightarrow> ('fr, 'face) SketchProfile option result" where
  "EvaluateSketchRegion M K S F operation bodies registry cancelled =
     rbind (operation_parameters operation) (\<lambda>parameters.
     rbind (CheckCancellation cancelled) (\<lambda>_.
     rbind (SketchPlaneAxes K F operation bodies registry cancelled) (\<lambda>frame.
     rbind (operation_id operation) (\<lambda>opId.
     rbind (SketchClosedRegions M K S parameters frame bodies registry opId cancelled) (\<lambda>(loops, refusal, pending).
       if loops = [] then Inr None
       else rbind (CheckCancellation cancelled) (\<lambda>_.
            rbind (rmap (region_face F frame cancelled loops) (filter (\<lambda>loop. even (loop_depth loop)) loops)) (\<lambda>regions.
              if regions = [] then Inl (Runtime_error ''sketch region has no outer boundary'')
              else Inr (Some \<lparr>prof_face = fst (hd regions), prof_faces = map fst regions, prof_frame = frame,
                               prof_regionIds = map snd regions\<rparr>))))))))"

end
