(* ===== verification/Sketch_Laws.thy ===== *)
theory Sketch_Laws
  imports Sketch_Profile "HOL-Library.Multiset"
begin

text \<open>
  The laws of sketch regions. A segment is compared up to its direction (\<open>curve_of\<close>): the arrangement
  moves and reverses segments but neither loses nor repeats one, its chains are rings, and it is
  refused only over a chain that cannot go on, so its guard against an endless chain never fires. The
  key of a region determines the entities that bound it.
\<close>

section \<open>Segments up to direction\<close>

definition curve_of :: "SketchRegionSegment \<Rightarrow> SketchRegionSegment set" where
  "curve_of s = {s, ReverseSegment s}"

definition curves :: "SketchRegionSegment list \<Rightarrow> SketchRegionSegment set multiset" where
  "curves ss = mset (map curve_of ss)"

lemma ReverseSegment_twice [simp]: "ReverseSegment (ReverseSegment s) = s"
  by (cases s) (auto simp: ReverseSegment_def)

lemma curve_of_reverse [simp]: "curve_of (ReverseSegment s) = curve_of s" "curve_of (oriented backwards s) = curve_of s"
  by (auto simp: curve_of_def oriented_def)

lemma curves_simps [simp]:
  "curves [] = {#}" "curves (s # ss) = add_mset (curve_of s) (curves ss)" "curves (ss @ ts) = curves ss + curves ts"
  "curves (map ReverseSegment ss) = curves ss" "curves (rev ss) = curves ss"
  by (simp_all add: curves_def comp_def)

lemma curves_remove:
  assumes "index < length ss"
  shows "add_mset (curve_of (ss ! index)) (curves (remove_nth index ss)) = curves ss"
proof -
  have "curves ss = curves (take index ss @ ss ! index # drop (Suc index) ss)" using id_take_nth_drop [OF assms] by simp
  then show ?thesis by (simp add: remove_nth_def)
qed

section \<open>The arrangement keeps every segment\<close>

lemma extend_loop_curves:
  "extend_loop M limit start finish chain pending = Inr (chain', rest) \<Longrightarrow>
   curves chain' + curves rest = curves chain + curves pending"
proof (induction pending arbitrary: finish chain rule: measure_induct_rule [where f = length])
  case (less pending)
  from extend_loop_step [OF less.prems] show ?case
  proof (elim disjE exE conjE)
    fix index backwards
    assume index: "index < length pending" and step: "extend_loop M limit start (SegmentEnd M (oriented backwards (pending ! index)))
         (chain @ [oriented backwards (pending ! index)]) (remove_nth index pending) = Inr (chain', rest)"
    have "length (remove_nth index pending) < length pending" using index by simp
    from less.IH [OF this step] curves_remove [OF index] show ?case by simp
  qed simp
qed

lemma arrange_curves: "arrange M limit pending = Inr loops \<Longrightarrow> curves (concat loops) = curves pending"
proof (induction M limit pending arbitrary: loops rule: arrange.induct)
  case (2 M limit first pending)
  show ?case
  proof (cases "closes_itself first")
    case True
    then show ?thesis using 2 by (auto split: sum.splits)
  next
    case False
    then obtain chain rest more_loops where e: "extend_loop M limit (SegmentStart M first) (SegmentEnd M first) [first] pending = Inr (chain, rest)"
      "arrange M limit rest = Inr more_loops" "loops = chain # more_loops"
      using "2.prems" by (auto split: sum.splits)
    have "curves (concat more_loops) = curves rest" using "2.IH"(2) [OF False e(1) refl e(2)] .
    then show ?thesis using extend_loop_curves [OF e(1)] e(3) by simp
  qed
qed simp

section \<open>The arrangement chains segments\<close>

text \<open>What the lowering gives: a spline without points has the same start and end.\<close>

definition wf_segment :: "SketchRegionSegment \<Rightarrow> bool" where
  "wf_segment s \<longleftrightarrow> seg_kind s = Spline_segment \<longrightarrow> seg_points s \<noteq> [] \<or> seg_start s = seg_end s"

lemma reverse_ends:
  assumes "wf_segment s" "\<not> closes_itself s"
  shows "SegmentStart M (ReverseSegment s) = SegmentEnd M s" "SegmentEnd M (ReverseSegment s) = SegmentStart M s"
  using assms
  by (cases s, cases "seg_kind s";
      force simp: SegmentStart_def SegmentEnd_def ReverseSegment_def wf_segment_def closes_itself_def hd_rev last_rev)+

lemma wf_reverse [simp]: "wf_segment (ReverseSegment s) = wf_segment s"
  by (cases s) (auto simp: wf_segment_def ReverseSegment_def)

lemma closes_itself_reverse [simp]: "closes_itself (ReverseSegment s) = closes_itself s"
  by (cases s) (auto simp: closes_itself_def ReverseSegment_def)

text \<open>Two points the code takes for one, whichever it measured from.\<close>

definition joined :: "sketch_math \<Rightarrow> SketchRegionPoint \<Rightarrow> SketchRegionPoint \<Rightarrow> bool" where
  "joined M a b \<longleftrightarrow> \<not> f64_le kSketchMinSize (SketchGap M a b) \<or> \<not> f64_le kSketchMinSize (SketchGap M b a)"

lemma joined_sym: "joined M a b \<longleftrightarrow> joined M b a"
  by (auto simp: joined_def)

lemma near_joined: "near M a b \<Longrightarrow> joined M a b"
  by (auto simp: near_def joined_def f64_less_def f64_le_def f64_eq_def)

definition chained :: "sketch_math \<Rightarrow> SketchRegionSegment list \<Rightarrow> bool" where
  "chained M ss \<longleftrightarrow> (\<forall>i. i + 1 < length ss \<longrightarrow> joined M (SegmentEnd M (ss ! i)) (SegmentStart M (ss ! (i + 1))))"

lemma chained_snoc:
  assumes "ss \<noteq> []" "chained M ss" "joined M (SegmentEnd M (last ss)) (SegmentStart M s)"
  shows "chained M (ss @ [s])"
  unfolding chained_def
proof (intro allI impI)
  fix i
  assume i: "i + 1 < length (ss @ [s])"
  show "joined M (SegmentEnd M ((ss @ [s]) ! i)) (SegmentStart M ((ss @ [s]) ! (i + 1)))"
  proof (cases "i + 1 < length ss")
    case True
    then show ?thesis using assms(2) by (simp add: chained_def nth_append)
  next
    case False
    then have "i = length ss - 1" "i + 1 = length ss" using i assms(1) by auto
    then show ?thesis using assms(1,3) by (simp add: nth_append last_conv_nth)
  qed
qed

text \<open>A loop: one closed curve, or a chain of open ones whose ends meet.\<close>

definition ring :: "sketch_math \<Rightarrow> SketchRegionSegment list \<Rightarrow> bool" where
  "ring M ss \<longleftrightarrow> ss \<noteq> [] \<and>
     ((\<exists>s. ss = [s] \<and> closes_itself s) \<or>
      (\<forall>s \<in> set ss. wf_segment s \<and> \<not> closes_itself s) \<and> chained M ss \<and> joined M (SegmentEnd M (last ss)) (SegmentStart M (hd ss)))"

lemma loop_matches_meet:
  assumes "(index, backwards) \<in> set (loop_matches M finish pending)" "\<forall>s \<in> set pending. wf_segment s"
  shows "\<not> closes_itself (pending ! index)" "near M finish (SegmentStart M (oriented backwards (pending ! index)))"
  using assms loop_matches_index [OF assms(1)] reverse_ends(1) [of "pending ! index" M]
  by (auto simp: loop_matches_def Let_def oriented_def split: if_splits)

lemma set_remove_nth: "set (remove_nth index ss) \<subseteq> set ss"
  by (auto simp: remove_nth_def dest: in_set_takeD in_set_dropD)

lemma extend_loop_ring:
  assumes "\<forall>s \<in> set chain. wf_segment s \<and> \<not> closes_itself s" "\<forall>s \<in> set pending. wf_segment s" "chain \<noteq> []" "chained M chain"
    "finish = SegmentEnd M (last chain)" "start = SegmentStart M (hd chain)"
    and "extend_loop M limit start finish chain pending = Inr (chain', rest)"
  shows "ring M chain' \<and> set rest \<subseteq> set pending"
  using assms
proof (induction pending arbitrary: finish chain rule: measure_induct_rule [where f = length])
  case (less pending)
  from extend_loop_step [OF less.prems(7)] show ?case
  proof (elim disjE exE conjE)
    fix index backwards
    assume m: "loop_matches M finish pending = [(index, backwards)]" and index: "index < length pending"
      and step: "extend_loop M limit start (SegmentEnd M (oriented backwards (pending ! index)))
         (chain @ [oriented backwards (pending ! index)]) (remove_nth index pending) = Inr (chain', rest)"
    let ?s = "oriented backwards (pending ! index)"
    note meet = loop_matches_meet [of index backwards M finish pending, OF _ less.prems(2)]
    have s: "wf_segment ?s" "\<not> closes_itself ?s" "near M finish (SegmentStart M ?s)"
      using meet m less.prems(2) index by (auto simp: oriented_def)
    have "ring M chain' \<and> set rest \<subseteq> set (remove_nth index pending)"
    proof (rule less.IH [OF _ _ _ _ _ _ _ step])
      show "length (remove_nth index pending) < length pending" using index by simp
      show "\<forall>s \<in> set (chain @ [?s]). wf_segment s \<and> \<not> closes_itself s" using less.prems(1) s by simp
      show "\<forall>s \<in> set (remove_nth index pending). wf_segment s" using less.prems(2) set_remove_nth [of index pending] by (meson subsetD)
      show "chained M (chain @ [?s])"
        using chained_snoc [OF less.prems(3,4)] near_joined [OF s(3)] less.prems(5) by simp
    qed (use less.prems(3,6) in simp_all)
    then show ?case using set_remove_nth [of index pending] by (meson subset_trans)
  next
    assume "chain' = chain" "rest = pending" "\<not> f64_le kSketchMinSize (SketchGap M finish start)"
    then show ?case using less.prems by (simp add: ring_def joined_def)
  qed
qed

lemma arrange_rings:
  "arrange M limit pending = Inr loops \<Longrightarrow> \<forall>s \<in> set pending. wf_segment s \<Longrightarrow> \<forall>chain \<in> set loops. ring M chain"
proof (induction M limit pending arbitrary: loops rule: arrange.induct)
  case (2 M limit first pending)
  show ?case
  proof (cases "closes_itself first")
    case True
    then show ?thesis using 2 by (auto simp: ring_def split: sum.splits)
  next
    case False
    then obtain chain rest more_loops where e: "extend_loop M limit (SegmentStart M first) (SegmentEnd M first) [first] pending = Inr (chain, rest)"
      "arrange M limit rest = Inr more_loops" "loops = chain # more_loops"
      using "2.prems"(1) by (auto split: sum.splits)
    have r: "ring M chain \<and> set rest \<subseteq> set pending"
      by (rule extend_loop_ring [OF _ _ _ _ _ _ e(1)]) (use "2.prems"(2) False in \<open>simp_all add: chained_def\<close>)
    have "\<forall>chain \<in> set more_loops. ring M chain"
      using "2.IH"(2) [OF False e(1) refl e(2)] r "2.prems"(2) by auto
    then show ?thesis using r e(3) by simp
  qed
qed simp

section \<open>Why an arrangement is refused\<close>

text \<open>The segments a chain could go on with.\<close>

definition candidates :: "sketch_math \<Rightarrow> SketchRegionSegment list \<Rightarrow> SketchRegionSegment list \<Rightarrow> SketchRegionSegment list" where
  "candidates M chain rest =
     filter (\<lambda>s. \<not> closes_itself s \<and> touches_anchor M (SegmentEnd M (last chain)) s) rest"

text \<open>A chain that is not closed and cannot go on, with the text that says why: no segment is left that
  touches its end, or several are.\<close>

definition stuck :: "sketch_math \<Rightarrow> SketchRegionSegment list \<Rightarrow> SketchRegionSegment list \<Rightarrow> string \<Rightarrow> bool" where
  "stuck M chain rest refusal \<longleftrightarrow> chain \<noteq> [] \<and> chained M chain \<and>
     f64_le kSketchMinSize (SketchGap M (SegmentEnd M (last chain)) (SegmentStart M (hd chain))) \<and>
     (candidates M chain rest = [] \<and>
        refusal = open_contour M chain (SegmentEnd M (last chain)) (SegmentStart M (hd chain)) \<or>
      2 \<le> length (candidates M chain rest) \<and>
        refusal = ''the sketch boundary is ambiguous where multiple curves meet'')"

lemma concat_when: "concat (map (\<lambda>i. if p i then [] else [f i]) xs) = map f (filter (\<lambda>i. \<not> p i) xs)"
  by (induction xs) auto

lemma length_loop_matches:
  "length (loop_matches M (SegmentEnd M (last chain)) rest) = length (candidates M chain rest)"
proof -
  let ?p = "\<lambda>s. \<not> closes_itself s \<and> touches_anchor M (SegmentEnd M (last chain)) s"
  have "length (loop_matches M (SegmentEnd M (last chain)) rest) = length (filter (\<lambda>i. ?p (rest ! i)) [0..<length rest])"
    by (simp add: loop_matches_def Let_def concat_when touches_anchor_def)
  also have "filter (\<lambda>i. ?p (rest ! i)) [0..<length rest] = filter (?p \<circ> (!) rest) [0..<length rest]" by (simp add: comp_def)
  also have "length \<dots> = length (filter ?p (map ((!) rest) [0..<length rest]))" unfolding filter_map length_map ..
  finally show ?thesis by (simp add: candidates_def map_nth)
qed

lemma extend_loop_refused:
  assumes "\<forall>s \<in> set pending. wf_segment s" "chain \<noteq> []" "chained M chain" "start = SegmentStart M (hd chain)"
    and "length chain + length pending \<le> limit" "extend_loop M limit start (SegmentEnd M (last chain)) chain pending = Inl refusal"
  shows "\<exists>chain' rest. curves chain' + curves rest = curves chain + curves pending \<and> stuck M chain' rest refusal"
  using assms
proof (induction pending arbitrary: chain rule: measure_induct_rule [where f = length])
  case (less pending)
  let ?finish = "SegmentEnd M (last chain)"
  have open_end: "f64_le kSketchMinSize (SketchGap M ?finish start)"
    using less.prems(6) by (subst (asm) extend_loop.simps) (simp split: if_splits)
  note run = less.prems(6) [unfolded extend_loop.simps [of M limit start ?finish chain pending]]
  show ?case
  proof (cases "\<exists>index backwards. loop_matches M ?finish pending = [(index, backwards)]")
    case True
    then obtain index backwards where m: "loop_matches M ?finish pending = [(index, backwards)]" by blast
    let ?s = "oriented backwards (pending ! index)"
    have index: "index < length pending" using loop_matches_index [of index backwards M ?finish pending] m by simp
    have meet: "near M ?finish (SegmentStart M ?s)"
      using loop_matches_meet(2) [of index backwards M ?finish pending] m less.prems(1) by simp
    have "extend_loop M limit start (SegmentEnd M (last (chain @ [?s]))) (chain @ [?s]) (remove_nth index pending) = Inl refusal"
      using run open_end m index less.prems(5) by (simp split: if_splits)
    moreover have "chained M (chain @ [?s])" using chained_snoc [OF less.prems(2,3) near_joined [OF meet]] .
    moreover have "\<forall>s \<in> set (remove_nth index pending). wf_segment s"
      using less.prems(1) set_remove_nth [of index pending] by blast
    moreover have "length (remove_nth index pending) < length pending"
      "length (chain @ [?s]) + length (remove_nth index pending) \<le> limit" "start = SegmentStart M (hd (chain @ [?s]))"
      using index less.prems(2,4,5) by auto
    ultimately obtain chain' rest where "curves chain' + curves rest = curves (chain @ [?s]) + curves (remove_nth index pending)"
      "stuck M chain' rest refusal"
      using less.IH [of "remove_nth index pending" "chain @ [?s]"] by auto
    then show ?thesis using curves_remove [OF index] by (intro exI [of _ chain'] exI [of _ rest]) simp
  next
    case False
    then have "loop_matches M ?finish pending = [] \<and> refusal = open_contour M chain ?finish start \<or>
        2 \<le> length (loop_matches M ?finish pending) \<and> refusal = ''the sketch boundary is ambiguous where multiple curves meet''"
      using run open_end by (auto split: list.splits)
    then have "stuck M chain pending refusal"
      using length_loop_matches [of M chain pending] less.prems(2-4) open_end by (auto simp: stuck_def)
    then show ?thesis by blast
  qed
qed

text \<open>A refused arrangement has closed some rings and is stuck on the next chain; the guard against an
  endless chain never fires.\<close>

lemma arrange_refused:
  "arrange M limit pending = Inl refusal \<Longrightarrow> \<forall>s \<in> set pending. wf_segment s \<Longrightarrow> length pending \<le> limit \<Longrightarrow>
   \<exists>rings chain rest. (\<forall>r \<in> set rings. ring M r) \<and>
     curves (concat rings) + curves chain + curves rest = curves pending \<and> stuck M chain rest refusal"
proof (induction M limit pending rule: arrange.induct)
  case (2 M limit first pending)
  show ?case
  proof (cases "closes_itself first")
    case True
    then have "arrange M limit pending = Inl refusal" using "2.prems"(1) by (auto split: sum.splits)
    then obtain rings chain rest where r: "\<forall>r \<in> set rings. ring M r"
      "curves (concat rings) + curves chain + curves rest = curves pending" "stuck M chain rest refusal"
      using "2.IH"(1) [OF True] "2.prems"(2,3) by auto
    show ?thesis
      by (rule exI [of _ "[first] # rings"], rule exI [of _ chain], rule exI [of _ rest]) (use r True in \<open>auto simp: ring_def\<close>)
  next
    case False
    show ?thesis
    proof (cases "extend_loop M limit (SegmentStart M first) (SegmentEnd M first) [first] pending")
      case (Inl e)
      then have "extend_loop M limit (SegmentStart M first) (SegmentEnd M (last [first])) [first] pending = Inl refusal"
        using "2.prems"(1) False by simp
      from extend_loop_refused [OF _ _ _ _ _ this] "2.prems"(2,3)
      obtain chain rest where "curves chain + curves rest = curves [first] + curves pending" "stuck M chain rest refusal"
        by (auto simp: chained_def)
      then show ?thesis by (intro exI [of _ "[]"] exI [of _ chain] exI [of _ rest]) simp
    next
      case (Inr out)
      then obtain closed left where e: "extend_loop M limit (SegmentStart M first) (SegmentEnd M first) [first] pending = Inr (closed, left)"
        by (cases out) auto
      then have step: "arrange M limit left = Inl refusal" using "2.prems"(1) False by (auto split: sum.splits)
      have r: "ring M closed \<and> set left \<subseteq> set pending"
        by (rule extend_loop_ring [OF _ _ _ _ _ _ e]) (use "2.prems"(2) False in \<open>simp_all add: chained_def\<close>)
      have "\<forall>s \<in> set left. wf_segment s" "length left \<le> limit"
        using r "2.prems"(2,3) extend_loop_pending [OF e] by auto
      then obtain rings chain rest where i: "\<forall>r \<in> set rings. ring M r"
        "curves (concat rings) + curves chain + curves rest = curves left" "stuck M chain rest refusal"
        using "2.IH"(2) [OF False e refl step] by blast
      show ?thesis
      proof (intro exI conjI)
        show "\<forall>r \<in> set (closed # rings). ring M r" using r i(1) by simp
        show "curves (concat (closed # rings)) + curves chain + curves rest = curves (first # pending)"
          using extend_loop_curves [OF e] by (simp add: i(2) [symmetric] ac_simps)
      qed (rule i(3))
    qed
  qed
qed simp

section \<open>What the lowering builds\<close>

lemma case_sum_eq:
  "(case x of Inl a \<Rightarrow> f a | Inr b \<Rightarrow> g b) = y \<longleftrightarrow> (\<exists>a. x = Inl a \<and> f a = y) \<or> (\<exists>b. x = Inr b \<and> g b = y)"
  by (cases x) auto

lemma wf_new_segment [simp]: "wf_segment (new_segment kind eid)"
  by (simp add: wf_segment_def new_segment_def)

lemma wf_built [simp]:
  "wf_segment (line_segment eid a b)" "wf_segment (arc_segment eid c r a1 a2 ccw a b)" "wf_segment (ellipse_segment eid c rx ry rot)"
  "wf_segment ((new_segment Circle_segment eid)\<lparr>seg_center := c, seg_radius := r\<rparr>)"
  "wf_segment ((new_segment Spline_segment eid)\<lparr>seg_closed := closed, seg_points := points\<rparr>)"
  by (simp_all add: wf_segment_def new_segment_def line_segment_def arc_segment_def ellipse_segment_def)

lemma wf_projected [simp]: "wf_segment (projected_segment M K S frame eid edge)"
  by (auto simp: projected_segment_def projected_spline_def Let_def split: prod.splits)

text \<open>The entity kinds, as one function of the eid.\<close>

definition entity_lowerings :: "sketch_math \<Rightarrow> json \<Rightarrow> json \<Rightarrow> string \<Rightarrow> lowered list" where
  "entity_lowerings M parameters entity eid =
     [lower_line parameters entity eid, lower_polyline parameters entity eid, lower_rectangle M parameters entity eid,
      lower_circle parameters entity eid, lower_arc_center M parameters entity eid, lower_arc_three_point M parameters entity eid,
      lower_ellipse parameters entity eid, lower_polygon M parameters entity eid, lower_slot M parameters entity eid,
      lower_spline parameters entity eid]"

lemma entity_lowerings_wf:
  assumes "out \<in> set (entity_lowerings M parameters entity eid)" "out = Inr (Inr built)"
  shows "\<forall>s \<in> set built. wf_segment s"
  using assms unfolding entity_lowerings_def set_simps
  by (elim insertE emptyE)
     (auto simp: lower_line_def lower_polyline_def lower_rectangle_def lower_circle_def lower_arc_center_def
        lower_arc_three_point_def lower_ellipse_def lower_polygon_def lower_slot_def lower_spline_def
        rbind_eq_Inr Let_def polyline_lines_def ring_lines_def slot_segments_def split: if_splits)

lemma lower_entity_kinds:
  assumes "lower_entity M parameters entity = Inr (Inr built)"
  shows "built = [] \<or> (\<exists>eid. Inr (Inr built) \<in> set (entity_lowerings M parameters entity eid))"
  using assms unfolding lower_entity_def entity_lowerings_def
  by (simp add: rbind_eq_Inr split: if_splits) metis+

lemma lower_entity_wf:
  assumes "lower_entity M parameters entity = Inr (Inr built)"
  shows "\<forall>s \<in> set built. wf_segment s"
  using lower_entity_kinds [OF assms] entity_lowerings_wf by fastforce

lemma lower_entities_wf:
  "lower_entities M parameters built entities = Inr (Inr all) \<Longrightarrow> \<forall>s \<in> set built. wf_segment s \<Longrightarrow> \<forall>s \<in> set all. wf_segment s"
proof (induction M parameters built entities rule: lower_entities.induct)
  case (2 M parameters built entity entities)
  from "2.prems"(1) obtain added where e: "lower_entity M parameters entity = Inr (Inr added)"
    "lower_entities M parameters (built @ added) entities = Inr (Inr all)"
    by (auto simp: rbind_eq_Inr case_sum_eq)
  show ?case using "2.IH" [OF e(1) refl e(2)] "2.prems"(2) lower_entity_wf [OF e(1)] by auto
qed simp

lemma boundary_segments_wf:
  assumes "boundary_segments M K S parameters frame bodies registry opId cancelled = Inr (Inr all)"
  shows "\<forall>s \<in> set all. wf_segment s"
proof -
  obtain entities built where e: "lower_entities M parameters [] entities = Inr (Inr built)"
    "lower_projections M K S frame bodies registry opId cancelled parameters built = Inr all"
    using assms by (auto simp: boundary_segments_def rbind_eq_Inr case_sum_eq)
  have built: "\<forall>s \<in> set built. wf_segment s" using lower_entities_wf [OF e(1)] by simp
  have "\<forall>s \<in> set t. wf_segment s"
    if "rfold (lower_projection M K S frame bodies r opId cancelled) built ps = Inr t" for r ps t
    using that built
    by (rule rfold_invariant) (auto simp: lower_projection_def rbind_eq_Inr split: if_splits)
  then show ?thesis using e(2) built
    by (auto simp: lower_projections_def simp del: rfold.simps split: option.splits json.splits list.splits)
qed

section \<open>Finished loops\<close>

lemma measure_loops_length: "measure_loops M S raw = Inr (Inr measured) \<Longrightarrow> length measured = length raw"
proof (induction raw arbitrary: measured)
  case (Cons chain raw)
  then show ?case by (auto simp: rbind_eq_Inr case_sum_eq)
qed simp

lemma arranged_regionsE:
  assumes "arranged_regions M S pending = Inr (Inr loops)"
  obtains raw measured where "arrange M (length pending) pending = Inr raw" "measure_loops M S raw = Inr (Inr measured)"
    "length measured = length raw" "loops = map (\<lambda>index. finish_loop measured index (raw ! index)) [0..<length raw]"
  using assms by (auto simp: arranged_regions_def rbind_eq_Inr case_sum_eq dest: measure_loops_length)

lemma finish_loop_curves: "curves (loop_segments (finish_loop measured index chain)) = curves chain"
proof -
  have "curves (map ReverseSegment (rev chain)) = curves chain" by (simp only: curves_simps)
  then show ?thesis by (simp add: finish_loop_def Let_def)
qed

lemma chained_reverse:
  assumes "\<forall>s \<in> set ss. wf_segment s \<and> \<not> closes_itself s" "chained M ss"
  shows "chained M (map ReverseSegment (rev ss))"
  unfolding chained_def
proof (intro allI impI)
  fix i
  assume "i + 1 < length (map ReverseSegment (rev ss))"
  then have i: "i + 1 < length ss" by simp
  let ?j = "length ss - 2 - i"
  have j: "?j + 1 < length ss" "length ss - Suc i = ?j + 1" "length ss - Suc (i + 1) = ?j" using i by auto
  have nth: "map ReverseSegment (rev ss) ! i = ReverseSegment (ss ! (?j + 1))"
    "map ReverseSegment (rev ss) ! (i + 1) = ReverseSegment (ss ! ?j)"
    using i j by (simp_all add: rev_nth)
  have wf: "wf_segment (ss ! ?j) \<and> \<not> closes_itself (ss ! ?j)" "wf_segment (ss ! (?j + 1)) \<and> \<not> closes_itself (ss ! (?j + 1))"
    using assms(1) j(1) nth_mem by (metis add_lessD1, metis)
  have "joined M (SegmentEnd M (ss ! ?j)) (SegmentStart M (ss ! (?j + 1)))" using assms(2) j(1) by (simp add: chained_def)
  then show "joined M (SegmentEnd M (map ReverseSegment (rev ss) ! i)) (SegmentStart M (map ReverseSegment (rev ss) ! (i + 1)))"
    unfolding nth using reverse_ends wf joined_sym by metis
qed

lemma ring_reverse:
  assumes "ring M ss"
  shows "ring M (map ReverseSegment (rev ss))"
proof (cases "\<exists>s. ss = [s] \<and> closes_itself s")
  case True
  then show ?thesis by (auto simp: ring_def)
next
  case False
  then have r: "ss \<noteq> []" "\<forall>s \<in> set ss. wf_segment s \<and> \<not> closes_itself s" "chained M ss"
    "joined M (SegmentEnd M (last ss)) (SegmentStart M (hd ss))"
    using assms by (auto simp: ring_def)
  have "hd (map ReverseSegment (rev ss)) = ReverseSegment (last ss)" "last (map ReverseSegment (rev ss)) = ReverseSegment (hd ss)"
    using r(1) by (simp_all add: hd_map hd_rev last_map last_rev)
  moreover have "joined M (SegmentEnd M (ReverseSegment (hd ss))) (SegmentStart M (ReverseSegment (last ss)))"
    using r reverse_ends joined_sym by (metis hd_in_set last_in_set)
  ultimately show ?thesis using r(1,2) chained_reverse [OF r(2,3)] by (simp add: ring_def)
qed

lemma finish_loop_ring: "ring M chain \<Longrightarrow> ring M (loop_segments (finish_loop measured index chain))"
  using ring_reverse by (auto simp: finish_loop_def Let_def)

lemma finish_loop_depth:
  "loop_depth (finish_loop measured index chain) = nesting_depth measured index"
  "loop_hole (finish_loop measured index chain) \<longleftrightarrow> odd (loop_depth (finish_loop measured index chain))"
  "loop_samples (finish_loop measured index chain) = fst (measured ! index)"
  by (simp_all add: finish_loop_def Let_def)


section \<open>The open path\<close>

lemma chained_cons:
  assumes "ss \<noteq> []" "chained M ss" "joined M (SegmentEnd M s) (SegmentStart M (hd ss))"
  shows "chained M (s # ss)"
  using assms by (auto simp: chained_def nth_Cons hd_conv_nth split: nat.splits)

lemma path_next_meets:
  assumes "wf_segment s" "\<not> closes_itself s" "touches_anchor M anchor s"
  shows "near M anchor (if forward then SegmentStart M (path_next M forward anchor s) else SegmentEnd M (path_next M forward anchor s))"
    and "wf_segment (path_next M forward anchor s) \<and> \<not> closes_itself (path_next M forward anchor s)"
  using assms reverse_ends [OF assms(1,2), of M] by (auto simp: path_next_def oriented_def touches_anchor_def)

definition path_ok :: "sketch_math \<Rightarrow> SketchRegionSegment list \<Rightarrow> bool" where
  "path_ok M ss \<longleftrightarrow> ss \<noteq> [] \<and> (\<forall>s \<in> set ss. wf_segment s \<and> \<not> closes_itself s) \<and> chained M ss"

lemma path_insert_ok:
  assumes "path_ok M ordered" "wf_segment s" "\<not> closes_itself s" "touches_anchor M (path_anchor M forward ordered) s"
  shows "path_ok M (path_insert forward (path_next M forward (path_anchor M forward ordered) s) ordered)"
proof -
  note meets = path_next_meets [OF assms(2-4), of forward]
  show ?thesis
  proof (cases forward)
    case True
    then show ?thesis using assms(1) meets near_joined chained_snoc [of ordered M]
      by (simp add: path_ok_def path_insert_def path_anchor_def)
  next
    case False
    then show ?thesis using assms(1) meets near_joined joined_sym chained_cons [of ordered M]
      by (simp add: path_ok_def path_insert_def path_anchor_def)
  qed
qed

lemma extend_path_ok:
  assumes "path_ok M ordered" "\<forall>s \<in> set pending. wf_segment s \<and> \<not> closes_itself s"
    and "extend_path M forward ordered pending = (ordered', rest)"
  shows "path_ok M ordered' \<and> set rest \<subseteq> set pending \<and> curves ordered' + curves rest = curves ordered + curves pending"
  using assms
proof (induction M forward ordered pending rule: extend_path.induct)
  case (1 M forward ordered pending)
  let ?anchor = "path_anchor M forward ordered"
  show ?case
  proof (cases "path_match M ?anchor pending")
    case None
    then show ?thesis using "1.prems" by (simp add: extend_path.simps)
  next
    case (Some index)
    let ?next = "path_next M forward ?anchor (pending ! index)"
    have index: "index < length pending" "touches_anchor M ?anchor (pending ! index)" using path_match_index [OF Some] by blast+
    have s: "wf_segment (pending ! index)" "\<not> closes_itself (pending ! index)" using "1.prems"(2) index(1) by simp_all
    have step: "extend_path M forward (path_insert forward ?next ordered) (remove_nth index pending) = (ordered', rest)"
      using "1.prems"(3) Some by (subst (asm) extend_path.simps) simp
    have "\<forall>s \<in> set (remove_nth index pending). wf_segment s \<and> \<not> closes_itself s"
      using "1.prems"(2) set_remove_nth [of index pending] by (meson subsetD)
    note rest = "1.IH" [OF Some path_insert_ok [OF "1.prems"(1) s index(2)] this step]
    have "curves (path_insert forward ?next ordered) = add_mset (curve_of (pending ! index)) (curves ordered)"
      by (simp add: path_insert_def path_next_def)
    then show ?thesis using rest curves_remove [OF index(1)] set_remove_nth [of index pending] by auto
  qed
qed

section \<open>The key of a region\<close>

lemma strict_sorted_remdups_adj: "sorted xs \<Longrightarrow> sorted_wrt (<) (remdups_adj xs)" for xs :: "'a :: linorder list"
  by (induction xs rule: remdups_adj.induct) (auto simp: order.strict_iff_order)

lemma sort_unique_eq_iff: "sort_unique xs = sort_unique ys \<longleftrightarrow> set xs = set ys" for xs ys :: "'a :: linorder list"
proof
  assume "set xs = set ys"
  then show "sort_unique xs = sort_unique ys"
    unfolding sort_unique_def by (intro strict_sorted_equal strict_sorted_remdups_adj) simp_all
next
  assume "sort_unique xs = sort_unique ys"
  then have "set (remdups_adj (sort xs)) = set (remdups_adj (sort ys))" by (simp add: sort_unique_def)
  then show "set xs = set ys" by simp
qed

definition plus_tail :: "string list \<Rightarrow> string" where
  "plus_tail eids = concat (map (\<lambda>eid. ''+'' @ eid) eids)"

lemma join_plus_Cons: "join_plus (eid # eids) = eid @ plus_tail eids"
proof -
  have "map2 (\<lambda>i e. (if i = 0 then [] else ''+'') @ e) [Suc k..<Suc k + length eids] eids = map (\<lambda>e. ''+'' @ e) eids" for k
  proof (induction eids arbitrary: k)
    case (Cons e es)
    then show ?case using Cons.IH [of "Suc k"] by (simp add: upt_conv_Cons del: upt_Suc)
  qed simp
  from this [of 0]
  have "map2 (\<lambda>i e. (if i = 0 then [] else ''+'') @ e) [Suc 0..<Suc (length eids)] eids = map (\<lambda>e. ''+'' @ e) eids"
    by (simp del: upt_Suc)
  moreover have "[0..<length (eid # eids)] = 0 # [Suc 0..<Suc (length eids)]" by (simp add: upt_conv_Cons del: upt_Suc)
  ultimately show ?thesis by (simp add: join_plus_def plus_tail_def del: upt_Suc)
qed

lemma plus_tail_head: "plus_tail eids = [] \<or> hd (plus_tail eids) = CHR ''+''"
  by (cases eids) (simp_all add: plus_tail_def)

lemma split_at_plus:
  assumes "x @ plus_tail xs = y @ plus_tail ys" "CHR ''+'' \<notin> set x" "CHR ''+'' \<notin> set y"
  shows "x = y \<and> plus_tail xs = plus_tail ys"
proof -
  have cut: "takeWhile (\<lambda>c. c \<noteq> CHR ''+'') (z @ plus_tail zs) = z" if "CHR ''+'' \<notin> set z" for z zs
  proof -
    have "takeWhile (\<lambda>c. c \<noteq> CHR ''+'') (plus_tail zs) = []" using plus_tail_head [of zs] by (cases "plus_tail zs") auto
    moreover have "c \<noteq> CHR ''+''" if "c \<in> set z" for c using that \<open>CHR ''+'' \<notin> set z\<close> by blast
    ultimately show ?thesis by (simp add: takeWhile_append2)
  qed
  have "x = y" using cut [OF assms(2), of xs] cut [OF assms(3), of ys] assms(1) by metis
  then show ?thesis using assms(1) by simp
qed

lemma plus_tail_inj:
  "\<forall>e \<in> set xs \<union> set ys. CHR ''+'' \<notin> set e \<Longrightarrow> plus_tail xs = plus_tail ys \<Longrightarrow> xs = ys"
proof (induction xs arbitrary: ys)
  case Nil
  then show ?case by (cases ys) (simp_all add: plus_tail_def)
next
  case (Cons x xs)
  then obtain y ys' where ys: "ys = y # ys'" by (cases ys) (simp_all add: plus_tail_def)
  have "x @ plus_tail xs = y @ plus_tail ys'" using Cons.prems(2) ys by (simp add: plus_tail_def)
  then have "x = y \<and> plus_tail xs = plus_tail ys'" using Cons.prems(1) ys by (intro split_at_plus) auto
  then show ?case using Cons.IH [of ys'] Cons.prems(1) ys by auto
qed

lemma join_plus_inj:
  assumes "\<forall>e \<in> set xs \<union> set ys. CHR ''+'' \<notin> set e \<and> e \<noteq> []" "join_plus xs = join_plus ys"
  shows "xs = ys"
proof (cases xs)
  case Nil
  then show ?thesis using assms by (cases ys) (simp_all add: join_plus_Cons, simp add: join_plus_def)
next
  case (Cons x xs')
  show ?thesis
  proof (cases ys)
    case Nil
    then show ?thesis using assms Cons by (simp add: join_plus_Cons) (simp add: join_plus_def)
  next
    case ys: (Cons y ys')
    then have "x = y \<and> plus_tail xs' = plus_tail ys'" using assms Cons by (intro split_at_plus) (auto simp: join_plus_Cons)
    then show ?thesis using plus_tail_inj [of xs' ys'] assms(1) Cons ys by auto
  qed
qed

end
