(* ===== verification/Sketch_Example.thy ===== *)
theory Sketch_Example
  imports Sketch_Laws Solve_Laws
begin

text \<open>
  Two concrete sketches: the triangle, which lowers to one closed region, and an arrowhead above it,
  which the nesting test of \<open>SketchClosedRegions\<close> takes for a hole of the triangle. The tables are the
  double arithmetic of their corners, each value as its bit pattern.
\<close>

definition corner :: "nat \<times> nat \<Rightarrow> SketchRegionPoint" where
  "corner p = pt (f64_of_nat (fst p)) (f64_of_nat (snd p))"

definition triangle :: "SketchRegionPoint list" where
  "triangle = map corner [(9, 9), (2, 2), (16, 2)]"

definition arrowhead :: "SketchRegionPoint list" where
  "arrowhead = map corner [(5, 7), (9, 10), (13, 7), (9, 11)]"

lemma corner_values:
  "f64_of_nat 5 = 0x4014000000000000"
  "f64_of_nat 7 = 0x401C000000000000"
  "f64_of_nat 9 = 0x4022000000000000"
  "f64_of_nat 10 = 0x4024000000000000"
  "f64_of_nat 13 = 0x402A000000000000"
  "f64_of_nat 11 = 0x4026000000000000"
  "f64_of_nat 2 = 0x4000000000000000"
  "f64_of_nat 16 = 0x4030000000000000"
  "f64_of_nat 4 = 0x4010000000000000"
  by (simp_all add: f64_arith_eval Let_def)

lemma corner_sums_1:
  "f64_add 0xC02A000000000000 0xC050C00000000000 = 0xC054000000000000"
  "f64_add 0xC054000000000000 0x4054000000000000 = 0"
  "f64_add 0xC03C000000000000 0x405F800000000000 = 0x4058800000000000"
  "f64_add 0x3FF4000000000000 0x4002000000000000 = 0x400C000000000000"
  "f64_add 0x3FFC000000000000 0x4004000000000000 = 0x4011000000000000"
  "f64_add 0x400C000000000000 0x400A000000000000 = 0x401B000000000000"
  "f64_add 0x4011000000000000 0x3FFC000000000000 = 0x4018000000000000"
  "f64_add 0x401B000000000000 0x4002000000000000 = 0x4022000000000000"
  "f64_add 0x4018000000000000 0x4006000000000000 = 0x4021800000000000"
  "f64_add 0x3FD0000000000000 0x4022000000000000 = 0x4022800000000000"
  by (simp_all add: f64_arith_eval Let_def)

lemma corner_sums_2:
  "f64_add 0x401B000000000000 0x4000000000000000 = 0x4021800000000000"
  "f64_add 0x3FFC000000000000 0x4014000000000000 = 0x401B000000000000"
  "f64_add 0xBFFAAAAAAAAAAAAB 0x4022000000000000 = 0x401D555555555555"
  "f64_add 0xC002AAAAAAAAAAAB 0x402A000000000000 = 0x4025555555555555"
  "f64_add 0x4002000000000000 0x4022000000000000 = 0x4026800000000000"
  "f64_add 0x4000000000000000 0x4022000000000000 = 0x4026000000000000"
  "f64_add 0x4014000000000000 0x4000000000000000 = 0x401C000000000000"
  by (simp_all add: f64_arith_eval Let_def)

lemma corner_differences_1:
  "f64_sub 0x4049000000000000 0x404F800000000000 = 0xC02A000000000000"
  "f64_sub 0x404F800000000000 0x4060400000000000 = 0xC050C00000000000"
  "f64_sub 0x4061E00000000000 0x404F800000000000 = 0x4054000000000000"
  "f64_sub 0x404F800000000000 0x404B800000000000 = 0x4020000000000000"
  "f64_sub 0x4032000000000000 0x4032000000000000 = 0"
  "f64_sub 0x4010000000000000 0x4040000000000000 = 0xC03C000000000000"
  "f64_sub 0x4062000000000000 0x4032000000000000 = 0x405F800000000000"
  "f64_sub 0x4030000000000000 0x4022000000000000 = 0x401C000000000000"
  "f64_sub 0x4021800000000000 0x4022000000000000 = 0xBFD0000000000000"
  "f64_sub 0x4000000000000000 0x4022000000000000 = 0xC01C000000000000"
  by (simp_all add: f64_arith_eval Let_def)

lemma corner_differences_2:
  "f64_sub 0x4022000000000000 0x4000000000000000 = 0x401C000000000000"
  "f64_sub 0x4021800000000000 0x4000000000000000 = 0x401B000000000000"
  "f64_sub 0x4022000000000000 0x4014000000000000 = 0x4010000000000000"
  "f64_sub 0x4021800000000000 0x401C000000000000 = 0x3FFC000000000000"
  "f64_sub 0x4026000000000000 0x401C000000000000 = 0x4010000000000000"
  "f64_sub 0x4014000000000000 0x4022000000000000 = 0xC010000000000000"
  "f64_sub 0x4021800000000000 0x4024000000000000 = 0xBFF4000000000000"
  "f64_sub 0x401C000000000000 0x4024000000000000 = 0xC008000000000000"
  "f64_sub 0x4022000000000000 0x402A000000000000 = 0xC010000000000000"
  "f64_sub 0x4024000000000000 0x401C000000000000 = 0x4008000000000000"
  by (simp_all add: f64_arith_eval Let_def)

lemma corner_differences_3:
  "f64_sub 0x402A000000000000 0x4022000000000000 = 0x4010000000000000"
  "f64_sub 0x4021800000000000 0x4026000000000000 = 0xC002000000000000"
  "f64_sub 0x401C000000000000 0x4026000000000000 = 0xC010000000000000"
  "f64_sub 0x401C000000000000 0x4022000000000000 = 0xC000000000000000"
  "f64_sub 0x401C000000000000 0x4000000000000000 = 0x4014000000000000"
  "f64_sub 0x4030000000000000 0x4000000000000000 = 0x402C000000000000"
  "f64_sub 0x4000000000000000 0x4000000000000000 = 0"
  "f64_sub 0x4022000000000000 0x4030000000000000 = 0xC01C000000000000"
  "f64_sub 0x4000000000000000 0x4030000000000000 = 0xC02C000000000000"
  by (simp_all add: f64_arith_eval Let_def)

lemma corner_products_1:
  "f64_mul 0x4014000000000000 0x4024000000000000 = 0x4049000000000000"
  "f64_mul 0x4022000000000000 0x401C000000000000 = 0x404F800000000000"
  "f64_mul 0x402A000000000000 0x4024000000000000 = 0x4060400000000000"
  "f64_mul 0x402A000000000000 0x4026000000000000 = 0x4061E00000000000"
  "f64_mul 0x4014000000000000 0x4026000000000000 = 0x404B800000000000"
  "f64_mul 0x4022000000000000 0x4000000000000000 = 0x4032000000000000"
  "f64_mul 0x4000000000000000 0x4022000000000000 = 0x4032000000000000"
  "f64_mul 0x4000000000000000 0x4000000000000000 = 0x4010000000000000"
  "f64_mul 0x4030000000000000 0x4000000000000000 = 0x4040000000000000"
  "f64_mul 0x4030000000000000 0x4022000000000000 = 0x4062000000000000"
  by (simp_all add: f64_arith_eval Let_def)

lemma corner_products_2:
  "f64_mul 0x401C000000000000 0xBFD0000000000000 = 0xBFFC000000000000"
  "f64_mul 0x401C000000000000 0x401B000000000000 = 0x4047A00000000000"
  "f64_mul 0x4010000000000000 0x3FFC000000000000 = 0x401C000000000000"
  "f64_mul 0xC010000000000000 0xBFF4000000000000 = 0x4014000000000000"
  "f64_mul 0xC010000000000000 0x3FFC000000000000 = 0xC01C000000000000"
  "f64_mul 0x4010000000000000 0xC002000000000000 = 0xC022000000000000"
  "f64_mul 0x401C000000000000 0xC000000000000000 = 0xC02C000000000000"
  "f64_mul 0x401C000000000000 0x4014000000000000 = 0x4041800000000000"
  by (simp_all add: f64_arith_eval Let_def)

lemma corner_quotients_1:
  "f64_div 0x4020000000000000 0x4000000000000000 = 0x4010000000000000"
  "f64_div 0x4058800000000000 0x4000000000000000 = 0x4048800000000000"
  "f64_div 0x4014000000000000 0x4010000000000000 = 0x3FF4000000000000"
  "f64_div 0x401C000000000000 0x4010000000000000 = 0x3FFC000000000000"
  "f64_div 0x4022000000000000 0x4010000000000000 = 0x4002000000000000"
  "f64_div 0x4024000000000000 0x4010000000000000 = 0x4004000000000000"
  "f64_div 0x402A000000000000 0x4010000000000000 = 0x400A000000000000"
  "f64_div 0x4026000000000000 0x4010000000000000 = 0x4006000000000000"
  "f64_div 0xBFFC000000000000 0xC01C000000000000 = 0x3FD0000000000000"
  "f64_div 0x4047A00000000000 0x401C000000000000 = 0x401B000000000000"
  by (simp_all add: f64_arith_eval Let_def)

lemma corner_quotients_2:
  "f64_div 0x4014000000000000 0xC008000000000000 = 0xBFFAAAAAAAAAAAAB"
  "f64_div 0xC01C000000000000 0x4008000000000000 = 0xC002AAAAAAAAAAAB"
  "f64_div 0xC022000000000000 0xC010000000000000 = 0x4002000000000000"
  "f64_div 0xC02C000000000000 0xC01C000000000000 = 0x4000000000000000"
  "f64_div 0x4041800000000000 0x401C000000000000 = 0x4014000000000000"
  by (simp_all add: f64_arith_eval Let_def)

lemma corner_compares:
  "f64_less 0x4021800000000000 0x4022000000000000"
  "\<not> f64_less 0x4021800000000000 0x4000000000000000"
  "f64_less 0x4022000000000000 0x4022800000000000"
  "\<not> f64_less 0x4022000000000000 0x4021800000000000"
  "\<not> f64_less 0x4021800000000000 0x401C000000000000"
  "f64_less 0x4021800000000000 0x4026000000000000"
  "\<not> f64_less 0x4022000000000000 0x401B000000000000"
  "f64_less 0x4021800000000000 0x4024000000000000"
  "\<not> f64_less 0x4022000000000000 0x401D555555555555"
  "f64_less 0x4022000000000000 0x4025555555555555"
  "f64_less 0x4022000000000000 0x4026800000000000"
  "f64_less 0x401C000000000000 0x4022000000000000"
  "\<not> f64_less 0x401C000000000000 0x4000000000000000"
  "f64_less 0x4014000000000000 0x4026000000000000"
  "f64_less 0x4014000000000000 0x401C000000000000"
  "\<not> f64_less 0x4024000000000000 0x4022000000000000"
  "\<not> f64_less 0x4024000000000000 0x4000000000000000"
  "\<not> f64_less 0x402A000000000000 0x4026000000000000"
  "\<not> f64_less 0x402A000000000000 0x401C000000000000"
  "\<not> f64_less 0x4026000000000000 0x4022000000000000"
  "\<not> f64_less 0x4026000000000000 0x4000000000000000"
  by (simp_all add: f64_less_def f64_le_def f64_eq_def f64_nan_def f64_rank_def f64_sign_def f64_exp_def f64_frac_def)

lemma area_compares:
  "\<not> f64_le 0x4048800000000000 0x4010000000000000"
  "f64_le 0x4010000000000000 0x4048800000000000"
  by (simp_all add: f64_less_def f64_le_def f64_eq_def f64_nan_def f64_rank_def f64_sign_def f64_exp_def f64_frac_def)

lemma area_values:
  "f64_abs 0x4048800000000000 = 0x4048800000000000"
  "f64_abs 0x4010000000000000 = 0x4010000000000000"
  by (simp_all add: f64_arith_eval Let_def)

lemmas corner_arith =
  corner_values corner_sums_1 corner_sums_2 corner_differences_1 corner_differences_2 corner_differences_3 corner_products_1 corner_products_2 corner_quotients_1 corner_quotients_2 corner_compares area_compares area_values

lemma zero_plus_corner:
  assumes "b \<in> {0x4020000000000000, 0xC02A000000000000, 0xC03C000000000000, 0x3FF4000000000000, 0x3FFC000000000000}"
  shows "f64_add 0 b = b"
  using assms by (elim insertE emptyE; simp only:; intro f64_add_zero)
    (simp_all add: f64_zero_def f64_eq_def f64_neg_def f64_nan_def f64_rank_def f64_sign_def f64_exp_def f64_frac_def f64_finite_def)

lemma corner_points:
  "arrowhead = [pt 0x4014000000000000 0x401C000000000000, pt 0x4022000000000000 0x4024000000000000,
     pt 0x402A000000000000 0x401C000000000000, pt 0x4022000000000000 0x4026000000000000]"
  "triangle = [pt 0x4022000000000000 0x4022000000000000, pt 0x4000000000000000 0x4000000000000000, pt 0x4030000000000000 0x4000000000000000]"
  by (simp_all add: arrowhead_def triangle_def corner_def corner_values)

lemma corner_counts: "length arrowhead = 4" "length triangle = 3"
  by (simp_all add: arrowhead_def triangle_def)

lemma corner_areas: "RegionPolygonArea arrowhead = 0x4010000000000000" "RegionPolygonArea triangle = 0x4048800000000000"
proof -
  have indices: "[0..<4] = [0, 1, 2, 3]" "[0..<3] = [0, 1, 2]" by (simp_all add: upt_rec)
  show "RegionPolygonArea arrowhead = 0x4010000000000000" "RegionPolygonArea triangle = 0x4048800000000000"
    unfolding RegionPolygonArea_def corner_counts indices two_def
    by (simp_all add: corner_points corner_arith zero_plus_corner f64_zero_plus)
qed

lemma arrowhead_probe: "sample_probe arrowhead = pt 0x4022000000000000 0x4021800000000000"
  unfolding sample_probe_def corner_counts by (simp add: corner_points corner_arith zero_plus_corner)

lemma arrowhead_misplaced:
  "RegionPointInPolygon (sample_probe arrowhead) triangle" "\<not> RegionPointInPolygon (sample_probe arrowhead) arrowhead"
  unfolding arrowhead_probe by (simp_all add: RegionPointInPolygon_def corner_points crosses_ray_def corner_arith)

lemma corners_apart: "p \<in> set arrowhead \<Longrightarrow> \<not> RegionPointInPolygon p triangle"
  by (auto simp: RegionPointInPolygon_def corner_points crosses_ray_def corner_arith)

section \<open>The triangle as a sketch\<close>

text \<open>The distance here is the discrete one: 0 from a point to itself and 1 to any other.\<close>

definition example_math :: sketch_math where
  "example_math = \<lparr>sk_sin = (\<lambda>x. x), sk_cos = (\<lambda>x. x), sk_atan2 = (\<lambda>y x. y),
     sk_hypot = (\<lambda>x y. if x = 0 \<and> y = 0 then 0 else 0x3FF0000000000000), sk_fmod = (\<lambda>x y. x)\<rparr>"

definition triangle_parameters :: json where
  "triangle_parameters = JObject [(''entities'', JArray [JObject
     [(''kind'', JString ''polyline''), (''eid'', JString ''e''), (''closed'', JBool True),
      (''points'', JArray (map (\<lambda>(u, v). JArray [JUInt u, JUInt v]) [(9, 9), (2, 2), (16, 2)]))]])]"

definition triangle_sides :: "SketchRegionSegment list" where
  "triangle_sides = [line_segment ''e:0'' (triangle ! 0) (triangle ! 1), line_segment ''e:1'' (triangle ! 1) (triangle ! 2),
     line_segment ''e:close'' (triangle ! 2) (triangle ! 0)]"

lemma part_names: "part_name ''e'' 0 = ''e:0''" "part_name ''e'' (Suc 0) = ''e:1''"
  by (simp_all add: part_name_def decimal.simps digit_char_def)

lemma unsolved: "jfind parameters ''solution'' = None \<Longrightarrow> SolvedSketchValues parameters eid n = Inr None"
  by (simp add: SolvedSketchValues_def)

lemma triangle_segments:
  "boundary_segments M K S triangle_parameters frame bodies registry opId cancelled = Inr (Inr triangle_sides)"
  by (simp add: boundary_segments_def lower_projections_def jat_def jfind_def elements_def lower_entity_def jvalue_def
      lower_polyline_def unsolved triangle_parameters_def triangle_sides_def
      triangle_def points_of_def jsize_def upt_rec point_or_def jindex_def pointFromJson_def get_at_def jat_index_def
      get_double_def get_string_def get_bool_def is_object_def polyline_lines_def part_names corner_def)

lemma minimum_size: "f64_less 0 kSketchMinSize" "\<not> f64_less 0x3FF0000000000000 kSketchMinSize"
  "\<not> f64_le kSketchMinSize 0" "f64_le kSketchMinSize 0x3FF0000000000000"
  "\<not> f64_less 0x4048800000000000 (f64_mul kSketchMinSize kSketchMinSize)"
  by (simp_all add: kSketchMinSize_def f64_arith_eval Let_def)

lemma corner_equal: "f64_sub 0x4022000000000000 0x4022000000000000 = 0" "f64_sub 0x4030000000000000 0x4030000000000000 = 0"
  by (simp_all add: f64_arith_eval Let_def)

lemma triangle_gaps:
  assumes "a \<in> set triangle" "b \<in> set triangle"
  shows "near example_math a b \<longleftrightarrow> a = b" "f64_le kSketchMinSize (SketchGap example_math a b) \<longleftrightarrow> a \<noteq> b"
  using assms by (auto simp: corner_points near_def SketchGap_def example_math_def corner_arith corner_equal minimum_size)

lemma example_corners:
  "triangle ! 0 \<in> set triangle" "triangle ! 1 \<in> set triangle" "triangle ! 2 \<in> set triangle"
  "triangle ! 0 \<noteq> triangle ! 1" "triangle ! 0 \<noteq> triangle ! 2" "triangle ! 1 \<noteq> triangle ! 2"
  by (simp_all add: corner_points)

lemma line_ends [simp]:
  "SegmentStart M (line_segment eid a b) = a" "SegmentEnd M (line_segment eid a b) = b" "\<not> closes_itself (line_segment eid a b)"
  "SampleRegionSegment M S (line_segment eid a b) = Inr [a, b]"
  by (simp_all add: SegmentStart_def SegmentEnd_def closes_itself_def line_segment_def new_segment_def SampleRegionSegment_def)

lemma triangle_arranged: "arrange example_math 3 triangle_sides = Inr [triangle_sides]"
proof -
  obtain a b c where t: "a = triangle ! 0" "b = triangle ! 1" "c = triangle ! 2" by simp
  show ?thesis
    unfolding triangle_sides_def t [symmetric] using example_corners [folded t]
    by (simp add: extend_loop.simps loop_matches_def upt_rec triangle_gaps oriented_def remove_nth_def)
qed

lemma triangle_measured: "measure_loop example_math S triangle_sides = Inr (Inr (triangle, 0x4048800000000000))"
proof -
  have sample: "loop_sample example_math (concat [[triangle ! 0, triangle ! 1], [triangle ! 1, triangle ! 2], [triangle ! 2, triangle ! 0]]) = triangle"
    using example_corners by (simp add: loop_sample_def add_sample_def triangle_gaps) (simp add: corner_points)
  show ?thesis
    using sample by (simp add: triangle_sides_def measure_loop_def Let_def corner_areas corner_counts area_values minimum_size self_intersects_def upt_rec)
qed

definition triangle_loop :: SketchRegionLoop where
  "triangle_loop = \<lparr>loop_segments = triangle_sides, loop_samples = triangle, loop_signedArea = 0x4048800000000000,
     loop_depth = 0, loop_hole = False\<rparr>"

lemma triangle_finished: "finish_loop [(triangle, 0x4048800000000000)] 0 triangle_sides = triangle_loop"
proof -
  have "f64_le 0 0x4048800000000000" by (simp add: f64_le_def f64_less_def f64_eq_def f64_nan_def f64_rank_def f64_sign_def f64_exp_def f64_frac_def)
  then show ?thesis by (simp add: finish_loop_def nesting_depth_def encloses_def triangle_loop_def)
qed

lemma triangle_regions:
  "SketchClosedRegions example_math K S triangle_parameters frame bodies registry opId cancelled = Inr ([triangle_loop], [], triangle_sides)"
proof -
  have "length triangle_sides = 3" by (simp add: triangle_sides_def)
  then have "arranged_regions example_math S triangle_sides = Inr (Inr [triangle_loop])"
    by (simp add: arranged_regions_def triangle_arranged triangle_measured triangle_finished)
  then show ?thesis by (simp add: SketchClosedRegions_def triangle_segments)
qed

section \<open>A path of two lines\<close>

definition corner_parameters :: json where
  "corner_parameters = JObject [(''entities'', JArray [JObject
     [(''kind'', JString ''polyline''), (''eid'', JString ''e''), (''closed'', JBool False),
      (''points'', JArray (map (\<lambda>(u, v). JArray [JUInt u, JUInt v]) [(9, 9), (2, 2), (16, 2)]))]])]"

definition corner_sides :: "SketchRegionSegment list" where
  "corner_sides = [line_segment ''e:0'' (triangle ! 0) (triangle ! 1), line_segment ''e:1'' (triangle ! 1) (triangle ! 2)]"

lemma corner_segments:
  "boundary_segments M K S corner_parameters frame bodies registry opId cancelled = Inr (Inr corner_sides)"
  by (simp add: boundary_segments_def lower_projections_def jat_def jfind_def elements_def lower_entity_def jvalue_def
      lower_polyline_def unsolved corner_parameters_def corner_sides_def
      triangle_def points_of_def jsize_def upt_rec point_or_def jindex_def pointFromJson_def get_at_def jat_index_def
      get_double_def get_string_def get_bool_def is_object_def polyline_lines_def part_names corner_def)

lemma corner_path: "open_path example_math corner_sides = Some corner_sides"
proof -
  obtain a b c where t: "a = triangle ! 0" "b = triangle ! 1" "c = triangle ! 2" by simp
  show ?thesis
    unfolding corner_sides_def t [symmetric] using example_corners [folded t]
    by (simp add: open_path_def extend_path.simps path_match_def touches_anchor_def path_anchor_def path_next_def path_insert_def
        upt_rec triangle_gaps oriented_def remove_nth_def)
qed

end
