(* ===== verification/Sketch_Properties.thy ===== *)
theory Sketch_Properties
  imports Sketch_Example
begin

text \<open>
  What the closed regions and the open path of a sketch promise, with the triangle as the example.
\<close>

section \<open>What the sketch gives\<close>

lemma SketchClosedRegionsE:
  assumes "SketchClosedRegions M K S parameters frame bodies registry opId cancelled = Inr (loops, [], pending)"
    and "loops \<noteq> []"
  obtains "boundary_segments M K S parameters frame bodies registry opId cancelled = Inr (Inr pending)"
    "arranged_regions M S pending = Inr (Inr loops)"
  using assms by (auto simp: SketchClosedRegions_def rbind_eq_Inr case_sum_eq)

lemma curves_concat_cong:
  "\<forall>i \<in> set is. curves (f i) = curves (g i) \<Longrightarrow> curves (concat (map f is)) = curves (concat (map g is))"
  by (induction "is") simp_all

lemma arranged_regions_curves:
  assumes "arranged_regions M S pending = Inr (Inr loops)"
  shows "curves (concat (map loop_segments loops)) = curves pending"
proof -
  obtain raw measured where e: "arrange M (length pending) pending = Inr raw"
    "loops = map (\<lambda>index. finish_loop measured index (raw ! index)) [0..<length raw]"
    using assms by (rule arranged_regionsE)
  have "curves (concat (map loop_segments loops)) = curves (concat (map (\<lambda>index. raw ! index) [0..<length raw]))"
    unfolding e(2) map_map comp_def by (rule curves_concat_cong) (simp add: finish_loop_curves)
  then show ?thesis using arrange_curves [OF e(1)] by (simp add: map_nth)
qed

lemma arranged_regions_rings:
  assumes "arranged_regions M S pending = Inr (Inr loops)" "\<forall>s \<in> set pending. wf_segment s" "loop \<in> set loops"
  shows "ring M (loop_segments loop)"
proof -
  obtain raw measured where e: "arrange M (length pending) pending = Inr raw"
    "loops = map (\<lambda>index. finish_loop measured index (raw ! index)) [0..<length raw]"
    using assms(1) by (rule arranged_regionsE)
  have "\<forall>chain \<in> set raw. ring M chain" using arrange_rings [OF e(1) assms(2)] .
  then show ?thesis using assms(3) e(2) finish_loop_ring by auto
qed

section \<open>Closed regions\<close>

text \<open>C17. The loops of a sketch are a partition of its boundary: every segment of the lowered sketch
  is in one loop, once, up to its direction, and each loop is a ring, one closed curve or a chain of
  open segments whose consecutive ends, and whose last and first, lie within the minimum size.\<close>

theorem regions_partition_the_boundary:
  assumes "SketchClosedRegions M K S parameters frame bodies registry opId cancelled = Inr (loops, [], pending)" "loops \<noteq> []"
  shows "curves (concat (map loop_segments loops)) = curves pending \<and> (\<forall>loop \<in> set loops. ring M (loop_segments loop))"
proof -
  from assms obtain b: "boundary_segments M K S parameters frame bodies registry opId cancelled = Inr (Inr pending)"
    and a: "arranged_regions M S pending = Inr (Inr loops)" by (rule SketchClosedRegionsE)
  show ?thesis
    using arranged_regions_curves [OF a] arranged_regions_rings [OF a boundary_segments_wf [OF b]] by blast
qed

corollary regions_partition_the_boundary_witness:
  "\<forall>K S frame bodies registry opId cancelled.
     SketchClosedRegions example_math K S triangle_parameters frame bodies registry opId cancelled = Inr ([triangle_loop], [], triangle_sides) \<and>
     curves (concat (map loop_segments [triangle_loop])) = curves triangle_sides \<and>
     (\<forall>loop \<in> set [triangle_loop]. ring example_math (loop_segments loop))"
  by (intro allI conjI triangle_regions) (use regions_partition_the_boundary [OF triangle_regions] in simp_all)

section \<open>Refused sketches\<close>

lemma measure_loops_refused:
  "measure_loops M S raw = Inr (Inl refusal) \<Longrightarrow> \<exists>chain \<in> set raw. measure_loop M S chain = Inr (Inl refusal)"
  by (induction raw) (auto simp: rbind_eq_Inr case_sum_eq)

lemma arranged_regions_refused:
  assumes "arranged_regions M S pending = Inr (Inl refusal)"
  shows "arrange M (length pending) pending = Inl refusal \<or>
    (\<exists>rings. arrange M (length pending) pending = Inr rings \<and> (\<exists>chain \<in> set rings. measure_loop M S chain = Inr (Inl refusal)))"
  using assms by (auto simp: arranged_regions_def rbind_eq_Inr case_sum_eq dest: measure_loops_refused)

lemma arranged_regions_none:
  assumes "arranged_regions M S pending = Inr (Inr [])"
  shows "pending = []"
  using arranged_regions_curves [OF assms] by (simp add: curves_def)


text \<open>Two lines that do not close: the refusal is a gap between their outer ends.\<close>

lemma corner_refused:
  "\<exists>refusal. SketchClosedRegions example_math K S corner_parameters frame bodies registry opId cancelled = Inr ([], refusal, corner_sides)"
proof -
  obtain a b c where t: "a = triangle ! 0" "b = triangle ! 1" "c = triangle ! 2" by simp
  have "\<exists>refusal. arrange example_math (length corner_sides) corner_sides = Inl refusal"
    unfolding corner_sides_def t [symmetric] using example_corners [folded t]
    by (simp add: extend_loop.simps loop_matches_def upt_rec triangle_gaps oriented_def remove_nth_def)
  then show ?thesis by (auto simp: SketchClosedRegions_def corner_segments arranged_regions_def)
qed


section \<open>The open path\<close>

lemma open_path_path_ok:
  assumes "open_path M pending = Some ordered" "\<forall>s \<in> set pending. wf_segment s"
  shows "path_ok M ordered \<and> curves ordered = curves pending \<and> \<not> near M (SegmentStart M (hd ordered)) (SegmentEnd M (last ordered))"
proof -
  obtain first others where p: "pending = first # others" using assms(1) by (cases pending) (auto simp: open_path_def)
  obtain forward rest where f: "extend_path M True [first] others = (forward, rest)" by fastforce
  have no: "\<forall>s \<in> set pending. wf_segment s \<and> \<not> closes_itself s"
    using assms by (auto simp: open_path_def list_ex_iff split: if_splits)
  have b: "extend_path M False forward rest = (ordered, [])"
    and apart: "\<not> near M (SegmentStart M (hd ordered)) (SegmentEnd M (last ordered))"
    using assms(1) f p by (auto simp: open_path_def split: if_splits prod.splits)
  have "path_ok M [first]" using no p by (simp add: path_ok_def chained_def)
  from extend_path_ok [OF this _ f] no p
  have step: "path_ok M forward" "set rest \<subseteq> set others" "curves forward + curves rest = curves [first] + curves others" by auto
  then have "\<forall>s \<in> set rest. wf_segment s \<and> \<not> closes_itself s" using no p by auto
  from extend_path_ok [OF step(1) this b] step(3) p apart show ?thesis by simp
qed

text \<open>C19. A sketch that encloses nothing becomes a path only when one path uses all of it: the ordered
  run has every segment of the sketch once, up to its direction, consecutive ends meet, and its two
  ends do not.\<close>

theorem open_path_uses_every_segment:
  assumes "boundary_segments M K S parameters frame bodies registry opId cancelled = Inr (Inr pending)"
    and "open_path M pending = Some ordered"
  shows "curves ordered = curves pending \<and> chained M ordered \<and>
    \<not> near M (SegmentStart M (hd ordered)) (SegmentEnd M (last ordered))"
  using open_path_path_ok [OF assms(2) boundary_segments_wf [OF assms(1)]] by (simp add: path_ok_def)

corollary open_path_uses_every_segment_witness:
  "\<forall>K S frame bodies registry opId cancelled. \<exists>ordered.
     boundary_segments example_math K S corner_parameters frame bodies registry opId cancelled = Inr (Inr corner_sides) \<and>
     open_path example_math corner_sides = Some ordered \<and> curves ordered = curves corner_sides \<and> chained example_math ordered"
  by (intro allI exI [of _ corner_sides] conjI corner_segments corner_path)
    (use open_path_uses_every_segment [OF corner_segments corner_path] in simp_all)

section \<open>Region keys\<close>

text \<open>C21. The key of a region names exactly the entities on its boundary: two regions whose entity ids
  have no plus sign have the same key if and only if the same entities bound them, in whatever order
  and however often the loops pass them.\<close>

theorem region_key_names_its_entities:
  assumes "\<forall>eid \<in> set (loop_eids a) \<union> set (loop_eids b). CHR ''+'' \<notin> set eid"
  shows "region_key a = region_key b \<longleftrightarrow> set (loop_eids a) = set (loop_eids b)"
proof -
  have sets: "set (sort_unique (loop_eids l)) = set (loop_eids l)" for l by (simp add: sort_unique_def)
  have "\<forall>eid \<in> set (sort_unique (loop_eids a)) \<union> set (sort_unique (loop_eids b)). CHR ''+'' \<notin> set eid \<and> eid \<noteq> []"
    using assms unfolding sets by (auto simp: loop_eids_def)
  then have "join_plus (sort_unique (loop_eids a)) = join_plus (sort_unique (loop_eids b)) \<longleftrightarrow>
      sort_unique (loop_eids a) = sort_unique (loop_eids b)"
    using join_plus_inj by metis
  then show ?thesis by (simp add: region_key_def sort_unique_eq_iff)
qed

corollary region_key_names_its_entities_witness:
  "list_all (\<lambda>eid. CHR ''+'' \<notin> set eid) (loop_eids [triangle_loop] @ loop_eids [triangle_loop, triangle_loop]) \<and>
   region_key [triangle_loop] = region_key [triangle_loop, triangle_loop]"
proof -
  have eids: "loop_eids [triangle_loop] = [''e:0'', ''e:1'', ''e:close'']"
    by (simp add: loop_eids_def triangle_loop_def triangle_sides_def line_segment_def new_segment_def)
  then have twice: "loop_eids [triangle_loop, triangle_loop] = loop_eids [triangle_loop] @ loop_eids [triangle_loop]"
    by (simp add: loop_eids_def)
  have plain: "\<forall>eid \<in> set (loop_eids [triangle_loop]) \<union> set (loop_eids [triangle_loop, triangle_loop]). CHR ''+'' \<notin> set eid"
    unfolding twice eids by simp
  show ?thesis using region_key_names_its_entities [OF plain] plain twice by (simp add: list_all_iff)
qed

section \<open>Nesting\<close>

text \<open>The nesting test takes the average of a loop's samples for a point of the loop, and for a loop
  that is not convex it need not be one: an arrowhead above a triangle that does not touch it has its
  probe outside itself and inside the triangle, so it counts as a hole of the triangle.\<close>

lemma arrowhead_counts_as_a_hole:
  "(\<forall>p \<in> set arrowhead. \<not> RegionPointInPolygon p triangle) \<and> \<not> RegionPointInPolygon (sample_probe arrowhead) arrowhead \<and>
   loop_hole (finish_loop [(arrowhead, RegionPolygonArea arrowhead), (triangle, RegionPolygonArea triangle)] 0 chain)"
proof -
  have "nesting_depth [(arrowhead, RegionPolygonArea arrowhead), (triangle, RegionPolygonArea triangle)] 0 = 1"
    by (simp add: nesting_depth_def encloses_def arrowhead_misplaced corner_areas area_values area_compares)
  then show ?thesis using corners_apart arrowhead_misplaced(2) by (simp add: finish_loop_depth)
qed

end
