(* ===== verification/Sketch_System.thy ===== *)
theory Sketch_System
  imports F64_Arith Json_Value
begin

text \<open>
  The constraint system of a sketch (\<open>sketch_solver.hpp\<close>, first half of \<open>sketch_solver.cpp\<close>): its
  entities and constraints, the validation, the layout of the solver's parameters and the points
  that anchors name. The functions of the C library that IEEE 754 does not fix are the record
  \<open>solver_math\<close>.
\<close>

section \<open>The system\<close>

record solver_math =
  sv_sin :: "f64 \<Rightarrow> f64"
  sv_cos :: "f64 \<Rightarrow> f64"
  sv_atan2 :: "f64 \<Rightarrow> f64 \<Rightarrow> f64"
  sv_hypot :: "f64 \<Rightarrow> f64 \<Rightarrow> f64"
  sv_remainder :: "f64 \<Rightarrow> f64 \<Rightarrow> f64"

datatype SketchSolverEntityKind =
    Point_entity | Line_entity | Polyline_entity | Rectangle_entity | Circle_entity | Arc_entity
  | ArcThreePoint_entity | Ellipse_entity | Polygon_entity | Slot_entity | Spline_entity

record SketchSolverEntity =
  ent_eid :: string
  ent_sort :: SketchSolverEntityKind
  ent_values :: "f64 list"

datatype SketchSolverAnchorPosition = Point_anchor | Start_anchor | End_anchor | Center_anchor | Mid_anchor

record SketchSolverAnchor =
  anc_eid :: string
  anc_position :: SketchSolverAnchorPosition

datatype SketchSolverConstraintKind =
    Coincident | Horizontal | Vertical | Distance | Radius | Midpoint | Collinear | HorizontalDistance
  | VerticalDistance | Length | Diameter | Fixed | Parallel | Perpendicular | Tangent | Equal | Concentric
  | Symmetry | Angle

record SketchSolverConstraint =
  con_cid :: string
  con_kind :: SketchSolverConstraintKind
  con_anchors :: "SketchSolverAnchor list"
  con_value :: f64
  con_driving :: bool

record SketchSolverSystem =
  sys_entities :: "SketchSolverEntity list"
  sys_constraints :: "SketchSolverConstraint list"
  sys_grounded :: "string list"

datatype SketchSolverStatus = Converged | Conflicting | Redundant | DidNotConverge | Invalid

record SketchSolverResult =
  res_status :: SketchSolverStatus
  res_entities :: "SketchSolverEntity list"
  res_degreesOfFreedom :: int
  res_conflicting :: "string list"
  res_redundant :: "string list"
  res_message :: string

definition new_result :: SketchSolverResult where
  "new_result = \<lparr>res_status = Invalid, res_entities = [], res_degreesOfFreedom = 0, res_conflicting = [],
     res_redundant = [], res_message = []\<rparr>"

definition Invalid_result :: "string \<Rightarrow> SketchSolverResult" where
  "Invalid_result message = new_result\<lparr>res_status := Invalid, res_message := message\<rparr>"

fun join_names :: "string list \<Rightarrow> string" where
  "join_names [] = []"
| "join_names [name] = name"
| "join_names (name # names) = name @ '', '' @ join_names names"

definition Conflict_result :: "string list \<Rightarrow> int \<Rightarrow> SketchSolverResult" where
  "Conflict_result names dof =
     (let unique = sort_unique names
      in new_result\<lparr>res_status := Conflicting, res_conflicting := unique, res_degreesOfFreedom := dof,
           res_message :=
             (if unique = [] then ''These constraints cannot all be satisfied at once.''
              else ''These constraints cannot all be satisfied at once: '' @ join_names unique @ ''.'')\<rparr>)"

text \<open>A step that ends the solve with a result, or goes on.\<close>

type_synonym 'a step = "SketchSolverResult + 'a"

definition invalid :: "string \<Rightarrow> 'a step" where
  "invalid message = Inl (Invalid_result message)"

section \<open>Numbers\<close>

definition kSolverPi :: f64 where
  "kSolverPi = f64_decimal 3141592653589793238462643383279502884 36"

definition kFixedConstraintTolerance :: f64 where
  "kFixedConstraintTolerance = f64_decimal 1 8"

definition kSketchMinimumSize :: f64 where
  "kSketchMinimumSize = f64_decimal 1 6"

definition kSketchCoordinateLimit :: f64 where
  "kSketchCoordinateLimit = f64_of_nat 10000000"

definition DegreesToRadians :: "f64 \<Rightarrow> f64" where
  "DegreesToRadians angle = f64_div (f64_mul angle kSolverPi) (f64_of_nat 180)"

definition RadiansToDegrees :: "f64 \<Rightarrow> f64" where
  "RadiansToDegrees radians = f64_div (f64_mul radians (f64_of_nat 180)) kSolverPi"

definition coordinateInRange :: "f64 \<Rightarrow> bool" where
  "coordinateInRange v \<longleftrightarrow> f64_le (f64_abs v) kSketchCoordinateLimit"

text \<open>Below the minimum or above the limit; a NaN is neither.\<close>

definition size_out_of_range :: "f64 \<Rightarrow> bool" where
  "size_out_of_range v \<longleftrightarrow> f64_less v kSketchMinimumSize \<or> f64_less kSketchCoordinateLimit v"

definition canonical_zero :: "f64 \<Rightarrow> f64" where
  "canonical_zero v = (if f64_eq v 0 then 0 else v)"

definition CanonicalizeZeros :: "SketchSolverEntity list \<Rightarrow> SketchSolverEntity list" where
  "CanonicalizeZeros entities = map (\<lambda>e. e\<lparr>ent_values := map canonical_zero (ent_values e)\<rparr>) entities"

section \<open>Validation\<close>

definition SketchEntityParameterCount :: "SketchSolverEntityKind \<Rightarrow> nat" where
  "SketchEntityParameterCount kind =
     (case kind of
        Point_entity \<Rightarrow> 2 | Line_entity \<Rightarrow> 4 | Polyline_entity \<Rightarrow> 0 | Spline_entity \<Rightarrow> 0 | Rectangle_entity \<Rightarrow> 5
      | Circle_entity \<Rightarrow> 3 | Arc_entity \<Rightarrow> 5 | ArcThreePoint_entity \<Rightarrow> 6 | Ellipse_entity \<Rightarrow> 5 | Polygon_entity \<Rightarrow> 5
      | Slot_entity \<Rightarrow> 5)"

definition is_curve_of_points :: "SketchSolverEntityKind \<Rightarrow> bool" where
  "is_curve_of_points kind \<longleftrightarrow> kind = Polyline_entity \<or> kind = Spline_entity"

definition PlaneGcsParameterCount :: "SketchSolverEntity \<Rightarrow> nat" where
  "PlaneGcsParameterCount e =
     (if ent_sort e = Arc_entity then 9
      else if is_curve_of_points (ent_sort e) then length (ent_values e)
      else SketchEntityParameterCount (ent_sort e))"

text \<open>The gap between the points at two offsets of a vector.\<close>

definition gap_between :: "solver_math \<Rightarrow> f64 list \<Rightarrow> nat \<Rightarrow> nat \<Rightarrow> f64" where
  "gap_between M v i j = sv_hypot M (f64_sub (v ! j) (v ! i)) (f64_sub (v ! (j + 1)) (v ! (i + 1)))"

definition out_of_range_text :: string where
  "out_of_range_text = ''has a coordinate outside the supported sketch range''"

definition arc_chord :: "solver_math \<Rightarrow> f64 list \<Rightarrow> f64" where
  "arc_chord M v =
     (let start = DegreesToRadians (v ! 3); stop = DegreesToRadians (v ! 4)
      in sv_hypot M (f64_mul (v ! 2) (f64_sub (sv_cos M stop) (sv_cos M start)))
                    (f64_mul (v ! 2) (f64_sub (sv_sin M stop) (sv_sin M start))))"

text \<open>\<open>std::floor(v) != v\<close>, where it is reached: between 3 and 64, or at a NaN.\<close>

definition not_whole :: "f64 \<Rightarrow> bool" where
  "not_whole v \<longleftrightarrow> \<not> (f64_finite v \<and> f64_eq (f64_of_int (f64_trunc v)) v)"

definition EntityGeometryError :: "solver_math \<Rightarrow> SketchSolverEntity \<Rightarrow> string" where
  "EntityGeometryError M e =
     (let v = ent_values e; ok = coordinateInRange; centre = ok (v ! 0) \<and> ok (v ! 1)
      in case ent_sort e of
        Point_entity \<Rightarrow> if centre then [] else out_of_range_text
      | Polyline_entity \<Rightarrow> if list_all ok v then [] else out_of_range_text
      | Spline_entity \<Rightarrow> if list_all ok v then [] else out_of_range_text
      | Rectangle_entity \<Rightarrow>
          if length v \<noteq> 5 \<or> \<not> centre \<or> size_out_of_range (v ! 2) \<or> size_out_of_range (v ! 3) \<or> \<not> f64_finite (v ! 4)
          then ''has invalid rectangle dimensions or coordinates'' else []
      | Line_entity \<Rightarrow>
          if \<not> list_all ok v then out_of_range_text
          else if f64_less (gap_between M v 0 2) kSketchMinimumSize then ''collapsed below the minimum line length'' else []
      | Circle_entity \<Rightarrow>
          if \<not> centre \<or> size_out_of_range (v ! 2) then ''has an invalid circle radius or coordinate'' else []
      | Arc_entity \<Rightarrow>
          if \<not> centre \<or> size_out_of_range (v ! 2) then ''has an invalid arc radius or coordinate''
          else if f64_less (arc_chord M v) kSketchMinimumSize then ''collapsed below the minimum arc chord'' else []
      | ArcThreePoint_entity \<Rightarrow>
          if \<not> list_all ok v then out_of_range_text
          else if f64_less (gap_between M v 0 2) kSketchMinimumSize \<or> f64_less (gap_between M v 2 4) kSketchMinimumSize
          then ''has repeated three-point arc points'' else []
      | Ellipse_entity \<Rightarrow>
          if \<not> centre \<or> size_out_of_range (v ! 2) \<or> size_out_of_range (v ! 3) \<or> \<not> f64_finite (v ! 4)
          then ''has invalid ellipse dimensions or coordinates'' else []
      | Polygon_entity \<Rightarrow>
          if \<not> centre \<or> f64_less (v ! 2) (f64_of_nat 3) \<or> f64_less (f64_of_nat 64) (v ! 2) \<or> not_whole (v ! 2) \<or>
             size_out_of_range (v ! 3) \<or> \<not> f64_finite (v ! 4)
          then ''has invalid polygon dimensions or coordinates'' else []
      | Slot_entity \<Rightarrow>
          if \<not> list_all f64_finite v then ''has a value that is not finite''
          else if \<not> centre \<or> \<not> ok (v ! 2) \<or> \<not> ok (v ! 3) \<or> size_out_of_range (v ! 4) \<or>
                  f64_less (gap_between M v 0 2) kSketchMinimumSize
          then ''has invalid slot dimensions or coordinates'' else [])"

section \<open>Layout\<close>

record EntityLayout =
  lay_entityIndex :: nat
  lay_firstParam :: nat
  lay_kind :: SketchSolverEntityKind
  lay_grounded :: bool

text \<open>The map of layouts by id, in the order of the entities; the ids are distinct.\<close>

type_synonym layouts = "(string \<times> EntityLayout) list"

definition check_entity :: "solver_math \<Rightarrow> layouts \<Rightarrow> SketchSolverEntity \<Rightarrow> unit step" where
  "check_entity M known e =
     (let kind = ent_sort e; count = length (ent_values e);
          expected = (if is_curve_of_points kind then count else SketchEntityParameterCount kind)
      in if (kind = Polyline_entity \<and> expected < 4) \<or> (kind = Spline_entity \<and> expected < 6) \<or> is_curve_of_points kind \<and> odd expected
         then invalid (''Entity '' @ ent_eid e @ '' has an invalid control-point vector.'')
         else if count \<noteq> expected
         then invalid (''Entity '' @ ent_eid e @ '' carries '' @ decimal count @ '' values but its kind needs '' @ decimal expected @ ''.'')
         else if \<not> list_all f64_finite (ent_values e)
         then invalid (''Entity '' @ ent_eid e @ '' has a value that is not a finite number.'')
         else if EntityGeometryError M e \<noteq> []
         then invalid (''Entity '' @ ent_eid e @ '' '' @ EntityGeometryError M e @ ''.'')
         else if map_of known (ent_eid e) \<noteq> None
         then invalid (''Entity id '' @ ent_eid e @ '' appears more than once.'')
         else Inr ())"

fun layout_entities :: "solver_math \<Rightarrow> layouts \<Rightarrow> nat \<Rightarrow> SketchSolverEntity list \<Rightarrow> layouts step" where
  "layout_entities M known paramCount [] = Inr known"
| "layout_entities M known paramCount (e # entities) =
     rbind (check_entity M known e) (\<lambda>_.
       layout_entities M
         (known @ [(ent_eid e, \<lparr>lay_entityIndex = length known, lay_firstParam = paramCount, lay_kind = ent_sort e, lay_grounded = False\<rparr>)])
         (paramCount + PlaneGcsParameterCount e) entities)"

definition set_grounded :: "string \<Rightarrow> layouts \<Rightarrow> layouts" where
  "set_grounded eid known = map (\<lambda>(e, l). if e = eid then (e, l\<lparr>lay_grounded := True\<rparr>) else (e, l)) known"

definition ground_entity :: "layouts \<Rightarrow> string \<Rightarrow> layouts step" where
  "ground_entity known eid =
     (if map_of known eid = None then invalid (''Cannot ground '' @ eid @ '': no such entity in this sketch.'')
      else Inr (set_grounded eid known))"

definition fix_entity :: "layouts \<Rightarrow> SketchSolverConstraint \<Rightarrow> layouts step" where
  "fix_entity known constraint =
     (if con_kind constraint \<noteq> Fixed then Inr known
      else case con_anchors constraint of
        [anchor] \<Rightarrow>
          if map_of known (anc_eid anchor) = None
          then invalid (''Constraint '' @ con_cid constraint @ '' refers to '' @ anc_eid anchor @ '', which is not in this sketch.'')
          else Inr (set_grounded (anc_eid anchor) known)
      | _ \<Rightarrow> invalid (''Constraint '' @ con_cid constraint @ '' needs one entity to fix.''))"

definition prepare_layouts :: "solver_math \<Rightarrow> SketchSolverSystem \<Rightarrow> layouts step" where
  "prepare_layouts M system =
     rbind (layout_entities M [] 0 (sys_entities system)) (\<lambda>known.
     rbind (rfold ground_entity known (sys_grounded system)) (\<lambda>known.
       rfold fix_entity known (sys_constraints system)))"

section \<open>Parameters and points\<close>

definition entity_parameters :: "solver_math \<Rightarrow> SketchSolverEntity \<Rightarrow> f64 list" where
  "entity_parameters M e =
     (if ent_sort e \<noteq> Arc_entity then ent_values e
      else let x = ent_values e ! 0; y = ent_values e ! 1; radius = ent_values e ! 2;
               start = DegreesToRadians (ent_values e ! 3); stop = DegreesToRadians (ent_values e ! 4)
           in [x, y, radius, f64_add x (f64_mul radius (sv_cos M start)), f64_add y (f64_mul radius (sv_sin M start)),
               f64_add x (f64_mul radius (sv_cos M stop)), f64_add y (f64_mul radius (sv_sin M stop)), start, stop])"

definition solver_parameters :: "solver_math \<Rightarrow> SketchSolverSystem \<Rightarrow> f64 list" where
  "solver_parameters M system = concat (map (entity_parameters M) (sys_entities system))"

text \<open>Points, lines and circles of the engine hold places in the parameter vector.\<close>

type_synonym gcs_point = "nat \<times> nat"
type_synonym gcs_line = "gcs_point \<times> gcs_point"

definition point_at_offset :: "EntityLayout \<Rightarrow> nat \<Rightarrow> gcs_point" where
  "point_at_offset l k = (lay_firstParam l + k, lay_firstParam l + k + 1)"

definition line_of :: "EntityLayout \<Rightarrow> gcs_line" where
  "line_of l = (point_at_offset l 0, point_at_offset l 2)"

record gcs_circle =
  gc_center :: gcs_point
  gc_rad :: nat

definition circle_of :: "EntityLayout \<Rightarrow> gcs_circle" where
  "circle_of l = \<lparr>gc_center = point_at_offset l 0, gc_rad = lay_firstParam l + 2\<rparr>"

record gcs_arc = gcs_circle +
  gc_start :: gcs_point
  gc_end :: gcs_point
  gc_startAngle :: nat
  gc_endAngle :: nat

definition arc_of :: "EntityLayout \<Rightarrow> gcs_arc" where
  "arc_of l = \<lparr>gc_center = point_at_offset l 0, gc_rad = lay_firstParam l + 2, gc_start = point_at_offset l 3,
     gc_end = point_at_offset l 5, gc_startAngle = lay_firstParam l + 7, gc_endAngle = lay_firstParam l + 8\<rparr>"

definition place :: "EntityLayout \<Rightarrow> (SketchSolverAnchorPosition \<times> nat) list \<Rightarrow> string \<Rightarrow> SketchSolverAnchorPosition \<Rightarrow> string + gcs_point" where
  "place l offsets refusal position =
     (case map_of offsets position of Some k \<Rightarrow> Inr (point_at_offset l k) | None \<Rightarrow> Inl refusal)"

text \<open>Where an anchor is, or why it is nowhere. A curve of points has its middle point at half its count.\<close>

definition resolvePoint :: "SketchSolverSystem \<Rightarrow> layouts \<Rightarrow> SketchSolverAnchor \<Rightarrow> string + gcs_point" where
  "resolvePoint system known anchor =
     (case map_of known (anc_eid anchor) of
        None \<Rightarrow> Inl (''constraint refers to '' @ anc_eid anchor @ '', which is not in this sketch'')
      | Some l \<Rightarrow>
          (case lay_kind l of
             Point_entity \<Rightarrow> place l [(Point_anchor, 0)] ''a point exposes only its point anchor'' (anc_position anchor)
           | Line_entity \<Rightarrow> place l [(Start_anchor, 0), (End_anchor, 2)] ''a line exposes only start and end anchors'' (anc_position anchor)
           | Circle_entity \<Rightarrow> place l [(Center_anchor, 0)] ''a circle exposes only its center anchor'' (anc_position anchor)
           | Arc_entity \<Rightarrow> place l [(Center_anchor, 0), (Start_anchor, 3), (End_anchor, 5)]
               ''an arc exposes only start, end, and center anchors'' (anc_position anchor)
           | Rectangle_entity \<Rightarrow> place l [(Center_anchor, 0)] ''the shape exposes only its center anchor'' (anc_position anchor)
           | Ellipse_entity \<Rightarrow> place l [(Center_anchor, 0)] ''the shape exposes only its center anchor'' (anc_position anchor)
           | Polygon_entity \<Rightarrow> place l [(Center_anchor, 0)] ''the shape exposes only its center anchor'' (anc_position anchor)
           | ArcThreePoint_entity \<Rightarrow> place l [(Start_anchor, 0), (Mid_anchor, 2), (End_anchor, 4)]
               ''a three-point arc exposes start, mid, and end anchors'' (anc_position anchor)
           | Slot_entity \<Rightarrow> place l [(Start_anchor, 0), (End_anchor, 2)] ''a slot exposes start and end anchors'' (anc_position anchor)
           | _ \<Rightarrow>
               let points = (length (ent_values (sys_entities system ! lay_entityIndex l)) + 1) div 2
               in if points = 0 then Inl ''the curve has no points''
                  else place l [(End_anchor, 2 * (points - 1)), (Mid_anchor, 2 * (points div 2)), (Start_anchor, 0)]
                         ''the curve exposes start, end, and mid anchors'' (anc_position anchor)))"

end
