(* ===== verification/Sketch_Build.thy ===== *)
theory Sketch_Build
  imports Sketch_System
begin

text \<open>
  The calls \<open>SolveSketch\<close> makes to the vendored engine (\<open>sketch_solver.cpp\<close>): one function per group
  of constraints, in the order of the code's checks. The engine itself is a parameter; a call is a
  value that names the places of the parameters it constrains, its driving value and its tag.
\<close>

section \<open>Calls of the engine\<close>

datatype gcs_round = Round_circle gcs_circle | Round_arc gcs_arc

datatype gcs_call =
    CircleRadius gcs_circle nat nat bool | CircleDiameter gcs_circle nat nat bool
  | ArcRadius gcs_arc nat nat bool | ArcDiameter gcs_arc nat nat bool
  | LinesParallel gcs_line gcs_line nat | LinesPerpendicular gcs_line gcs_line nat
  | MidpointOnLine gcs_line gcs_line nat bool | PointOnLine gcs_point gcs_line nat bool
  | P2PSymmetric gcs_point gcs_point gcs_line nat bool | P2PCoincident gcs_point gcs_point nat bool
  | L2LAngle gcs_line gcs_line nat nat bool
  | EqualLength gcs_line gcs_line nat bool | EqualRadius gcs_round gcs_round nat bool
  | TangentLine gcs_line gcs_round nat bool | TangentRounds gcs_round gcs_round nat bool
  | PointsHorizontal gcs_point gcs_point nat bool | PointsVertical gcs_point gcs_point nat bool
  | P2PDistance gcs_point gcs_point nat nat bool | CoordinateDifference nat nat nat nat bool
  | ArcRules gcs_arc

definition refuse :: "SketchSolverConstraint \<Rightarrow> string \<Rightarrow> 'a step" where
  "refuse c reason = invalid (''Constraint '' @ con_cid c @ reason)"

definition find_entity :: "layouts \<Rightarrow> SketchSolverConstraint \<Rightarrow> SketchSolverAnchor \<Rightarrow> EntityLayout step" where
  "find_entity known c anchor =
     (case map_of known (anc_eid anchor) of
        None \<Rightarrow> refuse c ('' refers to '' @ anc_eid anchor @ '', which is not in this sketch.'')
      | Some l \<Rightarrow> Inr l)"

definition find_line :: "layouts \<Rightarrow> SketchSolverConstraint \<Rightarrow> string \<Rightarrow> SketchSolverAnchor \<Rightarrow> EntityLayout step" where
  "find_line known c reason anchor =
     rbind (find_entity known c anchor) (\<lambda>l. if lay_kind l \<noteq> Line_entity then refuse c reason else Inr l)"

definition needed_anchors :: "SketchSolverConstraintKind \<Rightarrow> nat" where
  "needed_anchors kind =
     (if kind = Radius \<or> kind = Diameter \<or> kind = Fixed then 1 else if kind = Symmetry then 3 else 2)"

definition size_value_bad :: "f64 \<Rightarrow> bool" where
  "size_value_bad v \<longleftrightarrow> \<not> f64_finite v \<or> size_out_of_range v"

definition offset_value_bad :: "f64 \<Rightarrow> bool" where
  "offset_value_bad v \<longleftrightarrow> \<not> f64_finite v \<or> f64_less kSketchCoordinateLimit (f64_abs v)"

section \<open>Constraints\<close>

definition radius_calls :: "layouts \<Rightarrow> nat \<Rightarrow> SketchSolverConstraint \<Rightarrow> gcs_call list step" where
  "radius_calls known i c =
     rbind (find_entity known c (con_anchors c ! 0)) (\<lambda>l.
       let centred = (anc_position (con_anchors c ! 0) = Center_anchor); radius = (con_kind c = Radius)
       in if size_value_bad (con_value c) then refuse c '' needs a radius inside the supported sketch range.''
          else if lay_kind l = Circle_entity
          then if \<not> centred then refuse c '' must refer to the circle's center anchor.''
               else Inr [(if radius then CircleRadius else CircleDiameter) (circle_of l) i (i + 1) (con_driving c)]
          else if lay_kind l = Arc_entity
          then if \<not> centred then refuse c '' must refer to the arc's center anchor.''
               else Inr [(if radius then ArcRadius else ArcDiameter) (arc_of l) i (i + 1) (con_driving c)]
          else refuse c '' sets a radius or diameter on something that has none.'')"

definition direction_calls :: "layouts \<Rightarrow> nat \<Rightarrow> SketchSolverConstraint \<Rightarrow> gcs_call list step" where
  "direction_calls known i c =
     (let parallel = (con_kind c = Parallel); a = con_anchors c ! 0; b = con_anchors c ! 1;
          reason = '' makes something '' @ (if parallel then ''parallel'' else ''perpendicular'') @
                   '' that has no direction. Only a line does.''
      in if anc_eid a = anc_eid b
         then refuse c ('' names the same line twice; a line '' @
                (if parallel then ''is always parallel to itself.'' else ''cannot be perpendicular to itself.''))
         else rbind (find_line known c reason a) (\<lambda>l. rbind (find_line known c reason b) (\<lambda>k.
                Inr [(if parallel then LinesParallel else LinesPerpendicular) (line_of l) (line_of k) (i + 1)])))"

definition alignment_calls :: "layouts \<Rightarrow> nat \<Rightarrow> SketchSolverConstraint \<Rightarrow> gcs_call list step" where
  "alignment_calls known i c =
     rbind (find_line known c '' applies only to line entities.'' (con_anchors c ! 0)) (\<lambda>l.
     rbind (find_line known c '' applies only to line entities.'' (con_anchors c ! 1)) (\<lambda>k.
       if lay_entityIndex l = lay_entityIndex k then refuse c '' names the same line twice.''
       else if con_kind c = Midpoint then Inr [MidpointOnLine (line_of l) (line_of k) (i + 1) (con_driving c)]
       else Inr [PointOnLine (fst (line_of l)) (line_of k) (i + 1) (con_driving c),
                 PointOnLine (snd (line_of l)) (line_of k) (i + 1) (con_driving c)]))"

text \<open>The code reads both operands before it reports an error, and reports the first.\<close>

definition anchored :: "SketchSolverConstraint \<Rightarrow> string + 'a \<Rightarrow> 'a step" where
  "anchored c out = (case out of Inl reason \<Rightarrow> refuse c ('': '' @ reason @ ''.'') | Inr x \<Rightarrow> Inr x)"

definition entityIndexFor :: "layouts \<Rightarrow> SketchSolverAnchor \<Rightarrow> string + EntityLayout" where
  "entityIndexFor known anchor =
     (case map_of known (anc_eid anchor) of
        None \<Rightarrow> Inl (''refers to '' @ anc_eid anchor @ '', which is not in this sketch'')
      | Some l \<Rightarrow> Inr l)"

definition symmetry_calls :: "SketchSolverSystem \<Rightarrow> layouts \<Rightarrow> nat \<Rightarrow> SketchSolverConstraint \<Rightarrow> gcs_call list step" where
  "symmetry_calls system known i c =
     rbind (anchored c (resolvePoint system known (con_anchors c ! 0))) (\<lambda>a.
     rbind (anchored c (resolvePoint system known (con_anchors c ! 1))) (\<lambda>b.
     rbind (anchored c (entityIndexFor known (con_anchors c ! 2))) (\<lambda>axis.
       if lay_kind axis \<noteq> Line_entity then refuse c '' uses a non-line symmetry axis.''
       else Inr [P2PSymmetric a b (line_of axis) (i + 1) (con_driving c)])))"

definition has_center :: "SketchSolverEntityKind \<Rightarrow> bool" where
  "has_center kind \<longleftrightarrow> kind = Circle_entity \<or> kind = Arc_entity \<or> kind = Ellipse_entity"

definition center_of :: "EntityLayout \<Rightarrow> string + gcs_point" where
  "center_of l =
     (if \<not> has_center (lay_kind l) then Inl ''concentric applies only to circles, arcs, and ellipses''
      else Inr (point_at_offset l 0))"

definition round_of :: "EntityLayout \<Rightarrow> gcs_round option" where
  "round_of l =
     (if lay_kind l = Circle_entity then Some (Round_circle (circle_of l))
      else if lay_kind l = Arc_entity then Some (Round_arc (arc_of l)) else None)"

text \<open>The engine's overloads take a circle before an arc.\<close>

definition circle_first :: "gcs_round \<Rightarrow> gcs_round \<Rightarrow> gcs_round \<times> gcs_round" where
  "circle_first r s = (case (r, s) of (Round_arc _, Round_circle _) \<Rightarrow> (s, r) | _ \<Rightarrow> (r, s))"

definition equal_calls :: "nat \<Rightarrow> SketchSolverConstraint \<Rightarrow> EntityLayout \<Rightarrow> EntityLayout \<Rightarrow> gcs_call list step" where
  "equal_calls i c l k =
     (if lay_kind l = Line_entity \<and> lay_kind k = Line_entity
      then Inr [EqualLength (line_of l) (line_of k) (i + 1) (con_driving c)]
      else case (round_of l, round_of k) of
             (Some r, Some s) \<Rightarrow> Inr [EqualRadius (fst (circle_first r s)) (snd (circle_first r s)) (i + 1) (con_driving c)]
           | _ \<Rightarrow> refuse c '' cannot make those shapes equal.'')"

definition tangent_calls :: "nat \<Rightarrow> SketchSolverConstraint \<Rightarrow> EntityLayout \<Rightarrow> EntityLayout \<Rightarrow> gcs_call list step" where
  "tangent_calls i c l k =
     (if lay_kind l = Line_entity
      then if lay_kind k = Ellipse_entity then refuse c '' cannot lower a line/ellipse tangent in this engine.''
           else case round_of k of
                  Some s \<Rightarrow> Inr [TangentLine (line_of l) s (i + 1) (con_driving c)]
                | None \<Rightarrow> refuse c '' cannot lower a tangent for those shapes.''
      else case (round_of l, round_of k) of
             (Some r, Some s) \<Rightarrow> Inr [TangentRounds (fst (circle_first r s)) (snd (circle_first r s)) (i + 1) (con_driving c)]
           | _ \<Rightarrow> refuse c '' cannot lower a tangent for those shapes.'')"

definition angle_calls :: "nat \<Rightarrow> SketchSolverConstraint \<Rightarrow> EntityLayout \<Rightarrow> EntityLayout \<Rightarrow> gcs_call list step" where
  "angle_calls i c l k =
     (if lay_kind l \<noteq> Line_entity \<or> lay_kind k \<noteq> Line_entity then refuse c '' needs two lines for an angle.''
      else if \<not> f64_finite (con_value c) \<or> f64_less (con_value c) (f64_neg (f64_of_nat 360)) \<or> f64_less (f64_of_nat 360) (con_value c)
      then refuse c '' needs an angle between -360 and 360 degrees.''
      else Inr [L2LAngle (line_of l) (line_of k) i (i + 1) (con_driving c)])"

definition pair_calls :: "layouts \<Rightarrow> nat \<Rightarrow> SketchSolverConstraint \<Rightarrow> gcs_call list step" where
  "pair_calls known i c =
     rbind (anchored c (entityIndexFor known (con_anchors c ! 0))) (\<lambda>l.
     rbind (anchored c (entityIndexFor known (con_anchors c ! 1))) (\<lambda>k.
       if lay_entityIndex l = lay_entityIndex k then refuse c '' names the same shape twice.''
       else if con_kind c = Concentric
       then rbind (anchored c (center_of l)) (\<lambda>a. rbind (anchored c (center_of k)) (\<lambda>b.
              Inr [P2PCoincident a b (i + 1) (con_driving c)]))
       else if con_kind c = Angle then angle_calls i c l k
       else if con_kind c = Equal then equal_calls i c l k
       else tangent_calls i c l k))"

text \<open>Start and end of one entity, either way round.\<close>

definition own_ends :: "SketchSolverConstraint \<Rightarrow> bool" where
  "own_ends c \<longleftrightarrow>
     anc_eid (con_anchors c ! 0) = anc_eid (con_anchors c ! 1) \<and>
     (anc_position (con_anchors c ! 0) = Start_anchor \<and> anc_position (con_anchors c ! 1) = End_anchor \<or>
      anc_position (con_anchors c ! 0) = End_anchor \<and> anc_position (con_anchors c ! 1) = Start_anchor)"

definition kind_at :: "layouts \<Rightarrow> SketchSolverAnchor \<Rightarrow> SketchSolverEntityKind option" where
  "kind_at known anchor = map_option lay_kind (map_of known (anc_eid anchor))"

definition point_call :: "nat \<Rightarrow> SketchSolverConstraint \<Rightarrow> gcs_point \<Rightarrow> gcs_point \<Rightarrow> gcs_call list step" where
  "point_call i c a b =
     (let tag = i + 1; driving = con_driving c; v = con_value c
      in case con_kind c of
           Coincident \<Rightarrow> Inr [P2PCoincident a b tag driving]
         | Horizontal \<Rightarrow> Inr [PointsHorizontal a b tag driving]
         | Vertical \<Rightarrow> Inr [PointsVertical a b tag driving]
         | Distance \<Rightarrow>
             if size_value_bad v then refuse c '' needs a distance inside the supported sketch range.''
             else Inr [P2PDistance a b i tag driving]
         | HorizontalDistance \<Rightarrow>
             if offset_value_bad v then refuse c '' needs a horizontal distance inside the supported sketch range.''
             else Inr [CoordinateDifference (fst a) (fst b) i tag driving]
         | VerticalDistance \<Rightarrow>
             if offset_value_bad v then refuse c '' needs a vertical distance inside the supported sketch range.''
             else Inr [CoordinateDifference (snd a) (snd b) i tag driving]
         | Length \<Rightarrow>
             if size_value_bad v then refuse c '' needs a length inside the supported sketch range.''
             else Inr [P2PDistance a b i tag driving]
         | _ \<Rightarrow> Inr [])"

definition point_calls :: "SketchSolverSystem \<Rightarrow> layouts \<Rightarrow> nat \<Rightarrow> SketchSolverConstraint \<Rightarrow> gcs_call list step" where
  "point_calls system known i c =
     rbind (anchored c (resolvePoint system known (con_anchors c ! 0))) (\<lambda>a.
     rbind (anchored c (resolvePoint system known (con_anchors c ! 1))) (\<lambda>b.
       if con_kind c = Coincident \<and> own_ends c \<and> kind_at known (con_anchors c ! 0) \<in> {Some Line_entity, Some Arc_entity}
       then Inl (Conflict_result [con_cid c] 0)
       else point_call i c a b))"

definition constraint_calls :: "SketchSolverSystem \<Rightarrow> layouts \<Rightarrow> nat \<times> SketchSolverConstraint \<Rightarrow> gcs_call list step" where
  "constraint_calls system known = (\<lambda>(i, c).
     let count = length (con_anchors c); kind = con_kind c
     in if count \<noteq> needed_anchors kind
        then refuse c ('' needs '' @ decimal (needed_anchors kind) @ '' reference(s) but has '' @ decimal count @ ''.'')
        else if kind = Fixed then Inr []
        else if kind = Radius \<or> kind = Diameter then radius_calls known i c
        else if kind = Parallel \<or> kind = Perpendicular then direction_calls known i c
        else if kind = Midpoint \<or> kind = Collinear then alignment_calls known i c
        else if kind = Symmetry then symmetry_calls system known i c
        else if kind = Tangent \<or> kind = Equal \<or> kind = Concentric \<or> kind = Angle then pair_calls known i c
        else point_calls system known i c)"

text \<open>The driving values as the engine reads them: an angle in radians.\<close>

definition driving_value :: "SketchSolverConstraint \<Rightarrow> f64" where
  "driving_value c = (if con_kind c = Angle then DegreesToRadians (con_value c) else con_value c)"

section \<open>Lines made horizontal and vertical\<close>

text \<open>The ids of the constraints that make one line horizontal and vertical. The code collects them in a
  hash map by line; the result sorts them.\<close>

definition axis_ids :: "SketchSolverSystem \<Rightarrow> layouts \<Rightarrow> SketchSolverConstraintKind \<Rightarrow> string \<Rightarrow> string list" where
  "axis_ids system known kind eid =
     map con_cid (filter (\<lambda>c. con_kind c = kind \<and> own_ends c \<and> anc_eid (con_anchors c ! 0) = eid \<and>
       kind_at known (con_anchors c ! 0) = Some Line_entity) (sys_constraints system))"

definition mutuallyExclusiveAxes :: "SketchSolverSystem \<Rightarrow> layouts \<Rightarrow> string list" where
  "mutuallyExclusiveAxes system known =
     concat (map (\<lambda>eid. let h = axis_ids system known Horizontal eid; v = axis_ids system known Vertical eid
                        in if h \<noteq> [] \<and> v \<noteq> [] then h @ v else []) (map fst known))"

text \<open>The rules of the arcs that may move, and the places of everything that may.\<close>

definition arc_rules :: "layouts \<Rightarrow> gcs_call list" where
  "arc_rules known = map (\<lambda>(eid, l). ArcRules (arc_of l)) (filter (\<lambda>(eid, l). lay_kind l = Arc_entity \<and> \<not> lay_grounded l) known)"

definition unknown_places :: "SketchSolverSystem \<Rightarrow> layouts \<Rightarrow> nat list" where
  "unknown_places system known =
     concat (map (\<lambda>(e, (eid, l)). if lay_grounded l then []
                  else [lay_firstParam l..<lay_firstParam l + PlaneGcsParameterCount e]) (zip (sys_entities system) known))"

end
