(* ===== verification/Sketch_Solve.thy ===== *)
theory Sketch_Solve
  imports Sketch_Build
begin

text \<open>
  \<open>SolveSketch\<close> of \<open>sketch_solver.cpp\<close>: the check of a sketch in which everything is fixed, the use of
  the engine, and the result. The engine is a function of its input, as the determinism contract of
  \<open>sketch_solver.hpp\<close> has it.
\<close>

section \<open>The engine\<close>

record gcs_input =
  gi_params :: "f64 list"
  gi_values :: "f64 list"
  gi_calls :: "gcs_call list"
  gi_unknowns :: "nat list"

datatype gcs_status = Solve_success | Solve_converged | Solve_failed | Solve_invalid

text \<open>The diagnosis, then the outcome of the solve with the parameters after \<open>applySolution\<close>.\<close>

record gcs_answer =
  ga_conflicting :: bool
  ga_redundant :: bool
  ga_conflictingTags :: "int list"
  ga_redundantTags :: "int list"
  ga_diagnosedDofs :: int
  ga_status :: gcs_status
  ga_dofs :: int
  ga_params :: "f64 list"

type_synonym gcs_engine = "gcs_input \<Rightarrow> gcs_answer"

section \<open>Everything fixed\<close>

definition layout_of_kind :: "layouts \<Rightarrow> (SketchSolverEntityKind \<Rightarrow> bool) \<Rightarrow> string \<Rightarrow> EntityLayout option" where
  "layout_of_kind known allowed eid =
     (case map_of known eid of Some l \<Rightarrow> if allowed (lay_kind l) then Some l else None | None \<Rightarrow> None)"

definition lineData :: "layouts \<Rightarrow> f64 list \<Rightarrow> string \<Rightarrow> (f64 \<times> f64 \<times> f64 \<times> f64) option" where
  "lineData known params eid =
     map_option (\<lambda>l. let k = lay_firstParam l in (params ! k, params ! (k + 1), params ! (k + 2), params ! (k + 3)))
       (layout_of_kind known (\<lambda>kind. kind = Line_entity) eid)"

definition circleData :: "layouts \<Rightarrow> f64 list \<Rightarrow> string \<Rightarrow> (f64 \<times> f64 \<times> f64) option" where
  "circleData known params eid =
     map_option (\<lambda>l. let k = lay_firstParam l in (params ! k, params ! (k + 1), params ! (k + 2)))
       (layout_of_kind known (\<lambda>kind. kind = Circle_entity \<or> kind = Arc_entity) eid)"

definition fixedPoint :: "SketchSolverSystem \<Rightarrow> layouts \<Rightarrow> f64 list \<Rightarrow> SketchSolverAnchor \<Rightarrow> (f64 \<times> f64) option" where
  "fixedPoint system known params anchor =
     (case resolvePoint system known anchor of Inl _ \<Rightarrow> None | Inr (x, y) \<Rightarrow> Some (params ! x, params ! y))"

definition tolerated :: "f64 \<Rightarrow> bool" where
  "tolerated v \<longleftrightarrow> f64_le v kFixedConstraintTolerance"

definition line_length :: "solver_math \<Rightarrow> f64 \<times> f64 \<times> f64 \<times> f64 \<Rightarrow> f64" where
  "line_length M = (\<lambda>(x1, y1, x2, y2). sv_hypot M (f64_sub x2 x1) (f64_sub y2 y1))"

definition pointOnLine :: "solver_math \<Rightarrow> f64 \<times> f64 \<Rightarrow> f64 \<times> f64 \<times> f64 \<times> f64 \<Rightarrow> bool" where
  "pointOnLine M = (\<lambda>(px, py) (x1, y1, x2, y2).
     let dx = f64_sub x2 x1; dy = f64_sub y2 y1; long = sv_hypot M dx dy
     in \<not> tolerated long \<and>
        tolerated (f64_div (f64_abs (f64_sub (f64_mul (f64_sub px x1) dy) (f64_mul (f64_sub py y1) dx))) long))"

definition normalizedAngle :: "solver_math \<Rightarrow> f64 \<Rightarrow> f64" where
  "normalizedAngle M angle = sv_remainder M angle (f64_mul (f64_of_nat 2) kSolverPi)"

definition radius_satisfied :: "layouts \<Rightarrow> f64 list \<Rightarrow> SketchSolverConstraint \<Rightarrow> bool" where
  "radius_satisfied known params c =
     (case circleData known params (anc_eid (con_anchors c ! 0)) of
        None \<Rightarrow> False
      | Some (_, _, radius) \<Rightarrow>
          tolerated (f64_abs (f64_sub radius
            (if con_kind c = Diameter then f64_div (con_value c) (f64_of_nat 2) else con_value c))))"

definition direction_satisfied ::
  "solver_math \<Rightarrow> SketchSolverConstraint \<Rightarrow> f64 \<times> f64 \<times> f64 \<times> f64 \<Rightarrow> f64 \<times> f64 \<times> f64 \<times> f64 \<Rightarrow> bool" where
  "direction_satisfied M c = (\<lambda>(ax1, ay1, ax2, ay2) (bx1, by1, bx2, by2).
     let ax = f64_sub ax2 ax1; ay = f64_sub ay2 ay1; bx = f64_sub bx2 bx1; by = f64_sub by2 by1;
         lengthA = sv_hypot M ax ay; lengthB = sv_hypot M bx by
     in if tolerated lengthA \<or> tolerated lengthB then False
        else if con_kind c = Parallel
        then tolerated (f64_div (f64_abs (f64_sub (f64_mul ax by) (f64_mul ay bx))) (f64_mul lengthA lengthB))
        else if con_kind c = Perpendicular
        then tolerated (f64_div (f64_abs (f64_add (f64_mul ax bx) (f64_mul ay by))) (f64_mul lengthA lengthB))
        else let actual = normalizedAngle M (f64_sub (sv_atan2 M by bx) (sv_atan2 M ay ax));
                 expected = normalizedAngle M (DegreesToRadians (con_value c))
             in tolerated (f64_abs (normalizedAngle M (f64_sub actual expected))))"

text \<open>The distance of a centre from a line, as the tangency check has it.\<close>

definition line_distance :: "solver_math \<Rightarrow> f64 \<times> f64 \<times> f64 \<Rightarrow> f64 \<times> f64 \<times> f64 \<times> f64 \<Rightarrow> f64" where
  "line_distance M = (\<lambda>(cx, cy, _) (x1, y1, x2, y2).
     f64_div (f64_abs (f64_sub (f64_mul (f64_sub cx x1) (f64_sub y2 y1)) (f64_mul (f64_sub cy y1) (f64_sub x2 x1))))
       (sv_hypot M (f64_sub x2 x1) (f64_sub y2 y1)))"

definition center_gap :: "solver_math \<Rightarrow> f64 \<times> f64 \<times> f64 \<Rightarrow> f64 \<times> f64 \<times> f64 \<Rightarrow> f64" where
  "center_gap M = (\<lambda>(acx, acy, _) (bcx, bcy, _). sv_hypot M (f64_sub acx bcx) (f64_sub acy bcy))"

definition radius_of :: "f64 \<times> f64 \<times> f64 \<Rightarrow> f64" where
  "radius_of c = snd (snd c)"

definition touches_line :: "solver_math \<Rightarrow> f64 \<times> f64 \<times> f64 \<Rightarrow> f64 \<times> f64 \<times> f64 \<times> f64 \<Rightarrow> bool" where
  "touches_line M circle line = tolerated (f64_abs (f64_sub (line_distance M circle line) (radius_of circle)))"

definition tangent_satisfied ::
  "solver_math \<Rightarrow> (f64 \<times> f64 \<times> f64 \<times> f64) option \<Rightarrow> (f64 \<times> f64 \<times> f64) option \<Rightarrow>
   (f64 \<times> f64 \<times> f64 \<times> f64) option \<Rightarrow> (f64 \<times> f64 \<times> f64) option \<Rightarrow> bool" where
  "tangent_satisfied M firstLine firstCircle secondLine secondCircle =
     (case (firstLine, secondCircle) of (Some line, Some circle) \<Rightarrow> touches_line M circle line | _ \<Rightarrow>
      case (secondLine, firstCircle) of (Some line, Some circle) \<Rightarrow> touches_line M circle line | _ \<Rightarrow>
      case (firstCircle, secondCircle) of
        (Some a, Some b) \<Rightarrow>
          let centers = center_gap M a b
          in tolerated (f64_abs (f64_sub centers (f64_add (radius_of a) (radius_of b)))) \<or>
             tolerated (f64_abs (f64_sub centers (f64_abs (f64_sub (radius_of a) (radius_of b)))))
      | _ \<Rightarrow> False)"

definition pair_satisfied :: "solver_math \<Rightarrow> layouts \<Rightarrow> f64 list \<Rightarrow> SketchSolverConstraint \<Rightarrow> bool" where
  "pair_satisfied M known params c =
     (let a = anc_eid (con_anchors c ! 0); b = anc_eid (con_anchors c ! 1);
          firstLine = lineData known params a; secondLine = lineData known params b;
          firstCircle = circleData known params a; secondCircle = circleData known params b
      in if con_kind c = Parallel \<or> con_kind c = Perpendicular \<or> con_kind c = Angle
         then case (firstLine, secondLine) of (Some l, Some k) \<Rightarrow> direction_satisfied M c l k | _ \<Rightarrow> False
         else if con_kind c = Equal
         then case (firstLine, secondLine) of
                (Some l, Some k) \<Rightarrow> tolerated (f64_abs (f64_sub (line_length M l) (line_length M k)))
              | _ \<Rightarrow> (case (firstCircle, secondCircle) of
                       (Some x, Some y) \<Rightarrow> tolerated (f64_abs (f64_sub (radius_of x) (radius_of y))) | _ \<Rightarrow> False)
         else if con_kind c = Concentric
         then case (firstCircle, secondCircle) of (Some x, Some y) \<Rightarrow> tolerated (center_gap M x y) | _ \<Rightarrow> False
         else tangent_satisfied M firstLine firstCircle secondLine secondCircle)"

definition symmetry_satisfied :: "solver_math \<Rightarrow> SketchSolverSystem \<Rightarrow> layouts \<Rightarrow> f64 list \<Rightarrow> SketchSolverConstraint \<Rightarrow> bool" where
  "symmetry_satisfied M system known params c =
     (case (fixedPoint system known params (con_anchors c ! 0), fixedPoint system known params (con_anchors c ! 1),
            lineData known params (anc_eid (con_anchors c ! 2))) of
        (Some (ax, ay), Some (bx, by), Some (x1, y1, x2, y2)) \<Rightarrow>
          let dx = f64_sub x2 x1; dy = f64_sub y2 y1; lengthSquared = f64_add (f64_mul dx dx) (f64_mul dy dy)
          in if tolerated lengthSquared then False
             else let t = f64_div (f64_add (f64_mul (f64_sub ax x1) dx) (f64_mul (f64_sub ay y1) dy)) lengthSquared;
                      rx = f64_sub (f64_mul (f64_of_nat 2) (f64_add x1 (f64_mul t dx))) ax;
                      ry = f64_sub (f64_mul (f64_of_nat 2) (f64_add y1 (f64_mul t dy))) ay
                  in tolerated (sv_hypot M (f64_sub rx bx) (f64_sub ry by))
      | _ \<Rightarrow> False)"

definition midpoint_of :: "f64 \<times> f64 \<times> f64 \<times> f64 \<Rightarrow> f64 \<times> f64" where
  "midpoint_of = (\<lambda>(x1, y1, x2, y2). (f64_div (f64_add x1 x2) (f64_of_nat 2), f64_div (f64_add y1 y2) (f64_of_nat 2)))"

definition line_ends_of :: "f64 \<times> f64 \<times> f64 \<times> f64 \<Rightarrow> (f64 \<times> f64) \<times> (f64 \<times> f64)" where
  "line_ends_of = (\<lambda>(x1, y1, x2, y2). ((x1, y1), (x2, y2)))"

definition points_satisfied :: "solver_math \<Rightarrow> SketchSolverSystem \<Rightarrow> layouts \<Rightarrow> f64 list \<Rightarrow> SketchSolverConstraint \<Rightarrow> bool" where
  "points_satisfied M system known params c =
     (case (fixedPoint system known params (con_anchors c ! 0), fixedPoint system known params (con_anchors c ! 1)) of
        (Some (ax, ay), Some (bx, by)) \<Rightarrow>
          (let dx = f64_sub bx ax; dy = f64_sub by ay;
               lines = (lineData known params (anc_eid (con_anchors c ! 0)), lineData known params (anc_eid (con_anchors c ! 1)))
           in case con_kind c of
                Coincident \<Rightarrow> tolerated (sv_hypot M dx dy)
              | Horizontal \<Rightarrow> tolerated (f64_abs dy)
              | Vertical \<Rightarrow> tolerated (f64_abs dx)
              | Distance \<Rightarrow> tolerated (f64_abs (f64_sub (sv_hypot M dx dy) (con_value c)))
              | Length \<Rightarrow> tolerated (f64_abs (f64_sub (sv_hypot M dx dy) (con_value c)))
              | HorizontalDistance \<Rightarrow> tolerated (f64_abs (f64_sub dx (con_value c)))
              | VerticalDistance \<Rightarrow> tolerated (f64_abs (f64_sub dy (con_value c)))
              | Midpoint \<Rightarrow> (case lines of (Some l, Some k) \<Rightarrow> pointOnLine M (midpoint_of l) k | _ \<Rightarrow> False)
              | Collinear \<Rightarrow>
                  (case lines of
                     (Some l, Some k) \<Rightarrow> pointOnLine M (fst (line_ends_of l)) k \<and> pointOnLine M (snd (line_ends_of l)) k
                   | _ \<Rightarrow> False)
              | _ \<Rightarrow> False)
      | _ \<Rightarrow> False)"

definition relationSatisfied :: "solver_math \<Rightarrow> SketchSolverSystem \<Rightarrow> layouts \<Rightarrow> f64 list \<Rightarrow> SketchSolverConstraint \<Rightarrow> bool" where
  "relationSatisfied M system known params c =
     (let kind = con_kind c
      in if kind = Fixed then True
         else if kind = Radius \<or> kind = Diameter then radius_satisfied known params c
         else if kind \<in> {Parallel, Perpendicular, Angle, Equal, Tangent, Concentric} then pair_satisfied M known params c
         else if kind = Symmetry then symmetry_satisfied M system known params c
         else points_satisfied M system known params c)"

definition SameConstraintDefinition :: "SketchSolverConstraint \<Rightarrow> SketchSolverConstraint \<Rightarrow> bool" where
  "SameConstraintDefinition a b =
     (let x = con_anchors a; y = con_anchors b
      in if con_kind a \<noteq> con_kind b \<or> length x \<noteq> length y then False
         else if con_driving a \<noteq> con_driving b then False
         else if con_kind a \<in> {Distance, Radius, HorizontalDistance, VerticalDistance, Length, Diameter, Angle} \<and>
                 \<not> f64_eq (con_value a) (con_value b) then False
         else if length x = 1 then x ! 0 = y ! 0
         else if length x \<noteq> 2 then False
         else x ! 0 = y ! 0 \<and> x ! 1 = y ! 1 \<or> x ! 0 = y ! 1 \<and> x ! 1 = y ! 0)"

definition repeated_constraints :: "SketchSolverConstraint list \<Rightarrow> string list" where
  "repeated_constraints cs =
     map (\<lambda>index. con_cid (cs ! index))
       (filter (\<lambda>index. list_ex (\<lambda>prior. SameConstraintDefinition (cs ! index) (cs ! prior)) [0..<index]) [0..<length cs])"

definition solved_repeating :: string where
  "solved_repeating = ''This sketch is solved, but some constraints repeat what others already say.''"

definition fixed_result :: "solver_math \<Rightarrow> SketchSolverSystem \<Rightarrow> layouts \<Rightarrow> f64 list \<Rightarrow> SketchSolverResult" where
  "fixed_result M system known params =
     (let cs = sys_constraints system;
          unsatisfied = map con_cid (filter (\<lambda>c. \<not> relationSatisfied M system known params c) cs);
          repeating = repeated_constraints cs
      in if unsatisfied \<noteq> [] then Conflict_result unsatisfied 0
         else new_result\<lparr>res_status := (if repeating \<noteq> [] then Redundant else Converged),
                res_entities := CanonicalizeZeros (sys_entities system), res_redundant := sort repeating,
                res_message := (if repeating \<noteq> [] then solved_repeating else ''Every shape in this sketch is fixed.'')\<rparr>)"

section \<open>The solve\<close>

definition namesFor :: "SketchSolverConstraint list \<Rightarrow> int list \<Rightarrow> string list" where
  "namesFor cs tags =
     sort_unique (concat (map (\<lambda>tag. if 1 \<le> tag \<and> tag \<le> int (length cs) then [con_cid (cs ! nat (tag - 1))] else []) tags))"

definition read_back :: "f64 list \<Rightarrow> SketchSolverEntity \<times> EntityLayout \<Rightarrow> SketchSolverEntity" where
  "read_back params = (\<lambda>(e, l).
     let k = lay_firstParam l
     in e\<lparr>ent_values :=
          (if ent_sort e = Arc_entity
           then [params ! k, params ! (k + 1), params ! (k + 2), RadiansToDegrees (params ! (k + 7)), RadiansToDegrees (params ! (k + 8))]
           else map (\<lambda>i. params ! (k + i)) [0..<PlaneGcsParameterCount e])\<rparr>)"

definition ConstraintIdsForEntity :: "SketchSolverSystem \<Rightarrow> string \<Rightarrow> string list" where
  "ConstraintIdsForEntity system eid =
     map con_cid (filter (\<lambda>c. list_ex (\<lambda>anchor. anc_eid anchor = eid) (con_anchors c)) (sys_constraints system))"

definition invalid_geometry :: "solver_math \<Rightarrow> SketchSolverSystem \<Rightarrow> int \<Rightarrow> SketchSolverEntity \<Rightarrow> SketchSolverResult" where
  "invalid_geometry M system dof e =
     (let causes = ConstraintIdsForEntity system (ent_eid e)
      in if causes \<noteq> [] then Conflict_result causes dof
         else new_result\<lparr>res_status := DidNotConverge, res_degreesOfFreedom := dof,
                res_message := ''The solver produced invalid geometry for '' @ ent_eid e @ '': it '' @ EntityGeometryError M e @ ''.''\<rparr>)"

definition converged_text :: "int \<Rightarrow> string" where
  "converged_text dof =
     (if dof = 0 then ''This sketch is fully constrained.''
      else ''This sketch is solved, with '' @ decimal (nat dof) @ '' degree(s) of freedom still open.'')"

definition solved_result :: "solver_math \<Rightarrow> SketchSolverSystem \<Rightarrow> layouts \<Rightarrow> gcs_answer \<Rightarrow> SketchSolverResult" where
  "solved_result M system known answer =
     (let cs = sys_constraints system; dof = max 0 (ga_dofs answer);
          entities = CanonicalizeZeros (map (read_back (ga_params answer)) (zip (sys_entities system) (map snd known)))
      in if ga_conflicting answer then Conflict_result (namesFor cs (ga_conflictingTags answer)) (max 0 (ga_diagnosedDofs answer))
         else if ga_status answer \<noteq> Solve_success \<and> ga_status answer \<noteq> Solve_converged
         then new_result\<lparr>res_status := DidNotConverge, res_degreesOfFreedom := dof,
                res_message := ''This sketch could not be solved to a stable shape.''\<rparr>
         else case List.find (\<lambda>e. EntityGeometryError M e \<noteq> []) entities of
                Some e \<Rightarrow> invalid_geometry M system dof e
              | None \<Rightarrow>
                  if ga_redundant answer
                  then new_result\<lparr>res_status := Redundant, res_entities := entities, res_degreesOfFreedom := dof,
                         res_redundant := namesFor cs (ga_redundantTags answer), res_message := solved_repeating\<rparr>
                  else new_result\<lparr>res_status := Converged, res_entities := entities, res_degreesOfFreedom := dof,
                         res_message := converged_text dof\<rparr>)"

definition engine_input :: "solver_math \<Rightarrow> SketchSolverSystem \<Rightarrow> layouts \<Rightarrow> gcs_call list \<Rightarrow> gcs_input" where
  "engine_input M system known calls =
     \<lparr>gi_params = solver_parameters M system, gi_values = map driving_value (sys_constraints system),
      gi_calls = calls @ arc_rules known, gi_unknowns = unknown_places system known\<rparr>"

definition build_system :: "solver_math \<Rightarrow> SketchSolverSystem \<Rightarrow> (layouts \<times> gcs_call list) step" where
  "build_system M system =
     rbind (prepare_layouts M system) (\<lambda>known.
     rbind (rmap (constraint_calls system known) (zip [0..<length (sys_constraints system)] (sys_constraints system))) (\<lambda>calls.
       if mutuallyExclusiveAxes system known \<noteq> [] then Inl (Conflict_result (mutuallyExclusiveAxes system known) 0)
       else Inr (known, concat calls)))"

definition SolveSketch :: "solver_math \<Rightarrow> gcs_engine \<Rightarrow> SketchSolverSystem \<Rightarrow> SketchSolverResult" where
  "SolveSketch M engine system =
     (case build_system M system of
        Inl early \<Rightarrow> early
      | Inr (known, calls) \<Rightarrow>
          if unknown_places system known = [] then fixed_result M system known (solver_parameters M system)
          else solved_result M system known (engine (engine_input M system known calls)))"

end
