(* ===== verification/Sketch_Solve_Laws.thy ===== *)
theory Sketch_Solve_Laws
  imports Sketch_Solve
begin

text \<open>
  The laws of \<open>SolveSketch\<close>: the layout of a validated sketch, the places the engine may move, and
  the contract of the result in \<open>sketch_solver.hpp\<close>.
\<close>

section \<open>Names\<close>

lemma set_sort_unique [simp]: "set (sort_unique xs) = set xs"
  by (simp add: sort_unique_def)

lemma set_namesFor: "set (namesFor cs tags) \<subseteq> con_cid ` set cs"
  by (auto simp: namesFor_def split: if_splits)

lemma set_axis_ids: "set (axis_ids system known kind eid) \<subseteq> con_cid ` set (sys_constraints system)"
  by (auto simp: axis_ids_def)

lemma set_mutuallyExclusiveAxes: "set (mutuallyExclusiveAxes system known) \<subseteq> con_cid ` set (sys_constraints system)"
  using set_axis_ids by (fastforce simp: mutuallyExclusiveAxes_def Let_def split: if_splits)

lemma set_repeated_constraints: "set (repeated_constraints cs) \<subseteq> con_cid ` set cs"
  by (auto simp: repeated_constraints_def)

lemma set_ConstraintIdsForEntity: "set (ConstraintIdsForEntity system eid) \<subseteq> con_cid ` set (sys_constraints system)"
  by (auto simp: ConstraintIdsForEntity_def)

section \<open>Early results\<close>

text \<open>What the code can return before it asks the engine.\<close>

definition early_ok :: "SketchSolverSystem \<Rightarrow> SketchSolverResult \<Rightarrow> bool" where
  "early_ok system r \<longleftrightarrow>
     (\<exists>message. r = Invalid_result message) \<or>
     (\<exists>names. r = Conflict_result names 0 \<and> names \<noteq> [] \<and> set names \<subseteq> con_cid ` set (sys_constraints system))"

lemma early_ok_invalid [simp]: "early_ok system (Invalid_result message)"
  by (auto simp: early_ok_def)

lemma invalid_eq_Inl [simp]: "invalid message = Inl r \<longleftrightarrow> r = Invalid_result message" "invalid message \<noteq> Inr x"
  by (auto simp: invalid_def)

lemma refuse_eq [simp]: "refuse c reason \<noteq> Inr x" "refuse c reason = Inl r \<Longrightarrow> early_ok system r"
  by (auto simp: refuse_def)

lemma anchored_eq: "anchored c out = Inl r \<Longrightarrow> early_ok system r" "anchored c out = Inr x \<longleftrightarrow> out = Inr x"
  by (auto simp: anchored_def split: sum.splits)

lemma check_entity_early: "check_entity M known e = Inl r \<Longrightarrow> early_ok system r"
  by (auto simp: check_entity_def Let_def split: if_splits)

lemma layout_entities_early: "layout_entities M known n entities = Inl r \<Longrightarrow> early_ok system r"
  by (induction M known n entities rule: layout_entities.induct) (auto simp: rbind_eq_Inl check_entity_early)

lemma rfold_early: "rfold f s xs = Inl r \<Longrightarrow> (\<And>s x. f s x = Inl r \<Longrightarrow> P) \<Longrightarrow> P"
  by (induction xs arbitrary: s) (auto simp: rbind_eq_Inl)

lemma rmap_early: "rmap f xs = Inl r \<Longrightarrow> \<exists>x \<in> set xs. f x = Inl r"
  by (induction xs) (auto simp: rbind_eq_Inl)

lemma prepare_layouts_early: "prepare_layouts M system = Inl r \<Longrightarrow> early_ok s r"
  unfolding prepare_layouts_def rbind_eq_Inl
  by (elim disjE exE conjE layout_entities_early rfold_early)
     (auto simp: ground_entity_def fix_entity_def split: if_splits list.splits)

lemma find_entity_early: "find_entity known c anchor = Inl r \<Longrightarrow> early_ok system r"
  by (auto simp: find_entity_def split: option.splits)

lemma find_line_early: "find_line known c reason anchor = Inl r \<Longrightarrow> early_ok system r"
  by (auto simp: find_line_def rbind_eq_Inl find_entity_early split: if_splits)

lemma pair_calls_early: "pair_calls known i c = Inl r \<Longrightarrow> early_ok system r"
  by (auto simp: pair_calls_def rbind_eq_Inl anchored_eq angle_calls_def equal_calls_def tangent_calls_def
      split: if_splits option.splits)

lemma point_call_early: "point_call i c a b = Inl r \<Longrightarrow> early_ok system r"
  by (auto simp: point_call_def Let_def split: SketchSolverConstraintKind.splits if_splits)

lemma constraint_calls_early:
  assumes "constraint_calls system known (i, c) = Inl r" "c \<in> set (sys_constraints system)"
  shows "early_ok system r"
proof -
  have "early_ok system (Conflict_result [con_cid c] 0)" using assms(2) by (auto simp: early_ok_def)
  then show ?thesis
    using assms(1) unfolding constraint_calls_def Let_def
    by (auto simp: radius_calls_def direction_calls_def alignment_calls_def symmetry_calls_def point_calls_def Let_def
        rbind_eq_Inl find_entity_early find_line_early anchored_eq pair_calls_early point_call_early split: if_splits)
qed

lemma build_system_early:
  assumes "build_system M system = Inl r"
  shows "early_ok system r"
proof -
  have conflict: "early_ok system (Conflict_result (mutuallyExclusiveAxes system known) 0)"
    if "mutuallyExclusiveAxes system known \<noteq> []" for known
    unfolding early_ok_def using that set_mutuallyExclusiveAxes by blast
  have calls: "early_ok system r"
    if "rmap (constraint_calls system known) (zip [0..<length (sys_constraints system)] (sys_constraints system)) = Inl r" for known
    using rmap_early [OF that] constraint_calls_early by (auto dest: set_zip_rightD)
  show ?thesis using assms unfolding build_system_def rbind_eq_Inl
    by (auto simp: prepare_layouts_early dest: calls split: if_splits intro: conflict)
qed

section \<open>The layout\<close>

definition valid_entity :: "solver_math \<Rightarrow> SketchSolverEntity \<Rightarrow> bool" where
  "valid_entity M e \<longleftrightarrow> EntityGeometryError M e = [] \<and>
     (\<not> is_curve_of_points (ent_sort e) \<longrightarrow> length (ent_values e) = SketchEntityParameterCount (ent_sort e)) \<and>
     (is_curve_of_points (ent_sort e) \<longrightarrow> ent_values e \<noteq> [])"

definition places_before :: "SketchSolverEntity list \<Rightarrow> nat \<Rightarrow> nat" where
  "places_before entities i = sum_list (map PlaneGcsParameterCount (take i entities))"

definition layout_at :: "SketchSolverEntity list \<Rightarrow> layouts \<Rightarrow> nat \<Rightarrow> bool" where
  "layout_at entities known i \<longleftrightarrow>
     fst (known ! i) = ent_eid (entities ! i) \<and> lay_entityIndex (snd (known ! i)) = i \<and>
     lay_firstParam (snd (known ! i)) = places_before entities i \<and> lay_kind (snd (known ! i)) = ent_sort (entities ! i)"

definition laid_out :: "solver_math \<Rightarrow> SketchSolverEntity list \<Rightarrow> layouts \<Rightarrow> bool" where
  "laid_out M entities known \<longleftrightarrow>
     length known = length entities \<and> distinct (map fst known) \<and> (\<forall>e \<in> set entities. valid_entity M e) \<and>
     (\<forall>i < length entities. layout_at entities known i)"

lemma check_entity_valid:
  "check_entity M known e = Inr () \<Longrightarrow> valid_entity M e \<and> ent_eid e \<notin> fst ` set known"
  by (auto simp: check_entity_def valid_entity_def is_curve_of_points_def Let_def map_of_eq_None_iff split: if_splits)

lemma laid_out_snoc:
  assumes "laid_out M entities known" "valid_entity M e" "ent_eid e \<notin> fst ` set known"
  shows "laid_out M (entities @ [e])
    (known @ [(ent_eid e, \<lparr>lay_entityIndex = length known, lay_firstParam = places_before entities (length entities),
                          lay_kind = ent_sort e, lay_grounded = False\<rparr>)])" (is "laid_out M ?entities ?known")
proof -
  have len: "length known = length entities" and at: "\<And>i. i < length entities \<Longrightarrow> layout_at entities known i"
    using assms(1) by (auto simp: laid_out_def)
  have "layout_at ?entities ?known i" if "i < length ?entities" for i
  proof (cases "i < length entities")
    case True
    then show ?thesis using at [OF True] len by (simp add: layout_at_def places_before_def nth_append)
  next
    case False
    then have "i = length entities" using that by simp
    then show ?thesis using len by (simp add: layout_at_def places_before_def nth_append)
  qed
  then show ?thesis using assms len by (simp add: laid_out_def)
qed

lemma layout_entities_laid_out:
  "layout_entities M known n rest = Inr known' \<Longrightarrow> laid_out M entities known \<Longrightarrow> n = places_before entities (length entities) \<Longrightarrow>
   \<forall>x \<in> set known. \<not> lay_grounded (snd x) \<Longrightarrow>
   laid_out M (entities @ rest) known' \<and> (\<forall>x \<in> set known'. \<not> lay_grounded (snd x))"
proof (induction M known n rest arbitrary: entities rule: layout_entities.induct)
  case (2 M known n e rest)
  let ?known = "known @ [(ent_eid e, \<lparr>lay_entityIndex = length known, lay_firstParam = n, lay_kind = ent_sort e, lay_grounded = False\<rparr>)]"
  from "2.prems"(1) have c: "check_entity M known e = Inr ()"
    and step: "layout_entities M ?known (n + PlaneGcsParameterCount e) rest = Inr known'" by (auto simp: rbind_eq_Inr)
  have "laid_out M (entities @ [e]) ?known"
    using laid_out_snoc [OF "2.prems"(2)] check_entity_valid [OF c] "2.prems"(3) by simp
  moreover have "n + PlaneGcsParameterCount e = places_before (entities @ [e]) (length (entities @ [e]))"
    using "2.prems"(3) by (simp add: places_before_def)
  moreover have "\<forall>x \<in> set ?known. \<not> lay_grounded (snd x)" using "2.prems"(4) by simp
  ultimately show ?case using "2.IH" [OF c step, of "entities @ [e]"] by simp
qed simp

lemma laid_out_nil: "laid_out M [] []"
  by (simp add: laid_out_def)

text \<open>Grounding changes nothing but the flag.\<close>

lemma set_grounded_simps:
  "map fst (set_grounded eid known) = map fst known" "length (set_grounded eid known) = length known"
  by (auto simp: set_grounded_def)

lemma nth_set_grounded:
  assumes "i < length known"
  shows "set_grounded eid known ! i =
    (fst (known ! i), if fst (known ! i) = eid then (snd (known ! i))\<lparr>lay_grounded := True\<rparr> else snd (known ! i))"
  using assms by (auto simp: set_grounded_def split: prod.splits)

lemma laid_out_set_grounded: "laid_out M entities known \<Longrightarrow> laid_out M entities (set_grounded eid known)"
  by (auto simp: laid_out_def layout_at_def set_grounded_simps nth_set_grounded)

definition grounds :: "SketchSolverConstraint \<Rightarrow> string list" where
  "grounds c = (if con_kind c = Fixed then map anc_eid (con_anchors c) else [])"

definition grounded_ids :: "SketchSolverSystem \<Rightarrow> string set" where
  "grounded_ids system = set (sys_grounded system) \<union> (\<Union>c \<in> set (sys_constraints system). set (grounds c))"

definition grounds_exactly :: "string set \<Rightarrow> layouts \<Rightarrow> bool" where
  "grounds_exactly ids known \<longleftrightarrow> (\<forall>i < length known. lay_grounded (snd (known ! i)) \<longleftrightarrow> fst (known ! i) \<in> ids)"

lemma grounds_exactly_set_grounded: "grounds_exactly ids known \<Longrightarrow> grounds_exactly (insert eid ids) (set_grounded eid known)"
  by (auto simp: grounds_exactly_def set_grounded_simps nth_set_grounded)

lemma ground_all:
  "rfold ground_entity known eids = Inr known' \<Longrightarrow> laid_out M entities known \<Longrightarrow> grounds_exactly ids known \<Longrightarrow>
   laid_out M entities known' \<and> grounds_exactly (ids \<union> set eids) known'"
proof (induction eids arbitrary: known ids)
  case (Cons eid eids)
  then obtain next_known where "ground_entity known eid = Inr next_known" "rfold ground_entity next_known eids = Inr known'"
    by (auto simp: rbind_eq_Inr)
  moreover from this(1) have "next_known = set_grounded eid known" by (auto simp: ground_entity_def split: if_splits)
  ultimately have step: "rfold ground_entity (set_grounded eid known) eids = Inr known'" by simp
  show ?case
    using Cons.IH [OF step laid_out_set_grounded [OF Cons.prems(2)] grounds_exactly_set_grounded [OF Cons.prems(3), of eid]] by simp
qed simp

lemma fix_all:
  "rfold fix_entity known cs = Inr known' \<Longrightarrow> laid_out M entities known \<Longrightarrow> grounds_exactly ids known \<Longrightarrow>
   laid_out M entities known' \<and> grounds_exactly (ids \<union> (\<Union>c \<in> set cs. set (grounds c))) known'"
proof (induction cs arbitrary: known ids)
  case (Cons c cs)
  from Cons.prems(1) obtain next_known where step: "fix_entity known c = Inr next_known" "rfold fix_entity next_known cs = Inr known'"
    by (auto simp: rbind_eq_Inr)
  have "laid_out M entities next_known \<and> grounds_exactly (ids \<union> set (grounds c)) next_known"
    using step(1) Cons.prems(2,3) laid_out_set_grounded grounds_exactly_set_grounded
    by (auto simp: fix_entity_def grounds_def split: if_splits list.splits)
  then show ?case using Cons.IH [OF step(2)] by (fastforce simp: Un_assoc)
qed simp

lemma prepare_layouts_laid_out:
  assumes "prepare_layouts M system = Inr known"
  shows "laid_out M (sys_entities system) known" "grounds_exactly (grounded_ids system) known"
proof -
  obtain a b where steps: "layout_entities M [] 0 (sys_entities system) = Inr a" "rfold ground_entity a (sys_grounded system) = Inr b"
    "rfold fix_entity b (sys_constraints system) = Inr known"
    using assms by (auto simp: prepare_layouts_def rbind_eq_Inr)
  have a: "laid_out M (sys_entities system) a" "grounds_exactly {} a"
    using layout_entities_laid_out [OF steps(1) laid_out_nil] by (auto simp: places_before_def grounds_exactly_def)
  note b = ground_all [OF steps(2) a]
  from fix_all [OF steps(3)] b show "laid_out M (sys_entities system) known" "grounds_exactly (grounded_ids system) known"
    by (auto simp: grounded_ids_def)
qed

lemma build_systemE:
  assumes "build_system M system = Inr (known, calls)"
  obtains "laid_out M (sys_entities system) known" "grounds_exactly (grounded_ids system) known"
  using assms prepare_layouts_laid_out [of M system known] by (auto simp: build_system_def rbind_eq_Inr split: if_splits)

section \<open>The contract of a result\<close>

definition same_shapes :: "SketchSolverEntity list \<Rightarrow> SketchSolverEntity list \<Rightarrow> bool" where
  "same_shapes es fs \<longleftrightarrow>
     map (\<lambda>e. (ent_eid e, ent_sort e, length (ent_values e))) es = map (\<lambda>e. (ent_eid e, ent_sort e, length (ent_values e))) fs"

lemma same_shapes_trans: "same_shapes es fs \<Longrightarrow> same_shapes fs gs \<Longrightarrow> same_shapes es gs"
  by (simp add: same_shapes_def)

lemma same_shapes_canonical: "same_shapes es (CanonicalizeZeros es)"
  by (simp add: same_shapes_def CanonicalizeZeros_def)

definition canonical_zeros :: "SketchSolverEntity list \<Rightarrow> bool" where
  "canonical_zeros es \<longleftrightarrow> (\<forall>e \<in> set es. \<forall>v \<in> set (ent_values e). f64_eq v 0 \<longrightarrow> v = 0)"

lemma canonical_zeros_canonical: "canonical_zeros (CanonicalizeZeros es)"
  by (auto simp: canonical_zeros_def CanonicalizeZeros_def canonical_zero_def)

lemma gcs_parameter_count: "valid_entity M e \<Longrightarrow> ent_sort e \<noteq> Arc_entity \<Longrightarrow> PlaneGcsParameterCount e = length (ent_values e)"
  by (auto simp: valid_entity_def PlaneGcsParameterCount_def)

lemma read_back_shape:
  assumes "valid_entity M e"
  shows "(ent_eid (read_back params (e, l)), ent_sort (read_back params (e, l)), length (ent_values (read_back params (e, l)))) =
    (ent_eid e, ent_sort e, length (ent_values e))"
  using assms gcs_parameter_count [OF assms]
  by (auto simp: read_back_def Let_def valid_entity_def is_curve_of_points_def SketchEntityParameterCount_def)

definition read_entities :: "SketchSolverSystem \<Rightarrow> layouts \<Rightarrow> f64 list \<Rightarrow> SketchSolverEntity list" where
  "read_entities system known params = map (read_back params) (zip (sys_entities system) (map snd known))"

lemma read_entities_shapes:
  assumes "laid_out M (sys_entities system) known"
  shows "same_shapes (sys_entities system) (read_entities system known params)"
proof -
  have len: "length (sys_entities system) = length (map snd known)" and v: "\<forall>e \<in> set (sys_entities system). valid_entity M e"
    using assms by (auto simp: laid_out_def)
  show ?thesis
    unfolding same_shapes_def read_entities_def
  proof (rule nth_equalityI, use len in simp)
    fix i
    assume "i < length (map (\<lambda>e. (ent_eid e, ent_sort e, length (ent_values e))) (sys_entities system))"
    then have i: "i < length (sys_entities system)" by simp
    then have "valid_entity M (sys_entities system ! i)" using v by simp
    from read_back_shape [OF this, of params "snd (known ! i)"] i len
    show "map (\<lambda>e. (ent_eid e, ent_sort e, length (ent_values e))) (sys_entities system) ! i =
      map (\<lambda>e. (ent_eid e, ent_sort e, length (ent_values e))) (map (read_back params) (zip (sys_entities system) (map snd known))) ! i"
      by simp
  qed
qed

text \<open>The contract of \<open>sketch_solver.hpp\<close>: entities only with \<open>Converged\<close> and \<open>Redundant\<close>, in the order and shape
  of the input and without a negative zero; ids of constraints, under the status they belong to; valid
  geometry, save that a sketch in which nothing may move is answered with its own, validated, values.\<close>

definition result_contract :: "solver_math \<Rightarrow> SketchSolverSystem \<Rightarrow> SketchSolverResult \<Rightarrow> bool" where
  "result_contract M system r \<longleftrightarrow>
     set (res_conflicting r) \<union> set (res_redundant r) \<subseteq> con_cid ` set (sys_constraints system) \<and>
     (res_conflicting r = [] \<or> res_status r = Conflicting) \<and> (res_redundant r = [] \<or> res_status r = Redundant) \<and>
     (if res_status r = Converged \<or> res_status r = Redundant
      then same_shapes (sys_entities system) (res_entities r) \<and> canonical_zeros (res_entities r) \<and>
           ((\<forall>e \<in> set (res_entities r). EntityGeometryError M e = []) \<or>
            res_entities r = CanonicalizeZeros (sys_entities system) \<and> (\<forall>e \<in> set (sys_entities system). EntityGeometryError M e = []))
      else res_entities r = [])"

lemma conflict_contract: "set names \<subseteq> con_cid ` set (sys_constraints system) \<Longrightarrow> result_contract M system (Conflict_result names dof)"
  by (auto simp: result_contract_def Conflict_result_def Let_def new_result_def)

lemma early_contract: "early_ok system r \<Longrightarrow> result_contract M system r"
  by (auto simp: early_ok_def conflict_contract) (auto simp: result_contract_def Invalid_result_def new_result_def)

lemma fixed_contract:
  assumes "laid_out M (sys_entities system) known"
  shows "result_contract M system (fixed_result M system known params)"
proof (cases "filter (\<lambda>c. \<not> relationSatisfied M system known params c) (sys_constraints system) = []")
  case True
  have "\<forall>e \<in> set (sys_entities system). EntityGeometryError M e = []" using assms by (auto simp: laid_out_def valid_entity_def)
  then show ?thesis
    using True set_repeated_constraints [of "sys_constraints system"]
    by (auto simp: fixed_result_def Let_def result_contract_def new_result_def same_shapes_canonical canonical_zeros_canonical)
next
  case False
  then show ?thesis by (auto simp: fixed_result_def Let_def intro!: conflict_contract)
qed

lemma invalid_geometry_contract: "result_contract M system (invalid_geometry M system dof e)"
  using set_ConstraintIdsForEntity [of system "ent_eid e"]
  by (auto simp: invalid_geometry_def Let_def conflict_contract) (auto simp: result_contract_def new_result_def)

lemma solved_contract:
  assumes "laid_out M (sys_entities system) known"
  shows "result_contract M system (solved_result M system known answer)"
proof -
  let ?entities = "CanonicalizeZeros (read_entities system known (ga_params answer))"
  have shapes: "same_shapes (sys_entities system) ?entities"
    using read_entities_shapes [OF assms] same_shapes_canonical same_shapes_trans by blast
  have names: "set (namesFor (sys_constraints system) tags) \<subseteq> con_cid ` set (sys_constraints system)" for tags by (rule set_namesFor)
  have stopped: "result_contract M system (new_result\<lparr>res_status := DidNotConverge, res_degreesOfFreedom := dof, res_message := m\<rparr>)" for dof m
    by (simp add: result_contract_def new_result_def)
  show ?thesis
  proof (cases "List.find (\<lambda>e. EntityGeometryError M e \<noteq> []) ?entities")
    case (Some e)
    then show ?thesis
      using names stopped conflict_contract [OF names] invalid_geometry_contract
      by (simp add: solved_result_def Let_def read_entities_def)
  next
    case None
    then have "\<forall>e \<in> set ?entities. EntityGeometryError M e = []" by (auto simp: find_None_iff)
    then have "result_contract M system
      (new_result\<lparr>res_status := Redundant, res_entities := ?entities, res_degreesOfFreedom := dof, res_redundant := namesFor (sys_constraints system) tags, res_message := m\<rparr>)"
      "result_contract M system (new_result\<lparr>res_status := Converged, res_entities := ?entities, res_degreesOfFreedom := dof, res_message := m\<rparr>)" for dof tags m
      using shapes names canonical_zeros_canonical by (simp_all add: result_contract_def new_result_def)
    then show ?thesis
      using None stopped conflict_contract [OF names] by (simp add: solved_result_def Let_def read_entities_def)
  qed
qed

lemma SolveSketch_contract: "result_contract M system (SolveSketch M engine system)"
proof (cases "build_system M system")
  case (Inl early)
  then show ?thesis using early_contract [OF build_system_early [OF Inl]] by (simp add: SolveSketch_def)
next
  case (Inr built)
  obtain known calls where built: "built = (known, calls)" by (cases built)
  with Inr have l: "laid_out M (sys_entities system) known" by (auto elim: build_systemE)
  show ?thesis using Inr built fixed_contract [OF l] solved_contract [OF l] by (simp add: SolveSketch_def)
qed

section \<open>Grounded entities\<close>

text \<open>What the engine promises: it writes the unknowns and nothing else.\<close>

definition moves_only_unknowns :: "gcs_engine \<Rightarrow> bool" where
  "moves_only_unknowns engine \<longleftrightarrow>
     (\<forall>inp k. k < length (gi_params inp) \<longrightarrow> k \<notin> set (gi_unknowns inp) \<longrightarrow> ga_params (engine inp) ! k = gi_params inp ! k)"

lemma nth_concat_map:
  "\<forall>e \<in> set es. length (f e) = g e \<Longrightarrow> i < length es \<Longrightarrow> k < g (es ! i) \<Longrightarrow>
   concat (map f es) ! (sum_list (map g (take i es)) + k) = f (es ! i) ! k \<and>
   sum_list (map g (take i es)) + k < length (concat (map f es))"
proof (induction es arbitrary: i)
  case (Cons e es)
  then show ?case by (cases i) (auto simp: nth_append)
qed simp

lemma length_entity_parameters: "valid_entity M e \<Longrightarrow> length (entity_parameters M e) = PlaneGcsParameterCount e"
  by (auto simp: entity_parameters_def gcs_parameter_count Let_def) (simp add: PlaneGcsParameterCount_def)

lemma nth_solver_parameters:
  assumes "\<forall>e \<in> set (sys_entities system). valid_entity M e" "i < length (sys_entities system)"
    and "k < PlaneGcsParameterCount (sys_entities system ! i)"
  shows "solver_parameters M system ! (places_before (sys_entities system) i + k) = entity_parameters M (sys_entities system ! i) ! k"
    and "places_before (sys_entities system) i + k < length (solver_parameters M system)"
  using nth_concat_map [of "sys_entities system" "entity_parameters M" PlaneGcsParameterCount i k] assms length_entity_parameters
  by (auto simp: solver_parameters_def places_before_def)

lemma places_before_Suc: "i < length es \<Longrightarrow> places_before es (Suc i) = places_before es i + PlaneGcsParameterCount (es ! i)"
  by (simp add: places_before_def take_Suc_conv_app_nth)

lemma places_before_mono: "i \<le> j \<Longrightarrow> j \<le> length es \<Longrightarrow> places_before es i \<le> places_before es j"
  by (induction rule: dec_induct) (auto simp: places_before_Suc)

lemma grounded_not_unknown:
  assumes "laid_out M (sys_entities system) known" "i < length (sys_entities system)" "lay_grounded (snd (known ! i))"
    and "k < PlaneGcsParameterCount (sys_entities system ! i)"
  shows "places_before (sys_entities system) i + k \<notin> set (unknown_places system known)"
proof
  let ?es = "sys_entities system"
  assume "places_before ?es i + k \<in> set (unknown_places system known)"
  then obtain j where j: "j < length ?es" "\<not> lay_grounded (snd (known ! j))"
    and within: "lay_firstParam (snd (known ! j)) \<le> places_before ?es i + k"
      "places_before ?es i + k < lay_firstParam (snd (known ! j)) + PlaneGcsParameterCount (?es ! j)"
    by (auto simp: unknown_places_def in_set_zip split: if_splits)
  have "lay_firstParam (snd (known ! j)) = places_before ?es j" using assms(1) j(1) by (simp add: laid_out_def layout_at_def)
  moreover have "i \<noteq> j" using assms(3) j(2) by auto
  moreover have "places_before ?es (Suc i) \<le> places_before ?es j" if "i < j" using that j(1) by (intro places_before_mono) auto
  moreover have "places_before ?es (Suc j) \<le> places_before ?es i" if "j < i" using that assms(2) by (intro places_before_mono) auto
  ultimately show False
    using within assms(2,4) j(1) by (cases "i < j") (auto simp: places_before_Suc)
qed

text \<open>The values a grounded entity comes back with when something else may move.\<close>

definition kept_values :: "SketchSolverEntity \<Rightarrow> f64 list" where
  "kept_values e =
     (if ent_sort e = Arc_entity
      then take 3 (ent_values e) @ map (\<lambda>v. RadiansToDegrees (DegreesToRadians v)) (drop 3 (ent_values e))
      else ent_values e)"

lemma arc_values: "valid_entity M e \<Longrightarrow> ent_sort e = Arc_entity \<Longrightarrow> \<exists>a b c d f. ent_values e = [a, b, c, d, f]"
  by (auto simp: valid_entity_def is_curve_of_points_def SketchEntityParameterCount_def eval_nat_numeral length_Suc_conv)

lemma grounded_read_back:
  assumes l: "laid_out M (sys_entities system) known" and m: "moves_only_unknowns engine"
    and i: "i < length (sys_entities system)" "lay_grounded (snd (known ! i))"
  shows "ent_values (read_entities system known (ga_params (engine (engine_input M system known calls))) ! i) = kept_values (sys_entities system ! i)"
proof -
  let ?e = "sys_entities system ! i" and ?first = "lay_firstParam (snd (known ! i))"
  let ?params = "ga_params (engine (engine_input M system known calls))"
  have v: "\<forall>e \<in> set (sys_entities system). valid_entity M e" and first: "?first = places_before (sys_entities system) i"
    and len: "length known = length (sys_entities system)"
    using l i by (auto simp: laid_out_def layout_at_def)
  have at: "?params ! (?first + k) = entity_parameters M ?e ! k" if "k < PlaneGcsParameterCount ?e" for k
    using m grounded_not_unknown [OF l i that] nth_solver_parameters [OF v i(1) that] first
    by (simp add: moves_only_unknowns_def engine_input_def)
  have e: "valid_entity M ?e" using v i(1) by simp
  have entry: "read_entities system known ?params ! i = read_back ?params (?e, snd (known ! i))"
    using i(1) len by (simp add: read_entities_def)
  show ?thesis
  proof (cases "ent_sort ?e = Arc_entity")
    case True
    obtain a b c d f where vals: "ent_values ?e = [a, b, c, d, f]" using arc_values [OF e True] by blast
    have "PlaneGcsParameterCount ?e = 9" using True by (simp add: PlaneGcsParameterCount_def)
    then show ?thesis
      using at [of 0] at [of 1] at [of 2] at [of 7] at [of 8] True vals unfolding entry
      by (simp add: read_back_def Let_def kept_values_def entity_parameters_def)
  next
    case False
    have count: "PlaneGcsParameterCount ?e = length (ent_values ?e)" using gcs_parameter_count [OF e False] .
    have "map (\<lambda>k. ?params ! (?first + k)) [0..<length (ent_values ?e)] = ent_values ?e"
      by (rule nth_equalityI) (use at count False in \<open>auto simp: entity_parameters_def\<close>)
    then show ?thesis using False count unfolding entry by (simp add: read_back_def Let_def kept_values_def)
  qed
qed

text \<open>Nothing may move exactly when every entity is grounded.\<close>

definition all_grounded :: "SketchSolverSystem \<Rightarrow> bool" where
  "all_grounded system \<longleftrightarrow> (\<forall>e \<in> set (sys_entities system). ent_eid e \<in> grounded_ids system)"

lemma parameters_positive: "valid_entity M e \<Longrightarrow> 0 < PlaneGcsParameterCount e"
  by (cases "ent_sort e")
     (auto simp: valid_entity_def PlaneGcsParameterCount_def is_curve_of_points_def SketchEntityParameterCount_def)

lemma unknown_places_Nil:
  assumes l: "laid_out M (sys_entities system) known" and g: "grounds_exactly (grounded_ids system) known"
  shows "unknown_places system known = [] \<longleftrightarrow> all_grounded system"
proof -
  let ?es = "sys_entities system"
  have len: "length known = length ?es" using l by (simp add: laid_out_def)
  have pos: "0 < PlaneGcsParameterCount (?es ! i)" and name: "fst (known ! i) = ent_eid (?es ! i)" if "i < length ?es" for i
    using l that parameters_positive [of M "?es ! i"] by (auto simp: laid_out_def layout_at_def)
  have "unknown_places system known = [] \<longleftrightarrow> (\<forall>i < length ?es. lay_grounded (snd (known ! i)))"
  proof
    assume none: "unknown_places system known = []"
    show "\<forall>i < length ?es. lay_grounded (snd (known ! i))"
    proof (intro allI impI)
      fix i assume i: "i < length ?es"
      then have "(?es ! i, known ! i) \<in> set (zip ?es known)" using len by (force simp: set_zip)
      with none pos [OF i] show "lay_grounded (snd (known ! i))"
        by (cases "known ! i") (fastforce simp: unknown_places_def split: if_splits)
    qed
  next
    assume "\<forall>i < length ?es. lay_grounded (snd (known ! i))"
    then have "lay_grounded (snd k)" if "(e, k) \<in> set (zip ?es known)" for e k using that len by (auto simp: set_zip)
    then show "unknown_places system known = []" unfolding unknown_places_def concat_eq_Nil_conv by fastforce
  qed
  also have "\<dots> \<longleftrightarrow> (\<forall>i < length ?es. ent_eid (?es ! i) \<in> grounded_ids system)"
    using g len name by (auto simp: grounds_exactly_def)
  finally show ?thesis by (simp add: all_grounded_def all_set_conv_all_nth)
qed

lemma CanonicalizeZeros_nth: "i < length es \<Longrightarrow> ent_values (CanonicalizeZeros es ! i) = map canonical_zero (ent_values (es ! i))"
  by (simp add: CanonicalizeZeros_def)

text \<open>The ways a sketch is solved: everything fixed, or through the engine.\<close>

lemma SolveSketch_solved:
  assumes "res_status (SolveSketch M engine system) = Converged \<or> res_status (SolveSketch M engine system) = Redundant"
  obtains (fixed) known calls where "build_system M system = Inr (known, calls)" "unknown_places system known = []"
      "res_entities (SolveSketch M engine system) = CanonicalizeZeros (sys_entities system)"
  | (moved) known calls where "build_system M system = Inr (known, calls)" "unknown_places system known \<noteq> []"
      "res_entities (SolveSketch M engine system) =
         CanonicalizeZeros (read_entities system known (ga_params (engine (engine_input M system known calls))))"
proof (cases "build_system M system")
  case (Inl early)
  then have "early_ok system (SolveSketch M engine system)" using build_system_early [OF Inl] by (simp add: SolveSketch_def)
  then show ?thesis
    using assms by (auto simp: early_ok_def Invalid_result_def Conflict_result_def Let_def new_result_def)
next
  case (Inr built)
  obtain known calls where built: "build_system M system = Inr (known, calls)" using Inr by (cases built) auto
  show ?thesis
  proof (cases "unknown_places system known = []")
    case True
    then have r: "SolveSketch M engine system = fixed_result M system known (solver_parameters M system)"
      using built by (simp add: SolveSketch_def)
    show ?thesis
    proof (rule fixed [OF built True])
      show "res_entities (SolveSketch M engine system) = CanonicalizeZeros (sys_entities system)"
        using assms unfolding r
        by (auto simp: fixed_result_def Let_def Conflict_result_def new_result_def split: if_splits)
    qed
  next
    case False
    then have r: "SolveSketch M engine system = solved_result M system known (engine (engine_input M system known calls))"
      using built by (simp add: SolveSketch_def)
    show ?thesis
    proof (rule moved [OF built False])
      show "res_entities (SolveSketch M engine system) =
         CanonicalizeZeros (read_entities system known (ga_params (engine (engine_input M system known calls))))"
        using assms unfolding r
        by (auto simp: solved_result_def Let_def Conflict_result_def new_result_def invalid_geometry_def read_entities_def
            split: if_splits option.splits)
    qed
  qed
qed

end
