(* ===== verification/Sketch_Solve_Properties.thy ===== *)
theory Sketch_Solve_Properties
  imports Sketch_Solve_Laws
begin

text \<open>
  The properties of \<open>SolveSketch\<close>, with small systems: two points of which one is grounded, and a
  sketch in which everything is grounded.
\<close>

section \<open>The contract\<close>

text \<open>C14. Whatever the engine answers, the result keeps the contract of the seam: entities come back only
  with the statuses converged and redundant, in the order, kind and size of the input and without a
  negative zero; the conflicting and redundant ids are ids of the system's constraints; and no
  geometry comes back that the validation of an entity refuses.\<close>

theorem solve_keeps_its_contract: "result_contract M system (SolveSketch M engine system)"
  by (rule SolveSketch_contract)

section \<open>Grounding\<close>

text \<open>C15. A grounded or fixed entity does not move: with an engine that writes only its unknowns, every
  value of a grounded entity comes back as it was authored, up to the sign of a zero. The two angles
  of an arc are the exception, where the sketch also has an entity that may move: they come back as
  their conversion to radians and back, the centre and the radius as they were.\<close>

theorem grounded_entities_stay:
  assumes "moves_only_unknowns engine" "ent_eid (sys_entities system ! i) \<in> grounded_ids system" "i < length (sys_entities system)"
    and "res_status (SolveSketch M engine system) = Converged \<or> res_status (SolveSketch M engine system) = Redundant"
  shows "ent_values (res_entities (SolveSketch M engine system) ! i) = map canonical_zero
    (if ent_sort (sys_entities system ! i) = Arc_entity \<and> \<not> all_grounded system
     then take 3 (ent_values (sys_entities system ! i)) @
          map (\<lambda>v. RadiansToDegrees (DegreesToRadians v)) (drop 3 (ent_values (sys_entities system ! i)))
     else ent_values (sys_entities system ! i))"
  using assms(4)
proof (cases rule: SolveSketch_solved)
  case (fixed known calls)
  then have "all_grounded system" using unknown_places_Nil by (auto elim: build_systemE)
  then show ?thesis using fixed(3) assms(3) by (simp add: CanonicalizeZeros_nth)
next
  case (moved known calls)
  from moved(1) have l: "laid_out M (sys_entities system) known" and g: "grounds_exactly (grounded_ids system) known"
    by (auto elim: build_systemE)
  have "lay_grounded (snd (known ! i))"
    using g l assms(2,3) by (auto simp: grounds_exactly_def laid_out_def layout_at_def)
  note kept = grounded_read_back [OF l assms(1,3) this, of calls]
  have "length (read_entities system known params) = length (sys_entities system)" for params
    using l by (simp add: read_entities_def laid_out_def)
  then show ?thesis using moved(2,3) assms(3) kept unknown_places_Nil [OF l g]
    by (simp add: CanonicalizeZeros_nth kept_values_def)
qed

definition sample_point :: "string \<Rightarrow> f64 \<Rightarrow> f64 \<Rightarrow> SketchSolverEntity" where
  "sample_point eid x y = \<lparr>ent_eid = eid, ent_sort = Point_entity, ent_values = [x, y]\<rparr>"

definition sample_system :: SketchSolverSystem where
  "sample_system = \<lparr>sys_entities = [sample_point ''a'' 0x3FF0000000000000 0x4000000000000000, sample_point ''b'' 0x4008000000000000 0x3FF0000000000000],
     sys_constraints = [], sys_grounded = [''a'']\<rparr>"

text \<open>An engine that leaves everything where it is.\<close>

definition still_engine :: gcs_engine where
  "still_engine inp = \<lparr>ga_conflicting = False, ga_redundant = False, ga_conflictingTags = [], ga_redundantTags = [],
     ga_diagnosedDofs = int (length (gi_unknowns inp)), ga_status = Solve_success, ga_dofs = int (length (gi_unknowns inp)),
     ga_params = gi_params inp\<rparr>"

lemma still_engine_moves: "moves_only_unknowns still_engine"
  by (simp add: moves_only_unknowns_def still_engine_def)

lemma sample_coordinates:
  "coordinateInRange 0x3FF0000000000000" "coordinateInRange 0x4000000000000000" "coordinateInRange 0x4008000000000000" "coordinateInRange 0"
  "f64_finite 0x3FF0000000000000" "f64_finite 0x4000000000000000" "f64_finite 0x4008000000000000" "f64_finite 0"
  "\<not> f64_eq 0x3FF0000000000000 0" "\<not> f64_eq 0x4000000000000000 0" "\<not> f64_eq 0x4008000000000000 0"
  by (simp_all add: coordinateInRange_def kSketchCoordinateLimit_def f64_finite_def f64_arith_eval Let_def)

lemma sample_solved: "res_status (SolveSketch M still_engine sample_system) = Converged"
  by (simp add: SolveSketch_def build_system_def prepare_layouts_def sample_system_def sample_point_def check_entity_def
      is_curve_of_points_def SketchEntityParameterCount_def EntityGeometryError_def sample_coordinates ground_entity_def set_grounded_def
      mutuallyExclusiveAxes_def axis_ids_def Let_def unknown_places_def PlaneGcsParameterCount_def upt_rec
      solved_result_def still_engine_def engine_input_def solver_parameters_def entity_parameters_def read_back_def
      CanonicalizeZeros_def canonical_zero_def new_result_def)

corollary grounded_entities_stay_witness:
  "\<forall>M. moves_only_unknowns still_engine \<and> res_status (SolveSketch M still_engine sample_system) = Converged \<and>
     ent_values (res_entities (SolveSketch M still_engine sample_system) ! 0) = [0x3FF0000000000000, 0x4000000000000000]"
proof
  fix M
  show "moves_only_unknowns still_engine \<and> res_status (SolveSketch M still_engine sample_system) = Converged \<and>
     ent_values (res_entities (SolveSketch M still_engine sample_system) ! 0) = [0x3FF0000000000000, 0x4000000000000000]"
    using grounded_entities_stay [of still_engine sample_system 0 M] still_engine_moves sample_solved [of M]
    by (simp add: sample_system_def sample_point_def grounded_ids_def canonical_zero_def sample_coordinates)
qed

section \<open>A sketch in which everything is fixed\<close>

definition sample_ellipse :: "string \<Rightarrow> f64 \<Rightarrow> SketchSolverEntity" where
  "sample_ellipse eid radiusX = \<lparr>ent_eid = eid, ent_sort = Ellipse_entity,
     ent_values = [0x3FF0000000000000, 0x3FF0000000000000, radiusX, 0x3FF0000000000000, 0]\<rparr>"

definition concentric_ellipses :: SketchSolverSystem where
  "concentric_ellipses = \<lparr>sys_entities = [sample_ellipse ''a'' 0x4000000000000000, sample_ellipse ''b'' 0x4008000000000000],
     sys_constraints = [\<lparr>con_cid = ''c'', con_kind = Concentric,
       con_anchors = [\<lparr>anc_eid = ''a'', anc_position = Start_anchor\<rparr>, \<lparr>anc_eid = ''b'', anc_position = Start_anchor\<rparr>],
       con_value = 0, con_driving = True\<rparr>],
     sys_grounded = [''a'', ''b'']\<rparr>"

definition reference_dimension :: SketchSolverSystem where
  "reference_dimension = \<lparr>sys_entities = [sample_point ''a'' 0x3FF0000000000000 0x3FF0000000000000, sample_point ''b'' 0x4008000000000000 0x3FF0000000000000],
     sys_constraints = [\<lparr>con_cid = ''r'', con_kind = HorizontalDistance,
       con_anchors = [\<lparr>anc_eid = ''a'', anc_position = Point_anchor\<rparr>, \<lparr>anc_eid = ''b'', anc_position = Point_anchor\<rparr>],
       con_value = 0x4014000000000000, con_driving = False\<rparr>],
     sys_grounded = [''a'', ''b'']\<rparr>"

lemma sample_sizes:
  "\<not> size_out_of_range 0x3FF0000000000000" "\<not> size_out_of_range 0x4000000000000000" "\<not> size_out_of_range 0x4008000000000000"
  "\<not> offset_value_bad 0x4014000000000000"
  by (simp_all add: size_out_of_range_def offset_value_bad_def kSketchMinimumSize_def kSketchCoordinateLimit_def f64_finite_def
      f64_arith_eval Let_def)

lemma reference_unmet: "\<not> tolerated (f64_abs (f64_sub (f64_sub 0x4008000000000000 0x3FF0000000000000) 0x4014000000000000))"
  by (simp add: tolerated_def kFixedConstraintTolerance_def f64_arith_eval Let_def)

definition ellipse_layouts :: layouts where
  "ellipse_layouts =
     [(''a'', \<lparr>lay_entityIndex = 0, lay_firstParam = 0, lay_kind = Ellipse_entity, lay_grounded = True\<rparr>),
      (''b'', \<lparr>lay_entityIndex = 1, lay_firstParam = 5, lay_kind = Ellipse_entity, lay_grounded = True\<rparr>)]"

lemma ellipses_built:
  "build_system M concentric_ellipses = Inr (ellipse_layouts, [P2PCoincident (0, 1) (5, 6) 1 True])"
proof -
  have "EntityGeometryError M (sample_ellipse eid 0x4000000000000000) = []" "EntityGeometryError M (sample_ellipse eid 0x4008000000000000) = []" for eid
    by (simp_all add: EntityGeometryError_def sample_ellipse_def sample_coordinates sample_sizes)
  then have "check_entity M known (sample_ellipse eid r) = Inr ()"
    if "map_of known eid = None" "r = 0x4000000000000000 \<or> r = 0x4008000000000000" for known eid r
    using that by (auto simp: check_entity_def is_curve_of_points_def SketchEntityParameterCount_def sample_ellipse_def sample_coordinates)
  then have "prepare_layouts M concentric_ellipses = Inr ellipse_layouts"
    by (simp add: prepare_layouts_def concentric_ellipses_def ground_entity_def set_grounded_def fix_entity_def ellipse_layouts_def)
      (simp add: sample_ellipse_def PlaneGcsParameterCount_def is_curve_of_points_def SketchEntityParameterCount_def set_grounded_def)
  then show ?thesis
    by (simp add: build_system_def) (simp add: concentric_ellipses_def ellipse_layouts_def constraint_calls_def needed_anchors_def
      pair_calls_def entityIndexFor_def anchored_def center_of_def has_center_def point_at_offset_def
      mutuallyExclusiveAxes_def axis_ids_def)
qed

lemma ellipses_refused:
  "filter (\<lambda>c. \<not> relationSatisfied M concentric_ellipses ellipse_layouts params c) (sys_constraints concentric_ellipses) =
     sys_constraints concentric_ellipses"
  by (simp add: concentric_ellipses_def ellipse_layouts_def relationSatisfied_def pair_satisfied_def circleData_def layout_of_kind_def)

definition reference_layouts :: layouts where
  "reference_layouts =
     [(''a'', \<lparr>lay_entityIndex = 0, lay_firstParam = 0, lay_kind = Point_entity, lay_grounded = True\<rparr>),
      (''b'', \<lparr>lay_entityIndex = 1, lay_firstParam = 2, lay_kind = Point_entity, lay_grounded = True\<rparr>)]"

lemma reference_built:
  "build_system M reference_dimension = Inr (reference_layouts, [CoordinateDifference 0 2 0 1 False])"
proof -
  have "prepare_layouts M reference_dimension = Inr reference_layouts"
    by (simp add: prepare_layouts_def reference_dimension_def sample_point_def check_entity_def is_curve_of_points_def
        SketchEntityParameterCount_def EntityGeometryError_def sample_coordinates ground_entity_def set_grounded_def fix_entity_def
        PlaneGcsParameterCount_def reference_layouts_def)
  then show ?thesis
    by (simp add: build_system_def) (simp add: reference_dimension_def reference_layouts_def constraint_calls_def needed_anchors_def
      point_calls_def resolvePoint_def place_def anchored_def point_call_def point_at_offset_def sample_sizes
      mutuallyExclusiveAxes_def axis_ids_def)
qed

lemma reference_refused:
  "filter (\<lambda>c. \<not> relationSatisfied M reference_dimension reference_layouts (solver_parameters M reference_dimension) c)
     (sys_constraints reference_dimension) = sys_constraints reference_dimension"
  by (simp add: reference_dimension_def reference_layouts_def relationSatisfied_def points_satisfied_def fixedPoint_def
      resolvePoint_def place_def point_at_offset_def solver_parameters_def entity_parameters_def sample_point_def)
    (use reference_unmet in simp)

text \<open>The check of a sketch in which everything is fixed is stricter than the solver: two ellipses with
  one centre, which the concentric constraint accepts, are reported as a conflict, and so is a
  reference dimension, which is to constrain nothing, whose recorded value is not the measured one.\<close>

lemma fixed_check_rejects_what_the_solver_accepts:
  "res_status (SolveSketch M engine concentric_ellipses) = Conflicting \<and> res_conflicting (SolveSketch M engine concentric_ellipses) = [''c''] \<and>
   \<not> isl (build_system M concentric_ellipses) \<and>
   res_status (SolveSketch M engine reference_dimension) = Conflicting \<and> res_conflicting (SolveSketch M engine reference_dimension) = [''r''] \<and>
   \<not> isl (build_system M reference_dimension)"
proof -
  have "SolveSketch M engine concentric_ellipses = Conflict_result [''c''] 0 \<and> \<not> isl (build_system M concentric_ellipses)"
    using ellipses_built [of M] ellipses_refused [of M]
    by (simp add: SolveSketch_def unknown_places_def ellipse_layouts_def fixed_result_def) (simp add: concentric_ellipses_def)
  moreover have "SolveSketch M engine reference_dimension = Conflict_result [''r''] 0 \<and> \<not> isl (build_system M reference_dimension)"
    using reference_built [of M] reference_refused [of M]
    by (simp add: SolveSketch_def unknown_places_def reference_layouts_def fixed_result_def) (simp add: reference_dimension_def)
  ultimately show ?thesis by (simp add: Conflict_result_def Let_def new_result_def sort_unique_def)
qed

section \<open>Grounded arcs\<close>

text \<open>The angles of a grounded arc go through radians and back when anything else may move: 11 degrees
  come back as another double.\<close>

lemma eleven_degrees_drift: "RadiansToDegrees (DegreesToRadians 0x4026000000000000) \<noteq> 0x4026000000000000"
proof -
  have p: "kSolverPi = 0x400921FB54442D18" "f64_of_nat 180 = 0x4066800000000000" by (simp_all add: kSolverPi_def f64_arith_eval Let_def)
  show ?thesis unfolding RadiansToDegrees_def DegreesToRadians_def p by (simp add: f64_arith_eval Let_def)
qed

end
