(* ===== verification/Sketch_Wire.thy ===== *)
theory Sketch_Wire
  imports Sketch_Solve Selector_Query
begin

text \<open>
  The sketch solver on the wire (\<open>server.cpp\<close>): the request of \<open>solve_sketch\<close> read into a system, the
  reply, and \<open>AssertSketchSolutionsReproduce\<close>, which re-solves the sketches of a document and compares
  the stored solutions bit by bit.
\<close>

section \<open>Reading a system\<close>

definition SketchKindFromWire :: "string \<Rightarrow> SketchSolverEntityKind option" where
  "SketchKindFromWire kind =
     map_of [(''point'', Point_entity), (''line'', Line_entity), (''polyline'', Polyline_entity), (''rectangle'', Rectangle_entity),
       (''circle'', Circle_entity), (''arc-center'', Arc_entity), (''arc-three-point'', ArcThreePoint_entity),
       (''ellipse'', Ellipse_entity), (''polygon'', Polygon_entity), (''slot'', Slot_entity), (''spline'', Spline_entity)] kind"

definition SketchAnchorPositionFromWire :: "string \<Rightarrow> SketchSolverAnchorPosition option" where
  "SketchAnchorPositionFromWire position =
     map_of [(''point'', Point_anchor), (''start'', Start_anchor), (''end'', End_anchor), (''center'', Center_anchor), (''mid'', Mid_anchor)]
       position"

text \<open>A number of an entity: a coordinate of one of its points, or a member of its own.\<close>

definition coordinate :: "json \<Rightarrow> string \<times> nat \<Rightarrow> f64 result" where
  "coordinate entity = (\<lambda>(key, index). rbind (jat entity key) (\<lambda>point. get_at point index))"

definition member_number :: "json \<Rightarrow> string \<Rightarrow> f64 result" where
  "member_number entity key = rbind (jat entity key) get_double"

definition entity_numbers :: "json \<Rightarrow> (string \<times> nat) list \<Rightarrow> string list \<Rightarrow> f64 list result" where
  "entity_numbers entity coordinates members =
     rbind (rmap (coordinate entity) coordinates) (\<lambda>points. rbind (rmap (member_number entity) members) (\<lambda>numbers. Inr (points @ numbers)))"

definition both :: "string \<Rightarrow> (string \<times> nat) list" where
  "both key = [(key, 0), (key, 1)]"

definition curve_numbers :: "json \<Rightarrow> f64 list result" where
  "curve_numbers entity =
     rbind (jat entity ''points'') (\<lambda>points.
     rbind (rmap (\<lambda>point. rbind (get_at point 0) (\<lambda>x. rbind (get_at point 1) (\<lambda>y. Inr [x, y]))) (elements points)) (\<lambda>pairs.
       Inr (concat pairs)))"

definition SketchValuesFromWire :: "json \<Rightarrow> SketchSolverEntityKind \<Rightarrow> f64 list result" where
  "SketchValuesFromWire entity kind =
     (case kind of
        Point_entity \<Rightarrow> entity_numbers entity (both ''at'') []
      | Line_entity \<Rightarrow> entity_numbers entity (both ''p1'' @ both ''p2'') []
      | Polyline_entity \<Rightarrow> curve_numbers entity
      | Spline_entity \<Rightarrow> curve_numbers entity
      | Rectangle_entity \<Rightarrow> entity_numbers entity (both ''position'') [''width'', ''height'', ''rotation'']
      | Circle_entity \<Rightarrow> entity_numbers entity (both ''center'') [''radius'']
      | Arc_entity \<Rightarrow> entity_numbers entity (both ''center'') [''radius'', ''startAngle'', ''endAngle'']
      | ArcThreePoint_entity \<Rightarrow> entity_numbers entity (both ''p1'' @ both ''p2'' @ both ''p3'') []
      | Ellipse_entity \<Rightarrow> entity_numbers entity (both ''center'') [''radiusX'', ''radiusY'', ''rotation'']
      | Polygon_entity \<Rightarrow> entity_numbers entity (both ''center'') [''sides'', ''circumradius'', ''rotation'']
      | Slot_entity \<Rightarrow> entity_numbers entity (both ''p1'' @ both ''p2'') [''width''])"

text \<open>A refusal is the text of a reply; an exception ends the request.\<close>

definition wire_entity :: "json \<Rightarrow> (string + SketchSolverEntity) result" where
  "wire_entity entity =
     rbind (rbind (jat entity ''eid'') get_string) (\<lambda>eid. rbind (rbind (jat entity ''kind'') get_string) (\<lambda>kindName.
       case SketchKindFromWire kindName of
         None \<Rightarrow> Inr (Inl (''This sketch contains a '' @ kindName @ '', which the constraint solver does not handle yet. Use lines, '' @
           ''arcs, circles and points.''))
       | Some kind \<Rightarrow> rbind (SketchValuesFromWire entity kind) (\<lambda>values.
           Inr (Inr \<lparr>ent_eid = eid, ent_sort = kind, ent_values = values\<rparr>))))"

definition anchorFromWire :: "json \<Rightarrow> SketchSolverAnchor option result" where
  "anchorFromWire anchor =
     rbind (rbind (jat anchor ''eid'') get_string) (\<lambda>eid. rbind (rbind (jat anchor ''at'') get_string) (\<lambda>position.
       Inr (map_option (\<lambda>p. \<lparr>anc_eid = eid, anc_position = p\<rparr>) (SketchAnchorPositionFromWire position))))"

text \<open>The second anchor is not read when the first has no known position.\<close>

definition anchor_pair :: "json \<Rightarrow> SketchSolverAnchor list option result" where
  "anchor_pair constraint =
     rbind (jat constraint ''a'') (\<lambda>a. rbind (anchorFromWire a) (\<lambda>first.
       case first of
         None \<Rightarrow> Inr None
       | Some x \<Rightarrow> rbind (jat constraint ''b'') (\<lambda>b. rbind (anchorFromWire b) (\<lambda>second. Inr (map_option (\<lambda>y. [x, y]) second)))))"

definition named_anchor :: "json \<Rightarrow> string \<Rightarrow> SketchSolverAnchorPosition \<Rightarrow> SketchSolverAnchor result" where
  "named_anchor constraint key position =
     rbind (rbind (jat constraint key) get_string) (\<lambda>eid. Inr \<lparr>anc_eid = eid, anc_position = position\<rparr>)"

definition point_kinds :: "(string \<times> SketchSolverConstraintKind) list" where
  "point_kinds = [(''coincident'', Coincident), (''distance'', Distance), (''horizontal-distance'', HorizontalDistance),
     (''vertical-distance'', VerticalDistance), (''length'', Length)]"

definition entity_kinds :: "(string \<times> SketchSolverConstraintKind) list" where
  "entity_kinds = [(''parallel'', Parallel), (''perpendicular'', Perpendicular), (''angle'', Angle), (''angular'', Angle),
     (''tangent'', Tangent), (''equal'', Equal), (''concentric'', Concentric), (''midpoint'', Midpoint), (''collinear'', Collinear)]"

definition own_kinds :: "(string \<times> SketchSolverConstraintKind) list" where
  "own_kinds = [(''radius'', Radius), (''diameter'', Diameter), (''fix'', Fixed), (''ground'', Fixed),
     (''horizontal'', Horizontal), (''vertical'', Vertical)]"

definition wire_value :: "json \<Rightarrow> SketchSolverConstraintKind \<Rightarrow> f64 result" where
  "wire_value constraint kind =
     (if kind \<in> {Distance, HorizontalDistance, VerticalDistance, Length, Angle, Radius, Diameter}
      then member_number constraint ''value'' else Inr 0)"

text \<open>The anchors of a constraint of one entity.\<close>

definition own_anchors :: "json \<Rightarrow> SketchSolverConstraintKind \<Rightarrow> SketchSolverAnchor list result" where
  "own_anchors constraint kind =
     rbind (rbind (jat constraint ''eid'') get_string) (\<lambda>eid.
       Inr (map (\<lambda>p. \<lparr>anc_eid = eid, anc_position = p\<rparr>)
         (if kind = Horizontal \<or> kind = Vertical then [Start_anchor, End_anchor]
          else if kind = Fixed then [Point_anchor] else [Center_anchor])))"

definition built_constraint :: "string \<Rightarrow> bool \<Rightarrow> SketchSolverConstraintKind \<Rightarrow> SketchSolverAnchor list \<Rightarrow> f64 \<Rightarrow> SketchSolverConstraint" where
  "built_constraint cid driving kind anchors v =
     \<lparr>con_cid = cid, con_kind = kind, con_anchors = anchors, con_value = v, con_driving = driving\<rparr>"

definition wire_point_constraint :: "json \<Rightarrow> string \<Rightarrow> bool \<Rightarrow> SketchSolverConstraintKind \<Rightarrow> (string + SketchSolverConstraint) result" where
  "wire_point_constraint constraint cid driving kind =
     rbind (anchor_pair constraint) (\<lambda>pair.
       case pair of
         None \<Rightarrow> Inr (Inl (''Constraint '' @ cid @ '' uses an unknown anchor position.''))
       | Some anchors \<Rightarrow> rbind (wire_value constraint kind) (\<lambda>v. Inr (Inr (built_constraint cid driving kind anchors v))))"

text \<open>Of these the value of an angle is read before the entities.\<close>

definition wire_entity_constraint :: "json \<Rightarrow> string \<Rightarrow> bool \<Rightarrow> SketchSolverConstraintKind \<Rightarrow> (string + SketchSolverConstraint) result" where
  "wire_entity_constraint constraint cid driving kind =
     rbind (wire_value constraint kind) (\<lambda>v.
     rbind (named_anchor constraint ''a'' Start_anchor) (\<lambda>a. rbind (named_anchor constraint ''b'' Start_anchor) (\<lambda>b.
       Inr (Inr (built_constraint cid driving kind [a, b] v)))))"

definition wire_symmetry :: "json \<Rightarrow> string \<Rightarrow> bool \<Rightarrow> (string + SketchSolverConstraint) result" where
  "wire_symmetry constraint cid driving =
     rbind (anchor_pair constraint) (\<lambda>pair.
       case pair of
         None \<Rightarrow> Inr (Inl (''Constraint '' @ cid @ '' uses an unknown symmetry anchor position.''))
       | Some anchors \<Rightarrow> rbind (named_anchor constraint ''axis'' Start_anchor) (\<lambda>axis.
           Inr (Inr (built_constraint cid driving Symmetry (anchors @ [axis]) 0))))"

definition wire_constraint :: "json \<Rightarrow> (string + SketchSolverConstraint) result" where
  "wire_constraint constraint =
     rbind (rbind (jat constraint ''cid'') get_string) (\<lambda>cid. rbind (rbind (jat constraint ''kind'') get_string) (\<lambda>kind.
     rbind (jvalue constraint ''driving'' get_bool True) (\<lambda>driving.
       case map_of point_kinds kind of
         Some k \<Rightarrow> wire_point_constraint constraint cid driving k
       | None \<Rightarrow> (case map_of entity_kinds kind of
           Some k \<Rightarrow> wire_entity_constraint constraint cid driving k
         | None \<Rightarrow>
             if kind = ''symmetry'' then wire_symmetry constraint cid driving
             else (case map_of own_kinds kind of
                 Some k \<Rightarrow> rbind (own_anchors constraint k) (\<lambda>anchors. rbind (wire_value constraint k) (\<lambda>v.
                   Inr (Inr (built_constraint cid driving k anchors v))))
               | None \<Rightarrow> Inr (Inl (''Constraint '' @ cid @ '' is of an unknown kind.'')))))))"

text \<open>A loop whose body may refuse; the first refusal ends it.\<close>

fun wire_items :: "(json \<Rightarrow> (string + 'a) result) \<Rightarrow> json list \<Rightarrow> (string + 'a list) result" where
  "wire_items read [] = Inr (Inr [])"
| "wire_items read (item # items) =
     rbind (read item) (\<lambda>out.
       case out of Inl refusal \<Rightarrow> Inr (Inl refusal)
       | Inr x \<Rightarrow> rbind (wire_items read items) (\<lambda>rest. case rest of Inl refusal \<Rightarrow> Inr (Inl refusal) | Inr xs \<Rightarrow> Inr (Inr (x # xs))))"

definition wire_system :: "json \<Rightarrow> (string + SketchSolverSystem) result" where
  "wire_system payload =
     rbind (jat payload ''entities'') (\<lambda>es. rbind (wire_items wire_entity (elements es)) (\<lambda>out.
       case out of Inl refusal \<Rightarrow> Inr (Inl refusal)
       | Inr entities \<Rightarrow> rbind (jat payload ''constraints'') (\<lambda>cs. rbind (wire_items wire_constraint (elements cs)) (\<lambda>out.
           case out of Inl refusal \<Rightarrow> Inr (Inl refusal)
           | Inr constraints \<Rightarrow> rbind (jat payload ''grounded'') (\<lambda>gs. rbind (rmap get_string (elements gs)) (\<lambda>grounded.
               Inr (Inr \<lparr>sys_entities = entities, sys_constraints = constraints, sys_grounded = grounded\<rparr>)))))))"

section \<open>The reply\<close>

definition SketchStatusToWire :: "SketchSolverStatus \<Rightarrow> string" where
  "SketchStatusToWire status =
     (case status of Converged \<Rightarrow> ''converged'' | Conflicting \<Rightarrow> ''conflicting'' | Redundant \<Rightarrow> ''redundant''
      | DidNotConverge \<Rightarrow> ''did-not-converge'' | Invalid \<Rightarrow> ''invalid'')"

definition SketchRefusal :: "string \<Rightarrow> json" where
  "SketchRefusal message =
     make_object [(''type'', JString ''sketch_solution''), (''status'', JString ''invalid''), (''conflicting'', JArray []),
       (''redundant'', JArray []), (''message'', JString message)]"

definition solved_entity_json :: "SketchSolverEntity \<Rightarrow> json" where
  "solved_entity_json e = make_object [(''eid'', JString (ent_eid e)), (''values'', JArray (map JFloat (ent_values e)))]"

definition solution_json :: "SketchSolverResult \<Rightarrow> json" where
  "solution_json solved =
     make_object [(''entities'', JArray (map solved_entity_json (res_entities solved))),
       (''degreesOfFreedom'', JInt (res_degreesOfFreedom solved))]"

definition solved_json :: "SketchSolverResult \<Rightarrow> json" where
  "solved_json solved =
     make_object ([(''type'', JString ''sketch_solution''), (''status'', JString (SketchStatusToWire (res_status solved))),
       (''message'', JString (res_message solved)), (''conflicting'', JArray (map JString (res_conflicting solved))),
       (''redundant'', JArray (map JString (res_redundant solved)))] @
       (if res_status solved = Converged \<or> res_status solved = Redundant then [(''solution'', solution_json solved)] else []))"

definition SolveSketchPayload :: "solver_math \<Rightarrow> gcs_engine \<Rightarrow> json \<Rightarrow> json result" where
  "SolveSketchPayload M engine payload =
     rbind (wire_system payload) (\<lambda>out.
       Inr (case out of Inl refusal \<Rightarrow> SketchRefusal refusal | Inr system \<Rightarrow> solved_json (SolveSketch M engine system)))"

section \<open>Reproducing a stored solution\<close>

text \<open>Two arrays of one length, compared further.\<close>

definition same_arrays :: "(json list \<Rightarrow> json list \<Rightarrow> bool result) \<Rightarrow> json \<Rightarrow> json \<Rightarrow> bool result" where
  "same_arrays same x y =
     (case x of
        JArray xs \<Rightarrow> (case y of JArray ys \<Rightarrow> if length xs \<noteq> length ys then Inr False else same xs ys | _ \<Rightarrow> Inr False)
      | _ \<Rightarrow> Inr False)"

fun same_values :: "json list \<Rightarrow> json list \<Rightarrow> bool result" where
  "same_values (a # actual) (b # stored) =
     rbind (get_double a) (\<lambda>x. rbind (get_double b) (\<lambda>y. if x \<noteq> y then Inr False else same_values actual stored))"
| "same_values _ _ = Inr True"

definition same_entity :: "json \<Rightarrow> json \<Rightarrow> bool result" where
  "same_entity actual stored =
     rbind (rbind (jat actual ''eid'') get_string) (\<lambda>a. rbind (rbind (jat stored ''eid'') get_string) (\<lambda>b.
       if a \<noteq> b then Inr False
       else rbind (jat actual ''values'') (\<lambda>x. rbind (jat stored ''values'') (\<lambda>y. same_arrays same_values x y))))"

fun same_entities :: "json list \<Rightarrow> json list \<Rightarrow> bool result" where
  "same_entities (a # actual) (b # stored) =
     rbind (same_entity a b) (\<lambda>same. if \<not> same then Inr False else same_entities actual stored)"
| "same_entities _ _ = Inr True"

definition compare_solutions :: "json \<Rightarrow> json \<Rightarrow> bool result" where
  "compare_solutions actual stored =
     (if \<not> is_object actual \<or> \<not> is_object stored then Inr False
      else rbind (rbind (jat actual ''degreesOfFreedom'') get_int) (\<lambda>a. rbind (rbind (jat stored ''degreesOfFreedom'') get_int) (\<lambda>b.
        if a \<noteq> b then Inr False
        else rbind (jat actual ''entities'') (\<lambda>x. rbind (jat stored ''entities'') (\<lambda>y. same_arrays same_entities x y)))))"

text \<open>The exceptions of the JSON library mean a difference; the accessors throw no others.\<close>

definition SketchSolutionsBitIdentical :: "json \<Rightarrow> json \<Rightarrow> bool result" where
  "SketchSolutionsBitIdentical actual stored =
     (case compare_solutions actual stored of
        Inr same \<Rightarrow> Inr same | Inl Undefined_behaviour \<Rightarrow> Inl Undefined_behaviour | Inl _ \<Rightarrow> Inr False)"

definition sketch_payload :: "json \<Rightarrow> json result" where
  "sketch_payload parameters =
     rbind (jat parameters ''entities'') (\<lambda>entities. rbind (jvalue parameters ''constraints'' Inr (JArray [])) (\<lambda>constraints.
     rbind (jvalue parameters ''grounded'' Inr (JArray [])) (\<lambda>grounded.
       Inr (make_object [(''entities'', entities), (''constraints'', constraints), (''grounded'', grounded)]))))"

definition reproduce_sketch :: "solver_math \<Rightarrow> gcs_engine \<Rightarrow> string \<Rightarrow> json \<Rightarrow> unit result" where
  "reproduce_sketch M engine opId parameters =
     rbind (sketch_payload parameters) (\<lambda>payload. rbind (SolveSketchPayload M engine payload) (\<lambda>outcome.
       if \<not> jcontains outcome ''solution''
       then rbind (rbind (jat outcome ''message'') get_string) (\<lambda>message.
              Inl (Operation_failure opId ''GEOMETRY_FAILED'' (''this sketch no longer solves: '' @ message) JNull))
       else rbind (jat outcome ''solution'') (\<lambda>actual. rbind (jat parameters ''solution'') (\<lambda>stored.
            rbind (SketchSolutionsBitIdentical actual stored) (\<lambda>same.
              if same then Inr ()
              else Inl (Operation_failure opId ''GEOMETRY_FAILED''
                     (''this sketch re-solved to different coordinates than the ones saved with it, so '' @
                      ''the document cannot be trusted to reopen the same shape'') JNull))))))"

definition reproduce_operation :: "solver_math \<Rightarrow> gcs_engine \<Rightarrow> json \<Rightarrow> unit result" where
  "reproduce_operation M engine operation =
     (if \<not> is_object operation then Inr ()
      else rbind (jvalue operation ''type'' get_string []) (\<lambda>kind.
        if kind \<noteq> ''sketch'' then Inr ()
        else rbind (jvalue operation ''id'' get_string []) (\<lambda>opId. rbind (jat operation ''parameters'') (\<lambda>parameters.
          if \<not> jcontains parameters ''solution'' then Inr () else reproduce_sketch M engine opId parameters))))"

definition AssertSketchSolutionsReproduce :: "solver_math \<Rightarrow> gcs_engine \<Rightarrow> json \<Rightarrow> unit result" where
  "AssertSketchSolutionsReproduce M engine request =
     (case jfind request ''operations'' of
        Some (JArray operations) \<Rightarrow> rbind (rmap (reproduce_operation M engine) operations) (\<lambda>_. Inr ())
      | _ \<Rightarrow> Inr ())"

end
