(* ===== verification/Sketch_Wire_Laws.thy ===== *)
theory Sketch_Wire_Laws
  imports Sketch_Wire
begin

text \<open>
  What \<open>AssertSketchSolutionsReproduce\<close> accepts: the comparison is equality of what the two solutions
  read as, and a stored solution passes exactly when it reads as the result of solving its sketch.
\<close>

section \<open>Readings\<close>

definition array_reading :: "(json \<Rightarrow> 'a result) \<Rightarrow> json \<Rightarrow> 'a list option" where
  "array_reading read j = (case j of JArray js \<Rightarrow> (case rmap read js of Inr xs \<Rightarrow> Some xs | Inl _ \<Rightarrow> None) | _ \<Rightarrow> None)"

definition entity_reading :: "json \<Rightarrow> (string \<times> f64 list) result" where
  "entity_reading j =
     rbind (rbind (jat j ''eid'') get_string) (\<lambda>eid. rbind (jat j ''values'') (\<lambda>values.
       case array_reading get_double values of Some xs \<Rightarrow> Inr (eid, xs) | None \<Rightarrow> Inl (Json_type_error 302)))"

text \<open>What a solution says: its degrees of freedom, and each entity's id with the bits of its values.\<close>

definition solution_reading :: "json \<Rightarrow> (int \<times> (string \<times> f64 list) list) option" where
  "solution_reading j =
     (if \<not> is_object j then None
      else case rbind (jat j ''degreesOfFreedom'') get_int of
             Inl _ \<Rightarrow> None
           | Inr dof \<Rightarrow> (case jat j ''entities'' of
               Inl _ \<Rightarrow> None | Inr entities \<Rightarrow> map_option (Pair dof) (array_reading entity_reading entities)))"

lemma array_reading_eq_Some: "array_reading read j = Some xs \<longleftrightarrow> (\<exists>js. j = JArray js \<and> rmap read js = Inr xs)"
  by (cases j) (auto simp: array_reading_def split: sum.splits)

lemma same_arrays_True:
  "same_arrays same x y = Inr True \<longleftrightarrow> (\<exists>xs ys. x = JArray xs \<and> y = JArray ys \<and> length xs = length ys \<and> same xs ys = Inr True)"
  by (cases x; cases y) (auto simp: same_arrays_def)

lemma same_values_iff:
  "length xs = length ys \<Longrightarrow> same_values xs ys = Inr True \<longleftrightarrow> (\<exists>vs. rmap get_double xs = Inr vs \<and> rmap get_double ys = Inr vs)"
  by (induction xs ys rule: list_induct2) (auto simp: rbind_eq_Inr)

lemma entity_reading_eq_Inr:
  "entity_reading j = Inr r \<longleftrightarrow>
     (\<exists>xs. rbind (jat j ''eid'') get_string = Inr (fst r) \<and> jat j ''values'' = Inr (JArray xs) \<and> rmap get_double xs = Inr (snd r))"
proof
  assume "\<exists>xs. rbind (jat j ''eid'') get_string = Inr (fst r) \<and> jat j ''values'' = Inr (JArray xs) \<and> rmap get_double xs = Inr (snd r)"
  then show "entity_reading j = Inr r" by (auto simp: entity_reading_def array_reading_def)
qed (auto simp: entity_reading_def rbind_eq_Inr array_reading_eq_Some split: option.splits)

lemma same_entity_iff: "same_entity a b = Inr True \<longleftrightarrow> (\<exists>r. entity_reading a = Inr r \<and> entity_reading b = Inr r)"
proof
  assume "same_entity a b = Inr True"
  then obtain eid xs ys where e: "rbind (jat a ''eid'') get_string = Inr eid" "rbind (jat b ''eid'') get_string = Inr eid"
    "jat a ''values'' = Inr (JArray xs)" "jat b ''values'' = Inr (JArray ys)" "length xs = length ys" "same_values xs ys = Inr True"
    by (auto simp: same_entity_def rbind_eq_Inr same_arrays_True split: if_splits)
  then obtain vs where "rmap get_double xs = Inr vs" "rmap get_double ys = Inr vs" using same_values_iff by blast
  then show "\<exists>r. entity_reading a = Inr r \<and> entity_reading b = Inr r"
    using e by (intro exI [of _ "(eid, vs)"]) (simp add: entity_reading_eq_Inr)
next
  assume "\<exists>r. entity_reading a = Inr r \<and> entity_reading b = Inr r"
  then obtain r xs ys where e: "rbind (jat a ''eid'') get_string = Inr (fst r)" "rbind (jat b ''eid'') get_string = Inr (fst r)"
    "jat a ''values'' = Inr (JArray xs)" "jat b ''values'' = Inr (JArray ys)" "rmap get_double xs = Inr (snd r)" "rmap get_double ys = Inr (snd r)"
    by (auto simp: entity_reading_eq_Inr)
  then have "length xs = length ys" using rmap_eq_Inr_length by metis
  moreover from this have "same_values xs ys = Inr True" using e same_values_iff by blast
  ultimately show "same_entity a b = Inr True" using e by (simp add: same_entity_def same_arrays_True)
qed

lemma same_entities_iff:
  "length xs = length ys \<Longrightarrow> same_entities xs ys = Inr True \<longleftrightarrow> (\<exists>rs. rmap entity_reading xs = Inr rs \<and> rmap entity_reading ys = Inr rs)"
proof (induction xs ys rule: list_induct2)
  case (Cons x xs y ys)
  have "same_entities (x # xs) (y # ys) = Inr True \<longleftrightarrow> same_entity x y = Inr True \<and> same_entities xs ys = Inr True"
    by (auto simp: rbind_eq_Inr split: if_splits)
  then show ?case using Cons.IH by (auto simp: same_entity_iff rbind_eq_Inr)
qed simp

lemma solution_reading_eq_Some:
  "solution_reading j = Some (dof, rs) \<longleftrightarrow>
     is_object j \<and> rbind (jat j ''degreesOfFreedom'') get_int = Inr dof \<and>
     (\<exists>xs. jat j ''entities'' = Inr (JArray xs) \<and> rmap entity_reading xs = Inr rs)"
  by (auto simp: solution_reading_def array_reading_eq_Some simp del: json_kind_simps split: sum.splits)

lemma compare_solutions_iff:
  "compare_solutions a b = Inr True \<longleftrightarrow> (\<exists>r. solution_reading a = Some r \<and> solution_reading b = Some r)"
proof
  assume "compare_solutions a b = Inr True"
  then obtain dof xs ys where e: "is_object a" "is_object b" "rbind (jat a ''degreesOfFreedom'') get_int = Inr dof"
    "rbind (jat b ''degreesOfFreedom'') get_int = Inr dof" "jat a ''entities'' = Inr (JArray xs)" "jat b ''entities'' = Inr (JArray ys)"
    "length xs = length ys" "same_entities xs ys = Inr True"
    by (auto simp: compare_solutions_def rbind_eq_Inr same_arrays_True simp del: json_kind_simps split: if_splits)
  then obtain rs where "rmap entity_reading xs = Inr rs" "rmap entity_reading ys = Inr rs" using same_entities_iff by blast
  then show "\<exists>r. solution_reading a = Some r \<and> solution_reading b = Some r"
    using e by (intro exI [of _ "(dof, rs)"]) (simp add: solution_reading_eq_Some)
next
  assume "\<exists>r. solution_reading a = Some r \<and> solution_reading b = Some r"
  then obtain dof rs where "solution_reading a = Some (dof, rs)" "solution_reading b = Some (dof, rs)" by fastforce
  then obtain xs ys where e: "is_object a" "is_object b" "rbind (jat a ''degreesOfFreedom'') get_int = Inr dof"
    "rbind (jat b ''degreesOfFreedom'') get_int = Inr dof" "jat a ''entities'' = Inr (JArray xs)" "jat b ''entities'' = Inr (JArray ys)"
    "rmap entity_reading xs = Inr rs" "rmap entity_reading ys = Inr rs"
    unfolding solution_reading_eq_Some by blast
  then have "length xs = length ys" using rmap_eq_Inr_length by metis
  moreover from this have "same_entities xs ys = Inr True" using e same_entities_iff by blast
  ultimately show "compare_solutions a b = Inr True" using e by (simp add: compare_solutions_def same_arrays_True del: json_kind_simps)
qed

lemma SketchSolutionsBitIdentical_iff:
  "SketchSolutionsBitIdentical a b = Inr True \<longleftrightarrow> (\<exists>r. solution_reading a = Some r \<and> solution_reading b = Some r)"
  unfolding compare_solutions_iff [symmetric]
  by (auto simp: SketchSolutionsBitIdentical_def split: sum.splits kexn.splits)

section \<open>A solved sketch\<close>

definition solved_reading :: "SketchSolverResult \<Rightarrow> int \<times> (string \<times> f64 list) list" where
  "solved_reading solved = (wrap_int32 (res_degreesOfFreedom solved), map (\<lambda>e. (ent_eid e, ent_values e)) (res_entities solved))"

lemma rmap_get_double: "rmap get_double (map JFloat xs) = Inr xs"
  by (induction xs) (simp_all add: get_double_def)

lemma entity_reading_solved: "entity_reading (solved_entity_json e) = Inr (ent_eid e, ent_values e)"
  by (simp add: entity_reading_eq_Inr solved_entity_json_def make_object_def jat_def get_string_def rmap_get_double)

lemma rmap_entity_reading: "rmap entity_reading (map solved_entity_json es) = Inr (map (\<lambda>e. (ent_eid e, ent_values e)) es)"
  by (induction es) (simp_all add: entity_reading_solved)

lemma solution_reading_solved: "solution_reading (solution_json solved) = Some (solved_reading solved)"
  by (simp add: solved_reading_def solution_reading_eq_Some solution_json_def make_object_def jat_def get_int_def rmap_entity_reading)

definition is_solved :: "SketchSolverResult \<Rightarrow> bool" where
  "is_solved solved \<longleftrightarrow> res_status solved = Converged \<or> res_status solved = Redundant"

lemma solved_json_solution:
  "jfind (solved_json solved) ''solution'' = (if is_solved solved then Some (solution_json solved) else None)"
  by (auto simp: solved_json_def is_solved_def make_object_def jfind_def)

lemma refusal_solution: "jfind (SketchRefusal message) ''solution'' = None"
  by (simp add: SketchRefusal_def make_object_def jfind_def)

lemma jat_jfind: "jfind j key = Some x \<Longrightarrow> jat j key = Inr x"
  by (auto simp: jat_def jfind_def split: json.splits)

section \<open>Acceptance\<close>

text \<open>C16. A document is trusted to reopen the same shape only on evidence: re-solving a saved sketch
  succeeds exactly when its constraints still solve and the stored solution has the degrees of
  freedom, the entity ids and, bit for bit, the values of the new one.\<close>

theorem stored_solution_accepted_iff_reproduced:
  "reproduce_sketch M engine opId parameters = Inr () \<longleftrightarrow>
     (\<exists>payload system stored. sketch_payload parameters = Inr payload \<and> wire_system payload = Inr (Inr system) \<and>
        is_solved (SolveSketch M engine system) \<and> jat parameters ''solution'' = Inr stored \<and>
        solution_reading stored = Some (solved_reading (SolveSketch M engine system)))"
proof -
  have "(if same then Inr () else Inl e) = Inr () \<longleftrightarrow> same" for same and e :: kexn by simp
  then have compare: "(rbind (SketchSolutionsBitIdentical (solution_json solved) stored) (\<lambda>same. if same then Inr () else Inl e) = Inr ()) \<longleftrightarrow>
      solution_reading stored = Some (solved_reading solved)" for solved stored and e :: kexn
    using SketchSolutionsBitIdentical_iff [of "solution_json solved" stored] solution_reading_solved [of solved]
    by (auto simp: rbind_eq_Inr)
  have outcome: "(rbind (SolveSketchPayload M engine payload) (\<lambda>outcome.
       if \<not> jcontains outcome ''solution''
       then rbind (rbind (jat outcome ''message'') get_string) (\<lambda>message. Inl (f message))
       else rbind (jat outcome ''solution'') (\<lambda>actual. rbind (jat parameters ''solution'') (\<lambda>stored.
            rbind (SketchSolutionsBitIdentical actual stored) (\<lambda>same. if same then Inr () else Inl e)))) = Inr ()) \<longleftrightarrow>
     (\<exists>system stored. wire_system payload = Inr (Inr system) \<and> is_solved (SolveSketch M engine system) \<and>
        jat parameters ''solution'' = Inr stored \<and> solution_reading stored = Some (solved_reading (SolveSketch M engine system)))"
    for payload f and e :: kexn
  proof (cases "wire_system payload")
    case (Inr out)
    show ?thesis
    proof (cases out)
      case refused: (Inl refusal)
      then show ?thesis using Inr by (auto simp: SolveSketchPayload_def jcontains_def refusal_solution rbind_eq_Inr)
    next
      case system: (Inr system)
      note solution = solved_json_solution [of "SolveSketch M engine system"]
      show ?thesis
      proof (cases "is_solved (SolveSketch M engine system)")
        case True
        then have "jat (solved_json (SolveSketch M engine system)) ''solution'' = Inr (solution_json (SolveSketch M engine system))"
          using solution by (intro jat_jfind) simp
        then show ?thesis
          using Inr system True solution compare by (cases "jat parameters ''solution''") (auto simp: SolveSketchPayload_def jcontains_def)
      next
        case False
        then show ?thesis using Inr system solution by (auto simp: SolveSketchPayload_def jcontains_def rbind_eq_Inr)
      qed
    qed
  qed (simp add: SolveSketchPayload_def)
  show ?thesis
    unfolding reproduce_sketch_def by (cases "sketch_payload parameters") (simp_all add: outcome)
qed

end
