(* ===== verification/Spec2Isabelle.thy ===== *)
theory Spec2Isabelle
  imports Prelude Sha256 Sha256_Vectors Double F64_Arith Json_Value Selector_Print Operation_Hash Canonical_Form Hash_Chain Protocol Snapshot Body_Pool Watchdog Occt Name_Grammar Element_Names Element_Names_Laws Topology Edge_Loops Registry_Roles Naming_Registry Registry_Harvest Registry_Laws Registry_Cover Registry_Properties Replay_Cache Replay_Dispatch Dispatch_Laws Replay Replay_Laws Replay_Properties Server_Requests Server Server_Laws Server_Properties Geometry_Measures Selector_Query Selector_Filters Selector_Result Ref_Resolution Ref_Laws Ref_Properties Selector_Laws Selector_Topology Selector_Properties Feasibility Mesh_Import Mesh_Import_Laws Mesh_Import_Properties Printf Voxel_Grid Fem_Model Fem_Solve Simulation Voxel_Laws Skin_Laws Solve_Laws Study_Laws Study_Properties Server_Study Sketch_Region Sketch_Lower Sketch_Loops Sketch_Profile Sketch_Laws Sketch_Example Sketch_Properties Sketch_System Sketch_Build Sketch_Solve Sketch_Solve_Laws Sketch_Solve_Properties Sketch_Wire Sketch_Wire_Laws
begin

text \<open>
  A verification development for the native kernel host of this repository
  (\<open>src/legacy/aethalgard/native/kernel-host/src\<close>): the C++ process that evaluates CAD documents
  over a framed JSON protocol. A document is an array of operations; each is dispatched to an
  evaluator that builds geometry with OCCT, names the sub-shapes of its result, and puts the result
  in a pool of bodies; snapshots of the evaluation are cached under the hash of the operations so
  that a later request replays only what changed.

  Conventions. A \<open>std::string\<close> is its list of bytes, a vector a list, a call that throws a value of
  \<open>kexn + 'a\<close> (theory Json_Value lists the exceptions), a \<open>double\<close> its 64-bit pattern, a 32- or
  64-bit unsigned integer a word. Shapes are values of a type variable whose equality is \<open>IsSame\<close>;
  what OCCT answers about them (kinds, sub-shape maps, histories, quantized measures) is a
  parameter record (Occt), and maps keyed by shapes are functions. Mutable C++ objects are records
  passed through the operations; threads are step relations.

  Parts, in the order of the imports.

  \<^item> Hashing: Sha256 (\<open>sha256.hpp\<close>, with a published vector in Sha256_Vectors), Double and
    Ecma_Number (the numbers of canonical JSON), Json_Value (the library's values and accessors),
    Selector_Print (\<open>selector_print.cpp\<close>), Operation_Hash (\<open>operation_hash.cpp\<close>), Canonical_Form and
    Hash_Chain (its laws: the text determines the value, the chain is prefix-stable and determines
    every operation short of a SHA-256 collision, what it leaves out).
  \<^item> Protocol (\<open>protocol.cpp\<close>): frames both ways, round trip and truncation.
  \<^item> Snapshot: the locale of the take/restore contract, interpreted by the body pool, the name book
    and the naming registry. Body_Pool (\<open>body_pool.hpp\<close>) refines a shelf
    of visible bodies on which only the newest body of an operation can be taken.
  \<^item> Watchdog (\<open>operation_timeout.cpp\<close>, \<open>cancel.cpp\<close>): the per-operation timer and its thread as a step
    relation; a trip is genuine, an overrun trips, a cancelled request never times out.
  \<^item> Naming: Name_Grammar, Element_Names, Element_Names_Laws (\<open>element_names.cpp\<close>); Topology
    (\<open>topology.cpp\<close>), Edge_Loops (\<open>topology_adjacency.hpp\<close>); Registry_Roles, Naming_Registry,
    Registry_Harvest (\<open>naming_registry.cpp\<close>) with the invariants in Registry_Laws, Registry_Cover and
    Registry_Properties.
  \<^item> Replay (\<open>geometry.cpp\<close>): Replay_Cache (\<open>DocumentEvaluator::Impl\<close>) refines a one-list
    least-recently-used store; Replay_Dispatch (\<open>ExecuteOperation\<close>) with Dispatch_Laws; Replay
    (\<open>EvaluationState\<close>, \<open>EvaluateOperations\<close>, \<open>DocumentEvaluator::Evaluate\<close>) with Replay_Laws: the
    invariant that every entry is the cold state of a prefix of some document of the session, hence
    a warm evaluation is the cold one; Replay_Properties has the concrete sessions and the two
    requests for which the cache key is too coarse.
  \<^item> Queries: F64_Arith (IEEE 754 addition, product, quotient and root on 64-bit patterns),
    Geometry_Measures (\<open>geometry_measures.cpp\<close>: classes, canonical axes, radii, dihedral ranges),
    Selector_Query (\<open>selector_evaluator-core.cpp\<close>: arguments, entity sets, sources, the canonical
    order), Selector_Filters (the filter catalogue and \<open>EvaluateToSet\<close>, whose nested queries
    terminate because a filter's argument is a part of the query), Selector_Result
    (\<open>selector_evaluator.cpp\<close>: adjacency hashes, the wire projection of an entity). Selector_Laws: an
    outcome is a canonically ordered set of named and owned entities, its stage cardinalities are the
    sizes of the sets the filters leave, it does not depend on the order of its sources, the set
    filters are set operations; Selector_Topology: the projection of an entity
    agrees with its row of topology evidence; Selector_Properties has the concrete queries.
  \<^item> References: Ref_Resolution (\<open>ref_resolution-core.cpp\<close>, \<open>ref_resolution.cpp\<close>, \<open>ref_slot.hpp\<close>): the two
    channels, the arity, the second attempt on enriched evidence, the strict slots. Ref_Laws: a
    one-entity slot never picks among several matches without proof from both channels, the arity
    is respected by the first attempt; Ref_Properties: concrete slots, and the range slot that the
    second attempt resolves to fewer entities than its minimum.
  \<^item> Server (\<open>server.cpp\<close>, \<open>main.cpp\<close>): Server_Requests (envelopes, routing, error mapping, options),
    Server (reader, worker and watchdog as one step relation), Server_Laws (flags, one response per
    frame, order and aim of a cancellation), Server_Properties (a sample session, the frame
    that ends the process).

  \<^item> Feasibility (\<open>bounded_feasibility.hpp\<close>): the search for the largest feasible magnitude; its answer
    was itself found feasible. Mesh_Import, Mesh_Import_Laws, Mesh_Import_Properties (\<open>geometry.cpp\<close>:
    base64, the mesh decoder, the solid of a mesh): a source is accepted exactly when it is the
    encoding of its mesh, and no read leaves its vector.
  \<^item> Simulation (\<open>simulation.cpp\<close>): Printf (the \<open>%.3e\<close> and \<open>%g\<close> conversions), Voxel_Grid, Fem_Model,
    Fem_Solve, Simulation (the study from guards to the returned mesh). Voxel_Laws: the grid is the
    union of the bodies; Skin_Laws: the emitted surface is closed and consistently oriented;
    Solve_Laws and Study_Laws: clamped unknowns keep their value, limits, refusals;
    Study_Properties has the properties at a one-voxel cube.
  \<^item> Server_Study (\<open>server.cpp\<close>): the \<open>Query\<close> and \<open>Simulate\<close> jobs over the evaluators above.
  \<^item> Sketches (\<open>geometry.cpp\<close>): Sketch_Region (segments, samples, polygon tests), Sketch_Lower (the
    lowering of entities and projected edges), Sketch_Loops (\<open>SketchClosedRegions\<close>, the walk of an
    open path, the sketch plane), Sketch_Profile (\<open>EvaluateSketchOpenPath\<close>,
    \<open>EvaluateSketchRegion\<close>). Sketch_Laws and Sketch_Properties: loops partition the boundary into
    rings, a refusal names a chain that is really stuck or a ring that is really degenerate, a path
    uses every segment, a region key names its entities;
    Sketch_Example has a triangle, an open corner and the arrowhead that the nesting test misplaces.
  \<^item> Sketch constraints (\<open>sketch_solver.cpp\<close>): Sketch_System (entities, constraints, their validation),
    Sketch_Build (the layout of the parameters, anchors, the calls each constraint makes to the
    engine), Sketch_Solve (\<open>SolveSketch\<close>: the check of a sketch in which everything is fixed, the
    engine's diagnosis, the read-back). Sketch_Solve_Laws and Sketch_Solve_Properties: the contract of a
    result for every engine, grounded entities stay. Sketch_Wire and Sketch_Wire_Laws (\<open>server.cpp\<close>):
    \<open>SolveSketchPayload\<close> and \<open>AssertSketchSolutionsReproduce\<close>; a stored solution is accepted exactly
    when it is reproduced bit for bit.

  Bounds. The watchdog's generation is a 64-bit counter that wraps; its properties are for runs of
  fewer than 2^64 bumps. The byte counter of the replay cache is modulo 2^64, as in the code. Loops
  are structural, or functions with a measure (\<open>read_frames\<close>, \<open>EvictToBudget\<close>, the walk of
  Edge_Loops), so no fuel is used. The conjugate gradient counts down
  from the code's own iteration cap, the halvings and bisections of the feasibility search from its
  own attempt limits. The arrangement of a sketch ends because a chained segment is no longer
  pending, so the code's guard against an endless chain never fires (\<open>arrange_refused\<close>).
  The watchdog's deadline is an unbounded integer, where the clock's arithmetic has 64 bits.

  Named hypotheses. \<open>cacheable\<close> (Replay_Laws) collects what warm replay needs: prefixes with one hash
  have one sequence of canonical bytes, evaluators ignore the members the canonical bytes leave out,
  and the documents are plain (no ref slot, nothing suppressed, no mold operation that reads other
  operations); \<open>occt_ok\<close> states that a sub-shape map lists distinct shapes of the kind asked for;
  \<open>moves_only_unknowns\<close> (Sketch_Solve_Laws) that the constraint engine writes only the parameters it was
  given as unknowns.

  Parameters. OCCT's answers about geometry are the records \<open>occt\<close>, \<open>geom\<close> and \<open>gp\<close>; the
  functions of the C library that IEEE 754 does not fix (\<open>exp\<close>, \<open>cos\<close>, \<open>acos\<close>, \<open>atan2\<close>) are the record
  \<open>libm\<close>, those a sketch calls \<open>sketch_math\<close> and
  \<open>solver_math\<close>. The vendored constraint engine is a function \<open>gcs_engine\<close> from the calls made to it to its
  answer. What OCCT answers about the bodies of a study is
  \<open>probe\<close>, about a mesh \<open>sewer\<close>, about the curves of a sketch \<open>sketch_occt\<close> and about its wires and
  faces \<open>sketch_faces\<close>. The cancellation flag has one value during one query. A sort whose comparison meets a NaN
  is undefined behaviour and is a result of its own.

  Not modelled. The evaluators of the other features, tessellation, projection, STEP and OCAF: they
  build geometry inside OCCT or do file I/O, and enter as parameters. Two births of the registry
  (\<open>HarvestBoxBirth\<close>, \<open>HarvestBirth\<close>) classify faces by floating-point geometry and are parameters
  as well; so are the wires and faces of a region (\<open>SketchRegionWire\<close>), as \<open>sf_wire\<close>. The step
  relation of the server takes the outcome of a job as a parameter; of the job methods \<open>Query\<close> and
  \<open>Simulate\<close> are modelled, the others not. Mutexes are not part of the state: one thread holds them for
  a whole operation. Writing a reply is total: exceptions of \<open>WriteControl\<close>, the frame budget of the
  error reply that replaces an oversized one, and the refusal of the JSON library to print text that
  is not UTF-8 are left out. \<open>CanonicalJson\<close> is on parsed JSON, which has no binary values. The
  specification of SHA-256 shares the compression of one block with the model, so its refinement is
  about buffering, padding and length.
\<close>

end
